(* ===== verification/Crabnet_Prelude.thy ===== *)
theory Crabnet_Prelude
  imports Main "HOL-Library.Word" "HOL-Library.AList"
begin

text \<open>
  Shared vocabulary of the development: machine integers, results, panics, big-endian byte
  strings, writes into caller-owned buffers, instants, socket addresses and the hash map interface.

  \<^item> \<open>u8\<close>, \<open>u16\<close>, \<open>u64\<close> are machine words. \<open>usize\<close> is \<open>nat\<close> together with its 64-bit bound
    \<open>usize_max\<close>: every \<open>checked_add\<close> of the code is written with the bound.
  \<^item> \<open>('a, 'e) result\<close> is Rust's \<open>Result\<close>, with \<open>Ok\<close> and \<open>Err\<close>. Where an operation can panic
    (a slice out of range, arithmetic underflow) it returns an \<open>option\<close> whose \<open>None\<close> is the panic.
  \<^item> An \<open>instant\<close> is a number of nanoseconds of the monotonic clock; \<open>instant_checked_add\<close> fails
    beyond the largest \<open>timespec\<close> of a 64-bit Linux platform, as \<open>Instant::checked_add\<close> does.
  \<^item> The locale \<open>hash_map\<close> states the laws of \<open>std::collections::HashMap\<close> the program relies on;
    it is interpreted on association lists, whose order stands for the iteration order.
\<close>

named_theorems wire_simps \<open>layout of encoded frames\<close>
named_theorems policy_defs \<open>operations of the session policies\<close>

section \<open>Machine integers\<close>

type_synonym u8 = "8 word"
type_synonym u16 = "16 word"
type_synonym u64 = "64 word"
type_synonym usize = nat
type_synonym bytes = "u8 list"

definition usize_max :: usize where
  "usize_max = 2 ^ 64 - 1"

definition usize_checked_add :: "usize \<Rightarrow> usize \<Rightarrow> usize option" where
  "usize_checked_add a b = (if a + b \<le> usize_max then Some (a + b) else None)"

text \<open>Subtraction on \<open>usize\<close> panics on underflow.\<close>

definition usize_sub :: "usize \<Rightarrow> usize \<Rightarrow> usize option" where
  "usize_sub a b = (if b \<le> a then Some (a - b) else None)"

text \<open>\<open>u16::try_from(usize)\<close>.\<close>

definition u16_try_from :: "usize \<Rightarrow> u16 option" where
  "u16_try_from n = (if n \<le> 65535 then Some (word_of_nat n) else None)"

definition u64_checked_add :: "u64 \<Rightarrow> u64 \<Rightarrow> u64 option" where
  "u64_checked_add a b = (if unat a + unat b < 2 ^ 64 then Some (a + b) else None)"

definition u64_saturating_add :: "u64 \<Rightarrow> u64 \<Rightarrow> u64" where
  "u64_saturating_add a b = (if unat a + unat b < 2 ^ 64 then a + b else - 1)"

definition u64_saturating_sub :: "u64 \<Rightarrow> u64 \<Rightarrow> u64" where
  "u64_saturating_sub a b = (if b \<le> a then a - b else 0)"

lemma u8_bound: "unat (b :: u8) < 256"
  using unsigned_less [of b, where ?'a = nat] by simp

lemma u16_bound: "unat (w :: u16) < 65536"
  using unsigned_less [of w, where ?'a = nat] by simp

lemma u64_bound: "unat (w :: u64) < 2 ^ 64"
  using unsigned_less [of w, where ?'a = nat] by simp

lemma u16_try_from_Some [simp]: "u16_try_from n = Some w \<longleftrightarrow> n \<le> 65535 \<and> w = word_of_nat n"
  by (auto simp: u16_try_from_def)

lemma u16_try_from_None [simp]: "u16_try_from n = None \<longleftrightarrow> 65535 < n"
  by (auto simp: u16_try_from_def)

lemma unat_u16_of_nat [simp]: "n \<le> 65535 \<Longrightarrow> unat (word_of_nat n :: u16) = n"
  by (simp add: unat_of_nat)

lemma usize_checked_add_Some [simp]:
  "usize_checked_add a b = Some c \<longleftrightarrow> a + b \<le> usize_max \<and> c = a + b"
  by (auto simp: usize_checked_add_def)

lemma usize_checked_add_None [simp]: "usize_checked_add a b = None \<longleftrightarrow> usize_max < a + b"
  by (auto simp: usize_checked_add_def)

lemma usize_max_large [simp]: "n \<le> 2 ^ 20 \<Longrightarrow> n \<le> usize_max"
  by (simp add: usize_max_def)

lemma unat_max_u64: "unat (- 1 :: u64) = 2 ^ 64 - 1"
  by (simp add: unsigned_minus_1_eq_mask mask_eq_exp_minus_1)

lemma u64_checked_add_Some:
  "u64_checked_add a b = Some c \<longleftrightarrow> unat c = unat a + unat b"
proof
  assume "u64_checked_add a b = Some c"
  then show "unat c = unat a + unat b"
    by (auto simp: u64_checked_add_def unat_word_ariths split: if_splits)
next
  assume eq: "unat c = unat a + unat b"
  then have lt: "unat a + unat b < 2 ^ 64" using u64_bound [of c] by simp
  then have "unat (a + b) = unat c"
    by (simp add: unat_word_ariths eq)
  then have "a + b = c" by (simp add: word_unat_eq_iff)
  with lt show "u64_checked_add a b = Some c"
    by (simp add: u64_checked_add_def)
qed

lemma u64_checked_add_None:
  "u64_checked_add a b = None \<longleftrightarrow> 2 ^ 64 \<le> unat a + unat b"
  by (auto simp: u64_checked_add_def)

lemma unat_u64_saturating_add:
  "unat (u64_saturating_add a b) = min (unat a + unat b) (2 ^ 64 - 1)"
  by (auto simp: u64_saturating_add_def unat_word_ariths unat_max_u64 min_def)

lemma unat_u64_saturating_sub:
  "unat (u64_saturating_sub a b) = unat a - unat b"
proof (cases "b \<le> a")
  case True
  then show ?thesis by (simp add: u64_saturating_sub_def unat_sub)
next
  case False
  then have "unat a < unat b" by (simp add: word_le_nat_alt)
  with False show ?thesis by (simp add: u64_saturating_sub_def)
qed

section \<open>Results\<close>

type_synonym ('a, 'e) result = "'e + 'a"

abbreviation Ok :: "'a \<Rightarrow> ('a, 'e) result" where "Ok \<equiv> Inr"
abbreviation Err :: "'e \<Rightarrow> ('a, 'e) result" where "Err \<equiv> Inl"

text \<open>\<open>Result::and_then\<close>, which is also what the \<open>?\<close> operator does.\<close>

definition and_then :: "('a, 'e) result \<Rightarrow> ('a \<Rightarrow> ('b, 'e) result) \<Rightarrow> ('b, 'e) result" where
  "and_then r f = (case r of Inl e \<Rightarrow> Err e | Inr x \<Rightarrow> f x)"

lemma and_then_simps [simp]:
  "and_then (Ok x) f = f x"
  "and_then (Err e) f = Err e"
  by (simp_all add: and_then_def)

lemma map_sum_Ok:
  "map_sum f g r = Ok y \<longleftrightarrow> (\<exists>x. r = Ok x \<and> y = g x)"
  by (cases r) auto

lemma and_then_Ok:
  "and_then r f = Ok y \<longleftrightarrow> (\<exists>x. r = Ok x \<and> f x = Ok y)"
  by (cases r) auto

definition ok_or :: "'a option \<Rightarrow> 'e \<Rightarrow> ('a, 'e) result" where
  "ok_or x e = (case x of Some v \<Rightarrow> Ok v | None \<Rightarrow> Err e)"

lemma ok_or_simps [simp]:
  "ok_or (Some v) e = Ok v"
  "ok_or None e = Err e"
  by (simp_all add: ok_or_def)

lemma ok_or_Ok [simp]: "ok_or x e = Ok v \<longleftrightarrow> x = Some v"
  by (cases x) auto

text \<open>The \<open>?\<close> operator in a method with \<open>&mut self\<close>: an error keeps the state reached so far.\<close>

definition bind_st ::
  "'s \<times> ('a, 'e) result \<Rightarrow> ('s \<Rightarrow> 'a \<Rightarrow> 's \<times> ('b, 'e) result) \<Rightarrow> 's \<times> ('b, 'e) result" where
  "bind_st r f = (case r of (s, Inl e) \<Rightarrow> (s, Err e) | (s, Inr x) \<Rightarrow> f s x)"

lemma bind_st_simps [simp]:
  "bind_st (s, Ok x) f = f s x"
  "bind_st (s, Err e) f = (s, Err e)"
  by (simp_all add: bind_st_def)

lemma bind_st_Ok:
  "bind_st r f = (s', Ok y) \<longleftrightarrow> (\<exists>s x. r = (s, Ok x) \<and> f s x = (s', Ok y))"
  by (cases r; cases "snd r") auto

section \<open>Big-endian integers\<close>

fun be_bytes :: "nat \<Rightarrow> nat \<Rightarrow> bytes" where
  "be_bytes 0 v = []"
| "be_bytes (Suc n) v = be_bytes n (v div 256) @ [word_of_nat v]"

fun from_be :: "nat \<Rightarrow> bytes \<Rightarrow> nat" where
  "from_be acc [] = acc"
| "from_be acc (b # bs) = from_be (acc * 256 + unat b) bs"

definition u16_to_be_bytes :: "u16 \<Rightarrow> bytes" where
  "u16_to_be_bytes w = be_bytes 2 (unat w)"

definition u16_from_be_bytes :: "bytes \<Rightarrow> u16" where
  "u16_from_be_bytes bs = word_of_nat (from_be 0 bs)"

definition u64_to_be_bytes :: "u64 \<Rightarrow> bytes" where
  "u64_to_be_bytes w = be_bytes 8 (unat w)"

definition u64_from_be_bytes :: "bytes \<Rightarrow> u64" where
  "u64_from_be_bytes bs = word_of_nat (from_be 0 bs)"

lemma length_be_bytes [simp]: "length (be_bytes n v) = n"
  by (induction n arbitrary: v) auto

lemma from_be_append: "from_be acc (xs @ [b]) = from_be acc xs * 256 + unat b"
  by (induction xs arbitrary: acc) auto

lemma from_be_be_bytes: "from_be 0 (be_bytes n v) = v mod 256 ^ n"
proof (induction n arbitrary: v)
  case 0
  then show ?case by simp
next
  case (Suc n)
  have "from_be 0 (be_bytes (Suc n) v) = (v div 256 mod 256 ^ n) * 256 + v mod 256"
    by (simp add: from_be_append Suc.IH unat_of_nat)
  also have "\<dots> = v mod (256 * 256 ^ n)"
    by (simp add: mod_mult2_eq)
  finally show ?case by simp
qed

lemma be_bytes_from_be: "be_bytes (length bs) (from_be 0 bs) = bs"
proof (induction bs rule: rev_induct)
  case Nil
  then show ?case by simp
next
  case (snoc b bs)
  have "unat b < 256" by (rule u8_bound)
  then have "(from_be 0 bs * 256 + unat b) div 256 = from_be 0 bs" by simp
  moreover have "(word_of_nat (from_be 0 bs * 256 + unat b) :: u8) = b"
    using \<open>unat b < 256\<close>
    by (simp add: word_unat_eq_iff unat_of_nat del: of_nat_add of_nat_mult)
  ultimately show ?case
    using snoc.IH by (simp add: from_be_append del: of_nat_add)
qed

lemma from_be_bound: "from_be 0 bs < 256 ^ length bs"
proof (induction bs rule: rev_induct)
  case Nil
  then show ?case by simp
next
  case (snoc b bs)
  have "unat b < 256" by (rule u8_bound)
  with snoc.IH show ?case by (simp add: from_be_append)
qed

lemma length_u16_to_be_bytes [simp]: "length (u16_to_be_bytes w) = 2"
  by (simp add: u16_to_be_bytes_def)

lemma length_u64_to_be_bytes [simp]: "length (u64_to_be_bytes w) = 8"
  by (simp add: u64_to_be_bytes_def)

lemma u16_be_roundtrip [simp]: "u16_from_be_bytes (u16_to_be_bytes w) = w"
proof -
  have "unat w < 65536" by (rule u16_bound)
  then show ?thesis
    by (simp add: u16_from_be_bytes_def u16_to_be_bytes_def from_be_be_bytes)
qed

lemma u64_be_roundtrip [simp]: "u64_from_be_bytes (u64_to_be_bytes w) = w"
proof -
  have "unat w < 256 ^ 8" using u64_bound [of w] by simp
  then show ?thesis
    by (simp add: u64_from_be_bytes_def u64_to_be_bytes_def from_be_be_bytes)
qed

lemma u16_to_from_be: "length bs = 2 \<Longrightarrow> u16_to_be_bytes (u16_from_be_bytes bs) = bs"
  using be_bytes_from_be [of bs] from_be_bound [of bs]
  by (simp add: u16_to_be_bytes_def u16_from_be_bytes_def unat_of_nat)

lemma u64_to_from_be: "length bs = 8 \<Longrightarrow> u64_to_be_bytes (u64_from_be_bytes bs) = bs"
  using be_bytes_from_be [of bs] from_be_bound [of bs]
  by (simp add: u64_to_be_bytes_def u64_from_be_bytes_def unat_of_nat)

lemma u64_to_be_bytes_inject [simp]: "u64_to_be_bytes a = u64_to_be_bytes b \<longleftrightarrow> a = b"
  by (metis u64_be_roundtrip)

lemma u16_to_be_bytes_inject [simp]: "u16_to_be_bytes a = u16_to_be_bytes b \<longleftrightarrow> a = b"
  by (metis u16_be_roundtrip)

section \<open>Slices and writes into caller-owned buffers\<close>

definition subslice :: "nat \<Rightarrow> nat \<Rightarrow> 'a list \<Rightarrow> 'a list" where
  "subslice a b xs = take (b - a) (drop a xs)"

lemma length_subslice [simp]: "b \<le> length xs \<Longrightarrow> length (subslice a b xs) = b - a"
  by (simp add: subslice_def)

lemma subslice_append_left:
  "length xs = a \<Longrightarrow> b = a + length ys \<Longrightarrow> subslice a b (xs @ ys @ zs) = ys"
  by (simp add: subslice_def)

text \<open>\<open>output[off..off + src.len()].copy_from_slice(src)\<close>; \<open>None\<close> is the out-of-range panic.\<close>

definition copy_into :: "nat \<Rightarrow> 'a list \<Rightarrow> 'a list \<Rightarrow> 'a list option" where
  "copy_into off src out =
     (if off + length src \<le> length out
      then Some (take off out @ src @ drop (off + length src) out) else None)"

fun write_all :: "(nat \<times> 'a list) list \<Rightarrow> 'a list \<Rightarrow> 'a list option" where
  "write_all [] out = Some out"
| "write_all ((off, src) # ws) out = Option.bind (copy_into off src out) (write_all ws)"

text \<open>The offsets of consecutive fields: what an encoder that writes field after field produces.\<close>

fun contiguous :: "nat \<Rightarrow> (nat \<times> 'a list) list \<Rightarrow> bool" where
  "contiguous n [] = True"
| "contiguous n ((off, src) # ws) = (off = n \<and> contiguous (n + length src) ws)"

lemma copy_into_append:
  "length pre = off \<Longrightarrow> length src \<le> length rest \<Longrightarrow>
   copy_into off src (pre @ rest) = Some ((pre @ src) @ drop (length src) rest)"
  by (simp add: copy_into_def)

lemma write_all_contiguous:
  assumes "contiguous (length pre) ws"
    and "length (concat (map snd ws)) \<le> length rest"
  shows "write_all ws (pre @ rest) =
    Some (pre @ concat (map snd ws) @ drop (length (concat (map snd ws))) rest)"
  using assms
proof (induction ws arbitrary: pre rest)
  case Nil
  then show ?case by simp
next
  case (Cons w ws)
  obtain off src where w: "w = (off, src)" by (cases w)
  have off: "length pre = off" and c: "contiguous (length (pre @ src)) ws"
    using Cons.prems(1) by (simp_all add: w)
  have l: "length src \<le> length rest" and
    l2: "length (concat (map snd ws)) \<le> length (drop (length src) rest)"
    using Cons.prems(2) by (simp_all add: w)
  show ?case
    using Cons.IH [OF c l2]
    by (simp add: w copy_into_append [OF off l] drop_drop add.commute)
qed

corollary write_all_from_start:
  assumes "contiguous 0 ws" and "length (concat (map snd ws)) \<le> length out"
  shows "write_all ws out =
    Some (concat (map snd ws) @ drop (length (concat (map snd ws))) out)"
  using write_all_contiguous [of "[]" ws out] assms by simp

text \<open>
  Writes at constant offsets of an array of constant size, where the range checks are decided by
  the constants: \<open>put_all\<close> has no panic, and agrees with \<open>write_all\<close> wherever that succeeds.
\<close>

fun put_all :: "(nat \<times> 'a list) list \<Rightarrow> 'a list \<Rightarrow> 'a list" where
  "put_all [] out = out"
| "put_all ((off, src) # ws) out = put_all ws (take off out @ src @ drop (off + length src) out)"

lemma write_all_put_all: "write_all ws out = Some out' \<Longrightarrow> put_all ws out = out'"
  by (induction ws out rule: put_all.induct)
    (auto simp: copy_into_def bind_eq_Some_conv split: if_splits)

lemma put_all_from_start:
  assumes "contiguous 0 ws" and "length (concat (map snd ws)) = n"
  shows "put_all ws (replicate n x) = concat (map snd ws)"
  using write_all_put_all [OF write_all_from_start [OF assms(1), of "replicate n x"]] assms(2)
  by simp

section \<open>Time\<close>

type_synonym instant = nat
type_synonym duration = nat

definition instant_max :: instant where
  "instant_max = (2 ^ 63 - 1) * 10 ^ 9 + 999999999"

definition instant_checked_add :: "instant \<Rightarrow> duration \<Rightarrow> instant option" where
  "instant_checked_add t d = (if t + d \<le> instant_max then Some (t + d) else None)"

definition duration_from_secs :: "u64 \<Rightarrow> duration" where
  "duration_from_secs s = unat s * 10 ^ 9"

lemma instant_checked_add_Some [simp]:
  "instant_checked_add t d = Some u \<longleftrightarrow> t + d \<le> instant_max \<and> u = t + d"
  by (auto simp: instant_checked_add_def)

lemma instant_checked_add_None [simp]:
  "instant_checked_add t d = None \<longleftrightarrow> instant_max < t + d"
  by (auto simp: instant_checked_add_def)

lemma duration_from_secs_zero [simp]: "duration_from_secs s = 0 \<longleftrightarrow> s = 0"
  by (simp add: duration_from_secs_def unat_eq_0)

text \<open>\<open>Iterator::min\<close>.\<close>

definition iter_min :: "instant list \<Rightarrow> instant option" where
  "iter_min xs = (case xs of [] \<Rightarrow> None | y # ys \<Rightarrow> Some (fold min ys y))"

lemma iter_min_Some:
  "iter_min xs = Some m \<longleftrightarrow> m \<in> set xs \<and> (\<forall>x \<in> set xs. m \<le> x)"
proof (cases xs)
  case (Cons y ys)
  then show ?thesis
    by (auto simp: iter_min_def Min.set_eq_fold [symmetric] simp del: set_simps
        dest: Min_in Min_le intro: Min_eqI)
qed (simp add: iter_min_def)

lemma iter_min_None [simp]: "iter_min xs = None \<longleftrightarrow> xs = []"
  by (simp add: iter_min_def split: list.split)

section \<open>Addresses\<close>

datatype IpAddr = V4 "32 word" | V6 "128 word"

datatype SocketAddr = SocketV4 "32 word" u16 | SocketV6 "128 word" u16 "32 word" "32 word"

section \<open>Hash maps\<close>

text \<open>
  What the program relies on of \<open>HashMap\<close>: the view of the map as a partial function, that
  iteration visits every binding once, and that the length is the number of bindings.
\<close>

locale hash_map =
  fixes hempty :: "'m"
    and hget :: "'m \<Rightarrow> 'k \<Rightarrow> 'v option"
    and hinsert :: "'k \<Rightarrow> 'v \<Rightarrow> 'm \<Rightarrow> 'm"
    and hremove :: "'k \<Rightarrow> 'm \<Rightarrow> 'm"
    and hiter :: "'m \<Rightarrow> ('k \<times> 'v) list"
    and hinvar :: "'m \<Rightarrow> bool"
  assumes get_empty: "hget hempty k = None"
    and get_insert: "hinvar m \<Longrightarrow> hget (hinsert k v m) k' = (if k' = k then Some v else hget m k')"
    and get_remove: "hinvar m \<Longrightarrow> hget (hremove k m) k' = (if k' = k then None else hget m k')"
    and iter_get: "hinvar m \<Longrightarrow> (k, v) \<in> set (hiter m) \<longleftrightarrow> hget m k = Some v"
    and iter_distinct: "hinvar m \<Longrightarrow> distinct (map fst (hiter m))"
    and invar_empty: "hinvar hempty"
    and invar_insert: "hinvar m \<Longrightarrow> hinvar (hinsert k v m)"
    and invar_remove: "hinvar m \<Longrightarrow> hinvar (hremove k m)"
begin

text \<open>Removing several keys, as the expiry loops do.\<close>

lemma fold_remove_invar: "hinvar m \<Longrightarrow> hinvar (fold hremove ks m)"
  by (induction ks arbitrary: m) (auto simp: invar_remove)

lemma get_fold_remove:
  "hinvar m \<Longrightarrow> hget (fold hremove ks m) k = (if k \<in> set ks then None else hget m k)"
  by (induction ks arbitrary: m) (auto simp: get_remove invar_remove)

lemma set_iter: "hinvar m \<Longrightarrow> set (hiter m) = {(k, v). hget m k = Some v}"
  by (auto simp: iter_get)

lemma dom_get:
  assumes "hinvar m"
  shows "dom (hget m) = fst ` set (hiter m)"
proof -
  have "dom (hget m) = fst ` {(k, v). hget m k = Some v}"
    by (auto simp: dom_def image_iff)
  with assms show ?thesis by (simp add: set_iter)
qed

lemma finite_dom: "hinvar m \<Longrightarrow> finite (dom (hget m))"
  by (simp add: dom_get)

lemma length_iter: "hinvar m \<Longrightarrow> length (hiter m) = card (dom (hget m))"
  using distinct_card [OF iter_distinct, of m] by (simp add: dom_get)

lemma length_iter_le:
  "hinvar m \<Longrightarrow> hinvar m' \<Longrightarrow> dom (hget m) \<subseteq> dom (hget m') \<Longrightarrow>
   length (hiter m) \<le> length (hiter m')"
  by (simp add: length_iter card_mono finite_dom)

lemma length_iter_insert_new:
  assumes "hinvar m" "hget m k = None"
  shows "length (hiter (hinsert k v m)) = Suc (length (hiter m))"
proof -
  have "dom (hget (hinsert k v m)) = insert k (dom (hget m))"
    using assms by (auto simp: get_insert split: if_splits)
  moreover have "k \<notin> dom (hget m)" using assms(2) by auto
  ultimately show ?thesis
    using assms(1) by (simp add: length_iter invar_insert finite_dom)
qed

lemma length_iter_remove:
  assumes "hinvar m" "hget m k = Some v"
  shows "Suc (length (hiter (hremove k m))) = length (hiter m)"
proof -
  have "dom (hget (hremove k m)) = dom (hget m) - {k}"
    using assms(1) by (auto simp: get_remove split: if_splits)
  moreover have "k \<in> dom (hget m)" using assms(2) by auto
  ultimately show ?thesis
    using assms(1) by (simp add: length_iter invar_remove finite_dom card_Suc_Diff1 del: card_Diff_insert)
qed

end

type_synonym ('k, 'v) hmap = "('k \<times> 'v) list"

definition hm_empty :: "('k, 'v) hmap" where
  "hm_empty = []"

definition hm_get :: "('k, 'v) hmap \<Rightarrow> 'k \<Rightarrow> 'v option" where
  "hm_get m k = map_of m k"

definition hm_insert :: "'k \<Rightarrow> 'v \<Rightarrow> ('k, 'v) hmap \<Rightarrow> ('k, 'v) hmap" where
  "hm_insert k v m = AList.update k v m"

definition hm_remove :: "'k \<Rightarrow> ('k, 'v) hmap \<Rightarrow> ('k, 'v) hmap" where
  "hm_remove k m = AList.delete k m"

definition hm_iter :: "('k, 'v) hmap \<Rightarrow> ('k \<times> 'v) list" where
  "hm_iter m = m"

definition hm_values :: "('k, 'v) hmap \<Rightarrow> 'v list" where
  "hm_values m = map snd m"

definition hm_len :: "('k, 'v) hmap \<Rightarrow> nat" where
  "hm_len m = length m"

definition hm_invar :: "('k, 'v) hmap \<Rightarrow> bool" where
  "hm_invar m = distinct (map fst m)"

lemmas hm_defs = hm_empty_def hm_get_def hm_insert_def hm_remove_def hm_iter_def hm_values_def
  hm_len_def hm_invar_def

interpretation hm: hash_map hm_empty hm_get hm_insert hm_remove hm_iter hm_invar
proof unfold_locales
  fix m :: "('k, 'v) hmap" and k k' :: 'k and v :: 'v
  show "hm_get (hm_empty :: ('k, 'v) hmap) k = None" by (simp add: hm_defs)
  show "hm_get (hm_insert k v m) k' = (if k' = k then Some v else hm_get m k')"
    by (simp add: hm_get_def hm_insert_def update_conv)
  show "hm_get (hm_remove k m) k' = (if k' = k then None else hm_get m k')"
    by (simp add: hm_get_def hm_remove_def delete_conv)
  show "hm_invar (hm_empty :: ('k, 'v) hmap)" by (simp add: hm_defs)
  assume inv: "hm_invar m"
  then show "(k, v) \<in> set (hm_iter m) \<longleftrightarrow> hm_get m k = Some v"
    by (simp add: hm_defs)
  show "distinct (map fst (hm_iter m))" using inv by (simp add: hm_defs)
  show "hm_invar (hm_insert k v m)"
    using inv by (simp add: hm_invar_def hm_insert_def distinct_update)
  show "hm_invar (hm_remove k m)"
    using inv by (simp add: hm_invar_def hm_remove_def distinct_delete)
qed

lemma hm_len_iter: "hm_len m = length (hm_iter m)"
  by (simp add: hm_defs)

lemma hm_len_card: "hm_invar m \<Longrightarrow> hm_len m = card (dom (hm_get m))"
  by (simp add: hm_len_iter hm.length_iter)

lemma hm_get_empty_iff: "hm_invar m \<Longrightarrow> hm_len m = 0 \<longleftrightarrow> (\<forall>k. hm_get m k = None)"
  by (auto simp: hm_len_card hm.finite_dom)

lemma hm_values_get: "hm_invar m \<Longrightarrow> v \<in> set (hm_values m) \<longleftrightarrow> (\<exists>k. hm_get m k = Some v)"
  by (force simp: hm_defs)

lemma hm_len_empty [simp]: "hm_len hm_empty = 0"
  by (simp add: hm_defs)

lemmas hm_get_simps [simp] = hm.get_empty hm.invar_empty
lemmas hm_laws = hm.get_insert hm.get_remove hm.invar_insert hm.invar_remove

end
