(* ===== verification/Protocol_Types.thy ===== *)
theory Protocol_Types
  imports Crabnet_Prelude
begin

text \<open>
  The types shared by the wire-protocol versions (\<open>src/protocol/types.rs\<close>), the constants every
  version repeats, and the interface \<open>wire_codec\<close> that the three frame codecs (version 1 data,
  version 2 handshake, version 2 encrypted data) implement: encoding and decoding are mutually
  inverse partial functions, so every accepted datagram is the canonical encoding of its content.
\<close>

datatype ProtocolVersion = V1 | V2

definition version_wire_value :: "ProtocolVersion \<Rightarrow> u8" where
  "version_wire_value v = (case v of V1 \<Rightarrow> 1 | V2 \<Rightarrow> 2)"

datatype MessageType = Data | ClientHello | ServerHello | ClientFinish | ServerFinish

definition message_wire_value :: "MessageType \<Rightarrow> u8" where
  "message_wire_value m = (case m of
     MessageType.Data \<Rightarrow> 1
   | MessageType.ClientHello \<Rightarrow> 2
   | MessageType.ServerHello \<Rightarrow> 3
   | MessageType.ClientFinish \<Rightarrow> 4
   | MessageType.ServerFinish \<Rightarrow> 5)"

record DecodedFrame =
  df_message_type :: MessageType
  df_payload :: bytes

lemma version_wire_value_simps [simp]:
  "version_wire_value V1 = 1" "version_wire_value V2 = 2"
  by (simp_all add: version_wire_value_def)

lemma message_wire_value_simps [simp]:
  "message_wire_value MessageType.Data = 1"
  "message_wire_value MessageType.ClientHello = 2"
  "message_wire_value MessageType.ServerHello = 3"
  "message_wire_value MessageType.ClientFinish = 4"
  "message_wire_value MessageType.ServerFinish = 5"
  by (simp_all add: message_wire_value_def)

lemma message_wire_value_inject: "message_wire_value a = message_wire_value b \<longleftrightarrow> a = b"
  by (cases a; cases b) simp_all

text \<open>The magic \<open>CRBN\<close> and the only supported flags, defined in each codec.\<close>

definition MAGIC :: bytes where
  "MAGIC = [0x43, 0x52, 0x42, 0x4E]"

definition FLAGS_NONE :: u16 where
  "FLAGS_NONE = 0"

lemma length_MAGIC [simp]: "length MAGIC = 4"
  by (simp add: MAGIC_def)

section \<open>The contract of a frame codec\<close>

locale wire_codec =
  fixes enc :: "'m \<Rightarrow> bytes option"
    and dec :: "bytes \<Rightarrow> 'm option"
  assumes dec_enc: "enc m = Some bs \<Longrightarrow> dec bs = Some m"
    and enc_dec: "dec bs = Some m \<Longrightarrow> enc m = Some bs"
begin

lemma enc_iff_dec: "enc m = Some bs \<longleftrightarrow> dec bs = Some m"
  by (auto dest: dec_enc enc_dec)

lemma enc_injective: "enc m = Some bs \<Longrightarrow> enc m' = Some bs \<Longrightarrow> m = m'"
  by (metis dec_enc option.inject)

lemma dec_canonical: "dec bs = Some m \<Longrightarrow> dec bs' = Some m \<Longrightarrow> bs = bs'"
  by (metis enc_dec option.inject)

end

section \<open>Splitting a datagram at its fixed header\<close>

text \<open>
  The ten bytes every frame starts with, as the list of its fields. A decoder reads the fields at
  their offsets; \<open>header_split\<close> turns the offsets back into the concatenation an encoder writes.
\<close>

lemma list_split_at: "n \<le> length xs \<Longrightarrow> \<exists>ys zs. xs = ys @ zs \<and> length ys = n"
  by (metis append_take_drop_id length_take min.absorb2)

lemma header_split:
  assumes "10 \<le> length bs"
  shows "bs = take 4 bs @ [bs ! 4, bs ! 5] @ [bs ! 6, bs ! 7] @ [bs ! 8, bs ! 9] @ drop 10 bs"
proof -
  have step: "drop i bs = bs ! i # drop (Suc i) bs" if "i < 10" for i
    using that assms by (simp add: Cons_nth_drop_Suc)
  have "bs = take 4 bs @ drop 4 bs" by simp
  also have "drop 4 bs = [bs ! 4, bs ! 5] @ [bs ! 6, bs ! 7] @ [bs ! 8, bs ! 9] @ drop 10 bs"
    by (simp add: step [of 4] step [of 5] step [of 6] step [of 7] step [of 8] step [of 9])
  finally show ?thesis .
qed

lemma header_fields:
  assumes "length m = 4"
  shows "take 4 (m @ [a, b] @ [c, d] @ [e, f] @ rest) = m"
    "(m @ [a, b] @ [c, d] @ [e, f] @ rest) ! 4 = a"
    "(m @ [a, b] @ [c, d] @ [e, f] @ rest) ! 5 = b"
    "(m @ [a, b] @ [c, d] @ [e, f] @ rest) ! 6 = c"
    "(m @ [a, b] @ [c, d] @ [e, f] @ rest) ! 7 = d"
    "(m @ [a, b] @ [c, d] @ [e, f] @ rest) ! 8 = e"
    "(m @ [a, b] @ [c, d] @ [e, f] @ rest) ! 9 = f"
    "drop 10 (m @ [a, b] @ [c, d] @ [e, f] @ rest) = rest"
  using assms by (simp_all add: nth_append)

text \<open>
  The common header as an encoder writes it, and what a decoder reads back from it.
\<close>

definition common_header :: "u8 \<Rightarrow> u8 \<Rightarrow> u16 \<Rightarrow> u16 \<Rightarrow> bytes" where
  "common_header version kind flags len =
     MAGIC @ [version] @ [kind] @ u16_to_be_bytes flags @ u16_to_be_bytes len"

lemma length_common_header [simp]: "length (common_header v k f l) = 10"
  by (simp add: common_header_def)

lemma u16_be_two: "\<exists>a b. u16_to_be_bytes w = [a, b]"
  by (simp add: u16_to_be_bytes_def numeral_2_eq_2)

lemma common_header_read:
  "take 4 (common_header v k f l @ rest) = MAGIC"
  "(common_header v k f l @ rest) ! 4 = v"
  "(common_header v k f l @ rest) ! 5 = k"
  "u16_from_be_bytes [(common_header v k f l @ rest) ! 6, (common_header v k f l @ rest) ! 7] = f"
  "u16_from_be_bytes [(common_header v k f l @ rest) ! 8, (common_header v k f l @ rest) ! 9] = l"
  "drop 10 (common_header v k f l @ rest) = rest"
proof -
  obtain f0 f1 l0 l1 where fb: "u16_to_be_bytes f = [f0, f1]" and lb: "u16_to_be_bytes l = [l0, l1]"
    using u16_be_two by blast
  have eq: "common_header v k f l @ rest = MAGIC @ [v, k] @ [f0, f1] @ [l0, l1] @ rest"
    by (simp add: common_header_def fb lb)
  note h = header_fields [OF length_MAGIC, of v k f0 f1 l0 l1 rest]
  show "take 4 (common_header v k f l @ rest) = MAGIC"
    and "(common_header v k f l @ rest) ! 4 = v"
    and "(common_header v k f l @ rest) ! 5 = k"
    and "drop 10 (common_header v k f l @ rest) = rest"
    unfolding eq by (simp_all only: h)
  have "u16_from_be_bytes [f0, f1] = f" "u16_from_be_bytes [l0, l1] = l"
    by (simp_all add: fb [symmetric] lb [symmetric])
  then show "u16_from_be_bytes
      [(common_header v k f l @ rest) ! 6, (common_header v k f l @ rest) ! 7] = f"
    and "u16_from_be_bytes
      [(common_header v k f l @ rest) ! 8, (common_header v k f l @ rest) ! 9] = l"
    unfolding eq by (simp_all only: h)
qed

lemma common_header_write:
  assumes "10 \<le> length bs" and "take 4 bs = MAGIC"
  shows "bs = common_header (bs ! 4) (bs ! 5) (u16_from_be_bytes [bs ! 6, bs ! 7])
      (u16_from_be_bytes [bs ! 8, bs ! 9]) @ drop 10 bs"
proof -
  have "u16_to_be_bytes (u16_from_be_bytes [bs ! 6, bs ! 7]) = [bs ! 6, bs ! 7]"
    "u16_to_be_bytes (u16_from_be_bytes [bs ! 8, bs ! 9]) = [bs ! 8, bs ! 9]"
    by (rule u16_to_from_be, simp)+
  then show ?thesis
    using header_split [OF assms(1)] by (simp add: common_header_def assms(2))
qed

end
