(* ===== verification/Session_Types.thy ===== *)
theory Session_Types
  imports Crabnet_Prelude
begin

text \<open>
  Identifiers shared by the session policy, the handshake and the data plane
  (\<open>src/session/types.rs\<close>, and \<open>CandidateId\<close> of \<open>src/session.rs\<close>). The Rust newtypes are
  one-constructor datatypes, so an attempt cannot be confused with a candidate.
\<close>

datatype ClientAttemptId = ClientAttemptId (attempt_value: u64)

datatype CandidateId = CandidateId (candidate_value: u64)

text \<open>The arrays of 32 bytes; the length is part of the well-formedness predicates.\<close>

datatype SessionId = SessionId (session_id_bytes: bytes)

datatype PeerIdentity = PeerIdentity (peer_identity_bytes: bytes)

definition SessionId_from_u64 :: "u64 \<Rightarrow> SessionId" where
  "SessionId_from_u64 value = SessionId (replicate 24 0 @ u64_to_be_bytes value)"

definition PeerIdentity_from_u64 :: "u64 \<Rightarrow> PeerIdentity" where
  "PeerIdentity_from_u64 value = PeerIdentity (replicate 24 0 @ u64_to_be_bytes value)"

record EstablishedSessionMetadata =
  session_id :: SessionId
  peer_identity :: PeerIdentity

definition session_id_ok :: "SessionId \<Rightarrow> bool" where
  "session_id_ok sid \<longleftrightarrow> length (session_id_bytes sid) = 32"

lemma session_id_from_u64_ok: "session_id_ok (SessionId_from_u64 v)"
  by (simp add: session_id_ok_def SessionId_from_u64_def)

lemma SessionId_from_u64_inject: "SessionId_from_u64 a = SessionId_from_u64 b \<longleftrightarrow> a = b"
  by (simp add: SessionId_from_u64_def)

end
