(* ===== verification/Protocol_V2.thy ===== *)
theory Protocol_V2
  imports Protocol_Types Session_Types
begin

text \<open>
  The version 2 handshake frame (\<open>src/protocol/v2.rs\<close>): the codec's configuration, the encoder,
  the decoder and the two direction classifiers. Its constructors repeat names of the version 1
  errors, so they are written with their type, as in the source.
\<close>

definition COMMON_HEADER_LENGTH :: usize where "COMMON_HEADER_LENGTH = 10"
definition ATTEMPT_ID_LENGTH :: usize where "ATTEMPT_ID_LENGTH = 8"
definition MINIMUM_BODY_LENGTH :: usize where "MINIMUM_BODY_LENGTH = 9"
definition UDP_PAYLOAD_CEILING :: usize where "UDP_PAYLOAD_CEILING = 65507"

lemmas v2_lengths = COMMON_HEADER_LENGTH_def ATTEMPT_ID_LENGTH_def MINIMUM_BODY_LENGTH_def
  UDP_PAYLOAD_CEILING_def

record DecodedV2HandshakeBody =
  client_attempt_id :: ClientAttemptId
  opaque_payload :: bytes

datatype DecodedV2HandshakeFrame =
  ClientHello DecodedV2HandshakeBody
| ServerHello DecodedV2HandshakeBody
| ClientFinish DecodedV2HandshakeBody
| ServerFinish DecodedV2HandshakeBody

definition frame_message_type :: "DecodedV2HandshakeFrame \<Rightarrow> MessageType" where
  "frame_message_type f = (case f of
     DecodedV2HandshakeFrame.ClientHello _ \<Rightarrow> MessageType.ClientHello
   | DecodedV2HandshakeFrame.ServerHello _ \<Rightarrow> MessageType.ServerHello
   | DecodedV2HandshakeFrame.ClientFinish _ \<Rightarrow> MessageType.ClientFinish
   | DecodedV2HandshakeFrame.ServerFinish _ \<Rightarrow> MessageType.ServerFinish)"

definition frame_body :: "DecodedV2HandshakeFrame \<Rightarrow> DecodedV2HandshakeBody" where
  "frame_body f = (case f of
     DecodedV2HandshakeFrame.ClientHello b \<Rightarrow> b
   | DecodedV2HandshakeFrame.ServerHello b \<Rightarrow> b
   | DecodedV2HandshakeFrame.ClientFinish b \<Rightarrow> b
   | DecodedV2HandshakeFrame.ServerFinish b \<Rightarrow> b)"

datatype ClientInboundFrame =
  ServerHello DecodedV2HandshakeBody
| ServerFinish DecodedV2HandshakeBody

datatype ServerInboundFrame =
  ClientHello DecodedV2HandshakeBody
| ClientFinish DecodedV2HandshakeBody

datatype V2CodecConfigError =
  ZeroMaximumOpaquePayload
| BodyLengthNotRepresentable usize usize
| DatagramExceedsUdpCeiling usize usize
| DerivedLengthOverflow usize

datatype V2EncodeError =
  UnsupportedMessageType MessageType
| ZeroClientAttemptId
| EmptyOpaquePayload
| OpaquePayloadTooLarge usize usize
| BodyLengthNotRepresentable usize
| EncodedLengthOverflow usize
| OutputBufferTooSmall usize usize

datatype V2DecodeError =
  DatagramTooShort usize usize
| InvalidMagic bytes
| UnsupportedVersion u8
| UnsupportedMessageType u8
| UnsupportedFlags u16
| BodyLengthMismatch usize usize
| HandshakeBodyTooShort usize usize
| ZeroClientAttemptId
| OpaquePayloadTooLarge usize usize

datatype Receiver = Client | Server

datatype DirectionError = UnexpectedDirection Receiver MessageType

record V2HandshakeCodec =
  vc_maximum_opaque_payload :: usize
  vc_maximum_datagram_length :: usize
  vc_receive_buffer_len :: usize

definition V2HandshakeCodec_new :: "usize \<Rightarrow> (V2HandshakeCodec, V2CodecConfigError) result" where
  "V2HandshakeCodec_new maximum_opaque_payload =
     (if maximum_opaque_payload = 0 then Err ZeroMaximumOpaquePayload
      else and_then (ok_or (usize_checked_add ATTEMPT_ID_LENGTH maximum_opaque_payload)
          (DerivedLengthOverflow maximum_opaque_payload)) (\<lambda>maximum_body_length.
        and_then (ok_or (u16_try_from maximum_body_length)
          (V2CodecConfigError.BodyLengthNotRepresentable maximum_opaque_payload
             maximum_body_length)) (\<lambda>_.
        and_then (ok_or (usize_checked_add COMMON_HEADER_LENGTH maximum_body_length)
          (DerivedLengthOverflow maximum_opaque_payload)) (\<lambda>maximum_datagram_length.
        if maximum_datagram_length > UDP_PAYLOAD_CEILING
        then Err (DatagramExceedsUdpCeiling maximum_datagram_length UDP_PAYLOAD_CEILING)
        else and_then (ok_or (usize_checked_add maximum_datagram_length 1)
          (DerivedLengthOverflow maximum_opaque_payload)) (\<lambda>receive_buffer_len.
        Ok \<lparr>vc_maximum_opaque_payload = maximum_opaque_payload,
            vc_maximum_datagram_length = maximum_datagram_length,
            vc_receive_buffer_len = receive_buffer_len\<rparr>)))))"

definition encoded_lengths ::
  "V2HandshakeCodec \<Rightarrow> usize \<Rightarrow> (u16 \<times> usize, V2EncodeError) result" where
  "encoded_lengths self opaque_length =
     (if opaque_length = 0 then Err EmptyOpaquePayload
      else if opaque_length > vc_maximum_opaque_payload self
        then Err (V2EncodeError.OpaquePayloadTooLarge opaque_length
                    (vc_maximum_opaque_payload self))
      else and_then (ok_or (usize_checked_add ATTEMPT_ID_LENGTH opaque_length)
          (V2EncodeError.EncodedLengthOverflow opaque_length)) (\<lambda>body_length.
        and_then (ok_or (u16_try_from body_length)
          (V2EncodeError.BodyLengthNotRepresentable body_length)) (\<lambda>wire_body_length.
        and_then (ok_or (usize_checked_add COMMON_HEADER_LENGTH body_length)
          (V2EncodeError.EncodedLengthOverflow opaque_length)) (\<lambda>encoded_length.
        Ok (wire_body_length, encoded_length)))))"

definition encoded_len :: "V2HandshakeCodec \<Rightarrow> usize \<Rightarrow> (usize, V2EncodeError) result" where
  "encoded_len self opaque_length = map_sum id snd (encoded_lengths self opaque_length)"

definition is_handshake_kind :: "MessageType \<Rightarrow> bool" where
  "is_handshake_kind m \<longleftrightarrow> m \<noteq> MessageType.Data"

definition encode ::
  "V2HandshakeCodec \<Rightarrow> MessageType \<Rightarrow> ClientAttemptId \<Rightarrow> bytes \<Rightarrow> bytes
   \<Rightarrow> ((usize, V2EncodeError) result \<times> bytes) option" where
  "encode self message_type attempt payload output =
     (if message_type = MessageType.Data
        then Some (Err (V2EncodeError.UnsupportedMessageType message_type), output)
      else if attempt_value attempt = 0
        then Some (Err V2EncodeError.ZeroClientAttemptId, output)
      else (case encoded_lengths self (length payload) of
        Inl e \<Rightarrow> Some (Err e, output)
      | Inr (body_length, encoded_length) \<Rightarrow>
          if length output < encoded_length
          then Some (Err (V2EncodeError.OutputBufferTooSmall encoded_length (length output)),
                     output)
          else map_option (Pair (Ok encoded_length))
                 (write_all
                   [(0, MAGIC),
                    (4, [version_wire_value V2]),
                    (5, [message_wire_value message_type]),
                    (6, u16_to_be_bytes FLAGS_NONE),
                    (8, u16_to_be_bytes body_length),
                    (10, u64_to_be_bytes (attempt_value attempt)),
                    (18, payload)] output)))"

definition decode_version :: "u8 \<Rightarrow> (ProtocolVersion, V2DecodeError) result" where
  "decode_version value =
     (if value = 2 then Ok V2 else Err (V2DecodeError.UnsupportedVersion value))"

definition decode_message_type :: "u8 \<Rightarrow> (MessageType, V2DecodeError) result" where
  "decode_message_type value =
     (if value = 2 then Ok MessageType.ClientHello
      else if value = 3 then Ok MessageType.ServerHello
      else if value = 4 then Ok MessageType.ClientFinish
      else if value = 5 then Ok MessageType.ServerFinish
      else Err (V2DecodeError.UnsupportedMessageType value))"

definition decode :: "V2HandshakeCodec \<Rightarrow> bytes \<Rightarrow> (DecodedV2HandshakeFrame, V2DecodeError) result"
where
  "decode self datagram =
     (if length datagram < COMMON_HEADER_LENGTH
        then Err (V2DecodeError.DatagramTooShort (length datagram) COMMON_HEADER_LENGTH)
      else if take 4 datagram \<noteq> MAGIC then Err (V2DecodeError.InvalidMagic (take 4 datagram))
      else and_then (decode_version (datagram ! 4)) (\<lambda>_.
        and_then (decode_message_type (datagram ! 5)) (\<lambda>message_type.
          let flags = u16_from_be_bytes [datagram ! 6, datagram ! 7];
              declared_body_length = unat (u16_from_be_bytes [datagram ! 8, datagram ! 9]);
              actual_body_length = length datagram - COMMON_HEADER_LENGTH;
              opaque_length = actual_body_length - ATTEMPT_ID_LENGTH;
              attempt = u64_from_be_bytes (subslice 10 18 datagram);
              body = \<lparr>client_attempt_id = ClientAttemptId attempt,
                      opaque_payload = drop 18 datagram\<rparr>
          in if flags \<noteq> FLAGS_NONE then Err (V2DecodeError.UnsupportedFlags flags)
             else if declared_body_length \<noteq> actual_body_length
               then Err (BodyLengthMismatch declared_body_length actual_body_length)
             else if actual_body_length < MINIMUM_BODY_LENGTH
               then Err (HandshakeBodyTooShort actual_body_length MINIMUM_BODY_LENGTH)
             else if opaque_length > vc_maximum_opaque_payload self
               then Err (V2DecodeError.OpaquePayloadTooLarge opaque_length
                           (vc_maximum_opaque_payload self))
             else if attempt = 0 then Err V2DecodeError.ZeroClientAttemptId
             else (case message_type of
                 MessageType.ClientHello \<Rightarrow> Ok (DecodedV2HandshakeFrame.ClientHello body)
               | MessageType.ServerHello \<Rightarrow> Ok (DecodedV2HandshakeFrame.ServerHello body)
               | MessageType.ClientFinish \<Rightarrow> Ok (DecodedV2HandshakeFrame.ClientFinish body)
               | MessageType.ServerFinish \<Rightarrow> Ok (DecodedV2HandshakeFrame.ServerFinish body)
               | MessageType.Data \<Rightarrow>
                   Err (V2DecodeError.UnsupportedMessageType
                          (message_wire_value MessageType.Data))))))"

definition classify_for_client ::
  "DecodedV2HandshakeFrame \<Rightarrow> (ClientInboundFrame, DirectionError) result" where
  "classify_for_client frame = (case frame of
     DecodedV2HandshakeFrame.ServerHello body \<Rightarrow> Ok (ClientInboundFrame.ServerHello body)
   | DecodedV2HandshakeFrame.ServerFinish body \<Rightarrow> Ok (ClientInboundFrame.ServerFinish body)
   | DecodedV2HandshakeFrame.ClientHello _ \<Rightarrow>
       Err (UnexpectedDirection Receiver.Client MessageType.ClientHello)
   | DecodedV2HandshakeFrame.ClientFinish _ \<Rightarrow>
       Err (UnexpectedDirection Receiver.Client MessageType.ClientFinish))"

definition classify_for_server ::
  "DecodedV2HandshakeFrame \<Rightarrow> (ServerInboundFrame, DirectionError) result" where
  "classify_for_server frame = (case frame of
     DecodedV2HandshakeFrame.ClientHello body \<Rightarrow> Ok (ServerInboundFrame.ClientHello body)
   | DecodedV2HandshakeFrame.ClientFinish body \<Rightarrow> Ok (ServerInboundFrame.ClientFinish body)
   | DecodedV2HandshakeFrame.ServerHello _ \<Rightarrow>
       Err (UnexpectedDirection Receiver.Server MessageType.ServerHello)
   | DecodedV2HandshakeFrame.ServerFinish _ \<Rightarrow>
       Err (UnexpectedDirection Receiver.Server MessageType.ServerFinish))"

section \<open>Layout of an encoded handshake frame\<close>

definition v2_wire :: "MessageType \<Rightarrow> ClientAttemptId \<Rightarrow> bytes \<Rightarrow> bytes" where
  "v2_wire kind attempt payload =
     common_header 2 (message_wire_value kind) 0 (word_of_nat (8 + length payload)) @
     u64_to_be_bytes (attempt_value attempt) @ payload"

definition v2_message_ok ::
  "V2HandshakeCodec \<Rightarrow> MessageType \<Rightarrow> ClientAttemptId \<Rightarrow> bytes \<Rightarrow> bool" where
  "v2_message_ok c kind attempt payload \<longleftrightarrow>
     kind \<noteq> MessageType.Data \<and> attempt_value attempt \<noteq> 0 \<and> payload \<noteq> [] \<and>
     length payload \<le> vc_maximum_opaque_payload c \<and> 8 + length payload \<le> 65535"

fun make_frame :: "MessageType \<Rightarrow> DecodedV2HandshakeBody \<Rightarrow> DecodedV2HandshakeFrame option" where
  "make_frame MessageType.ClientHello b = Some (DecodedV2HandshakeFrame.ClientHello b)"
| "make_frame MessageType.ServerHello b = Some (DecodedV2HandshakeFrame.ServerHello b)"
| "make_frame MessageType.ClientFinish b = Some (DecodedV2HandshakeFrame.ClientFinish b)"
| "make_frame MessageType.ServerFinish b = Some (DecodedV2HandshakeFrame.ServerFinish b)"
| "make_frame MessageType.Data b = None"

lemma make_frame_iff:
  "make_frame k b = Some f \<longleftrightarrow> frame_message_type f = k \<and> frame_body f = b"
  by (cases f; cases k) (auto simp: frame_message_type_def frame_body_def)

lemma frame_of_kind:
  "(case k of
      MessageType.Data \<Rightarrow> Err e
    | MessageType.ClientHello \<Rightarrow> Ok (DecodedV2HandshakeFrame.ClientHello b)
    | MessageType.ServerHello \<Rightarrow> Ok (DecodedV2HandshakeFrame.ServerHello b)
    | MessageType.ClientFinish \<Rightarrow> Ok (DecodedV2HandshakeFrame.ClientFinish b)
    | MessageType.ServerFinish \<Rightarrow> Ok (DecodedV2HandshakeFrame.ServerFinish b))
   = ok_or (make_frame k b) e"
  by (cases k) simp_all

lemma length_v2_wire [simp]: "length (v2_wire k a p) = 18 + length p"
  by (simp add: v2_wire_def)

lemma encoded_lengths_iff:
  "encoded_lengths c n = Ok (w, m) \<longleftrightarrow>
     0 < n \<and> n \<le> vc_maximum_opaque_payload c \<and> 8 + n \<le> 65535 \<and>
     w = word_of_nat (8 + n) \<and> m = 18 + n"
  by (auto simp: encoded_lengths_def v2_lengths and_then_Ok)

lemma v2_write_all:
  assumes "18 + length p \<le> length out"
  shows "write_all
      [(0, MAGIC), (4, [version_wire_value V2]), (5, [message_wire_value k]),
       (6, u16_to_be_bytes FLAGS_NONE), (8, u16_to_be_bytes (word_of_nat (8 + length p))),
       (10, u64_to_be_bytes (attempt_value a)), (18, p)] out
     = Some (v2_wire k a p @ drop (18 + length p) out)"
  by (subst write_all_from_start)
    (use assms in \<open>simp_all add: v2_wire_def common_header_def FLAGS_NONE_def\<close>)

lemma encode_ok:
  assumes "v2_message_ok c k a p" and "18 + length p \<le> length out"
  shows "encode c k a p out = Some (Ok (18 + length p), v2_wire k a p @ drop (18 + length p) out)"
proof -
  have "encoded_lengths c (length p) = Ok (word_of_nat (8 + length p), 18 + length p)"
    using assms(1) by (simp add: encoded_lengths_iff v2_message_ok_def del: of_nat_add)
  then show ?thesis
    using assms v2_write_all [OF assms(2), of k a]
    by (simp add: encode_def v2_message_ok_def del: of_nat_add write_all.simps)
qed

lemma encode_okD:
  assumes "encode c k a p out = Some (Ok n, out')"
  shows "v2_message_ok c k a p \<and> 18 + length p \<le> length out"
proof -
  obtain w m where "encoded_lengths c (length p) = Ok (w, m)" "m \<le> length out"
    and "k \<noteq> MessageType.Data" "attempt_value a \<noteq> 0"
    using assms by (auto simp: encode_def split: if_splits sum.splits)
  then show ?thesis by (auto simp: encoded_lengths_iff v2_message_ok_def)
qed

lemma decode_message_type_iff:
  "decode_message_type v = Ok k \<longleftrightarrow> k \<noteq> MessageType.Data \<and> v = message_wire_value k"
  by (cases k) (auto simp: decode_message_type_def)

lemma decode_v2_wire:
  assumes "v2_message_ok c k a p"
  shows "\<exists>f. make_frame k \<lparr>client_attempt_id = a, opaque_payload = p\<rparr> = Some f
    \<and> decode c (v2_wire k a p) = Ok f"
proof -
  let ?rest = "u64_to_be_bytes (attempt_value a) @ p"
  note r = common_header_read [of 2 "message_wire_value k" 0 "word_of_nat (8 + length p)" ?rest,
      folded v2_wire_def]
  have s: "subslice 10 18 (v2_wire k a p) = u64_to_be_bytes (attempt_value a)"
    unfolding v2_wire_def by (rule subslice_append_left) simp_all
  have d: "drop 18 (v2_wire k a p) = p"
    by (simp add: v2_wire_def)
  have k: "decode_message_type (message_wire_value k) = Ok k"
    using assms by (simp add: decode_message_type_iff v2_message_ok_def)
  obtain f where f: "make_frame k \<lparr>client_attempt_id = a, opaque_payload = p\<rparr> = Some f"
    using assms by (cases k) (simp_all add: v2_message_ok_def)
  then have "decode c (v2_wire k a p) = Ok f"
    using assms
    by (simp add: decode_def v2_lengths decode_version_def r k s d FLAGS_NONE_def frame_of_kind
        v2_message_ok_def Suc_le_eq Let_def del: of_nat_add)
  with f show ?thesis by blast
qed

lemma v2_decode_okD:
  assumes "decode c bs = Ok f"
  shows "v2_message_ok c (frame_message_type f) (client_attempt_id (frame_body f))
      (opaque_payload (frame_body f))
    \<and> bs = v2_wire (frame_message_type f) (client_attempt_id (frame_body f))
        (opaque_payload (frame_body f))"
proof -
  obtain k where len: "10 \<le> length bs" and m: "take 4 bs = MAGIC"
    and b4: "bs ! 4 = 2" and b5: "decode_message_type (bs ! 5) = Ok k"
    and fl: "u16_from_be_bytes [bs ! 6, bs ! 7] = 0"
    and de: "unat (u16_from_be_bytes [bs ! 8, bs ! 9]) = length bs - 10"
    and lo: "9 \<le> length bs - 10" and hi: "length bs - 18 \<le> vc_maximum_opaque_payload c"
    and at: "u64_from_be_bytes (subslice 10 18 bs) \<noteq> 0"
    and f: "make_frame k \<lparr>client_attempt_id = ClientAttemptId (u64_from_be_bytes (subslice 10 18 bs)),
      opaque_payload = drop 18 bs\<rparr> = Some f"
    using assms
    by (auto simp: decode_def v2_lengths decode_version_def FLAGS_NONE_def Let_def and_then_Ok
        frame_of_kind split: if_splits)
  have k: "k \<noteq> MessageType.Data" "bs ! 5 = message_wire_value k"
    using b5 by (simp_all add: decode_message_type_iff)
  have d: "drop 10 bs = subslice 10 18 bs @ drop 18 bs"
    using append_take_drop_id [of 8 "drop 10 bs"] by (simp add: subslice_def)
  have u: "u64_to_be_bytes (u64_from_be_bytes (subslice 10 18 bs)) = subslice 10 18 bs"
    using lo by (intro u64_to_from_be) simp
  have l: "8 + length (drop 18 bs) = unat (u16_from_be_bytes [bs ! 8, bs ! 9])"
    using lo de by simp
  have w: "word_of_nat (8 + length (drop 18 bs)) = u16_from_be_bytes [bs ! 8, bs ! 9]"
    unfolding l by simp
  have "8 + length (drop 18 bs) \<le> 65535"
    using lo de u16_bound [of "u16_from_be_bytes [bs ! 8, bs ! 9]"] by simp
  then have ok: "v2_message_ok c k (ClientAttemptId (u64_from_be_bytes (subslice 10 18 bs)))
      (drop 18 bs)"
    using lo hi at k by (simp add: v2_message_ok_def)
  have wire: "v2_wire k (ClientAttemptId (u64_from_be_bytes (subslice 10 18 bs))) (drop 18 bs) = bs"
    unfolding v2_wire_def ClientAttemptId.sel u w d [symmetric]
    using common_header_write [OF len m] by (simp only: b4 k(2) fl)
  show ?thesis
    using f ok wire by (simp add: make_frame_iff)
qed

section \<open>The codec implements the frame interface\<close>

definition v2_send :: "V2HandshakeCodec \<Rightarrow> DecodedV2HandshakeFrame \<Rightarrow> bytes option" where
  "v2_send c f =
     (let p = opaque_payload (frame_body f) in
      case encode c (frame_message_type f) (client_attempt_id (frame_body f)) p
        (replicate (18 + length p) 0) of
        Some (Inr n, out) \<Rightarrow> Some (take n out) | _ \<Rightarrow> None)"

definition v2_receive :: "V2HandshakeCodec \<Rightarrow> bytes \<Rightarrow> DecodedV2HandshakeFrame option" where
  "v2_receive c datagram = (case decode c datagram of Inl _ \<Rightarrow> None | Inr f \<Rightarrow> Some f)"

definition v2_frame_ok :: "V2HandshakeCodec \<Rightarrow> DecodedV2HandshakeFrame \<Rightarrow> bool" where
  "v2_frame_ok c f = v2_message_ok c (frame_message_type f) (client_attempt_id (frame_body f))
     (opaque_payload (frame_body f))"

definition v2_frame_wire :: "DecodedV2HandshakeFrame \<Rightarrow> bytes" where
  "v2_frame_wire f = v2_wire (frame_message_type f) (client_attempt_id (frame_body f))
     (opaque_payload (frame_body f))"

lemma v2_send_iff: "v2_send c f = Some bs \<longleftrightarrow> v2_frame_ok c f \<and> bs = v2_frame_wire f"
proof (cases "v2_frame_ok c f")
  case True
  then show ?thesis
    by (auto simp: v2_send_def v2_frame_ok_def v2_frame_wire_def encode_ok Let_def)
next
  case False
  then show ?thesis
    by (auto simp: v2_send_def v2_frame_ok_def Let_def dest: encode_okD
        split: option.splits sum.splits)
qed

lemma v2_receive_iff: "v2_receive c bs = Some f \<longleftrightarrow> v2_frame_ok c f \<and> bs = v2_frame_wire f"
proof
  assume "v2_receive c bs = Some f"
  then show "v2_frame_ok c f \<and> bs = v2_frame_wire f"
    by (auto simp: v2_receive_def v2_frame_ok_def v2_frame_wire_def dest: v2_decode_okD
        split: sum.splits)
next
  assume f: "v2_frame_ok c f \<and> bs = v2_frame_wire f"
  have "make_frame (frame_message_type f) \<lparr>client_attempt_id = client_attempt_id (frame_body f),
      opaque_payload = opaque_payload (frame_body f)\<rparr> = Some f"
    by (simp add: make_frame_iff)
  with f show "v2_receive c bs = Some f"
    using decode_v2_wire [of c "frame_message_type f" "client_attempt_id (frame_body f)"
        "opaque_payload (frame_body f)"]
    by (auto simp: v2_receive_def v2_frame_ok_def v2_frame_wire_def)
qed

interpretation v2: wire_codec "v2_send c" "v2_receive c" for c
  by unfold_locales (simp_all add: v2_send_iff v2_receive_iff)

section \<open>Properties\<close>

text \<open>C38. The version 2 handshake codec is a bijection between the messages it frames (kind,
  attempt and payload) and the datagrams it accepts.\<close>

theorem v2_codec_canonical: "v2_send c frame = Some datagram \<longleftrightarrow> v2_receive c datagram = Some frame"
  by (rule v2.enc_iff_dec)

end
