(* ===== verification/Noise_Profile.thy ===== *)
theory Noise_Profile
  imports Protocol_Types Session_Types
begin

text \<open>
  The Crabnet profile of Noise IK (\<open>src/crypto/noise_ik/profile.rs\<close>): the prologue both peers bind
  into the handshake and the control records they exchange inside the encrypted payloads.
\<close>

text \<open>The payload type of both providers (\<open>src/crypto/noise_ik/types.rs\<close>).\<close>

datatype NoiseIkPayload = NoiseIkPayload (payload_bytes: bytes)

definition NOISE_PROTOCOL_NAME :: string where
  "NOISE_PROTOCOL_NAME = ''Noise_IK_25519_ChaChaPoly_BLAKE2s''"

definition CRABNET_NOISE_PROFILE :: u8 where "CRABNET_NOISE_PROFILE = 1"

definition CONTROL_MAGIC :: bytes where
  "CONTROL_MAGIC = [0x43, 0x4E, 0x49, 0x4B]"

definition CONTROL_RECORD_LENGTH :: usize where "CONTROL_RECORD_LENGTH = 16"
definition AEAD_TAG_LENGTH :: usize where "AEAD_TAG_LENGTH = 16"
definition CLIENT_HELLO_PAYLOAD_LENGTH :: usize where "CLIENT_HELLO_PAYLOAD_LENGTH = 112"
definition SERVER_HELLO_PAYLOAD_LENGTH :: usize where "SERVER_HELLO_PAYLOAD_LENGTH = 64"
definition CLIENT_FINISH_PAYLOAD_LENGTH :: usize where "CLIENT_FINISH_PAYLOAD_LENGTH = 32"
definition SERVER_FINISH_PAYLOAD_LENGTH :: usize where "SERVER_FINISH_PAYLOAD_LENGTH = 32"
definition PROLOGUE_LENGTH :: usize where "PROLOGUE_LENGTH = 24"

text \<open>\<open>CRBN-NOISE-IK\<close>.\<close>

definition PROLOGUE_PREFIX :: bytes where
  "PROLOGUE_PREFIX =
     [0x43, 0x52, 0x42, 0x4E, 0x2D, 0x4E, 0x4F, 0x49, 0x53, 0x45, 0x2D, 0x49, 0x4B]"

lemmas noise_lengths = CONTROL_RECORD_LENGTH_def AEAD_TAG_LENGTH_def CLIENT_HELLO_PAYLOAD_LENGTH_def
  SERVER_HELLO_PAYLOAD_LENGTH_def CLIENT_FINISH_PAYLOAD_LENGTH_def
  SERVER_FINISH_PAYLOAD_LENGTH_def PROLOGUE_LENGTH_def

datatype NoiseIkProfileError = ZeroClientAttemptId

datatype ControlEncodeError =
  UnsupportedMessageType MessageType
| ZeroClientAttemptId

datatype ValidateControlError =
  RemoteAuthenticationFailure
| InvalidExpectedMessageType MessageType
| ZeroExpectedClientAttemptId

definition build_prologue :: "ClientAttemptId \<Rightarrow> (bytes, NoiseIkProfileError) result" where
  "build_prologue attempt_id =
     (if attempt_value attempt_id = 0 then Err NoiseIkProfileError.ZeroClientAttemptId
      else Ok (put_all
        [(0, PROLOGUE_PREFIX),
         (13, [0]),
         (14, [version_wire_value V2]),
         (15, [CRABNET_NOISE_PROFILE]),
         (16, u64_to_be_bytes (attempt_value attempt_id))] (replicate PROLOGUE_LENGTH 0)))"

definition encode_control ::
  "MessageType \<Rightarrow> ClientAttemptId \<Rightarrow> (bytes, ControlEncodeError) result" where
  "encode_control kind attempt_id =
     (if attempt_value attempt_id = 0 then Err ControlEncodeError.ZeroClientAttemptId
      else if kind = MessageType.Data then Err (ControlEncodeError.UnsupportedMessageType kind)
      else Ok (put_all
        [(0, CONTROL_MAGIC),
         (4, [CRABNET_NOISE_PROFILE]),
         (5, [message_wire_value kind]),
         (6, u16_to_be_bytes 0),
         (8, u64_to_be_bytes (attempt_value attempt_id))] (replicate CONTROL_RECORD_LENGTH 0)))"

definition is_handshake_message_type :: "MessageType \<Rightarrow> bool" where
  "is_handshake_message_type m = (case m of
     MessageType.ClientHello \<Rightarrow> True | MessageType.ServerHello \<Rightarrow> True
   | MessageType.ClientFinish \<Rightarrow> True | MessageType.ServerFinish \<Rightarrow> True
   | MessageType.Data \<Rightarrow> False)"

definition validate_control ::
  "bytes \<Rightarrow> MessageType \<Rightarrow> ClientAttemptId \<Rightarrow> (unit, ValidateControlError) result" where
  "validate_control plaintext expected_kind expected_attempt =
     (if \<not> is_handshake_message_type expected_kind
        then Err (InvalidExpectedMessageType expected_kind)
      else if attempt_value expected_attempt = 0 then Err ZeroExpectedClientAttemptId
      else if length plaintext \<noteq> CONTROL_RECORD_LENGTH
         \<or> subslice 0 4 plaintext \<noteq> CONTROL_MAGIC
         \<or> plaintext ! 4 \<noteq> CRABNET_NOISE_PROFILE
         \<or> plaintext ! 5 \<noteq> message_wire_value expected_kind
         \<or> subslice 6 8 plaintext \<noteq> u16_to_be_bytes 0
         \<or> subslice 8 16 plaintext \<noteq> u64_to_be_bytes (attempt_value expected_attempt)
        then Err RemoteAuthenticationFailure
      else Ok ())"

section \<open>Layout\<close>

lemma is_handshake_message_type_iff: "is_handshake_message_type m \<longleftrightarrow> m \<noteq> MessageType.Data"
  by (cases m) (simp_all add: is_handshake_message_type_def)

definition control_record :: "MessageType \<Rightarrow> ClientAttemptId \<Rightarrow> bytes" where
  "control_record kind attempt = CONTROL_MAGIC @ [CRABNET_NOISE_PROFILE, message_wire_value kind] @
     u16_to_be_bytes 0 @ u64_to_be_bytes (attempt_value attempt)"

lemma length_control_record [simp]: "length (control_record k a) = 16"
  by (simp add: control_record_def CONTROL_MAGIC_def)

lemma encode_control_eq:
  assumes "attempt_value a \<noteq> 0" and "k \<noteq> MessageType.Data"
  shows "encode_control k a = Ok (control_record k a)"
  using assms
  by (simp add: encode_control_def control_record_def noise_lengths CONTROL_MAGIC_def
      put_all_from_start del: put_all.simps)

lemma build_prologue_eq:
  assumes "attempt_value a \<noteq> 0"
  shows "build_prologue a = Ok (PROLOGUE_PREFIX @ [0, 2, 1] @ u64_to_be_bytes (attempt_value a))"
  using assms
  by (simp add: build_prologue_def noise_lengths PROLOGUE_PREFIX_def CRABNET_NOISE_PROFILE_def
      put_all_from_start del: put_all.simps)

lemma build_prologue_inject:
  "build_prologue a = Ok p \<Longrightarrow> build_prologue b = Ok p \<Longrightarrow> a = b"
  by (cases "attempt_value a = 0"; cases "attempt_value b = 0")
    (auto simp: build_prologue_eq ClientAttemptId.expand, simp_all add: build_prologue_def)

lemma control_fields:
  "length xs = 16 \<Longrightarrow>
   xs = subslice 0 4 xs @ [xs ! 4, xs ! 5] @ subslice 6 8 xs @ subslice 8 16 xs"
  by (rule nth_equalityI) (auto simp: subslice_def nth_append less_Suc_eq numeral_eq_Suc)

lemma control_record_fields:
  "subslice 0 4 (control_record k a) = CONTROL_MAGIC"
  "control_record k a ! 4 = CRABNET_NOISE_PROFILE"
  "control_record k a ! 5 = message_wire_value k"
  "subslice 6 8 (control_record k a) = u16_to_be_bytes 0"
  "subslice 8 16 (control_record k a) = u64_to_be_bytes (attempt_value a)"
  by (simp_all add: control_record_def CONTROL_MAGIC_def subslice_def)

lemma validate_control_ok_iff:
  "validate_control xs k a = Ok () \<longleftrightarrow>
     k \<noteq> MessageType.Data \<and> attempt_value a \<noteq> 0 \<and> xs = control_record k a"
proof
  assume "validate_control xs k a = Ok ()"
  then have h: "length xs = 16" "subslice 0 4 xs = CONTROL_MAGIC" "xs ! 4 = CRABNET_NOISE_PROFILE"
    "xs ! 5 = message_wire_value k" "subslice 6 8 xs = u16_to_be_bytes 0"
    "subslice 8 16 xs = u64_to_be_bytes (attempt_value a)"
    and "k \<noteq> MessageType.Data" "attempt_value a \<noteq> 0"
    by (auto simp: validate_control_def is_handshake_message_type_iff noise_lengths split: if_splits)
  moreover have "xs = control_record k a"
    using control_fields [OF h(1)] unfolding h(2-) by (simp add: control_record_def)
  ultimately show "k \<noteq> MessageType.Data \<and> attempt_value a \<noteq> 0 \<and> xs = control_record k a" by blast
next
  assume "k \<noteq> MessageType.Data \<and> attempt_value a \<noteq> 0 \<and> xs = control_record k a"
  then show "validate_control xs k a = Ok ()"
    by (simp add: validate_control_def is_handshake_message_type_iff noise_lengths
        control_record_fields)
qed

lemma control_record_inject: "control_record k a = control_record k' a' \<longleftrightarrow> k = k' \<and> a = a'"
  by (auto simp: control_record_def message_wire_value_inject ClientAttemptId.expand)

section \<open>Properties\<close>

text \<open>A control record validates for exactly the message kind and attempt it was made for: no
  record of another kind or another attempt, and no altered record, passes.\<close>

theorem validate_control_exact:
  "validate_control control kind attempt = Ok () \<longleftrightarrow> encode_control kind attempt = Ok control"
proof (cases "attempt_value attempt \<noteq> 0 \<and> kind \<noteq> MessageType.Data")
  case True
  then show ?thesis by (auto simp: validate_control_ok_iff encode_control_eq)
next
  case False
  then show ?thesis
    by (auto simp: validate_control_ok_iff encode_control_def simp del: put_all.simps)
qed

end
