(* ===== verification/Noise_Snow.thy ===== *)
theory Noise_Snow
  imports Noise_Profile
begin

text \<open>
  The third-party Noise library as the program uses it. \<open>StatelessTransportState\<close> is the transport
  after the handshake, \<open>Snow\<close> the handshake itself. Nothing of the library is defined here: both are
  records of operations, parameters of everything that uses them.

  \<^item> The last argument of a read or write is the size of the output buffer, and the result is what
    was written there, or \<open>None\<close> for any error: the program maps all errors of a call to one value.
  \<^item> The calls of a builder chain (private key, remote key, prologue, build) are one operation.
  \<^item> The library draws its ephemeral keys from the operating system. That entropy is a value of type
    \<open>'r\<close>, which building a handshake state consumes.
\<close>

record StatelessTransportState =
  write_message :: "u64 \<Rightarrow> bytes \<Rightarrow> usize \<Rightarrow> bytes option"
  read_message :: "u64 \<Rightarrow> bytes \<Rightarrow> usize \<Rightarrow> bytes option"

record ('r, 'h) Snow =
  build_initiator :: "string \<Rightarrow> bytes \<Rightarrow> bytes \<Rightarrow> bytes \<Rightarrow> 'r \<Rightarrow> 'r \<times> 'h option"
  build_responder :: "string \<Rightarrow> bytes \<Rightarrow> bytes \<Rightarrow> 'r \<Rightarrow> 'r \<times> 'h option"
  hs_write_message :: "'h \<Rightarrow> bytes \<Rightarrow> usize \<Rightarrow> 'h \<times> bytes option"
  hs_read_message :: "'h \<Rightarrow> bytes \<Rightarrow> usize \<Rightarrow> 'h \<times> bytes option"
  get_remote_static :: "'h \<Rightarrow> bytes option"
  get_handshake_hash :: "'h \<Rightarrow> bytes"
  into_stateless_transport_mode :: "'h \<Rightarrow> StatelessTransportState option"

text \<open>What the program relies on of a transport: the length of the tag, and that the peer reads
  what was written under the same sequence number.\<close>

definition tag_length_law :: "StatelessTransportState \<Rightarrow> bool" where
  "tag_length_law w \<longleftrightarrow> (\<forall>n p cap c. write_message w n p cap = Some c \<longrightarrow> length c = length p + 16)"

definition read_write_law :: "StatelessTransportState \<Rightarrow> StatelessTransportState \<Rightarrow> bool" where
  "read_write_law w r \<longleftrightarrow> (\<forall>n p cap cap' c.
     write_message w n p cap = Some c \<longrightarrow> length c \<le> cap' \<longrightarrow> read_message r n c cap' = Some p)"

text \<open>
  What a handshake of pattern IK gives two honest parties. The initiator knows the responder's public
  key. The first message carries an ephemeral key (32 bytes), the encrypted static key (48) and the
  encrypted payload (16 more than the payload), the second an ephemeral key and the encrypted payload.
  Afterwards each side knows the other's static key, both have the same handshake hash, and their
  transports read each other. \<open>public\<close> derives a public key from a private key. The law is about the one
  protocol the program names, and about transport messages under every nonce but the largest, which
  Noise reserves.
\<close>

definition transports_agree :: "StatelessTransportState \<Rightarrow> StatelessTransportState \<Rightarrow> bool" where
  "transports_agree ti tr \<longleftrightarrow> tag_length_law ti \<and> tag_length_law tr \<and>
     read_write_law ti tr \<and> read_write_law tr ti \<and>
     (\<forall>n p cap. n \<noteq> - 1 \<longrightarrow> length p + 16 \<le> cap \<longrightarrow> length p + 16 \<le> 65535 \<longrightarrow>
        write_message ti n p cap \<noteq> None \<and> write_message tr n p cap \<noteq> None)"

definition second_message_law ::
  "('r, 'h) Snow \<Rightarrow> bytes \<Rightarrow> 'h \<Rightarrow> 'h \<Rightarrow> bool" where
  "second_message_law S remote hi hr \<longleftrightarrow> (\<forall>p cap cap'. length p + 48 \<le> cap \<longrightarrow>
     length p + 48 \<le> 65535 \<longrightarrow> length p + 48 \<le> cap' \<longrightarrow>
     (\<exists>hr' m hi' ti tr. hs_write_message S hr p cap = (hr', Some m) \<and> length m = length p + 48 \<and>
        hs_read_message S hi m cap' = (hi', Some p) \<and> get_remote_static S hi' = Some remote \<and>
        get_handshake_hash S hi' = get_handshake_hash S hr' \<and>
        length (get_handshake_hash S hr') = 32 \<and>
        into_stateless_transport_mode S hi' = Some ti \<and>
        into_stateless_transport_mode S hr' = Some tr \<and> transports_agree ti tr))"

definition noise_ik_law :: "('r, 'h) Snow \<Rightarrow> (bytes \<Rightarrow> bytes) \<Rightarrow> bool" where
  "noise_ik_law S public \<longleftrightarrow> (\<forall>si sr prologue ri rr p cap cap'.
     length si = 32 \<longrightarrow> length sr = 32 \<longrightarrow> length p + 96 \<le> cap \<longrightarrow> length p + 96 \<le> 65535 \<longrightarrow>
     length p + 96 \<le> cap' \<longrightarrow>
     (\<exists>ri' hi rr' hr hi' m hr'.
        build_initiator S NOISE_PROTOCOL_NAME si (public sr) prologue ri = (ri', Some hi) \<and>
        build_responder S NOISE_PROTOCOL_NAME sr prologue rr = (rr', Some hr) \<and>
        hs_write_message S hi p cap = (hi', Some m) \<and> length m = length p + 96 \<and>
        hs_read_message S hr m cap' = (hr', Some p) \<and>
        get_remote_static S hr' = Some (public si) \<and>
        second_message_law S (public sr) hi' hr'))"

lemma agree_writes:
  assumes "transports_agree ti tr" and "n \<noteq> - 1" and "length p + 16 \<le> cap" and "length p + 16 \<le> 65535"
  shows "\<exists>m m'. write_message ti n p cap = Some m \<and> write_message tr n p cap = Some m'"
  using assms by (auto simp: transports_agree_def)

section \<open>An instance\<close>

text \<open>
  A handshake without secrecy that satisfies the laws: keys and payloads travel in the clear, padded
  to the lengths of the real messages. Like the library it builds no handshake of another name and
  writes nothing under the reserved nonce. It serves to evaluate the program on concrete inputs.
\<close>

datatype clear_state =
  Initiator (own_key: bytes) (remote_key: bytes)
| Responder (own_key: bytes) (learned_key: "bytes option")

definition clear_transport :: StatelessTransportState where
  "clear_transport =
     \<lparr>write_message = (\<lambda>n p cap. if n \<noteq> - 1 \<and> length p + 16 \<le> cap then Some (p @ replicate 16 0) else None),
      read_message = (\<lambda>n m cap. if 16 \<le> length m \<and> drop (length m - 16) m = replicate 16 0 \<and>
          length m \<le> cap + 16 then Some (take (length m - 16) m) else None)\<rparr>"

fun clear_write :: "clear_state \<Rightarrow> bytes \<Rightarrow> usize \<Rightarrow> clear_state \<times> bytes option" where
  "clear_write (Initiator me remote) p cap = (Initiator me remote,
     if length p + 96 \<le> cap
     then Some (replicate 32 0 @ me @ replicate 16 0 @ p @ replicate 16 0) else None)"
| "clear_write (Responder me remote) p cap = (Responder me remote,
     if remote \<noteq> None \<and> length p + 48 \<le> cap
     then Some (replicate 32 0 @ p @ replicate 16 0) else None)"

fun clear_read :: "clear_state \<Rightarrow> bytes \<Rightarrow> usize \<Rightarrow> clear_state \<times> bytes option" where
  "clear_read (Initiator me remote) m cap = (Initiator me remote,
     if 48 \<le> length m then Some (take (length m - 48) (drop 32 m)) else None)"
| "clear_read (Responder me remote) m cap =
     (if 96 \<le> length m
      then (Responder me (Some (take 32 (drop 32 m))), Some (take (length m - 96) (drop 80 m)))
      else (Responder me remote, None))"

definition clear_snow :: "(nat, clear_state) Snow" where
  "clear_snow =
     \<lparr>build_initiator = (\<lambda>name key remote prologue r.
        (r + 1, if name = NOISE_PROTOCOL_NAME then Some (Initiator key remote) else None)),
      build_responder = (\<lambda>name key prologue r.
        (r + 1, if name = NOISE_PROTOCOL_NAME then Some (Responder key None) else None)),
      hs_write_message = clear_write,
      hs_read_message = clear_read,
      get_remote_static = (\<lambda>h. case h of Initiator _ remote \<Rightarrow> Some remote | Responder _ remote \<Rightarrow> remote),
      get_handshake_hash = (\<lambda>h. replicate 32 7),
      into_stateless_transport_mode = (\<lambda>h. Some clear_transport)\<rparr>"

lemma clear_transports_agree: "transports_agree clear_transport clear_transport"
  by (auto simp: transports_agree_def clear_transport_def tag_length_law_def read_write_law_def
      split: if_splits)

lemma clear_snow_law: "noise_ik_law clear_snow (\<lambda>k. k)"
  by (auto simp: noise_ik_law_def second_message_law_def clear_snow_def clear_transports_agree)

end
