(* ===== verification/Crypto_Types.thy ===== *)
theory Crypto_Types
  imports Session_Types
begin

text \<open>
  The boundary between the handshake and its cryptography (\<open>src/crypto/types.rs\<close>,
  \<open>src/crypto/client.rs\<close>, \<open>src/crypto/server.rs\<close>). The traits \<open>ClientHandshakeCrypto\<close> and
  \<open>ServerHandshakeCrypto\<close> are records of their methods: a method with \<open>&mut self\<close> returns the new
  provider and its result. The locales \<open>client_crypto\<close> and \<open>server_crypto\<close> of the coordinators state
  what a provider promises.
\<close>

section \<open>Prepared and authenticated messages\<close>

record 'p PreparedClientHello =
  pch_attempt_id :: ClientAttemptId
  pch_payload :: 'p

record 'p PreparedServerHello =
  psh_candidate_id :: CandidateId
  psh_client_attempt_id :: ClientAttemptId
  psh_payload :: 'p

record 'p PreparedClientFinish =
  pcf_attempt_id :: ClientAttemptId
  pcf_payload :: 'p

record 'p PreparedServerFinish =
  psf_candidate_id :: CandidateId
  psf_client_attempt_id :: ClientAttemptId
  psf_session_id :: SessionId
  psf_payload :: 'p

record AuthenticatedServerHello =
  ash_attempt_id :: ClientAttemptId

record AuthenticatedClientFinish =
  acf_candidate_id :: CandidateId
  acf_client_attempt_id :: ClientAttemptId
  acf_metadata :: EstablishedSessionMetadata

record AuthenticatedServerFinish =
  asf_attempt_id :: ClientAttemptId
  asf_metadata :: EstablishedSessionMetadata

section \<open>Outcomes and errors\<close>

datatype AuthenticationFailureReason =
  InvalidCredential | InvalidProof | InvalidConfirmation | TranscriptMismatch | IdentityMismatch

datatype AuthenticationFailure =
  ClientAttempt ClientAttemptId AuthenticationFailureReason
| ServerCandidate CandidateId ClientAttemptId AuthenticationFailureReason

datatype 'a CryptoOutcome = Success 'a | RemoteFailure AuthenticationFailure

datatype ClientCryptoOperation =
  StartAttempt
| AuthenticateServerHello
| PrepareClientFinish
| AuthenticateServerFinish
| CommitSession
| RejectAuthenticatedSession

datatype ServerCryptoOperation =
  PrepareServerHello
| AuthenticateClientFinish
| CommitSession
| RejectAuthenticatedCandidate
| PrepareServerFinish
| RemoveCandidate

datatype CryptoOperation = Client ClientCryptoOperation | Server ServerCryptoOperation

datatype ClientCryptoPhase =
  Idle
| AwaitingServerHello
| AwaitingServerFinish
| AuthenticatedPendingCommit
| Established
| Closed

datatype ServerCryptoPhase = Running | AuthenticatedPendingCommit | Established | Closed

datatype CryptoStateError =
  Closed CryptoOperation
| InvalidClientState ClientCryptoOperation ClientCryptoPhase
| InvalidServerState ServerCryptoOperation ServerCryptoPhase
| AttemptIdMismatch ClientAttemptId ClientAttemptId
| CandidateIdMismatch CandidateId CandidateId
| SessionIdMismatch SessionId SessionId
| AuthenticatedMetadataMismatch
| AuthenticationCommitPending
| MissingServerCandidateContext CandidateId ClientAttemptId
| SessionIdExhausted
| NoiseIkFailure ClientCryptoOperation
| NoiseIkServerFailure ServerCryptoOperation

datatype ClientContextRemoval = Removed | AlreadyAbsent

datatype ServerCandidateRemoval = Removed | AlreadyAbsent

record CryptoShutdownOutcome =
  removed_pending_contexts :: usize
  removed_pending_commit :: bool
  removed_established_context :: bool
  already_closed :: bool

text \<open>\<open>CryptoShutdownOutcome { already_closed: true, ..Default::default() }\<close>.\<close>

definition shutdown_already_closed :: CryptoShutdownOutcome where
  "shutdown_already_closed = \<lparr>removed_pending_contexts = 0, removed_pending_commit = False,
     removed_established_context = False, already_closed = True\<rparr>"

type_synonym ('c, 'a) crypto_step = "'c \<times> ('a, CryptoStateError) result"

section \<open>The traits\<close>

record ('c, 'ch, 'sh, 'cf, 'sf) ClientHandshakeCrypto =
  cc_phase :: "'c \<Rightarrow> ClientCryptoPhase"
  cc_start_attempt :: "'c \<Rightarrow> ClientAttemptId \<Rightarrow> ('c, 'ch PreparedClientHello) crypto_step"
  cc_authenticate_server_hello ::
    "'c \<Rightarrow> ClientAttemptId \<Rightarrow> 'sh \<Rightarrow> ('c, AuthenticatedServerHello CryptoOutcome) crypto_step"
  cc_prepare_client_finish ::
    "'c \<Rightarrow> ClientAttemptId \<Rightarrow> ('cf PreparedClientFinish, CryptoStateError) result"
  cc_authenticate_server_finish ::
    "'c \<Rightarrow> ClientAttemptId \<Rightarrow> 'sf \<Rightarrow> ('c, AuthenticatedServerFinish CryptoOutcome) crypto_step"
  cc_commit_session ::
    "'c \<Rightarrow> ClientAttemptId \<Rightarrow> EstablishedSessionMetadata \<Rightarrow> ('c, unit) crypto_step"
  cc_reject_authenticated_session ::
    "'c \<Rightarrow> ClientAttemptId \<Rightarrow> ('c, ClientContextRemoval) crypto_step"
  cc_close_context :: "'c \<Rightarrow> ClientAttemptId \<Rightarrow> ('c, ClientContextRemoval) crypto_step"
  cc_shutdown :: "'c \<Rightarrow> 'c \<times> CryptoShutdownOutcome"

record ServerCryptoStatus =
  scs_phase :: ServerCryptoPhase
  scs_pending_contexts :: usize
  scs_has_pending_commit :: bool
  scs_has_established_context :: bool

definition is_fresh :: "ServerCryptoStatus \<Rightarrow> bool" where
  "is_fresh self \<longleftrightarrow> scs_phase self = ServerCryptoPhase.Running \<and> scs_pending_contexts self = 0 \<and>
     \<not> scs_has_pending_commit self \<and> \<not> scs_has_established_context self"

record ('c, 'ch, 'sh, 'cf, 'sf) ServerHandshakeCrypto =
  sv_phase :: "'c \<Rightarrow> ServerCryptoPhase"
  sv_non_secret_status :: "'c \<Rightarrow> ServerCryptoStatus"
  sv_prepare_server_hello :: "'c \<Rightarrow> CandidateId \<Rightarrow> ClientAttemptId \<Rightarrow> 'ch
    \<Rightarrow> ('c, 'sh PreparedServerHello CryptoOutcome) crypto_step"
  sv_authenticate_client_finish :: "'c \<Rightarrow> CandidateId \<Rightarrow> ClientAttemptId \<Rightarrow> 'cf
    \<Rightarrow> ('c, AuthenticatedClientFinish CryptoOutcome) crypto_step"
  sv_commit_session :: "'c \<Rightarrow> CandidateId \<Rightarrow> ClientAttemptId \<Rightarrow> EstablishedSessionMetadata
    \<Rightarrow> ('c, unit) crypto_step"
  sv_reject_authenticated_candidate :: "'c \<Rightarrow> CandidateId \<Rightarrow> ClientAttemptId
    \<Rightarrow> ('c, ServerCandidateRemoval) crypto_step"
  sv_prepare_server_finish :: "'c \<Rightarrow> CandidateId \<Rightarrow> ClientAttemptId \<Rightarrow> SessionId
    \<Rightarrow> ('sf PreparedServerFinish, CryptoStateError) result"
  sv_remove_candidate :: "'c \<Rightarrow> CandidateId \<Rightarrow> ClientAttemptId
    \<Rightarrow> ('c, ServerCandidateRemoval) crypto_step"
  sv_shutdown :: "'c \<Rightarrow> 'c \<times> CryptoShutdownOutcome"

end
