(* ===== verification/Session_Manager.thy ===== *)
theory Session_Manager
  imports Session_Types
begin

text \<open>
  The bounded pending-candidate manager (\<open>src/session.rs\<close>): admission, expiry, exact removal and
  shutdown of unauthenticated handshake attempts, one per transport source. The manager is
  interpreted as a \<open>candidate_book\<close>, the view on which the server policy relies.
\<close>

record SessionPolicy =
  sp_maximum_pending :: usize
  sp_handshake_timeout :: duration
  sp_idle_timeout :: duration

datatype SessionConfigError = PendingLimit | HandshakeTimeout | IdleTimeout

definition SessionPolicy_new ::
  "usize \<Rightarrow> duration \<Rightarrow> duration \<Rightarrow> (SessionPolicy, SessionConfigError) result" where
  "SessionPolicy_new maximum_pending handshake_timeout idle_timeout =
     (if maximum_pending = 0 then Err PendingLimit
      else if handshake_timeout = 0 then Err HandshakeTimeout
      else if idle_timeout = 0 then Err SessionConfigError.IdleTimeout
      else Ok \<lparr>sp_maximum_pending = maximum_pending, sp_handshake_timeout = handshake_timeout,
               sp_idle_timeout = idle_timeout\<rparr>)"

record PendingCandidate =
  pc_id :: CandidateId
  pc_created_at :: instant
  pc_deadline :: instant

datatype ManagerState = Running | Closed

record PendingCandidateSnapshot =
  ps_candidate_id :: CandidateId
  ps_created_at :: instant
  ps_deadline :: instant

datatype CandidateRemoval =
  Removed
| NotFound
| CandidateMismatch CandidateId CandidateId
| Closed

record SessionManager =
  sm_policy :: SessionPolicy
  sm_state :: ManagerState
  sm_pending_by_source :: "(SocketAddr, PendingCandidate) hmap"
  sm_next_candidate_id :: u64

datatype AdmissionOutcome =
  Added CandidateId instant
| AlreadyPending CandidateId instant
| AtCapacity usize
| Closed

record ExpiredCandidate =
  ec_candidate_id :: CandidateId
  ec_source :: SocketAddr

record AdmissionReport =
  ar_expired :: "ExpiredCandidate list"
  ar_outcome :: AdmissionOutcome

record ExpirationReport =
  er_expired :: "ExpiredCandidate list"
  er_next_deadline :: "instant option"

datatype SessionManagerError =
  DeadlineOverflow SocketAddr
| CandidateIdExhausted

datatype ShutdownOutcome = Closed usize | AlreadyClosed

definition SessionManager_new :: "SessionPolicy \<Rightarrow> SessionManager" where
  "SessionManager_new policy =
     \<lparr>sm_policy = policy, sm_state = Running, sm_pending_by_source = hm_empty,
      sm_next_candidate_id = 1\<rparr>"

definition next_deadline :: "SessionManager \<Rightarrow> instant option" where
  "next_deadline self =
     (if sm_state self = ManagerState.Closed then None
      else iter_min (map pc_deadline (hm_values (sm_pending_by_source self))))"

definition expire_pending :: "SessionManager \<Rightarrow> instant \<Rightarrow> SessionManager \<times> ExpirationReport" where
  "expire_pending self now =
     (if sm_state self = ManagerState.Closed then (self, \<lparr>er_expired = [], er_next_deadline = None\<rparr>)
      else
        let expired = map (\<lambda>(source, candidate). \<lparr>ec_candidate_id = pc_id candidate, ec_source = source\<rparr>)
              (filter (\<lambda>(source, candidate). now \<ge> pc_deadline candidate)
                (hm_iter (sm_pending_by_source self)));
            pending = fold hm_remove (map ec_source expired) (sm_pending_by_source self)
        in (self\<lparr>sm_pending_by_source := pending\<rparr>,
            \<lparr>er_expired = expired, er_next_deadline = iter_min (map pc_deadline (hm_values pending))\<rparr>))"

definition pending_count :: "SessionManager \<Rightarrow> usize" where
  "pending_count self = hm_len (sm_pending_by_source self)"

definition reserve_candidate_id ::
  "SessionManager \<Rightarrow> SessionManager \<times> (CandidateId, SessionManagerError) result" where
  "reserve_candidate_id self =
     (case u64_checked_add (sm_next_candidate_id self) 1 of
        None \<Rightarrow> (self, Err CandidateIdExhausted)
      | Some next \<Rightarrow>
          (self\<lparr>sm_next_candidate_id := next\<rparr>, Ok (CandidateId (sm_next_candidate_id self))))"

definition calculate_deadline ::
  "instant \<Rightarrow> duration \<Rightarrow> SocketAddr \<Rightarrow> (instant, SessionManagerError) result" where
  "calculate_deadline now timeout source =
     ok_or (instant_checked_add now timeout) (SessionManagerError.DeadlineOverflow source)"

definition admit ::
  "SessionManager \<Rightarrow> SocketAddr \<Rightarrow> instant
   \<Rightarrow> SessionManager \<times> (AdmissionReport, SessionManagerError) result" where
  "admit self source now =
     (let (self, expiration) = expire_pending self now;
          report = (\<lambda>outcome. \<lparr>ar_expired = er_expired expiration, ar_outcome = outcome\<rparr>)
      in if sm_state self = ManagerState.Closed then (self, Ok (report AdmissionOutcome.Closed))
         else case hm_get (sm_pending_by_source self) source of
           Some existing \<Rightarrow>
             (self, Ok (report (AlreadyPending (pc_id existing) (pc_deadline existing))))
         | None \<Rightarrow>
           if hm_len (sm_pending_by_source self) \<ge> sp_maximum_pending (sm_policy self)
           then (self, Ok (report (AtCapacity (sp_maximum_pending (sm_policy self)))))
           else (case calculate_deadline now (sp_handshake_timeout (sm_policy self)) source of
             Inl e \<Rightarrow> (self, Err e)
           | Inr deadline \<Rightarrow>
             (case reserve_candidate_id self of
                (self, Inl e) \<Rightarrow> (self, Err e)
              | (self, Inr candidate_id) \<Rightarrow>
                (self\<lparr>sm_pending_by_source := hm_insert source
                     \<lparr>pc_id = candidate_id, pc_created_at = now, pc_deadline = deadline\<rparr>
                     (sm_pending_by_source self)\<rparr>,
                 Ok (report (Added candidate_id deadline))))))"

definition manager_shutdown :: "SessionManager \<Rightarrow> SessionManager \<times> ShutdownOutcome" where
  "manager_shutdown self =
     (if sm_state self = ManagerState.Closed then (self, AlreadyClosed)
      else (self\<lparr>sm_pending_by_source := hm_empty, sm_state := ManagerState.Closed\<rparr>,
            ShutdownOutcome.Closed (hm_len (sm_pending_by_source self))))"

definition candidate :: "SessionManager \<Rightarrow> SocketAddr \<Rightarrow> PendingCandidateSnapshot option" where
  "candidate self source =
     (if sm_state self = ManagerState.Closed then None
      else map_option (\<lambda>record. \<lparr>ps_candidate_id = pc_id record, ps_created_at = pc_created_at record,
             ps_deadline = pc_deadline record\<rparr>) (hm_get (sm_pending_by_source self) source))"

definition remove_candidate ::
  "SessionManager \<Rightarrow> SocketAddr \<Rightarrow> CandidateId \<Rightarrow> SessionManager \<times> CandidateRemoval" where
  "remove_candidate self source observed =
     (if sm_state self = ManagerState.Closed then (self, CandidateRemoval.Closed)
      else case hm_get (sm_pending_by_source self) source of
        None \<Rightarrow> (self, NotFound)
      | Some record \<Rightarrow>
          if pc_id record \<noteq> observed then (self, CandidateMismatch (pc_id record) observed)
          else (self\<lparr>sm_pending_by_source := hm_remove source (sm_pending_by_source self)\<rparr>, Removed))"

section \<open>Invariant\<close>

text \<open>
  A closed manager owns nothing; the candidates of a running one never exceed the bound, carry
  pairwise different identifiers that were all handed out, and their deadlines lie one handshake
  timeout after their creation.
\<close>

definition manager_ok :: "SessionManager \<Rightarrow> bool" where
  "manager_ok m \<longleftrightarrow>
     hm_invar (sm_pending_by_source m) \<and>
     pending_count m \<le> sp_maximum_pending (sm_policy m) \<and>
     (sm_state m = ManagerState.Closed \<longrightarrow> sm_pending_by_source m = hm_empty) \<and>
     (\<forall>s c. hm_get (sm_pending_by_source m) s = Some c \<longrightarrow>
        candidate_value (pc_id c) < sm_next_candidate_id m \<and>
        pc_deadline c = pc_created_at c + sp_handshake_timeout (sm_policy m)) \<and>
     (\<forall>s c s' c'. hm_get (sm_pending_by_source m) s = Some c \<longrightarrow>
        hm_get (sm_pending_by_source m) s' = Some c' \<longrightarrow> pc_id c = pc_id c' \<longrightarrow> s = s')"

definition owned :: "SessionManager \<Rightarrow> SocketAddr \<Rightarrow> CandidateId option" where
  "owned m s = map_option pc_id (hm_get (sm_pending_by_source m) s)"

lemma manager_ok_new: "manager_ok (SessionManager_new policy)"
  by (simp add: manager_ok_def SessionManager_new_def pending_count_def)

lemma manager_okD:
  assumes "manager_ok m"
  shows "hm_invar (sm_pending_by_source m)" "pending_count m \<le> sp_maximum_pending (sm_policy m)"
    "sm_state m = ManagerState.Closed \<Longrightarrow> sm_pending_by_source m = hm_empty"
    "hm_get (sm_pending_by_source m) s = Some c \<Longrightarrow> candidate_value (pc_id c) < sm_next_candidate_id m"
    "hm_get (sm_pending_by_source m) s = Some c \<Longrightarrow>
      hm_get (sm_pending_by_source m) s' = Some c' \<Longrightarrow> pc_id c = pc_id c' \<Longrightarrow> s = s'"
  using assms by (auto simp: manager_ok_def)

text \<open>Every operation but admission leaves a restriction of the pending map.\<close>

lemma manager_ok_restrict:
  assumes "manager_ok m" and "hm_invar p"
    and "\<And>s c. hm_get p s = Some c \<Longrightarrow> hm_get (sm_pending_by_source m) s = Some c"
  shows "manager_ok (m\<lparr>sm_pending_by_source := p\<rparr>)"
proof -
  have sub: "dom (hm_get p) \<subseteq> dom (hm_get (sm_pending_by_source m))" using assms(3) by auto
  then have "hm_len p \<le> hm_len (sm_pending_by_source m)"
    using hm.length_iter_le [OF assms(2) manager_okD(1) [OF assms(1)]] by (simp add: hm_len_iter)
  moreover have "p = hm_empty" if "sm_state m = ManagerState.Closed"
  proof -
    have "\<forall>k. hm_get p k = None" using sub manager_okD(3) [OF assms(1) that] by auto
    then show ?thesis using hm_get_empty_iff [OF assms(2)] by (simp add: hm_defs)
  qed
  ultimately show ?thesis
    using assms unfolding manager_ok_def pending_count_def by (simp, meson)
qed

section \<open>Expiry\<close>

definition due :: "SessionManager \<Rightarrow> instant \<Rightarrow> SocketAddr \<Rightarrow> bool" where
  "due m now s = (case hm_get (sm_pending_by_source m) s of
     None \<Rightarrow> False | Some c \<Rightarrow> pc_deadline c \<le> now)"

lemma expire_pending_get:
  assumes "manager_ok m"
  shows "hm_invar (sm_pending_by_source (fst (expire_pending m now)))"
    "hm_get (sm_pending_by_source (fst (expire_pending m now))) s =
      (if due m now s then None else hm_get (sm_pending_by_source m) s)"
proof -
  note inv = manager_okD(1) [OF assms]
  show "hm_invar (sm_pending_by_source (fst (expire_pending m now)))"
    using inv by (simp add: expire_pending_def Let_def hm.fold_remove_invar)
  show "hm_get (sm_pending_by_source (fst (expire_pending m now))) s =
      (if due m now s then None else hm_get (sm_pending_by_source m) s)"
  proof (cases "sm_state m = ManagerState.Closed")
    case True
    then show ?thesis by (simp add: expire_pending_def due_def manager_okD(3) [OF assms])
  next
    case False
    have "s \<in> fst ` {x \<in> set (hm_iter (sm_pending_by_source m)). pc_deadline (snd x) \<le> now} \<longleftrightarrow> due m now s"
      using hm.iter_get [OF inv] by (force simp: due_def split: option.split)
    then show ?thesis
      using False inv
      by (simp add: expire_pending_def Let_def hm.get_fold_remove comp_def case_prod_unfold image_image)
  qed
qed

lemma expire_pending_fields [simp]:
  "sm_state (fst (expire_pending m now)) = sm_state m"
  "sm_policy (fst (expire_pending m now)) = sm_policy m"
  "sm_next_candidate_id (fst (expire_pending m now)) = sm_next_candidate_id m"
  by (simp_all add: expire_pending_def Let_def)

lemma expire_pending_ok:
  assumes "manager_ok m"
  shows "manager_ok (fst (expire_pending m now))"
proof -
  have "fst (expire_pending m now) = m\<lparr>sm_pending_by_source :=
      sm_pending_by_source (fst (expire_pending m now))\<rparr>"
    by (simp add: expire_pending_def Let_def)
  then show ?thesis
    using manager_ok_restrict [OF assms, of "sm_pending_by_source (fst (expire_pending m now))"]
      expire_pending_get [OF assms] by (metis option.distinct(1))
qed

lemma expire_pending_report:
  assumes "manager_ok m"
  shows "distinct (map ec_source (er_expired (snd (expire_pending m now))))"
    "e \<in> set (er_expired (snd (expire_pending m now))) \<longleftrightarrow>
      due m now (ec_source e) \<and> owned m (ec_source e) = Some (ec_candidate_id e)"
proof -
  note inv = manager_okD(1) [OF assms]
  show "distinct (map ec_source (er_expired (snd (expire_pending m now))))"
    using hm.iter_distinct [OF inv]
    by (simp add: expire_pending_def Let_def case_prod_unfold comp_def distinct_map_filter)
  show "e \<in> set (er_expired (snd (expire_pending m now))) \<longleftrightarrow>
      due m now (ec_source e) \<and> owned m (ec_source e) = Some (ec_candidate_id e)"
  proof (cases "sm_state m = ManagerState.Closed")
    case True
    then show ?thesis by (simp add: expire_pending_def due_def manager_okD(3) [OF assms])
  next
    case False
    then show ?thesis
      using hm.iter_get [OF inv]
      by (cases e) (force simp: expire_pending_def Let_def due_def owned_def split: option.splits)
  qed
qed

section \<open>Admission, removal, shutdown\<close>

text \<open>The outcome of admission on an already expired manager.\<close>

lemma admit_cases:
  assumes ok: "manager_ok m" and run: "sm_state m = Running"
    and exp: "expire_pending m now = (m1, rep)"
  obtains c where "hm_get (sm_pending_by_source m1) s = Some c"
      "admit m s now = (m1, Ok \<lparr>ar_expired = er_expired rep,
        ar_outcome = AlreadyPending (pc_id c) (pc_deadline c)\<rparr>)"
    | "hm_get (sm_pending_by_source m1) s = None"
      "sp_maximum_pending (sm_policy m) \<le> pending_count m1"
      "admit m s now = (m1, Ok \<lparr>ar_expired = er_expired rep,
        ar_outcome = AtCapacity (sp_maximum_pending (sm_policy m))\<rparr>)"
    | e where "admit m s now = (m1, Err e)"
      "instant_max < now + sp_handshake_timeout (sm_policy m) \<or> sm_next_candidate_id m = - 1"
    | deadline where "hm_get (sm_pending_by_source m1) s = None"
      "pending_count m1 < sp_maximum_pending (sm_policy m)"
      "deadline = now + sp_handshake_timeout (sm_policy m)"
      "unat (sm_next_candidate_id m + 1) = unat (sm_next_candidate_id m) + 1"
      "admit m s now = (m1\<lparr>sm_next_candidate_id := sm_next_candidate_id m + 1,
          sm_pending_by_source := hm_insert s \<lparr>pc_id = CandidateId (sm_next_candidate_id m),
            pc_created_at = now, pc_deadline = deadline\<rparr> (sm_pending_by_source m1)\<rparr>,
        Ok \<lparr>ar_expired = er_expired rep,
          ar_outcome = Added (CandidateId (sm_next_candidate_id m)) deadline\<rparr>)"
proof -
  have f: "sm_state m1 = Running" "sm_policy m1 = sm_policy m"
    "sm_next_candidate_id m1 = sm_next_candidate_id m"
    using expire_pending_fields [of m now] exp run by auto
  show thesis
  proof (cases "hm_get (sm_pending_by_source m1) s")
    case (Some c)
    then show thesis using that(1) by (simp add: admit_def exp f)
  next
    case None
    show thesis
    proof (cases "sp_maximum_pending (sm_policy m) \<le> hm_len (sm_pending_by_source m1)")
      case True
      then show thesis using that(2) None by (simp add: admit_def exp f pending_count_def)
    next
      case cap: False
      show thesis
      proof (cases "instant_max < now + sp_handshake_timeout (sm_policy m)")
        case True
        then have "calculate_deadline now (sp_handshake_timeout (sm_policy m)) s
            = Err (SessionManagerError.DeadlineOverflow s)"
          by (simp add: calculate_deadline_def ok_or_def split: option.split)
        then show thesis using that(3) None cap True by (simp add: admit_def exp f)
      next
        case False
        then have d: "calculate_deadline now (sp_handshake_timeout (sm_policy m)) s
            = Ok (now + sp_handshake_timeout (sm_policy m))"
          by (simp add: calculate_deadline_def)
        show thesis
        proof (cases "u64_checked_add (sm_next_candidate_id m) 1")
          case n: None
          then have "sm_next_candidate_id m = - 1"
            using u64_bound [of "sm_next_candidate_id m"]
            by (simp add: u64_checked_add_None word_unat_eq_iff unat_max_u64)
          then show thesis
            using that(3) None cap d n by (simp add: admit_def exp f reserve_candidate_id_def)
        next
          case n: (Some nxt)
          then have "nxt = sm_next_candidate_id m + 1" by (simp add: u64_checked_add_def split: if_splits)
          then show thesis
            using that(4) None cap d n u64_checked_add_Some [of "sm_next_candidate_id m" 1 nxt]
            by (simp add: admit_def exp f reserve_candidate_id_def pending_count_def)
        qed
      qed
    qed
  qed
qed

lemma admit_closed:
  "sm_state m = ManagerState.Closed \<Longrightarrow>
   admit m s now = (m, Ok \<lparr>ar_expired = [], ar_outcome = AdmissionOutcome.Closed\<rparr>)"
  by (simp add: admit_def expire_pending_def)

lemma manager_ok_insert:
  assumes ok: "manager_ok m" and run: "sm_state m = Running"
    and new: "hm_get (sm_pending_by_source m) s = None"
    and room: "pending_count m < sp_maximum_pending (sm_policy m)"
    and succ: "unat (sm_next_candidate_id m + 1) = unat (sm_next_candidate_id m) + 1"
  shows "manager_ok (m\<lparr>sm_next_candidate_id := sm_next_candidate_id m + 1,
    sm_pending_by_source := hm_insert s \<lparr>pc_id = CandidateId (sm_next_candidate_id m),
      pc_created_at = now, pc_deadline = now + sp_handshake_timeout (sm_policy m)\<rparr>
      (sm_pending_by_source m)\<rparr>)"
proof -
  note inv = manager_okD(1) [OF ok]
  have lt: "sm_next_candidate_id m < sm_next_candidate_id m + 1"
    using succ by (simp add: word_less_nat_alt)
  have older: "candidate_value (pc_id c) < sm_next_candidate_id m + 1"
    "pc_id c \<noteq> CandidateId (sm_next_candidate_id m)"
    if "hm_get (sm_pending_by_source m) s' = Some c" for s' c
    using manager_okD(4) [OF ok that] lt by (auto dest: less_trans)
  have "hm_len (hm_insert s c (sm_pending_by_source m)) = Suc (pending_count m)" for c
    using hm.length_iter_insert_new [OF inv new] by (simp add: hm_len_iter pending_count_def)
  then show ?thesis
    using ok run room lt older inv
    by (auto simp: manager_ok_def pending_count_def hm.get_insert hm.invar_insert split: if_splits
        dest: older(2) not_sym [OF older(2)])
qed

lemma admit_ok: "manager_ok m \<Longrightarrow> manager_ok (fst (admit m s now))"
proof (cases "sm_state m")
  case Running
  assume ok: "manager_ok m"
  obtain m1 rep where exp: "expire_pending m now = (m1, rep)" by (cases "expire_pending m now")
  have ok1: "manager_ok m1" and f: "sm_state m1 = Running" "sm_policy m1 = sm_policy m"
    "sm_next_candidate_id m1 = sm_next_candidate_id m"
    using expire_pending_ok [OF ok, of now] expire_pending_fields [of m now] exp Running by auto
  show ?thesis
    by (rule admit_cases [OF ok Running exp, of s])
      (use ok1 f manager_ok_insert [OF ok1, of s now] in simp_all)
qed (simp add: admit_closed)

lemma remove_candidate_ok:
  assumes "manager_ok m"
  shows "manager_ok (fst (remove_candidate m s i))"
proof -
  have "manager_ok (m\<lparr>sm_pending_by_source := hm_remove s (sm_pending_by_source m)\<rparr>)"
    using manager_okD(1) [OF assms]
    by (intro manager_ok_restrict [OF assms]) (auto simp: hm_laws split: if_splits)
  with assms show ?thesis by (simp add: remove_candidate_def split: option.split)
qed

lemma manager_shutdown_ok: "manager_ok m \<Longrightarrow> manager_ok (fst (manager_shutdown m))"
  by (simp add: manager_shutdown_def manager_ok_def pending_count_def)

text \<open>Operations of a manager, for statements about any sequence of calls.\<close>

datatype ManagerOp =
  OpAdmit SocketAddr instant
| OpExpire instant
| OpRemove SocketAddr CandidateId
| OpShutdown

fun manager_apply :: "ManagerOp \<Rightarrow> SessionManager \<Rightarrow> SessionManager" where
  "manager_apply (OpAdmit s t) m = fst (admit m s t)"
| "manager_apply (OpExpire t) m = fst (expire_pending m t)"
| "manager_apply (OpRemove s i) m = fst (remove_candidate m s i)"
| "manager_apply OpShutdown m = fst (manager_shutdown m)"

lemma manager_apply_ok: "manager_ok m \<Longrightarrow> manager_ok (manager_apply op m)"
  by (cases op) (simp_all add: admit_ok expire_pending_ok remove_candidate_ok manager_shutdown_ok)

lemma manager_run_ok: "manager_ok m \<Longrightarrow> manager_ok (fold manager_apply ops m)"
  by (induction ops arbitrary: m) (simp_all add: manager_apply_ok)

lemma manager_apply_closed: "sm_state m = ManagerState.Closed \<Longrightarrow> manager_apply op m = m"
  by (cases op) (simp_all add: admit_closed expire_pending_def remove_candidate_def manager_shutdown_def)

lemma manager_run_closed: "sm_state m = ManagerState.Closed \<Longrightarrow> fold manager_apply ops m = m"
  by (induction ops) (simp_all add: manager_apply_closed)

lemma manager_apply_policy [simp]: "sm_policy (manager_apply op m) = sm_policy m"
proof (cases op)
  case (OpAdmit s t)
  show ?thesis
    unfolding OpAdmit
    by (auto simp: admit_def expire_pending_def reserve_candidate_id_def Let_def
        split: prod.splits option.splits sum.splits if_splits)
qed (simp_all add: remove_candidate_def manager_shutdown_def split: option.split)

lemma manager_run_policy [simp]: "sm_policy (fold manager_apply ops m) = sm_policy m"
  by (induction ops arbitrary: m) simp_all

lemma manager_apply_next_id:
  "sm_next_candidate_id m \<le> sm_next_candidate_id (manager_apply op m)"
proof (cases op)
  case (OpAdmit s t)
  have le: "w \<le> n" if "u64_checked_add w 1 = Some n" for w n
    using that by (simp add: u64_checked_add_Some word_le_nat_alt)
  show ?thesis
    unfolding OpAdmit
    by (auto simp: admit_def expire_pending_def reserve_candidate_id_def Let_def dest: le
        split: prod.splits option.splits sum.splits if_splits)
qed (simp_all add: remove_candidate_def manager_shutdown_def split: option.split)

section \<open>The view of the server\<close>

text \<open>
  A book of candidates: which candidate a source owns, and how many there are. \<open>keeps_book\<close> is the
  relation between a book and a registry of attempts kept beside it; the lemmas say how the
  registry has to follow the book.
\<close>

locale candidate_book =
  fixes holds :: "'m \<Rightarrow> 's \<Rightarrow> 'i option"
    and number :: "'m \<Rightarrow> nat"
    and valid :: "'m \<Rightarrow> bool"
  assumes holds_inj: "valid m \<Longrightarrow> holds m s = Some i \<Longrightarrow> holds m s' = Some i \<Longrightarrow> s = s'"
    and number_card: "valid m \<Longrightarrow> number m = card (dom (holds m))"
    and holds_finite: "valid m \<Longrightarrow> finite (dom (holds m))"
begin

definition keeps_book :: "'m \<Rightarrow> ('i \<rightharpoonup> 's) \<Rightarrow> bool" where
  "keeps_book m reg \<longleftrightarrow> (\<forall>i s. reg i = Some s \<longleftrightarrow> holds m s = Some i)"

lemma keeps_book_number:
  assumes "valid m" and "keeps_book m reg"
  shows "number m = card (dom reg)"
proof -
  have "bij_betw (\<lambda>i. the (reg i)) (dom reg) (dom (holds m))"
  proof (rule bij_betwI')
    fix x y assume "x \<in> dom reg" "y \<in> dom reg"
    then show "(the (reg x) = the (reg y)) = (x = y)"
      using assms(2) unfolding keeps_book_def by (metis domD option.inject option.sel)
  next
    fix x assume "x \<in> dom reg"
    then show "the (reg x) \<in> dom (holds m)"
      using assms(2) unfolding keeps_book_def by (metis domD domI option.sel)
  next
    fix s assume "s \<in> dom (holds m)"
    then obtain i where "reg i = Some s" using assms(2) by (auto simp: keeps_book_def)
    then show "\<exists>x \<in> dom reg. s = the (reg x)" by (intro bexI [of _ i]) auto
  qed
  then show ?thesis using number_card [OF assms(1)] by (simp add: bij_betw_same_card)
qed

lemma keeps_book_insert:
  assumes "keeps_book m reg" and "holds m s = None" and "\<forall>s. holds m s \<noteq> Some i"
    and "holds m' = (holds m)(s \<mapsto> i)"
  shows "keeps_book m' (reg(i \<mapsto> s))"
  using assms unfolding keeps_book_def by auto

lemma keeps_book_remove:
  assumes "keeps_book m reg" and "holds m s = Some i" and "valid m"
    and "holds m' = (holds m)(s := None)"
  shows "keeps_book m' (reg(i := None))"
  using assms holds_inj [OF assms(3)] unfolding keeps_book_def by auto

lemma keeps_book_restrict:
  assumes "keeps_book m reg" and "valid m"
    and "\<And>s. holds m' s = (if P s then None else holds m s)"
    and "\<And>i. reg' i = (if \<exists>s. P s \<and> holds m s = Some i then None else reg i)"
  shows "keeps_book m' reg'"
  unfolding keeps_book_def
proof (intro allI)
  fix i s
  have "P s" if "P s'" "holds m s' = Some i" "holds m s = Some i" for s'
    using holds_inj [OF assms(2) that(2,3)] that(1) by simp
  then show "reg' i = Some s \<longleftrightarrow> holds m' s = Some i"
    using assms(1,3,4) by (auto simp: keeps_book_def)
qed

end

lemma dom_owned: "dom (owned m) = dom (hm_get (sm_pending_by_source m))"
  by (auto simp: owned_def)

interpretation book: candidate_book owned pending_count manager_ok
proof unfold_locales
  fix m :: SessionManager and s s' i
  assume ok: "manager_ok m"
  show "s = s'" if "owned m s = Some i" "owned m s' = Some i"
    using that manager_okD(5) [OF ok] by (auto simp: owned_def)
  show "pending_count m = card (dom (owned m))"
    using hm_len_card [OF manager_okD(1) [OF ok]] by (simp add: pending_count_def dom_owned)
  show "finite (dom (owned m))"
    using hm.finite_dom [OF manager_okD(1) [OF ok]] by (simp add: dom_owned)
qed

section \<open>Properties\<close>

text \<open>Admission is bounded for every sequence of calls: a manager never holds more candidates
  than its policy allows, no two of them have the same source or the same identifier, and their
  deadlines lie exactly one handshake timeout after their admission.\<close>

theorem manager_bounded:
  "let m = fold manager_apply ops (SessionManager_new policy);
       pending = hm_iter (sm_pending_by_source m)
   in length pending \<le> sp_maximum_pending policy \<and>
      distinct (map fst pending) \<and> distinct (map (pc_id \<circ> snd) pending) \<and>
      list_all (\<lambda>(s, c). pc_deadline c = pc_created_at c + sp_handshake_timeout policy) pending"
proof -
  let ?m = "fold manager_apply ops (SessionManager_new policy)"
  have ok: "manager_ok ?m" by (rule manager_run_ok [OF manager_ok_new])
  have pol: "sm_policy ?m = policy" by (simp add: SessionManager_new_def)
  note inv = manager_okD(1) [OF ok] and it = hm.iter_get [OF manager_okD(1) [OF ok]]
  have d: "distinct (map fst (hm_iter (sm_pending_by_source ?m)))" by (rule hm.iter_distinct [OF inv])
  have "inj_on (pc_id \<circ> snd) (set (hm_iter (sm_pending_by_source ?m)))"
  proof (rule inj_onI)
    fix x y assume "x \<in> set (hm_iter (sm_pending_by_source ?m))"
      "y \<in> set (hm_iter (sm_pending_by_source ?m))" "(pc_id \<circ> snd) x = (pc_id \<circ> snd) y"
    then have g: "hm_get (sm_pending_by_source ?m) (fst x) = Some (snd x)"
      "hm_get (sm_pending_by_source ?m) (fst y) = Some (snd y)" "pc_id (snd x) = pc_id (snd y)"
      using it by (metis prod.collapse comp_apply)+
    then have "fst x = fst y" using manager_okD(5) [OF ok] by blast
    with g show "x = y" by (simp add: prod_eq_iff)
  qed
  then have "distinct (map (pc_id \<circ> snd) (hm_iter (sm_pending_by_source ?m)))"
    using d by (simp add: distinct_map)
  moreover have "pc_deadline c = pc_created_at c + sp_handshake_timeout policy"
    if "(s, c) \<in> set (hm_iter (sm_pending_by_source ?m))" for s c
    using that it ok pol by (auto simp: manager_ok_def)
  ultimately show ?thesis
    using manager_okD(2) [OF ok] d pol
    by (auto simp: Let_def list_all_iff pending_count_def hm_len_iter)
qed

text \<open>Expiry is exact: it removes the candidates whose deadline has been reached and only those,
  reports each removed candidate with its identifier and source, and the deadline it returns is the
  earliest among those that remain, strictly in the future.\<close>

theorem expire_pending_exact:
  assumes "manager_ok m"
  shows "case expire_pending m now of (m', rep) \<Rightarrow>
    (\<forall>s. hm_get (sm_pending_by_source m') s =
       (case hm_get (sm_pending_by_source m) s of
          Some c \<Rightarrow> if pc_deadline c \<le> now then None else Some c | None \<Rightarrow> None)) \<and>
    (\<forall>s i. \<lparr>ec_candidate_id = i, ec_source = s\<rparr> \<in> set (er_expired rep) \<longleftrightarrow>
       (\<exists>c. hm_get (sm_pending_by_source m) s = Some c \<and> pc_id c = i \<and> pc_deadline c \<le> now)) \<and>
    er_next_deadline rep = next_deadline m' \<and>
    (\<forall>t. er_next_deadline rep = Some t \<longrightarrow> now < t)"
proof -
  obtain m' rep where e: "expire_pending m now = (m', rep)" by (cases "expire_pending m now")
  have get: "hm_get (sm_pending_by_source m') s =
       (case hm_get (sm_pending_by_source m) s of
          Some c \<Rightarrow> if pc_deadline c \<le> now then None else Some c | None \<Rightarrow> None)" for s
    using expire_pending_get(2) [OF assms, of now s] by (simp add: e due_def split: option.splits)
  have mem: "\<lparr>ec_candidate_id = i, ec_source = s\<rparr> \<in> set (er_expired rep) \<longleftrightarrow>
       (\<exists>c. hm_get (sm_pending_by_source m) s = Some c \<and> pc_id c = i \<and> pc_deadline c \<le> now)" for s i
    using expire_pending_report(2) [OF assms, of _ now]
    by (auto simp: e due_def owned_def split: option.splits)
  have nd: "er_next_deadline rep = next_deadline m'"
    using e by (auto simp: expire_pending_def next_deadline_def Let_def split: if_splits)
  have "now < t" if "er_next_deadline rep = Some t" for t
  proof -
    have "t \<in> pc_deadline ` set (hm_values (sm_pending_by_source m'))"
      using that nd by (auto simp: next_deadline_def iter_min_Some split: if_splits)
    then obtain s c where "hm_get (sm_pending_by_source m') s = Some c" "t = pc_deadline c"
      using hm_values_get [of "sm_pending_by_source m'"] expire_pending_get(1) [OF assms, of now]
      by (auto simp: e)
    then show ?thesis using get [of s] by (auto split: option.splits if_splits)
  qed
  with get mem nd show ?thesis by (simp add: e)
qed

theorem expire_pending_exact_witness:
  "case expire_pending (SessionManager_new
      \<lparr>sp_maximum_pending = 2, sp_handshake_timeout = 5, sp_idle_timeout = 9\<rparr>) 7 of (m', rep) \<Rightarrow>
    (\<forall>t. er_next_deadline rep = Some t \<longrightarrow> 7 < t)"
  using expire_pending_exact [OF manager_ok_new,
      of 7 "\<lparr>sp_maximum_pending = 2, sp_handshake_timeout = 5, sp_idle_timeout = 9\<rparr>"]
  by (auto split: prod.splits)

end
