(* ===== verification/Session_Server.thy ===== *)
theory Session_Server
  imports Session_Manager
begin

text \<open>
  The server's handshake policy (\<open>src/session/server.rs\<close>): a state machine over the pending
  manager and a registry that binds every pending candidate to the client attempt it answers.
  Each operation is a function from the handshake state to the new state and a report or an error.
\<close>

record ServerCandidate =
  sc_candidate_id :: CandidateId
  sc_source :: SocketAddr
  sc_client_attempt_id :: ClientAttemptId

record EstablishedServerSession =
  ess_metadata :: EstablishedSessionMetadata
  ess_peer_endpoint :: SocketAddr
  ess_completed_candidate_id :: CandidateId
  ess_client_attempt_id :: ClientAttemptId
  ess_established_at :: instant

datatype ServerHandshakeState =
  Listening
| Established EstablishedServerSession
| Closed

record ServerHandshake =
  sh_pending :: SessionManager
  sh_candidate_by_id :: "(CandidateId, ServerCandidate) hmap"
  sh_state :: ServerHandshakeState

datatype ServerInboundKind = ClientHello | ClientFinish | Data | OtherHandshake

datatype ServerHelloAdmission = NewCandidate | ExistingCandidate

datatype ServerDropReason =
  PendingCapacityReached usize
| NoPendingCandidate
| StaleCandidate CandidateId CandidateId
| StaleClientAttempt ClientAttemptId ClientAttemptId
| AuthenticationFailed
| UnexpectedMessage "ServerInboundKind option" ServerInboundKind
| PreSessionData
| AnotherPeerIsActive SocketAddr
| SessionUnavailable

datatype ServerEffect =
  SendServerHello SocketAddr CandidateId ClientAttemptId ServerHelloAdmission
| SendServerFinish SocketAddr CandidateId ClientAttemptId SessionId
| SessionEstablished SocketAddr SessionId
| Dropped SocketAddr ServerDropReason
| Closed usize bool
| AlreadyClosed

record ExpiredServerCandidate =
  esc_candidate_id :: CandidateId
  esc_source :: SocketAddr
  esc_client_attempt_id :: ClientAttemptId

record ServerReport =
  sr_expired :: "ExpiredServerCandidate list"
  sr_effects :: "ServerEffect list"

datatype ServerDataDecision =
  RejectPreSession
| PermitEstablished SessionId
| RejectUnexpectedSource SocketAddr SocketAddr
| RejectUnknownSession SessionId SessionId
| RejectClosed

datatype ServerStateName = Listening | Established | Closed

datatype ServerOperation =
  ApplyValidClientHello
| ApplyAuthenticatedClientFinish
| ApplyAuthenticationFailure
| ApplyUnexpectedMessage
| CheckTimeouts
| Shutdown

record ServerCandidateSnapshot =
  scs_candidate_id :: CandidateId
  scs_source :: SocketAddr
  scs_client_attempt_id :: ClientAttemptId

datatype ServerCandidateAbortOutcome = Removed

datatype ServerClientFinishDecision =
  PermitNew CandidateId ClientAttemptId
| PermitDuplicate CandidateId ClientAttemptId EstablishedSessionMetadata
| Drop ServerDropReason

record ServerClientFinishPreAuthReport =
  pr_expired :: "ExpiredServerCandidate list"
  pr_decision :: ServerClientFinishDecision

datatype ServerStateError =
  PendingManager ServerOperation "SocketAddr option" SessionManagerError
| CandidateRegistryMissing CandidateId SocketAddr
| CandidateRegistryOrphaned CandidateId SocketAddr
| CandidateSourceMismatch CandidateId SocketAddr SocketAddr
| CandidateRegistryCountMismatch usize usize
| PendingManagerClosedWhileListening
| PendingCandidatesOutsideListening ServerStateName usize
| CandidateAbortMissing SocketAddr CandidateId ClientAttemptId
| CandidateAbortCandidateMismatch SocketAddr CandidateId CandidateId
| CandidateAbortAttemptMismatch SocketAddr CandidateId ClientAttemptId ClientAttemptId

type_synonym 'a server_step = "ServerHandshake \<times> ('a, ServerStateError) result"

definition ServerHandshake_new :: "SessionPolicy \<Rightarrow> ServerHandshake" where
  "ServerHandshake_new policy =
     \<lparr>sh_pending = SessionManager_new policy, sh_candidate_by_id = hm_empty,
      sh_state = ServerHandshakeState.Listening\<rparr>"

definition state_name :: "ServerHandshake \<Rightarrow> ServerStateName" where
  "state_name self = (case sh_state self of
     ServerHandshakeState.Listening \<Rightarrow> ServerStateName.Listening
   | ServerHandshakeState.Closed \<Rightarrow> ServerStateName.Closed
   | ServerHandshakeState.Established _ \<Rightarrow> ServerStateName.Established)"

text \<open>A report of a single dropped message.\<close>

definition dropped ::
  "ExpiredServerCandidate list \<Rightarrow> SocketAddr \<Rightarrow> ServerDropReason \<Rightarrow> ServerReport" where
  "dropped expired source reason = \<lparr>sr_expired = expired, sr_effects = [Dropped source reason]\<rparr>"

section \<open>Private helpers\<close>

fun verify_bindings ::
  "SessionManager \<Rightarrow> ServerCandidate list \<Rightarrow> (unit, ServerStateError) result" where
  "verify_bindings pending [] = Ok ()"
| "verify_bindings pending (binding # rest) =
     (case candidate pending (sc_source binding) of
        None \<Rightarrow> Err (CandidateRegistryOrphaned (sc_candidate_id binding) (sc_source binding))
      | Some snapshot \<Rightarrow>
          if ps_candidate_id snapshot \<noteq> sc_candidate_id binding
          then Err (CandidateRegistryOrphaned (sc_candidate_id binding) (sc_source binding))
          else verify_bindings pending rest)"

definition verify_candidate_maps :: "ServerHandshake \<Rightarrow> (unit, ServerStateError) result" where
  "verify_candidate_maps self =
     (if sh_state self \<noteq> ServerHandshakeState.Listening \<and> hm_len (sh_candidate_by_id self) \<noteq> 0
      then Err (PendingCandidatesOutsideListening (state_name self)
                  (hm_len (sh_candidate_by_id self)))
      else and_then (verify_bindings (sh_pending self) (hm_values (sh_candidate_by_id self))) (\<lambda>_.
        if pending_count (sh_pending self) \<noteq> hm_len (sh_candidate_by_id self)
        then Err (CandidateRegistryCountMismatch (pending_count (sh_pending self))
                    (hm_len (sh_candidate_by_id self)))
        else Ok ()))"

text \<open>The loop over the expired candidates; the registry is the state.\<close>

fun reconcile ::
  "(CandidateId, ServerCandidate) hmap \<Rightarrow> ExpiredCandidate list
   \<Rightarrow> (CandidateId, ServerCandidate) hmap \<times> (ExpiredServerCandidate list, ServerStateError) result"
where
  "reconcile registry [] = (registry, Ok [])"
| "reconcile registry (item # items) =
     (case hm_get registry (ec_candidate_id item) of
        None \<Rightarrow> (registry, Err (CandidateRegistryMissing (ec_candidate_id item) (ec_source item)))
      | Some binding \<Rightarrow>
        let registry = hm_remove (ec_candidate_id item) registry in
        if sc_source binding \<noteq> ec_source item
        then (registry, Err (CandidateSourceMismatch (ec_candidate_id item) (ec_source item)
                              (sc_source binding)))
        else bind_st (reconcile registry items) (\<lambda>registry expired.
          (registry, Ok (\<lparr>esc_candidate_id = ec_candidate_id item, esc_source = sc_source binding,
             esc_client_attempt_id = sc_client_attempt_id binding\<rparr> # expired))))"

definition expire_and_reconcile ::
  "ServerHandshake \<Rightarrow> instant \<Rightarrow> ExpiredServerCandidate list server_step" where
  "expire_and_reconcile self now =
     (if sh_state self \<noteq> ServerHandshakeState.Listening
      then (if hm_len (sh_candidate_by_id self) \<noteq> 0
            then (self, Err (PendingCandidatesOutsideListening
                    (case sh_state self of
                       ServerHandshakeState.Established _ \<Rightarrow> ServerStateName.Established
                     | _ \<Rightarrow> ServerStateName.Listening)
                    (hm_len (sh_candidate_by_id self))))
            else (self, Ok []))
      else
        let (pending, manager_report) = expire_pending (sh_pending self) now;
            (registry, result) = reconcile (sh_candidate_by_id self) (er_expired manager_report);
            self = self\<lparr>sh_pending := pending, sh_candidate_by_id := registry\<rparr>
        in bind_st (self, result) (\<lambda>self expired.
             bind_st (self, verify_candidate_maps self) (\<lambda>self _. (self, Ok expired))))"

definition current_candidate ::
  "ServerHandshake \<Rightarrow> SocketAddr \<Rightarrow> (ServerCandidate option, ServerStateError) result" where
  "current_candidate self source =
     (case candidate (sh_pending self) source of
        None \<Rightarrow> Ok None
      | Some snapshot \<Rightarrow>
        (case hm_get (sh_candidate_by_id self) (ps_candidate_id snapshot) of
           None \<Rightarrow> Err (CandidateRegistryMissing (ps_candidate_id snapshot) source)
         | Some binding \<Rightarrow>
             if sc_source binding \<noteq> source
             then Err (CandidateSourceMismatch (ps_candidate_id snapshot) source (sc_source binding))
             else Ok (Some binding)))"

definition remove_exact_candidate :: "ServerHandshake \<Rightarrow> ServerCandidate \<Rightarrow> unit server_step" where
  "remove_exact_candidate self binding =
     (let (pending, outcome) = remove_candidate (sh_pending self) (sc_source binding)
            (sc_candidate_id binding);
          self = self\<lparr>sh_pending := pending\<rparr>
      in case outcome of
           NotFound \<Rightarrow> (self, Err (CandidateRegistryOrphaned (sc_candidate_id binding)
                                   (sc_source binding)))
         | CandidateMismatch _ observed \<Rightarrow>
             (self, Err (CandidateRegistryOrphaned observed (sc_source binding)))
         | CandidateRemoval.Closed \<Rightarrow> (self, Err PendingManagerClosedWhileListening)
         | CandidateRemoval.Removed \<Rightarrow>
           (case hm_get (sh_candidate_by_id self) (sc_candidate_id binding) of
              None \<Rightarrow> (self, Err (CandidateRegistryMissing (sc_candidate_id binding)
                                     (sc_source binding)))
            | Some removed \<Rightarrow>
              let self = self\<lparr>sh_candidate_by_id :=
                    hm_remove (sc_candidate_id binding) (sh_candidate_by_id self)\<rparr>
              in if sc_source removed \<noteq> sc_source binding
                 then (self, Err (CandidateSourceMismatch (sc_candidate_id binding)
                               (sc_source binding) (sc_source removed)))
                 else (self, Ok ())))"

section \<open>Operations\<close>

definition admit_hello ::
  "ServerHandshake \<Rightarrow> SocketAddr \<Rightarrow> ClientAttemptId \<Rightarrow> ExpiredServerCandidate list
   \<Rightarrow> AdmissionOutcome \<Rightarrow> ServerReport server_step" where
  "admit_hello self source client_attempt_id expired outcome = (case outcome of
     Added candidate_id _ \<Rightarrow>
       let self = self\<lparr>sh_candidate_by_id := hm_insert candidate_id
             \<lparr>sc_candidate_id = candidate_id, sc_source = source,
              sc_client_attempt_id = client_attempt_id\<rparr> (sh_candidate_by_id self)\<rparr>
       in bind_st (self, verify_candidate_maps self) (\<lambda>self _.
            (self, Ok \<lparr>sr_expired = expired, sr_effects =
               [SendServerHello source candidate_id client_attempt_id NewCandidate]\<rparr>))
   | AlreadyPending candidate_id _ \<Rightarrow>
       bind_st (self, current_candidate self source) (\<lambda>self binding.
         let stale = (case binding of
               Some val \<Rightarrow> sc_client_attempt_id val \<noteq> client_attempt_id | None \<Rightarrow> False)
         in if stale
            then (self, Ok (dropped expired source
                   (StaleClientAttempt (sc_client_attempt_id (the binding)) client_attempt_id)))
            else (self, Ok \<lparr>sr_expired = expired, sr_effects =
                   [SendServerHello source candidate_id client_attempt_id ExistingCandidate]\<rparr>))
   | AtCapacity maximum_pending \<Rightarrow>
       (self, Ok (dropped expired source (PendingCapacityReached maximum_pending)))
   | AdmissionOutcome.Closed \<Rightarrow> (self, Err PendingManagerClosedWhileListening))"

definition handle_valid_client_hello ::
  "ServerHandshake \<Rightarrow> SocketAddr \<Rightarrow> ClientAttemptId \<Rightarrow> instant \<Rightarrow> ServerReport server_step" where
  "handle_valid_client_hello self source client_attempt_id now =
     bind_st (expire_and_reconcile self now) (\<lambda>self expired.
       case sh_state self of
         ServerHandshakeState.Closed \<Rightarrow> (self, Ok (dropped expired source SessionUnavailable))
       | ServerHandshakeState.Established session \<Rightarrow>
           (self, Ok (dropped expired source (AnotherPeerIsActive (ess_peer_endpoint session))))
       | ServerHandshakeState.Listening \<Rightarrow>
         (case admit (sh_pending self) source now of
            (pending, Inl e) \<Rightarrow>
              (self\<lparr>sh_pending := pending\<rparr>,
               Err (PendingManager ApplyValidClientHello (Some source) e))
          | (pending, Inr admission) \<Rightarrow>
              admit_hello (self\<lparr>sh_pending := pending\<rparr>) source client_attempt_id expired
                (ar_outcome admission)))"

definition check_timeouts :: "ServerHandshake \<Rightarrow> instant \<Rightarrow> ServerReport server_step" where
  "check_timeouts self now =
     bind_st (expire_and_reconcile self now) (\<lambda>self expired.
       (self, Ok \<lparr>sr_expired = expired, sr_effects = []\<rparr>))"

definition candidate_owned_by ::
  "ServerHandshake \<Rightarrow> SocketAddr \<Rightarrow> (ServerCandidateSnapshot option, ServerStateError) result" where
  "candidate_owned_by self source =
     and_then (current_candidate self source) (\<lambda>binding. Ok (map_option (\<lambda>c.
       \<lparr>scs_candidate_id = sc_candidate_id c, scs_source = sc_source c,
        scs_client_attempt_id = sc_client_attempt_id c\<rparr>) binding))"

definition precheck_client_finish ::
  "ServerHandshake \<Rightarrow> SocketAddr \<Rightarrow> ClientAttemptId \<Rightarrow> instant
   \<Rightarrow> ServerClientFinishPreAuthReport server_step" where
  "precheck_client_finish self source attempt now =
     bind_st (check_timeouts self now) (\<lambda>self timeout_report.
       let report = (\<lambda>decision. \<lparr>pr_expired = sr_expired timeout_report, pr_decision = decision\<rparr>)
       in case sh_state self of
            ServerHandshakeState.Closed \<Rightarrow> (self, Ok (report (Drop SessionUnavailable)))
          | ServerHandshakeState.Established session \<Rightarrow>
              if source = ess_peer_endpoint session \<and> attempt = ess_client_attempt_id session
              then (self, Ok (report (PermitDuplicate (ess_completed_candidate_id session)
                                        (ess_client_attempt_id session) (ess_metadata session))))
              else (self, Ok (report (Drop (AnotherPeerIsActive (ess_peer_endpoint session)))))
          | ServerHandshakeState.Listening \<Rightarrow>
              bind_st (self, candidate_owned_by self source) (\<lambda>self owner. case owner of
                None \<Rightarrow> (self, Ok (report (Drop NoPendingCandidate)))
              | Some owner \<Rightarrow>
                  if attempt \<noteq> scs_client_attempt_id owner
                  then (self, Ok (report (Drop
                         (StaleClientAttempt (scs_client_attempt_id owner) attempt))))
                  else (self, Ok (report (PermitNew (scs_candidate_id owner)
                         (scs_client_attempt_id owner))))))"

definition establish ::
  "ServerHandshake \<Rightarrow> ServerCandidate \<Rightarrow> SocketAddr \<Rightarrow> EstablishedSessionMetadata \<Rightarrow> instant
   \<Rightarrow> ExpiredServerCandidate list \<Rightarrow> ServerReport server_step" where
  "establish self binding source metadata now expired =
     bind_st (remove_exact_candidate self binding) (\<lambda>self _.
       (self\<lparr>sh_pending := fst (manager_shutdown (sh_pending self)),
             sh_candidate_by_id := hm_empty,
             sh_state := ServerHandshakeState.Established
               \<lparr>ess_metadata = metadata, ess_peer_endpoint = source,
                ess_completed_candidate_id = sc_candidate_id binding,
                ess_client_attempt_id = sc_client_attempt_id binding, ess_established_at = now\<rparr>\<rparr>,
        Ok \<lparr>sr_expired = expired, sr_effects =
          [SendServerFinish source (sc_candidate_id binding) (sc_client_attempt_id binding)
             (session_id metadata),
           SessionEstablished source (session_id metadata)]\<rparr>))"

definition handle_authenticated_client_finish ::
  "ServerHandshake \<Rightarrow> SocketAddr \<Rightarrow> CandidateId \<Rightarrow> ClientAttemptId \<Rightarrow> EstablishedSessionMetadata
   \<Rightarrow> instant \<Rightarrow> ServerReport server_step" where
  "handle_authenticated_client_finish self source candidate_id client_attempt_id metadata now =
     bind_st (expire_and_reconcile self now) (\<lambda>self expired.
       case sh_state self of
         ServerHandshakeState.Closed \<Rightarrow> (self, Ok (dropped expired source SessionUnavailable))
       | ServerHandshakeState.Established session \<Rightarrow>
           if source = ess_peer_endpoint session \<and>
              candidate_id = ess_completed_candidate_id session \<and>
              client_attempt_id = ess_client_attempt_id session
           then (self, Ok \<lparr>sr_expired = expired, sr_effects =
                  [SendServerFinish source candidate_id client_attempt_id
                     (session_id (ess_metadata session))]\<rparr>)
           else (self, Ok (dropped expired source (AnotherPeerIsActive (ess_peer_endpoint session))))
       | ServerHandshakeState.Listening \<Rightarrow>
           bind_st (self, current_candidate self source) (\<lambda>self binding. case binding of
             None \<Rightarrow> (self, Ok (dropped expired source NoPendingCandidate))
           | Some binding \<Rightarrow>
               if sc_candidate_id binding \<noteq> candidate_id
               then (self, Ok (dropped expired source
                      (StaleCandidate (sc_candidate_id binding) candidate_id)))
               else if sc_client_attempt_id binding \<noteq> client_attempt_id
               then (self, Ok (dropped expired source
                      (StaleClientAttempt (sc_client_attempt_id binding) client_attempt_id)))
               else establish self binding source metadata now expired))"

definition handle_authentication_failure ::
  "ServerHandshake \<Rightarrow> SocketAddr \<Rightarrow> CandidateId \<Rightarrow> ClientAttemptId \<Rightarrow> instant
   \<Rightarrow> ServerReport server_step" where
  "handle_authentication_failure self source candidate_id client_attempt_id now =
     bind_st (expire_and_reconcile self now) (\<lambda>self expired.
       case sh_state self of
         ServerHandshakeState.Closed \<Rightarrow> (self, Ok (dropped expired source SessionUnavailable))
       | ServerHandshakeState.Established session \<Rightarrow>
           (self, Ok (dropped expired source (AnotherPeerIsActive (ess_peer_endpoint session))))
       | ServerHandshakeState.Listening \<Rightarrow>
           bind_st (self, current_candidate self source) (\<lambda>self binding. case binding of
             None \<Rightarrow> (self, Ok (dropped expired source NoPendingCandidate))
           | Some binding \<Rightarrow>
               if sc_candidate_id binding \<noteq> candidate_id
               then (self, Ok (dropped expired source
                      (StaleCandidate (sc_candidate_id binding) candidate_id)))
               else if sc_client_attempt_id binding \<noteq> client_attempt_id
               then (self, Ok (dropped expired source
                      (StaleClientAttempt (sc_client_attempt_id binding) client_attempt_id)))
               else bind_st (remove_exact_candidate self binding) (\<lambda>self _.
                 bind_st (self, verify_candidate_maps self) (\<lambda>self _.
                   (self, Ok (dropped expired source AuthenticationFailed))))))"

definition handle_unexpected_message ::
  "ServerHandshake \<Rightarrow> SocketAddr \<Rightarrow> ServerInboundKind \<Rightarrow> instant \<Rightarrow> ServerReport server_step" where
  "handle_unexpected_message self source observed now =
     bind_st (expire_and_reconcile self now) (\<lambda>self expired.
       case sh_state self of
         ServerHandshakeState.Closed \<Rightarrow> (self, Ok (dropped expired source SessionUnavailable))
       | ServerHandshakeState.Listening \<Rightarrow>
           if observed = ServerInboundKind.Data
           then (self, Ok (dropped expired source PreSessionData))
           else bind_st (self, current_candidate self source) (\<lambda>self binding.
             (self, Ok (dropped expired source (UnexpectedMessage
                (Some (if binding \<noteq> None then ServerInboundKind.ClientFinish
                       else ServerInboundKind.ClientHello)) observed))))
       | ServerHandshakeState.Established session \<Rightarrow>
           (self, Ok (dropped expired source
             (if source \<noteq> ess_peer_endpoint session
              then AnotherPeerIsActive (ess_peer_endpoint session)
              else UnexpectedMessage (Some ServerInboundKind.Data) observed))))"

definition classify_data :: "ServerHandshake \<Rightarrow> SocketAddr \<Rightarrow> SessionId \<Rightarrow> ServerDataDecision" where
  "classify_data self source sid = (case sh_state self of
     ServerHandshakeState.Listening \<Rightarrow> RejectPreSession
   | ServerHandshakeState.Closed \<Rightarrow> RejectClosed
   | ServerHandshakeState.Established session \<Rightarrow>
       if source \<noteq> ess_peer_endpoint session
       then RejectUnexpectedSource (ess_peer_endpoint session) source
       else if sid \<noteq> session_id (ess_metadata session)
       then RejectUnknownSession (session_id (ess_metadata session)) sid
       else PermitEstablished sid)"

definition server_next_deadline :: "ServerHandshake \<Rightarrow> instant option" where
  "server_next_deadline self = (case sh_state self of
     ServerHandshakeState.Listening \<Rightarrow> next_deadline (sh_pending self)
   | _ \<Rightarrow> None)"

definition server_shutdown :: "ServerHandshake \<Rightarrow> ServerReport server_step" where
  "server_shutdown self =
     (if sh_state self = ServerHandshakeState.Closed
      then (self, Ok \<lparr>sr_expired = [], sr_effects = [ServerEffect.AlreadyClosed]\<rparr>)
      else
        let removed_candidates = pending_count (sh_pending self);
            removed_session = (case sh_state self of
              ServerHandshakeState.Established _ \<Rightarrow> True | _ \<Rightarrow> False)
        in (self\<lparr>sh_pending := fst (manager_shutdown (sh_pending self)),
                 sh_candidate_by_id := hm_empty, sh_state := ServerHandshakeState.Closed\<rparr>,
            Ok \<lparr>sr_expired = [],
                sr_effects = [ServerEffect.Closed removed_candidates removed_session]\<rparr>))"

definition pending_candidate_count :: "ServerHandshake \<Rightarrow> usize" where
  "pending_candidate_count self = pending_count (sh_pending self)"

definition abort_exact_candidate ::
  "ServerHandshake \<Rightarrow> SocketAddr \<Rightarrow> CandidateId \<Rightarrow> ClientAttemptId
   \<Rightarrow> ServerCandidateAbortOutcome server_step" where
  "abort_exact_candidate self source candidate_id client_attempt_id =
     bind_st (self, current_candidate self source) (\<lambda>self binding. case binding of
       None \<Rightarrow> (self, Err (CandidateAbortMissing source candidate_id client_attempt_id))
     | Some binding \<Rightarrow>
         if sc_candidate_id binding \<noteq> candidate_id
         then (self, Err (CandidateAbortCandidateMismatch source (sc_candidate_id binding)
                candidate_id))
         else if sc_client_attempt_id binding \<noteq> client_attempt_id
         then (self, Err (CandidateAbortAttemptMismatch source candidate_id
                (sc_client_attempt_id binding) client_attempt_id))
         else bind_st (remove_exact_candidate self binding) (\<lambda>self _.
           bind_st (self, verify_candidate_maps self) (\<lambda>self _.
             (self, Ok ServerCandidateAbortOutcome.Removed))))"

section \<open>Consistency of manager and registry\<close>

definition registry :: "ServerHandshake \<Rightarrow> CandidateId \<rightharpoonup> SocketAddr" where
  "registry h i = map_option sc_source (hm_get (sh_candidate_by_id h) i)"

definition server_ok :: "ServerHandshake \<Rightarrow> bool" where
  "server_ok h \<longleftrightarrow>
     manager_ok (sh_pending h) \<and> hm_invar (sh_candidate_by_id h) \<and>
     (\<forall>i b. hm_get (sh_candidate_by_id h) i = Some b \<longrightarrow> sc_candidate_id b = i) \<and>
     (if sh_state h = ServerHandshakeState.Listening
      then sm_state (sh_pending h) = Running \<and> book.keeps_book (sh_pending h) (registry h)
      else sm_state (sh_pending h) = ManagerState.Closed \<and> sh_candidate_by_id h = hm_empty)"

lemma server_ok_new: "server_ok (ServerHandshake_new policy)"
  by (simp add: server_ok_def ServerHandshake_new_def manager_ok_new)
    (simp add: SessionManager_new_def book.keeps_book_def owned_def registry_def)

lemma server_okD:
  assumes "server_ok h"
  shows "manager_ok (sh_pending h)" "hm_invar (sh_candidate_by_id h)"
    "hm_get (sh_candidate_by_id h) i = Some b \<Longrightarrow> sc_candidate_id b = i"
    "sh_state h = ServerHandshakeState.Listening \<Longrightarrow> sm_state (sh_pending h) = Running"
    "sh_state h = ServerHandshakeState.Listening \<Longrightarrow> book.keeps_book (sh_pending h) (registry h)"
    "sh_state h \<noteq> ServerHandshakeState.Listening \<Longrightarrow> sm_state (sh_pending h) = ManagerState.Closed"
    "sh_state h \<noteq> ServerHandshakeState.Listening \<Longrightarrow> sh_candidate_by_id h = hm_empty"
  using assms by (auto simp: server_ok_def split: if_splits)

lemma registry_owned:
  assumes "server_ok h" and "sh_state h = ServerHandshakeState.Listening"
  shows "owned (sh_pending h) s = Some i \<longleftrightarrow>
    (\<exists>b. hm_get (sh_candidate_by_id h) i = Some b \<and> sc_source b = s)"
  using server_okD(5) [OF assms] by (auto simp: book.keeps_book_def registry_def)

lemma candidate_owned:
  "sm_state m = Running \<Longrightarrow> map_option ps_candidate_id (candidate m s) = owned m s"
  by (simp add: candidate_def owned_def option.map_comp comp_def)

lemma verify_bindings_ok:
  assumes "sm_state m = Running" and "\<forall>b \<in> set bs. owned m (sc_source b) = Some (sc_candidate_id b)"
  shows "verify_bindings m bs = Ok ()"
  using assms(2)
proof (induction bs)
  case (Cons b bs)
  then have "map_option ps_candidate_id (candidate m (sc_source b)) = Some (sc_candidate_id b)"
    by (simp add: candidate_owned [OF assms(1)])
  then show ?case using Cons by (auto split: option.split)
qed simp

lemma verify_candidate_maps_ok:
  assumes ok: "server_ok h"
  shows "verify_candidate_maps h = Ok ()"
proof (cases "sh_state h = ServerHandshakeState.Listening")
  case True
  have "\<forall>b \<in> set (hm_values (sh_candidate_by_id h)).
      owned (sh_pending h) (sc_source b) = Some (sc_candidate_id b)"
    using registry_owned [OF ok True] server_okD(3) [OF ok]
    by (auto simp: hm_values_get [OF server_okD(2) [OF ok]])
  then have v: "verify_bindings (sh_pending h) (hm_values (sh_candidate_by_id h)) = Ok ()"
    using server_okD(4) [OF ok True] by (intro verify_bindings_ok)
  have "pending_count (sh_pending h) = card (dom (registry h))"
    using book.keeps_book_number [OF server_okD(1) [OF ok] server_okD(5) [OF ok True]] .
  also have "dom (registry h) = dom (hm_get (sh_candidate_by_id h))" by (auto simp: registry_def)
  finally have "pending_count (sh_pending h) = hm_len (sh_candidate_by_id h)"
    by (simp add: hm_len_card [OF server_okD(2) [OF ok]])
  then show ?thesis using True v by (simp add: verify_candidate_maps_def)
next
  case False
  have "hm_values (hm_empty :: (CandidateId, ServerCandidate) hmap) = []" by (simp add: hm_defs)
  moreover have "pending_count (sh_pending h) = 0"
    using manager_okD(3) [OF server_okD(1) [OF ok] server_okD(6) [OF ok False]]
    by (simp add: pending_count_def)
  ultimately show ?thesis
    by (simp add: verify_candidate_maps_def server_okD(7) [OF ok False])
qed

lemma current_candidate_ok:
  assumes ok: "server_ok h" and st: "sh_state h = ServerHandshakeState.Listening"
  obtains "owned (sh_pending h) s = None" "current_candidate h s = Ok None"
    | b where "owned (sh_pending h) s = Some (sc_candidate_id b)" "sc_source b = s"
      "hm_get (sh_candidate_by_id h) (sc_candidate_id b) = Some b" "current_candidate h s = Ok (Some b)"
proof (cases "candidate (sh_pending h) s")
  case None
  then show thesis
    using that(1) candidate_owned [OF server_okD(4) [OF ok st], of s]
    by (simp add: current_candidate_def)
next
  case (Some snap)
  then have own: "owned (sh_pending h) s = Some (ps_candidate_id snap)"
    using candidate_owned [OF server_okD(4) [OF ok st], of s] by simp
  then obtain b where b: "hm_get (sh_candidate_by_id h) (ps_candidate_id snap) = Some b" "sc_source b = s"
    using registry_owned [OF ok st] by blast
  moreover have "sc_candidate_id b = ps_candidate_id snap" using server_okD(3) [OF ok b(1)] .
  ultimately show thesis using that(2) [of b] own Some by (simp add: current_candidate_def)
qed

lemma server_ok_remove:
  assumes ok: "server_ok h" and st: "sh_state h = ServerHandshakeState.Listening"
    and b: "hm_get (sh_candidate_by_id h) (sc_candidate_id b) = Some b"
  shows "\<exists>h'. remove_exact_candidate h b = (h', Ok ()) \<and> server_ok h' \<and>
    sh_state h' = ServerHandshakeState.Listening \<and>
    owned (sh_pending h') = (owned (sh_pending h))(sc_source b := None) \<and>
    hm_get (sh_candidate_by_id h') = (hm_get (sh_candidate_by_id h))(sc_candidate_id b := None)"
proof -
  have run: "sm_state (sh_pending h) = Running" using server_okD(4) [OF ok st] .
  note inv = manager_okD(1) [OF server_okD(1) [OF ok]]
  have own: "owned (sh_pending h) (sc_source b) = Some (sc_candidate_id b)"
    using registry_owned [OF ok st] b by blast
  then obtain c where c: "hm_get (sm_pending_by_source (sh_pending h)) (sc_source b) = Some c"
    "pc_id c = sc_candidate_id b"
    by (auto simp: owned_def)
  define m' where "m' = (sh_pending h)\<lparr>sm_pending_by_source :=
    hm_remove (sc_source b) (sm_pending_by_source (sh_pending h))\<rparr>"
  define h' where "h' = h\<lparr>sh_pending := m',
    sh_candidate_by_id := hm_remove (sc_candidate_id b) (sh_candidate_by_id h)\<rparr>"
  have rem: "remove_candidate (sh_pending h) (sc_source b) (sc_candidate_id b) = (m', CandidateRemoval.Removed)"
    using run c by (simp add: remove_candidate_def m'_def)
  have m': "manager_ok m'" "sm_state m' = Running"
    using remove_candidate_ok [OF server_okD(1) [OF ok], of "sc_source b" "sc_candidate_id b"] run
    by (simp add: rem) (simp add: m'_def run)
  have own': "owned m' = (owned (sh_pending h))(sc_source b := None)"
    using inv by (auto simp: owned_def m'_def hm.get_remove)
  have reg': "registry h' = (registry h)(sc_candidate_id b := None)"
    using server_okD(2) [OF ok] by (auto simp: registry_def h'_def hm.get_remove)
  have "book.keeps_book m' (registry h')"
    unfolding reg'
    by (rule book.keeps_book_remove [OF server_okD(5) [OF ok st] own server_okD(1) [OF ok] own'])
  then have "server_ok h'"
    using m' st server_okD(2,3) [OF ok]
    by (auto simp: server_ok_def h'_def hm_laws split: if_splits)
  moreover have "remove_exact_candidate h b = (h', Ok ())"
    by (simp add: remove_exact_candidate_def rem b h'_def)
  ultimately show ?thesis
    using st own' server_okD(2) [OF ok]
    by (intro exI [of _ h']) (auto simp: h'_def hm.get_remove)
qed

text \<open>Reconciling the registry with expired candidates that it knows under their own source.\<close>

lemma reconcile_ok:
  assumes "hm_invar reg" and "distinct (map ec_candidate_id items)"
    and "\<forall>e \<in> set items. \<exists>b. hm_get reg (ec_candidate_id e) = Some b \<and> sc_source b = ec_source e"
  shows "\<exists>ex. reconcile reg items = (fold hm_remove (map ec_candidate_id items) reg, Ok ex) \<and>
    (\<forall>x \<in> set ex. \<exists>e \<in> set items. esc_candidate_id x = ec_candidate_id e \<and> esc_source x = ec_source e)"
  using assms
proof (induction items arbitrary: reg)
  case (Cons e items)
  obtain b where b: "hm_get reg (ec_candidate_id e) = Some b" "sc_source b = ec_source e"
    using Cons.prems(3) by auto
  let ?reg = "hm_remove (ec_candidate_id e) reg"
  have "\<exists>b. hm_get ?reg (ec_candidate_id e') = Some b \<and> sc_source b = ec_source e'"
    if "e' \<in> set items" for e'
  proof -
    have "ec_candidate_id e' \<noteq> ec_candidate_id e" using that Cons.prems(2) by (auto simp: image_iff)
    then show ?thesis using that Cons.prems(1,3) by (auto simp: hm.get_remove)
  qed
  then have "\<exists>ex. reconcile ?reg items = (fold hm_remove (map ec_candidate_id items) ?reg, Ok ex) \<and>
    (\<forall>x \<in> set ex. \<exists>e \<in> set items. esc_candidate_id x = ec_candidate_id e \<and> esc_source x = ec_source e)"
    using Cons.prems(1,2) by (intro Cons.IH) (auto simp: hm.invar_remove)
  then show ?case using b by auto
qed simp

lemma expired_ids_distinct:
  assumes ok: "manager_ok m"
  shows "distinct (map ec_candidate_id (er_expired (snd (expire_pending m now))))"
proof -
  let ?ex = "er_expired (snd (expire_pending m now))"
  have "distinct ?ex" using expire_pending_report(1) [OF ok] by (rule distinct_map [THEN iffD1, THEN conjunct1])
  moreover have "inj_on ec_candidate_id (set ?ex)"
  proof (rule inj_onI)
    fix x y assume "x \<in> set ?ex" "y \<in> set ?ex" "ec_candidate_id x = ec_candidate_id y"
    then have "owned m (ec_source x) = Some (ec_candidate_id x)"
      "owned m (ec_source y) = Some (ec_candidate_id x)"
      by (auto simp: expire_pending_report(2) [OF ok])
    then have "ec_source x = ec_source y" using book.holds_inj [OF ok] by blast
    then show "x = y" using \<open>ec_candidate_id x = ec_candidate_id y\<close> by simp
  qed
  ultimately show ?thesis by (simp add: distinct_map)
qed

lemma expire_and_reconcile_ok:
  assumes ok: "server_ok h"
  obtains h' ex where "expire_and_reconcile h now = (h', Ok ex)" "server_ok h'" "sh_state h' = sh_state h"
    "sh_state h \<noteq> ServerHandshakeState.Listening \<Longrightarrow> h' = h"
    "sh_state h = ServerHandshakeState.Listening \<Longrightarrow> sh_pending h' = fst (expire_pending (sh_pending h) now)"
    "\<And>i. hm_get (sh_candidate_by_id h') i =
      (if \<exists>s. due (sh_pending h) now s \<and> owned (sh_pending h) s = Some i then None
       else hm_get (sh_candidate_by_id h) i)"
proof (cases "sh_state h = ServerHandshakeState.Listening")
  case False
  then show thesis
    using that [of h "[]"] ok server_okD(7) [OF ok False] by (simp add: expire_and_reconcile_def)
next
  case True
  note mok = server_okD(1) [OF ok]
  obtain m' rep where exp: "expire_pending (sh_pending h) now = (m', rep)"
    by (cases "expire_pending (sh_pending h) now")
  let ?items = "er_expired rep"
  let ?reg = "fold hm_remove (map ec_candidate_id ?items) (sh_candidate_by_id h)"
  have items: "e \<in> set ?items \<longleftrightarrow> due (sh_pending h) now (ec_source e) \<and>
      owned (sh_pending h) (ec_source e) = Some (ec_candidate_id e)" for e
    using expire_pending_report(2) [OF mok, of e now] by (simp add: exp)
  have "\<forall>e \<in> set ?items. \<exists>b. hm_get (sh_candidate_by_id h) (ec_candidate_id e) = Some b \<and>
      sc_source b = ec_source e"
    using items registry_owned [OF ok True] by blast
  then obtain ex where rec: "reconcile (sh_candidate_by_id h) ?items = (?reg, Ok ex)"
    using reconcile_ok [OF server_okD(2) [OF ok]] expired_ids_distinct [OF mok, of now]
    by (fastforce simp: exp)
  define h' where "h' = h\<lparr>sh_pending := m', sh_candidate_by_id := ?reg\<rparr>"
  have ids: "i \<in> set (map ec_candidate_id ?items) \<longleftrightarrow>
      (\<exists>s. due (sh_pending h) now s \<and> owned (sh_pending h) s = Some i)" for i
  proof
    assume "\<exists>s. due (sh_pending h) now s \<and> owned (sh_pending h) s = Some i"
    then obtain s where "\<lparr>ec_candidate_id = i, ec_source = s\<rparr> \<in> set ?items" by (auto simp: items)
    then show "i \<in> set (map ec_candidate_id ?items)" by force
  qed (use items in auto)
  have get': "hm_get (sh_candidate_by_id h') i =
      (if \<exists>s. due (sh_pending h) now s \<and> owned (sh_pending h) s = Some i then None
       else hm_get (sh_candidate_by_id h) i)" for i
    unfolding h'_def using ids
    by (auto simp: hm.get_fold_remove [OF server_okD(2) [OF ok]])
  have own': "owned m' s = (if due (sh_pending h) now s then None else owned (sh_pending h) s)" for s
    using expire_pending_get(2) [OF mok, of now s] by (simp add: exp owned_def)
  have "registry h' i = (if \<exists>s. due (sh_pending h) now s \<and> owned (sh_pending h) s = Some i then None
      else registry h i)" for i
    by (auto simp: registry_def get')
  with own' have "book.keeps_book m' (registry h')"
    by (rule book.keeps_book_restrict [OF server_okD(5) [OF ok True] mok])
  moreover have "manager_ok m'" "sm_state m' = Running"
    using expire_pending_ok [OF mok, of now] expire_pending_fields(1) [of "sh_pending h" now]
      server_okD(4) [OF ok True] by (simp_all add: exp)
  ultimately have ok': "server_ok h'"
    using True get' server_okD(3) [OF ok] hm.fold_remove_invar [OF server_okD(2) [OF ok]]
    by (auto simp: server_ok_def h'_def split: if_splits)
  have "expire_and_reconcile h now = (h', Ok ex)"
    using True verify_candidate_maps_ok [OF ok']
    by (simp add: expire_and_reconcile_def exp rec flip: h'_def)
  then show thesis
    using that [OF _ ok'] True get' by (simp add: h'_def exp)
qed

lemma establish_ok:
  assumes ok: "server_ok h" and st: "sh_state h = ServerHandshakeState.Listening"
    and b: "hm_get (sh_candidate_by_id h) (sc_candidate_id b) = Some b"
  shows "\<exists>h'. establish h b s md now ex = (h', Ok \<lparr>sr_expired = ex, sr_effects =
      [SendServerFinish s (sc_candidate_id b) (sc_client_attempt_id b) (session_id md),
       SessionEstablished s (session_id md)]\<rparr>) \<and> server_ok h' \<and>
    sh_state h' = ServerHandshakeState.Established \<lparr>ess_metadata = md, ess_peer_endpoint = s,
      ess_completed_candidate_id = sc_candidate_id b,
      ess_client_attempt_id = sc_client_attempt_id b, ess_established_at = now\<rparr>"
proof -
  obtain h1 where h1: "remove_exact_candidate h b = (h1, Ok ())" "server_ok h1"
    using server_ok_remove [OF ok st b] by blast
  have "manager_ok (fst (manager_shutdown (sh_pending h1)))"
    using manager_shutdown_ok [OF server_okD(1) [OF h1(2)]] .
  moreover have "sm_state (fst (manager_shutdown (sh_pending h1))) = ManagerState.Closed"
    by (simp add: manager_shutdown_def)
  ultimately show ?thesis
    by (simp add: establish_def h1 server_ok_def)
qed

lemma server_shutdown_ok: "server_ok h \<Longrightarrow> server_ok (fst (server_shutdown h))"
  using manager_shutdown_ok [OF server_okD(1)]
  by (auto simp: server_shutdown_def server_ok_def Let_def manager_shutdown_def)

text \<open>Admission on a listening server whose candidates have been expired.\<close>

lemma server_ok_admit:
  assumes ok: "server_ok h" and st: "sh_state h = ServerHandshakeState.Listening"
    and adm: "admit (sh_pending h) s now = (m', Ok rep)"
    and exp: "fst (expire_pending (sh_pending h) now) = sh_pending h"
  shows "\<exists>h' r. admit_hello (h\<lparr>sh_pending := m'\<rparr>) s a ex (ar_outcome rep) = (h', Ok r) \<and> server_ok h' \<and>
    sh_state h' = ServerHandshakeState.Listening"
proof -
  note mok = server_okD(1) [OF ok] and run = server_okD(4) [OF ok st]
  obtain er where e: "expire_pending (sh_pending h) now = (sh_pending h, er)"
    using exp by (metis prod.collapse)
  show ?thesis
  proof (rule admit_cases [OF mok run e, of s])
    fix c assume "hm_get (sm_pending_by_source (sh_pending h)) s = Some c"
      and a: "admit (sh_pending h) s now = (sh_pending h, Ok \<lparr>ar_expired = er_expired er,
        ar_outcome = AlreadyPending (pc_id c) (pc_deadline c)\<rparr>)"
    have h: "h\<lparr>sh_pending := m'\<rparr> = h" using adm a by simp
    show ?thesis
      unfolding h
      by (rule current_candidate_ok [OF ok st, of s])
        (use adm a ok st in \<open>auto simp: admit_hello_def Let_def\<close>)
  next
    assume "admit (sh_pending h) s now = (sh_pending h, Ok \<lparr>ar_expired = er_expired er,
        ar_outcome = AtCapacity (sp_maximum_pending (sm_policy (sh_pending h)))\<rparr>)"
    then show ?thesis using adm ok st by (auto simp: admit_hello_def)
  next
    fix err assume "admit (sh_pending h) s now = (sh_pending h, Err err)"
    then show ?thesis using adm by simp
  next
    fix deadline
    let ?i = "CandidateId (sm_next_candidate_id (sh_pending h))"
    assume none: "hm_get (sm_pending_by_source (sh_pending h)) s = None"
      and a: "admit (sh_pending h) s now = ((sh_pending h)\<lparr>
          sm_next_candidate_id := sm_next_candidate_id (sh_pending h) + 1,
          sm_pending_by_source := hm_insert s \<lparr>pc_id = ?i, pc_created_at = now, pc_deadline = deadline\<rparr>
            (sm_pending_by_source (sh_pending h))\<rparr>,
        Ok \<lparr>ar_expired = er_expired er, ar_outcome = Added ?i deadline\<rparr>)"
    have own': "owned m' = (owned (sh_pending h))(s \<mapsto> ?i)"
      using adm a manager_okD(1) [OF mok] by (auto simp: owned_def hm.get_insert)
    have "\<forall>s. owned (sh_pending h) s \<noteq> Some ?i"
      using manager_okD(4) [OF mok] by (fastforce simp: owned_def)
    moreover have "owned (sh_pending h) s = None" using none by (simp add: owned_def)
    ultimately have kb: "book.keeps_book m' ((registry h)(?i \<mapsto> s))"
      by (intro book.keeps_book_insert [OF server_okD(5) [OF ok st] _ _ own'])
    define h' where "h' = h\<lparr>sh_pending := m', sh_candidate_by_id := hm_insert ?i
      \<lparr>sc_candidate_id = ?i, sc_source = s, sc_client_attempt_id = a\<rparr> (sh_candidate_by_id h)\<rparr>"
    have "registry h' = (registry h)(?i \<mapsto> s)"
      using server_okD(2) [OF ok] by (auto simp: registry_def h'_def hm.get_insert)
    moreover have "manager_ok m'" "sm_state m' = Running"
      using admit_ok [OF mok, of s now] adm a run by auto
    ultimately have ok': "server_ok h'"
      using kb st server_okD(2,3) [OF ok]
      by (auto simp: server_ok_def h'_def hm_laws split: if_splits)
    then show ?thesis
      using verify_candidate_maps_ok [OF ok'] adm a st
      by (auto simp: admit_hello_def Let_def h'_def)
  qed
qed

section \<open>Every operation\<close>

text \<open>
  The operations as one function, for statements over arbitrary sequences of calls; the second
  component is the error of the call, if it fails.
\<close>

datatype ServerOp =
  OpHello SocketAddr ClientAttemptId instant
| OpPrecheck SocketAddr ClientAttemptId instant
| OpFinish SocketAddr CandidateId ClientAttemptId EstablishedSessionMetadata instant
| OpAuthFailure SocketAddr CandidateId ClientAttemptId instant
| OpUnexpected SocketAddr ServerInboundKind instant
| OpTimeouts instant
| OpAbort SocketAddr CandidateId ClientAttemptId
| OpShutdown

definition outcome :: "'a server_step \<Rightarrow> ServerHandshake \<times> ServerStateError option" where
  "outcome r = (fst r, case snd r of Inl e \<Rightarrow> Some e | Inr _ \<Rightarrow> None)"

fun server_apply :: "ServerOp \<Rightarrow> ServerHandshake \<Rightarrow> ServerHandshake \<times> ServerStateError option" where
  "server_apply (OpHello s a t) h = outcome (handle_valid_client_hello h s a t)"
| "server_apply (OpPrecheck s a t) h = outcome (precheck_client_finish h s a t)"
| "server_apply (OpFinish s c a md t) h = outcome (handle_authenticated_client_finish h s c a md t)"
| "server_apply (OpAuthFailure s c a t) h = outcome (handle_authentication_failure h s c a t)"
| "server_apply (OpUnexpected s k t) h = outcome (handle_unexpected_message h s k t)"
| "server_apply (OpTimeouts t) h = outcome (check_timeouts h t)"
| "server_apply (OpAbort s c a) h = outcome (abort_exact_candidate h s c a)"
| "server_apply OpShutdown h = outcome (server_shutdown h)"

inductive server_reachable :: "SessionPolicy \<Rightarrow> ServerHandshake \<Rightarrow> bool" for policy where
  init: "server_reachable policy (ServerHandshake_new policy)"
| step: "server_reachable policy h \<Longrightarrow> server_apply op h = (h', e) \<Longrightarrow> server_reachable policy h'"

text \<open>
  The transitions of the lifecycle: listening may establish through an authenticated finish of the
  exact pending candidate; an established session is only replaced by closed, at shutdown.
\<close>

definition lifecycle_step :: "ServerOp \<Rightarrow> ServerHandshake \<Rightarrow> ServerHandshake \<Rightarrow> bool" where
  "lifecycle_step op h h' \<longleftrightarrow> sh_state h' = sh_state h \<or>
     (op = OpShutdown \<and> sh_state h' = ServerHandshakeState.Closed) \<or>
     (\<exists>s c a md t b. op = OpFinish s c a md t \<and> sh_state h = ServerHandshakeState.Listening \<and>
        hm_get (sh_candidate_by_id h) c = Some b \<and> sc_source b = s \<and> sc_client_attempt_id b = a \<and>
        owned (sh_pending h) s = Some c \<and> \<not> due (sh_pending h) t s \<and>
        sh_state h' = ServerHandshakeState.Established \<lparr>ess_metadata = md, ess_peer_endpoint = s,
          ess_completed_candidate_id = c, ess_client_attempt_id = a, ess_established_at = t\<rparr>)"

text \<open>The errors that can occur: exhaustion in the manager, and aborts of a wrong candidate.\<close>

fun possible_error :: "ServerOp \<Rightarrow> ServerStateError \<Rightarrow> bool" where
  "possible_error (OpHello s _ _) (PendingManager ApplyValidClientHello s' _) = (s' = Some s)"
| "possible_error (OpAbort _ _ _) (CandidateAbortMissing _ _ _) = True"
| "possible_error (OpAbort _ _ _) (CandidateAbortCandidateMismatch _ _ _) = True"
| "possible_error (OpAbort _ _ _) (CandidateAbortAttemptMismatch _ _ _ _) = True"
| "possible_error _ _ = False"

definition sound_step ::
  "ServerOp \<Rightarrow> ServerHandshake \<Rightarrow> ServerHandshake \<times> ServerStateError option \<Rightarrow> bool" where
  "sound_step op h r \<longleftrightarrow> server_ok (fst r) \<and> lifecycle_step op h (fst r) \<and>
     (\<forall>e. snd r = Some e \<longrightarrow> possible_error op e)"

lemma sound_same:
  "server_ok h' \<Longrightarrow> sh_state h' = sh_state h \<Longrightarrow> sound_step op h (outcome (h', Ok r))"
  by (simp add: sound_step_def outcome_def lifecycle_step_def)

lemma sound_error:
  "server_ok h \<Longrightarrow> possible_error op e \<Longrightarrow> sound_step op h (outcome (h, Err e))"
  by (simp add: sound_step_def outcome_def lifecycle_step_def)

lemma expire_idempotent:
  assumes "manager_ok m"
  shows "fst (expire_pending (fst (expire_pending m now)) now) = fst (expire_pending m now) \<and>
    er_expired (snd (expire_pending (fst (expire_pending m now)) now)) = []"
proof -
  let ?m = "fst (expire_pending m now)"
  have ok: "manager_ok ?m" using expire_pending_ok [OF assms] .
  have "\<not> due ?m now s" for s
    using expire_pending_get(2) [OF assms, of now s] by (auto simp: due_def split: option.splits)
  then have "e \<notin> set (er_expired (snd (expire_pending ?m now)))" for e
    by (simp add: expire_pending_report(2) [OF ok])
  then have none: "er_expired (snd (expire_pending ?m now)) = []" using last_in_set by blast
  have "fst (expire_pending ?m now) = ?m"
  proof (cases "sm_state ?m = ManagerState.Closed")
    case False
    then show ?thesis using none
      by (simp only: expire_pending_def [of ?m]) (simp add: Let_def)
  qed (simp add: expire_pending_def [of ?m])
  with none show ?thesis by simp
qed

lemma reconcile_again:
  assumes ok: "server_ok h" and e: "expire_and_reconcile h now = (h0, r)"
  shows "expire_and_reconcile h0 now = (h0, Ok [])"
proof (rule expire_and_reconcile_ok [OF ok, of now])
  fix h' ex
  assume e': "expire_and_reconcile h now = (h', Ok ex)" and ok': "server_ok h'"
    and st: "sh_state h' = sh_state h"
    and pend: "sh_state h = ServerHandshakeState.Listening \<Longrightarrow>
      sh_pending h' = fst (expire_pending (sh_pending h) now)"
  have h0: "h0 = h'" using e e' by simp
  show ?thesis
  proof (cases "sh_state h0 = ServerHandshakeState.Listening")
    case True
    then have p: "sh_pending h' = fst (expire_pending (sh_pending h) now)" using h0 st pend by simp
    obtain rep where "expire_pending (sh_pending h') now = (sh_pending h', rep)" "er_expired rep = []"
      using expire_idempotent [OF server_okD(1) [OF ok], of now] unfolding p by (metis prod.collapse)
    then show ?thesis
      using True h0 verify_candidate_maps_ok [OF ok'] by (simp add: expire_and_reconcile_def)
  next
    case False
    then show ?thesis
      using h0 server_okD(7) [OF ok'] by (simp add: expire_and_reconcile_def)
  qed
qed

lemma hello_sound:
  assumes ok: "server_ok h"
  shows "sound_step (OpHello s a t) h (outcome (handle_valid_client_hello h s a t))"
proof (rule expire_and_reconcile_ok [OF ok, of t])
  fix h1 ex
  assume e: "expire_and_reconcile h t = (h1, Ok ex)" and ok1: "server_ok h1"
    and st: "sh_state h1 = sh_state h"
    and pend: "sh_state h = ServerHandshakeState.Listening \<Longrightarrow>
      sh_pending h1 = fst (expire_pending (sh_pending h) t)"
  show ?thesis
  proof (cases "sh_state h1")
    case Listening
    have idem: "fst (expire_pending (sh_pending h1) t) = sh_pending h1"
      using expire_idempotent [OF server_okD(1) [OF ok]] pend Listening st by simp
    show ?thesis
    proof (cases "admit (sh_pending h1) s t")
      case (Pair m' r)
      show ?thesis
      proof (cases r)
        case (Inl err)
        obtain er where er: "expire_pending (sh_pending h1) t = (sh_pending h1, er)"
          using idem by (metis prod.collapse)
        have "m' = sh_pending h1"
          by (rule admit_cases [OF server_okD(1) [OF ok1] server_okD(4) [OF ok1 Listening] er, of s])
            (use Pair Inl in auto)
        then show ?thesis
          using ok1 st
          by (simp add: handle_valid_client_hello_def e Listening Pair Inl sound_step_def outcome_def
              lifecycle_step_def)
      next
        case (Inr rep)
        have "sh_state h = ServerHandshakeState.Listening" using st Listening by simp
        then show ?thesis
          using server_ok_admit [OF ok1 Listening Pair [unfolded Inr] idem, of a ex]
          by (auto simp: handle_valid_client_hello_def e Pair Listening Inr intro!: sound_same)
      qed
    qed
  qed (use ok1 st in \<open>auto simp: handle_valid_client_hello_def e intro: sound_same\<close>)
qed

lemma timeouts_sound: "server_ok h \<Longrightarrow> sound_step (OpTimeouts t) h (outcome (check_timeouts h t))"
  by (rule expire_and_reconcile_ok [of h t]) (auto simp: check_timeouts_def intro: sound_same)

lemma candidate_owned_by_ok:
  assumes "server_ok h" and "sh_state h = ServerHandshakeState.Listening"
  shows "\<exists>c. candidate_owned_by h s = Ok c"
  by (rule current_candidate_ok [OF assms, of s]) (auto simp: candidate_owned_by_def)

lemma precheck_sound:
  assumes ok: "server_ok h"
  shows "sound_step (OpPrecheck s a t) h (outcome (precheck_client_finish h s a t))"
proof (rule expire_and_reconcile_ok [OF ok, of t])
  fix h1 ex
  assume e: "expire_and_reconcile h t = (h1, Ok ex)" and ok1: "server_ok h1"
    and st: "sh_state h1 = sh_state h"
  show ?thesis
  proof (cases "sh_state h1")
    case Listening
    then obtain c where "candidate_owned_by h1 s = Ok c"
      using candidate_owned_by_ok [OF ok1] by blast
    then show ?thesis
      using ok1 st Listening
      by (auto simp: precheck_client_finish_def check_timeouts_def e Let_def intro: sound_same
          split: option.split)
  qed (use ok1 st in \<open>auto simp: precheck_client_finish_def check_timeouts_def e Let_def intro: sound_same\<close>)
qed

lemma unexpected_sound:
  assumes ok: "server_ok h"
  shows "sound_step (OpUnexpected s k t) h (outcome (handle_unexpected_message h s k t))"
proof (rule expire_and_reconcile_ok [OF ok, of t])
  fix h1 ex
  assume e: "expire_and_reconcile h t = (h1, Ok ex)" and ok1: "server_ok h1"
    and st: "sh_state h1 = sh_state h"
  show ?thesis
  proof (cases "sh_state h1")
    case Listening
    show ?thesis
      by (rule current_candidate_ok [OF ok1 Listening, of s])
        (use ok1 st Listening in \<open>auto simp: handle_unexpected_message_def e intro: sound_same\<close>)
  qed (use ok1 st in \<open>auto simp: handle_unexpected_message_def e intro: sound_same\<close>)
qed

lemma auth_failure_sound:
  assumes ok: "server_ok h"
  shows "sound_step (OpAuthFailure s c a t) h (outcome (handle_authentication_failure h s c a t))"
proof (rule expire_and_reconcile_ok [OF ok, of t])
  fix h1 ex
  assume e: "expire_and_reconcile h t = (h1, Ok ex)" and ok1: "server_ok h1"
    and st: "sh_state h1 = sh_state h"
  show ?thesis
  proof (cases "sh_state h1")
    case Listening
    show ?thesis
    proof (rule current_candidate_ok [OF ok1 Listening, of s])
      fix b assume b: "hm_get (sh_candidate_by_id h1) (sc_candidate_id b) = Some b"
        and cc: "current_candidate h1 s = Ok (Some b)"
      obtain h2 where h2: "remove_exact_candidate h1 b = (h2, Ok ())" "server_ok h2"
        "sh_state h2 = ServerHandshakeState.Listening"
        using server_ok_remove [OF ok1 Listening b] by blast
      show ?thesis
        using ok1 st Listening h2 verify_candidate_maps_ok [OF h2(2)]
        by (auto simp: handle_authentication_failure_def e cc intro: sound_same)
    qed (use ok1 st Listening in \<open>auto simp: handle_authentication_failure_def e intro: sound_same\<close>)
  qed (use ok1 st in \<open>auto simp: handle_authentication_failure_def e intro: sound_same\<close>)
qed

lemma abort_sound:
  assumes ok: "server_ok h"
  shows "sound_step (OpAbort s c a) h (outcome (abort_exact_candidate h s c a))"
proof (cases "sh_state h = ServerHandshakeState.Listening")
  case True
  show ?thesis
  proof (rule current_candidate_ok [OF ok True, of s])
    fix b assume b: "hm_get (sh_candidate_by_id h) (sc_candidate_id b) = Some b"
      and cc: "current_candidate h s = Ok (Some b)"
    obtain h2 where h2: "remove_exact_candidate h b = (h2, Ok ())" "server_ok h2"
      "sh_state h2 = ServerHandshakeState.Listening"
      using server_ok_remove [OF ok True b] by blast
    show ?thesis
      using True h2 verify_candidate_maps_ok [OF h2(2)]
      by (auto simp: abort_exact_candidate_def cc ok intro!: sound_same sound_error)
  qed (auto simp: abort_exact_candidate_def ok intro!: sound_error)
next
  case False
  then have "candidate (sh_pending h) s = None"
    using server_okD(6) [OF ok False] by (simp add: candidate_def)
  then show ?thesis
    using ok by (simp add: abort_exact_candidate_def current_candidate_def sound_step_def outcome_def
        lifecycle_step_def)
qed

lemma shutdown_sound:
  assumes "server_ok h"
  shows "sound_step OpShutdown h (outcome (server_shutdown h))"
  using server_shutdown_ok [OF assms]
  by (auto simp: sound_step_def outcome_def lifecycle_step_def server_shutdown_def Let_def)

lemma finish_sound:
  assumes ok: "server_ok h"
  shows "sound_step (OpFinish s c a md t) h (outcome (handle_authenticated_client_finish h s c a md t))"
proof (rule expire_and_reconcile_ok [OF ok, of t])
  fix h1 ex
  assume e: "expire_and_reconcile h t = (h1, Ok ex)" and ok1: "server_ok h1"
    and st: "sh_state h1 = sh_state h"
    and reg: "\<And>i. hm_get (sh_candidate_by_id h1) i =
      (if \<exists>s. due (sh_pending h) t s \<and> owned (sh_pending h) s = Some i then None
       else hm_get (sh_candidate_by_id h) i)"
  show ?thesis
  proof (cases "sh_state h1")
    case Listening
    have lst: "sh_state h = ServerHandshakeState.Listening" using st Listening by simp
    show ?thesis
    proof (rule current_candidate_ok [OF ok1 Listening, of s])
      fix b assume b: "hm_get (sh_candidate_by_id h1) (sc_candidate_id b) = Some b" "sc_source b = s"
        and cc: "current_candidate h1 s = Ok (Some b)"
      have old: "hm_get (sh_candidate_by_id h) (sc_candidate_id b) = Some b" and
        fresh: "\<not> (due (sh_pending h) t s \<and> owned (sh_pending h) s = Some (sc_candidate_id b))"
        using b(1) reg [of "sc_candidate_id b"] by (auto split: if_splits)
      have own: "owned (sh_pending h) s = Some (sc_candidate_id b)"
        using registry_owned [OF ok lst] old b(2) by blast
      show ?thesis
      proof (cases "sc_candidate_id b = c \<and> sc_client_attempt_id b = a")
        case True
        obtain h2 r where h2: "establish h1 b s md t ex = (h2, Ok r)" "server_ok h2"
          "sh_state h2 = ServerHandshakeState.Established \<lparr>ess_metadata = md, ess_peer_endpoint = s,
            ess_completed_candidate_id = c, ess_client_attempt_id = a, ess_established_at = t\<rparr>"
          using establish_ok [OF ok1 Listening b(1), of s md t ex] True by auto
        have "lifecycle_step (OpFinish s c a md t) h h2"
          using lst h2(3) old own fresh b(2) True unfolding lifecycle_step_def by blast
        then show ?thesis
          using True h2(1,2)
          by (simp add: handle_authenticated_client_finish_def e cc Listening sound_step_def outcome_def)
      next
        case False
        then show ?thesis
          using ok1 lst Listening
          by (auto simp: handle_authenticated_client_finish_def e cc intro!: sound_same)
      qed
    qed (use ok1 st Listening in \<open>auto simp: handle_authenticated_client_finish_def e intro: sound_same\<close>)
  qed (use ok1 st in \<open>auto simp: handle_authenticated_client_finish_def e intro: sound_same\<close>)
qed

lemma server_apply_sound: "server_ok h \<Longrightarrow> sound_step op h (server_apply op h)"
  by (cases op) (simp_all add: hello_sound precheck_sound finish_sound auth_failure_sound
      unexpected_sound timeouts_sound abort_sound shutdown_sound)

lemma server_reachable_ok: "server_reachable policy h \<Longrightarrow> server_ok h"
proof (induction rule: server_reachable.induct)
  case (step h op h' e)
  then show ?case using server_apply_sound [of h op] by (simp add: sound_step_def)
qed (rule server_ok_new)

section \<open>Properties\<close>

text \<open>C18. The manager and the registry never disagree: in every reachable state the consistency
  check of the code succeeds, the number of pending candidates stays within the policy, and a call
  can only fail because the manager is exhausted (identifiers or clock) or because an abort names a
  candidate its source does not own. None of the internal-inconsistency errors can occur.\<close>

theorem server_consistent:
  assumes "server_reachable policy h"
  shows "verify_candidate_maps h = Ok () \<and>
    pending_candidate_count h \<le> sp_maximum_pending (sm_policy (sh_pending h)) \<and>
    (\<forall>op e. snd (server_apply op h) = Some e \<longrightarrow> possible_error op e)"
proof -
  have ok: "server_ok h" by (rule server_reachable_ok [OF assms])
  then show ?thesis
    using verify_candidate_maps_ok [OF ok] manager_okD(2) [OF server_okD(1) [OF ok]]
      server_apply_sound [OF ok]
    by (simp add: sound_step_def pending_candidate_count_def)
qed

text \<open>C15. Authentication is the only way in: from any reachable listening state a call that leaves
  the server established is the authenticated finish of a candidate that is pending, unexpired,
  owned by the very source of the message and bound to the very attempt it names, and the
  established session records exactly these.\<close>

theorem established_only_authenticated:
  assumes "server_reachable policy h" and "sh_state h = ServerHandshakeState.Listening"
    and "server_apply op h = (h', e)" and "sh_state h' = ServerHandshakeState.Established session"
  shows "\<exists>b. op = OpFinish (ess_peer_endpoint session) (ess_completed_candidate_id session)
      (ess_client_attempt_id session) (ess_metadata session) (ess_established_at session) \<and>
    hm_get (sh_candidate_by_id h) (ess_completed_candidate_id session) = Some b \<and>
    sc_source b = ess_peer_endpoint session \<and> sc_client_attempt_id b = ess_client_attempt_id session \<and>
    owned (sh_pending h) (ess_peer_endpoint session) = Some (ess_completed_candidate_id session) \<and>
    \<not> due (sh_pending h) (ess_established_at session) (ess_peer_endpoint session)"
proof -
  have "lifecycle_step op h h'"
    using server_apply_sound [OF server_reachable_ok [OF assms(1)], of op] assms(3)
    by (simp add: sound_step_def)
  with assms(2,4) show ?thesis by (auto simp: lifecycle_step_def)
qed

text \<open>C32. One peer for the lifetime of the server: once a session is established, no sequence of
  calls without a shutdown changes its peer, its identifiers or its metadata; and a closed server
  stays closed under every sequence of calls.\<close>

theorem established_session_stable:
  assumes "server_reachable policy h" and "sh_state h \<noteq> ServerHandshakeState.Listening"
    and "sh_state h = ServerHandshakeState.Closed \<or> OpShutdown \<notin> set ops"
  shows "sh_state (fold (\<lambda>op. fst \<circ> server_apply op) ops h) = sh_state h"
proof -
  have "server_ok h" by (rule server_reachable_ok [OF assms(1)])
  then show ?thesis
    using assms(2,3)
  proof (induction ops arbitrary: h)
    case (Cons op ops)
    let ?h = "fst (server_apply op h)"
    have s: "sound_step op h (server_apply op h)" by (rule server_apply_sound [OF Cons.prems(1)])
    then have "sh_state ?h = sh_state h"
      using Cons.prems(2,3) by (auto simp: sound_step_def lifecycle_step_def)
    moreover have "server_ok ?h" using s by (simp add: sound_step_def)
    ultimately show ?case using Cons.IH [of ?h] Cons.prems(2,3) by auto
  qed simp
qed

text \<open>C33. The precheck that runs before the costly authentication is sound: when it permits a
  finish, reporting the successful authentication with the identifiers of the permission, at the
  same instant, establishes the session for that source and emits the finish and the established
  effects.\<close>

theorem precheck_then_finish:
  assumes "server_reachable policy h"
    and "precheck_client_finish h source attempt now = (h1, Ok report)"
    and "pr_decision report = PermitNew c a"
  shows "\<exists>h2 ex. handle_authenticated_client_finish h1 source c a metadata now = (h2, Ok
      \<lparr>sr_expired = ex, sr_effects = [SendServerFinish source c a (session_id metadata),
        SessionEstablished source (session_id metadata)]\<rparr>) \<and> a = attempt \<and>
    classify_data h2 source (session_id metadata) = PermitEstablished (session_id metadata)"
proof -
  have ok: "server_ok h" by (rule server_reachable_ok [OF assms(1)])
  show ?thesis
  proof (rule expire_and_reconcile_ok [OF ok, of now])
    fix h0 ex0
    assume e0: "expire_and_reconcile h now = (h0, Ok ex0)" and ok0: "server_ok h0"
    have again: "expire_and_reconcile h0 now = (h0, Ok [])" by (rule reconcile_again [OF ok e0])
    have lst: "sh_state h0 = ServerHandshakeState.Listening"
      using assms(2,3) by (auto simp: precheck_client_finish_def check_timeouts_def e0 Let_def
          split: ServerHandshakeState.splits if_splits)
    show ?thesis
    proof (rule current_candidate_ok [OF ok0 lst, of source])
      assume "current_candidate h0 source = Ok None"
      then show ?thesis
        using assms(2,3) lst
        by (auto simp: precheck_client_finish_def check_timeouts_def e0 Let_def candidate_owned_by_def)
    next
      fix b assume b: "sc_source b = source"
          "hm_get (sh_candidate_by_id h0) (sc_candidate_id b) = Some b"
        and cc: "current_candidate h0 source = Ok (Some b)"
      have eqs: "h1 = h0" "c = sc_candidate_id b" "a = sc_client_attempt_id b" "a = attempt"
        using assms(2,3) lst
        by (auto simp: precheck_client_finish_def check_timeouts_def e0 Let_def candidate_owned_by_def
            cc split: if_splits)
      show ?thesis
        using establish_ok [OF ok0 lst b(2), of source metadata now "[]"]
        by (auto simp: handle_authenticated_client_finish_def again lst cc eqs(1-3) classify_data_def)
          (use eqs in simp)
    qed
  qed
qed

text \<open>A server with room for two candidates, and one hello.\<close>

definition demo_policy :: SessionPolicy where
  "demo_policy = \<lparr>sp_maximum_pending = 2, sp_handshake_timeout = 5, sp_idle_timeout = 9\<rparr>"

definition demo_server :: ServerHandshake where
  "demo_server = fst (server_apply (OpHello (SocketV4 1 2) (ClientAttemptId 1) 0)
     (ServerHandshake_new demo_policy))"

definition demo_metadata :: EstablishedSessionMetadata where
  "demo_metadata = \<lparr>session_id = SessionId (replicate 32 7), peer_identity = PeerIdentity (replicate 32 9)\<rparr>"

lemma demo_reachable: "server_reachable demo_policy demo_server"
  unfolding demo_server_def
  by (rule server_reachable.step [OF server_reachable.init]) (rule surjective_pairing)

lemma demo_server_eq:
  "demo_server = \<lparr>sh_pending = \<lparr>sm_policy = demo_policy, sm_state = Running,
      sm_pending_by_source = [(SocketV4 1 2, \<lparr>pc_id = CandidateId 1, pc_created_at = 0, pc_deadline = 5\<rparr>)],
      sm_next_candidate_id = 2\<rparr>,
    sh_candidate_by_id = [(CandidateId 1, \<lparr>sc_candidate_id = CandidateId 1,
      sc_source = SocketV4 1 2, sc_client_attempt_id = ClientAttemptId 1\<rparr>)],
    sh_state = ServerHandshakeState.Listening\<rparr>"
  by (simp add: demo_server_def ServerHandshake_new_def SessionManager_new_def demo_policy_def
      outcome_def handle_valid_client_hello_def expire_and_reconcile_def expire_pending_def hm_defs
      verify_candidate_maps_def pending_count_def admit_def calculate_deadline_def
      instant_checked_add_def instant_max_def reserve_candidate_id_def u64_checked_add_def
      admit_hello_def candidate_def)

theorem server_consistent_witness:
  "verify_candidate_maps demo_server = Ok () \<and> pending_candidate_count demo_server \<le> 2"
  using server_consistent [OF demo_reachable] by (simp add: demo_server_eq demo_policy_def)

theorem established_only_authenticated_witness:
  "hm_get (sh_candidate_by_id demo_server) (CandidateId 1) \<noteq> None"
proof -
  let ?op = "OpFinish (SocketV4 1 2) (CandidateId 1) (ClientAttemptId 1) demo_metadata 4"
  let ?s = "\<lparr>ess_metadata = demo_metadata, ess_peer_endpoint = SocketV4 1 2,
    ess_completed_candidate_id = CandidateId 1, ess_client_attempt_id = ClientAttemptId 1,
    ess_established_at = 4\<rparr>"
  have "sh_state (fst (server_apply ?op demo_server)) = ServerHandshakeState.Established ?s"
    by (simp add: demo_server_eq outcome_def handle_authenticated_client_finish_def
        expire_and_reconcile_def expire_pending_def hm_defs verify_candidate_maps_def
        pending_count_def candidate_def current_candidate_def establish_def
        remove_exact_candidate_def remove_candidate_def)
  then show ?thesis
    using established_only_authenticated [OF demo_reachable, of ?op "fst (server_apply ?op demo_server)"
        "snd (server_apply ?op demo_server)" ?s]
    by (auto simp: demo_server_eq)
qed

theorem established_session_stable_witness:
  "sh_state (fold (\<lambda>op. fst \<circ> server_apply op) [OpHello (SocketV4 1 2) (ClientAttemptId 2) 9, OpTimeouts 10]
     (fst (server_apply OpShutdown demo_server))) = ServerHandshakeState.Closed"
proof -
  let ?h = "fst (server_apply OpShutdown demo_server)"
  have r: "server_reachable demo_policy ?h"
    by (rule server_reachable.step [OF demo_reachable]) (rule surjective_pairing)
  have st: "sh_state ?h = ServerHandshakeState.Closed"
    by (simp add: outcome_def server_shutdown_def demo_server_eq Let_def)
  show ?thesis
    using established_session_stable [OF r, of "[OpHello (SocketV4 1 2) (ClientAttemptId 2) 9, OpTimeouts 10]"]
    by (simp add: st del: fold.simps server_apply.simps)
qed

theorem precheck_then_finish_witness:
  "\<exists>h2 ex. handle_authenticated_client_finish (fst (precheck_client_finish demo_server (SocketV4 1 2)
      (ClientAttemptId 1) 3)) (SocketV4 1 2) (CandidateId 1) (ClientAttemptId 1) demo_metadata 3 = (h2, Ok
      \<lparr>sr_expired = ex, sr_effects = [SendServerFinish (SocketV4 1 2) (CandidateId 1) (ClientAttemptId 1)
          (session_id demo_metadata),
        SessionEstablished (SocketV4 1 2) (session_id demo_metadata)]\<rparr>)"
proof -
  have p: "snd (precheck_client_finish demo_server (SocketV4 1 2) (ClientAttemptId 1) 3) =
      Ok \<lparr>pr_expired = [], pr_decision = PermitNew (CandidateId 1) (ClientAttemptId 1)\<rparr>"
    by (simp add: demo_server_eq precheck_client_finish_def check_timeouts_def
        expire_and_reconcile_def expire_pending_def hm_defs verify_candidate_maps_def
        pending_count_def candidate_def candidate_owned_by_def current_candidate_def)
  show ?thesis
    using precheck_then_finish [OF demo_reachable, of "SocketV4 1 2" "ClientAttemptId 1" 3
        "fst (precheck_client_finish demo_server (SocketV4 1 2) (ClientAttemptId 1) 3)"
        "\<lparr>pr_expired = [], pr_decision = PermitNew (CandidateId 1) (ClientAttemptId 1)\<rparr>"
        "CandidateId 1" "ClientAttemptId 1" demo_metadata] p
    by (metis (no_types, lifting) ServerClientFinishPreAuthReport.select_convs(2) prod.collapse)
qed

end
