(* ===== verification/Session_Client.thy ===== *)
theory Session_Client
  imports Session_Types
begin

text \<open>
  The client's handshake policy (\<open>src/session/client.rs\<close>): a state machine of one attempt with a
  deadline per phase. Operations that cannot fail return the new state and an action.
\<close>

datatype ClientHandshakeState =
  Idle
| AwaitingServerHello ClientAttemptId instant instant
| AwaitingServerFinish ClientAttemptId instant instant instant
| Established EstablishedSessionMetadata instant
| Closed

datatype ClientStateName =
  Idle | AwaitingServerHello | AwaitingServerFinish | Established | Closed

datatype ClientInboundKind = ServerHello | ServerFinish | Data | OtherHandshake

datatype ClientPreAuthKind = ServerHello | ServerFinish

datatype ClientDropReason =
  UnexpectedMessage "ClientInboundKind option" ClientInboundKind
| UnexpectedSource SocketAddr SocketAddr
| StaleAttempt ClientAttemptId ClientAttemptId
| AuthenticationFailed
| PreSessionData

datatype ClientAction =
  SendClientHello ClientAttemptId
| SendClientFinish ClientAttemptId
| SessionEstablished SessionId
| Dropped ClientDropReason
| HandshakeTimedOut ClientAttemptId
| Unchanged
| Closed
| AlreadyClosed

datatype ClientPreAuthDecision =
  Permit ClientAttemptId
| Drop ClientDropReason
| Timeout ClientAttemptId

datatype ClientHandshakePhase = ServerHello | ServerFinish

datatype ClientOperation =
  Start | ApplyAuthenticatedServerHello | ApplyAuthenticatedServerFinish

datatype ClientStateError =
  InvalidLocalTransition ClientOperation ClientStateName
| DeadlineOverflow ClientHandshakePhase
| AttemptIdExhausted

datatype ClientDataDecision = RejectPreSession | PermitEstablished SessionId | RejectClosed

datatype ClientHandshakeConfigError = HandshakeTimeout

record ClientHandshake =
  ch_server_endpoint :: SocketAddr
  ch_handshake_timeout :: duration
  ch_state :: ClientHandshakeState
  ch_next_attempt_id :: u64

type_synonym 'a client_step = "ClientHandshake \<times> ('a, ClientStateError) result"

definition name :: "ClientHandshakeState \<Rightarrow> ClientStateName" where
  "name state = (case state of
     ClientHandshakeState.Idle \<Rightarrow> ClientStateName.Idle
   | ClientHandshakeState.AwaitingServerHello _ _ _ \<Rightarrow> ClientStateName.AwaitingServerHello
   | ClientHandshakeState.AwaitingServerFinish _ _ _ _ \<Rightarrow> ClientStateName.AwaitingServerFinish
   | ClientHandshakeState.Established _ _ \<Rightarrow> ClientStateName.Established
   | ClientHandshakeState.Closed \<Rightarrow> ClientStateName.Closed)"

definition expected_inbound :: "ClientHandshakeState \<Rightarrow> ClientInboundKind option" where
  "expected_inbound state = (case state of
     ClientHandshakeState.AwaitingServerHello _ _ _ \<Rightarrow> Some ClientInboundKind.ServerHello
   | ClientHandshakeState.AwaitingServerFinish _ _ _ _ \<Rightarrow> Some ClientInboundKind.ServerFinish
   | _ \<Rightarrow> None)"

definition ClientHandshake_new ::
  "SocketAddr \<Rightarrow> duration \<Rightarrow> (ClientHandshake, ClientHandshakeConfigError) result" where
  "ClientHandshake_new server_endpoint handshake_timeout =
     (if handshake_timeout = 0 then Err HandshakeTimeout
      else Ok \<lparr>ch_server_endpoint = server_endpoint, ch_handshake_timeout = handshake_timeout,
               ch_state = ClientHandshakeState.Idle, ch_next_attempt_id = 1\<rparr>)"

definition client_state_name :: "ClientHandshake \<Rightarrow> ClientStateName" where
  "client_state_name self = name (ch_state self)"

definition reserve_attempt_id :: "ClientHandshake \<Rightarrow> ClientAttemptId client_step" where
  "reserve_attempt_id self =
     (case u64_checked_add (ch_next_attempt_id self) 1 of
        None \<Rightarrow> (self, Err AttemptIdExhausted)
      | Some next \<Rightarrow>
          (self\<lparr>ch_next_attempt_id := next\<rparr>, Ok (ClientAttemptId (ch_next_attempt_id self))))"

definition unexpected_source :: "ClientHandshake \<Rightarrow> SocketAddr \<Rightarrow> ClientAction" where
  "unexpected_source self observed = Dropped (UnexpectedSource (ch_server_endpoint self) observed)"

definition start :: "ClientHandshake \<Rightarrow> instant \<Rightarrow> ClientAction client_step" where
  "start self now =
     (if ch_state self \<noteq> ClientHandshakeState.Idle
      then (self, Err (InvalidLocalTransition Start (name (ch_state self))))
      else case instant_checked_add now (ch_handshake_timeout self) of
        None \<Rightarrow> (self, Err (DeadlineOverflow ClientHandshakePhase.ServerHello))
      | Some deadline \<Rightarrow>
          bind_st (reserve_attempt_id self) (\<lambda>self attempt_id.
            (self\<lparr>ch_state := ClientHandshakeState.AwaitingServerHello attempt_id now deadline\<rparr>,
             Ok (SendClientHello attempt_id))))"

definition inbound_kind :: "ClientPreAuthKind \<Rightarrow> ClientInboundKind" where
  "inbound_kind kind = (case kind of
     ClientPreAuthKind.ServerHello \<Rightarrow> ClientInboundKind.ServerHello
   | ClientPreAuthKind.ServerFinish \<Rightarrow> ClientInboundKind.ServerFinish)"

definition precheck ::
  "ClientHandshake \<Rightarrow> SocketAddr \<Rightarrow> ClientAttemptId \<Rightarrow> ClientPreAuthKind \<Rightarrow> instant
   \<Rightarrow> ClientHandshake \<times> ClientPreAuthDecision" where
  "precheck self source attempt kind now =
     (if source \<noteq> ch_server_endpoint self
      then (self, Drop (UnexpectedSource (ch_server_endpoint self) source))
      else
        let observed = inbound_kind kind;
            check = (\<lambda>current_attempt_id deadline expected.
              if now \<ge> deadline
              then (self\<lparr>ch_state := ClientHandshakeState.Closed\<rparr>, Timeout current_attempt_id)
              else if observed \<noteq> expected
              then (self, Drop (UnexpectedMessage (Some expected) observed))
              else if attempt \<noteq> current_attempt_id
              then (self, Drop (StaleAttempt current_attempt_id attempt))
              else (self, Permit current_attempt_id))
        in case ch_state self of
             ClientHandshakeState.AwaitingServerHello attempt_id _ deadline \<Rightarrow>
               check attempt_id deadline ClientInboundKind.ServerHello
           | ClientHandshakeState.AwaitingServerFinish attempt_id _ _ deadline \<Rightarrow>
               check attempt_id deadline ClientInboundKind.ServerFinish
           | _ \<Rightarrow> (self, Drop (UnexpectedMessage None observed)))"

definition handle_authenticated_server_hello ::
  "ClientHandshake \<Rightarrow> SocketAddr \<Rightarrow> ClientAttemptId \<Rightarrow> instant \<Rightarrow> ClientAction client_step" where
  "handle_authenticated_server_hello self source attempt_id now =
     (if source \<noteq> ch_server_endpoint self then (self, Ok (unexpected_source self source))
      else case ch_state self of
        ClientHandshakeState.AwaitingServerHello current_attempt_id started_at deadline \<Rightarrow>
          if attempt_id \<noteq> current_attempt_id
          then (self, Ok (Dropped (StaleAttempt current_attempt_id attempt_id)))
          else if now \<ge> deadline
          then (self\<lparr>ch_state := ClientHandshakeState.Closed\<rparr>, Ok (HandshakeTimedOut attempt_id))
          else (case instant_checked_add now (ch_handshake_timeout self) of
            None \<Rightarrow> (self, Err (DeadlineOverflow ClientHandshakePhase.ServerFinish))
          | Some new_deadline \<Rightarrow>
              (self\<lparr>ch_state := ClientHandshakeState.AwaitingServerFinish current_attempt_id
                     started_at now new_deadline\<rparr>,
               Ok (SendClientFinish current_attempt_id)))
      | state \<Rightarrow> (self, Err (InvalidLocalTransition ApplyAuthenticatedServerHello (name state))))"

definition handle_authenticated_server_finish ::
  "ClientHandshake \<Rightarrow> SocketAddr \<Rightarrow> ClientAttemptId \<Rightarrow> EstablishedSessionMetadata \<Rightarrow> instant
   \<Rightarrow> ClientAction client_step" where
  "handle_authenticated_server_finish self source attempt_id metadata now =
     (if source \<noteq> ch_server_endpoint self then (self, Ok (unexpected_source self source))
      else case ch_state self of
        ClientHandshakeState.AwaitingServerFinish current_attempt_id _ _ deadline \<Rightarrow>
          if attempt_id \<noteq> current_attempt_id
          then (self, Ok (Dropped (StaleAttempt current_attempt_id attempt_id)))
          else if now \<ge> deadline
          then (self\<lparr>ch_state := ClientHandshakeState.Closed\<rparr>, Ok (HandshakeTimedOut attempt_id))
          else (self\<lparr>ch_state := ClientHandshakeState.Established metadata now\<rparr>,
                Ok (SessionEstablished (session_id metadata)))
      | state \<Rightarrow> (self, Err (InvalidLocalTransition ApplyAuthenticatedServerFinish (name state))))"

definition handle_authentication_failure ::
  "ClientHandshake \<Rightarrow> SocketAddr \<Rightarrow> ClientAttemptId \<Rightarrow> ClientHandshake \<times> ClientAction" where
  "handle_authentication_failure self source attempt_id =
     (if source \<noteq> ch_server_endpoint self then (self, unexpected_source self source)
      else
        let fail = (\<lambda>current_attempt_id.
          if attempt_id \<noteq> current_attempt_id
          then (self, Dropped (StaleAttempt current_attempt_id attempt_id))
          else (self\<lparr>ch_state := ClientHandshakeState.Closed\<rparr>, Dropped AuthenticationFailed))
        in case ch_state self of
             ClientHandshakeState.AwaitingServerHello current_attempt_id _ _ \<Rightarrow> fail current_attempt_id
           | ClientHandshakeState.AwaitingServerFinish current_attempt_id _ _ _ \<Rightarrow>
               fail current_attempt_id
           | _ \<Rightarrow> (self, Dropped AuthenticationFailed))"

definition handle_unexpected_message ::
  "ClientHandshake \<Rightarrow> SocketAddr \<Rightarrow> ClientInboundKind \<Rightarrow> ClientAction" where
  "handle_unexpected_message self source observed =
     (if source \<noteq> ch_server_endpoint self then unexpected_source self source
      else if observed = ClientInboundKind.Data \<and>
              \<not> (case ch_state self of ClientHandshakeState.Established _ _ \<Rightarrow> True | _ \<Rightarrow> False)
      then Dropped PreSessionData
      else Dropped (UnexpectedMessage (expected_inbound (ch_state self)) observed))"

definition check_timeout :: "ClientHandshake \<Rightarrow> instant \<Rightarrow> ClientHandshake \<times> ClientAction" where
  "check_timeout self now =
     (let expire = (\<lambda>attempt_id deadline.
        if now < deadline then (self, Unchanged)
        else (self\<lparr>ch_state := ClientHandshakeState.Closed\<rparr>, HandshakeTimedOut attempt_id))
      in case ch_state self of
           ClientHandshakeState.AwaitingServerHello attempt_id _ deadline \<Rightarrow>
             expire attempt_id deadline
         | ClientHandshakeState.AwaitingServerFinish attempt_id _ _ deadline \<Rightarrow>
             expire attempt_id deadline
         | ClientHandshakeState.Closed \<Rightarrow> (self, AlreadyClosed)
         | _ \<Rightarrow> (self, Unchanged))"

definition classify_data :: "ClientHandshake \<Rightarrow> ClientDataDecision" where
  "classify_data self = (case ch_state self of
     ClientHandshakeState.Established metadata _ \<Rightarrow> PermitEstablished (session_id metadata)
   | ClientHandshakeState.Closed \<Rightarrow> RejectClosed
   | _ \<Rightarrow> RejectPreSession)"

definition next_deadline :: "ClientHandshake \<Rightarrow> instant option" where
  "next_deadline self = (case ch_state self of
     ClientHandshakeState.AwaitingServerHello _ _ deadline \<Rightarrow> Some deadline
   | ClientHandshakeState.AwaitingServerFinish _ _ _ deadline \<Rightarrow> Some deadline
   | _ \<Rightarrow> None)"

definition shutdown :: "ClientHandshake \<Rightarrow> ClientHandshake \<times> ClientAction" where
  "shutdown self =
     (if ch_state self = ClientHandshakeState.Closed then (self, AlreadyClosed)
      else (self\<lparr>ch_state := ClientHandshakeState.Closed\<rparr>, ClientAction.Closed))"

section \<open>Runs\<close>

datatype ClientOp =
  OpStart instant
| OpPrecheck SocketAddr ClientAttemptId ClientPreAuthKind instant
| OpServerHello SocketAddr ClientAttemptId instant
| OpServerFinish SocketAddr ClientAttemptId EstablishedSessionMetadata instant
| OpAuthFailure SocketAddr ClientAttemptId
| OpTimeout instant
| OpShutdown

fun client_apply :: "ClientOp \<Rightarrow> ClientHandshake \<Rightarrow> ClientHandshake" where
  "client_apply (OpStart t) c = fst (start c t)"
| "client_apply (OpPrecheck s a k t) c = fst (precheck c s a k t)"
| "client_apply (OpServerHello s a t) c = fst (handle_authenticated_server_hello c s a t)"
| "client_apply (OpServerFinish s a md t) c = fst (handle_authenticated_server_finish c s a md t)"
| "client_apply (OpAuthFailure s a) c = fst (handle_authentication_failure c s a)"
| "client_apply (OpTimeout t) c = fst (check_timeout c t)"
| "client_apply OpShutdown c = fst (shutdown c)"

text \<open>The transitions that change the state; the configuration never changes.\<close>

inductive client_move ::
  "SocketAddr \<Rightarrow> duration \<Rightarrow> ClientOp \<Rightarrow> ClientHandshakeState \<Rightarrow> ClientHandshakeState \<Rightarrow> bool"
  for server timeout where
  stay: "client_move server timeout op st st"
| start: "client_move server timeout (OpStart t) ClientHandshakeState.Idle
    (ClientHandshakeState.AwaitingServerHello a t (t + timeout))"
| hello: "t < d \<Longrightarrow> client_move server timeout (OpServerHello server a t)
    (ClientHandshakeState.AwaitingServerHello a t0 d)
    (ClientHandshakeState.AwaitingServerFinish a t0 t (t + timeout))"
| finish: "t < d \<Longrightarrow> client_move server timeout (OpServerFinish server a md t)
    (ClientHandshakeState.AwaitingServerFinish a t0 t1 d) (ClientHandshakeState.Established md t)"
| close: "(\<forall>md t. st \<noteq> ClientHandshakeState.Established md t) \<or> op = OpShutdown \<Longrightarrow>
    client_move server timeout op st ClientHandshakeState.Closed"

inductive_cases client_move_EstablishedE:
  "client_move server timeout op st (ClientHandshakeState.Established md t)"
inductive_cases client_move_AwaitingFinishE:
  "client_move server timeout op st (ClientHandshakeState.AwaitingServerFinish a t0 t1 d)"
inductive_cases client_move_AwaitingHelloE:
  "client_move server timeout op st (ClientHandshakeState.AwaitingServerHello a t0 d)"

lemmas client_ops = start_def reserve_attempt_id_def precheck_def
  handle_authenticated_server_hello_def handle_authenticated_server_finish_def
  handle_authentication_failure_def check_timeout_def shutdown_def Let_def

lemma client_apply_config [simp]:
  "ch_server_endpoint (client_apply op c) = ch_server_endpoint c"
  "ch_handshake_timeout (client_apply op c) = ch_handshake_timeout c"
  by (cases op; auto simp: client_ops split: ClientHandshakeState.split option.split if_split)+

lemma client_apply_move:
  "client_move (ch_server_endpoint c) (ch_handshake_timeout c) op (ch_state c) (ch_state (client_apply op c))"
  by (cases op)
    (auto simp: client_ops intro: client_move.intros
      split: ClientHandshakeState.split option.split if_split)

text \<open>How a run of a new client reaches its states.\<close>

definition client_run :: "SocketAddr \<Rightarrow> duration \<Rightarrow> ClientOp list \<Rightarrow> ClientHandshake" where
  "client_run server timeout ops = fold client_apply ops
     \<lparr>ch_server_endpoint = server, ch_handshake_timeout = timeout,
      ch_state = ClientHandshakeState.Idle, ch_next_attempt_id = 1\<rparr>"

lemma client_run_Nil: "ch_state (client_run server timeout []) = ClientHandshakeState.Idle"
  by (simp add: client_run_def)

lemma client_run_config [simp]:
  "ch_server_endpoint (client_run server timeout ops) = server"
  "ch_handshake_timeout (client_run server timeout ops) = timeout"
  by (induction ops rule: rev_induct) (simp_all add: client_run_def)

lemma client_run_snoc:
  "client_run server timeout (ops @ [op]) = client_apply op (client_run server timeout ops)"
  by (simp add: client_run_def)

lemma client_run_move:
  "client_move server timeout op (ch_state (client_run server timeout ops))
     (ch_state (client_run server timeout (ops @ [op])))"
  using client_apply_move [of "client_run server timeout ops" op] by (simp add: client_run_snoc)

lemma awaiting_hello_history:
  "ch_state (client_run server timeout ops) = ClientHandshakeState.AwaitingServerHello a t0 d \<Longrightarrow>
   d = t0 + timeout \<and> OpStart t0 \<in> set ops"
proof (induction ops rule: rev_induct)
  case (snoc op ops)
  have "client_move server timeout op (ch_state (client_run server timeout ops))
      (ClientHandshakeState.AwaitingServerHello a t0 d)"
    using client_run_move [of server timeout op ops] snoc.prems by simp
  then show ?case by (rule client_move_AwaitingHelloE) (use snoc.IH in auto)
qed (simp add: client_run_Nil)

lemma awaiting_finish_history:
  "ch_state (client_run server timeout ops) = ClientHandshakeState.AwaitingServerFinish a t0 t1 d \<Longrightarrow>
   d = t1 + timeout \<and> t1 < t0 + timeout \<and>
   (\<exists>pre post. ops = pre @ OpServerHello server a t1 # post \<and> OpStart t0 \<in> set pre)"
proof (induction ops rule: rev_induct)
  case (snoc op ops)
  have "client_move server timeout op (ch_state (client_run server timeout ops))
      (ClientHandshakeState.AwaitingServerFinish a t0 t1 d)"
    using client_run_move [of server timeout op ops] snoc.prems by simp
  then show ?case
  proof (rule client_move_AwaitingFinishE)
    assume "ClientHandshakeState.AwaitingServerFinish a t0 t1 d = ch_state (client_run server timeout ops)"
    from snoc.IH [OF this [symmetric]] obtain pre post where h: "d = t1 + timeout" "t1 < t0 + timeout"
      "ops = pre @ OpServerHello server a t1 # post" "OpStart t0 \<in> set pre" by blast
    then show ?thesis by (intro conjI exI [of _ pre] exI [of _ "post @ [op]"]) simp_all
  next
    fix d0 assume "op = OpServerHello server a t1" "d = t1 + timeout" "t1 < d0"
      and "ch_state (client_run server timeout ops) = ClientHandshakeState.AwaitingServerHello a t0 d0"
    then show ?thesis using awaiting_hello_history by fastforce
  qed
qed (simp add: client_run_Nil)

lemma established_history:
  "ch_state (client_run server timeout ops) = ClientHandshakeState.Established md t \<Longrightarrow>
   \<exists>a t0 t1 xs ys zs. ops = xs @ OpServerHello server a t1 # ys @ OpServerFinish server a md t # zs \<and>
     OpStart t0 \<in> set xs \<and> t1 < t0 + timeout \<and> t < t1 + timeout"
proof (induction ops rule: rev_induct)
  case (snoc op ops)
  have "client_move server timeout op (ch_state (client_run server timeout ops))
      (ClientHandshakeState.Established md t)"
    using client_run_move [of server timeout op ops] snoc.prems by simp
  then show ?case
  proof (rule client_move_EstablishedE)
    assume "ClientHandshakeState.Established md t = ch_state (client_run server timeout ops)"
    from snoc.IH [OF this [symmetric]] obtain a t0 t1 xs ys zs where
      "ops = xs @ OpServerHello server a t1 # ys @ OpServerFinish server a md t # zs"
      "OpStart t0 \<in> set xs \<and> t1 < t0 + timeout \<and> t < t1 + timeout" by blast
    then show ?thesis
      by (intro exI [of _ a] exI [of _ t0] exI [of _ t1] exI [of _ xs] exI [of _ ys]
          exI [of _ "zs @ [op]"]) simp
  next
    fix d a t0 t1 assume op: "op = OpServerFinish server a md t" and lt: "t < d"
      and st: "ch_state (client_run server timeout ops) = ClientHandshakeState.AwaitingServerFinish a t0 t1 d"
    obtain pre post where "d = t1 + timeout" "t1 < t0 + timeout"
      "ops = pre @ OpServerHello server a t1 # post" "OpStart t0 \<in> set pre"
      using awaiting_finish_history [OF st] by blast
    then show ?thesis
      using op lt
      by (intro exI [of _ a] exI [of _ t0] exI [of _ t1] exI [of _ pre] exI [of _ post]
          exI [of _ "[]"]) simp
  qed
qed (simp add: client_run_Nil)

text \<open>The order in which the states are visited.\<close>

fun stage :: "ClientHandshakeState \<Rightarrow> nat" where
  "stage ClientHandshakeState.Idle = 0"
| "stage (ClientHandshakeState.AwaitingServerHello _ _ _) = 1"
| "stage (ClientHandshakeState.AwaitingServerFinish _ _ _ _) = 2"
| "stage (ClientHandshakeState.Established _ _) = 3"
| "stage ClientHandshakeState.Closed = 4"

lemma client_move_stage: "client_move server timeout op st st' \<Longrightarrow> st' = st \<or> stage st < stage st'"
proof (induction rule: client_move.induct)
  case (close st op)
  then show ?case by (cases st) auto
qed auto

lemma client_run_stage:
  "ch_state (fold client_apply ops c) = ch_state c \<or> stage (ch_state c) < stage (ch_state (fold client_apply ops c))"
proof (induction ops arbitrary: c)
  case (Cons op ops)
  show ?case
    using client_move_stage [OF client_apply_move [of c op]] Cons [of "client_apply op c"]
    by auto
qed simp

section \<open>Properties\<close>

text \<open>C16. A client is established only through the full exchange: whatever sequence of calls is
  made on a new client, if it ends established at \<open>t\<close> with some metadata, then the calls contain a
  start, then the authenticated server hello of one attempt from the configured endpoint within the
  timeout of the start, then the authenticated server finish of the same attempt from the same
  endpoint, with exactly this metadata, at \<open>t\<close>, within the timeout of the hello.\<close>

theorem client_established_history:
  assumes "ClientHandshake_new server timeout = Ok c"
    and "ch_state (fold client_apply ops c) = ClientHandshakeState.Established md t"
  shows "\<exists>a t0 t1 xs ys zs. ops = xs @ OpServerHello server a t1 # ys @ OpServerFinish server a md t # zs \<and>
     OpStart t0 \<in> set xs \<and> t1 < t0 + timeout \<and> t < t1 + timeout"
proof -
  have "fold client_apply ops c = client_run server timeout ops"
    using assms(1) by (auto simp: ClientHandshake_new_def client_run_def split: if_splits)
  with assms(2) show ?thesis by (intro established_history) simp
qed

text \<open>The lifecycle only moves forward: under every sequence of calls a client keeps its state
  or advances through idle, awaiting hello, awaiting finish, established, closed; it never returns to
  an earlier stage, so at most one attempt is ever made and closed is terminal.\<close>

theorem client_lifecycle_monotone:
  "let st = ch_state c; st' = ch_state (fold client_apply ops c)
   in st' = st \<or> stage st < stage st'"
  using client_run_stage by (simp add: Let_def)

text \<open>The precheck made before authentication is sound: when it permits a message, reporting the
  successful authentication at the same instant advances the handshake (or fails only because the
  deadline of the next phase is not representable); when it drops or times out, the client keeps its
  state or is closed.\<close>

theorem client_precheck_sound:
  "case precheck c source attempt kind now of
     (c', Permit a) \<Rightarrow> c' = c \<and> a = attempt \<and> source = ch_server_endpoint c \<and>
       (case kind of
          ClientPreAuthKind.ServerHello \<Rightarrow>
            snd (handle_authenticated_server_hello c source a now) \<in>
              {Ok (SendClientFinish a), Err (DeadlineOverflow ClientHandshakePhase.ServerFinish)}
        | ClientPreAuthKind.ServerFinish \<Rightarrow>
            handle_authenticated_server_finish c source a md now =
              (c\<lparr>ch_state := ClientHandshakeState.Established md now\<rparr>,
               Ok (SessionEstablished (session_id md))))
   | (c', Drop _) \<Rightarrow> c' = c
   | (c', Timeout a) \<Rightarrow> ch_state c' = ClientHandshakeState.Closed \<and>
       (\<exists>d. next_deadline c = Some d \<and> d \<le> now)"
  by (auto simp: precheck_def Let_def inbound_kind_def handle_authenticated_server_hello_def
      handle_authenticated_server_finish_def next_deadline_def
      split: ClientHandshakeState.splits ClientPreAuthKind.splits option.splits)

theorem client_established_history_witness:
  "\<exists>a t0 t1 xs ys zs. [OpStart 0, OpServerHello (SocketV4 1 2) (ClientAttemptId 1) 3,
       OpServerFinish (SocketV4 1 2) (ClientAttemptId 1)
         \<lparr>session_id = SessionId [], peer_identity = PeerIdentity []\<rparr> 6]
     = xs @ OpServerHello (SocketV4 1 2) a t1 # ys @ OpServerFinish (SocketV4 1 2) a
         \<lparr>session_id = SessionId [], peer_identity = PeerIdentity []\<rparr> 6 # zs \<and>
     OpStart t0 \<in> set xs \<and> t1 < t0 + 5 \<and> 6 < t1 + (5 :: nat)"
proof (rule client_established_history)
  show "ClientHandshake_new (SocketV4 1 2) 5 = Ok \<lparr>ch_server_endpoint = SocketV4 1 2,
      ch_handshake_timeout = 5, ch_state = ClientHandshakeState.Idle, ch_next_attempt_id = 1\<rparr>"
    by (simp add: ClientHandshake_new_def)
qed (simp add: client_ops u64_checked_add_def instant_checked_add_def instant_max_def)

end
