(* ===== verification/Handshake_Types.thy ===== *)
theory Handshake_Types
  imports Crypto_Types Session_Server Session_Client
begin

text \<open>
  Messages, reports and errors of the handshake coordinators (\<open>src/handshake/types.rs\<close>). Payloads
  are type parameters, as in the source.
\<close>

datatype CoordinatorLifecycle = Running | Closed

record 'p ClientHello =
  clh_client_attempt_id :: ClientAttemptId
  clh_payload :: 'p

record 'p ServerHello =
  svh_client_attempt_id :: ClientAttemptId
  svh_payload :: 'p

record 'p ClientFinish =
  clf_client_attempt_id :: ClientAttemptId
  clf_payload :: 'p

record 'p ServerFinish =
  svf_client_attempt_id :: ClientAttemptId
  svf_payload :: 'p

datatype ('ch, 'cf) ClientHandshakeMessage =
  ClientHello "'ch ClientHello"
| ClientFinish "'cf ClientFinish"

datatype ('sh, 'sf) ServerHandshakeMessage =
  ServerHello "'sh ServerHello"
| ServerFinish "'sf ServerFinish"

record 'm ServerOutbound =
  so_destination :: SocketAddr
  so_message :: 'm

datatype CoordinatorBuildError =
  UnexpectedInitialClientPolicyState ClientStateName
| UnexpectedInitialClientCryptoPhase ClientCryptoPhase
| UnexpectedInitialServerPolicyState ServerStateName
| ServerCryptoNotFresh ServerCryptoStatus

datatype ClientCoordinatorEvent =
  Dropped ClientDropReason
| HandshakeTimedOut ClientAttemptId
| SessionEstablished EstablishedSessionMetadata
| Closed bool CryptoShutdownOutcome
| AlreadyClosed

record ('ch, 'cf) ClientCoordinatorReport =
  cr_outbound :: "('ch, 'cf) ClientHandshakeMessage list"
  cr_events :: "ClientCoordinatorEvent list"

datatype ServerCoordinatorEvent =
  Dropped SocketAddr ServerDropReason
| CandidateExpired CandidateId SocketAddr ClientAttemptId
| SessionEstablished SocketAddr EstablishedSessionMetadata
| Closed usize bool CryptoShutdownOutcome
| AlreadyClosed

record ('sh, 'sf) ServerCoordinatorReport =
  sc_outbound :: "('sh, 'sf) ServerHandshakeMessage ServerOutbound list"
  sc_events :: "ServerCoordinatorEvent list"

datatype CoordinatorInvariantError =
  UnexpectedClientAction
| UnexpectedServerEffect
| UnexpectedServerReport
| AttemptMismatch ClientAttemptId ClientAttemptId
| SessionMetadataMismatch EstablishedSessionMetadata EstablishedSessionMetadata
| ClientPhaseMismatch ClientStateName ClientCryptoPhase
| ServerPhaseMismatch ServerStateName ServerCryptoPhase
| ServerPendingContextCountMismatch usize usize
| ServerCryptoStatusMismatch ServerStateName ServerCryptoStatus
| CandidateCleanupMismatch CandidateId ServerCandidateRemoval ServerCandidateRemoval
| ClientContextCleanupMismatch ClientAttemptId ClientContextRemoval ClientContextRemoval
| CryptoFailureCorrelationMismatch
| CryptoResultCorrelationMismatch

datatype CoordinatorPrimaryError =
  ClientPolicy ClientStateError
| ServerPolicy ServerStateError
| Crypto CryptoStateError
| Invariant CoordinatorInvariantError

datatype CoordinatorPolicyCleanup =
  Client ClientAction
| Server "ServerReport option" "ServerStateError option"

record FatalCoordinatorError =
  fce_primary :: CoordinatorPrimaryError
  fce_policy_cleanup :: CoordinatorPolicyCleanup
  fce_crypto_cleanup :: CryptoShutdownOutcome

end
