(* ===== verification/Handshake_Client.thy ===== *)
theory Handshake_Client
  imports Handshake_Types
begin

text \<open>
  The client's handshake coordinator (\<open>src/handshake/client.rs\<close>), which runs the session policy and a
  crypto provider in step. Every operation takes the provider's methods \<open>C\<close>. The contract of a
  provider is the locale \<open>client_crypto\<close>; under it no internal check of the coordinator ever fails.
\<close>

record 'c ClientHandshakeCoordinator =
  chc_policy :: ClientHandshake
  chc_crypto :: 'c
  chc_lifecycle :: CoordinatorLifecycle

type_synonym ('c, 'ch, 'cf) client_coordinator_step =
  "'c ClientHandshakeCoordinator \<times> (('ch, 'cf) ClientCoordinatorReport, FatalCoordinatorError) result"

definition build ::
  "('c, 'ch, 'sh, 'cf, 'sf) ClientHandshakeCrypto \<Rightarrow> ClientHandshake \<Rightarrow> 'c
   \<Rightarrow> ('c ClientHandshakeCoordinator, CoordinatorBuildError) result" where
  "build C policy crypto =
     (if client_state_name policy \<noteq> ClientStateName.Idle
      then Err (UnexpectedInitialClientPolicyState (client_state_name policy))
      else if cc_phase C crypto \<noteq> ClientCryptoPhase.Idle
      then Err (UnexpectedInitialClientCryptoPhase (cc_phase C crypto))
      else Ok \<lparr>chc_policy = policy, chc_crypto = crypto, chc_lifecycle = CoordinatorLifecycle.Running\<rparr>)"

definition expected_crypto :: "ClientStateName \<Rightarrow> ClientCryptoPhase" where
  "expected_crypto n = (case n of
     ClientStateName.Idle \<Rightarrow> ClientCryptoPhase.Idle
   | ClientStateName.AwaitingServerHello \<Rightarrow> ClientCryptoPhase.AwaitingServerHello
   | ClientStateName.AwaitingServerFinish \<Rightarrow> ClientCryptoPhase.AwaitingServerFinish
   | ClientStateName.Established \<Rightarrow> ClientCryptoPhase.Established
   | ClientStateName.Closed \<Rightarrow> ClientCryptoPhase.Closed)"

definition verify_client_phases ::
  "('c, 'ch, 'sh, 'cf, 'sf) ClientHandshakeCrypto \<Rightarrow> ClientHandshake \<Rightarrow> 'c
   \<Rightarrow> (unit, CoordinatorInvariantError) result" where
  "verify_client_phases C policy crypto =
     (if cc_phase C crypto \<noteq> expected_crypto (client_state_name policy)
      then Err (ClientPhaseMismatch (client_state_name policy) (cc_phase C crypto))
      else Ok ())"

definition fail_closed ::
  "('c, 'ch, 'sh, 'cf, 'sf) ClientHandshakeCrypto \<Rightarrow> 'c ClientHandshakeCoordinator
   \<Rightarrow> CoordinatorPrimaryError \<Rightarrow> 'c ClientHandshakeCoordinator \<times> FatalCoordinatorError" where
  "fail_closed C self primary =
     (let (policy, policy_action) = Session_Client.shutdown (chc_policy self);
          (crypto, crypto_cleanup) = cc_shutdown C (chc_crypto self)
      in (self\<lparr>chc_policy := policy, chc_crypto := crypto,
               chc_lifecycle := CoordinatorLifecycle.Closed\<rparr>,
          \<lparr>fce_primary = primary, fce_policy_cleanup = CoordinatorPolicyCleanup.Client policy_action,
           fce_crypto_cleanup = crypto_cleanup\<rparr>))"

text \<open>\<open>return Err(self.fail_closed(..))\<close>.\<close>

definition fatal ::
  "('c, 'ch, 'sh, 'cf, 'sf) ClientHandshakeCrypto \<Rightarrow> 'c ClientHandshakeCoordinator
   \<Rightarrow> CoordinatorPrimaryError \<Rightarrow> ('c, 'ch, 'cf) client_coordinator_step" where
  "fatal C self primary = (let (self, e) = fail_closed C self primary in (self, Err e))"

text \<open>The final check of an operation: verify the phases, then return the report.\<close>

definition verified ::
  "('c, 'ch, 'sh, 'cf, 'sf) ClientHandshakeCrypto \<Rightarrow> 'c ClientHandshakeCoordinator
   \<Rightarrow> ('c, 'ch, 'cf) client_coordinator_step \<Rightarrow> ('c, 'ch, 'cf) client_coordinator_step" where
  "verified C self step =
     (case verify_client_phases C (chc_policy self) (chc_crypto self) of
        Inl e \<Rightarrow> fatal C self (Invariant e)
      | Inr _ \<Rightarrow> step)"

text \<open>The block that ends an attempt: close its context, check the outcome, close the coordinator.\<close>

definition end_attempt ::
  "('c, 'ch, 'sh, 'cf, 'sf) ClientHandshakeCrypto \<Rightarrow> 'c ClientHandshakeCoordinator
   \<Rightarrow> ClientAttemptId \<Rightarrow> ClientCoordinatorEvent \<Rightarrow> ('c, 'ch, 'cf) client_coordinator_step" where
  "end_attempt C self attempt_id event =
     (case cc_close_context C (chc_crypto self) attempt_id of
        (crypto, Inl e) \<Rightarrow> fatal C (self\<lparr>chc_crypto := crypto\<rparr>) (Crypto e)
      | (crypto, Inr removal) \<Rightarrow>
        let self = self\<lparr>chc_crypto := crypto\<rparr> in
        if removal \<noteq> ClientContextRemoval.Removed
        then fatal C self (Invariant (ClientContextCleanupMismatch attempt_id
               ClientContextRemoval.Removed removal))
        else verified C self
          (self\<lparr>chc_lifecycle := CoordinatorLifecycle.Closed\<rparr>,
           Ok \<lparr>cr_outbound = [], cr_events = [event]\<rparr>))"

text \<open>The treatment of a remote failure, the same for both messages.\<close>

definition remote_failure ::
  "('c, 'ch, 'sh, 'cf, 'sf) ClientHandshakeCrypto \<Rightarrow> 'c ClientHandshakeCoordinator
   \<Rightarrow> SocketAddr \<Rightarrow> ClientAttemptId \<Rightarrow> AuthenticationFailure \<Rightarrow> ('c, 'ch, 'cf) client_coordinator_step" where
  "remote_failure C self source attempt_id failure = (case failure of
     ServerCandidate _ _ _ \<Rightarrow> fatal C self (Invariant CryptoFailureCorrelationMismatch)
   | ClientAttempt observed_attempt _ \<Rightarrow>
       if observed_attempt \<noteq> attempt_id
       then fatal C self (Invariant (AttemptMismatch attempt_id observed_attempt))
       else
         let (policy, action) =
               Session_Client.handle_authentication_failure (chc_policy self) source attempt_id;
             self = self\<lparr>chc_policy := policy\<rparr>
         in if action \<noteq> ClientAction.Dropped ClientDropReason.AuthenticationFailed
            then fatal C self (Invariant UnexpectedClientAction)
            else end_attempt C self attempt_id
              (ClientCoordinatorEvent.Dropped ClientDropReason.AuthenticationFailed))"

section \<open>Operations\<close>

definition start ::
  "('c, 'ch, 'sh, 'cf, 'sf) ClientHandshakeCrypto \<Rightarrow> 'c ClientHandshakeCoordinator \<Rightarrow> instant
   \<Rightarrow> ('c, 'ch, 'cf) client_coordinator_step" where
  "start C self now =
     (case Session_Client.start (chc_policy self) now of
        (policy, Inl e) \<Rightarrow> fatal C (self\<lparr>chc_policy := policy\<rparr>) (ClientPolicy e)
      | (policy, Inr action) \<Rightarrow>
        let self = self\<lparr>chc_policy := policy\<rparr> in
        (case action of
           SendClientHello attempt_id \<Rightarrow>
             (case cc_start_attempt C (chc_crypto self) attempt_id of
                (crypto, Inl e) \<Rightarrow> fatal C (self\<lparr>chc_crypto := crypto\<rparr>) (Crypto e)
              | (crypto, Inr prepared) \<Rightarrow>
                let self = self\<lparr>chc_crypto := crypto\<rparr> in
                if pch_attempt_id prepared \<noteq> attempt_id
                then fatal C self (Invariant (AttemptMismatch attempt_id (pch_attempt_id prepared)))
                else verified C self (self, Ok \<lparr>cr_outbound =
                  [ClientHandshakeMessage.ClientHello \<lparr>clh_client_attempt_id = attempt_id,
                     clh_payload = pch_payload prepared\<rparr>], cr_events = []\<rparr>))
         | _ \<Rightarrow> fatal C self (Invariant UnexpectedClientAction)))"

text \<open>After an authenticated server hello: advance the policy and prepare the client finish.\<close>

definition send_client_finish ::
  "('c, 'ch, 'sh, 'cf, 'sf) ClientHandshakeCrypto \<Rightarrow> 'c ClientHandshakeCoordinator
   \<Rightarrow> SocketAddr \<Rightarrow> ClientAttemptId \<Rightarrow> instant \<Rightarrow> ('c, 'ch, 'cf) client_coordinator_step" where
  "send_client_finish C self source attempt_id now =
     (case Session_Client.handle_authenticated_server_hello (chc_policy self) source attempt_id now of
        (policy, Inl e) \<Rightarrow> fatal C (self\<lparr>chc_policy := policy\<rparr>) (ClientPolicy e)
      | (policy, Inr action) \<Rightarrow>
        let self = self\<lparr>chc_policy := policy\<rparr> in
        (case action of
           SendClientFinish observed_attempt \<Rightarrow>
             if observed_attempt \<noteq> attempt_id
             then fatal C self (Invariant (AttemptMismatch attempt_id observed_attempt))
             else (case cc_prepare_client_finish C (chc_crypto self) attempt_id of
               Inl e \<Rightarrow> fatal C self (Crypto e)
             | Inr prepared \<Rightarrow>
                 if pcf_attempt_id prepared \<noteq> attempt_id
                 then fatal C self (Invariant (AttemptMismatch attempt_id (pcf_attempt_id prepared)))
                 else verified C self (self, Ok \<lparr>cr_outbound =
                   [ClientHandshakeMessage.ClientFinish \<lparr>clf_client_attempt_id = attempt_id,
                      clf_payload = pcf_payload prepared\<rparr>], cr_events = []\<rparr>))
         | _ \<Rightarrow> fatal C self (Invariant UnexpectedClientAction)))"

definition receive_server_hello ::
  "('c, 'ch, 'sh, 'cf, 'sf) ClientHandshakeCrypto \<Rightarrow> 'c ClientHandshakeCoordinator
   \<Rightarrow> SocketAddr \<Rightarrow> 'sh ServerHello \<Rightarrow> instant \<Rightarrow> ('c, 'ch, 'cf) client_coordinator_step" where
  "receive_server_hello C self source message now =
     (let (policy, decision) = precheck (chc_policy self) source (svh_client_attempt_id message)
            ClientPreAuthKind.ServerHello now;
          self = self\<lparr>chc_policy := policy\<rparr>
      in case decision of
           ClientPreAuthDecision.Drop reason \<Rightarrow>
             (self, Ok \<lparr>cr_outbound = [], cr_events = [ClientCoordinatorEvent.Dropped reason]\<rparr>)
         | ClientPreAuthDecision.Timeout attempt_id \<Rightarrow>
             end_attempt C self attempt_id (ClientCoordinatorEvent.HandshakeTimedOut attempt_id)
         | ClientPreAuthDecision.Permit attempt_id \<Rightarrow>
           (case cc_authenticate_server_hello C (chc_crypto self) attempt_id (svh_payload message) of
              (crypto, Inl e) \<Rightarrow> fatal C (self\<lparr>chc_crypto := crypto\<rparr>) (Crypto e)
            | (crypto, Inr result) \<Rightarrow>
              let self = self\<lparr>chc_crypto := crypto\<rparr> in
              (case result of
                 RemoteFailure failure \<Rightarrow> remote_failure C self source attempt_id failure
               | Success authenticated \<Rightarrow>
                   if ash_attempt_id authenticated \<noteq> attempt_id
                   then fatal C self
                     (Invariant (AttemptMismatch attempt_id (ash_attempt_id authenticated)))
                   else send_client_finish C self source attempt_id now)))"

text \<open>After an authenticated server finish: establish the policy, then commit the keys.\<close>

definition establish_session ::
  "('c, 'ch, 'sh, 'cf, 'sf) ClientHandshakeCrypto \<Rightarrow> 'c ClientHandshakeCoordinator
   \<Rightarrow> SocketAddr \<Rightarrow> AuthenticatedServerFinish \<Rightarrow> instant \<Rightarrow> ('c, 'ch, 'cf) client_coordinator_step" where
  "establish_session C self source authenticated now =
     (case Session_Client.handle_authenticated_server_finish (chc_policy self) source
             (asf_attempt_id authenticated) (asf_metadata authenticated) now of
        (policy, Inl e) \<Rightarrow> fatal C (self\<lparr>chc_policy := policy\<rparr>) (ClientPolicy e)
      | (policy, Inr action) \<Rightarrow>
        let self = self\<lparr>chc_policy := policy\<rparr> in
        (case action of
           ClientAction.SessionEstablished observed_session \<Rightarrow>
             if observed_session \<noteq> session_id (asf_metadata authenticated)
             then fatal C self (Invariant UnexpectedClientAction)
             else (case cc_commit_session C (chc_crypto self) (asf_attempt_id authenticated)
                          (asf_metadata authenticated) of
               (crypto, Inl e) \<Rightarrow> fatal C (self\<lparr>chc_crypto := crypto\<rparr>) (Crypto e)
             | (crypto, Inr _) \<Rightarrow>
               let self = self\<lparr>chc_crypto := crypto\<rparr> in
               verified C self (self, Ok \<lparr>cr_outbound = [], cr_events =
                 [ClientCoordinatorEvent.SessionEstablished (asf_metadata authenticated)]\<rparr>))
         | _ \<Rightarrow> fatal C self (Invariant UnexpectedClientAction)))"

definition receive_server_finish ::
  "('c, 'ch, 'sh, 'cf, 'sf) ClientHandshakeCrypto \<Rightarrow> 'c ClientHandshakeCoordinator
   \<Rightarrow> SocketAddr \<Rightarrow> 'sf ServerFinish \<Rightarrow> instant \<Rightarrow> ('c, 'ch, 'cf) client_coordinator_step" where
  "receive_server_finish C self source message now =
     (let (policy, decision) = precheck (chc_policy self) source (svf_client_attempt_id message)
            ClientPreAuthKind.ServerFinish now;
          self = self\<lparr>chc_policy := policy\<rparr>
      in case decision of
           ClientPreAuthDecision.Drop reason \<Rightarrow>
             (self, Ok \<lparr>cr_outbound = [], cr_events = [ClientCoordinatorEvent.Dropped reason]\<rparr>)
         | ClientPreAuthDecision.Timeout attempt_id \<Rightarrow>
             end_attempt C self attempt_id (ClientCoordinatorEvent.HandshakeTimedOut attempt_id)
         | ClientPreAuthDecision.Permit permitted_attempt \<Rightarrow>
           (case cc_authenticate_server_finish C (chc_crypto self) permitted_attempt
                   (svf_payload message) of
              (crypto, Inl e) \<Rightarrow> fatal C (self\<lparr>chc_crypto := crypto\<rparr>) (Crypto e)
            | (crypto, Inr result) \<Rightarrow>
              let self = self\<lparr>chc_crypto := crypto\<rparr> in
              (case result of
                 RemoteFailure failure \<Rightarrow> remote_failure C self source permitted_attempt failure
               | Success authenticated \<Rightarrow>
                   if asf_attempt_id authenticated \<noteq> permitted_attempt
                   then fatal C self
                     (Invariant (AttemptMismatch permitted_attempt (asf_attempt_id authenticated)))
                   else establish_session C self source authenticated now)))"

definition check_timeout ::
  "('c, 'ch, 'sh, 'cf, 'sf) ClientHandshakeCrypto \<Rightarrow> 'c ClientHandshakeCoordinator \<Rightarrow> instant
   \<Rightarrow> ('c, 'ch, 'cf) client_coordinator_step" where
  "check_timeout C self now =
     (let (policy, action) = Session_Client.check_timeout (chc_policy self) now;
          self = self\<lparr>chc_policy := policy\<rparr>
      in case action of
           Unchanged \<Rightarrow> verified C self (self, Ok \<lparr>cr_outbound = [], cr_events = []\<rparr>)
         | ClientAction.AlreadyClosed \<Rightarrow>
             verified C self (self\<lparr>chc_lifecycle := CoordinatorLifecycle.Closed\<rparr>,
               Ok \<lparr>cr_outbound = [], cr_events = [ClientCoordinatorEvent.AlreadyClosed]\<rparr>)
         | ClientAction.HandshakeTimedOut attempt_id \<Rightarrow>
             end_attempt C self attempt_id (ClientCoordinatorEvent.HandshakeTimedOut attempt_id)
         | _ \<Rightarrow> fatal C self (Invariant UnexpectedClientAction))"

definition coordinator_shutdown ::
  "('c, 'ch, 'sh, 'cf, 'sf) ClientHandshakeCrypto \<Rightarrow> 'c ClientHandshakeCoordinator
   \<Rightarrow> ('c, 'ch, 'cf) client_coordinator_step" where
  "coordinator_shutdown C self =
     (let (policy, policy_action) = Session_Client.shutdown (chc_policy self);
          (crypto, crypto_cleanup) = cc_shutdown C (chc_crypto self);
          self = self\<lparr>chc_policy := policy, chc_crypto := crypto,
                   chc_lifecycle := CoordinatorLifecycle.Closed\<rparr>;
          error = (\<lambda>e. \<lparr>fce_primary = Invariant e,
            fce_policy_cleanup = CoordinatorPolicyCleanup.Client policy_action,
            fce_crypto_cleanup = crypto_cleanup\<rparr>);
          closed = (\<lambda>event. (self, Ok \<lparr>cr_outbound = [], cr_events = [event]\<rparr>))
      in case verify_client_phases C policy crypto of
           Inl e \<Rightarrow> (self, Err (error e))
         | Inr _ \<Rightarrow>
           (case policy_action of
              ClientAction.Closed \<Rightarrow> closed (ClientCoordinatorEvent.Closed True crypto_cleanup)
            | ClientAction.AlreadyClosed \<Rightarrow>
                if already_closed crypto_cleanup then closed ClientCoordinatorEvent.AlreadyClosed
                else closed (ClientCoordinatorEvent.Closed False crypto_cleanup)
            | _ \<Rightarrow> (self, Err (error UnexpectedClientAction))))"

section \<open>Runs\<close>

datatype ('sh, 'sf) ClientCall =
  CallStart instant
| CallServerHello SocketAddr "'sh ServerHello" instant
| CallServerFinish SocketAddr "'sf ServerFinish" instant
| CallTimeout instant
| CallShutdown

fun client_call ::
  "('c, 'ch, 'sh, 'cf, 'sf) ClientHandshakeCrypto \<Rightarrow> ('sh, 'sf) ClientCall
   \<Rightarrow> 'c ClientHandshakeCoordinator \<Rightarrow> ('c, 'ch, 'cf) client_coordinator_step" where
  "client_call C (CallStart t) k = start C k t"
| "client_call C (CallServerHello s m t) k = receive_server_hello C k s m t"
| "client_call C (CallServerFinish s m t) k = receive_server_finish C k s m t"
| "client_call C (CallTimeout t) k = check_timeout C k t"
| "client_call C CallShutdown k = coordinator_shutdown C k"

inductive client_coordinated ::
  "('c, 'ch, 'sh, 'cf, 'sf) ClientHandshakeCrypto \<Rightarrow> 'c ClientHandshakeCoordinator
   \<Rightarrow> 'c ClientHandshakeCoordinator \<Rightarrow> bool"
  for C k0 where
  base: "client_coordinated C k0 k0"
| step: "client_coordinated C k0 k \<Longrightarrow> client_coordinated C k0 (fst (client_call C call k))"

text \<open>Failed internal checks, as opposed to refusals of the policy or the provider.\<close>

definition invariant_failure :: "FatalCoordinatorError \<Rightarrow> bool" where
  "invariant_failure e \<longleftrightarrow> (case fce_primary e of Invariant _ \<Rightarrow> True | _ \<Rightarrow> False)"

definition current_attempt :: "ClientHandshakeState \<Rightarrow> ClientAttemptId option" where
  "current_attempt st = (case st of
     ClientHandshakeState.AwaitingServerHello a _ _ \<Rightarrow> Some a
   | ClientHandshakeState.AwaitingServerFinish a _ _ _ \<Rightarrow> Some a
   | _ \<Rightarrow> None)"

section \<open>What the policy answers\<close>

lemma precheck_drop:
  "precheck p s a kind t = (p', ClientPreAuthDecision.Drop reason) \<Longrightarrow> p' = p"
  by (auto simp: precheck_def Let_def split: ClientHandshakeState.splits if_splits)

lemma precheck_timeout:
  "precheck p s a kind t = (p', ClientPreAuthDecision.Timeout a') \<Longrightarrow>
   current_attempt (ch_state p) = Some a' \<and> ch_state p' = ClientHandshakeState.Closed"
  by (auto simp: precheck_def Let_def current_attempt_def split: ClientHandshakeState.splits if_splits)

lemma precheck_permit_hello:
  "precheck p s a ClientPreAuthKind.ServerHello t = (p', ClientPreAuthDecision.Permit a') \<Longrightarrow>
   p' = p \<and> a' = a \<and> s = ch_server_endpoint p \<and>
   (\<exists>t0 d. ch_state p = ClientHandshakeState.AwaitingServerHello a t0 d \<and> t < d)"
  by (auto simp: precheck_def Let_def inbound_kind_def split: ClientHandshakeState.splits if_splits)

lemma precheck_permit_finish:
  "precheck p s a ClientPreAuthKind.ServerFinish t = (p', ClientPreAuthDecision.Permit a') \<Longrightarrow>
   p' = p \<and> a' = a \<and> s = ch_server_endpoint p \<and>
   (\<exists>t0 t1 d. ch_state p = ClientHandshakeState.AwaitingServerFinish a t0 t1 d \<and> t < d)"
  by (auto simp: precheck_def Let_def inbound_kind_def split: ClientHandshakeState.splits if_splits)

lemma failure_closes:
  assumes "current_attempt (ch_state p) = Some a" and "s = ch_server_endpoint p"
  shows "\<exists>p'. Session_Client.handle_authentication_failure p s a =
      (p', ClientAction.Dropped ClientDropReason.AuthenticationFailed) \<and>
    ch_state p' = ClientHandshakeState.Closed"
  using assms
  by (auto simp: Session_Client.handle_authentication_failure_def current_attempt_def Let_def
      split: ClientHandshakeState.splits)

lemma current_attempt_phase:
  "current_attempt (ch_state p) = Some a \<Longrightarrow>
   expected_crypto (client_state_name p) \<in>
     {ClientCryptoPhase.AwaitingServerHello, ClientCryptoPhase.AwaitingServerFinish}"
  by (auto simp: current_attempt_def client_state_name_def name_def expected_crypto_def
      split: ClientHandshakeState.splits)

section \<open>The contract of a provider\<close>

text \<open>
  \<open>owner\<close> is the attempt whose context the provider holds, \<open>agreed\<close> the metadata it authenticated.
  Nothing is promised after an error except that shutdown closes the provider.
\<close>

locale client_crypto =
  fixes C :: "('c, 'ch, 'sh, 'cf, 'sf) ClientHandshakeCrypto"
    and owner :: "'c \<Rightarrow> ClientAttemptId option"
    and agreed :: "'c \<Rightarrow> EstablishedSessionMetadata option"
    and crypto_ok :: "'c \<Rightarrow> bool"
  assumes start_law: "crypto_ok c \<Longrightarrow> cc_phase C c = ClientCryptoPhase.Idle \<Longrightarrow>
      cc_start_attempt C c a = (c', Ok p) \<Longrightarrow>
      crypto_ok c' \<and> pch_attempt_id p = a \<and> owner c' = Some a \<and>
      cc_phase C c' = ClientCryptoPhase.AwaitingServerHello"
    and hello_law: "crypto_ok c \<Longrightarrow> cc_phase C c = ClientCryptoPhase.AwaitingServerHello \<Longrightarrow>
      owner c = Some a \<Longrightarrow> cc_authenticate_server_hello C c a sh = (c', Ok r) \<Longrightarrow>
      crypto_ok c' \<and> owner c' = Some a \<and>
      (case r of
         Success s \<Rightarrow> ash_attempt_id s = a \<and> cc_phase C c' = ClientCryptoPhase.AwaitingServerFinish
       | RemoteFailure f \<Rightarrow> (\<exists>reason. f = ClientAttempt a reason) \<and>
           cc_phase C c' = ClientCryptoPhase.AwaitingServerHello)"
    and prepare_law: "crypto_ok c \<Longrightarrow> cc_phase C c = ClientCryptoPhase.AwaitingServerFinish \<Longrightarrow>
      owner c = Some a \<Longrightarrow> \<exists>p. cc_prepare_client_finish C c a = Ok p \<and> pcf_attempt_id p = a"
    and finish_law: "crypto_ok c \<Longrightarrow> cc_phase C c = ClientCryptoPhase.AwaitingServerFinish \<Longrightarrow>
      owner c = Some a \<Longrightarrow> cc_authenticate_server_finish C c a sf = (c', Ok q) \<Longrightarrow>
      crypto_ok c' \<and> owner c' = Some a \<and>
      (case q of
         Success s \<Rightarrow> asf_attempt_id s = a \<and> agreed c' = Some (asf_metadata s) \<and>
           cc_phase C c' = ClientCryptoPhase.AuthenticatedPendingCommit
       | RemoteFailure f \<Rightarrow> (\<exists>reason. f = ClientAttempt a reason) \<and>
           cc_phase C c' = ClientCryptoPhase.AwaitingServerFinish)"
    and commit_law: "crypto_ok c \<Longrightarrow> cc_phase C c = ClientCryptoPhase.AuthenticatedPendingCommit \<Longrightarrow>
      owner c = Some a \<Longrightarrow> agreed c = Some md \<Longrightarrow>
      \<exists>c'. cc_commit_session C c a md = (c', Ok ()) \<and> crypto_ok c' \<and> agreed c' = Some md \<and>
        cc_phase C c' = ClientCryptoPhase.Established"
    and close_law: "crypto_ok c \<Longrightarrow> cc_phase C c \<noteq> ClientCryptoPhase.Idle \<Longrightarrow>
      cc_phase C c \<noteq> ClientCryptoPhase.Closed \<Longrightarrow> owner c = Some a \<Longrightarrow>
      \<exists>c'. cc_close_context C c a = (c', Ok ClientContextRemoval.Removed) \<and> crypto_ok c' \<and>
        cc_phase C c' = ClientCryptoPhase.Closed"
    and shutdown_law: "cc_shutdown C c = (c', cleanup) \<Longrightarrow>
      crypto_ok c' \<and> cc_phase C c' = ClientCryptoPhase.Closed"
begin

definition synced :: "'c ClientHandshakeCoordinator \<Rightarrow> bool" where
  "synced k \<longleftrightarrow> crypto_ok (chc_crypto k) \<and>
     cc_phase C (chc_crypto k) = expected_crypto (client_state_name (chc_policy k)) \<and>
     (chc_lifecycle k = CoordinatorLifecycle.Closed \<longleftrightarrow>
        ch_state (chc_policy k) = ClientHandshakeState.Closed) \<and>
     (\<forall>a. current_attempt (ch_state (chc_policy k)) = Some a \<longrightarrow> owner (chc_crypto k) = Some a) \<and>
     (\<forall>md t. ch_state (chc_policy k) = ClientHandshakeState.Established md t \<longrightarrow>
        agreed (chc_crypto k) = Some md)"

definition good :: "('c, 'ch, 'cf) client_coordinator_step \<Rightarrow> bool" where
  "good r \<longleftrightarrow> synced (fst r) \<and>
     (\<forall>e. snd r = Err e \<longrightarrow>
        chc_lifecycle (fst r) = CoordinatorLifecycle.Closed \<and> \<not> invariant_failure e)"

lemmas sync_defs = synced_def client_state_name_def name_def expected_crypto_def current_attempt_def

lemma good_Ok [simp]: "good (k, Ok r) \<longleftrightarrow> synced k"
  by (simp add: good_def)

lemma policy_shutdown_state [simp]:
  "ch_state (fst (Session_Client.shutdown p)) = ClientHandshakeState.Closed"
  by (simp add: Session_Client.shutdown_def)

lemma fatal_good:
  assumes "\<And>x. primary \<noteq> Invariant x"
  shows "good (fatal C k primary)"
proof -
  obtain p a where p: "Session_Client.shutdown (chc_policy k) = (p, a)" by fastforce
  obtain c o' where c: "cc_shutdown C (chc_crypto k) = (c, o')" by fastforce
  have "ch_state p = ClientHandshakeState.Closed"
    using policy_shutdown_state [of "chc_policy k"] by (simp add: p)
  then show ?thesis
    using shutdown_law [OF c] assms
    by (simp add: fatal_def fail_closed_def p c good_def sync_defs invariant_failure_def
        split: CoordinatorPrimaryError.split)
qed

lemma verified_good:
  assumes "cc_phase C (chc_crypto k) = expected_crypto (client_state_name (chc_policy k))" and "good r"
  shows "good (verified C k r)"
  using assms by (simp add: verified_def verify_client_phases_def)

lemma end_attempt_good:
  assumes "crypto_ok (chc_crypto k)" and "owner (chc_crypto k) = Some a"
    and "cc_phase C (chc_crypto k) \<noteq> ClientCryptoPhase.Idle"
    and "cc_phase C (chc_crypto k) \<noteq> ClientCryptoPhase.Closed"
    and "ch_state (chc_policy k) = ClientHandshakeState.Closed"
  shows "good (end_attempt C k a event)"
proof -
  obtain c' where "cc_close_context C (chc_crypto k) a = (c', Ok ClientContextRemoval.Removed)"
    "crypto_ok c'" "cc_phase C c' = ClientCryptoPhase.Closed"
    using close_law [OF assms(1,3,4,2)] by blast
  then show ?thesis
    using assms(5) by (simp add: end_attempt_def Let_def verified_good sync_defs)
qed

lemma remote_failure_good:
  assumes "crypto_ok (chc_crypto k)" and "owner (chc_crypto k) = Some a"
    and "cc_phase C (chc_crypto k) = expected_crypto (client_state_name (chc_policy k))"
    and "current_attempt (ch_state (chc_policy k)) = Some a" and "s = ch_server_endpoint (chc_policy k)"
  shows "good (remote_failure C k s a (ClientAttempt a reason))"
proof -
  obtain p' where "Session_Client.handle_authentication_failure (chc_policy k) s a =
      (p', ClientAction.Dropped ClientDropReason.AuthenticationFailed)"
    "ch_state p' = ClientHandshakeState.Closed"
    using failure_closes [OF assms(4,5)] by blast
  then show ?thesis
    using assms(1-3) current_attempt_phase [OF assms(4)]
    by (simp add: remote_failure_def) (rule end_attempt_good, auto)
qed

lemma timeout_good:
  assumes "synced k" and "current_attempt (ch_state (chc_policy k)) = Some a"
    and "ch_state p' = ClientHandshakeState.Closed"
  shows "good (end_attempt C (k\<lparr>chc_policy := p'\<rparr>) a event)"
  using assms current_attempt_phase [OF assms(2)] by (intro end_attempt_good) (auto simp: synced_def)

lemma start_good:
  assumes ok: "synced k"
  shows "good (start C k t)"
proof (cases "Session_Client.start (chc_policy k) t")
  case (Pair p r)
  show ?thesis
  proof (cases r)
    case (Inl e)
    then show ?thesis by (simp add: start_def Pair fatal_good)
  next
    case (Inr act)
    then obtain a where st: "ch_state (chc_policy k) = ClientHandshakeState.Idle"
      "act = SendClientHello a" "\<exists>d. ch_state p = ClientHandshakeState.AwaitingServerHello a t d"
      using Pair
      by (auto simp: Session_Client.start_def reserve_attempt_id_def split: if_splits option.splits)
    have ph: "crypto_ok (chc_crypto k)" "cc_phase C (chc_crypto k) = ClientCryptoPhase.Idle"
      "chc_lifecycle k \<noteq> CoordinatorLifecycle.Closed"
      using ok st(1) by (simp_all add: sync_defs)
    obtain c' q where c: "cc_start_attempt C (chc_crypto k) a = (c', q)" by fastforce
    show ?thesis
    proof (cases q)
      case (Inl e)
      then show ?thesis by (simp add: start_def Pair Inr st(2) c Let_def fatal_good)
    next
      case (Inr pr)
      then have "crypto_ok c' \<and> pch_attempt_id pr = a \<and> owner c' = Some a \<and>
          cc_phase C c' = ClientCryptoPhase.AwaitingServerHello"
        using start_law [OF ph(1,2)] c by blast
      then show ?thesis
        using st(3) ph(3) Pair \<open>r = Inr act\<close> Inr
        by (auto simp: start_def st(2) c Let_def sync_defs intro!: verified_good)
    qed
  qed
qed

lemma send_client_finish_good:
  assumes st: "ch_state (chc_policy k) = ClientHandshakeState.AwaitingServerHello a t0 d" and "t < d"
    and s: "s = ch_server_endpoint (chc_policy k)"
    and c: "crypto_ok (chc_crypto k)" "owner (chc_crypto k) = Some a"
      "cc_phase C (chc_crypto k) = ClientCryptoPhase.AwaitingServerFinish"
    and run: "chc_lifecycle k \<noteq> CoordinatorLifecycle.Closed"
  shows "good (send_client_finish C k s a t)"
proof -
  obtain pr where pr: "cc_prepare_client_finish C (chc_crypto k) a = Ok pr" "pcf_attempt_id pr = a"
    using prepare_law [OF c(1,3,2)] by blast
  show ?thesis
  proof (cases "instant_checked_add t (ch_handshake_timeout (chc_policy k))")
    case None
    then show ?thesis
      using st s assms(2)
      by (simp add: send_client_finish_def handle_authenticated_server_hello_def fatal_good
          del: instant_checked_add_None)
  next
    case (Some d')
    then show ?thesis
      using st s assms(2) c run pr
      by (simp add: send_client_finish_def handle_authenticated_server_hello_def
          Let_def sync_defs verified_good del: instant_checked_add_Some)
  qed
qed

lemma receive_server_hello_good:
  assumes ok: "synced k"
  shows "good (receive_server_hello C k s m t)"
proof -
  obtain p d where pc: "precheck (chc_policy k) s (svh_client_attempt_id m)
      ClientPreAuthKind.ServerHello t = (p, d)" by fastforce
  show ?thesis
  proof (cases d)
    case (Drop reason)
    then show ?thesis
      using ok precheck_drop [OF pc [unfolded Drop]]
      by (simp add: receive_server_hello_def pc Let_def)
  next
    case (Timeout a)
    then show ?thesis
      using precheck_timeout [OF pc [unfolded Timeout]] ok
      by (simp add: receive_server_hello_def pc Let_def timeout_good)
  next
    case (Permit a)
    obtain t0 d' where p: "p = chc_policy k" "svh_client_attempt_id m = a"
      "s = ch_server_endpoint (chc_policy k)"
      "ch_state (chc_policy k) = ClientHandshakeState.AwaitingServerHello a t0 d'" "t < d'"
      using precheck_permit_hello [OF pc [unfolded Permit]] by blast
    have c: "crypto_ok (chc_crypto k)" "owner (chc_crypto k) = Some a"
      "cc_phase C (chc_crypto k) = ClientCryptoPhase.AwaitingServerHello"
      "chc_lifecycle k \<noteq> CoordinatorLifecycle.Closed"
      using ok p(4) by (simp_all add: sync_defs)
    obtain c' q where au: "cc_authenticate_server_hello C (chc_crypto k) a (svh_payload m) = (c', q)"
      by fastforce
    show ?thesis
    proof (cases q)
      case (Inl e)
      then show ?thesis by (simp add: receive_server_hello_def pc Permit au Let_def p(1) fatal_good)
    next
      case (Inr r)
      note law = hello_law [OF c(1,3,2) au [unfolded Inr]]
      show ?thesis
      proof (cases r)
        case (Success x)
        then have "receive_server_hello C k s m t = send_client_finish C (k\<lparr>chc_crypto := c'\<rparr>) s a t"
          using law by (simp add: receive_server_hello_def pc Permit au Inr Let_def p(1))
        then show ?thesis
          using law Success p c(4) send_client_finish_good [of "k\<lparr>chc_crypto := c'\<rparr>" a t0 d' t s] by simp
      next
        case (RemoteFailure f)
        then obtain reason where "f = ClientAttempt a reason" using law by auto
        then have "receive_server_hello C k s m t =
            remote_failure C (k\<lparr>chc_crypto := c'\<rparr>) s a (ClientAttempt a reason)"
          using RemoteFailure by (simp add: receive_server_hello_def pc Permit au Inr Let_def p(1))
        then show ?thesis
          using law RemoteFailure p remote_failure_good [of "k\<lparr>chc_crypto := c'\<rparr>" a s reason]
          by (simp add: sync_defs)
      qed
    qed
  qed
qed

lemma establish_session_good:
  assumes st: "ch_state (chc_policy k) = ClientHandshakeState.AwaitingServerFinish a t0 t1 d" and "t < d"
    and s: "s = ch_server_endpoint (chc_policy k)"
    and c: "crypto_ok (chc_crypto k)" "owner (chc_crypto k) = Some a"
      "cc_phase C (chc_crypto k) = ClientCryptoPhase.AuthenticatedPendingCommit"
      "agreed (chc_crypto k) = Some (asf_metadata x)"
    and x: "asf_attempt_id x = a"
    and run: "chc_lifecycle k \<noteq> CoordinatorLifecycle.Closed"
  shows "good (establish_session C k s x t)"
proof -
  obtain c' where "cc_commit_session C (chc_crypto k) a (asf_metadata x) = (c', Ok ())" "crypto_ok c'"
    "agreed c' = Some (asf_metadata x)" "cc_phase C c' = ClientCryptoPhase.Established"
    using commit_law [OF c(1,3,2,4)] by blast
  then show ?thesis
    using st s assms(2) x run
    by (simp add: establish_session_def handle_authenticated_server_finish_def Let_def verified_good
        sync_defs)
qed

lemma receive_server_finish_good:
  assumes ok: "synced k"
  shows "good (receive_server_finish C k s m t)"
proof -
  obtain p d where pc: "precheck (chc_policy k) s (svf_client_attempt_id m)
      ClientPreAuthKind.ServerFinish t = (p, d)" by fastforce
  show ?thesis
  proof (cases d)
    case (Drop reason)
    then show ?thesis
      using ok precheck_drop [OF pc [unfolded Drop]]
      by (simp add: receive_server_finish_def pc Let_def)
  next
    case (Timeout a)
    then show ?thesis
      using precheck_timeout [OF pc [unfolded Timeout]] ok
      by (simp add: receive_server_finish_def pc Let_def timeout_good)
  next
    case (Permit a)
    obtain t0 t1 d' where p: "p = chc_policy k" "svf_client_attempt_id m = a"
      "s = ch_server_endpoint (chc_policy k)"
      "ch_state (chc_policy k) = ClientHandshakeState.AwaitingServerFinish a t0 t1 d'" "t < d'"
      using precheck_permit_finish [OF pc [unfolded Permit]] by blast
    have c: "crypto_ok (chc_crypto k)" "owner (chc_crypto k) = Some a"
      "cc_phase C (chc_crypto k) = ClientCryptoPhase.AwaitingServerFinish"
      "chc_lifecycle k \<noteq> CoordinatorLifecycle.Closed"
      using ok p(4) by (simp_all add: sync_defs)
    obtain c' q where au: "cc_authenticate_server_finish C (chc_crypto k) a (svf_payload m) = (c', q)"
      by fastforce
    show ?thesis
    proof (cases q)
      case (Inl e)
      then show ?thesis by (simp add: receive_server_finish_def pc Permit au Let_def p(1) fatal_good)
    next
      case (Inr r)
      note law = finish_law [OF c(1,3,2) au [unfolded Inr]]
      show ?thesis
      proof (cases r)
        case (Success x)
        then have "receive_server_finish C k s m t = establish_session C (k\<lparr>chc_crypto := c'\<rparr>) s x t"
          using law by (simp add: receive_server_finish_def pc Permit au Inr Let_def p(1))
        then show ?thesis
          using law Success p c(4)
            establish_session_good [of "k\<lparr>chc_crypto := c'\<rparr>" a t0 t1 d' t s x] by simp
      next
        case (RemoteFailure f)
        then obtain reason where "f = ClientAttempt a reason" using law by auto
        then have "receive_server_finish C k s m t =
            remote_failure C (k\<lparr>chc_crypto := c'\<rparr>) s a (ClientAttempt a reason)"
          using RemoteFailure by (simp add: receive_server_finish_def pc Permit au Inr Let_def p(1))
        then show ?thesis
          using law RemoteFailure p remote_failure_good [of "k\<lparr>chc_crypto := c'\<rparr>" a s reason]
          by (simp add: sync_defs)
      qed
    qed
  qed
qed

lemma check_timeout_good:
  assumes ok: "synced k"
  shows "good (check_timeout C k t)"
proof (cases "Session_Client.check_timeout (chc_policy k) t")
  case (Pair p act)
  consider "act = Unchanged" "p = chc_policy k"
    | "act = ClientAction.AlreadyClosed" "p = chc_policy k"
        "ch_state (chc_policy k) = ClientHandshakeState.Closed"
    | a where "act = ClientAction.HandshakeTimedOut a"
        "current_attempt (ch_state (chc_policy k)) = Some a" "ch_state p = ClientHandshakeState.Closed"
    using Pair
    by (auto simp: Session_Client.check_timeout_def Let_def current_attempt_def
        split: ClientHandshakeState.splits if_splits)
  then show ?thesis
  proof cases
    case 3
    then show ?thesis using ok timeout_good [of k a p] by (simp add: check_timeout_def Pair Let_def)
  qed (use ok in \<open>auto simp: check_timeout_def Pair Let_def synced_def intro!: verified_good\<close>)
qed

lemma coordinator_shutdown_good: "good (coordinator_shutdown C k)"
proof -
  obtain p a where p: "Session_Client.shutdown (chc_policy k) = (p, a)" by fastforce
  obtain c o' where c: "cc_shutdown C (chc_crypto k) = (c, o')" by fastforce
  have "ch_state p = ClientHandshakeState.Closed" "a = ClientAction.Closed \<or> a = ClientAction.AlreadyClosed"
    using p by (auto simp: Session_Client.shutdown_def split: if_splits)
  then show ?thesis
    using shutdown_law [OF c]
    by (auto simp: coordinator_shutdown_def p c Let_def sync_defs verify_client_phases_def)
qed

theorem client_call_good: "synced k \<Longrightarrow> good (client_call C call k)"
  by (cases call) (simp_all add: start_good receive_server_hello_good receive_server_finish_good
      check_timeout_good coordinator_shutdown_good)

lemma coordinated_synced:
  assumes "client_coordinated C k0 k" and "synced k0"
  shows "synced k"
  using assms by induction (auto dest: client_call_good simp: good_def)

lemma build_synced:
  assumes "build C policy crypto = Ok k" and "crypto_ok crypto"
  shows "synced k"
  using assms
  by (auto simp: build_def sync_defs split: if_splits ClientHandshakeState.splits)

end

text \<open>What every method of a provider keeps, the coordinator keeps.\<close>

locale client_crypto_constant =
  fixes C :: "('c, 'ch, 'sh, 'cf, 'sf) ClientHandshakeCrypto" and const :: "'c \<Rightarrow> 'k"
  assumes start_keeps: "cc_start_attempt C c a = (c', r1) \<Longrightarrow> const c' = const c"
    and hello_keeps: "cc_authenticate_server_hello C c a sh = (c', r2) \<Longrightarrow> const c' = const c"
    and finish_keeps: "cc_authenticate_server_finish C c a sf = (c', r3) \<Longrightarrow> const c' = const c"
    and commit_keeps: "cc_commit_session C c a md = (c', r4) \<Longrightarrow> const c' = const c"
    and close_keeps: "cc_close_context C c a = (c', r5) \<Longrightarrow> const c' = const c"
    and shutdown_keeps: "cc_shutdown C c = (c', r6) \<Longrightarrow> const c' = const c"
begin

definition held :: "('c, 'ch, 'cf) client_coordinator_step \<Rightarrow> 'k" where
  "held r = const (chc_crypto (fst r))"

lemma held_Pair [simp]: "held (k, r) = const (chc_crypto k)"
  by (simp add: held_def)

lemmas keeps = start_keeps hello_keeps finish_keeps commit_keeps close_keeps shutdown_keeps

lemma fatal_held [simp]: "held (fatal C k e) = const (chc_crypto k)"
  by (auto simp: fatal_def fail_closed_def dest: keeps split: prod.splits)

lemma verified_held [simp]:
  "held r = const (chc_crypto k) \<Longrightarrow> held (verified C k r) = const (chc_crypto k)"
  by (simp add: verified_def split: sum.split)

lemma end_attempt_held [simp]: "held (end_attempt C k a e) = const (chc_crypto k)"
  by (auto simp: end_attempt_def Let_def dest: keeps split: prod.split sum.split)

lemma remote_failure_held [simp]: "held (remote_failure C k s a f) = const (chc_crypto k)"
  by (auto simp: remote_failure_def Let_def split: prod.split AuthenticationFailure.split)

lemma send_client_finish_held [simp]: "held (send_client_finish C k s a t) = const (chc_crypto k)"
  by (auto simp: send_client_finish_def Let_def split: prod.split sum.split ClientAction.split)

lemma establish_session_held [simp]: "held (establish_session C k s x t) = const (chc_crypto k)"
  by (auto simp: establish_session_def Let_def dest: keeps
      split: prod.split sum.split ClientAction.split)

lemma client_call_held: "held (client_call C call k) = const (chc_crypto k)"
proof (cases call)
  case (CallStart t)
  then show ?thesis
    by (auto simp: start_def Let_def dest: keeps split: prod.split sum.split ClientAction.split)
next
  case (CallServerHello s m t)
  then show ?thesis
    by (auto simp: receive_server_hello_def Let_def dest: keeps
        split: prod.split sum.split ClientPreAuthDecision.split CryptoOutcome.split)
next
  case (CallServerFinish s m t)
  then show ?thesis
    by (auto simp: receive_server_finish_def Let_def dest: keeps
        split: prod.split sum.split ClientPreAuthDecision.split CryptoOutcome.split)
next
  case (CallTimeout t)
  then show ?thesis
    by (auto simp: check_timeout_def Let_def split: prod.split ClientAction.split)
next
  case CallShutdown
  then show ?thesis
    by (auto simp: coordinator_shutdown_def Let_def dest: keeps
        split: prod.split sum.split ClientAction.split)
qed

lemma coordinated_keeps:
  assumes "client_coordinated C k0 k"
  shows "const (chc_crypto k) = const (chc_crypto k0)"
  using assms by induction (simp_all add: client_call_held [unfolded held_def])

end

end
