(* ===== verification/Noise_Client.thy ===== *)
theory Noise_Client
  imports Noise_Profile Noise_Snow Handshake_Client
begin

text \<open>
  The client's Noise IK provider (\<open>src/crypto/noise_ik/client.rs\<close>). The Noise library is the parameter
  \<open>S\<close>; the provider carries the entropy the library draws. The provider implements the contract
  \<open>client_crypto\<close> whatever the library does.
\<close>

datatype 'h Context =
  Hello (hello_id: ClientAttemptId) 'h bytes
| Finish ClientAttemptId StatelessTransportState bytes PeerIdentity bytes
| Pending ClientAttemptId StatelessTransportState EstablishedSessionMetadata bytes bytes
| Established ClientAttemptId StatelessTransportState EstablishedSessionMetadata

record ('r, 'h) ClientProvider =
  cp_phase :: ClientCryptoPhase
  cp_local_private_key :: bytes
  cp_pinned_server_static_public :: bytes
  cp_context :: "'h Context option"
  cp_entropy :: 'r

definition ClientProvider_new :: "bytes \<Rightarrow> bytes \<Rightarrow> 'r \<Rightarrow> ('r, 'h) ClientProvider" where
  "ClientProvider_new local_private_key pinned_server_static_public entropy =
     \<lparr>cp_phase = ClientCryptoPhase.Idle, cp_local_private_key = local_private_key,
      cp_pinned_server_static_public = pinned_server_static_public, cp_context = None,
      cp_entropy = entropy\<rparr>"

definition into_established_transport ::
  "('r, 'h) ClientProvider \<Rightarrow> (StatelessTransportState \<times> EstablishedSessionMetadata) option" where
  "into_established_transport self = (case cp_context self of
     Some (Context.Established _ transport metadata) \<Rightarrow>
       if cp_phase self = ClientCryptoPhase.Established then Some (transport, metadata) else None
   | _ \<Rightarrow> None)"

definition client_id :: "('r, 'h) ClientProvider \<Rightarrow> ClientAttemptId option" where
  "client_id self = (case cp_context self of
     Some (Hello i _ _) \<Rightarrow> Some i
   | Some (Finish i _ _ _ _) \<Rightarrow> Some i
   | Some (Pending i _ _ _ _) \<Rightarrow> Some i
   | Some (Context.Established i _ _) \<Rightarrow> Some i
   | None \<Rightarrow> None)"

definition check ::
  "('r, 'h) ClientProvider \<Rightarrow> ClientCryptoOperation \<Rightarrow> ClientAttemptId
   \<Rightarrow> (unit, CryptoStateError) result" where
  "check self op id' =
     (if (case client_id self of Some expected \<Rightarrow> expected \<noteq> id' | None \<Rightarrow> False)
      then Err (AttemptIdMismatch (the (client_id self)) id')
      else if cp_phase self = ClientCryptoPhase.Closed
      then Err (CryptoStateError.Closed (CryptoOperation.Client op))
      else Ok ())"

definition sid :: "bytes \<Rightarrow> SessionId" where
  "sid hash = SessionId hash"

text \<open>An array of 32 zero bytes, overwritten with as much of the key as fits.\<close>

definition identity :: "bytes \<Rightarrow> PeerIdentity" where
  "identity key = PeerIdentity (take 32 key @ replicate (32 - length key) 0)"

definition start_attempt ::
  "('r, 'h) Snow \<Rightarrow> ('r, 'h) ClientProvider \<Rightarrow> ClientAttemptId
   \<Rightarrow> (('r, 'h) ClientProvider, NoiseIkPayload PreparedClientHello) crypto_step" where
  "start_attempt S self id' =
     (let failed = NoiseIkFailure StartAttempt in
      if cp_phase self = ClientCryptoPhase.Closed
      then (self, Err (CryptoStateError.Closed (CryptoOperation.Client StartAttempt)))
      else if cp_phase self \<noteq> ClientCryptoPhase.Idle
      then (self, Err (InvalidClientState StartAttempt (cp_phase self)))
      else case build_prologue id' of
        Inl _ \<Rightarrow> (self, Err failed)
      | Inr pro \<Rightarrow>
        (case build_initiator S NOISE_PROTOCOL_NAME (cp_local_private_key self)
                (cp_pinned_server_static_public self) pro (cp_entropy self) of
           (entropy, None) \<Rightarrow> (self\<lparr>cp_entropy := entropy\<rparr>, Err failed)
         | (entropy, Some state) \<Rightarrow>
           let self = self\<lparr>cp_entropy := entropy\<rparr> in
           (case encode_control MessageType.ClientHello id' of
              Inl _ \<Rightarrow> (self, Err failed)
            | Inr c \<Rightarrow>
              (case hs_write_message S state c CLIENT_HELLO_PAYLOAD_LENGTH of
                 (state, None) \<Rightarrow> (self, Err failed)
               | (state, Some out) \<Rightarrow>
                   if length out \<noteq> CLIENT_HELLO_PAYLOAD_LENGTH then (self, Err failed)
                   else (self\<lparr>cp_context := Some (Hello id' state out),
                              cp_phase := ClientCryptoPhase.AwaitingServerHello\<rparr>,
                         Ok \<lparr>pch_attempt_id = id', pch_payload = NoiseIkPayload out\<rparr>)))))"

text \<open>A control record that was read validates.\<close>

definition valid_control :: "bytes option \<Rightarrow> MessageType \<Rightarrow> ClientAttemptId \<Rightarrow> bool" where
  "valid_control plain kind id' = (case plain of
     Some p \<Rightarrow> length p = 16 \<and> validate_control p kind id' = Ok ()
   | None \<Rightarrow> False)"

text \<open>The last part of \<open>authenticate_server_hello\<close>: the context has been taken and the peer accepted.\<close>

definition enter_finish ::
  "('r, 'h) Snow \<Rightarrow> ('r, 'h) ClientProvider \<Rightarrow> ClientAttemptId \<Rightarrow> 'h \<Rightarrow> bytes
   \<Rightarrow> (('r, 'h) ClientProvider, AuthenticatedServerHello CryptoOutcome) crypto_step" where
  "enter_finish S self id' state remote =
     (let failed = NoiseIkFailure AuthenticateServerHello; hash = get_handshake_hash S state in
      if length hash \<noteq> 32 then (self, Err failed)
      else case into_stateless_transport_mode S state of
        None \<Rightarrow> (self, Err failed)
      | Some transport \<Rightarrow>
        (case encode_control MessageType.ClientFinish id' of
           Inl _ \<Rightarrow> (self, Err failed)
         | Inr c \<Rightarrow>
           (case write_message transport 0 c CLIENT_FINISH_PAYLOAD_LENGTH of
              None \<Rightarrow> (self, Err failed)
            | Some out \<Rightarrow>
                if length out \<noteq> CLIENT_FINISH_PAYLOAD_LENGTH then (self, Err failed)
                else (self\<lparr>cp_context := Some (Finish id' transport hash (identity remote) out),
                           cp_phase := ClientCryptoPhase.AwaitingServerFinish\<rparr>,
                      Ok (Success \<lparr>ash_attempt_id = id'\<rparr>)))))"

definition authenticate_server_hello ::
  "('r, 'h) Snow \<Rightarrow> ('r, 'h) ClientProvider \<Rightarrow> ClientAttemptId \<Rightarrow> NoiseIkPayload
   \<Rightarrow> (('r, 'h) ClientProvider, AuthenticatedServerHello CryptoOutcome) crypto_step" where
  "authenticate_server_hello S self id' payload =
     bind_st (self, check self AuthenticateServerHello id') (\<lambda>self _.
       let failed = NoiseIkFailure AuthenticateServerHello in
       if cp_phase self \<noteq> ClientCryptoPhase.AwaitingServerHello
       then (self, Err (InvalidClientState AuthenticateServerHello (cp_phase self)))
       else if length (payload_bytes payload) \<noteq> SERVER_HELLO_PAYLOAD_LENGTH then (self, Err failed)
       else case cp_context self of
         Some (Hello ctx_id state hello) \<Rightarrow>
           let taken = self\<lparr>cp_context := None\<rparr>;
               (state, plain) = hs_read_message S state (payload_bytes payload)
                 SERVER_HELLO_PAYLOAD_LENGTH;
               failure = (\<lambda>reason. (taken\<lparr>cp_context := Some (Hello ctx_id state hello)\<rparr>,
                 Ok (RemoteFailure (ClientAttempt id' reason))))
           in if \<not> valid_control plain MessageType.ServerHello id' then failure InvalidProof
              else (case get_remote_static S state of
                None \<Rightarrow> failure IdentityMismatch
              | Some remote \<Rightarrow>
                  if remote \<noteq> cp_pinned_server_static_public self then failure IdentityMismatch
                  else enter_finish S taken id' state remote)
       | _ \<Rightarrow> (self\<lparr>cp_context := None\<rparr>, Err failed))"

definition prepare_client_finish ::
  "('r, 'h) ClientProvider \<Rightarrow> ClientAttemptId
   \<Rightarrow> (NoiseIkPayload PreparedClientFinish, CryptoStateError) result" where
  "prepare_client_finish self id' =
     and_then (check self PrepareClientFinish id') (\<lambda>_.
       case cp_context self of
         Some (Finish _ _ _ _ client_finish) \<Rightarrow>
           Ok \<lparr>pcf_attempt_id = id', pcf_payload = NoiseIkPayload client_finish\<rparr>
       | _ \<Rightarrow> Err (InvalidClientState PrepareClientFinish (cp_phase self)))"

definition authenticate_server_finish ::
  "('r, 'h) ClientProvider \<Rightarrow> ClientAttemptId \<Rightarrow> NoiseIkPayload
   \<Rightarrow> (('r, 'h) ClientProvider, AuthenticatedServerFinish CryptoOutcome) crypto_step" where
  "authenticate_server_finish self id' payload =
     bind_st (self, check self AuthenticateServerFinish id') (\<lambda>self _.
       let failed = NoiseIkFailure AuthenticateServerFinish in
       if cp_phase self \<noteq> ClientCryptoPhase.AwaitingServerFinish
       then (self, Err (InvalidClientState AuthenticateServerFinish (cp_phase self)))
       else if length (payload_bytes payload) \<noteq> SERVER_FINISH_PAYLOAD_LENGTH then (self, Err failed)
       else case cp_context self of
         Some (Finish ctx_id transport hash peer client_finish) \<Rightarrow>
           let plain = read_message transport 0 (payload_bytes payload) SERVER_FINISH_PAYLOAD_LENGTH
           in if \<not> valid_control plain MessageType.ServerFinish id'
              then (self\<lparr>cp_context := Some (Finish ctx_id transport hash peer client_finish)\<rparr>,
                    Ok (RemoteFailure (ClientAttempt id' InvalidConfirmation)))
              else
                let metadata = \<lparr>session_id = sid hash, peer_identity = peer\<rparr>
                in (self\<lparr>cp_context := Some (Pending id' transport metadata client_finish
                              (payload_bytes payload)),
                         cp_phase := ClientCryptoPhase.AuthenticatedPendingCommit\<rparr>,
                    Ok (Success \<lparr>asf_attempt_id = id', asf_metadata = metadata\<rparr>))
       | _ \<Rightarrow> (self\<lparr>cp_context := None\<rparr>, Err failed))"

definition commit_session ::
  "('r, 'h) ClientProvider \<Rightarrow> ClientAttemptId \<Rightarrow> EstablishedSessionMetadata
   \<Rightarrow> (('r, 'h) ClientProvider, unit) crypto_step" where
  "commit_session self id' metadata =
     bind_st (self, check self ClientCryptoOperation.CommitSession id') (\<lambda>self _.
       let taken = self\<lparr>cp_context := None\<rparr> in
       case cp_context self of
         Some (Pending _ transport expected _ _) \<Rightarrow>
           if expected \<noteq> metadata then (taken, Err AuthenticatedMetadataMismatch)
           else (taken\<lparr>cp_context := Some (Context.Established id' transport metadata),
                       cp_phase := ClientCryptoPhase.Established\<rparr>, Ok ())
       | _ \<Rightarrow> (taken, Err (InvalidClientState ClientCryptoOperation.CommitSession (cp_phase self))))"

definition reject_authenticated_session ::
  "('r, 'h) ClientProvider \<Rightarrow> ClientAttemptId
   \<Rightarrow> (('r, 'h) ClientProvider, ClientContextRemoval) crypto_step" where
  "reject_authenticated_session self id' =
     (if cp_phase self = ClientCryptoPhase.Closed
      then (self, Ok ClientContextRemoval.AlreadyAbsent)
      else bind_st (self, check self RejectAuthenticatedSession id') (\<lambda>self _.
        if cp_phase self \<noteq> ClientCryptoPhase.AuthenticatedPendingCommit
        then (self, Err (InvalidClientState RejectAuthenticatedSession (cp_phase self)))
        else (self\<lparr>cp_context := None, cp_phase := ClientCryptoPhase.Closed\<rparr>,
              Ok ClientContextRemoval.Removed)))"

definition close_context ::
  "('r, 'h) ClientProvider \<Rightarrow> ClientAttemptId
   \<Rightarrow> (('r, 'h) ClientProvider, ClientContextRemoval) crypto_step" where
  "close_context self id' =
     (if cp_phase self = ClientCryptoPhase.Idle \<or> cp_phase self = ClientCryptoPhase.Closed
      then (self, Ok ClientContextRemoval.AlreadyAbsent)
      else bind_st (self, check self RejectAuthenticatedSession id') (\<lambda>self _.
        (self\<lparr>cp_context := None, cp_phase := ClientCryptoPhase.Closed\<rparr>,
         Ok ClientContextRemoval.Removed)))"

definition provider_shutdown ::
  "('r, 'h) ClientProvider \<Rightarrow> ('r, 'h) ClientProvider \<times> CryptoShutdownOutcome" where
  "provider_shutdown self =
     (let p = cp_phase self in
      if p = ClientCryptoPhase.Closed then (self, shutdown_already_closed)
      else (self\<lparr>cp_context := None, cp_phase := ClientCryptoPhase.Closed\<rparr>,
            \<lparr>removed_pending_contexts =
               of_bool (p = ClientCryptoPhase.AwaitingServerHello \<or>
                        p = ClientCryptoPhase.AwaitingServerFinish),
             removed_pending_commit = (p = ClientCryptoPhase.AuthenticatedPendingCommit),
             removed_established_context = (p = ClientCryptoPhase.Established),
             already_closed = False\<rparr>))"

text \<open>\<open>impl ClientHandshakeCrypto for ClientProvider\<close>.\<close>

definition client_provider ::
  "('r, 'h) Snow \<Rightarrow> (('r, 'h) ClientProvider, NoiseIkPayload, NoiseIkPayload, NoiseIkPayload,
     NoiseIkPayload) ClientHandshakeCrypto" where
  "client_provider S =
     \<lparr>cc_phase = cp_phase,
      cc_start_attempt = start_attempt S,
      cc_authenticate_server_hello = authenticate_server_hello S,
      cc_prepare_client_finish = prepare_client_finish,
      cc_authenticate_server_finish = authenticate_server_finish,
      cc_commit_session = commit_session,
      cc_reject_authenticated_session = reject_authenticated_session,
      cc_close_context = close_context,
      cc_shutdown = provider_shutdown\<rparr>"

lemma client_provider_simps [simp]:
  "cc_phase (client_provider S) = cp_phase"
  "cc_start_attempt (client_provider S) = start_attempt S"
  "cc_authenticate_server_hello (client_provider S) = authenticate_server_hello S"
  "cc_prepare_client_finish (client_provider S) = prepare_client_finish"
  "cc_authenticate_server_finish (client_provider S) = authenticate_server_finish"
  "cc_commit_session (client_provider S) = commit_session"
  "cc_reject_authenticated_session (client_provider S) = reject_authenticated_session"
  "cc_close_context (client_provider S) = close_context"
  "cc_shutdown (client_provider S) = provider_shutdown"
  by (simp_all add: client_provider_def)

section \<open>What the provider guarantees\<close>

text \<open>
  The evidence behind a session: one handshake state that read the server's control record for this
  attempt and whose remote static key is the pinned key; transport and session id stem from it, and
  the transport read the server's final record.
\<close>

definition server_hello_read ::
  "('r, 'h) Snow \<Rightarrow> bytes \<Rightarrow> ClientAttemptId \<Rightarrow> 'h \<Rightarrow> StatelessTransportState \<Rightarrow> bytes \<Rightarrow> bool" where
  "server_hello_read S pinned a h transport hash \<longleftrightarrow>
     get_remote_static S h = Some pinned \<and> get_handshake_hash S h = hash \<and> length hash = 32 \<and>
     into_stateless_transport_mode S h = Some transport \<and>
     (\<exists>h0 p cap. hs_read_message S h0 p cap = (h, Some (control_record MessageType.ServerHello a)))"

definition authentic_server ::
  "('r, 'h) Snow \<Rightarrow> bytes \<Rightarrow> ClientAttemptId \<Rightarrow> StatelessTransportState
   \<Rightarrow> EstablishedSessionMetadata \<Rightarrow> bool" where
  "authentic_server S pinned a transport md \<longleftrightarrow>
     peer_identity md = identity pinned \<and>
     (\<exists>h. server_hello_read S pinned a h transport (session_id_bytes (session_id md))) \<and>
     (\<exists>p cap. read_message transport 0 p cap = Some (control_record MessageType.ServerFinish a))"

definition client_provider_ok :: "('r, 'h) Snow \<Rightarrow> ('r, 'h) ClientProvider \<Rightarrow> bool" where
  "client_provider_ok S c \<longleftrightarrow> cp_phase c = ClientCryptoPhase.Closed \<or>
     (case cp_context c of
        None \<Rightarrow> cp_phase c = ClientCryptoPhase.Idle
      | Some (Hello _ _ _) \<Rightarrow> cp_phase c = ClientCryptoPhase.AwaitingServerHello
      | Some (Finish a transport hash peer _) \<Rightarrow>
          cp_phase c = ClientCryptoPhase.AwaitingServerFinish \<and>
          peer = identity (cp_pinned_server_static_public c) \<and>
          (\<exists>h. server_hello_read S (cp_pinned_server_static_public c) a h transport hash)
      | Some (Pending a transport md _ _) \<Rightarrow>
          cp_phase c = ClientCryptoPhase.AuthenticatedPendingCommit \<and>
          authentic_server S (cp_pinned_server_static_public c) a transport md
      | Some (Context.Established a transport md) \<Rightarrow>
          cp_phase c = ClientCryptoPhase.Established \<and>
          authentic_server S (cp_pinned_server_static_public c) a transport md)"

definition provider_agreed :: "('r, 'h) ClientProvider \<Rightarrow> EstablishedSessionMetadata option" where
  "provider_agreed c = (case cp_context c of
     Some (Pending _ _ md _ _) \<Rightarrow> Some md
   | Some (Context.Established _ _ md) \<Rightarrow> Some md
   | _ \<Rightarrow> None)"

lemma valid_control_iff:
  "valid_control plain k a \<longleftrightarrow>
     plain = Some (control_record k a) \<and> k \<noteq> MessageType.Data \<and> attempt_value a \<noteq> 0"
  by (auto simp: valid_control_def validate_control_ok_iff split: option.splits)

lemmas provider_views = client_provider_ok_def client_id_def provider_agreed_def

lemma start_attempt_ok:
  assumes "start_attempt S c a = (c', Ok p)"
  shows "client_provider_ok S c' \<and> pch_attempt_id p = a \<and> client_id c' = Some a \<and>
    cp_phase c' = ClientCryptoPhase.AwaitingServerHello"
  using assms
  by (auto simp: start_attempt_def Let_def provider_views
      split: if_splits sum.splits prod.splits option.splits)

lemma provider_context:
  assumes "client_provider_ok S c" and "client_id c = Some a"
  shows "cp_phase c = ClientCryptoPhase.AwaitingServerHello \<Longrightarrow> \<exists>h m. cp_context c = Some (Hello a h m)"
    and "cp_phase c = ClientCryptoPhase.AwaitingServerFinish \<Longrightarrow>
      \<exists>transport hash m h. cp_context c =
          Some (Finish a transport hash (identity (cp_pinned_server_static_public c)) m) \<and>
        server_hello_read S (cp_pinned_server_static_public c) a h transport hash"
    and "cp_phase c = ClientCryptoPhase.AuthenticatedPendingCommit \<Longrightarrow>
      \<exists>transport md m m'. cp_context c = Some (Pending a transport md m m') \<and>
        authentic_server S (cp_pinned_server_static_public c) a transport md"
  using assms by (auto simp: provider_views split: option.splits Context.splits)

lemma check_Ok:
  "client_id c = Some a \<Longrightarrow> cp_phase c \<noteq> ClientCryptoPhase.Closed \<Longrightarrow> check c op a = Ok ()"
  by (simp add: check_def)

lemma enter_finish_ok:
  assumes "enter_finish S c a h remote = (c', Ok r)"
    and "remote = cp_pinned_server_static_public c" and "get_remote_static S h = Some remote"
    and "hs_read_message S h0 p cap = (h, Some (control_record MessageType.ServerHello a))"
  shows "client_provider_ok S c' \<and> client_id c' = Some a \<and> r = Success \<lparr>ash_attempt_id = a\<rparr> \<and>
    cp_phase c' = ClientCryptoPhase.AwaitingServerFinish"
  using assms
  by (auto simp: enter_finish_def Let_def provider_views server_hello_read_def
      split: if_splits sum.splits option.splits)

lemma authenticate_server_hello_ok:
  assumes ok: "client_provider_ok S c" and a: "client_id c = Some a"
    and ph: "cp_phase c = ClientCryptoPhase.AwaitingServerHello"
    and r: "authenticate_server_hello S c a m = (c', Ok r)"
  shows "client_provider_ok S c' \<and> client_id c' = Some a \<and>
    (case r of
       Success s \<Rightarrow> ash_attempt_id s = a \<and> cp_phase c' = ClientCryptoPhase.AwaitingServerFinish
     | RemoteFailure f \<Rightarrow> (\<exists>reason. f = ClientAttempt a reason) \<and>
         cp_phase c' = ClientCryptoPhase.AwaitingServerHello)"
proof -
  obtain h hello where ctx: "cp_context c = Some (Hello a h hello)" using provider_context(1) [OF ok a ph] by blast
  obtain h' plain where rd: "hs_read_message S h (payload_bytes m) SERVER_HELLO_PAYLOAD_LENGTH = (h', plain)"
    by fastforce
  consider reason where "c' = c\<lparr>cp_context := Some (Hello a h' hello)\<rparr>"
      "r = RemoteFailure (ClientAttempt a reason)"
    | remote where "plain = Some (control_record MessageType.ServerHello a)"
      "get_remote_static S h' = Some remote" "remote = cp_pinned_server_static_public c"
      "enter_finish S (c\<lparr>cp_context := None\<rparr>) a h' remote = (c', Ok r)"
    using r ph a
    by (auto simp: authenticate_server_hello_def check_Ok ctx rd Let_def valid_control_iff
        split: if_splits option.splits)
  then show ?thesis
  proof cases
    case 1
    then show ?thesis using ph by (simp add: provider_views)
  next
    case 2
    then show ?thesis using enter_finish_ok [OF 2(4)] rd by auto
  qed
qed

lemma authenticate_server_finish_ok:
  assumes ok: "client_provider_ok S c" and a: "client_id c = Some a"
    and ph: "cp_phase c = ClientCryptoPhase.AwaitingServerFinish"
    and r: "authenticate_server_finish c a m = (c', Ok r)"
  shows "client_provider_ok S c' \<and> client_id c' = Some a \<and>
    (case r of
       Success s \<Rightarrow> asf_attempt_id s = a \<and> provider_agreed c' = Some (asf_metadata s) \<and>
         cp_phase c' = ClientCryptoPhase.AuthenticatedPendingCommit
     | RemoteFailure f \<Rightarrow> (\<exists>reason. f = ClientAttempt a reason) \<and>
         cp_phase c' = ClientCryptoPhase.AwaitingServerFinish)"
proof -
  obtain transport hash cf h where ctx: "cp_context c =
      Some (Finish a transport hash (identity (cp_pinned_server_static_public c)) cf)"
    "server_hello_read S (cp_pinned_server_static_public c) a h transport hash"
    using provider_context(2) [OF ok a ph] by blast
  show ?thesis
    using r ph a ctx(2)
    by (auto simp: authenticate_server_finish_def check_Ok ctx(1) Let_def valid_control_iff sid_def
        provider_views authentic_server_def split: if_splits)
qed

interpretation noise_client: client_crypto "client_provider S" client_id provider_agreed
    "client_provider_ok S" for S :: "('r, 'h) Snow"
proof
  fix c c' :: "('r, 'h) ClientProvider" and a md p sh r sf q cleanup
  show "client_provider_ok S c' \<and> pch_attempt_id p = a \<and> client_id c' = Some a \<and>
      cc_phase (client_provider S) c' = ClientCryptoPhase.AwaitingServerHello"
    if "cc_start_attempt (client_provider S) c a = (c', Ok p)"
    using that start_attempt_ok [of S c a c' p] by simp
  show "client_provider_ok S c' \<and> client_id c' = Some a \<and>
      (case r of
         Success s \<Rightarrow> ash_attempt_id s = a \<and>
           cc_phase (client_provider S) c' = ClientCryptoPhase.AwaitingServerFinish
       | RemoteFailure f \<Rightarrow> (\<exists>reason. f = ClientAttempt a reason) \<and>
           cc_phase (client_provider S) c' = ClientCryptoPhase.AwaitingServerHello)"
    if "client_provider_ok S c" "cc_phase (client_provider S) c = ClientCryptoPhase.AwaitingServerHello"
      "client_id c = Some a" "cc_authenticate_server_hello (client_provider S) c a sh = (c', Ok r)"
    using that authenticate_server_hello_ok [of S c a sh c' r] unfolding client_provider_simps by blast
  show "client_provider_ok S c' \<and> client_id c' = Some a \<and>
      (case q of
         Success s \<Rightarrow> asf_attempt_id s = a \<and> provider_agreed c' = Some (asf_metadata s) \<and>
           cc_phase (client_provider S) c' = ClientCryptoPhase.AuthenticatedPendingCommit
       | RemoteFailure f \<Rightarrow> (\<exists>reason. f = ClientAttempt a reason) \<and>
           cc_phase (client_provider S) c' = ClientCryptoPhase.AwaitingServerFinish)"
    if "client_provider_ok S c" "cc_phase (client_provider S) c = ClientCryptoPhase.AwaitingServerFinish"
      "client_id c = Some a" "cc_authenticate_server_finish (client_provider S) c a sf = (c', Ok q)"
    using that authenticate_server_finish_ok [of S c a sf c' q] unfolding client_provider_simps by blast
  show "\<exists>p. cc_prepare_client_finish (client_provider S) c a = Ok p \<and> pcf_attempt_id p = a"
    if "client_provider_ok S c" "cc_phase (client_provider S) c = ClientCryptoPhase.AwaitingServerFinish"
      "client_id c = Some a"
    using that provider_context(2) [of S c a]
    by (auto simp: prepare_client_finish_def check_Ok)
  show "\<exists>c'. cc_commit_session (client_provider S) c a md = (c', Ok ()) \<and> client_provider_ok S c' \<and>
      provider_agreed c' = Some md \<and> cc_phase (client_provider S) c' = ClientCryptoPhase.Established"
    if "client_provider_ok S c"
      "cc_phase (client_provider S) c = ClientCryptoPhase.AuthenticatedPendingCommit"
      "client_id c = Some a" "provider_agreed c = Some md"
    using that provider_context(3) [of S c a]
    by (auto simp: commit_session_def check_Ok Let_def provider_views)
  show "\<exists>c'. cc_close_context (client_provider S) c a = (c', Ok ClientContextRemoval.Removed) \<and>
      client_provider_ok S c' \<and> cc_phase (client_provider S) c' = ClientCryptoPhase.Closed"
    if "cc_phase (client_provider S) c \<noteq> ClientCryptoPhase.Idle"
      "cc_phase (client_provider S) c \<noteq> ClientCryptoPhase.Closed" "client_id c = Some a"
    using that by (simp add: close_context_def check_Ok client_provider_ok_def)
  show "client_provider_ok S c' \<and> cc_phase (client_provider S) c' = ClientCryptoPhase.Closed"
    if "cc_shutdown (client_provider S) c = (c', cleanup)"
    using that
    by (auto simp: provider_shutdown_def Let_def client_provider_ok_def split: if_splits)
qed

text \<open>The provider never changes the key it pins.\<close>

lemma client_keeps_pinned:
  "start_attempt S c a = (c', r1) \<Longrightarrow>
     cp_pinned_server_static_public c' = cp_pinned_server_static_public c"
  "enter_finish S c a h k = (c', r2) \<Longrightarrow>
     cp_pinned_server_static_public c' = cp_pinned_server_static_public c"
  "authenticate_server_finish c a m = (c', r3) \<Longrightarrow>
     cp_pinned_server_static_public c' = cp_pinned_server_static_public c"
  "commit_session c a md = (c', r4) \<Longrightarrow>
     cp_pinned_server_static_public c' = cp_pinned_server_static_public c"
  by (auto simp: start_attempt_def enter_finish_def authenticate_server_finish_def commit_session_def
      Let_def bind_st_def split: if_splits sum.splits prod.splits option.splits Context.splits)

lemma server_hello_keeps_pinned:
  assumes "authenticate_server_hello S c a m = (c', r)"
  shows "cp_pinned_server_static_public c' = cp_pinned_server_static_public c"
  using assms client_keeps_pinned(2) [of S "c\<lparr>cp_context := None\<rparr>"]
  by (auto simp: authenticate_server_hello_def Let_def bind_st_def
      split: if_splits sum.splits prod.splits option.splits Context.splits)

interpretation noise_client_pinned: client_crypto_constant "client_provider S"
    cp_pinned_server_static_public for S :: "('r, 'h) Snow"
proof (unfold_locales, unfold client_provider_simps)
  fix c c' :: "('r, 'h) ClientProvider" and a r
  show "cp_pinned_server_static_public c' = cp_pinned_server_static_public c"
    if "close_context c a = (c', r)"
    using that by (auto simp: close_context_def bind_st_def split: if_splits sum.splits)
qed (auto simp: client_keeps_pinned server_hello_keeps_pinned provider_shutdown_def Let_def
    split: if_splits)

end
