(* ===== verification/Session_Reports.thy ===== *)
theory Session_Reports
  imports Session_Server
begin

text \<open>
  What the reports of the server policy tell its caller. The policy's view of the handshake attempts
  is the partial function \<open>attempts\<close>; every report lists exactly the candidates that expired, and its
  effects say how the view changed. The server coordinator rests on these lemmas.
\<close>

definition attempts_of :: "(CandidateId, ServerCandidate) hmap \<Rightarrow> CandidateId \<rightharpoonup> ClientAttemptId" where
  "attempts_of reg i = map_option sc_client_attempt_id (hm_get reg i)"

definition attempts :: "ServerHandshake \<Rightarrow> CandidateId \<rightharpoonup> ClientAttemptId" where
  "attempts h = attempts_of (sh_candidate_by_id h)"

definition owns :: "ServerHandshake \<Rightarrow> SocketAddr \<Rightarrow> CandidateId \<Rightarrow> ClientAttemptId \<Rightarrow> bool" where
  "owns h s i a \<longleftrightarrow> hm_get (sh_candidate_by_id h) i =
     Some \<lparr>sc_candidate_id = i, sc_source = s, sc_client_attempt_id = a\<rparr>"

lemma owns_attempts: "owns h s i a \<Longrightarrow> attempts h i = Some a"
  by (simp add: owns_def attempts_def attempts_of_def)

lemma attempts_new [simp]: "attempts (ServerHandshake_new policy) = Map.empty"
  by (simp add: attempts_def attempts_of_def ServerHandshake_new_def fun_eq_iff hm.get_empty)

lemma dom_attempts: "dom (attempts h) = dom (hm_get (sh_candidate_by_id h))"
  by (auto simp: attempts_def attempts_of_def)

lemma pending_attempts:
  assumes "server_ok h" and "sh_state h = ServerHandshakeState.Listening"
  shows "pending_candidate_count h = card (dom (attempts h))"
proof -
  have "pending_count (sh_pending h) = card (dom (registry h))"
    using book.keeps_book_number [OF server_okD(1) [OF assms(1)] server_okD(5) [OF assms]] .
  moreover have "dom (registry h) = dom (attempts h)" by (auto simp: registry_def dom_attempts)
  ultimately show ?thesis by (simp add: pending_candidate_count_def)
qed

text \<open>Removing the listed candidates, each present with its own attempt, leads from \<open>m\<close> to \<open>m'\<close>.\<close>

fun removes ::
  "(CandidateId \<rightharpoonup> ClientAttemptId) \<Rightarrow> ExpiredServerCandidate list
   \<Rightarrow> (CandidateId \<rightharpoonup> ClientAttemptId) \<Rightarrow> bool" where
  "removes m [] m' \<longleftrightarrow> m' = m"
| "removes m (x # xs) m' \<longleftrightarrow> m (esc_candidate_id x) = Some (esc_client_attempt_id x) \<and>
     removes (m(esc_candidate_id x := None)) xs m'"

lemma attempts_outside:
  assumes "server_ok h" and "sh_state h \<noteq> ServerHandshakeState.Listening"
  shows "attempts h = Map.empty"
  by (simp add: attempts_def attempts_of_def server_okD(7) [OF assms] fun_eq_iff hm.get_empty)

lemma removes_empty: "removes Map.empty ex m \<longleftrightarrow> ex = [] \<and> m = Map.empty"
  by (cases ex) auto

lemma reconcile_removes:
  assumes "reconcile reg items = (reg', Ok ex)" and "hm_invar reg"
  shows "removes (attempts_of reg) ex (attempts_of reg')"
  using assms
proof (induction items arbitrary: reg ex)
  case (Cons e items)
  obtain b where b: "hm_get reg (ec_candidate_id e) = Some b"
    using Cons.prems(1) by (auto split: option.splits)
  let ?reg = "hm_remove (ec_candidate_id e) reg"
  obtain ex' where rec: "reconcile ?reg items = (reg', Ok ex')"
    and ex: "ex = \<lparr>esc_candidate_id = ec_candidate_id e, esc_source = sc_source b,
      esc_client_attempt_id = sc_client_attempt_id b\<rparr> # ex'"
    using Cons.prems(1) b by (auto simp: Let_def bind_st_Ok split: if_splits)
  have eq: "attempts_of ?reg = (attempts_of reg)(ec_candidate_id e := None)"
    using Cons.prems(2) by (auto simp: attempts_of_def hm.get_remove)
  have "attempts_of reg (ec_candidate_id e) = Some (sc_client_attempt_id b)"
    using b by (simp add: attempts_of_def)
  then show ?case
    using Cons.IH [OF rec hm.invar_remove [OF Cons.prems(2)]] unfolding eq ex by (simp add: fun_upd_def)
qed simp

lemma expire_removes:
  assumes ok: "server_ok h" and e: "expire_and_reconcile h t = (h', Ok ex)"
  shows "removes (attempts h) ex (attempts h')" "server_ok h'" "sh_state h' = sh_state h"
    "expire_and_reconcile h' t = (h', Ok [])"
proof -
  show "server_ok h'" "sh_state h' = sh_state h"
    by (rule expire_and_reconcile_ok [OF ok, of t], use e in simp)+
  show "expire_and_reconcile h' t = (h', Ok [])" by (rule reconcile_again [OF ok e])
  show "removes (attempts h) ex (attempts h')"
  proof (cases "sh_state h = ServerHandshakeState.Listening")
    case True
    obtain m rep reg r where "expire_pending (sh_pending h) t = (m, rep)"
      "reconcile (sh_candidate_by_id h) (er_expired rep) = (reg, r)"
      by (metis surj_pair)
    moreover from this have "r = Ok ex" "h' = h\<lparr>sh_pending := m, sh_candidate_by_id := reg\<rparr>"
      using e True by (cases r; auto simp: expire_and_reconcile_def bind_st_Ok)+
    ultimately show ?thesis
      using reconcile_removes [of "sh_candidate_by_id h" "er_expired rep" reg ex] server_okD(2) [OF ok]
      by (simp add: attempts_def)
  next
    case False
    then show ?thesis using e by (auto simp: expire_and_reconcile_def split: if_splits)
  qed
qed

lemma current_owns:
  assumes ok: "server_ok h" and "sh_state h = ServerHandshakeState.Listening"
    and "current_candidate h s = Ok (Some b)"
  shows "owns h s (sc_candidate_id b) (sc_client_attempt_id b)"
    "owned (sh_pending h) s = Some (sc_candidate_id b)"
    "hm_get (sh_candidate_by_id h) (sc_candidate_id b) = Some b"
  by (rule current_candidate_ok [OF assms(1,2), of s], use assms(3) in \<open>simp_all add: owns_def\<close>)+

lemma owns_current:
  assumes ok: "server_ok h" and st: "sh_state h = ServerHandshakeState.Listening" and o: "owns h s i a"
  shows "current_candidate h s = Ok (Some \<lparr>sc_candidate_id = i, sc_source = s, sc_client_attempt_id = a\<rparr>)"
proof (rule current_candidate_ok [OF ok st, of s])
  have own: "owned (sh_pending h) s = Some i"
    using registry_owned [OF ok st] o by (auto simp: owns_def)
  fix b assume "owned (sh_pending h) s = Some (sc_candidate_id b)"
    "hm_get (sh_candidate_by_id h) (sc_candidate_id b) = Some b" "current_candidate h s = Ok (Some b)"
  then show ?thesis using own o by (simp add: owns_def)
next
  assume "owned (sh_pending h) s = None"
  moreover have "owned (sh_pending h) s = Some i"
    using registry_owned [OF ok st] o by (auto simp: owns_def)
  ultimately show ?thesis by simp
qed

lemma abort_report:
  assumes ok: "server_ok h" and st: "sh_state h = ServerHandshakeState.Listening" and o: "owns h s i a"
  shows "\<exists>h'. abort_exact_candidate h s i a = (h', Ok ServerCandidateAbortOutcome.Removed) \<and>
    server_ok h' \<and> sh_state h' = ServerHandshakeState.Listening \<and> attempts h' = (attempts h)(i := None)"
proof -
  let ?b = "\<lparr>sc_candidate_id = i, sc_source = s, sc_client_attempt_id = a\<rparr>"
  obtain h' where h': "remove_exact_candidate h ?b = (h', Ok ())" "server_ok h'"
    "sh_state h' = ServerHandshakeState.Listening"
    "hm_get (sh_candidate_by_id h') = (hm_get (sh_candidate_by_id h))(i := None)"
    using server_ok_remove [OF ok st, of ?b] o by (auto simp: owns_def)
  have "attempts h' = (attempts h)(i := None)"
    by (auto simp: attempts_def attempts_of_def h'(4))
  then show ?thesis
    using h' verify_candidate_maps_ok [OF h'(2)] owns_current [OF assms]
    by (simp add: abort_exact_candidate_def)
qed

lemma timeouts_report:
  assumes ok: "server_ok h"
  obtains h' rep where "check_timeouts h t = (h', Ok rep)" "sr_effects rep = []" "server_ok h'"
    "sh_state h' = sh_state h" "removes (attempts h) (sr_expired rep) (attempts h')"
proof (rule expire_and_reconcile_ok [OF ok, of t])
  fix h' ex assume "expire_and_reconcile h t = (h', Ok ex)"
  then show thesis
    using that [of h' "\<lparr>sr_expired = ex, sr_effects = []\<rparr>"] expire_removes [OF ok, of t h' ex]
    by (simp add: check_timeouts_def)
qed

text \<open>The answer to a hello: a drop, a new candidate, or the candidate that is already pending.\<close>

definition hello_effect ::
  "ServerHandshake \<Rightarrow> SocketAddr \<Rightarrow> ClientAttemptId \<Rightarrow> (CandidateId \<rightharpoonup> ClientAttemptId)
   \<Rightarrow> ServerEffect list \<Rightarrow> bool" where
  "hello_effect h' s a m effects \<longleftrightarrow>
     (\<exists>reason. effects = [ServerEffect.Dropped s reason]) \<and> attempts h' = m \<or>
     sh_state h' = ServerHandshakeState.Listening \<and>
     (\<exists>i admission. effects = [SendServerHello s i a admission] \<and> owns h' s i a \<and>
        attempts h' = m(i \<mapsto> a) \<and>
        m i = (case admission of NewCandidate \<Rightarrow> None | ExistingCandidate \<Rightarrow> Some a))"

lemma admit_hello_effect:
  assumes ok: "server_ok h" and st: "sh_state h = ServerHandshakeState.Listening"
    and exp: "fst (expire_pending (sh_pending h) t) = sh_pending h"
    and adm: "admit (sh_pending h) s t = (m', Ok rep)"
    and r: "admit_hello (h\<lparr>sh_pending := m'\<rparr>) s a ex (ar_outcome rep) = (h', Ok r)"
  shows "sr_expired r = ex \<and> hello_effect h' s a (attempts h) (sr_effects r)"
proof -
  note mok = server_okD(1) [OF ok] and run = server_okD(4) [OF ok st]
  obtain er where e: "expire_pending (sh_pending h) t = (sh_pending h, er)"
    using exp by (metis prod.collapse)
  show ?thesis
  proof (rule admit_cases [OF mok run e, of s])
    fix c assume c: "hm_get (sm_pending_by_source (sh_pending h)) s = Some c"
      and a: "admit (sh_pending h) s t = (sh_pending h, Ok \<lparr>ar_expired = er_expired er,
        ar_outcome = AlreadyPending (pc_id c) (pc_deadline c)\<rparr>)"
    have own: "owned (sh_pending h) s = Some (pc_id c)" using c by (simp add: owned_def)
    have h: "h\<lparr>sh_pending := m'\<rparr> = h" using adm a by simp
    obtain b where b: "current_candidate h s = Ok (Some b)"
      by (rule current_candidate_ok [OF ok st, of s]) (use own in auto)
    have "sc_candidate_id b = pc_id c" "owns h s (pc_id c) (sc_client_attempt_id b)"
      using current_owns [OF ok st b] own by auto
    moreover from this have "attempts h = (attempts h)(pc_id c \<mapsto> sc_client_attempt_id b)"
      by (simp add: owns_attempts map_upd_triv)
    ultimately show ?thesis
      using r adm a st b unfolding h
      by (auto simp: admit_hello_def Let_def dropped_def hello_effect_def owns_attempts split: if_splits) blast
  next
    assume "admit (sh_pending h) s t = (sh_pending h, Ok \<lparr>ar_expired = er_expired er,
        ar_outcome = AtCapacity (sp_maximum_pending (sm_policy (sh_pending h)))\<rparr>)"
    then show ?thesis
      using adm r by (auto simp: admit_hello_def dropped_def hello_effect_def)
  next
    fix err assume "admit (sh_pending h) s t = (sh_pending h, Err err)"
    then show ?thesis using adm by simp
  next
    fix deadline
    let ?i = "CandidateId (sm_next_candidate_id (sh_pending h))"
    assume new: "admit (sh_pending h) s t = ((sh_pending h)\<lparr>
          sm_next_candidate_id := sm_next_candidate_id (sh_pending h) + 1,
          sm_pending_by_source := hm_insert s \<lparr>pc_id = ?i, pc_created_at = t, pc_deadline = deadline\<rparr>
            (sm_pending_by_source (sh_pending h))\<rparr>,
        Ok \<lparr>ar_expired = er_expired er, ar_outcome = Added ?i deadline\<rparr>)"
    have "\<nexists>s. owned (sh_pending h) s = Some ?i"
      using manager_okD(4) [OF mok] by (fastforce simp: owned_def)
    then have none: "attempts h ?i = None"
      using registry_owned [OF ok st, of _ ?i] by (auto simp: attempts_def attempts_of_def)
    have reg: "sh_candidate_by_id h' = hm_insert ?i
        \<lparr>sc_candidate_id = ?i, sc_source = s, sc_client_attempt_id = a\<rparr> (sh_candidate_by_id h)"
      and h': "sh_state h' = ServerHandshakeState.Listening" "sr_expired r = ex"
        "sr_effects r = [SendServerHello s ?i a NewCandidate]"
      using adm r st new by (auto simp: admit_hello_def Let_def bind_st_Ok)
    have "owns h' s ?i a" "attempts h' = (attempts h)(?i \<mapsto> a)"
      using server_okD(2) [OF ok]
      by (auto simp: owns_def attempts_def attempts_of_def reg hm.get_insert)
    then show ?thesis
      using h' none unfolding hello_effect_def by auto
  qed
qed

lemma hello_report:
  assumes ok: "server_ok h" and r: "handle_valid_client_hello h s a t = (h', Ok rep)"
  shows "\<exists>m. removes (attempts h) (sr_expired rep) m \<and> hello_effect h' s a m (sr_effects rep)"
    "server_ok h'" "sh_state h' = sh_state h"
proof -
  have snd: "sound_step (OpHello s a t) h (outcome (handle_valid_client_hello h s a t))"
    by (rule hello_sound [OF ok])
  then show "server_ok h'" "sh_state h' = sh_state h"
    by (simp_all add: r sound_step_def outcome_def lifecycle_step_def)
  show "\<exists>m. removes (attempts h) (sr_expired rep) m \<and> hello_effect h' s a m (sr_effects rep)"
  proof (rule expire_and_reconcile_ok [OF ok, of t])
    fix h1 ex
    assume e: "expire_and_reconcile h t = (h1, Ok ex)"
      and pend: "sh_state h = ServerHandshakeState.Listening \<Longrightarrow>
        sh_pending h1 = fst (expire_pending (sh_pending h) t)"
    note rem = expire_removes [OF ok e]
    show ?thesis
    proof (cases "sh_state h1")
      case Listening
      obtain m' q where adm: "admit (sh_pending h1) s t = (m', q)" by fastforce
      have idem: "fst (expire_pending (sh_pending h1) t) = sh_pending h1"
        using expire_idempotent [OF server_okD(1) [OF ok]] pend Listening rem(3) by simp
      obtain ar where q: "q = Ok ar"
        using r by (cases q) (auto simp: handle_valid_client_hello_def e Listening adm)
      have "admit_hello (h1\<lparr>sh_pending := m'\<rparr>) s a ex (ar_outcome ar) = (h', Ok rep)"
        using r by (simp add: handle_valid_client_hello_def e Listening adm q)
      then have "sr_expired rep = ex \<and> hello_effect h' s a (attempts h1) (sr_effects rep)"
        by (rule admit_hello_effect [OF rem(2) Listening idem adm [unfolded q]])
      then show ?thesis using rem(1) by blast
    qed (use r rem(1) in \<open>auto simp: handle_valid_client_hello_def e dropped_def hello_effect_def\<close>)
  qed
qed

text \<open>The answer of the precheck; a permission lasts for the instant it was given.\<close>

definition precheck_effect ::
  "ServerHandshake \<Rightarrow> SocketAddr \<Rightarrow> instant \<Rightarrow> ServerClientFinishDecision \<Rightarrow> bool" where
  "precheck_effect h s t decision = (case decision of
     ServerClientFinishDecision.Drop _ \<Rightarrow> True
   | PermitNew i a \<Rightarrow> sh_state h = ServerHandshakeState.Listening \<and> owns h s i a \<and>
       expire_and_reconcile h t = (h, Ok [])
   | PermitDuplicate i a md \<Rightarrow> \<exists>session. sh_state h = ServerHandshakeState.Established session \<and>
       s = ess_peer_endpoint session \<and> i = ess_completed_candidate_id session \<and>
       a = ess_client_attempt_id session \<and> md = ess_metadata session)"

lemma precheck_report:
  assumes ok: "server_ok h"
  obtains h' rep where "precheck_client_finish h s a t = (h', Ok rep)" "server_ok h'"
    "sh_state h' = sh_state h" "removes (attempts h) (pr_expired rep) (attempts h')"
    "precheck_effect h' s t (pr_decision rep)"
proof (rule expire_and_reconcile_ok [OF ok, of t])
  fix h1 ex
  assume e: "expire_and_reconcile h t = (h1, Ok ex)"
  note rem = expire_removes [OF ok e]
  have ct: "check_timeouts h t = (h1, Ok \<lparr>sr_expired = ex, sr_effects = []\<rparr>)"
    by (simp add: check_timeouts_def e)
  show thesis
  proof (cases "sh_state h1")
    case Listening
    obtain c where c: "current_candidate h1 s = Ok c"
      by (rule current_candidate_ok [OF rem(2) Listening, of s]) auto
    show thesis
    proof (cases c)
      case None
      then show ?thesis
        using that [of h1 "\<lparr>pr_expired = ex, pr_decision = Drop NoPendingCandidate\<rparr>"] rem c Listening
        by (simp add: precheck_client_finish_def ct Let_def candidate_owned_by_def precheck_effect_def)
    next
      case (Some b)
      have "owns h1 s (sc_candidate_id b) (sc_client_attempt_id b)"
        by (rule current_owns [OF rem(2) Listening c [unfolded Some]])
      then show ?thesis
        using that [of h1 "\<lparr>pr_expired = ex, pr_decision = if a \<noteq> sc_client_attempt_id b
              then Drop (StaleClientAttempt (sc_client_attempt_id b) a)
              else PermitNew (sc_candidate_id b) (sc_client_attempt_id b)\<rparr>"] rem c Listening Some
        by (simp add: precheck_client_finish_def ct Let_def candidate_owned_by_def precheck_effect_def)
    qed
  next
    case (Established session)
    then show thesis
      using that [of h1 "\<lparr>pr_expired = ex, pr_decision =
            if s = ess_peer_endpoint session \<and> a = ess_client_attempt_id session
            then PermitDuplicate (ess_completed_candidate_id session) (ess_client_attempt_id session)
              (ess_metadata session)
            else Drop (AnotherPeerIsActive (ess_peer_endpoint session))\<rparr>"] rem
      by (simp add: precheck_client_finish_def ct Let_def precheck_effect_def)
  next
    case Closed
    then show thesis
      using that [of h1 "\<lparr>pr_expired = ex, pr_decision = Drop SessionUnavailable\<rparr>"] rem
      by (simp add: precheck_client_finish_def ct Let_def precheck_effect_def)
  qed
qed

lemma finish_report:
  assumes ok: "server_ok h" and eff: "precheck_effect h s t (PermitNew i a)"
  shows "\<exists>h'. handle_authenticated_client_finish h s i a md t = (h', Ok \<lparr>sr_expired = [], sr_effects =
      [SendServerFinish s i a (session_id md), ServerEffect.SessionEstablished s (session_id md)]\<rparr>) \<and>
    server_ok h' \<and> sh_state h' = ServerHandshakeState.Established \<lparr>ess_metadata = md,
      ess_peer_endpoint = s, ess_completed_candidate_id = i, ess_client_attempt_id = a,
      ess_established_at = t\<rparr>"
proof -
  have st: "sh_state h = ServerHandshakeState.Listening" and o: "owns h s i a"
    and e: "expire_and_reconcile h t = (h, Ok [])"
    using eff by (simp_all add: precheck_effect_def)
  show ?thesis
    using establish_ok [OF ok st, of "\<lparr>sc_candidate_id = i, sc_source = s, sc_client_attempt_id = a\<rparr>"
        s md t "[]"] o owns_current [OF ok st o] st e
    by (simp add: handle_authenticated_client_finish_def owns_def)
qed

end
