(* ===== verification/Handshake_Server.thy ===== *)
theory Handshake_Server
  imports Handshake_Types Session_Reports
begin

text \<open>
  The server's handshake coordinator (\<open>src/handshake/server.rs\<close>), which keeps the session policy and
  a crypto provider in step: every pending candidate of the policy has a context of the provider.
  Every operation takes the provider's methods \<open>C\<close>; their contract is the locale \<open>server_crypto\<close>.
\<close>

datatype ServerClientFinishMode =
  PendingCandidate
| EstablishedDuplicate EstablishedSessionMetadata

record 'c ServerHandshakeCoordinator =
  shc_policy :: ServerHandshake
  shc_crypto :: 'c
  shc_lifecycle :: CoordinatorLifecycle

type_synonym ('c, 'sh, 'sf) server_coordinator_step =
  "'c ServerHandshakeCoordinator \<times> (('sh, 'sf) ServerCoordinatorReport, FatalCoordinatorError) result"

definition build ::
  "('c, 'ch, 'sh, 'cf, 'sf) ServerHandshakeCrypto \<Rightarrow> ServerHandshake \<Rightarrow> 'c
   \<Rightarrow> ('c ServerHandshakeCoordinator, CoordinatorBuildError) result" where
  "build C policy crypto =
     (if state_name policy \<noteq> ServerStateName.Listening
      then Err (UnexpectedInitialServerPolicyState (state_name policy))
      else if \<not> is_fresh (sv_non_secret_status C crypto)
      then Err (ServerCryptoNotFresh (sv_non_secret_status C crypto))
      else Ok \<lparr>shc_policy = policy, shc_crypto = crypto, shc_lifecycle = CoordinatorLifecycle.Running\<rparr>)"

definition expected_phase :: "ServerStateName \<Rightarrow> ServerCryptoPhase" where
  "expected_phase n = (case n of
     ServerStateName.Listening \<Rightarrow> ServerCryptoPhase.Running
   | ServerStateName.Established \<Rightarrow> ServerCryptoPhase.Established
   | ServerStateName.Closed \<Rightarrow> ServerCryptoPhase.Closed)"

definition expected_shape :: "ServerStateName \<Rightarrow> ServerCryptoStatus \<Rightarrow> bool" where
  "expected_shape n status = (case n of
     ServerStateName.Listening \<Rightarrow>
       \<not> scs_has_pending_commit status \<and> \<not> scs_has_established_context status
   | ServerStateName.Established \<Rightarrow>
       scs_pending_contexts status = 0 \<and> \<not> scs_has_pending_commit status \<and>
       scs_has_established_context status
   | ServerStateName.Closed \<Rightarrow>
       scs_pending_contexts status = 0 \<and> \<not> scs_has_pending_commit status \<and>
       \<not> scs_has_established_context status)"

definition verify_server_stable ::
  "('c, 'ch, 'sh, 'cf, 'sf) ServerHandshakeCrypto \<Rightarrow> ServerHandshake \<Rightarrow> 'c
   \<Rightarrow> (unit, CoordinatorInvariantError) result" where
  "verify_server_stable C policy crypto =
     (let policy_name = state_name policy; status = sv_non_secret_status C crypto in
      if scs_phase status \<noteq> expected_phase policy_name
      then Err (ServerPhaseMismatch policy_name (scs_phase status))
      else if policy_name = ServerStateName.Listening \<and>
              pending_candidate_count policy \<noteq> scs_pending_contexts status
      then Err (ServerPendingContextCountMismatch (pending_candidate_count policy)
                  (scs_pending_contexts status))
      else if \<not> expected_shape policy_name status
      then Err (ServerCryptoStatusMismatch policy_name status)
      else Ok ())"

definition fail_closed ::
  "('c, 'ch, 'sh, 'cf, 'sf) ServerHandshakeCrypto \<Rightarrow> 'c ServerHandshakeCoordinator
   \<Rightarrow> CoordinatorPrimaryError \<Rightarrow> 'c ServerHandshakeCoordinator \<times> FatalCoordinatorError" where
  "fail_closed C self primary =
     (let (policy, policy_action) = server_shutdown (shc_policy self);
          (policy_report, policy_error) = (case policy_action of
             Inr report \<Rightarrow> (Some report, None) | Inl err \<Rightarrow> (None, Some err));
          (crypto, crypto_cleanup) = sv_shutdown C (shc_crypto self)
      in (self\<lparr>shc_policy := policy, shc_crypto := crypto,
               shc_lifecycle := CoordinatorLifecycle.Closed\<rparr>,
          \<lparr>fce_primary = primary,
           fce_policy_cleanup = CoordinatorPolicyCleanup.Server policy_report policy_error,
           fce_crypto_cleanup = crypto_cleanup\<rparr>))"

definition fatal ::
  "('c, 'ch, 'sh, 'cf, 'sf) ServerHandshakeCrypto \<Rightarrow> 'c ServerHandshakeCoordinator
   \<Rightarrow> CoordinatorPrimaryError \<Rightarrow> ('c, 'sh, 'sf) server_coordinator_step" where
  "fatal C self primary = (let (self, e) = fail_closed C self primary in (self, Err e))"

text \<open>The final check of an operation: verify the status, then return the report.\<close>

definition stable ::
  "('c, 'ch, 'sh, 'cf, 'sf) ServerHandshakeCrypto \<Rightarrow> 'c ServerHandshakeCoordinator
   \<Rightarrow> ('sh, 'sf) ServerCoordinatorReport \<Rightarrow> ('c, 'sh, 'sf) server_coordinator_step" where
  "stable C self report =
     (case verify_server_stable C (shc_policy self) (shc_crypto self) of
        Inl e \<Rightarrow> fatal C self (Invariant e)
      | Inr _ \<Rightarrow> (self, Ok report))"

text \<open>The loop over the expired candidates; the provider is the state.\<close>

fun reconcile_expired ::
  "('c, 'ch, 'sh, 'cf, 'sf) ServerHandshakeCrypto \<Rightarrow> 'c \<Rightarrow> ExpiredServerCandidate list
   \<Rightarrow> 'c \<times> (ServerCoordinatorEvent list, CoordinatorPrimaryError) result" where
  "reconcile_expired C crypto [] = (crypto, Ok [])"
| "reconcile_expired C crypto (candidate' # expired) =
     (case sv_remove_candidate C crypto (esc_candidate_id candidate')
             (esc_client_attempt_id candidate') of
        (crypto, Inl err) \<Rightarrow> (crypto, Err (Crypto err))
      | (crypto, Inr removal) \<Rightarrow>
          if removal \<noteq> ServerCandidateRemoval.Removed
          then (crypto, Err (Invariant (CandidateCleanupMismatch (esc_candidate_id candidate')
                 ServerCandidateRemoval.Removed removal)))
          else bind_st (reconcile_expired C crypto expired) (\<lambda>crypto events.
            (crypto, Ok (CandidateExpired (esc_candidate_id candidate') (esc_source candidate')
                           (esc_client_attempt_id candidate') # events))))"

text \<open>The treatment of a candidate whose authentication failed, shared by both messages.\<close>

definition drop_candidate ::
  "('c, 'ch, 'sh, 'cf, 'sf) ServerHandshakeCrypto \<Rightarrow> 'c ServerHandshakeCoordinator \<Rightarrow> SocketAddr
   \<Rightarrow> CandidateId \<Rightarrow> ClientAttemptId \<Rightarrow> ServerCandidateRemoval \<Rightarrow> ServerCoordinatorEvent list
   \<Rightarrow> ('c, 'sh, 'sf) server_coordinator_step" where
  "drop_candidate C self source candidate_id attempt expected_removal events =
     (case abort_exact_candidate (shc_policy self) source candidate_id attempt of
        (policy, Inl e) \<Rightarrow> fatal C (self\<lparr>shc_policy := policy\<rparr>) (ServerPolicy e)
      | (policy, Inr _) \<Rightarrow>
        let self = self\<lparr>shc_policy := policy\<rparr> in
        (case sv_remove_candidate C (shc_crypto self) candidate_id attempt of
           (crypto, Inl e) \<Rightarrow> fatal C (self\<lparr>shc_crypto := crypto\<rparr>) (Crypto e)
         | (crypto, Inr removal) \<Rightarrow>
           let self = self\<lparr>shc_crypto := crypto\<rparr> in
           if removal \<noteq> expected_removal
           then fatal C self (Invariant (CandidateCleanupMismatch candidate_id expected_removal removal))
           else stable C self \<lparr>sc_outbound = [], sc_events = events @
             [ServerCoordinatorEvent.Dropped source ServerDropReason.AuthenticationFailed]\<rparr>))"

section \<open>Client hello\<close>

definition answer_hello ::
  "('c, 'ch, 'sh, 'cf, 'sf) ServerHandshakeCrypto \<Rightarrow> 'c ServerHandshakeCoordinator \<Rightarrow> SocketAddr
   \<Rightarrow> CandidateId \<Rightarrow> ClientAttemptId \<Rightarrow> ServerHelloAdmission \<Rightarrow> 'ch \<Rightarrow> ServerCoordinatorEvent list
   \<Rightarrow> ('c, 'sh, 'sf) server_coordinator_step" where
  "answer_hello C self source candidate_id client_attempt_id admission payload events =
     (case sv_prepare_server_hello C (shc_crypto self) candidate_id client_attempt_id payload of
        (crypto, Inl e) \<Rightarrow> fatal C (self\<lparr>shc_crypto := crypto\<rparr>) (Crypto e)
      | (crypto, Inr result) \<Rightarrow>
        let self = self\<lparr>shc_crypto := crypto\<rparr> in
        (case result of
           RemoteFailure (ClientAttempt _ _) \<Rightarrow>
             fatal C self (Invariant CryptoFailureCorrelationMismatch)
         | RemoteFailure (ServerCandidate observed_candidate observed_attempt _) \<Rightarrow>
             if observed_candidate \<noteq> candidate_id \<or> observed_attempt \<noteq> client_attempt_id
             then fatal C self (Invariant CryptoFailureCorrelationMismatch)
             else drop_candidate C self source candidate_id client_attempt_id
               (case admission of
                  NewCandidate \<Rightarrow> ServerCandidateRemoval.AlreadyAbsent
                | ExistingCandidate \<Rightarrow> ServerCandidateRemoval.Removed) events
         | Success prepared \<Rightarrow>
             if psh_candidate_id prepared \<noteq> candidate_id \<or>
                psh_client_attempt_id prepared \<noteq> client_attempt_id
             then fatal C self (Invariant CryptoResultCorrelationMismatch)
             else stable C self \<lparr>sc_outbound =
               [\<lparr>so_destination = source, so_message = ServerHandshakeMessage.ServerHello
                  \<lparr>svh_client_attempt_id = client_attempt_id, svh_payload = psh_payload prepared\<rparr>\<rparr>],
               sc_events = events\<rparr>))"

definition receive_client_hello ::
  "('c, 'ch, 'sh, 'cf, 'sf) ServerHandshakeCrypto \<Rightarrow> 'c ServerHandshakeCoordinator
   \<Rightarrow> SocketAddr \<Rightarrow> 'ch ClientHello \<Rightarrow> instant \<Rightarrow> ('c, 'sh, 'sf) server_coordinator_step" where
  "receive_client_hello C self source message now =
     (case handle_valid_client_hello (shc_policy self) source (clh_client_attempt_id message) now of
        (policy, Inl e) \<Rightarrow> fatal C (self\<lparr>shc_policy := policy\<rparr>) (ServerPolicy e)
      | (policy, Inr policy_result) \<Rightarrow>
        let self = self\<lparr>shc_policy := policy\<rparr> in
        (case reconcile_expired C (shc_crypto self) (sr_expired policy_result) of
           (crypto, Inl primary) \<Rightarrow> fatal C (self\<lparr>shc_crypto := crypto\<rparr>) primary
         | (crypto, Inr events) \<Rightarrow>
           let self = self\<lparr>shc_crypto := crypto\<rparr> in
           (case sr_effects policy_result of
              [ServerEffect.Dropped effect_source reason] \<Rightarrow>
                if effect_source \<noteq> source
                then fatal C self (Invariant UnexpectedServerEffect)
                else stable C self \<lparr>sc_outbound = [],
                  sc_events = events @ [ServerCoordinatorEvent.Dropped source reason]\<rparr>
            | [SendServerHello destination candidate_id client_attempt_id admission] \<Rightarrow>
                if destination \<noteq> source \<or> client_attempt_id \<noteq> clh_client_attempt_id message
                then fatal C self (Invariant UnexpectedServerEffect)
                else answer_hello C self destination candidate_id client_attempt_id admission
                  (clh_payload message) events
            | _ \<Rightarrow> fatal C self (Invariant UnexpectedServerEffect))))"

section \<open>Client finish\<close>

text \<open>Preparing the server finish and checking that it belongs to the session.\<close>

definition server_finish ::
  "('c, 'ch, 'sh, 'cf, 'sf) ServerHandshakeCrypto \<Rightarrow> 'c ServerHandshakeCoordinator \<Rightarrow> SocketAddr
   \<Rightarrow> CandidateId \<Rightarrow> ClientAttemptId \<Rightarrow> SessionId \<Rightarrow> ServerCoordinatorEvent list
   \<Rightarrow> ('c, 'sh, 'sf) server_coordinator_step" where
  "server_finish C self source candidate_id attempt sid events =
     (case sv_prepare_server_finish C (shc_crypto self) candidate_id attempt sid of
        Inl e \<Rightarrow> fatal C self (Crypto e)
      | Inr prepared \<Rightarrow>
          if psf_candidate_id prepared \<noteq> candidate_id \<or> psf_client_attempt_id prepared \<noteq> attempt \<or>
             psf_session_id prepared \<noteq> sid
          then fatal C self (Invariant CryptoResultCorrelationMismatch)
          else stable C self \<lparr>sc_outbound =
            [\<lparr>so_destination = source, so_message = ServerHandshakeMessage.ServerFinish
               \<lparr>svf_client_attempt_id = attempt, svf_payload = psf_payload prepared\<rparr>\<rparr>],
            sc_events = events\<rparr>)"

definition establish_candidate ::
  "('c, 'ch, 'sh, 'cf, 'sf) ServerHandshakeCrypto \<Rightarrow> 'c ServerHandshakeCoordinator \<Rightarrow> SocketAddr
   \<Rightarrow> CandidateId \<Rightarrow> ClientAttemptId \<Rightarrow> EstablishedSessionMetadata \<Rightarrow> instant
   \<Rightarrow> ServerCoordinatorEvent list \<Rightarrow> ('c, 'sh, 'sf) server_coordinator_step" where
  "establish_candidate C self source candidate_id attempt metadata now events =
     (case handle_authenticated_client_finish (shc_policy self) source candidate_id attempt metadata
             now of
        (policy, Inl e) \<Rightarrow> fatal C (self\<lparr>shc_policy := policy\<rparr>) (ServerPolicy e)
      | (policy, Inr policy_report) \<Rightarrow>
        let self = self\<lparr>shc_policy := policy\<rparr>; sid = session_id metadata in
        if sr_expired policy_report \<noteq> [] then fatal C self (Invariant UnexpectedServerReport)
        else (case sr_effects policy_report of
          [SendServerFinish destination effect_candidate effect_attempt effect_session,
           ServerEffect.SessionEstablished effect_source established_session] \<Rightarrow>
            if destination \<noteq> source \<or> effect_source \<noteq> source \<or> effect_candidate \<noteq> candidate_id \<or>
               effect_attempt \<noteq> attempt \<or> effect_session \<noteq> sid \<or> established_session \<noteq> sid
            then fatal C self (Invariant UnexpectedServerEffect)
            else (case sv_commit_session C (shc_crypto self) candidate_id attempt metadata of
              (crypto, Inl e) \<Rightarrow> fatal C (self\<lparr>shc_crypto := crypto\<rparr>) (Crypto e)
            | (crypto, Inr _) \<Rightarrow>
                server_finish C (self\<lparr>shc_crypto := crypto\<rparr>) source candidate_id attempt sid
                  (events @ [ServerCoordinatorEvent.SessionEstablished source metadata]))
        | _ \<Rightarrow> fatal C self (Invariant UnexpectedServerEffect)))"

text \<open>Authenticate the finish of a candidate that the policy permitted.\<close>

definition authenticate_finish ::
  "('c, 'ch, 'sh, 'cf, 'sf) ServerHandshakeCrypto \<Rightarrow> 'c ServerHandshakeCoordinator \<Rightarrow> SocketAddr
   \<Rightarrow> CandidateId \<Rightarrow> ServerClientFinishMode \<Rightarrow> ClientAttemptId \<Rightarrow> 'cf \<Rightarrow> instant
   \<Rightarrow> ServerCoordinatorEvent list \<Rightarrow> ('c, 'sh, 'sf) server_coordinator_step" where
  "authenticate_finish C self source candidate_id mode attempt payload now events =
     (case sv_authenticate_client_finish C (shc_crypto self) candidate_id attempt payload of
        (crypto, Inl e) \<Rightarrow> fatal C (self\<lparr>shc_crypto := crypto\<rparr>) (Crypto e)
      | (crypto, Inr result) \<Rightarrow>
        let self = self\<lparr>shc_crypto := crypto\<rparr> in
        (case result of
           RemoteFailure (ClientAttempt _ _) \<Rightarrow>
             fatal C self (Invariant CryptoFailureCorrelationMismatch)
         | RemoteFailure (ServerCandidate observed_candidate observed_attempt _) \<Rightarrow>
             if observed_candidate \<noteq> candidate_id \<or> observed_attempt \<noteq> attempt
             then fatal C self (Invariant CryptoFailureCorrelationMismatch)
             else (case mode of
               EstablishedDuplicate _ \<Rightarrow> stable C self \<lparr>sc_outbound = [], sc_events = events @
                 [ServerCoordinatorEvent.Dropped source ServerDropReason.AuthenticationFailed]\<rparr>
             | PendingCandidate \<Rightarrow>
                 drop_candidate C self source candidate_id attempt ServerCandidateRemoval.Removed events)
         | Success authenticated \<Rightarrow>
             if acf_candidate_id authenticated \<noteq> candidate_id \<or>
                acf_client_attempt_id authenticated \<noteq> attempt
             then fatal C self (Invariant CryptoResultCorrelationMismatch)
             else (case mode of
               EstablishedDuplicate expected_metadata \<Rightarrow>
                 if acf_metadata authenticated \<noteq> expected_metadata
                 then fatal C self (Invariant (SessionMetadataMismatch expected_metadata
                        (acf_metadata authenticated)))
                 else server_finish C self source candidate_id attempt
                   (session_id (acf_metadata authenticated)) events
             | PendingCandidate \<Rightarrow>
                 establish_candidate C self source candidate_id attempt (acf_metadata authenticated)
                   now events)))"

definition receive_client_finish ::
  "('c, 'ch, 'sh, 'cf, 'sf) ServerHandshakeCrypto \<Rightarrow> 'c ServerHandshakeCoordinator
   \<Rightarrow> SocketAddr \<Rightarrow> 'cf ClientFinish \<Rightarrow> instant \<Rightarrow> ('c, 'sh, 'sf) server_coordinator_step" where
  "receive_client_finish C self source message now =
     (case precheck_client_finish (shc_policy self) source (clf_client_attempt_id message) now of
        (policy, Inl e) \<Rightarrow> fatal C (self\<lparr>shc_policy := policy\<rparr>) (ServerPolicy e)
      | (policy, Inr pre) \<Rightarrow>
        let self = self\<lparr>shc_policy := policy\<rparr> in
        (case reconcile_expired C (shc_crypto self) (pr_expired pre) of
           (crypto, Inl primary) \<Rightarrow> fatal C (self\<lparr>shc_crypto := crypto\<rparr>) primary
         | (crypto, Inr events) \<Rightarrow>
           let self = self\<lparr>shc_crypto := crypto\<rparr> in
           (case pr_decision pre of
              ServerClientFinishDecision.Drop reason \<Rightarrow> stable C self \<lparr>sc_outbound = [],
                sc_events = events @ [ServerCoordinatorEvent.Dropped source reason]\<rparr>
            | PermitNew candidate_id permitted_attempt \<Rightarrow>
                authenticate_finish C self source candidate_id PendingCandidate permitted_attempt
                  (clf_payload message) now events
            | PermitDuplicate candidate_id permitted_attempt committed_metadata \<Rightarrow>
                authenticate_finish C self source candidate_id
                  (EstablishedDuplicate committed_metadata) permitted_attempt (clf_payload message)
                  now events)))"

section \<open>Timeouts and shutdown\<close>

definition coordinator_next_deadline :: "'c ServerHandshakeCoordinator \<Rightarrow> instant option" where
  "coordinator_next_deadline self = server_next_deadline (shc_policy self)"

definition coordinator_check_timeouts ::
  "('c, 'ch, 'sh, 'cf, 'sf) ServerHandshakeCrypto \<Rightarrow> 'c ServerHandshakeCoordinator \<Rightarrow> instant
   \<Rightarrow> ('c, 'sh, 'sf) server_coordinator_step" where
  "coordinator_check_timeouts C self now =
     (case check_timeouts (shc_policy self) now of
        (policy, Inl e) \<Rightarrow> fatal C (self\<lparr>shc_policy := policy\<rparr>) (ServerPolicy e)
      | (policy, Inr policy_report) \<Rightarrow>
        let self = self\<lparr>shc_policy := policy\<rparr> in
        if sr_effects policy_report \<noteq> [] then fatal C self (Invariant UnexpectedServerEffect)
        else (case reconcile_expired C (shc_crypto self) (sr_expired policy_report) of
          (crypto, Inl primary) \<Rightarrow> fatal C (self\<lparr>shc_crypto := crypto\<rparr>) primary
        | (crypto, Inr events) \<Rightarrow>
            stable C (self\<lparr>shc_crypto := crypto\<rparr>) \<lparr>sc_outbound = [], sc_events = events\<rparr>))"

definition coordinator_shutdown ::
  "('c, 'ch, 'sh, 'cf, 'sf) ServerHandshakeCrypto \<Rightarrow> 'c ServerHandshakeCoordinator
   \<Rightarrow> ('c, 'sh, 'sf) server_coordinator_step" where
  "coordinator_shutdown C self =
     (let (policy, policy_result) = server_shutdown (shc_policy self);
          (crypto, crypto_cleanup) = sv_shutdown C (shc_crypto self);
          self = self\<lparr>shc_policy := policy, shc_crypto := crypto,
                   shc_lifecycle := CoordinatorLifecycle.Closed\<rparr>;
          error = (\<lambda>primary report e. (self, Err \<lparr>fce_primary = primary,
            fce_policy_cleanup = CoordinatorPolicyCleanup.Server report e,
            fce_crypto_cleanup = crypto_cleanup\<rparr>));
          closed = (\<lambda>event. (self, Ok \<lparr>sc_outbound = [], sc_events = [event]\<rparr>))
      in case policy_result of
           Inl e \<Rightarrow> error (ServerPolicy e) None (Some e)
         | Inr policy_report \<Rightarrow>
           (case verify_server_stable C policy crypto of
              Inl e \<Rightarrow> error (Invariant e) (Some policy_report) None
            | Inr _ \<Rightarrow>
              if sr_expired policy_report \<noteq> []
              then error (Invariant UnexpectedServerReport) (Some policy_report) None
              else (case sr_effects policy_report of
                [ServerEffect.Closed removed_candidates removed_session] \<Rightarrow>
                  closed (ServerCoordinatorEvent.Closed removed_candidates removed_session
                            crypto_cleanup)
              | [ServerEffect.AlreadyClosed] \<Rightarrow>
                  if already_closed crypto_cleanup then closed ServerCoordinatorEvent.AlreadyClosed
                  else closed (ServerCoordinatorEvent.Closed 0 False crypto_cleanup)
              | _ \<Rightarrow> error (Invariant UnexpectedServerEffect) (Some policy_report) None)))"

section \<open>Runs\<close>

datatype ('ch, 'cf) ServerCall =
  CallClientHello SocketAddr "'ch ClientHello" instant
| CallClientFinish SocketAddr "'cf ClientFinish" instant
| CallTimeouts instant
| CallShutdown

fun server_call ::
  "('c, 'ch, 'sh, 'cf, 'sf) ServerHandshakeCrypto \<Rightarrow> ('ch, 'cf) ServerCall
   \<Rightarrow> 'c ServerHandshakeCoordinator \<Rightarrow> ('c, 'sh, 'sf) server_coordinator_step" where
  "server_call C (CallClientHello s m t) k = receive_client_hello C k s m t"
| "server_call C (CallClientFinish s m t) k = receive_client_finish C k s m t"
| "server_call C (CallTimeouts t) k = coordinator_check_timeouts C k t"
| "server_call C CallShutdown k = coordinator_shutdown C k"

inductive server_coordinated ::
  "('c, 'ch, 'sh, 'cf, 'sf) ServerHandshakeCrypto \<Rightarrow> 'c ServerHandshakeCoordinator
   \<Rightarrow> 'c ServerHandshakeCoordinator \<Rightarrow> bool"
  for C k0 where
  base: "server_coordinated C k0 k0"
| step: "server_coordinated C k0 k \<Longrightarrow> server_coordinated C k0 (fst (server_call C call k))"

text \<open>
  The errors that can occur: exhaustion of the manager's identifiers or clock, and errors of the
  provider. Failed internal checks and inconsistencies of the policy are not among them.
\<close>

definition local_failure :: "FatalCoordinatorError \<Rightarrow> bool" where
  "local_failure e \<longleftrightarrow> (case fce_primary e of
     Crypto _ \<Rightarrow> True
   | ServerPolicy (PendingManager ApplyValidClientHello _ _) \<Rightarrow> True
   | _ \<Rightarrow> False)"

section \<open>The contract of a provider\<close>

text \<open>
  \<open>contexts\<close> maps the candidates the provider keeps a context for to their attempts, \<open>agreed\<close> is
  the candidate, attempt and metadata of an authenticated finish. Nothing is promised after an
  error except that the provider is not closed by it, and that shutdown closes it.
\<close>

definition status_ok ::
  "ServerCryptoStatus \<Rightarrow> (CandidateId \<rightharpoonup> ClientAttemptId) \<Rightarrow> bool" where
  "status_ok status contexts \<longleftrightarrow> (case scs_phase status of
     ServerCryptoPhase.Running \<Rightarrow> scs_pending_contexts status = card (dom contexts) \<and>
       \<not> scs_has_pending_commit status \<and> \<not> scs_has_established_context status
   | ServerCryptoPhase.AuthenticatedPendingCommit \<Rightarrow> True
   | ServerCryptoPhase.Established \<Rightarrow> scs_pending_contexts status = 0 \<and>
       \<not> scs_has_pending_commit status \<and> scs_has_established_context status
   | ServerCryptoPhase.Closed \<Rightarrow> scs_pending_contexts status = 0 \<and>
       \<not> scs_has_pending_commit status \<and> \<not> scs_has_established_context status)"

locale server_crypto =
  fixes C :: "('c, 'ch, 'sh, 'cf, 'sf) ServerHandshakeCrypto"
    and contexts :: "'c \<Rightarrow> CandidateId \<rightharpoonup> ClientAttemptId"
    and agreed :: "'c \<Rightarrow> (CandidateId \<times> ClientAttemptId \<times> EstablishedSessionMetadata) option"
    and phase :: "'c \<Rightarrow> ServerCryptoPhase"
    and crypto_ok :: "'c \<Rightarrow> bool"
  assumes status_law: "crypto_ok c \<Longrightarrow> scs_phase (sv_non_secret_status C c) = phase c \<and>
      status_ok (sv_non_secret_status C c) (contexts c)"
    and hello_law: "crypto_ok c \<Longrightarrow> phase c = ServerCryptoPhase.Running \<Longrightarrow>
      contexts c i = None \<or> contexts c i = Some a \<Longrightarrow>
      sv_prepare_server_hello C c i a ch = (c', Ok r) \<Longrightarrow>
      crypto_ok c' \<and> phase c' = ServerCryptoPhase.Running \<and>
      (case r of
         Success s \<Rightarrow> psh_candidate_id s = i \<and> psh_client_attempt_id s = a \<and>
           contexts c' = (contexts c)(i \<mapsto> a)
       | RemoteFailure f \<Rightarrow> (\<exists>reason. f = ServerCandidate i a reason) \<and> contexts c' = contexts c)"
    and finish_law: "crypto_ok c \<Longrightarrow> phase c = ServerCryptoPhase.Running \<Longrightarrow> contexts c i = Some a \<Longrightarrow>
      sv_authenticate_client_finish C c i a cf = (c', Ok q) \<Longrightarrow> crypto_ok c' \<and>
      (case q of
         Success s \<Rightarrow> acf_candidate_id s = i \<and> acf_client_attempt_id s = a \<and>
           phase c' = ServerCryptoPhase.AuthenticatedPendingCommit \<and>
           agreed c' = Some (i, a, acf_metadata s)
       | RemoteFailure f \<Rightarrow> (\<exists>reason. f = ServerCandidate i a reason) \<and>
           phase c' = ServerCryptoPhase.Running \<and> contexts c' = contexts c)"
    and duplicate_law: "crypto_ok c \<Longrightarrow> phase c = ServerCryptoPhase.Established \<Longrightarrow>
      agreed c = Some (i, a, md) \<Longrightarrow> sv_authenticate_client_finish C c i a cf = (c', Ok q) \<Longrightarrow>
      crypto_ok c' \<and> phase c' = ServerCryptoPhase.Established \<and> agreed c' = Some (i, a, md) \<and>
      (case q of
         Success s \<Rightarrow> acf_candidate_id s = i \<and> acf_client_attempt_id s = a \<and> acf_metadata s = md
       | RemoteFailure f \<Rightarrow> \<exists>reason. f = ServerCandidate i a reason)"
    and commit_law: "crypto_ok c \<Longrightarrow> phase c = ServerCryptoPhase.AuthenticatedPendingCommit \<Longrightarrow>
      agreed c = Some (i, a, md) \<Longrightarrow>
      \<exists>c'. sv_commit_session C c i a md = (c', Ok ()) \<and> crypto_ok c' \<and>
        phase c' = ServerCryptoPhase.Established \<and> agreed c' = Some (i, a, md)"
    and prepare_law: "crypto_ok c \<Longrightarrow> phase c = ServerCryptoPhase.Established \<Longrightarrow>
      agreed c = Some (i, a, md) \<Longrightarrow>
      \<exists>p. sv_prepare_server_finish C c i a (session_id md) = Ok p \<and> psf_candidate_id p = i \<and>
        psf_client_attempt_id p = a \<and> psf_session_id p = session_id md"
    and remove_law: "crypto_ok c \<Longrightarrow> phase c = ServerCryptoPhase.Running \<Longrightarrow> contexts c i = Some a \<Longrightarrow>
      \<exists>c'. sv_remove_candidate C c i a = (c', Ok ServerCandidateRemoval.Removed) \<and> crypto_ok c' \<and>
        phase c' = ServerCryptoPhase.Running \<and> contexts c' = (contexts c)(i := None)"
    and absent_law: "crypto_ok c \<Longrightarrow> phase c = ServerCryptoPhase.Running \<Longrightarrow> contexts c i = None \<Longrightarrow>
      sv_remove_candidate C c i a = (c, Ok ServerCandidateRemoval.AlreadyAbsent)"
    and hello_error: "phase c \<noteq> ServerCryptoPhase.Closed \<Longrightarrow>
      sv_prepare_server_hello C c i a ch = (c', Err e) \<Longrightarrow> phase c' \<noteq> ServerCryptoPhase.Closed"
    and finish_error: "phase c \<noteq> ServerCryptoPhase.Closed \<Longrightarrow>
      sv_authenticate_client_finish C c i a cf = (c', Err e) \<Longrightarrow> phase c' \<noteq> ServerCryptoPhase.Closed"
    and shutdown_law: "crypto_ok c \<or> phase c \<noteq> ServerCryptoPhase.Closed \<Longrightarrow>
      sv_shutdown C c = (c', cleanup) \<Longrightarrow> crypto_ok c' \<and> phase c' = ServerCryptoPhase.Closed"
begin

definition synced :: "'c ServerHandshakeCoordinator \<Rightarrow> bool" where
  "synced k \<longleftrightarrow> server_ok (shc_policy k) \<and> crypto_ok (shc_crypto k) \<and>
     phase (shc_crypto k) = expected_phase (state_name (shc_policy k)) \<and>
     (shc_lifecycle k = CoordinatorLifecycle.Closed \<longleftrightarrow>
        sh_state (shc_policy k) = ServerHandshakeState.Closed) \<and>
     (sh_state (shc_policy k) = ServerHandshakeState.Listening \<longrightarrow>
        contexts (shc_crypto k) = attempts (shc_policy k)) \<and>
     (\<forall>session. sh_state (shc_policy k) = ServerHandshakeState.Established session \<longrightarrow>
        agreed (shc_crypto k) = Some (ess_completed_candidate_id session,
          ess_client_attempt_id session, ess_metadata session))"

definition good :: "('c, 'sh, 'sf) server_coordinator_step \<Rightarrow> bool" where
  "good r \<longleftrightarrow> synced (fst r) \<and>
     (\<forall>e. snd r = Err e \<longrightarrow> shc_lifecycle (fst r) = CoordinatorLifecycle.Closed \<and> local_failure e)"

lemmas sync_defs = synced_def state_name_def expected_phase_def

lemma good_Ok [simp]: "good (k, Ok r) \<longleftrightarrow> synced k"
  by (simp add: good_def)

lemma verify_ok:
  assumes "synced k"
  shows "verify_server_stable C (shc_policy k) (shc_crypto k) = Ok ()"
  using assms status_law [of "shc_crypto k"] pending_attempts [of "shc_policy k"]
  by (cases "sh_state (shc_policy k)")
    (auto simp: verify_server_stable_def Let_def sync_defs expected_shape_def status_ok_def)

lemma stable_good: "synced k \<Longrightarrow> good (stable C k report)"
  by (simp add: stable_def verify_ok)

lemma policy_shutdown_ok:
  assumes "server_shutdown p = (p', r)" and "server_ok p"
  shows "server_ok p' \<and> sh_state p' = ServerHandshakeState.Closed"
  using server_shutdown_ok [OF assms(2)] assms(1)
  by (auto simp: server_shutdown_def Let_def split: if_splits)

lemma closed_synced:
  assumes "server_ok p" and "sh_state p = ServerHandshakeState.Closed"
    and "crypto_ok c" and "phase c = ServerCryptoPhase.Closed"
  shows "synced (k\<lparr>shc_policy := p, shc_crypto := c, shc_lifecycle := CoordinatorLifecycle.Closed\<rparr>)"
  using assms by (simp add: sync_defs)

lemma fatal_good:
  assumes "server_ok (shc_policy k)"
    and "\<And>e. fce_primary e = primary \<Longrightarrow> local_failure e"
    and "crypto_ok (shc_crypto k) \<or> phase (shc_crypto k) \<noteq> ServerCryptoPhase.Closed"
  shows "good (fatal C k primary)"
proof -
  obtain p r where p: "server_shutdown (shc_policy k) = (p, r)" by fastforce
  obtain c o' where c: "sv_shutdown C (shc_crypto k) = (c, o')" by fastforce
  show ?thesis
    using policy_shutdown_ok [OF p assms(1)] shutdown_law [OF assms(3) c] assms(2)
    by (simp add: fatal_def fail_closed_def p c good_def closed_synced split: sum.split)
qed

lemma crypto_fatal_good:
  "server_ok (shc_policy k) \<Longrightarrow> phase (shc_crypto k) \<noteq> ServerCryptoPhase.Closed \<Longrightarrow>
   good (fatal C k (Crypto e))"
  by (rule fatal_good) (simp_all add: local_failure_def)

lemma reconcile_expired_ok:
  assumes "removes (contexts c) ex m" and "crypto_ok c" and "phase c = ServerCryptoPhase.Running"
  shows "\<exists>c' events. reconcile_expired C c ex = (c', Ok events) \<and> crypto_ok c' \<and>
    phase c' = ServerCryptoPhase.Running \<and> contexts c' = m"
  using assms
proof (induction ex arbitrary: c)
  case (Cons x ex)
  obtain c' where c': "sv_remove_candidate C c (esc_candidate_id x) (esc_client_attempt_id x) =
      (c', Ok ServerCandidateRemoval.Removed)" "crypto_ok c'" "phase c' = ServerCryptoPhase.Running"
    "contexts c' = (contexts c)(esc_candidate_id x := None)"
    using remove_law [of c "esc_candidate_id x" "esc_client_attempt_id x"] Cons.prems by auto
  have "removes (contexts c') ex m" using Cons.prems(1) by (simp only: c'(4) removes.simps)
  from Cons.IH [OF this c'(2,3)] show ?case by (auto simp: c'(1))
qed simp

text \<open>
  After the policy has expired candidates, the provider follows. For a server that is not listening
  nothing expires.
\<close>

lemma reconcile_good:
  assumes ok: "synced k" and p: "server_ok p" "sh_state p = sh_state (shc_policy k)"
    and rem: "removes (attempts (shc_policy k)) ex m"
  obtains c' events where "reconcile_expired C (shc_crypto k) ex = (c', Ok events)" "crypto_ok c'"
    "phase c' = phase (shc_crypto k)" "agreed c' = agreed (shc_crypto k) \<or> sh_state p = ServerHandshakeState.Listening"
    "sh_state p = ServerHandshakeState.Listening \<Longrightarrow> contexts c' = m"
proof (cases "sh_state p = ServerHandshakeState.Listening")
  case True
  then have "removes (contexts (shc_crypto k)) ex m" "crypto_ok (shc_crypto k)"
    "phase (shc_crypto k) = ServerCryptoPhase.Running"
    using ok p(2) rem by (simp_all add: sync_defs)
  then show thesis using that reconcile_expired_ok True by metis
next
  case False
  then have "ex = []"
    using rem ok p(2) attempts_outside [of "shc_policy k"] by (auto simp: synced_def removes_empty)
  then show thesis using False that [of "shc_crypto k" "[]"] ok by (simp add: synced_def)
qed

lemma drop_candidate_good:
  assumes p: "server_ok (shc_policy k)" "sh_state (shc_policy k) = ServerHandshakeState.Listening"
    "owns (shc_policy k) s i a"
    and c: "crypto_ok (shc_crypto k)" "phase (shc_crypto k) = ServerCryptoPhase.Running"
    "(contexts (shc_crypto k))(i := None) = (attempts (shc_policy k))(i := None)"
    "contexts (shc_crypto k) i =
       (case removal of ServerCandidateRemoval.Removed \<Rightarrow> Some a | ServerCandidateRemoval.AlreadyAbsent \<Rightarrow> None)"
    and run: "shc_lifecycle k \<noteq> CoordinatorLifecycle.Closed"
  shows "good (drop_candidate C k s i a removal events)"
proof -
  obtain p' where p': "abort_exact_candidate (shc_policy k) s i a =
      (p', Ok ServerCandidateAbortOutcome.Removed)" "server_ok p'"
    "sh_state p' = ServerHandshakeState.Listening" "attempts p' = (attempts (shc_policy k))(i := None)"
    using abort_report [OF p] by blast
  have "\<exists>c'. sv_remove_candidate C (shc_crypto k) i a = (c', Ok removal) \<and> crypto_ok c' \<and>
      phase c' = ServerCryptoPhase.Running \<and> contexts c' = (contexts (shc_crypto k))(i := None)"
  proof (cases removal)
    case Removed
    then show ?thesis using remove_law [OF c(1,2), of i a] c(4) by auto
  next
    case AlreadyAbsent
    then show ?thesis using absent_law [OF c(1,2), of i a] c(1,2,4) by auto
  qed
  then obtain c' where "sv_remove_candidate C (shc_crypto k) i a = (c', Ok removal)" "crypto_ok c'"
      "phase c' = ServerCryptoPhase.Running" "contexts c' = (contexts (shc_crypto k))(i := None)"
    by blast
  then have "synced (k\<lparr>shc_policy := p', shc_crypto := c'\<rparr>)"
    using p' c(3) run by (simp add: sync_defs)
  then show ?thesis
    using \<open>sv_remove_candidate C (shc_crypto k) i a = (c', Ok removal)\<close> p'(1)
    by (simp add: drop_candidate_def Let_def stable_good)
qed

lemma answer_hello_good:
  assumes p: "server_ok (shc_policy k)" "sh_state (shc_policy k) = ServerHandshakeState.Listening"
    "owns (shc_policy k) s i a" "attempts (shc_policy k) = m(i \<mapsto> a)"
    "m i = (case admission of NewCandidate \<Rightarrow> None | ExistingCandidate \<Rightarrow> Some a)"
    and c: "crypto_ok (shc_crypto k)" "phase (shc_crypto k) = ServerCryptoPhase.Running"
    "contexts (shc_crypto k) = m"
    and run: "shc_lifecycle k \<noteq> CoordinatorLifecycle.Closed"
  shows "good (answer_hello C k s i a admission payload events)"
proof -
  obtain c' r where pr: "sv_prepare_server_hello C (shc_crypto k) i a payload = (c', r)" by fastforce
  show ?thesis
  proof (cases r)
    case (Inl e)
    then show ?thesis
      using p(1) c(2) hello_error [of "shc_crypto k" i a payload c' e]
      by (simp add: answer_hello_def pr crypto_fatal_good)
  next
    case (Inr q)
    have "contexts (shc_crypto k) i = None \<or> contexts (shc_crypto k) i = Some a"
      using p(5) c(3) by (cases admission) auto
    note law = hello_law [OF c(1,2) this pr [unfolded Inr]]
    show ?thesis
    proof (cases q)
      case (Success x)
      then show ?thesis
        using law p c(3) run
        by (simp add: answer_hello_def pr Inr Let_def stable_good sync_defs)
    next
      case (RemoteFailure f)
      then obtain reason where f: "f = ServerCandidate i a reason" using law by auto
      have "good (drop_candidate C (k\<lparr>shc_crypto := c'\<rparr>) s i a (case admission of
          NewCandidate \<Rightarrow> ServerCandidateRemoval.AlreadyAbsent
        | ExistingCandidate \<Rightarrow> ServerCandidateRemoval.Removed) events)"
        by (rule drop_candidate_good)
          (use law RemoteFailure p c(3) run in \<open>auto split: ServerHelloAdmission.split\<close>)
      then show ?thesis by (simp add: answer_hello_def pr Inr Let_def RemoteFailure f)
    qed
  qed
qed

lemma receive_client_hello_good:
  assumes ok: "synced k"
  shows "good (receive_client_hello C k s msg t)"
proof -
  let ?a = "clh_client_attempt_id msg"
  have pok: "server_ok (shc_policy k)" using ok by (simp add: synced_def)
  obtain p r where hv: "handle_valid_client_hello (shc_policy k) s ?a t = (p, r)" by fastforce
  show ?thesis
  proof (cases r)
    case (Inl e)
    have "server_ok p" "possible_error (OpHello s ?a t) e"
      using hello_sound [OF pok, of s ?a t] by (simp_all add: hv Inl sound_step_def outcome_def)
    then show ?thesis
      using ok by (auto simp: receive_client_hello_def hv Inl local_failure_def synced_def
          intro!: fatal_good elim!: possible_error.elims)
  next
    case (Inr rep)
    note hr = hello_report [OF pok hv [unfolded Inr]]
    obtain m where m: "removes (attempts (shc_policy k)) (sr_expired rep) m"
      "hello_effect p s ?a m (sr_effects rep)"
      using hr(1) by blast
    obtain c' events where c': "reconcile_expired C (shc_crypto k) (sr_expired rep) = (c', Ok events)"
      "crypto_ok c'" "phase c' = phase (shc_crypto k)"
      "agreed c' = agreed (shc_crypto k) \<or> sh_state p = ServerHandshakeState.Listening"
      "sh_state p = ServerHandshakeState.Listening \<Longrightarrow> contexts c' = m"
      using reconcile_good [OF ok hr(2,3) m(1)] by metis
    let ?k = "k\<lparr>shc_policy := p, shc_crypto := c'\<rparr>"
    consider reason where "sr_effects rep = [ServerEffect.Dropped s reason]" "attempts p = m"
      | i admission where "sh_state p = ServerHandshakeState.Listening"
          "sr_effects rep = [SendServerHello s i ?a admission]" "owns p s i ?a" "attempts p = m(i \<mapsto> ?a)"
          "m i = (case admission of NewCandidate \<Rightarrow> None | ExistingCandidate \<Rightarrow> Some ?a)"
      using m(2) unfolding hello_effect_def by blast
    then show ?thesis
    proof cases
      case 1
      have "synced ?k"
        using ok hr(2,3) c'(2-) 1(2) by (auto simp: sync_defs)
      then show ?thesis
        using 1 by (simp add: receive_client_hello_def hv Inr c'(1) Let_def stable_good)
    next
      case 2
      have "good (answer_hello C ?k s i ?a admission (clh_payload msg) events)"
        by (rule answer_hello_good [where m = m])
          (use ok hr(2,3) c'(2-) 2 in \<open>auto simp: sync_defs\<close>)
      then show ?thesis
        using 2(2) by (simp add: receive_client_hello_def hv Inr c'(1) Let_def)
    qed
  qed
qed

lemma server_finish_good:
  assumes ok: "synced k"
    and st: "sh_state (shc_policy k) = ServerHandshakeState.Established session"
  shows "good (server_finish C k s (ess_completed_candidate_id session)
    (ess_client_attempt_id session) (session_id (ess_metadata session)) events)"
proof -
  have "crypto_ok (shc_crypto k)" "phase (shc_crypto k) = ServerCryptoPhase.Established"
    "agreed (shc_crypto k) = Some (ess_completed_candidate_id session, ess_client_attempt_id session,
      ess_metadata session)"
    using ok st by (simp_all add: sync_defs)
  from prepare_law [OF this] obtain p where
    "sv_prepare_server_finish C (shc_crypto k) (ess_completed_candidate_id session)
      (ess_client_attempt_id session) (session_id (ess_metadata session)) = Ok p"
    "psf_candidate_id p = ess_completed_candidate_id session"
    "psf_client_attempt_id p = ess_client_attempt_id session"
    "psf_session_id p = session_id (ess_metadata session)" by blast
  then show ?thesis using ok by (simp add: server_finish_def stable_good)
qed

lemma establish_candidate_good:
  assumes pok: "server_ok (shc_policy k)" and eff: "precheck_effect (shc_policy k) s t (PermitNew i a)"
    and c: "crypto_ok (shc_crypto k)" "phase (shc_crypto k) = ServerCryptoPhase.AuthenticatedPendingCommit"
    "agreed (shc_crypto k) = Some (i, a, md)"
    and run: "shc_lifecycle k \<noteq> CoordinatorLifecycle.Closed"
  shows "good (establish_candidate C k s i a md t events)"
proof -
  let ?session = "\<lparr>ess_metadata = md, ess_peer_endpoint = s, ess_completed_candidate_id = i,
    ess_client_attempt_id = a, ess_established_at = t\<rparr>"
  obtain p' where p': "handle_authenticated_client_finish (shc_policy k) s i a md t = (p', Ok
      \<lparr>sr_expired = [], sr_effects = [SendServerFinish s i a (session_id md),
        ServerEffect.SessionEstablished s (session_id md)]\<rparr>)"
    "server_ok p'" "sh_state p' = ServerHandshakeState.Established ?session"
    using finish_report [OF pok eff] by blast
  obtain c' where c': "sv_commit_session C (shc_crypto k) i a md = (c', Ok ())" "crypto_ok c'"
    "phase c' = ServerCryptoPhase.Established" "agreed c' = Some (i, a, md)"
    using commit_law [OF c] by blast
  have "synced (k\<lparr>shc_policy := p', shc_crypto := c'\<rparr>)"
    using p'(2,3) c'(2-) run by (simp add: sync_defs)
  then show ?thesis
    using server_finish_good [of "k\<lparr>shc_policy := p', shc_crypto := c'\<rparr>" ?session] p'(3)
    by (simp add: establish_candidate_def p'(1) c'(1) Let_def)
qed

lemma authenticate_new_good:
  assumes ok: "synced k" and eff: "precheck_effect (shc_policy k) s t (PermitNew i a)"
  shows "good (authenticate_finish C k s i PendingCandidate a payload t events)"
proof -
  have p: "server_ok (shc_policy k)" "sh_state (shc_policy k) = ServerHandshakeState.Listening"
    "owns (shc_policy k) s i a"
    using ok eff by (simp_all add: synced_def precheck_effect_def)
  then have c: "crypto_ok (shc_crypto k)" "phase (shc_crypto k) = ServerCryptoPhase.Running"
    "contexts (shc_crypto k) = attempts (shc_policy k)" "shc_lifecycle k \<noteq> CoordinatorLifecycle.Closed"
    using ok by (simp_all add: sync_defs)
  have ctx: "contexts (shc_crypto k) i = Some a" using owns_attempts [OF p(3)] c(3) by simp
  obtain c' r where au: "sv_authenticate_client_finish C (shc_crypto k) i a payload = (c', r)" by fastforce
  show ?thesis
  proof (cases r)
    case (Inl e)
    then show ?thesis
      using p(1) c(2) finish_error [of "shc_crypto k" i a payload c' e]
      by (simp add: authenticate_finish_def au crypto_fatal_good)
  next
    case (Inr q)
    note law = finish_law [OF c(1,2) ctx au [unfolded Inr]]
    show ?thesis
    proof (cases q)
      case (Success x)
      have "good (establish_candidate C (k\<lparr>shc_crypto := c'\<rparr>) s i a (acf_metadata x) t events)"
        by (rule establish_candidate_good) (use law Success p eff c(4) in auto)
      then show ?thesis using law by (simp add: authenticate_finish_def au Inr Let_def Success)
    next
      case (RemoteFailure f)
      then obtain reason where f: "f = ServerCandidate i a reason" using law by auto
      have "good (drop_candidate C (k\<lparr>shc_crypto := c'\<rparr>) s i a ServerCandidateRemoval.Removed events)"
        by (rule drop_candidate_good) (use law RemoteFailure p c ctx in auto)
      then show ?thesis by (simp add: authenticate_finish_def au Inr Let_def RemoteFailure f)
    qed
  qed
qed

lemma authenticate_duplicate_good:
  assumes ok: "synced k"
    and st: "sh_state (shc_policy k) = ServerHandshakeState.Established session"
  shows "good (authenticate_finish C k s (ess_completed_candidate_id session)
    (EstablishedDuplicate (ess_metadata session)) (ess_client_attempt_id session) payload t events)"
proof -
  let ?i = "ess_completed_candidate_id session" and ?a = "ess_client_attempt_id session"
  have c: "crypto_ok (shc_crypto k)" "phase (shc_crypto k) = ServerCryptoPhase.Established"
    "agreed (shc_crypto k) = Some (?i, ?a, ess_metadata session)"
    using ok st by (simp_all add: sync_defs)
  obtain c' r where au: "sv_authenticate_client_finish C (shc_crypto k) ?i ?a payload = (c', r)"
    by fastforce
  show ?thesis
  proof (cases r)
    case (Inl e)
    then show ?thesis
      using ok c(2) finish_error [of "shc_crypto k" ?i ?a payload c' e]
      by (simp add: authenticate_finish_def au synced_def crypto_fatal_good)
  next
    case (Inr q)
    note law = duplicate_law [OF c au [unfolded Inr]]
    then have k': "synced (k\<lparr>shc_crypto := c'\<rparr>)" using ok st by (simp add: sync_defs)
    show ?thesis
    proof (cases q)
      case (Success x)
      then show ?thesis
        using law server_finish_good [OF k', of session] st
        by (simp add: authenticate_finish_def au Inr Let_def)
    next
      case (RemoteFailure f)
      then show ?thesis
        using law k' by (auto simp: authenticate_finish_def au Inr Let_def stable_good)
    qed
  qed
qed

lemma receive_client_finish_good:
  assumes ok: "synced k"
  shows "good (receive_client_finish C k s msg t)"
proof -
  have pok: "server_ok (shc_policy k)" using ok by (simp add: synced_def)
  obtain p pre where pc: "precheck_client_finish (shc_policy k) s (clf_client_attempt_id msg) t = (p, Ok pre)"
    "server_ok p" "sh_state p = sh_state (shc_policy k)"
    "removes (attempts (shc_policy k)) (pr_expired pre) (attempts p)"
    "precheck_effect p s t (pr_decision pre)"
    by (rule precheck_report [OF pok])
  obtain c' events where c': "reconcile_expired C (shc_crypto k) (pr_expired pre) = (c', Ok events)"
    "crypto_ok c'" "phase c' = phase (shc_crypto k)"
    "agreed c' = agreed (shc_crypto k) \<or> sh_state p = ServerHandshakeState.Listening"
    "sh_state p = ServerHandshakeState.Listening \<Longrightarrow> contexts c' = attempts p"
    using reconcile_good [OF ok pc(2-4)] by metis
  let ?k = "k\<lparr>shc_policy := p, shc_crypto := c'\<rparr>"
  have k': "synced ?k" using ok pc(2,3) c'(2-) by (auto simp: sync_defs)
  show ?thesis
  proof (cases "pr_decision pre")
    case (PermitNew i a)
    then show ?thesis
      using pc(5) authenticate_new_good [OF k', of s t i a]
      by (simp add: receive_client_finish_def pc(1) c'(1) Let_def)
  next
    case (PermitDuplicate i a md)
    then show ?thesis
      using pc(5) authenticate_duplicate_good [OF k']
      by (auto simp: receive_client_finish_def pc(1) c'(1) Let_def precheck_effect_def)
  next
    case (Drop reason)
    then show ?thesis
      using k' by (simp add: receive_client_finish_def pc(1) c'(1) Let_def stable_good)
  qed
qed

lemma coordinator_check_timeouts_good:
  assumes ok: "synced k"
  shows "good (coordinator_check_timeouts C k t)"
proof -
  have pok: "server_ok (shc_policy k)" using ok by (simp add: synced_def)
  obtain p rep where pc: "check_timeouts (shc_policy k) t = (p, Ok rep)" "sr_effects rep = []"
    "server_ok p" "sh_state p = sh_state (shc_policy k)"
    "removes (attempts (shc_policy k)) (sr_expired rep) (attempts p)"
    by (rule timeouts_report [OF pok])
  obtain c' events where c': "reconcile_expired C (shc_crypto k) (sr_expired rep) = (c', Ok events)"
    "crypto_ok c'" "phase c' = phase (shc_crypto k)"
    "agreed c' = agreed (shc_crypto k) \<or> sh_state p = ServerHandshakeState.Listening"
    "sh_state p = ServerHandshakeState.Listening \<Longrightarrow> contexts c' = attempts p"
    using reconcile_good [OF ok pc(3-5)] by metis
  have "synced (k\<lparr>shc_policy := p, shc_crypto := c'\<rparr>)" using ok pc(3,4) c'(2-) by (auto simp: sync_defs)
  then show ?thesis
    by (simp add: coordinator_check_timeouts_def pc(1,2) c'(1) Let_def stable_good)
qed

lemma coordinator_shutdown_good:
  assumes ok: "synced k"
  shows "good (coordinator_shutdown C k)"
proof -
  obtain p r where p: "server_shutdown (shc_policy k) = (p, r)" by fastforce
  obtain c o' where c: "sv_shutdown C (shc_crypto k) = (c, o')" by fastforce
  let ?k = "k\<lparr>shc_policy := p, shc_crypto := c, shc_lifecycle := CoordinatorLifecycle.Closed\<rparr>"
  have k': "synced ?k"
    using policy_shutdown_ok [OF p] shutdown_law [OF _ c] ok by (simp add: sync_defs)
  obtain rep where "r = Ok rep" "sr_expired rep = []"
    "(\<exists>n b. sr_effects rep = [ServerEffect.Closed n b]) \<or> sr_effects rep = [ServerEffect.AlreadyClosed]"
    using p by (auto simp: server_shutdown_def Let_def split: if_splits)
  then show ?thesis
    using k' verify_ok [OF k'] by (auto simp: coordinator_shutdown_def p c Let_def)
qed

theorem server_call_good: "synced k \<Longrightarrow> good (server_call C call k)"
  by (cases call) (simp_all add: receive_client_hello_good receive_client_finish_good
      coordinator_check_timeouts_good coordinator_shutdown_good)

lemma coordinated_synced:
  assumes "server_coordinated C k0 k" and "synced k0"
  shows "synced k"
  using assms by induction (auto dest: server_call_good simp: good_def)

lemma build_synced:
  assumes "build C (ServerHandshake_new policy) crypto = Ok k" and "crypto_ok crypto"
    and "contexts crypto = Map.empty"
  shows "synced k"
  using assms status_law [OF assms(2)] server_ok_new [of policy]
  by (auto simp: build_def sync_defs is_fresh_def ServerHandshake_new_def attempts_def attempts_of_def
      fun_eq_iff hm.get_empty split: if_splits)

end

text \<open>What every method of a provider keeps, the coordinator keeps.\<close>

locale server_crypto_constant =
  fixes C :: "('c, 'ch, 'sh, 'cf, 'sf) ServerHandshakeCrypto" and const :: "'c \<Rightarrow> 'k"
  assumes hello_keeps: "sv_prepare_server_hello C c i a ch = (c', r1) \<Longrightarrow> const c' = const c"
    and finish_keeps: "sv_authenticate_client_finish C c i a cf = (c', r2) \<Longrightarrow> const c' = const c"
    and commit_keeps: "sv_commit_session C c i a md = (c', r3) \<Longrightarrow> const c' = const c"
    and remove_keeps: "sv_remove_candidate C c i a = (c', r4) \<Longrightarrow> const c' = const c"
    and shutdown_keeps: "sv_shutdown C c = (c', r5) \<Longrightarrow> const c' = const c"
begin

definition held :: "('c, 'sh, 'sf) server_coordinator_step \<Rightarrow> 'k" where
  "held r = const (shc_crypto (fst r))"

lemma held_Pair [simp]: "held (k, r) = const (shc_crypto k)"
  by (simp add: held_def)

lemmas keeps = hello_keeps finish_keeps commit_keeps remove_keeps shutdown_keeps

lemma fatal_held [simp]: "held (fatal C k e) = const (shc_crypto k)"
  by (auto simp: fatal_def fail_closed_def dest: keeps split: prod.splits sum.splits)

lemma stable_held [simp]: "held (stable C k r) = const (shc_crypto k)"
  by (simp add: stable_def split: sum.split)

lemma reconcile_keeps: "reconcile_expired C c ex = (c', r) \<Longrightarrow> const c' = const c"
proof (induction ex arbitrary: c c' r)
  case (Cons x ex)
  obtain c1 q where q: "sv_remove_candidate C c (esc_candidate_id x) (esc_client_attempt_id x) = (c1, q)"
    by fastforce
  obtain c2 q2 where q2: "reconcile_expired C c1 ex = (c2, q2)" by fastforce
  show ?case
    using Cons.prems Cons.IH [OF q2] remove_keeps [OF q]
    by (cases q; cases q2) (auto simp: q q2 split: if_splits)
qed simp

lemma drop_candidate_held [simp]: "held (drop_candidate C k s i a x ev) = const (shc_crypto k)"
  by (auto simp: drop_candidate_def Let_def dest: keeps split: prod.split sum.split)

lemma answer_hello_held [simp]: "held (answer_hello C k s i a x pl ev) = const (shc_crypto k)"
  by (auto simp: answer_hello_def Let_def dest: keeps
      split: prod.split sum.split CryptoOutcome.split AuthenticationFailure.split)

lemma server_finish_held [simp]: "held (server_finish C k s i a x ev) = const (shc_crypto k)"
  by (auto simp: server_finish_def split: sum.split)

lemma establish_candidate_held [simp]:
  "held (establish_candidate C k s i a md t ev) = const (shc_crypto k)"
  by (auto simp: establish_candidate_def Let_def dest: keeps
      split: prod.split sum.split list.split ServerEffect.split)

lemma authenticate_finish_held [simp]:
  "held (authenticate_finish C k s i mode a pl t ev) = const (shc_crypto k)"
  by (auto simp: authenticate_finish_def Let_def dest: keeps
      split: prod.split sum.split CryptoOutcome.split AuthenticationFailure.split
        ServerClientFinishMode.split)

lemma server_call_held: "held (server_call C call k) = const (shc_crypto k)"
proof (cases call)
  case (CallClientHello s m t)
  then show ?thesis
    by (auto simp: receive_client_hello_def Let_def dest: reconcile_keeps
        split: prod.split sum.split list.split ServerEffect.split)
next
  case (CallClientFinish s m t)
  then show ?thesis
    by (auto simp: receive_client_finish_def Let_def dest: reconcile_keeps
        split: prod.split sum.split ServerClientFinishDecision.split)
next
  case (CallTimeouts t)
  then show ?thesis
    by (auto simp: coordinator_check_timeouts_def Let_def dest: reconcile_keeps
        split: prod.split sum.split)
next
  case CallShutdown
  then show ?thesis
    by (auto simp: coordinator_shutdown_def Let_def dest: keeps
        split: prod.split sum.split list.split ServerEffect.split)
qed

lemma coordinated_keeps:
  assumes "server_coordinated C k0 k"
  shows "const (shc_crypto k) = const (shc_crypto k0)"
  using assms by induction (simp_all add: server_call_held [unfolded held_def])

end

end
