(* ===== verification/Noise_Server.thy ===== *)
theory Noise_Server
  imports Noise_Profile Noise_Snow Handshake_Server
begin

text \<open>
  The server's Noise IK provider (\<open>src/crypto/noise_ik/server.rs\<close>). The Noise library is the parameter
  \<open>S\<close>; the provider carries the entropy the library draws. The fields of the variant
  \<open>CandidateContext::Pending\<close> are a record. The provider implements the contract \<open>server_crypto\<close>
  whatever the library does.
\<close>

record PendingContext =
  px_attempt :: ClientAttemptId
  px_transport :: StatelessTransportState
  px_hash :: bytes
  px_identity :: PeerIdentity
  px_client_hello :: bytes
  px_server_hello :: bytes
  px_client_finish :: "bytes option"
  px_server_finish :: "bytes option"
  px_metadata :: EstablishedSessionMetadata

datatype CandidateContext =
  Pending PendingContext
| Established ClientAttemptId StatelessTransportState EstablishedSessionMetadata bytes

record 'r ServerProvider =
  np_phase :: ServerCryptoPhase
  np_local_private_key :: bytes
  np_allowed_client_keys :: "bytes list"
  np_candidates :: "(CandidateId, CandidateContext) hmap"
  np_pending_commit :: "CandidateId option"
  np_established :: "(CandidateId \<times> CandidateContext) option"
  np_entropy :: 'r

definition ServerProvider_new :: "bytes \<Rightarrow> bytes list \<Rightarrow> 'r \<Rightarrow> 'r ServerProvider" where
  "ServerProvider_new local_private_key allowed_client_keys entropy =
     \<lparr>np_phase = ServerCryptoPhase.Running, np_local_private_key = local_private_key,
      np_allowed_client_keys = allowed_client_keys, np_candidates = hm_empty,
      np_pending_commit = None, np_established = None, np_entropy = entropy\<rparr>"

definition into_established_transport ::
  "'r ServerProvider \<Rightarrow> (StatelessTransportState \<times> EstablishedSessionMetadata) option" where
  "into_established_transport self =
     (if np_phase self \<noteq> ServerCryptoPhase.Established then None
      else case np_established self of
        Some (_, CandidateContext.Established _ transport metadata _) \<Rightarrow> Some (transport, metadata)
      | _ \<Rightarrow> None)"

definition server_sid :: "bytes \<Rightarrow> SessionId" where
  "server_sid hash = SessionId hash"

text \<open>An array of 32 zero bytes, overwritten with as much of the key as fits.\<close>

definition server_identity :: "bytes \<Rightarrow> PeerIdentity" where
  "server_identity key = PeerIdentity (take 32 key @ replicate (32 - length key) 0)"

definition failure ::
  "CandidateId \<Rightarrow> ClientAttemptId \<Rightarrow> AuthenticationFailureReason \<Rightarrow> 'a CryptoOutcome" where
  "failure candidate' attempt reason = RemoteFailure (ServerCandidate candidate' attempt reason)"

definition candidate_attempt :: "'r ServerProvider \<Rightarrow> CandidateId \<Rightarrow> ClientAttemptId option" where
  "candidate_attempt self candidate' =
     map_option (\<lambda>c. case c of
        CandidateContext.Pending x \<Rightarrow> px_attempt x
      | CandidateContext.Established attempt _ _ _ \<Rightarrow> attempt)
       (hm_get (np_candidates self) candidate')"

definition check ::
  "'r ServerProvider \<Rightarrow> ServerCryptoOperation \<Rightarrow> CandidateId \<Rightarrow> ClientAttemptId
   \<Rightarrow> (unit, CryptoStateError) result" where
  "check self op candidate' attempt =
     (if np_phase self = ServerCryptoPhase.Closed
      then Err (CryptoStateError.Closed (CryptoOperation.Server op))
      else case candidate_attempt self candidate' of
        Some expected \<Rightarrow>
          if expected \<noteq> attempt then Err (AttemptIdMismatch expected attempt) else Ok ()
      | None \<Rightarrow> Ok ())"

definition non_secret_status :: "'r ServerProvider \<Rightarrow> ServerCryptoStatus" where
  "non_secret_status self = \<lparr>scs_phase = np_phase self,
     scs_pending_contexts = hm_len (np_candidates self),
     scs_has_pending_commit = (np_pending_commit self \<noteq> None),
     scs_has_established_context = (np_established self \<noteq> None)\<rparr>"

section \<open>Server hello\<close>

text \<open>The last part of \<open>prepare_server_hello\<close>: the client's hello was read and its key is allowed.\<close>

definition admit_context ::
  "('r, 'h) Snow \<Rightarrow> 'r ServerProvider \<Rightarrow> CandidateId \<Rightarrow> ClientAttemptId \<Rightarrow> 'h \<Rightarrow> bytes \<Rightarrow> bytes
   \<Rightarrow> ('r ServerProvider, NoiseIkPayload PreparedServerHello CryptoOutcome) crypto_step" where
  "admit_context S self candidate' attempt state remote client_hello =
     (let failed = NoiseIkServerFailure PrepareServerHello; identity = server_identity remote in
      case encode_control MessageType.ServerHello attempt of
        Inl _ \<Rightarrow> (self, Err failed)
      | Inr c \<Rightarrow>
        (case hs_write_message S state c SERVER_HELLO_PAYLOAD_LENGTH of
           (state, None) \<Rightarrow> (self, Err failed)
         | (state, Some out) \<Rightarrow>
             if length out \<noteq> SERVER_HELLO_PAYLOAD_LENGTH then (self, Err failed)
             else
               let hash = get_handshake_hash S state in
               if length hash \<noteq> 32 then (self, Err failed)
               else (case into_stateless_transport_mode S state of
                 None \<Rightarrow> (self, Err failed)
               | Some transport \<Rightarrow>
                   (self\<lparr>np_candidates := hm_insert candidate' (CandidateContext.Pending
                      \<lparr>px_attempt = attempt, px_transport = transport, px_hash = hash,
                       px_identity = identity, px_client_hello = client_hello,
                       px_server_hello = out, px_client_finish = None, px_server_finish = None,
                       px_metadata = \<lparr>session_id = server_sid hash, peer_identity = identity\<rparr>\<rparr>)
                      (np_candidates self)\<rparr>,
                    Ok (Success \<lparr>psh_candidate_id = candidate', psh_client_attempt_id = attempt,
                          psh_payload = NoiseIkPayload out\<rparr>)))))"

text \<open>A hello of a new candidate.\<close>

definition accept_hello ::
  "('r, 'h) Snow \<Rightarrow> 'r ServerProvider \<Rightarrow> CandidateId \<Rightarrow> ClientAttemptId \<Rightarrow> bytes
   \<Rightarrow> ('r ServerProvider, NoiseIkPayload PreparedServerHello CryptoOutcome) crypto_step" where
  "accept_hello S self candidate' attempt payload =
     (let failed = NoiseIkServerFailure PrepareServerHello;
          reject = (\<lambda>self reason. (self, Ok (failure candidate' attempt reason)))
      in if length payload \<noteq> CLIENT_HELLO_PAYLOAD_LENGTH then (self, Err failed)
         else case build_prologue attempt of
           Inl _ \<Rightarrow> (self, Err failed)
         | Inr pro \<Rightarrow>
           (case build_responder S NOISE_PROTOCOL_NAME (np_local_private_key self) pro
                   (np_entropy self) of
              (entropy, None) \<Rightarrow> (self\<lparr>np_entropy := entropy\<rparr>, Err failed)
            | (entropy, Some state) \<Rightarrow>
              let self = self\<lparr>np_entropy := entropy\<rparr> in
              (case hs_read_message S state payload CLIENT_HELLO_PAYLOAD_LENGTH of
                 (state, None) \<Rightarrow> reject self InvalidProof
               | (state, Some plain) \<Rightarrow>
                   if length plain \<noteq> 16 \<or>
                      validate_control plain MessageType.ClientHello attempt \<noteq> Ok ()
                   then reject self InvalidProof
                   else (case get_remote_static S state of
                     None \<Rightarrow> reject self IdentityMismatch
                   | Some remote \<Rightarrow>
                       if remote \<notin> set (np_allowed_client_keys self) then reject self IdentityMismatch
                       else admit_context S self candidate' attempt state remote payload))))"

definition prepare_server_hello ::
  "('r, 'h) Snow \<Rightarrow> 'r ServerProvider \<Rightarrow> CandidateId \<Rightarrow> ClientAttemptId \<Rightarrow> NoiseIkPayload
   \<Rightarrow> ('r ServerProvider, NoiseIkPayload PreparedServerHello CryptoOutcome) crypto_step" where
  "prepare_server_hello S self candidate' attempt payload =
     bind_st (self, check self PrepareServerHello candidate' attempt) (\<lambda>self _.
       if np_phase self \<noteq> ServerCryptoPhase.Running
       then (self, Err (InvalidServerState PrepareServerHello (np_phase self)))
       else case hm_get (np_candidates self) candidate' of
         Some (CandidateContext.Established _ _ _ _) \<Rightarrow>
           (self, Err (NoiseIkServerFailure PrepareServerHello))
       | Some (CandidateContext.Pending x) \<Rightarrow>
           if px_attempt x \<noteq> attempt
           then (self, Err (AttemptIdMismatch (px_attempt x) attempt))
           else if px_client_hello x = payload_bytes payload
           then (self, Ok (Success \<lparr>psh_candidate_id = candidate', psh_client_attempt_id = attempt,
                   psh_payload = NoiseIkPayload (px_server_hello x)\<rparr>))
           else (self, Ok (failure candidate' attempt TranscriptMismatch))
       | None \<Rightarrow> accept_hello S self candidate' attempt (payload_bytes payload))"

section \<open>Client finish\<close>

definition authenticate_client_finish ::
  "'r ServerProvider \<Rightarrow> CandidateId \<Rightarrow> ClientAttemptId \<Rightarrow> NoiseIkPayload
   \<Rightarrow> ('r ServerProvider, AuthenticatedClientFinish CryptoOutcome) crypto_step" where
  "authenticate_client_finish self candidate' attempt payload =
     bind_st (self, check self AuthenticateClientFinish candidate' attempt) (\<lambda>self _.
       let failed = NoiseIkServerFailure AuthenticateClientFinish;
           authenticated = (\<lambda>x. Success \<lparr>acf_candidate_id = candidate',
             acf_client_attempt_id = attempt, acf_metadata = px_metadata x\<rparr>)
       in case hm_get (np_candidates self) candidate' of
         None \<Rightarrow> (self, Err (MissingServerCandidateContext candidate' attempt))
       | Some (CandidateContext.Established _ _ _ _) \<Rightarrow>
           (self, Err (InvalidServerState AuthenticateClientFinish (np_phase self)))
       | Some (CandidateContext.Pending x) \<Rightarrow>
           if px_attempt x \<noteq> attempt
           then (self, Err (AttemptIdMismatch (px_attempt x) attempt))
           else (case px_client_finish x of
             Some cached \<Rightarrow>
               if cached = payload_bytes payload then (self, Ok (authenticated x))
               else (self, Ok (failure candidate' attempt TranscriptMismatch))
           | None \<Rightarrow>
             if length (payload_bytes payload) \<noteq> CLIENT_FINISH_PAYLOAD_LENGTH then (self, Err failed)
             else (case read_message (px_transport x) 0 (payload_bytes payload)
                          CLIENT_FINISH_PAYLOAD_LENGTH of
               None \<Rightarrow> (self, Err failed)
             | Some plain \<Rightarrow>
               if length plain \<noteq> 16 \<or> validate_control plain MessageType.ClientFinish attempt \<noteq> Ok ()
               then (self, Ok (failure candidate' attempt InvalidConfirmation))
               else (case encode_control MessageType.ServerFinish attempt of
                 Inl _ \<Rightarrow> (self, Err failed)
               | Inr c \<Rightarrow>
                 (case write_message (px_transport x) 0 c SERVER_FINISH_PAYLOAD_LENGTH of
                    None \<Rightarrow> (self, Err failed)
                  | Some out \<Rightarrow>
                      if length out \<noteq> SERVER_FINISH_PAYLOAD_LENGTH then (self, Err failed)
                      else (self\<lparr>np_candidates := hm_insert candidate' (CandidateContext.Pending
                                  (x\<lparr>px_client_finish := Some (payload_bytes payload),
                                     px_server_finish := Some out\<rparr>)) (np_candidates self),
                                 np_pending_commit := Some candidate',
                                 np_phase := ServerCryptoPhase.AuthenticatedPendingCommit\<rparr>,
                            Ok (authenticated x)))))))"

definition commit_session ::
  "'r ServerProvider \<Rightarrow> CandidateId \<Rightarrow> ClientAttemptId \<Rightarrow> EstablishedSessionMetadata
   \<Rightarrow> ('r ServerProvider, unit) crypto_step" where
  "commit_session self candidate' attempt metadata =
     (if np_phase self \<noteq> ServerCryptoPhase.AuthenticatedPendingCommit
      then (self, Err (InvalidServerState ServerCryptoOperation.CommitSession (np_phase self)))
      else if np_pending_commit self \<noteq> Some candidate'
      then (self, Err (CandidateIdMismatch candidate' candidate'))
      else case hm_get (np_candidates self) candidate' of
        None \<Rightarrow> (self, Err (NoiseIkServerFailure ServerCryptoOperation.CommitSession))
      | Some ctx \<Rightarrow>
        let self = self\<lparr>np_candidates := hm_remove candidate' (np_candidates self)\<rparr> in
        (case ctx of
           CandidateContext.Established _ _ _ _ \<Rightarrow>
             (self, Err (NoiseIkServerFailure ServerCryptoOperation.CommitSession))
         | CandidateContext.Pending x \<Rightarrow>
             (case px_server_finish x of
                None \<Rightarrow> (self, Err (NoiseIkServerFailure ServerCryptoOperation.CommitSession))
              | Some finish \<Rightarrow>
                  if px_attempt x \<noteq> attempt
                  then (self, Err (AttemptIdMismatch (px_attempt x) attempt))
                  else if px_metadata x \<noteq> metadata then (self, Err AuthenticatedMetadataMismatch)
                  else (self\<lparr>np_candidates := hm_empty,
                             np_established := Some (candidate', CandidateContext.Established
                               attempt (px_transport x) metadata finish),
                             np_pending_commit := None,
                             np_phase := ServerCryptoPhase.Established\<rparr>, Ok ()))))"

definition reject_authenticated_candidate ::
  "'r ServerProvider \<Rightarrow> CandidateId \<Rightarrow> ClientAttemptId
   \<Rightarrow> ('r ServerProvider, ServerCandidateRemoval) crypto_step" where
  "reject_authenticated_candidate self candidate' attempt =
     (if np_phase self = ServerCryptoPhase.Closed
      then (self, Ok ServerCandidateRemoval.AlreadyAbsent)
      else bind_st (self, check self RejectAuthenticatedCandidate candidate' attempt) (\<lambda>self _.
        if np_pending_commit self \<noteq> Some candidate'
        then (self, Err (InvalidServerState RejectAuthenticatedCandidate (np_phase self)))
        else (self\<lparr>np_candidates := hm_remove candidate' (np_candidates self),
                   np_pending_commit := None, np_phase := ServerCryptoPhase.Running\<rparr>,
              Ok ServerCandidateRemoval.Removed)))"

definition prepare_server_finish ::
  "'r ServerProvider \<Rightarrow> CandidateId \<Rightarrow> ClientAttemptId \<Rightarrow> SessionId
   \<Rightarrow> (NoiseIkPayload PreparedServerFinish, CryptoStateError) result" where
  "prepare_server_finish self candidate' attempt sid =
     (case np_established self of
        Some (expected_candidate, CandidateContext.Established expected_attempt _ metadata finish) \<Rightarrow>
          if expected_candidate \<noteq> candidate'
          then Err (CandidateIdMismatch expected_candidate candidate')
          else if expected_attempt \<noteq> attempt then Err (AttemptIdMismatch expected_attempt attempt)
          else if session_id metadata \<noteq> sid then Err (SessionIdMismatch (session_id metadata) sid)
          else Ok \<lparr>psf_candidate_id = candidate', psf_client_attempt_id = attempt,
                   psf_session_id = sid, psf_payload = NoiseIkPayload finish\<rparr>
      | _ \<Rightarrow> Err (InvalidServerState PrepareServerFinish (np_phase self)))"

definition provider_remove_candidate ::
  "'r ServerProvider \<Rightarrow> CandidateId \<Rightarrow> ClientAttemptId
   \<Rightarrow> ('r ServerProvider, ServerCandidateRemoval) crypto_step" where
  "provider_remove_candidate self candidate' attempt =
     (if np_phase self = ServerCryptoPhase.Closed
      then (self, Ok ServerCandidateRemoval.AlreadyAbsent)
      else bind_st (self, check self RemoveCandidate candidate' attempt) (\<lambda>self _.
        case hm_get (np_candidates self) candidate' of
          None \<Rightarrow> (self, Ok ServerCandidateRemoval.AlreadyAbsent)
        | Some _ \<Rightarrow>
          let self = self\<lparr>np_candidates := hm_remove candidate' (np_candidates self)\<rparr> in
          if np_pending_commit self = Some candidate'
          then (self\<lparr>np_pending_commit := None, np_phase := ServerCryptoPhase.Running\<rparr>,
                Ok ServerCandidateRemoval.Removed)
          else (self, Ok ServerCandidateRemoval.Removed)))"

definition provider_shutdown :: "'r ServerProvider \<Rightarrow> 'r ServerProvider \<times> CryptoShutdownOutcome" where
  "provider_shutdown self =
     (let p = np_phase self in
      if p = ServerCryptoPhase.Closed then (self, shutdown_already_closed)
      else (self\<lparr>np_candidates := hm_empty, np_pending_commit := None, np_established := None,
                 np_phase := ServerCryptoPhase.Closed\<rparr>,
            \<lparr>removed_pending_contexts = of_bool (p = ServerCryptoPhase.Running),
             removed_pending_commit = (p = ServerCryptoPhase.AuthenticatedPendingCommit),
             removed_established_context = (p = ServerCryptoPhase.Established),
             already_closed = False\<rparr>))"

text \<open>\<open>impl ServerHandshakeCrypto for ServerProvider\<close>.\<close>

definition server_provider ::
  "('r, 'h) Snow \<Rightarrow> ('r ServerProvider, NoiseIkPayload, NoiseIkPayload, NoiseIkPayload,
     NoiseIkPayload) ServerHandshakeCrypto" where
  "server_provider S =
     \<lparr>sv_phase = np_phase,
      sv_non_secret_status = non_secret_status,
      sv_prepare_server_hello = prepare_server_hello S,
      sv_authenticate_client_finish = authenticate_client_finish,
      sv_commit_session = commit_session,
      sv_reject_authenticated_candidate = reject_authenticated_candidate,
      sv_prepare_server_finish = prepare_server_finish,
      sv_remove_candidate = provider_remove_candidate,
      sv_shutdown = provider_shutdown\<rparr>"

lemma server_provider_simps [simp]:
  "sv_phase (server_provider S) = np_phase"
  "sv_non_secret_status (server_provider S) = non_secret_status"
  "sv_prepare_server_hello (server_provider S) = prepare_server_hello S"
  "sv_authenticate_client_finish (server_provider S) = authenticate_client_finish"
  "sv_commit_session (server_provider S) = commit_session"
  "sv_reject_authenticated_candidate (server_provider S) = reject_authenticated_candidate"
  "sv_prepare_server_finish (server_provider S) = prepare_server_finish"
  "sv_remove_candidate (server_provider S) = provider_remove_candidate"
  "sv_shutdown (server_provider S) = provider_shutdown"
  by (simp_all add: server_provider_def)

section \<open>What the provider guarantees\<close>

text \<open>
  The evidence behind a context: a handshake state that read the client's control record for this
  attempt, with a remote static key from the allowed list; transport, session id and identity stem
  from it. A session has in addition read the client's final record.
\<close>

definition client_hello_read ::
  "('r, 'h) Snow \<Rightarrow> bytes list \<Rightarrow> ClientAttemptId \<Rightarrow> StatelessTransportState
   \<Rightarrow> EstablishedSessionMetadata \<Rightarrow> bool" where
  "client_hello_read S keys a transport md \<longleftrightarrow>
     (\<exists>h0 p cap h remote c cap' h' out.
        hs_read_message S h0 p cap = (h, Some (control_record MessageType.ClientHello a)) \<and>
        get_remote_static S h = Some remote \<and> remote \<in> set keys \<and>
        peer_identity md = server_identity remote \<and>
        hs_write_message S h c cap' = (h', Some out) \<and>
        into_stateless_transport_mode S h' = Some transport \<and>
        session_id md = SessionId (get_handshake_hash S h') \<and> length (get_handshake_hash S h') = 32)"

definition authentic_client ::
  "('r, 'h) Snow \<Rightarrow> bytes list \<Rightarrow> ClientAttemptId \<Rightarrow> StatelessTransportState
   \<Rightarrow> EstablishedSessionMetadata \<Rightarrow> bool" where
  "authentic_client S keys a transport md \<longleftrightarrow> client_hello_read S keys a transport md \<and>
     (\<exists>p cap. read_message transport 0 p cap = Some (control_record MessageType.ClientFinish a))"

definition pending_ok :: "('r, 'h) Snow \<Rightarrow> bytes list \<Rightarrow> PendingContext \<Rightarrow> bool" where
  "pending_ok S keys x \<longleftrightarrow>
     client_hello_read S keys (px_attempt x) (px_transport x) (px_metadata x) \<and>
     (px_client_finish x = None \<longleftrightarrow> px_server_finish x = None) \<and>
     (px_client_finish x \<noteq> None \<longrightarrow>
        authentic_client S keys (px_attempt x) (px_transport x) (px_metadata x))"

definition contexts_ok :: "('r, 'h) Snow \<Rightarrow> 'r ServerProvider \<Rightarrow> bool" where
  "contexts_ok S c \<longleftrightarrow> hm_invar (np_candidates c) \<and>
     (\<forall>i ctx. hm_get (np_candidates c) i = Some ctx \<longrightarrow>
        (\<exists>x. ctx = CandidateContext.Pending x \<and> pending_ok S (np_allowed_client_keys c) x \<and>
           (px_client_finish x = None \<longleftrightarrow> np_pending_commit c \<noteq> Some i)))"

definition server_provider_ok :: "('r, 'h) Snow \<Rightarrow> 'r ServerProvider \<Rightarrow> bool" where
  "server_provider_ok S c \<longleftrightarrow> contexts_ok S c \<and> (case np_phase c of
     ServerCryptoPhase.Running \<Rightarrow> np_pending_commit c = None \<and> np_established c = None
   | ServerCryptoPhase.AuthenticatedPendingCommit \<Rightarrow>
       (\<exists>i x. np_pending_commit c = Some i \<and>
          hm_get (np_candidates c) i = Some (CandidateContext.Pending x))
   | ServerCryptoPhase.Established \<Rightarrow> np_candidates c = hm_empty \<and> np_pending_commit c = None \<and>
       (\<exists>i a transport md finish.
          np_established c = Some (i, CandidateContext.Established a transport md finish) \<and>
          authentic_client S (np_allowed_client_keys c) a transport md)
   | ServerCryptoPhase.Closed \<Rightarrow> np_candidates c = hm_empty \<and> np_pending_commit c = None \<and>
       np_established c = None)"

definition provider_agreed ::
  "'r ServerProvider \<Rightarrow> (CandidateId \<times> ClientAttemptId \<times> EstablishedSessionMetadata) option" where
  "provider_agreed c = (case np_phase c of
     ServerCryptoPhase.AuthenticatedPendingCommit \<Rightarrow>
       (case np_pending_commit c of
          None \<Rightarrow> None
        | Some i \<Rightarrow>
          (case hm_get (np_candidates c) i of
             Some (CandidateContext.Pending x) \<Rightarrow> Some (i, px_attempt x, px_metadata x)
           | _ \<Rightarrow> None))
   | ServerCryptoPhase.Established \<Rightarrow>
       (case np_established c of
          Some (i, CandidateContext.Established a _ md _) \<Rightarrow> Some (i, a, md)
        | _ \<Rightarrow> None)
   | _ \<Rightarrow> None)"

lemma candidate_attempt_Some:
  assumes "contexts_ok S c"
  shows "candidate_attempt c i = Some a \<longleftrightarrow>
    (\<exists>x. hm_get (np_candidates c) i = Some (CandidateContext.Pending x) \<and> px_attempt x = a)"
  using assms by (fastforce simp: contexts_ok_def candidate_attempt_def)

lemma candidate_attempt_None: "candidate_attempt c i = None \<longleftrightarrow> hm_get (np_candidates c) i = None"
  by (simp add: candidate_attempt_def)

lemma check_ok:
  "np_phase c \<noteq> ServerCryptoPhase.Closed \<Longrightarrow> candidate_attempt c i = None \<or> candidate_attempt c i = Some a
   \<Longrightarrow> check c op i a = Ok ()"
  by (auto simp: check_def)

lemma provider_status:
  assumes "server_provider_ok S c"
  shows "scs_phase (non_secret_status c) = np_phase c \<and> status_ok (non_secret_status c) (candidate_attempt c)"
proof -
  have "dom (candidate_attempt c) = dom (hm_get (np_candidates c))" by (auto simp: candidate_attempt_def)
  moreover have "hm_len (np_candidates c) = card (dom (hm_get (np_candidates c)))"
    using assms by (intro hm_len_card) (simp add: server_provider_ok_def contexts_ok_def)
  ultimately show ?thesis
    using assms
    by (auto simp: non_secret_status_def status_ok_def server_provider_ok_def split: ServerCryptoPhase.splits)
qed

text \<open>Storing a context.\<close>

lemma contexts_ok_insert:
  assumes "contexts_ok S c" and "pending_ok S (np_allowed_client_keys c) x"
    and "px_client_finish x = None \<longleftrightarrow> np_pending_commit c' \<noteq> Some i"
    and "\<And>j. j \<noteq> i \<Longrightarrow> np_pending_commit c' \<noteq> Some j \<and> np_pending_commit c \<noteq> Some j"
    and "np_candidates c' = hm_insert i (CandidateContext.Pending x) (np_candidates c)"
    and "np_allowed_client_keys c' = np_allowed_client_keys c"
  shows "contexts_ok S c'"
  using assms by (auto simp: contexts_ok_def hm.get_insert hm.invar_insert split: if_splits) blast+

lemma candidate_attempt_insert:
  assumes "hm_invar (np_candidates c)"
    and "np_candidates c' = hm_insert i (CandidateContext.Pending x) (np_candidates c)"
  shows "candidate_attempt c' = (candidate_attempt c)(i \<mapsto> px_attempt x)"
  using assms by (auto simp: candidate_attempt_def hm.get_insert fun_eq_iff)

lemma admit_context_ok:
  assumes ok: "server_provider_ok S c" and ph: "np_phase c = ServerCryptoPhase.Running"
    and rd: "hs_read_message S h0 p cap = (h, Some (control_record MessageType.ClientHello a))"
    and remote: "get_remote_static S h = Some remote" "remote \<in> set (np_allowed_client_keys c)"
    and r: "admit_context S c i a h remote p = (c', Ok r)"
  shows "\<exists>out. r = Success \<lparr>psh_candidate_id = i, psh_client_attempt_id = a, psh_payload = out\<rparr> \<and>
    server_provider_ok S c' \<and> np_phase c' = ServerCryptoPhase.Running \<and>
    candidate_attempt c' = (candidate_attempt c)(i \<mapsto> a)"
proof -
  obtain cr h' out transport where w: "hs_write_message S h cr SERVER_HELLO_PAYLOAD_LENGTH = (h', Some out)"
    "length (get_handshake_hash S h') = 32" "into_stateless_transport_mode S h' = Some transport"
    and r': "r = Success \<lparr>psh_candidate_id = i, psh_client_attempt_id = a, psh_payload = NoiseIkPayload out\<rparr>"
      "c' = c\<lparr>np_candidates := hm_insert i (CandidateContext.Pending
        \<lparr>px_attempt = a, px_transport = transport, px_hash = get_handshake_hash S h',
         px_identity = server_identity remote, px_client_hello = p, px_server_hello = out,
         px_client_finish = None, px_server_finish = None,
         px_metadata = \<lparr>session_id = server_sid (get_handshake_hash S h'),
           peer_identity = server_identity remote\<rparr>\<rparr>) (np_candidates c)\<rparr>"
    using r by (auto simp: admit_context_def Let_def split: sum.splits prod.splits option.splits if_splits)
  define x where "x = \<lparr>px_attempt = a, px_transport = transport, px_hash = get_handshake_hash S h',
         px_identity = server_identity remote, px_client_hello = p, px_server_hello = out,
         px_client_finish = None, px_server_finish = None,
         px_metadata = \<lparr>session_id = server_sid (get_handshake_hash S h'),
           peer_identity = server_identity remote\<rparr>\<rparr>"
  have c': "r = Success \<lparr>psh_candidate_id = i, psh_client_attempt_id = a, psh_payload = NoiseIkPayload out\<rparr>"
    "c' = c\<lparr>np_candidates := hm_insert i (CandidateContext.Pending x) (np_candidates c)\<rparr>"
    using r' unfolding x_def by blast+
  have x: "px_attempt x = a" "px_transport x = transport" "px_client_finish x = None"
    "px_server_finish x = None" "px_metadata x = \<lparr>session_id = server_sid (get_handshake_hash S h'),
      peer_identity = server_identity remote\<rparr>"
    by (simp_all add: x_def)
  have keep: "np_candidates c' = hm_insert i (CandidateContext.Pending x) (np_candidates c)"
    "np_allowed_client_keys c' = np_allowed_client_keys c" "np_pending_commit c' = None"
    "np_established c' = None" "np_phase c' = ServerCryptoPhase.Running"
    "contexts_ok S c" "np_pending_commit c = None"
    using ok ph by (simp_all add: server_provider_ok_def c'(2))
  have "client_hello_read S (np_allowed_client_keys c) a transport (px_metadata x)"
    unfolding client_hello_read_def using rd remote w by (fastforce simp: x(5) server_sid_def)
  then have "pending_ok S (np_allowed_client_keys c) x" using x by (simp add: pending_ok_def)
  then have "contexts_ok S c'"
    by (rule contexts_ok_insert [OF keep(6)]) (use x(3) keep in auto)
  moreover have "candidate_attempt c' = (candidate_attempt c)(i \<mapsto> a)"
    using candidate_attempt_insert [OF _ keep(1)] keep(6) x(1) by (simp add: contexts_ok_def)
  ultimately show ?thesis using keep c'(1) by (simp add: server_provider_ok_def)
qed

lemma accept_hello_ok:
  assumes ok: "server_provider_ok S c" and ph: "np_phase c = ServerCryptoPhase.Running"
    and r: "accept_hello S c i a p = (c', Ok r)"
  shows "server_provider_ok S c' \<and> np_phase c' = ServerCryptoPhase.Running \<and>
    (case r of
       Success s \<Rightarrow> psh_candidate_id s = i \<and> psh_client_attempt_id s = a \<and>
         candidate_attempt c' = (candidate_attempt c)(i \<mapsto> a)
     | RemoteFailure f \<Rightarrow> (\<exists>reason. f = ServerCandidate i a reason) \<and>
         candidate_attempt c' = candidate_attempt c)"
proof -
  obtain pro entropy h h' plain where b: "build_prologue a = Ok pro"
    "build_responder S NOISE_PROTOCOL_NAME (np_local_private_key c) pro (np_entropy c) = (entropy, Some h)"
    "hs_read_message S h p CLIENT_HELLO_PAYLOAD_LENGTH = (h', plain)"
    "length p = CLIENT_HELLO_PAYLOAD_LENGTH"
    using r by (auto simp: accept_hello_def Let_def split: if_splits sum.splits prod.splits option.splits)
  let ?c = "c\<lparr>np_entropy := entropy\<rparr>"
  have "contexts_ok S ?c = contexts_ok S c" by (simp add: contexts_ok_def)
  then have ok': "server_provider_ok S ?c" "candidate_attempt ?c = candidate_attempt c"
    using ok ph by (simp_all add: server_provider_ok_def candidate_attempt_def fun_eq_iff)
  consider reason where "c' = ?c" "r = failure i a reason"
    | remote where "plain = Some (control_record MessageType.ClientHello a)"
      "get_remote_static S h' = Some remote" "remote \<in> set (np_allowed_client_keys ?c)"
      "admit_context S ?c i a h' remote p = (c', Ok r)"
    using r b by (auto simp: accept_hello_def Let_def validate_control_ok_iff
        split: if_splits option.splits)
  then show ?thesis
  proof cases
    case 1
    then show ?thesis using ok' ph by (simp add: failure_def)
  next
    case 2
    have rd: "hs_read_message S h p CLIENT_HELLO_PAYLOAD_LENGTH =
        (h', Some (control_record MessageType.ClientHello a))"
      using b(3) 2(1) by simp
    show ?thesis
      using admit_context_ok [OF ok'(1) _ rd 2(2-4)] ph ok'(2) by auto
  qed
qed

lemma prepare_server_hello_ok:
  assumes ok: "server_provider_ok S c" and ph: "np_phase c = ServerCryptoPhase.Running"
    and a: "candidate_attempt c i = None \<or> candidate_attempt c i = Some a"
    and r: "prepare_server_hello S c i a m = (c', Ok r)"
  shows "server_provider_ok S c' \<and> np_phase c' = ServerCryptoPhase.Running \<and>
    (case r of
       Success s \<Rightarrow> psh_candidate_id s = i \<and> psh_client_attempt_id s = a \<and>
         candidate_attempt c' = (candidate_attempt c)(i \<mapsto> a)
     | RemoteFailure f \<Rightarrow> (\<exists>reason. f = ServerCandidate i a reason) \<and>
         candidate_attempt c' = candidate_attempt c)"
proof (cases "hm_get (np_candidates c) i")
  case None
  then have "accept_hello S c i a (payload_bytes m) = (c', Ok r)"
    using r ph a by (simp add: prepare_server_hello_def check_ok)
  then show ?thesis by (rule accept_hello_ok [OF ok ph])
next
  case (Some ctx)
  have "contexts_ok S c" using ok by (simp add: server_provider_ok_def)
  then obtain x where x: "ctx = CandidateContext.Pending x" "px_attempt x = a"
    using a Some candidate_attempt_Some [of S c i a] candidate_attempt_None [of c i] by auto
  then have at: "candidate_attempt c i = Some a" using Some by (simp add: candidate_attempt_def)
  then have upd: "(candidate_attempt c)(i \<mapsto> a) = candidate_attempt c" by (simp add: map_upd_triv)
  have "check c PrepareServerHello i a = Ok ()" using at ph by (simp add: check_ok)
  then have "c' = c \<and> (r = Success \<lparr>psh_candidate_id = i, psh_client_attempt_id = a,
        psh_payload = NoiseIkPayload (px_server_hello x)\<rparr> \<or> r = failure i a TranscriptMismatch)"
    using r ph Some x by (auto simp: prepare_server_hello_def split: if_splits)
  then show ?thesis using ok ph upd by (auto simp: failure_def)
qed

lemma authenticate_client_finish_ok:
  assumes ok: "server_provider_ok S c" and ph: "np_phase c = ServerCryptoPhase.Running"
    and a: "candidate_attempt c i = Some a"
    and r: "authenticate_client_finish c i a m = (c', Ok r)"
  shows "server_provider_ok S c' \<and>
    (case r of
       Success s \<Rightarrow> acf_candidate_id s = i \<and> acf_client_attempt_id s = a \<and>
         np_phase c' = ServerCryptoPhase.AuthenticatedPendingCommit \<and>
         provider_agreed c' = Some (i, a, acf_metadata s)
     | RemoteFailure f \<Rightarrow> (\<exists>reason. f = ServerCandidate i a reason) \<and>
         np_phase c' = ServerCryptoPhase.Running \<and> candidate_attempt c' = candidate_attempt c)"
proof -
  have cok: "contexts_ok S c" "np_pending_commit c = None" "np_established c = None"
    using ok ph by (simp_all add: server_provider_ok_def)
  obtain x where x: "hm_get (np_candidates c) i = Some (CandidateContext.Pending x)" "px_attempt x = a"
    using a candidate_attempt_Some [OF cok(1)] by blast
  then have x': "pending_ok S (np_allowed_client_keys c) x" "px_client_finish x = None"
    using cok by (auto simp: contexts_ok_def)
  consider "c' = c" "r = failure i a InvalidConfirmation"
    | out where "r = Success \<lparr>acf_candidate_id = i, acf_client_attempt_id = a, acf_metadata = px_metadata x\<rparr>"
      "read_message (px_transport x) 0 (payload_bytes m) CLIENT_FINISH_PAYLOAD_LENGTH =
         Some (control_record MessageType.ClientFinish a)"
      "c' = c\<lparr>np_candidates := hm_insert i (CandidateContext.Pending
            (x\<lparr>px_client_finish := Some (payload_bytes m), px_server_finish := Some out\<rparr>)) (np_candidates c),
          np_pending_commit := Some i, np_phase := ServerCryptoPhase.AuthenticatedPendingCommit\<rparr>"
    using r ph a x x'(2)
    by (auto simp: authenticate_client_finish_def check_ok Let_def validate_control_ok_iff
        split: if_splits option.splits sum.splits)
  then show ?thesis
  proof cases
    case 1
    then show ?thesis using ok ph by (simp add: failure_def)
  next
    case 2
    have "contexts_ok S c'"
    proof (rule contexts_ok_insert [OF cok(1)])
      show "np_candidates c' = hm_insert i (CandidateContext.Pending
          (x\<lparr>px_client_finish := Some (payload_bytes m), px_server_finish := Some out\<rparr>)) (np_candidates c)"
        by (simp add: 2(3))
      show "pending_ok S (np_allowed_client_keys c)
          (x\<lparr>px_client_finish := Some (payload_bytes m), px_server_finish := Some out\<rparr>)"
        using x'(1) x(2) 2(2) by (auto simp: pending_ok_def authentic_client_def)
    qed (auto simp: 2(3) cok(2))
    then show ?thesis
      using cok(1) x(2)
      by (simp add: 2(1,3) server_provider_ok_def provider_agreed_def contexts_ok_def hm.get_insert)
  qed
qed

lemma commit_session_ok:
  assumes ok: "server_provider_ok S c" and ph: "np_phase c = ServerCryptoPhase.AuthenticatedPendingCommit"
    and ag: "provider_agreed c = Some (i, a, md)"
  shows "\<exists>c'. commit_session c i a md = (c', Ok ()) \<and> server_provider_ok S c' \<and>
    np_phase c' = ServerCryptoPhase.Established \<and> provider_agreed c' = Some (i, a, md)"
proof -
  obtain x where x: "np_pending_commit c = Some i" "hm_get (np_candidates c) i = Some (CandidateContext.Pending x)"
    "px_attempt x = a" "px_metadata x = md"
    using ag ph by (auto simp: provider_agreed_def split: option.splits CandidateContext.splits)
  then have "pending_ok S (np_allowed_client_keys c) x" "px_client_finish x \<noteq> None"
    using ok by (auto simp: server_provider_ok_def contexts_ok_def)
  then obtain finish where "px_server_finish x = Some finish"
    "authentic_client S (np_allowed_client_keys c) a (px_transport x) md"
    using x(3,4) by (auto simp: pending_ok_def)
  then show ?thesis
    using x ph
    by (simp add: commit_session_def Let_def server_provider_ok_def contexts_ok_def provider_agreed_def)
qed

lemma provider_remove_ok:
  assumes ok: "server_provider_ok S c" and ph: "np_phase c = ServerCryptoPhase.Running"
    and a: "candidate_attempt c i = Some a"
  shows "\<exists>c'. provider_remove_candidate c i a = (c', Ok ServerCandidateRemoval.Removed) \<and>
    server_provider_ok S c' \<and> np_phase c' = ServerCryptoPhase.Running \<and>
    candidate_attempt c' = (candidate_attempt c)(i := None)"
proof -
  have cok: "contexts_ok S c" "np_pending_commit c = None" "np_established c = None"
    using ok ph by (simp_all add: server_provider_ok_def)
  obtain x where x: "hm_get (np_candidates c) i = Some (CandidateContext.Pending x)"
    using a candidate_attempt_Some [OF cok(1)] by blast
  have inv: "hm_invar (np_candidates c)" using cok(1) by (simp add: contexts_ok_def)
  let ?c = "c\<lparr>np_candidates := hm_remove i (np_candidates c)\<rparr>"
  have "contexts_ok S ?c"
    using cok(1) inv by (auto simp: contexts_ok_def hm_laws split: if_splits)
  moreover have "candidate_attempt ?c = (candidate_attempt c)(i := None)"
    using inv by (auto simp: candidate_attempt_def hm_laws fun_eq_iff)
  ultimately show ?thesis
    using cok ph x a by (simp add: provider_remove_candidate_def check_ok server_provider_ok_def Let_def)
qed

lemma server_errors_keep_phase:
  "prepare_server_hello S c i a m = (c', Err e) \<Longrightarrow> np_phase c' = np_phase c"
  "authenticate_client_finish c i a m = (c', Err e) \<Longrightarrow> np_phase c' = np_phase c"
proof -
  assume r: "prepare_server_hello S c i a m = (c', Err e)"
  then have "c' = c \<or> accept_hello S c i a (payload_bytes m) = (c', Err e)"
    by (cases "check c PrepareServerHello i a")
      (auto simp: prepare_server_hello_def split: if_splits option.splits CandidateContext.splits)
  then show "np_phase c' = np_phase c"
    by (auto simp: accept_hello_def admit_context_def Let_def
        split: if_splits option.splits sum.splits prod.splits)
next
  assume r: "authenticate_client_finish c i a m = (c', Err e)"
  then show "np_phase c' = np_phase c"
    by (cases "check c AuthenticateClientFinish i a")
      (auto simp: authenticate_client_finish_def Let_def
        split: if_splits option.splits sum.splits CandidateContext.splits)
qed

lemma provider_shutdown_ok:
  assumes "server_provider_ok S c \<or> np_phase c \<noteq> ServerCryptoPhase.Closed"
    and "provider_shutdown c = (c', cleanup)"
  shows "server_provider_ok S c' \<and> np_phase c' = ServerCryptoPhase.Closed"
  using assms
  by (auto simp: provider_shutdown_def Let_def server_provider_ok_def contexts_ok_def split: if_splits)

interpretation noise_server: server_crypto "server_provider S" candidate_attempt provider_agreed np_phase
    "server_provider_ok S" for S :: "('r, 'h) Snow"
proof (unfold_locales, unfold server_provider_simps)
  fix c c' :: "'r ServerProvider" and i a md ch r cf q cleanup e
  show "scs_phase (non_secret_status c) = np_phase c \<and> status_ok (non_secret_status c) (candidate_attempt c)"
    if "server_provider_ok S c" using that by (rule provider_status)
  show "server_provider_ok S c' \<and> np_phase c' = ServerCryptoPhase.Running \<and>
      (case r of
         Success s \<Rightarrow> psh_candidate_id s = i \<and> psh_client_attempt_id s = a \<and>
           candidate_attempt c' = (candidate_attempt c)(i \<mapsto> a)
       | RemoteFailure f \<Rightarrow> (\<exists>reason. f = ServerCandidate i a reason) \<and>
           candidate_attempt c' = candidate_attempt c)"
    if "server_provider_ok S c" "np_phase c = ServerCryptoPhase.Running"
      "candidate_attempt c i = None \<or> candidate_attempt c i = Some a"
      "prepare_server_hello S c i a ch = (c', Ok r)"
    using that by (rule prepare_server_hello_ok)
  show "server_provider_ok S c' \<and>
      (case q of
         Success s \<Rightarrow> acf_candidate_id s = i \<and> acf_client_attempt_id s = a \<and>
           np_phase c' = ServerCryptoPhase.AuthenticatedPendingCommit \<and>
           provider_agreed c' = Some (i, a, acf_metadata s)
       | RemoteFailure f \<Rightarrow> (\<exists>reason. f = ServerCandidate i a reason) \<and>
           np_phase c' = ServerCryptoPhase.Running \<and> candidate_attempt c' = candidate_attempt c)"
    if "server_provider_ok S c" "np_phase c = ServerCryptoPhase.Running"
      "candidate_attempt c i = Some a" "authenticate_client_finish c i a cf = (c', Ok q)"
    using that by (rule authenticate_client_finish_ok)
  show "server_provider_ok S c' \<and> np_phase c' = ServerCryptoPhase.Established \<and>
      provider_agreed c' = Some (i, a, md) \<and>
      (case q of
         Success s \<Rightarrow> acf_candidate_id s = i \<and> acf_client_attempt_id s = a \<and> acf_metadata s = md
       | RemoteFailure f \<Rightarrow> \<exists>reason. f = ServerCandidate i a reason)"
    if "server_provider_ok S c" "np_phase c = ServerCryptoPhase.Established"
      "provider_agreed c = Some (i, a, md)" "authenticate_client_finish c i a cf = (c', Ok q)"
    using that
    by (auto simp: server_provider_ok_def authenticate_client_finish_def Let_def check_def candidate_attempt_def)
  show "\<exists>c'. commit_session c i a md = (c', Ok ()) \<and> server_provider_ok S c' \<and>
      np_phase c' = ServerCryptoPhase.Established \<and> provider_agreed c' = Some (i, a, md)"
    if "server_provider_ok S c" "np_phase c = ServerCryptoPhase.AuthenticatedPendingCommit"
      "provider_agreed c = Some (i, a, md)"
    using that by (rule commit_session_ok)
  show "\<exists>p. prepare_server_finish c i a (session_id md) = Ok p \<and> psf_candidate_id p = i \<and>
      psf_client_attempt_id p = a \<and> psf_session_id p = session_id md"
    if "np_phase c = ServerCryptoPhase.Established" "provider_agreed c = Some (i, a, md)"
    using that by (auto simp: provider_agreed_def prepare_server_finish_def
        split: option.splits CandidateContext.splits)
  show "\<exists>c'. provider_remove_candidate c i a = (c', Ok ServerCandidateRemoval.Removed) \<and>
      server_provider_ok S c' \<and> np_phase c' = ServerCryptoPhase.Running \<and>
      candidate_attempt c' = (candidate_attempt c)(i := None)"
    if "server_provider_ok S c" "np_phase c = ServerCryptoPhase.Running" "candidate_attempt c i = Some a"
    using that by (rule provider_remove_ok)
  show "provider_remove_candidate c i a = (c, Ok ServerCandidateRemoval.AlreadyAbsent)"
    if "np_phase c = ServerCryptoPhase.Running" "candidate_attempt c i = None"
    using that by (simp add: provider_remove_candidate_def check_ok candidate_attempt_None)
  show "np_phase c' \<noteq> ServerCryptoPhase.Closed"
    if "np_phase c \<noteq> ServerCryptoPhase.Closed" "prepare_server_hello S c i a ch = (c', Err e)"
    using that server_errors_keep_phase(1) by metis
  show "np_phase c' \<noteq> ServerCryptoPhase.Closed"
    if "np_phase c \<noteq> ServerCryptoPhase.Closed" "authenticate_client_finish c i a cf = (c', Err e)"
    using that server_errors_keep_phase(2) by metis
  show "server_provider_ok S c' \<and> np_phase c' = ServerCryptoPhase.Closed"
    if "server_provider_ok S c \<or> np_phase c \<noteq> ServerCryptoPhase.Closed"
      "provider_shutdown c = (c', cleanup)"
    using that by (rule provider_shutdown_ok)
qed

text \<open>The provider never changes the list of keys it allows.\<close>

lemma server_keeps_keys:
  "admit_context S c i a h k p = (c', r1) \<Longrightarrow> np_allowed_client_keys c' = np_allowed_client_keys c"
  "authenticate_client_finish c i a m = (c', r2) \<Longrightarrow> np_allowed_client_keys c' = np_allowed_client_keys c"
  "commit_session c i a md = (c', r3) \<Longrightarrow> np_allowed_client_keys c' = np_allowed_client_keys c"
  "provider_remove_candidate c i a = (c', r4) \<Longrightarrow> np_allowed_client_keys c' = np_allowed_client_keys c"
  by (auto simp: admit_context_def authenticate_client_finish_def commit_session_def
      provider_remove_candidate_def Let_def bind_st_def
      split: if_splits sum.splits prod.splits option.splits CandidateContext.splits)

lemma accept_hello_keeps_keys:
  assumes "accept_hello S c i a p = (c', r)"
  shows "np_allowed_client_keys c' = np_allowed_client_keys c"
  using assms
  by (auto simp: accept_hello_def Let_def dest!: server_keeps_keys(1)
      split: if_splits sum.splits prod.splits option.splits)

interpretation noise_server_keys: server_crypto_constant "server_provider S" np_allowed_client_keys
    for S :: "('r, 'h) Snow"
proof (unfold_locales, unfold server_provider_simps)
  fix c c' :: "'r ServerProvider" and i a ch r
  show "np_allowed_client_keys c' = np_allowed_client_keys c"
    if "prepare_server_hello S c i a ch = (c', r)"
    using that by (auto simp: prepare_server_hello_def bind_st_def dest: accept_hello_keeps_keys
        split: if_splits sum.splits option.splits CandidateContext.splits)
qed (auto simp: server_keeps_keys provider_shutdown_def Let_def split: if_splits)

end
