(* ===== verification/Handshake_Adapter.thy ===== *)
theory Handshake_Adapter
  imports Protocol_V2 Noise_Client Noise_Server
begin

text \<open>
  The adapter between datagrams and the coordinators (\<open>src/handshake/adapter.rs\<close>). Its functions
  return the coordinator and a result; \<open>None\<close> as result is a panic of the encoder, which is proved
  impossible. The coordinators are those of the Noise providers over the library \<open>S\<close>.
\<close>

type_synonym ('r, 'h) client_coordinator = "('r, 'h) ClientProvider ClientHandshakeCoordinator"
type_synonym 'r server_coordinator = "'r ServerProvider ServerHandshakeCoordinator"

datatype AdapterError =
  Decode V2DecodeError
| Direction DirectionError
| PayloadLength MessageType usize usize
| Coordinator FatalCoordinatorError
| Encode V2EncodeError

record ClientAdapterReport =
  car_datagrams :: "bytes list"
  car_events :: "ClientCoordinatorEvent list"

record ServerAdapterDatagram =
  sad_destination :: SocketAddr
  sad_datagram :: bytes

record ServerAdapterReport =
  sar_datagrams :: "ServerAdapterDatagram list"
  sar_events :: "ServerCoordinatorEvent list"

definition expected_payload_length :: "MessageType \<Rightarrow> usize" where
  "expected_payload_length kind = (case kind of
     MessageType.ClientHello \<Rightarrow> CLIENT_HELLO_PAYLOAD_LENGTH
   | MessageType.ServerHello \<Rightarrow> SERVER_HELLO_PAYLOAD_LENGTH
   | MessageType.ClientFinish \<Rightarrow> CLIENT_FINISH_PAYLOAD_LENGTH
   | MessageType.ServerFinish \<Rightarrow> SERVER_FINISH_PAYLOAD_LENGTH
   | MessageType.Data \<Rightarrow> 0)"

definition body_payload ::
  "DecodedV2HandshakeBody \<Rightarrow> MessageType \<Rightarrow> (NoiseIkPayload, AdapterError) result" where
  "body_payload body message_type =
     (let expected = expected_payload_length message_type; observed = length (opaque_payload body) in
      if observed \<noteq> expected then Err (PayloadLength message_type expected observed)
      else Ok (NoiseIkPayload (opaque_payload body)))"

text \<open>Encode into a fresh buffer of the largest datagram and truncate it.\<close>

definition encode_frame ::
  "V2HandshakeCodec \<Rightarrow> MessageType \<Rightarrow> ClientAttemptId \<Rightarrow> NoiseIkPayload
   \<Rightarrow> (bytes, AdapterError) result option" where
  "encode_frame codec kind attempt payload =
     (case encode codec kind attempt (payload_bytes payload)
             (replicate (vc_maximum_datagram_length codec) 0) of
        None \<Rightarrow> None
      | Some (Inl e, _) \<Rightarrow> Some (Err (Encode e))
      | Some (Inr n, output) \<Rightarrow> Some (Ok (take n output)))"

text \<open>The loop over the outbound messages, which stops at the first error.\<close>

fun encode_all ::
  "V2HandshakeCodec \<Rightarrow> (MessageType \<times> ClientAttemptId \<times> NoiseIkPayload) list
   \<Rightarrow> (bytes list, AdapterError) result option" where
  "encode_all codec [] = Some (Ok [])"
| "encode_all codec ((kind, attempt, payload) # rest) =
     (case encode_frame codec kind attempt payload of
        None \<Rightarrow> None
      | Some (Inl e) \<Rightarrow> Some (Err e)
      | Some (Inr datagram) \<Rightarrow> map_option (map_sum id ((#) datagram)) (encode_all codec rest))"

definition client_message ::
  "(NoiseIkPayload, NoiseIkPayload) ClientHandshakeMessage
   \<Rightarrow> MessageType \<times> ClientAttemptId \<times> NoiseIkPayload" where
  "client_message message = (case message of
     ClientHandshakeMessage.ClientHello v \<Rightarrow>
       (MessageType.ClientHello, clh_client_attempt_id v, clh_payload v)
   | ClientHandshakeMessage.ClientFinish v \<Rightarrow>
       (MessageType.ClientFinish, clf_client_attempt_id v, clf_payload v))"

definition server_message ::
  "(NoiseIkPayload, NoiseIkPayload) ServerHandshakeMessage
   \<Rightarrow> MessageType \<times> ClientAttemptId \<times> NoiseIkPayload" where
  "server_message message = (case message of
     ServerHandshakeMessage.ServerHello v \<Rightarrow>
       (MessageType.ServerHello, svh_client_attempt_id v, svh_payload v)
   | ServerHandshakeMessage.ServerFinish v \<Rightarrow>
       (MessageType.ServerFinish, svf_client_attempt_id v, svf_payload v))"

text \<open>Turning a coordinator's result into datagrams.\<close>

definition client_report ::
  "V2HandshakeCodec \<Rightarrow> ((NoiseIkPayload, NoiseIkPayload) ClientCoordinatorReport, FatalCoordinatorError) result
   \<Rightarrow> (ClientAdapterReport, AdapterError) result option" where
  "client_report codec result = (case result of
     Inl e \<Rightarrow> Some (Err (Coordinator e))
   | Inr report \<Rightarrow>
       map_option (map_sum id (\<lambda>datagrams. \<lparr>car_datagrams = datagrams, car_events = cr_events report\<rparr>))
         (encode_all codec (map client_message (cr_outbound report))))"

definition server_report ::
  "V2HandshakeCodec \<Rightarrow> ((NoiseIkPayload, NoiseIkPayload) ServerCoordinatorReport, FatalCoordinatorError) result
   \<Rightarrow> (ServerAdapterReport, AdapterError) result option" where
  "server_report codec result = (case result of
     Inl e \<Rightarrow> Some (Err (Coordinator e))
   | Inr report \<Rightarrow>
       map_option (map_sum id (\<lambda>datagrams.
           \<lparr>sar_datagrams = map2 (\<lambda>out datagram. \<lparr>sad_destination = so_destination out,
              sad_datagram = datagram\<rparr>) (sc_outbound report) datagrams,
            sar_events = sc_events report\<rparr>))
         (encode_all codec (map (server_message \<circ> so_message) (sc_outbound report))))"

definition start_client_frame ::
  "('r, 'h) Snow \<Rightarrow> ('r, 'h) client_coordinator \<Rightarrow> V2HandshakeCodec \<Rightarrow> instant
   \<Rightarrow> ('r, 'h) client_coordinator \<times> (ClientAdapterReport, AdapterError) result option" where
  "start_client_frame S coordinator codec now =
     (let (coordinator, result) = Handshake_Client.start (client_provider S) coordinator now
      in (coordinator, client_report codec result))"

definition receive_client_frame ::
  "('r, 'h) Snow \<Rightarrow> ('r, 'h) client_coordinator \<Rightarrow> V2HandshakeCodec \<Rightarrow> SocketAddr \<Rightarrow> bytes \<Rightarrow> instant
   \<Rightarrow> ('r, 'h) client_coordinator \<times> (ClientAdapterReport, AdapterError) result option" where
  "receive_client_frame S coordinator codec source datagram now =
     (case decode codec datagram of
        Inl e \<Rightarrow> (coordinator, Some (Err (Decode e)))
      | Inr frame \<Rightarrow>
        (case classify_for_client frame of
           Inl e \<Rightarrow> (coordinator, Some (Err (Direction e)))
         | Inr (ClientInboundFrame.ServerHello body) \<Rightarrow>
           (case body_payload body MessageType.ServerHello of
              Inl e \<Rightarrow> (coordinator, Some (Err e))
            | Inr payload \<Rightarrow>
              let (coordinator, result) = receive_server_hello (client_provider S) coordinator source
                    \<lparr>svh_client_attempt_id = client_attempt_id body, svh_payload = payload\<rparr> now
              in (coordinator, client_report codec result))
         | Inr (ClientInboundFrame.ServerFinish body) \<Rightarrow>
           (case body_payload body MessageType.ServerFinish of
              Inl e \<Rightarrow> (coordinator, Some (Err e))
            | Inr payload \<Rightarrow>
              let (coordinator, result) = receive_server_finish (client_provider S) coordinator source
                    \<lparr>svf_client_attempt_id = client_attempt_id body, svf_payload = payload\<rparr> now
              in (coordinator, client_report codec result))))"

definition receive_server_frame ::
  "('r, 'h) Snow \<Rightarrow> 'r server_coordinator \<Rightarrow> V2HandshakeCodec \<Rightarrow> SocketAddr \<Rightarrow> bytes \<Rightarrow> instant
   \<Rightarrow> 'r server_coordinator \<times> (ServerAdapterReport, AdapterError) result option" where
  "receive_server_frame S coordinator codec source datagram now =
     (case decode codec datagram of
        Inl e \<Rightarrow> (coordinator, Some (Err (Decode e)))
      | Inr frame \<Rightarrow>
        (case classify_for_server frame of
           Inl e \<Rightarrow> (coordinator, Some (Err (Direction e)))
         | Inr (ServerInboundFrame.ClientHello body) \<Rightarrow>
           (case body_payload body MessageType.ClientHello of
              Inl e \<Rightarrow> (coordinator, Some (Err e))
            | Inr payload \<Rightarrow>
              let (coordinator, result) = receive_client_hello (server_provider S) coordinator source
                    \<lparr>clh_client_attempt_id = client_attempt_id body, clh_payload = payload\<rparr> now
              in (coordinator, server_report codec result))
         | Inr (ServerInboundFrame.ClientFinish body) \<Rightarrow>
           (case body_payload body MessageType.ClientFinish of
              Inl e \<Rightarrow> (coordinator, Some (Err e))
            | Inr payload \<Rightarrow>
              let (coordinator, result) = receive_client_finish (server_provider S) coordinator source
                    \<lparr>clf_client_attempt_id = client_attempt_id body, clf_payload = payload\<rparr> now
              in (coordinator, server_report codec result))))"

text \<open>The errors both runtimes drop without ending the handshake (\<open>src/noise_runtime.rs\<close>).\<close>

definition is_remote_frame_rejection :: "AdapterError \<Rightarrow> bool" where
  "is_remote_frame_rejection e \<longleftrightarrow> (case e of
     Decode _ \<Rightarrow> True
   | Direction _ \<Rightarrow> True
   | PayloadLength _ _ _ \<Rightarrow> True
   | _ \<Rightarrow> False)"

section \<open>The encoder never panics\<close>

lemma codec_datagram_length:
  "V2HandshakeCodec_new limit = Ok codec \<Longrightarrow>
     vc_maximum_opaque_payload codec = limit \<and> vc_maximum_datagram_length codec = 18 + limit"
  by (auto simp: V2HandshakeCodec_new_def v2_lengths and_then_Ok split: if_splits)

lemma encode_frame_ok:
  assumes "V2HandshakeCodec_new limit = Ok codec" and "v2_message_ok codec k a (payload_bytes p)"
  shows "encode_frame codec k a p = Some (Ok (v2_wire k a (payload_bytes p)))"
  using assms(2) codec_datagram_length [OF assms(1)] encode_ok [OF assms(2)]
  by (simp add: encode_frame_def v2_message_ok_def)

lemma encode_frame_total:
  assumes "V2HandshakeCodec_new limit = Ok codec"
  shows "encode_frame codec k a p \<noteq> None"
proof (cases "v2_message_ok codec k a (payload_bytes p)")
  case True
  then show ?thesis by (simp add: encode_frame_ok [OF assms])
next
  case False
  let ?out = "replicate (vc_maximum_datagram_length codec) 0"
  have "\<exists>e. encode codec k a (payload_bytes p) ?out = Some (Err e, ?out)"
  proof (cases "encoded_lengths codec (length (payload_bytes p))")
    case (Inr r)
    then show ?thesis
      using False by (cases r) (auto simp: encode_def v2_message_ok_def encoded_lengths_iff)
  qed (auto simp: encode_def)
  then show ?thesis by (auto simp: encode_frame_def)
qed

lemma encode_all_total:
  assumes "V2HandshakeCodec_new limit = Ok codec"
  shows "encode_all codec ms \<noteq> None"
  using encode_frame_total [OF assms]
  by (induction ms) (auto split: option.split sum.split)

lemma report_total:
  assumes "V2HandshakeCodec_new limit = Ok codec"
  shows "client_report codec r \<noteq> None" and "server_report codec q \<noteq> None"
  using encode_all_total [OF assms]
  by (simp_all add: client_report_def server_report_def split: sum.split)

section \<open>What reaches a coordinator\<close>

definition framed :: "MessageType set \<Rightarrow> bytes \<Rightarrow> bool" where
  "framed kinds d \<longleftrightarrow>
     (\<exists>k \<in> kinds. \<exists>a p. d = v2_wire k a p \<and> length p = expected_payload_length k)"

lemma receive_server_frame_cases:
  assumes "receive_server_frame S k codec source d now = (k', r)"
  shows "k' = k \<and> (\<exists>e. r = Some (Err e) \<and> is_remote_frame_rejection e) \<or>
    framed {MessageType.ClientHello, MessageType.ClientFinish} d \<and> (\<exists>q. r = server_report codec q)"
proof (cases "decode codec d")
  case (Inr frame)
  note wire = v2_decode_okD [OF this, THEN conjunct2]
  show ?thesis
    using assms [unfolded receive_server_frame_def Inr] wire
    by (cases frame)
      (auto simp: classify_for_server_def body_payload_def Let_def framed_def
        is_remote_frame_rejection_def frame_message_type_def frame_body_def
        split: if_splits prod.splits)
qed (use assms in \<open>auto simp: receive_server_frame_def is_remote_frame_rejection_def\<close>)

lemma receive_client_frame_cases:
  assumes "receive_client_frame S k codec source d now = (k', r)"
  shows "k' = k \<and> (\<exists>e. r = Some (Err e) \<and> is_remote_frame_rejection e) \<or>
    framed {MessageType.ServerHello, MessageType.ServerFinish} d \<and> (\<exists>q. r = client_report codec q)"
proof (cases "decode codec d")
  case (Inr frame)
  note wire = v2_decode_okD [OF this, THEN conjunct2]
  show ?thesis
    using assms [unfolded receive_client_frame_def Inr] wire
    by (cases frame)
      (auto simp: classify_for_client_def body_payload_def Let_def framed_def
        is_remote_frame_rejection_def frame_message_type_def frame_body_def
        split: if_splits prod.splits)
qed (use assms in \<open>auto simp: receive_client_frame_def is_remote_frame_rejection_def\<close>)

section \<open>Two concrete endpoints\<close>

text \<open>A client and a server over the clear instance of the Noise library, for evaluation.\<close>

definition codec112 :: V2HandshakeCodec where
  "codec112 = \<lparr>vc_maximum_opaque_payload = 112, vc_maximum_datagram_length = 130,
     vc_receive_buffer_len = 131\<rparr>"

definition server_address :: SocketAddr where "server_address = SocketV4 0x0A000001 7000"
definition client_address :: SocketAddr where "client_address = SocketV4 0x0A000002 7001"

definition policy10 :: SessionPolicy where
  "policy10 = \<lparr>sp_maximum_pending = 1, sp_handshake_timeout = 10, sp_idle_timeout = 300\<rparr>"

definition fresh_server :: "nat server_coordinator" where
  "fresh_server = \<lparr>shc_policy = ServerHandshake_new policy10,
     shc_crypto = ServerProvider_new (replicate 32 2) [replicate 32 1] 0,
     shc_lifecycle = CoordinatorLifecycle.Running\<rparr>"

definition fresh_client :: "(nat, clear_state) client_coordinator" where
  "fresh_client = \<lparr>chc_policy = \<lparr>ch_server_endpoint = server_address, ch_handshake_timeout = 10,
       ch_state = ClientHandshakeState.Idle, ch_next_attempt_id = 1\<rparr>,
     chc_crypto = ClientProvider_new (replicate 32 1) (replicate 32 2) 0,
     chc_lifecycle = CoordinatorLifecycle.Running\<rparr>"

lemma codec112_new: "V2HandshakeCodec_new 112 = Ok codec112"
  by (simp add: V2HandshakeCodec_new_def codec112_def v2_lengths and_then_Ok)

lemma fresh_endpoints_built:
  "Handshake_Server.build (server_provider S) (ServerHandshake_new policy10)
     (ServerProvider_new (replicate 32 2) [replicate 32 1] 0) = Ok fresh_server"
  "Handshake_Client.build (client_provider clear_snow) (chc_policy fresh_client) (chc_crypto fresh_client) =
     Ok fresh_client"
  by (simp_all add: Handshake_Server.build_def Handshake_Client.build_def fresh_server_def
      fresh_client_def ServerHandshake_new_def state_name_def is_fresh_def non_secret_status_def
      ServerProvider_new_def ClientProvider_new_def client_state_name_def name_def)

section \<open>Properties\<close>

text \<open>
  C7. Whatever datagram arrives, the adapter never panics. The server's coordinator is reached only by
  a well-formed client frame, hello or finish, with exactly the payload length of its kind, and the
  client's only by such a server frame; every other datagram leaves the coordinator as it was and is
  reported as one of the rejections that the runtimes drop.
\<close>

theorem adapter_admission:
  assumes "V2HandshakeCodec_new limit = Ok codec"
  shows "(\<exists>k' r. receive_server_frame S k codec source d now = (k', Some r) \<and>
      (framed {MessageType.ClientHello, MessageType.ClientFinish} d \<or>
       k' = k \<and> (\<exists>e. r = Err e \<and> is_remote_frame_rejection e))) \<and>
    (\<exists>c' q. receive_client_frame S c codec source d now = (c', Some q) \<and>
      (framed {MessageType.ServerHello, MessageType.ServerFinish} d \<or>
       c' = c \<and> (\<exists>e. q = Err e \<and> is_remote_frame_rejection e)))"
proof -
  obtain k' r where k: "receive_server_frame S k codec source d now = (k', r)" by fastforce
  obtain c' q where c: "receive_client_frame S c codec source d now = (c', q)" by fastforce
  show ?thesis
    using receive_server_frame_cases [OF k] receive_client_frame_cases [OF c] report_total [OF assms]
    unfolding k c by fastforce
qed

theorem adapter_admission_witness:
  "(\<exists>k' r. receive_server_frame clear_snow fresh_server codec112 client_address [0] 5 = (k', Some r) \<and>
      (framed {MessageType.ClientHello, MessageType.ClientFinish} [0] \<or>
       k' = fresh_server \<and> (\<exists>e. r = Err e \<and> is_remote_frame_rejection e))) \<and>
   (\<exists>c' q. receive_client_frame clear_snow fresh_client codec112 client_address [0] 5 = (c', Some q) \<and>
      (framed {MessageType.ServerHello, MessageType.ServerFinish} [0] \<or>
       c' = fresh_client \<and> (\<exists>e. q = Err e \<and> is_remote_frame_rejection e)))"
  by (rule adapter_admission [OF codec112_new])

end
