(* ===== verification/Noise_Handshake.thy ===== *)
theory Noise_Handshake
  imports Handshake_Adapter
begin

text \<open>
  The handshake as a whole: policy, Noise provider, coordinator and adapter together. In every run
  the coordinators stay consistent, a session exists only with the authenticated peer, and two
  honest endpoints that exchange their datagrams in time end with the same session.
\<close>

section \<open>Runs of the two coordinators\<close>

lemma new_client_ok: "client_provider_ok S (ClientProvider_new sk pk r)"
  by (simp add: client_provider_ok_def ClientProvider_new_def)

lemma new_server_ok:
  "server_provider_ok S (ServerProvider_new sk keys r)"
  "candidate_attempt (ServerProvider_new sk keys r) = Map.empty"
  by (simp_all add: server_provider_ok_def contexts_ok_def ServerProvider_new_def
      candidate_attempt_def fun_eq_iff)

lemma client_run_synced:
  assumes "Handshake_Client.build (client_provider S) policy (ClientProvider_new sk pk r) = Ok k0"
    and "client_coordinated (client_provider S) k0 k"
  shows "noise_client.synced S k"
  using assms by (blast intro: noise_client.coordinated_synced noise_client.build_synced new_client_ok)

lemma server_run_synced:
  fixes S :: "('r, 'h) Snow"
  assumes "Handshake_Server.build (server_provider S) (ServerHandshake_new policy)
      (ServerProvider_new sk keys r) = Ok k0"
    and "server_coordinated (server_provider S) k0 k"
  shows "noise_server.synced TYPE('h) S k"
  using assms by (blast intro: noise_server.coordinated_synced noise_server.build_synced new_server_ok)

lemma build_crypto:
  "Handshake_Client.build C policy crypto = Ok k \<Longrightarrow> chc_crypto k = crypto"
  "Handshake_Server.build D policy' crypto' = Ok k' \<Longrightarrow> shc_crypto k' = crypto'"
  by (auto simp: Handshake_Client.build_def Handshake_Server.build_def split: if_splits)

text \<open>What a provider gives away at the end of a run is authentic.\<close>

lemma client_transport_authentic:
  assumes "Handshake_Client.build (client_provider S) policy (ClientProvider_new sk pk r) = Ok k0"
    and "client_coordinated (client_provider S) k0 k"
    and "Noise_Client.into_established_transport (chc_crypto k) = Some (transport, md)"
  shows "\<exists>a. authentic_server S pk a transport md"
proof -
  have "cp_pinned_server_static_public (chc_crypto k) = pk"
    using noise_client_pinned.coordinated_keeps [OF assms(2)] build_crypto(1) [OF assms(1)]
    by (simp add: ClientProvider_new_def)
  moreover have "client_provider_ok S (chc_crypto k)"
    using client_run_synced [OF assms(1,2)] by (simp add: noise_client.synced_def)
  ultimately show ?thesis
    using assms(3) by (auto simp: Noise_Client.into_established_transport_def client_provider_ok_def
        split: option.splits Context.splits if_splits)
qed

lemma server_transport_authentic:
  assumes "Handshake_Server.build (server_provider S) (ServerHandshake_new policy)
      (ServerProvider_new sk keys r) = Ok k0"
    and "server_coordinated (server_provider S) k0 k"
    and "Noise_Server.into_established_transport (shc_crypto k) = Some (transport, md)"
  shows "\<exists>a. authentic_client S keys a transport md"
proof -
  have "np_allowed_client_keys (shc_crypto k) = keys"
    using noise_server_keys.coordinated_keeps [OF assms(2)] build_crypto(2) [OF assms(1)]
    by (simp add: ServerProvider_new_def)
  moreover have "server_provider_ok S (shc_crypto k)"
    using server_run_synced [OF assms(1,2)] by (simp add: noise_server.synced_def)
  ultimately show ?thesis
    using assms(3) by (auto simp: Noise_Server.into_established_transport_def server_provider_ok_def
        split: option.splits CandidateContext.splits if_splits)
qed

text \<open>
  C6. In every run of the client's coordinator over the Noise provider, whatever the network delivers
  and whatever the Noise library answers, the policy and the provider are in corresponding phases and
  the coordinator is closed exactly when its policy is. No internal check of the coordinator ever
  fails: an error comes from the policy or the provider, and it leaves the coordinator closed.
\<close>

theorem client_coordinator_sound:
  assumes "Handshake_Client.build (client_provider S) policy (ClientProvider_new sk pk r) = Ok k0"
    and "client_coordinated (client_provider S) k0 k"
  shows "cp_phase (chc_crypto k) = expected_crypto (client_state_name (chc_policy k)) \<and>
    (chc_lifecycle k = CoordinatorLifecycle.Closed \<longleftrightarrow>
       client_state_name (chc_policy k) = ClientStateName.Closed) \<and>
    (\<forall>call k' e. client_call (client_provider S) call k = (k', Err e) \<longrightarrow>
       \<not> invariant_failure e \<and> chc_lifecycle k' = CoordinatorLifecycle.Closed \<and>
       cp_phase (chc_crypto k') = ClientCryptoPhase.Closed)"
proof -
  note ok = client_run_synced [OF assms]
  have closed: "\<not> invariant_failure e \<and> chc_lifecycle k' = CoordinatorLifecycle.Closed \<and>
      cp_phase (chc_crypto k') = ClientCryptoPhase.Closed"
    if "client_call (client_provider S) call k = (k', Err e)" for call k' e
    using noise_client.client_call_good [OF ok, of call]
    by (auto simp: that noise_client.good_def noise_client.synced_def client_state_name_def name_def
        expected_crypto_def)
  have "chc_lifecycle k = CoordinatorLifecycle.Closed \<longleftrightarrow>
      client_state_name (chc_policy k) = ClientStateName.Closed"
    using ok by (auto simp: noise_client.synced_def client_state_name_def name_def
        split: ClientHandshakeState.splits)
  then show ?thesis using ok closed by (simp add: noise_client.synced_def)
qed

theorem client_coordinator_sound_witness:
  "cp_phase (chc_crypto fresh_client) = expected_crypto (client_state_name (chc_policy fresh_client)) \<and>
    (chc_lifecycle fresh_client = CoordinatorLifecycle.Closed \<longleftrightarrow>
       client_state_name (chc_policy fresh_client) = ClientStateName.Closed)"
proof -
  have "Handshake_Client.build (client_provider clear_snow) (chc_policy fresh_client)
      (ClientProvider_new (replicate 32 1) (replicate 32 2) 0) = Ok fresh_client"
    using fresh_endpoints_built(2) by (simp add: fresh_client_def)
  from client_coordinator_sound [OF this client_coordinated.base] show ?thesis by blast
qed

text \<open>
  C2. A client that is established holds a transport for exactly the session its policy reports, and
  that session is authentic: the transport stems from a handshake state whose remote static key is
  the pinned server key and which decrypted the server's hello record for this attempt, the session
  identifier is that state's handshake hash, and the transport decrypted the server's finish record.
\<close>

theorem client_session_authentic:
  assumes "Handshake_Client.build (client_provider S) policy (ClientProvider_new sk pk r) = Ok k0"
    and "client_coordinated (client_provider S) k0 k"
    and "ch_state (chc_policy k) = ClientHandshakeState.Established md t"
  shows "\<exists>transport a. Noise_Client.into_established_transport (chc_crypto k) = Some (transport, md) \<and>
    authentic_server S pk a transport md"
proof -
  have ok: "client_provider_ok S (chc_crypto k)" "cp_phase (chc_crypto k) = ClientCryptoPhase.Established"
    "Noise_Client.provider_agreed (chc_crypto k) = Some md"
    using client_run_synced [OF assms(1,2)] assms(3)
    by (simp_all add: noise_client.synced_def client_state_name_def name_def expected_crypto_def)
  have "cp_pinned_server_static_public (chc_crypto k) = pk"
    using noise_client_pinned.coordinated_keeps [OF assms(2)] build_crypto(1) [OF assms(1)]
    by (simp add: ClientProvider_new_def)
  then show ?thesis
    using ok
    by (auto simp: Noise_Client.into_established_transport_def client_provider_ok_def
        Noise_Client.provider_agreed_def split: option.splits Context.splits)
qed

text \<open>
  C5. In every run of the server's coordinator over the Noise provider, whatever the network delivers
  and whatever the Noise library answers, the policy and the provider agree: phases correspond, the
  provider keeps a context for exactly the pending candidates of the policy, under the same attempts,
  and the coordinator is closed exactly when its policy is. Errors are local failures only, of the
  provider or of exhausted candidate identifiers or clocks, and leave the coordinator closed.
\<close>

theorem server_coordinator_sound:
  assumes "Handshake_Server.build (server_provider S) (ServerHandshake_new policy)
      (ServerProvider_new sk keys r) = Ok k0"
    and "server_coordinated (server_provider S) k0 k"
  shows "np_phase (shc_crypto k) = expected_phase (state_name (shc_policy k)) \<and>
    (state_name (shc_policy k) = ServerStateName.Listening \<longrightarrow>
       candidate_attempt (shc_crypto k) = attempts (shc_policy k)) \<and>
    (shc_lifecycle k = CoordinatorLifecycle.Closed \<longleftrightarrow>
       state_name (shc_policy k) = ServerStateName.Closed) \<and>
    (\<forall>call k' e. server_call (server_provider S) call k = (k', Err e) \<longrightarrow>
       local_failure e \<and> shc_lifecycle k' = CoordinatorLifecycle.Closed \<and>
       np_phase (shc_crypto k') = ServerCryptoPhase.Closed)"
proof -
  note ok = server_run_synced [OF assms]
  have closed: "local_failure e \<and> shc_lifecycle k' = CoordinatorLifecycle.Closed \<and>
      np_phase (shc_crypto k') = ServerCryptoPhase.Closed"
    if "server_call (server_provider S) call k = (k', Err e)" for call k' e
    using noise_server.server_call_good [OF ok, of call]
    by (auto simp: that noise_server.good_def noise_server.synced_def state_name_def expected_phase_def)
  have "state_name (shc_policy k) = ServerStateName.Closed \<longleftrightarrow>
        sh_state (shc_policy k) = ServerHandshakeState.Closed"
    "state_name (shc_policy k) = ServerStateName.Listening \<longleftrightarrow>
        sh_state (shc_policy k) = ServerHandshakeState.Listening"
    by (simp_all add: state_name_def split: ServerHandshakeState.splits)
  then show ?thesis using ok closed by (simp add: noise_server.synced_def)
qed

theorem server_coordinator_sound_witness:
  "np_phase (shc_crypto fresh_server) = expected_phase (state_name (shc_policy fresh_server)) \<and>
   candidate_attempt (shc_crypto fresh_server) = attempts (shc_policy fresh_server)"
  using server_coordinator_sound [OF fresh_endpoints_built(1) server_coordinated.base, of clear_snow]
  by (simp add: fresh_server_def state_name_def ServerHandshake_new_def)

text \<open>
  C1. A server that is established holds a transport for exactly the session its policy reports, and
  that session is authentic: the transport stems from a handshake state that decrypted the client's
  hello record for this attempt and whose remote static key is one of the configured client keys,
  the session identifier is that handshake's hash, and the transport decrypted the client's finish
  record.
\<close>

theorem server_session_authentic:
  assumes "Handshake_Server.build (server_provider S) (ServerHandshake_new policy)
      (ServerProvider_new sk keys r) = Ok k0"
    and "server_coordinated (server_provider S) k0 k"
    and "sh_state (shc_policy k) = ServerHandshakeState.Established session"
  shows "\<exists>transport. Noise_Server.into_established_transport (shc_crypto k) =
      Some (transport, ess_metadata session) \<and>
    authentic_client S keys (ess_client_attempt_id session) transport (ess_metadata session)"
proof -
  have ok: "server_provider_ok S (shc_crypto k)" "np_phase (shc_crypto k) = ServerCryptoPhase.Established"
    "Noise_Server.provider_agreed (shc_crypto k) = Some (ess_completed_candidate_id session,
       ess_client_attempt_id session, ess_metadata session)"
    using server_run_synced [OF assms(1,2)] assms(3)
    by (simp_all add: noise_server.synced_def state_name_def expected_phase_def)
  have "np_allowed_client_keys (shc_crypto k) = keys"
    using noise_server_keys.coordinated_keeps [OF assms(2)] build_crypto(2) [OF assms(1)]
    by (simp add: ServerProvider_new_def)
  then show ?thesis
    using ok
    by (auto simp: Noise_Server.into_established_transport_def server_provider_ok_def
        Noise_Server.provider_agreed_def)
qed

section \<open>An honest exchange\<close>

lemma noise_message_ok:
  assumes "V2HandshakeCodec_new 112 = Ok codec" and "attempt_value a \<noteq> 0" and "k \<noteq> MessageType.Data"
    and "length p = expected_payload_length k"
  shows "v2_message_ok codec k a p"
proof -
  have "p \<noteq> []" "length p \<le> 112"
    using assms(3,4) by (cases k; cases p; simp add: expected_payload_length_def noise_lengths)+
  then show ?thesis using assms(2,3) codec_datagram_length [OF assms(1)] by (simp add: v2_message_ok_def)
qed

lemma receive_server_framed:
  "v2_message_ok codec MessageType.ClientHello a p \<Longrightarrow> length p = expected_payload_length MessageType.ClientHello \<Longrightarrow>
     receive_server_frame S s codec source (v2_wire MessageType.ClientHello a p) now =
       (let (s', r) = receive_client_hello (server_provider S) s source
          \<lparr>clh_client_attempt_id = a, clh_payload = NoiseIkPayload p\<rparr> now in (s', server_report codec r))"
  "v2_message_ok codec MessageType.ClientFinish a p \<Longrightarrow> length p = expected_payload_length MessageType.ClientFinish \<Longrightarrow>
     receive_server_frame S s codec source (v2_wire MessageType.ClientFinish a p) now =
       (let (s', r) = receive_client_finish (server_provider S) s source
          \<lparr>clf_client_attempt_id = a, clf_payload = NoiseIkPayload p\<rparr> now in (s', server_report codec r))"
  by (auto simp: receive_server_frame_def classify_for_server_def body_payload_def dest!: decode_v2_wire)

lemma receive_client_framed:
  "v2_message_ok codec MessageType.ServerHello a p \<Longrightarrow> length p = expected_payload_length MessageType.ServerHello \<Longrightarrow>
     receive_client_frame S c codec source (v2_wire MessageType.ServerHello a p) now =
       (let (c', r) = receive_server_hello (client_provider S) c source
          \<lparr>svh_client_attempt_id = a, svh_payload = NoiseIkPayload p\<rparr> now in (c', client_report codec r))"
  "v2_message_ok codec MessageType.ServerFinish a p \<Longrightarrow> length p = expected_payload_length MessageType.ServerFinish \<Longrightarrow>
     receive_client_frame S c codec source (v2_wire MessageType.ServerFinish a p) now =
       (let (c', r) = receive_server_finish (client_provider S) c source
          \<lparr>svf_client_attempt_id = a, svf_payload = NoiseIkPayload p\<rparr> now in (c', client_report codec r))"
  by (auto simp: receive_client_frame_def classify_for_client_def body_payload_def dest!: decode_v2_wire)

text \<open>The reports an honest exchange produces.\<close>

lemma report_wire:
  assumes "V2HandshakeCodec_new 112 = Ok codec" and "v2_message_ok codec k a p"
  shows "client_message m = (k, a, NoiseIkPayload p) \<Longrightarrow>
      client_report codec (Ok \<lparr>cr_outbound = [m], cr_events = ev\<rparr>) =
        Some (Ok \<lparr>car_datagrams = [v2_wire k a p], car_events = ev\<rparr>)"
    and "server_message m' = (k, a, NoiseIkPayload p) \<Longrightarrow>
      server_report codec (Ok \<lparr>sc_outbound = [\<lparr>so_destination = dst, so_message = m'\<rparr>], sc_events = ev'\<rparr>) =
        Some (Ok \<lparr>sar_datagrams = [\<lparr>sad_destination = dst, sad_datagram = v2_wire k a p\<rparr>], sar_events = ev'\<rparr>)"
  using encode_frame_ok [OF assms(1), of k a "NoiseIkPayload p"] assms(2)
  by (simp_all add: client_report_def server_report_def)

subsection \<open>The client\<close>

abbreviation first_attempt :: ClientAttemptId where "first_attempt \<equiv> ClientAttemptId 1"

lemma client_starts:
  assumes pol: "ch_state (chc_policy k) = ClientHandshakeState.Idle" "ch_next_attempt_id (chc_policy k) = 1"
    "t + ch_handshake_timeout (chc_policy k) \<le> instant_max"
    and cr: "chc_crypto k = ClientProvider_new sk pk r"
    and pro: "build_prologue first_attempt = Ok pro"
    and lib: "build_initiator S NOISE_PROTOCOL_NAME sk pk pro r = (r', Some h)"
      "hs_write_message S h (control_record MessageType.ClientHello first_attempt) 112 = (h', Some m)"
      "length m = 112"
  shows "Handshake_Client.start (client_provider S) k t =
    (k\<lparr>chc_policy := (chc_policy k)\<lparr>ch_next_attempt_id := 2,
         ch_state := ClientHandshakeState.AwaitingServerHello first_attempt t (t + ch_handshake_timeout (chc_policy k))\<rparr>,
       chc_crypto := \<lparr>cp_phase = ClientCryptoPhase.AwaitingServerHello, cp_local_private_key = sk,
         cp_pinned_server_static_public = pk, cp_context = Some (Hello first_attempt h' m), cp_entropy = r'\<rparr>\<rparr>,
     Ok \<lparr>cr_outbound = [ClientHandshakeMessage.ClientHello
        \<lparr>clh_client_attempt_id = first_attempt, clh_payload = NoiseIkPayload m\<rparr>], cr_events = []\<rparr>)"
proof -
  have pol': "Session_Client.start (chc_policy k) t = ((chc_policy k)\<lparr>ch_next_attempt_id := 2,
         ch_state := ClientHandshakeState.AwaitingServerHello first_attempt t (t + ch_handshake_timeout (chc_policy k))\<rparr>,
       Ok (SendClientHello first_attempt))"
    using pol by (simp add: Session_Client.start_def instant_checked_add_def reserve_attempt_id_def
        u64_checked_add_def)
  have cr': "start_attempt S (ClientProvider_new sk pk r) first_attempt =
      (\<lparr>cp_phase = ClientCryptoPhase.AwaitingServerHello, cp_local_private_key = sk,
         cp_pinned_server_static_public = pk, cp_context = Some (Hello first_attempt h' m), cp_entropy = r'\<rparr>,
       Ok \<lparr>pch_attempt_id = first_attempt, pch_payload = NoiseIkPayload m\<rparr>)"
    using lib pro by (simp add: start_attempt_def ClientProvider_new_def encode_control_eq noise_lengths)
  show ?thesis
    by (simp add: Handshake_Client.start_def pol' cr cr' Let_def verified_def verify_client_phases_def
        client_state_name_def name_def expected_crypto_def)
qed

lemma client_answers_hello:
  assumes pol: "ch_state (chc_policy k) = ClientHandshakeState.AwaitingServerHello a t0 d" "t < d"
    "t + ch_handshake_timeout (chc_policy k) \<le> instant_max"
    and cr: "chc_crypto k = \<lparr>cp_phase = ClientCryptoPhase.AwaitingServerHello, cp_local_private_key = sk,
         cp_pinned_server_static_public = pk, cp_context = Some (Hello a h m0), cp_entropy = r\<rparr>"
    and a: "attempt_value a \<noteq> 0"
    and lib: "hs_read_message S h m 64 = (h', Some (control_record MessageType.ServerHello a))" "length m = 64"
      "get_remote_static S h' = Some pk" "length (get_handshake_hash S h') = 32"
      "into_stateless_transport_mode S h' = Some tr"
      "write_message tr 0 (control_record MessageType.ClientFinish a) 32 = Some out" "length out = 32"
  shows "receive_server_hello (client_provider S) k (ch_server_endpoint (chc_policy k))
      \<lparr>svh_client_attempt_id = a, svh_payload = NoiseIkPayload m\<rparr> t =
    (k\<lparr>chc_policy := (chc_policy k)\<lparr>ch_state :=
         ClientHandshakeState.AwaitingServerFinish a t0 t (t + ch_handshake_timeout (chc_policy k))\<rparr>,
       chc_crypto := \<lparr>cp_phase = ClientCryptoPhase.AwaitingServerFinish, cp_local_private_key = sk,
         cp_pinned_server_static_public = pk,
         cp_context = Some (Finish a tr (get_handshake_hash S h') (identity pk) out), cp_entropy = r\<rparr>\<rparr>,
     Ok \<lparr>cr_outbound = [ClientHandshakeMessage.ClientFinish
        \<lparr>clf_client_attempt_id = a, clf_payload = NoiseIkPayload out\<rparr>], cr_events = []\<rparr>)"
proof -
  let ?c = "\<lparr>cp_phase = ClientCryptoPhase.AwaitingServerFinish, cp_local_private_key = sk,
         cp_pinned_server_static_public = pk,
         cp_context = Some (Finish a tr (get_handshake_hash S h') (identity pk) out), cp_entropy = r\<rparr>"
  have pre: "precheck (chc_policy k) (ch_server_endpoint (chc_policy k)) a ClientPreAuthKind.ServerHello t =
      (chc_policy k, ClientPreAuthDecision.Permit a)"
    using pol(1,2) by (simp add: precheck_def inbound_kind_def)
  have au: "authenticate_server_hello S (chc_crypto k) a (NoiseIkPayload m) = (?c, Ok (Success \<lparr>ash_attempt_id = a\<rparr>))"
    using lib a by (simp add: authenticate_server_hello_def cr Noise_Client.check_def client_id_def
        noise_lengths valid_control_iff enter_finish_def encode_control_eq)
  have fin: "prepare_client_finish ?c a = Ok \<lparr>pcf_attempt_id = a, pcf_payload = NoiseIkPayload out\<rparr>"
    by (simp add: prepare_client_finish_def Noise_Client.check_def client_id_def)
  have pol': "Session_Client.handle_authenticated_server_hello (chc_policy k) (ch_server_endpoint (chc_policy k)) a t =
     ((chc_policy k)\<lparr>ch_state :=
         ClientHandshakeState.AwaitingServerFinish a t0 t (t + ch_handshake_timeout (chc_policy k))\<rparr>,
      Ok (SendClientFinish a))"
    using pol by (simp add: handle_authenticated_server_hello_def instant_checked_add_def)
  show ?thesis
    by (simp add: receive_server_hello_def pre au Let_def send_client_finish_def pol' fin verified_def
        verify_client_phases_def client_state_name_def name_def expected_crypto_def)
qed

lemma client_establishes:
  assumes pol: "ch_state (chc_policy k) = ClientHandshakeState.AwaitingServerFinish a t0 t1 d" "t < d"
    and cr: "chc_crypto k = \<lparr>cp_phase = ClientCryptoPhase.AwaitingServerFinish, cp_local_private_key = sk,
         cp_pinned_server_static_public = pk, cp_context = Some (Finish a tr hash peer m0), cp_entropy = r\<rparr>"
    and a: "attempt_value a \<noteq> 0"
    and lib: "read_message tr 0 m 32 = Some (control_record MessageType.ServerFinish a)" "length m = 32"
    and md: "md = \<lparr>session_id = SessionId hash, peer_identity = peer\<rparr>"
  shows "receive_server_finish (client_provider S) k (ch_server_endpoint (chc_policy k))
      \<lparr>svf_client_attempt_id = a, svf_payload = NoiseIkPayload m\<rparr> t =
    (k\<lparr>chc_policy := (chc_policy k)\<lparr>ch_state := ClientHandshakeState.Established md t\<rparr>,
       chc_crypto := \<lparr>cp_phase = ClientCryptoPhase.Established, cp_local_private_key = sk,
         cp_pinned_server_static_public = pk, cp_context = Some (Context.Established a tr md), cp_entropy = r\<rparr>\<rparr>,
     Ok \<lparr>cr_outbound = [], cr_events = [ClientCoordinatorEvent.SessionEstablished md]\<rparr>)"
proof -
  let ?c = "\<lparr>cp_phase = ClientCryptoPhase.AuthenticatedPendingCommit, cp_local_private_key = sk,
         cp_pinned_server_static_public = pk, cp_context = Some (Context.Pending a tr md m0 m), cp_entropy = r\<rparr>"
  have pre: "precheck (chc_policy k) (ch_server_endpoint (chc_policy k)) a ClientPreAuthKind.ServerFinish t =
      (chc_policy k, ClientPreAuthDecision.Permit a)"
    using pol(1,2) by (simp add: precheck_def inbound_kind_def)
  have au: "authenticate_server_finish (chc_crypto k) a (NoiseIkPayload m) =
      (?c, Ok (Success \<lparr>asf_attempt_id = a, asf_metadata = md\<rparr>))"
    using lib a md by (simp add: authenticate_server_finish_def cr Noise_Client.check_def client_id_def
        noise_lengths valid_control_iff sid_def Let_def)
  have co: "Noise_Client.commit_session ?c a md = (\<lparr>cp_phase = ClientCryptoPhase.Established, cp_local_private_key = sk,
         cp_pinned_server_static_public = pk, cp_context = Some (Context.Established a tr md), cp_entropy = r\<rparr>, Ok ())"
    by (simp add: Noise_Client.commit_session_def Noise_Client.check_def client_id_def)
  have pol': "Session_Client.handle_authenticated_server_finish (chc_policy k) (ch_server_endpoint (chc_policy k)) a md t =
     ((chc_policy k)\<lparr>ch_state := ClientHandshakeState.Established md t\<rparr>,
      Ok (ClientAction.SessionEstablished (session_id md)))"
    using pol by (simp add: handle_authenticated_server_finish_def)
  show ?thesis
    by (simp add: receive_server_finish_def pre au Let_def establish_session_def pol' co verified_def
        verify_client_phases_def client_state_name_def name_def expected_crypto_def)
qed

subsection \<open>The server\<close>

text \<open>The policy of a new server after it admitted its first hello.\<close>

definition admitted :: "SessionPolicy \<Rightarrow> SocketAddr \<Rightarrow> ClientAttemptId \<Rightarrow> instant \<Rightarrow> ServerHandshake" where
  "admitted pol s a t =
     \<lparr>sh_pending = \<lparr>sm_policy = pol, sm_state = ManagerState.Running,
        sm_pending_by_source = [(s, \<lparr>pc_id = CandidateId 1, pc_created_at = t,
          pc_deadline = t + sp_handshake_timeout pol\<rparr>)], sm_next_candidate_id = 2\<rparr>,
      sh_candidate_by_id = [(CandidateId 1, \<lparr>sc_candidate_id = CandidateId 1, sc_source = s,
        sc_client_attempt_id = a\<rparr>)],
      sh_state = ServerHandshakeState.Listening\<rparr>"

lemmas policy_steps = expire_and_reconcile_def expire_pending_def hm_defs verify_candidate_maps_def
  pending_count_def candidate_def candidate_owned_by_def current_candidate_def Let_def

lemma new_server_admits:
  assumes "0 < sp_maximum_pending pol" and "t + sp_handshake_timeout pol \<le> instant_max"
  shows "handle_valid_client_hello (ServerHandshake_new pol) s a t =
    (admitted pol s a t, Ok \<lparr>sr_expired = [],
       sr_effects = [SendServerHello s (CandidateId 1) a NewCandidate]\<rparr>)"
  using assms
  by (simp add: handle_valid_client_hello_def ServerHandshake_new_def SessionManager_new_def policy_steps
      admit_def calculate_deadline_def instant_checked_add_def reserve_candidate_id_def
      u64_checked_add_def admit_hello_def admitted_def del: instant_checked_add_Some)

lemma admitted_permits:
  assumes "t < t0 + sp_handshake_timeout pol"
  shows "precheck_client_finish (admitted pol s a t0) s a t =
    (admitted pol s a t0, Ok \<lparr>pr_expired = [], pr_decision = PermitNew (CandidateId 1) a\<rparr>)"
  using assms
  by (simp add: precheck_client_finish_def check_timeouts_def admitted_def policy_steps)

text \<open>The provider's context after it answered a hello.\<close>

definition answered :: "ClientAttemptId \<Rightarrow> StatelessTransportState \<Rightarrow> bytes \<Rightarrow> bytes \<Rightarrow> bytes \<Rightarrow> bytes
   \<Rightarrow> PendingContext" where
  "answered a transport hash remote hello out =
     \<lparr>px_attempt = a, px_transport = transport, px_hash = hash, px_identity = server_identity remote,
      px_client_hello = hello, px_server_hello = out, px_client_finish = None, px_server_finish = None,
      px_metadata = \<lparr>session_id = SessionId hash, peer_identity = server_identity remote\<rparr>\<rparr>"

lemma server_answers_hello:
  assumes k: "shc_policy k = ServerHandshake_new pol" "shc_crypto k = ServerProvider_new sk keys r"
    and pol: "0 < sp_maximum_pending pol" "t + sp_handshake_timeout pol \<le> instant_max"
    and a: "attempt_value a \<noteq> 0" "build_prologue a = Ok pro"
    and lib: "build_responder S NOISE_PROTOCOL_NAME sk pro r = (r', Some h)"
      "hs_read_message S h m 112 = (h', Some (control_record MessageType.ClientHello a))" "length m = 112"
      "get_remote_static S h' = Some remote" "remote \<in> set keys"
      "hs_write_message S h' (control_record MessageType.ServerHello a) 64 = (h2, Some out)" "length out = 64"
      "get_handshake_hash S h2 = hash" "length hash = 32"
      "into_stateless_transport_mode S h2 = Some transport"
  shows "receive_client_hello (server_provider S) k s
      \<lparr>clh_client_attempt_id = a, clh_payload = NoiseIkPayload m\<rparr> t =
    (k\<lparr>shc_policy := admitted pol s a t,
       shc_crypto := (shc_crypto k)\<lparr>np_entropy := r', np_candidates :=
         [(CandidateId 1, CandidateContext.Pending (answered a transport hash remote m out))]\<rparr>\<rparr>,
     Ok \<lparr>sc_outbound = [\<lparr>so_destination = s, so_message = ServerHandshakeMessage.ServerHello
        \<lparr>svh_client_attempt_id = a, svh_payload = NoiseIkPayload out\<rparr>\<rparr>], sc_events = []\<rparr>)"
proof -
  let ?c = "(ServerProvider_new sk keys r)\<lparr>np_entropy := r', np_candidates :=
         [(CandidateId 1, CandidateContext.Pending (answered a transport hash remote m out))]\<rparr>"
  have pr: "prepare_server_hello S (ServerProvider_new sk keys r) (CandidateId 1) a (NoiseIkPayload m) =
      (?c, Ok (Success \<lparr>psh_candidate_id = CandidateId 1, psh_client_attempt_id = a,
         psh_payload = NoiseIkPayload out\<rparr>))"
    using a lib
    by (simp add: prepare_server_hello_def Noise_Server.check_def candidate_attempt_def ServerProvider_new_def
        accept_hello_def noise_lengths validate_control_ok_iff admit_context_def encode_control_eq
        answered_def server_sid_def hm_defs Let_def)
  have st: "verify_server_stable (server_provider S) (admitted pol s a t) ?c = Ok ()"
    by (simp add: verify_server_stable_def admitted_def state_name_def expected_phase_def
        non_secret_status_def ServerProvider_new_def pending_candidate_count_def pending_count_def
        hm_defs expected_shape_def Let_def)
  show ?thesis
    by (simp add: receive_client_hello_def k new_server_admits [OF pol] answer_hello_def pr Let_def
        stable_def st)
qed

lemma server_establishes:
  assumes k: "shc_policy k = admitted pol s a t0"
      "np_candidates (shc_crypto k) = [(CandidateId 1, CandidateContext.Pending x)]"
      "np_phase (shc_crypto k) = ServerCryptoPhase.Running" "np_pending_commit (shc_crypto k) = None"
      "np_established (shc_crypto k) = None"
    and x: "px_attempt x = a" "px_client_finish x = None"
    and t: "t < t0 + sp_handshake_timeout pol" and a: "attempt_value a \<noteq> 0"
    and lib: "read_message (px_transport x) 0 m 32 = Some (control_record MessageType.ClientFinish a)"
      "length m = 32"
      "write_message (px_transport x) 0 (control_record MessageType.ServerFinish a) 32 = Some out"
      "length out = 32"
    and md: "md = px_metadata x"
  shows "\<exists>k'. receive_client_finish (server_provider S) k s
      \<lparr>clf_client_attempt_id = a, clf_payload = NoiseIkPayload m\<rparr> t =
      (k', Ok \<lparr>sc_outbound = [\<lparr>so_destination = s, so_message = ServerHandshakeMessage.ServerFinish
          \<lparr>svf_client_attempt_id = a, svf_payload = NoiseIkPayload out\<rparr>\<rparr>],
        sc_events = [ServerCoordinatorEvent.SessionEstablished s md]\<rparr>) \<and>
    Noise_Server.into_established_transport (shc_crypto k') = Some (px_transport x, md) \<and>
    sh_state (shc_policy k') = ServerHandshakeState.Established \<lparr>ess_metadata = md, ess_peer_endpoint = s,
      ess_completed_candidate_id = CandidateId 1, ess_client_attempt_id = a, ess_established_at = t\<rparr>"
proof -
  let ?i = "CandidateId 1"
  let ?c = "(shc_crypto k)\<lparr>np_candidates := [(?i, CandidateContext.Pending
      (x\<lparr>px_client_finish := Some m, px_server_finish := Some out\<rparr>))], np_pending_commit := Some ?i,
      np_phase := ServerCryptoPhase.AuthenticatedPendingCommit\<rparr>"
  let ?c' = "(shc_crypto k)\<lparr>np_candidates := [], np_established := Some (?i, CandidateContext.Established
      a (px_transport x) md out), np_pending_commit := None, np_phase := ServerCryptoPhase.Established\<rparr>"
  let ?p = "\<lparr>sh_pending = fst (manager_shutdown ((sh_pending (admitted pol s a t0))\<lparr>sm_pending_by_source := []\<rparr>)),
      sh_candidate_by_id = [], sh_state = ServerHandshakeState.Established \<lparr>ess_metadata = md,
      ess_peer_endpoint = s, ess_completed_candidate_id = ?i, ess_client_attempt_id = a, ess_established_at = t\<rparr>\<rparr>"
  have au: "authenticate_client_finish (shc_crypto k) ?i a (NoiseIkPayload m) = (?c, Ok (Success
      \<lparr>acf_candidate_id = ?i, acf_client_attempt_id = a, acf_metadata = md\<rparr>))"
    using k x lib a
    by (simp add: authenticate_client_finish_def Noise_Server.check_def candidate_attempt_def hm_defs
        noise_lengths validate_control_ok_iff encode_control_eq md Let_def)
  have co: "Noise_Server.commit_session ?c ?i a md = (?c', Ok ())"
    using x by (simp add: Noise_Server.commit_session_def hm_defs md)
  have fi: "prepare_server_finish ?c' ?i a (session_id md) = Ok \<lparr>psf_candidate_id = ?i,
      psf_client_attempt_id = a, psf_session_id = session_id md, psf_payload = NoiseIkPayload out\<rparr>"
    by (simp add: prepare_server_finish_def)
  have po: "handle_authenticated_client_finish (admitted pol s a t0) s ?i a md t =
      (?p, Ok \<lparr>sr_expired = [], sr_effects = [SendServerFinish s ?i a (session_id md),
        ServerEffect.SessionEstablished s (session_id md)]\<rparr>)"
    using t by (simp add: handle_authenticated_client_finish_def admitted_def policy_steps establish_def
        remove_exact_candidate_def remove_candidate_def)
  have st: "verify_server_stable (server_provider S) ?p ?c' = Ok ()"
    by (simp add: verify_server_stable_def state_name_def expected_phase_def non_secret_status_def
        hm_defs expected_shape_def Let_def)
  show ?thesis
    by (simp add: receive_client_finish_def k(1) admitted_permits [OF t] authenticate_finish_def au
        establish_candidate_def po co server_finish_def fi stable_def st Let_def
        Noise_Server.into_established_transport_def)
qed

text \<open>What the Noise laws give for the messages of one handshake.\<close>

lemma honest_messages:
  assumes law: "noise_ik_law S public" and key: "length skc = 32" "length sks = 32"
  obtains rc' hi hi' m1 rs' hr hr' m2 hr2 hi2 ti tr m3 m4 where
    "build_initiator S NOISE_PROTOCOL_NAME skc (public sks) pro rc = (rc', Some hi)"
    "hs_write_message S hi (control_record MessageType.ClientHello a) 112 = (hi', Some m1)"
    "length m1 = 112"
    "build_responder S NOISE_PROTOCOL_NAME sks pro rs = (rs', Some hr)"
    "hs_read_message S hr m1 112 = (hr', Some (control_record MessageType.ClientHello a))"
    "get_remote_static S hr' = Some (public skc)"
    "hs_write_message S hr' (control_record MessageType.ServerHello a) 64 = (hr2, Some m2)"
    "length m2 = 64"
    "hs_read_message S hi' m2 64 = (hi2, Some (control_record MessageType.ServerHello a))"
    "get_remote_static S hi2 = Some (public sks)"
    "get_handshake_hash S hi2 = get_handshake_hash S hr2" "length (get_handshake_hash S hr2) = 32"
    "into_stateless_transport_mode S hi2 = Some ti" "into_stateless_transport_mode S hr2 = Some tr"
    "transports_agree ti tr"
    "write_message ti 0 (control_record MessageType.ClientFinish a) 32 = Some m3" "length m3 = 32"
    "read_message tr 0 m3 32 = Some (control_record MessageType.ClientFinish a)"
    "write_message tr 0 (control_record MessageType.ServerFinish a) 32 = Some m4" "length m4 = 32"
    "read_message ti 0 m4 32 = Some (control_record MessageType.ServerFinish a)"
proof -
  let ?ch = "control_record MessageType.ClientHello a" and ?sh = "control_record MessageType.ServerHello a"
  let ?cf = "control_record MessageType.ClientFinish a" and ?sf = "control_record MessageType.ServerFinish a"
  obtain rc' hi rs' hr hi' m1 hr' where one:
    "build_initiator S NOISE_PROTOCOL_NAME skc (public sks) pro rc = (rc', Some hi)"
    "build_responder S NOISE_PROTOCOL_NAME sks pro rs = (rs', Some hr)"
    "hs_write_message S hi ?ch 112 = (hi', Some m1)" "length m1 = length ?ch + 96"
    "hs_read_message S hr m1 112 = (hr', Some ?ch)" "get_remote_static S hr' = Some (public skc)"
    "second_message_law S (public sks) hi' hr'"
    using law [unfolded noise_ik_law_def, rule_format, of skc sks ?ch 112 112 pro rc rs] key
    by fastforce
  obtain hr2 m2 hi2 ti tr where two: "hs_write_message S hr' ?sh 64 = (hr2, Some m2)"
    "length m2 = length ?sh + 48" "hs_read_message S hi' m2 64 = (hi2, Some ?sh)"
    "get_remote_static S hi2 = Some (public sks)"
    "get_handshake_hash S hi2 = get_handshake_hash S hr2" "length (get_handshake_hash S hr2) = 32"
    "into_stateless_transport_mode S hi2 = Some ti" "into_stateless_transport_mode S hr2 = Some tr"
    "transports_agree ti tr"
    using one(7) [unfolded second_message_law_def, rule_format, of ?sh 64 64] by fastforce
  obtain m3 m4 where three: "write_message ti 0 ?cf 32 = Some m3" "write_message tr 0 ?sf 32 = Some m4"
    using agree_writes [OF two(9), of 0 ?cf 32] agree_writes [OF two(9), of 0 ?sf 32] by auto
  then have "length m3 = 32" "length m4 = 32"
    using two(9) by (auto simp: transports_agree_def tag_length_law_def)
  then have four: "read_message tr 0 m3 32 = Some ?cf" "read_message ti 0 m4 32 = Some ?sf"
    using two(9) three unfolding transports_agree_def read_write_law_def by (metis order_refl)+
  show thesis
    by (rule that [OF one(1,3) _ one(2,5,6) two(1) _ two(3-9) three(1) _ four(1) three(2) _ four(2)])
      (use one(4) two(2) \<open>length m3 = 32\<close> \<open>length m4 = 32\<close> in simp_all)
qed

text \<open>
  Five calls of the adapters, each fed with the datagram the one before returned, that end with both
  sides established on one session with transports that read each other.
\<close>

definition exchange_completes ::
  "('r, 'h) Snow \<Rightarrow> V2HandshakeCodec \<Rightarrow> ('r, 'h) client_coordinator \<Rightarrow> 'r server_coordinator
   \<Rightarrow> SocketAddr \<Rightarrow> SocketAddr \<Rightarrow> bytes \<Rightarrow> bytes \<Rightarrow> instant \<times> instant \<times> instant \<times> instant \<times> instant \<Rightarrow> bool" where
  "exchange_completes S codec c0 s0 ca sa pkc pks ts \<longleftrightarrow> (case ts of (t1, t2, t3, t4, t5) \<Rightarrow>
   \<exists>c1 d1 s1 d2 c2 d3 s2 d4 c3 mdc mds ti tr.
    start_client_frame S c0 codec t1 = (c1, Some (Ok \<lparr>car_datagrams = [d1], car_events = []\<rparr>)) \<and>
    receive_server_frame S s0 codec ca d1 t2 = (s1, Some (Ok
      \<lparr>sar_datagrams = [\<lparr>sad_destination = ca, sad_datagram = d2\<rparr>], sar_events = []\<rparr>)) \<and>
    receive_client_frame S c1 codec sa d2 t3 = (c2, Some (Ok
      \<lparr>car_datagrams = [d3], car_events = []\<rparr>)) \<and>
    receive_server_frame S s1 codec ca d3 t4 = (s2, Some (Ok
      \<lparr>sar_datagrams = [\<lparr>sad_destination = ca, sad_datagram = d4\<rparr>],
       sar_events = [ServerCoordinatorEvent.SessionEstablished ca mds]\<rparr>)) \<and>
    receive_client_frame S c2 codec sa d4 t5 = (c3, Some (Ok
      \<lparr>car_datagrams = [], car_events = [ClientCoordinatorEvent.SessionEstablished mdc]\<rparr>)) \<and>
    Noise_Client.into_established_transport (chc_crypto c3) = Some (ti, mdc) \<and>
    Noise_Server.into_established_transport (shc_crypto s2) = Some (tr, mds) \<and>
    session_id mdc = session_id mds \<and> peer_identity mdc = identity pks \<and>
    peer_identity mds = server_identity pkc \<and>
    read_write_law ti tr \<and> read_write_law tr ti)"

lemma honest_exchange:
  assumes law: "noise_ik_law S public" and key: "length skc = 32" "length sks = 32"
    and allowed: "public skc \<in> set keys"
    and codec: "V2HandshakeCodec_new 112 = Ok codec"
    and client: "ClientHandshake_new sa timeout = Ok policy"
      "Handshake_Client.build (client_provider S) policy (ClientProvider_new skc (public sks) rc) = Ok c0"
    and server: "SessionPolicy_new pending timeout' idle = Ok spolicy"
      "Handshake_Server.build (server_provider S) (ServerHandshake_new spolicy)
         (ServerProvider_new sks keys rs) = Ok s0"
    and time: "t3 < t1 + timeout" "t4 < t2 + timeout'" "t5 < t3 + timeout"
      "t1 + timeout \<le> instant_max" "t3 + timeout \<le> instant_max" "t2 + timeout' \<le> instant_max"
  shows "exchange_completes S codec c0 s0 ca sa (public skc) (public sks) (t1, t2, t3, t4, t5)"
proof -
  let ?a = first_attempt
  have a: "attempt_value ?a \<noteq> 0" by simp
  obtain pro where pro: "build_prologue ?a = Ok pro" using build_prologue_eq [OF a] by blast
  obtain rc' hi hi' m1 rs' hr hr' m2 hr2 hi2 ti tr m3 m4 where
    one: "build_initiator S NOISE_PROTOCOL_NAME skc (public sks) pro rc = (rc', Some hi)"
    "hs_write_message S hi (control_record MessageType.ClientHello ?a) 112 = (hi', Some m1)" "length m1 = 112"
    and two: "build_responder S NOISE_PROTOCOL_NAME sks pro rs = (rs', Some hr)"
    "hs_read_message S hr m1 112 = (hr', Some (control_record MessageType.ClientHello ?a))"
    "get_remote_static S hr' = Some (public skc)"
    "hs_write_message S hr' (control_record MessageType.ServerHello ?a) 64 = (hr2, Some m2)" "length m2 = 64"
    and three: "hs_read_message S hi' m2 64 = (hi2, Some (control_record MessageType.ServerHello ?a))"
    "get_remote_static S hi2 = Some (public sks)"
    "get_handshake_hash S hi2 = get_handshake_hash S hr2" "length (get_handshake_hash S hr2) = 32"
    "into_stateless_transport_mode S hi2 = Some ti" "into_stateless_transport_mode S hr2 = Some tr"
    "transports_agree ti tr"
    and four: "write_message ti 0 (control_record MessageType.ClientFinish ?a) 32 = Some m3" "length m3 = 32"
    "read_message tr 0 m3 32 = Some (control_record MessageType.ClientFinish ?a)"
    and five: "write_message tr 0 (control_record MessageType.ServerFinish ?a) 32 = Some m4" "length m4 = 32"
    "read_message ti 0 m4 32 = Some (control_record MessageType.ServerFinish ?a)"
    by (rule honest_messages [OF law key, where pro = pro and a = ?a and rc = rc and rs = rs])
  have pol: "policy = \<lparr>ch_server_endpoint = sa, ch_handshake_timeout = timeout,
      ch_state = ClientHandshakeState.Idle, ch_next_attempt_id = 1\<rparr>"
    and c0: "c0 = \<lparr>chc_policy = policy, chc_crypto = ClientProvider_new skc (public sks) rc,
      chc_lifecycle = CoordinatorLifecycle.Running\<rparr>"
    and spol: "0 < sp_maximum_pending spolicy" "sp_handshake_timeout spolicy = timeout'"
    and s0: "s0 = \<lparr>shc_policy = ServerHandshake_new spolicy, shc_crypto = ServerProvider_new sks keys rs,
      shc_lifecycle = CoordinatorLifecycle.Running\<rparr>"
    using client server
    by (auto simp: ClientHandshake_new_def Handshake_Client.build_def SessionPolicy_new_def
        Handshake_Server.build_def split: if_splits)
  let ?mdc = "\<lparr>session_id = SessionId (get_handshake_hash S hr2), peer_identity = identity (public sks)\<rparr>"
  let ?mds = "\<lparr>session_id = SessionId (get_handshake_hash S hr2), peer_identity = server_identity (public skc)\<rparr>"
  note ok = noise_message_ok [OF codec a] and wire = report_wire [OF codec]
  note lens = expected_payload_length_def noise_lengths
  have msgs: "v2_message_ok codec MessageType.ClientHello ?a m1" "v2_message_ok codec MessageType.ServerHello ?a m2"
    "v2_message_ok codec MessageType.ClientFinish ?a m3" "v2_message_ok codec MessageType.ServerFinish ?a m4"
    using one(3) two(5) four(2) five(2) by (simp_all add: ok lens)
  obtain c1 where c1: "start_client_frame S c0 codec t1 = (c1, Some (Ok
      \<lparr>car_datagrams = [v2_wire MessageType.ClientHello ?a m1], car_events = []\<rparr>))"
    "ch_state (chc_policy c1) = ClientHandshakeState.AwaitingServerHello ?a t1 (t1 + timeout)"
    "ch_handshake_timeout (chc_policy c1) = timeout" "ch_server_endpoint (chc_policy c1) = sa"
    "chc_crypto c1 = \<lparr>cp_phase = ClientCryptoPhase.AwaitingServerHello, cp_local_private_key = skc,
       cp_pinned_server_static_public = public sks, cp_context = Some (Hello ?a hi' m1), cp_entropy = rc'\<rparr>"
    using client_starts [where k = c0 and t = t1, OF _ _ _ _ pro one] time(4) msgs(1) wire(1)
    by (auto simp: c0 pol start_client_frame_def client_message_def)
  obtain s1 where s1: "receive_server_frame S s0 codec ca (v2_wire MessageType.ClientHello ?a m1) t2 =
      (s1, Some (Ok \<lparr>sar_datagrams = [\<lparr>sad_destination = ca,
         sad_datagram = v2_wire MessageType.ServerHello ?a m2\<rparr>], sar_events = []\<rparr>))"
    "shc_policy s1 = admitted spolicy ca ?a t2"
    "shc_crypto s1 = (ServerProvider_new sks keys rs)\<lparr>np_entropy := rs', np_candidates :=
       [(CandidateId 1, CandidateContext.Pending
          (answered ?a tr (get_handshake_hash S hr2) (public skc) m1 m2))]\<rparr>"
    using server_answers_hello [where k = s0, OF _ _ spol(1) _ a pro two(1,2) one(3) two(3) allowed two(4,5)
        refl three(4,6), of t2 ca] time(6) receive_server_framed(1) [where S = S, OF msgs(1)] one(3) wire(2) [OF msgs(2)]
    by (auto simp: s0 spol(2) lens server_message_def)
  obtain c2 where c2: "receive_client_frame S c1 codec sa (v2_wire MessageType.ServerHello ?a m2) t3 =
      (c2, Some (Ok \<lparr>car_datagrams = [v2_wire MessageType.ClientFinish ?a m3], car_events = []\<rparr>))"
    "ch_state (chc_policy c2) = ClientHandshakeState.AwaitingServerFinish ?a t1 t3 (t3 + timeout)"
    "ch_server_endpoint (chc_policy c2) = sa"
    "chc_crypto c2 = \<lparr>cp_phase = ClientCryptoPhase.AwaitingServerFinish, cp_local_private_key = skc,
       cp_pinned_server_static_public = public sks, cp_context = Some (Finish ?a ti
         (get_handshake_hash S hr2) (identity (public sks)) m3), cp_entropy = rc'\<rparr>"
    using client_answers_hello [OF c1(2) time(1) _ c1(5) a three(1) two(5) three(2) _ three(5) four(1,2)]
      receive_client_framed(1) [where S = S, OF msgs(2)] two(5) wire(1) [OF msgs(3)] c1(3,4) time(5) three(3,4)
    by (auto simp: lens client_message_def)
  let ?x = "answered ?a tr (get_handshake_hash S hr2) (public skc) m1 m2"
  have x: "px_attempt ?x = ?a" "px_client_finish ?x = None" "px_transport ?x = tr" "?mds = px_metadata ?x"
    and p: "np_candidates (shc_crypto s1) = [(CandidateId 1, CandidateContext.Pending ?x)]"
      "np_phase (shc_crypto s1) = ServerCryptoPhase.Running" "np_pending_commit (shc_crypto s1) = None"
      "np_established (shc_crypto s1) = None"
    by (simp_all add: s1(3) answered_def ServerProvider_new_def)
  obtain s2 where "receive_client_finish (server_provider S) s1 ca
      \<lparr>clf_client_attempt_id = ?a, clf_payload = NoiseIkPayload m3\<rparr> t4 =
      (s2, Ok \<lparr>sc_outbound = [\<lparr>so_destination = ca, so_message = ServerHandshakeMessage.ServerFinish
          \<lparr>svf_client_attempt_id = ?a, svf_payload = NoiseIkPayload m4\<rparr>\<rparr>],
        sc_events = [ServerCoordinatorEvent.SessionEstablished ca ?mds]\<rparr>)"
    and tr: "Noise_Server.into_established_transport (shc_crypto s2) = Some (tr, ?mds)"
    using server_establishes [OF s1(2) p x(1,2) _ a, unfolded x(3), OF _ four(3,2) five(1,2) x(4), of t4 S]
      time(2) spol(2) by blast
  then have s2: "receive_server_frame S s1 codec ca (v2_wire MessageType.ClientFinish ?a m3) t4 =
      (s2, Some (Ok \<lparr>sar_datagrams = [\<lparr>sad_destination = ca,
         sad_datagram = v2_wire MessageType.ServerFinish ?a m4\<rparr>],
         sar_events = [ServerCoordinatorEvent.SessionEstablished ca ?mds]\<rparr>))"
    using receive_server_framed(2) [where S = S, OF msgs(3)] wire(2) [OF msgs(4)] four(2)
    by (simp add: lens server_message_def)
  obtain c3 where c3: "receive_client_frame S c2 codec sa (v2_wire MessageType.ServerFinish ?a m4) t5 =
      (c3, Some (Ok \<lparr>car_datagrams = [], car_events = [ClientCoordinatorEvent.SessionEstablished ?mdc]\<rparr>))"
    "Noise_Client.into_established_transport (chc_crypto c3) = Some (ti, ?mdc)"
    using client_establishes [OF c2(2) time(3) c2(4) a five(3,2) refl] receive_client_framed(2) [where S = S, OF msgs(4)]
      five(2) c2(3)
    by (auto simp: lens client_report_def Noise_Client.into_established_transport_def)
  show ?thesis
    using c1(1) s1(1) c2(1) s2 tr c3 three(7) unfolding exchange_completes_def transports_agree_def
    by fastforce
qed

text \<open>
  C3. Two honest endpoints complete the handshake. If the client pins the server's key, the server
  allows the client's, and the four datagrams arrive within the deadlines of the two policies, then
  each adapter call returns exactly the next datagram of the protocol, both sides report an
  established session with the same session identifier and the identity of the other's static key,
  and the transports the two sides extract read each other in both directions. The library is only
  assumed to run the handshake pattern of the protocol name the program uses between two parties whose
  messages are delivered unchanged.
\<close>

theorem handshake_completes:
  assumes law: "noise_ik_law S public" and key: "length skc = 32" "length sks = 32"
    and allowed: "public skc \<in> set keys"
    and codec: "V2HandshakeCodec_new 112 = Ok codec"
    and client: "ClientHandshake_new sa timeout = Ok policy"
      "Handshake_Client.build (client_provider S) policy (ClientProvider_new skc (public sks) rc) = Ok c0"
    and server: "SessionPolicy_new pending timeout' idle = Ok spolicy"
      "Handshake_Server.build (server_provider S) (ServerHandshake_new spolicy)
         (ServerProvider_new sks keys rs) = Ok s0"
    and time: "t3 < t1 + timeout" "t4 < t2 + timeout'" "t5 < t3 + timeout"
      "t1 + timeout \<le> instant_max" "t3 + timeout \<le> instant_max" "t2 + timeout' \<le> instant_max"
  shows "\<exists>c1 d1 s1 d2 c2 d3 s2 d4 c3 mdc mds ti tr.
    start_client_frame S c0 codec t1 = (c1, Some (Ok \<lparr>car_datagrams = [d1], car_events = []\<rparr>)) \<and>
    receive_server_frame S s0 codec ca d1 t2 = (s1, Some (Ok
      \<lparr>sar_datagrams = [\<lparr>sad_destination = ca, sad_datagram = d2\<rparr>], sar_events = []\<rparr>)) \<and>
    receive_client_frame S c1 codec sa d2 t3 = (c2, Some (Ok
      \<lparr>car_datagrams = [d3], car_events = []\<rparr>)) \<and>
    receive_server_frame S s1 codec ca d3 t4 = (s2, Some (Ok
      \<lparr>sar_datagrams = [\<lparr>sad_destination = ca, sad_datagram = d4\<rparr>],
       sar_events = [ServerCoordinatorEvent.SessionEstablished ca mds]\<rparr>)) \<and>
    receive_client_frame S c2 codec sa d4 t5 = (c3, Some (Ok
      \<lparr>car_datagrams = [], car_events = [ClientCoordinatorEvent.SessionEstablished mdc]\<rparr>)) \<and>
    Noise_Client.into_established_transport (chc_crypto c3) = Some (ti, mdc) \<and>
    Noise_Server.into_established_transport (shc_crypto s2) = Some (tr, mds) \<and>
    session_id mdc = session_id mds \<and> peer_identity mdc = identity (public sks) \<and>
    peer_identity mds = server_identity (public skc) \<and>
    read_write_law ti tr \<and> read_write_law tr ti"
  using honest_exchange [OF assms] unfolding exchange_completes_def by simp

lemma demo_premises:
  "ClientHandshake_new server_address 10 = Ok (chc_policy fresh_client)"
  "Handshake_Client.build (client_provider clear_snow) (chc_policy fresh_client)
     (ClientProvider_new (replicate 32 1) (replicate 32 2) 0) = Ok fresh_client"
  "SessionPolicy_new 1 10 300 = Ok policy10"
  "Handshake_Server.build (server_provider S) (ServerHandshake_new policy10)
     (ServerProvider_new (replicate 32 2) [replicate 32 1] 0) = Ok fresh_server"
  "V2HandshakeCodec_new 112 = Ok codec112"
  using fresh_endpoints_built
  by (simp_all add: ClientHandshake_new_def fresh_client_def SessionPolicy_new_def policy10_def codec112_new)

theorem handshake_completes_witness:
  "exchange_completes clear_snow codec112 fresh_client fresh_server client_address server_address
     (replicate 32 1) (replicate 32 2) (1, 2, 3, 4, 5)"
  unfolding exchange_completes_def prod.case
  by (rule handshake_completes [OF clear_snow_law _ _ _ demo_premises(5,1,2,3,4)])
    (simp_all add: instant_max_def)

section \<open>Datagrams as calls\<close>

text \<open>The adapters only ever call the coordinators, so what they produce are runs.\<close>

lemma client_frame_coordinated:
  assumes "client_coordinated (client_provider S) k0 k"
  shows "start_client_frame S k codec t = (k', r) \<Longrightarrow> client_coordinated (client_provider S) k0 k'"
    and "receive_client_frame S k codec s d t = (k', r) \<Longrightarrow> client_coordinated (client_provider S) k0 k'"
proof -
  note step = client_coordinated.step [OF assms]
  show "start_client_frame S k codec t = (k', r) \<Longrightarrow> client_coordinated (client_provider S) k0 k'"
    using step [of "CallStart t"] by (auto simp: start_client_frame_def split: prod.splits)
  have called: "client_coordinated (client_provider S) k0 k'"
    if "(let (k', r) = client_call (client_provider S) call k in (k', f r)) = (k', r)" for call f
    using step [of call] that by (auto simp: Let_def split: prod.splits)
  show "receive_client_frame S k codec s d t = (k', r) \<Longrightarrow> client_coordinated (client_provider S) k0 k'"
    using assms
    by (auto simp: receive_client_frame_def split: sum.splits ClientInboundFrame.splits
        intro: called [of "CallServerHello _ _ _", unfolded client_call.simps]
          called [of "CallServerFinish _ _ _", unfolded client_call.simps])
qed

lemma server_frame_coordinated:
  assumes "server_coordinated (server_provider S) k0 k"
    and "receive_server_frame S k codec s d t = (k', r)"
  shows "server_coordinated (server_provider S) k0 k'"
proof -
  note step = server_coordinated.step [OF assms(1)]
  have called: "server_coordinated (server_provider S) k0 k'"
    if "(let (k', r) = server_call (server_provider S) call k in (k', f r)) = (k', r)" for call f
    using step [of call] that by (auto simp: Let_def split: prod.splits)
  show ?thesis
    using assms
    by (auto simp: receive_server_frame_def split: sum.splits ServerInboundFrame.splits
        intro: called [of "CallClientHello _ _ _", unfolded server_call.simps]
          called [of "CallClientFinish _ _ _", unfolded server_call.simps])
qed

text \<open>A provider that gives its transport away belongs to an established policy.\<close>

lemma transport_established:
  "noise_client.synced S k \<Longrightarrow> Noise_Client.into_established_transport (chc_crypto k) = Some (tr, md) \<Longrightarrow>
     \<exists>t. ch_state (chc_policy k) = ClientHandshakeState.Established md t"
  "noise_server.synced TYPE('h) (S' :: ('r, 'h) Snow) k' \<Longrightarrow>
     Noise_Server.into_established_transport (shc_crypto k') = Some (tr, md) \<Longrightarrow>
     \<exists>session. sh_state (shc_policy k') = ServerHandshakeState.Established session \<and> ess_metadata session = md"
  by (auto simp: noise_client.synced_def Noise_Client.into_established_transport_def client_state_name_def
      name_def expected_crypto_def Noise_Client.provider_agreed_def noise_server.synced_def
      Noise_Server.into_established_transport_def state_name_def expected_phase_def
      Noise_Server.provider_agreed_def
      split: option.splits Context.splits if_splits ClientHandshakeState.splits
        ServerHandshakeState.splits CandidateContext.splits)

lemma demo_established:
  obtains c s md sess t where "client_coordinated (client_provider clear_snow) fresh_client c"
    "ch_state (chc_policy c) = ClientHandshakeState.Established md t"
    "server_coordinated (server_provider clear_snow) fresh_server s"
    "sh_state (shc_policy s) = ServerHandshakeState.Established sess"
proof -
  have "exchange_completes clear_snow codec112 fresh_client fresh_server client_address server_address
     (replicate 32 1) (replicate 32 2) (1, 2, 3, 4, 5)"
    by (rule honest_exchange [OF clear_snow_law _ _ _ demo_premises(5,1,2,3,4)])
      (simp_all add: instant_max_def)
  then obtain c1 r1 d2 c2 r2 d4 c3 r3 s1 d1 q1 d3 s2 q2 ti mdc tr mds where
    c: "start_client_frame clear_snow fresh_client codec112 1 = (c1, r1)"
      "receive_client_frame clear_snow c1 codec112 server_address d2 3 = (c2, r2)"
      "receive_client_frame clear_snow c2 codec112 server_address d4 5 = (c3, r3)"
      "Noise_Client.into_established_transport (chc_crypto c3) = Some (ti, mdc)"
    and s: "receive_server_frame clear_snow fresh_server codec112 client_address d1 2 = (s1, q1)"
      "receive_server_frame clear_snow s1 codec112 client_address d3 4 = (s2, q2)"
      "Noise_Server.into_established_transport (shc_crypto s2) = Some (tr, mds)"
    unfolding exchange_completes_def prod.case by blast
  have runs: "client_coordinated (client_provider clear_snow) fresh_client c3"
    "server_coordinated (server_provider clear_snow) fresh_server s2"
    using client_frame_coordinated(2) [OF client_frame_coordinated(2) [OF
          client_frame_coordinated(1) [OF client_coordinated.base c(1)] c(2)] c(3)]
      server_frame_coordinated [OF server_frame_coordinated [OF server_coordinated.base s(1)] s(2)]
    by simp_all
  from transport_established(1) [OF client_run_synced [OF demo_premises(2) runs(1)] c(4)]
    transport_established(2) [OF server_run_synced [OF demo_premises(4) runs(2)] s(3)] runs
  show thesis using that by blast
qed

theorem client_session_authentic_witness:
  "\<exists>k md t transport a. client_coordinated (client_provider clear_snow) fresh_client k \<and>
     ch_state (chc_policy k) = ClientHandshakeState.Established md t \<and>
     Noise_Client.into_established_transport (chc_crypto k) = Some (transport, md) \<and>
     authentic_server clear_snow (replicate 32 2) a transport md"
  by (rule demo_established) (use client_session_authentic [OF demo_premises(2)] in blast)

theorem server_session_authentic_witness:
  "\<exists>k session transport. server_coordinated (server_provider clear_snow) fresh_server k \<and>
     sh_state (shc_policy k) = ServerHandshakeState.Established session \<and>
     Noise_Server.into_established_transport (shc_crypto k) = Some (transport, ess_metadata session) \<and>
     authentic_client clear_snow [replicate 32 1] (ess_client_attempt_id session) transport
       (ess_metadata session)"
  by (rule demo_established)
    (use server_session_authentic [OF demo_premises(4) [where S = clear_snow]] in blast)

section \<open>An undecryptable finish\<close>

text \<open>
  C11. A client finish of the right form from the source of a pending candidate, whose ciphertext does
  not decrypt, is treated as a local failure of the provider: the coordinator fails closed and the
  whole server handshake ends, instead of the message being dropped. (A hello can be replayed, so the
  sender of such a finish needs no key.)
\<close>

theorem garbled_finish_closes_server:
  assumes codec: "V2HandshakeCodec_new 112 = Ok codec"
    and pre: "precheck_client_finish (shc_policy k) source a now =
      (p, Ok \<lparr>pr_expired = [], pr_decision = PermitNew i a\<rparr>)" "sh_state p = ServerHandshakeState.Listening"
    and ctx: "np_phase (shc_crypto k) = ServerCryptoPhase.Running"
      "hm_get (np_candidates (shc_crypto k)) i = Some (CandidateContext.Pending x)"
      "px_attempt x = a" "px_client_finish x = None"
    and garbled: "length m = 32" "read_message (px_transport x) 0 m 32 = None" "attempt_value a \<noteq> 0"
  shows "\<exists>k' e. receive_server_frame S k codec source (v2_wire MessageType.ClientFinish a m) now =
      (k', Some (Err (Coordinator e))) \<and>
    fce_primary e = Crypto (NoiseIkServerFailure AuthenticateClientFinish) \<and>
    shc_lifecycle k' = CoordinatorLifecycle.Closed \<and> np_phase (shc_crypto k') = ServerCryptoPhase.Closed \<and>
    sh_state (shc_policy k') = ServerHandshakeState.Closed"
proof -
  have len: "length m = expected_payload_length MessageType.ClientFinish"
    using garbled(1) by (simp add: expected_payload_length_def noise_lengths)
  have ok: "v2_message_ok codec MessageType.ClientFinish a m"
    using noise_message_ok [OF codec garbled(3) _ len] by simp
  have au: "authenticate_client_finish (shc_crypto k) i a (NoiseIkPayload m) =
      (shc_crypto k, Err (NoiseIkServerFailure AuthenticateClientFinish))"
    using ctx garbled(1,2)
    by (simp add: authenticate_client_finish_def Noise_Server.check_def candidate_attempt_def noise_lengths)
  show ?thesis
    using pre ctx(1)
    by (simp add: receive_server_framed(2) [OF ok len] receive_client_finish_def au
        authenticate_finish_def Let_def Handshake_Server.fatal_def Handshake_Server.fail_closed_def
        server_shutdown_def Noise_Server.provider_shutdown_def server_report_def)
qed

definition half_open_server :: "nat server_coordinator" where
  "half_open_server = \<lparr>shc_policy = admitted policy10 client_address first_attempt 2,
     shc_crypto = (ServerProvider_new (replicate 32 2) [replicate 32 1] 0)\<lparr>np_candidates :=
       [(CandidateId 1, CandidateContext.Pending
          (answered first_attempt clear_transport (replicate 32 7) (replicate 32 1) [] []))]\<rparr>,
     shc_lifecycle = CoordinatorLifecycle.Running\<rparr>"

theorem garbled_finish_closes_server_witness:
  "\<exists>k' e. receive_server_frame clear_snow half_open_server codec112 client_address
       (v2_wire MessageType.ClientFinish first_attempt (replicate 32 1)) 3 = (k', Some (Err (Coordinator e))) \<and>
     shc_lifecycle k' = CoordinatorLifecycle.Closed"
proof -
  have pre: "precheck_client_finish (shc_policy half_open_server) client_address first_attempt 3 =
      (shc_policy half_open_server, Ok \<lparr>pr_expired = [], pr_decision = PermitNew (CandidateId 1) first_attempt\<rparr>)"
    by (simp add: half_open_server_def policy10_def admitted_permits)
  show ?thesis
    using garbled_finish_closes_server [OF codec112_new pre, where m = "replicate 32 1" and S = clear_snow]
    by (simp add: half_open_server_def admitted_def ServerProvider_new_def answered_def hm_defs
        clear_transport_def) blast
qed

end
