(* ===== verification/Data_Frame.thy ===== *)
theory Data_Frame
  imports Noise_Profile
begin

text \<open>
  The encrypted version 2 data frame (\<open>src/data_plane/frame.rs\<close>): header construction, the header
  bytes that are encrypted with every packet, the encoder and the decoder. The codec implements the
  \<open>wire_codec\<close> interface for every plaintext limit.
\<close>

definition DATA_HEADER_LENGTH :: usize where "DATA_HEADER_LENGTH = 51"
definition DATA_BODY_FIXED_LENGTH :: usize where "DATA_BODY_FIXED_LENGTH = 41"
definition MAX_SEQUENCE :: u64 where "MAX_SEQUENCE = - 2"
definition UDP_PAYLOAD_CEILING :: usize where "UDP_PAYLOAD_CEILING = 65507"

definition DATA_TRANSPORT_OVERHEAD :: usize where
  "DATA_TRANSPORT_OVERHEAD = DATA_HEADER_LENGTH + AEAD_TAG_LENGTH"

definition MINIMUM_DATA_CIPHERTEXT_LENGTH :: usize where
  "MINIMUM_DATA_CIPHERTEXT_LENGTH = DATA_TRANSPORT_OVERHEAD + 1"

lemmas data_lengths = DATA_HEADER_LENGTH_def DATA_BODY_FIXED_LENGTH_def UDP_PAYLOAD_CEILING_def
  DATA_TRANSPORT_OVERHEAD_def MINIMUM_DATA_CIPHERTEXT_LENGTH_def AEAD_TAG_LENGTH_def

datatype DataFrameCodecConfigError =
  ZeroMaximumPlaintext
| ZeroMaximumCiphertext
| BodyLengthNotRepresentable usize usize
| DatagramExceedsUdpCeiling usize usize
| DerivedLengthOverflow usize

datatype DataFrameEncodeError =
  ZeroSessionId
| InvalidSequence u64
| EmptyPlaintext
| PlaintextTooLarge usize usize
| CiphertextTooLarge usize usize
| CiphertextLengthMismatch usize usize
| BodyLengthNotRepresentable usize
| EncodedLengthOverflow usize
| OutputBufferTooSmall usize usize

datatype DataFrameDecodeError =
  DatagramTooShort usize usize
| DatagramTooLarge usize usize
| InvalidMagic
| UnsupportedVersion u8
| UnsupportedMessageType u8
| UnsupportedFlags u16
| BodyLengthMismatch usize usize
| DataBodyTooShort usize usize
| ZeroSessionId
| InvalidDirection u8
| InvalidSequence u64

datatype DataDirection = ClientToServer | ServerToClient

definition direction_wire_value :: "DataDirection \<Rightarrow> u8" where
  "direction_wire_value d = (case d of ClientToServer \<Rightarrow> 0 | ServerToClient \<Rightarrow> 1)"

definition direction_from_wire_value :: "u8 \<Rightarrow> (DataDirection, DataFrameDecodeError) result" where
  "direction_from_wire_value observed =
     (if observed = 0 then Ok ClientToServer
      else if observed = 1 then Ok ServerToClient
      else Err (InvalidDirection observed))"

record DataFrameHeader =
  dh_body_length :: u16
  dh_session_id :: SessionId
  dh_direction :: DataDirection
  dh_sequence :: u64

record DecodedDataFrame =
  dd_header :: DataFrameHeader
  dd_ciphertext :: bytes

record DataFrameCodec =
  dc_maximum_plaintext_payload :: usize
  dc_maximum_ciphertext :: usize
  dc_maximum_datagram_length :: usize

definition DataFrameCodec_new :: "usize \<Rightarrow> (DataFrameCodec, DataFrameCodecConfigError) result" where
  "DataFrameCodec_new maximum_plaintext_payload =
     (if maximum_plaintext_payload = 0 then Err ZeroMaximumPlaintext
      else (case usize_checked_add maximum_plaintext_payload DATA_TRANSPORT_OVERHEAD of
        None \<Rightarrow> Err ZeroMaximumCiphertext
      | Some maximum_ciphertext \<Rightarrow>
      (case usize_checked_add DATA_BODY_FIXED_LENGTH maximum_ciphertext of
        None \<Rightarrow> Err (DataFrameCodecConfigError.BodyLengthNotRepresentable maximum_ciphertext
                       DATA_BODY_FIXED_LENGTH)
      | Some maximum_body_length \<Rightarrow>
      if u16_try_from maximum_body_length = None
      then Err (DataFrameCodecConfigError.BodyLengthNotRepresentable maximum_ciphertext
                  DATA_BODY_FIXED_LENGTH)
      else (case usize_checked_add DATA_HEADER_LENGTH maximum_ciphertext of
        None \<Rightarrow> Err (DerivedLengthOverflow maximum_ciphertext)
      | Some maximum_datagram_length \<Rightarrow>
      if maximum_datagram_length > UDP_PAYLOAD_CEILING
      then Err (DatagramExceedsUdpCeiling maximum_datagram_length UDP_PAYLOAD_CEILING)
      else Ok \<lparr>dc_maximum_plaintext_payload = maximum_plaintext_payload,
               dc_maximum_ciphertext = maximum_ciphertext,
               dc_maximum_datagram_length = maximum_datagram_length\<rparr>))))"

definition sequence_ok :: "u64 \<Rightarrow> bool" where
  "sequence_ok sequence \<longleftrightarrow> \<not> (sequence = 0 \<or> sequence > MAX_SEQUENCE)"

definition build_data_header ::
  "DataFrameCodec \<Rightarrow> SessionId \<Rightarrow> DataDirection \<Rightarrow> u64 \<Rightarrow> usize
   \<Rightarrow> (DataFrameHeader, DataFrameEncodeError) result" where
  "build_data_header self sid direction sequence plaintext_length =
     (if list_all (\<lambda>b. b = 0) (session_id_bytes sid) then Err DataFrameEncodeError.ZeroSessionId
      else if sequence = 0 \<or> sequence > MAX_SEQUENCE
        then Err (DataFrameEncodeError.InvalidSequence sequence)
      else if plaintext_length = 0 then Err EmptyPlaintext
      else if plaintext_length > dc_maximum_plaintext_payload self
        then Err (PlaintextTooLarge plaintext_length (dc_maximum_plaintext_payload self))
      else (case usize_checked_add plaintext_length DATA_TRANSPORT_OVERHEAD of
        None \<Rightarrow> Err (DataFrameEncodeError.EncodedLengthOverflow plaintext_length)
      | Some ciphertext_length \<Rightarrow>
      (case usize_checked_add DATA_BODY_FIXED_LENGTH ciphertext_length of
        None \<Rightarrow> Err (DataFrameEncodeError.EncodedLengthOverflow ciphertext_length)
      | Some body_length \<Rightarrow>
      (case u16_try_from body_length of
        None \<Rightarrow> Err (DataFrameEncodeError.BodyLengthNotRepresentable body_length)
      | Some body_length \<Rightarrow>
          Ok \<lparr>dh_body_length = body_length, dh_session_id = sid, dh_direction = direction,
              dh_sequence = sequence\<rparr>))))"

definition header_binding_bytes :: "DataFrameHeader \<Rightarrow> bytes" where
  "header_binding_bytes header = put_all
     [(0, MAGIC),
      (4, [version_wire_value V2]),
      (5, [message_wire_value MessageType.Data]),
      (6, u16_to_be_bytes FLAGS_NONE),
      (8, u16_to_be_bytes (dh_body_length header)),
      (10, session_id_bytes (dh_session_id header)),
      (42, [direction_wire_value (dh_direction header)]),
      (43, u64_to_be_bytes (dh_sequence header))] (replicate DATA_HEADER_LENGTH 0)"

text \<open>
  \<open>None\<close> is a panic: the subtraction of the fixed body length underflows (in builds with overflow
  checks), or a write is out of range.
\<close>

definition encode_data ::
  "DataFrameCodec \<Rightarrow> DataFrameHeader \<Rightarrow> bytes \<Rightarrow> bytes
   \<Rightarrow> ((usize, DataFrameEncodeError) result \<times> bytes) option" where
  "encode_data self header ciphertext output =
     (if length ciphertext < MINIMUM_DATA_CIPHERTEXT_LENGTH
        then Some (Err (CiphertextLengthMismatch MINIMUM_DATA_CIPHERTEXT_LENGTH
                          (length ciphertext)), output)
      else if length ciphertext > dc_maximum_ciphertext self
        then Some (Err (CiphertextTooLarge (length ciphertext) (dc_maximum_ciphertext self)), output)
      else Option.bind (usize_sub (unat (dh_body_length header)) DATA_BODY_FIXED_LENGTH)
        (\<lambda>declared_ciphertext_length.
        if length ciphertext \<noteq> declared_ciphertext_length
        then Some (Err (CiphertextLengthMismatch declared_ciphertext_length
                          (length ciphertext)), output)
        else (case usize_checked_add (length ciphertext) DATA_HEADER_LENGTH of
          None \<Rightarrow> Some (Err (DataFrameEncodeError.EncodedLengthOverflow (length ciphertext)), output)
        | Some encoded_length \<Rightarrow>
            if encoded_length > length output
            then Some (Err (DataFrameEncodeError.OutputBufferTooSmall encoded_length
                              (length output)), output)
            else map_option (Pair (Ok encoded_length))
                   (write_all [(0, header_binding_bytes header), (DATA_HEADER_LENGTH, ciphertext)]
                      output))))"

definition decode_data ::
  "DataFrameCodec \<Rightarrow> bytes \<Rightarrow> (DecodedDataFrame, DataFrameDecodeError) result" where
  "decode_data self datagram =
     (if length datagram < 10 then Err (DataFrameDecodeError.DatagramTooShort (length datagram) 10)
      else if length datagram > dc_maximum_datagram_length self
        then Err (DatagramTooLarge (length datagram) (dc_maximum_datagram_length self))
      else if take 4 datagram \<noteq> MAGIC then Err InvalidMagic
      else if datagram ! 4 \<noteq> version_wire_value V2
        then Err (DataFrameDecodeError.UnsupportedVersion (datagram ! 4))
      else if datagram ! 5 \<noteq> message_wire_value MessageType.Data
        then Err (DataFrameDecodeError.UnsupportedMessageType (datagram ! 5))
      else
        let flags = u16_from_be_bytes [datagram ! 6, datagram ! 7];
            declared_body_length = unat (u16_from_be_bytes [datagram ! 8, datagram ! 9]);
            actual_body_length = length datagram - 10;
            minimum_body_length = DATA_BODY_FIXED_LENGTH + MINIMUM_DATA_CIPHERTEXT_LENGTH;
            sid = subslice 10 42 datagram;
            sequence = u64_from_be_bytes (subslice 43 51 datagram)
        in if flags \<noteq> FLAGS_NONE then Err (DataFrameDecodeError.UnsupportedFlags flags)
           else if declared_body_length \<noteq> actual_body_length
             then Err (DataFrameDecodeError.BodyLengthMismatch declared_body_length
                         actual_body_length)
           else if actual_body_length < minimum_body_length
             then Err (DataBodyTooShort actual_body_length minimum_body_length)
           else if list_all (\<lambda>byte. byte = 0) sid then Err DataFrameDecodeError.ZeroSessionId
           else and_then (direction_from_wire_value (datagram ! 42)) (\<lambda>direction.
             if sequence = 0 \<or> sequence > MAX_SEQUENCE
             then Err (DataFrameDecodeError.InvalidSequence sequence)
             else Ok \<lparr>dd_header =
                 \<lparr>dh_body_length = word_of_nat declared_body_length, dh_session_id = SessionId sid,
                  dh_direction = direction, dh_sequence = sequence\<rparr>,
               dd_ciphertext = drop DATA_HEADER_LENGTH datagram\<rparr>))"

section \<open>Construction\<close>

definition data_codec_ok :: "DataFrameCodec \<Rightarrow> bool" where
  "data_codec_ok c \<longleftrightarrow>
     0 < dc_maximum_plaintext_payload c \<and>
     dc_maximum_ciphertext c = dc_maximum_plaintext_payload c + 67 \<and>
     dc_maximum_datagram_length c = dc_maximum_plaintext_payload c + 118 \<and>
     dc_maximum_datagram_length c \<le> 65507"

lemma DataFrameCodec_new_iff:
  "DataFrameCodec_new n = Ok c \<longleftrightarrow> data_codec_ok c \<and> dc_maximum_plaintext_payload c = n"
  by (cases c) (auto simp: DataFrameCodec_new_def data_codec_ok_def data_lengths usize_max_def
      split: option.splits)

lemma DataFrameCodec_new_defined:
  "(\<exists>c. DataFrameCodec_new n = Ok c) \<longleftrightarrow> 0 < n \<and> n \<le> 65389"
proof
  assume "0 < n \<and> n \<le> 65389"
  then have "DataFrameCodec_new n = Ok \<lparr>dc_maximum_plaintext_payload = n,
      dc_maximum_ciphertext = n + 67, dc_maximum_datagram_length = n + 118\<rparr>"
    by (auto simp: DataFrameCodec_new_iff data_codec_ok_def)
  then show "\<exists>c. DataFrameCodec_new n = Ok c" by blast
qed (auto simp: DataFrameCodec_new_iff data_codec_ok_def)

section \<open>Layout of a data frame\<close>

lemma direction_wire_roundtrip [simp]:
  "direction_from_wire_value (direction_wire_value d) = Ok d"
  by (cases d) (simp_all add: direction_wire_value_def direction_from_wire_value_def)

lemma direction_from_wire_value_iff:
  "direction_from_wire_value v = Ok d \<longleftrightarrow> v = direction_wire_value d"
  by (cases d) (auto simp: direction_wire_value_def direction_from_wire_value_def)

text \<open>The rest of the header after the ten common bytes.\<close>

definition data_header_tail :: "DataFrameHeader \<Rightarrow> bytes" where
  "data_header_tail h = session_id_bytes (dh_session_id h) @
     [direction_wire_value (dh_direction h)] @ u64_to_be_bytes (dh_sequence h)"

lemma header_binding_bytes_eq:
  assumes "session_id_ok (dh_session_id h)"
  shows "header_binding_bytes h = common_header 2 1 0 (dh_body_length h) @ data_header_tail h"
  using assms
  by (simp add: header_binding_bytes_def common_header_def data_header_tail_def data_lengths
      session_id_ok_def FLAGS_NONE_def put_all_from_start del: put_all.simps)

lemma length_header_binding_bytes:
  "session_id_ok (dh_session_id h) \<Longrightarrow> length (header_binding_bytes h) = 51"
  by (simp add: header_binding_bytes_eq data_header_tail_def session_id_ok_def)

text \<open>The header bytes determine the header: nothing of it is left unauthenticated.\<close>

lemma header_binding_bytes_inject:
  assumes "session_id_ok (dh_session_id h)" and "session_id_ok (dh_session_id h')"
    and "header_binding_bytes h = header_binding_bytes h'"
  shows "h = h'"
proof -
  have "dh_body_length h = dh_body_length h'" and t: "data_header_tail h = data_header_tail h'"
    using assms by (simp_all add: header_binding_bytes_eq common_header_def)
  moreover have "direction_wire_value (dh_direction h) = direction_wire_value (dh_direction h')"
    and "session_id_bytes (dh_session_id h) = session_id_bytes (dh_session_id h')"
    and "dh_sequence h = dh_sequence h'"
    using t assms(1,2) by (simp_all add: data_header_tail_def session_id_ok_def)
  ultimately show ?thesis
    by (metis DataFrameHeader.equality SessionId.expand direction_wire_roundtrip old.unit.exhaust
        sum.inject(2))
qed

section \<open>Sending and receiving frames\<close>

text \<open>
  The content of a data frame, and the two paths of the forwarding loop: the sender builds the
  header for the plaintext length the ciphertext protects and encodes the frame.
\<close>

record DataMessage =
  dm_session_id :: SessionId
  dm_direction :: DataDirection
  dm_sequence :: u64
  dm_ciphertext :: bytes

definition data_header_of :: "DataMessage \<Rightarrow> DataFrameHeader" where
  "data_header_of m = \<lparr>dh_body_length = word_of_nat (41 + length (dm_ciphertext m)),
     dh_session_id = dm_session_id m, dh_direction = dm_direction m, dh_sequence = dm_sequence m\<rparr>"

definition data_wire :: "DataMessage \<Rightarrow> bytes" where
  "data_wire m = header_binding_bytes (data_header_of m) @ dm_ciphertext m"

definition data_message_ok :: "DataFrameCodec \<Rightarrow> DataMessage \<Rightarrow> bool" where
  "data_message_ok c m \<longleftrightarrow>
     session_id_ok (dm_session_id m) \<and>
     \<not> list_all (\<lambda>b. b = 0) (session_id_bytes (dm_session_id m)) \<and>
     sequence_ok (dm_sequence m) \<and>
     68 \<le> length (dm_ciphertext m) \<and>
     length (dm_ciphertext m) \<le> dc_maximum_plaintext_payload c + 67"

lemma data_header_of_ok:
  assumes "data_codec_ok c" and "data_message_ok c m"
  shows "build_data_header c (dm_session_id m) (dm_direction m) (dm_sequence m)
      (length (dm_ciphertext m) - 67) = Ok (data_header_of m)"
proof -
  have "1 \<le> length (dm_ciphertext m) - 67"
    "length (dm_ciphertext m) - 67 \<le> dc_maximum_plaintext_payload c"
    "length (dm_ciphertext m) - 67 \<le> 65389"
    "length (dm_ciphertext m) - 67 + 67 = length (dm_ciphertext m)"
    using assms by (auto simp: data_codec_ok_def data_message_ok_def)
  then show ?thesis
    using assms
    by (simp add: build_data_header_def data_lengths data_message_ok_def sequence_ok_def
        usize_checked_add_def u16_try_from_def data_header_of_def)
qed

lemma encode_data_ok:
  assumes "data_codec_ok c" and "data_message_ok c m" and "51 + length (dm_ciphertext m) \<le> length out"
  shows "encode_data c (data_header_of m) (dm_ciphertext m) out =
    Some (Ok (51 + length (dm_ciphertext m)),
      data_wire m @ drop (51 + length (dm_ciphertext m)) out)"
proof -
  have l: "length (header_binding_bytes (data_header_of m)) = 51"
    using assms(2)
    by (simp add: length_header_binding_bytes data_header_of_def data_message_ok_def)
  have b: "unat (dh_body_length (data_header_of m)) = 41 + length (dm_ciphertext m)"
    using assms by (simp add: data_header_of_def data_codec_ok_def data_message_ok_def
        del: of_nat_add)
  have w: "write_all [(0, header_binding_bytes (data_header_of m)), (51, dm_ciphertext m)] out
      = Some (data_wire m @ drop (51 + length (dm_ciphertext m)) out)"
    using assms(3) by (subst write_all_from_start) (simp_all add: l data_wire_def)
  show ?thesis
    using assms w
    by (simp add: encode_data_def data_lengths b usize_sub_def data_codec_ok_def data_message_ok_def
        usize_checked_add_def add.commute del: write_all.simps)
qed

lemma length_data_wire:
  "data_message_ok c m \<Longrightarrow> length (data_wire m) = 51 + length (dm_ciphertext m)"
  by (simp add: data_wire_def length_header_binding_bytes data_header_of_def data_message_ok_def)

lemma data_tail_read:
  assumes "session_id_ok sid" and "length rest = 10"
  shows "subslice 10 42 (rest @ session_id_bytes sid @ [d] @ u64_to_be_bytes s @ cs)
      = session_id_bytes sid"
    "(rest @ session_id_bytes sid @ [d] @ u64_to_be_bytes s @ cs) ! 42 = d"
    "subslice 43 51 (rest @ session_id_bytes sid @ [d] @ u64_to_be_bytes s @ cs)
      = u64_to_be_bytes s"
    "drop 51 (rest @ session_id_bytes sid @ [d] @ u64_to_be_bytes s @ cs) = cs"
  using assms by (simp_all add: session_id_ok_def subslice_def nth_append)

lemma data_wire_eq:
  assumes "session_id_ok (dm_session_id m)"
  shows "data_wire m = common_header 2 1 0 (word_of_nat (41 + length (dm_ciphertext m))) @
    session_id_bytes (dm_session_id m) @ [direction_wire_value (dm_direction m)] @
    u64_to_be_bytes (dm_sequence m) @ dm_ciphertext m"
  using assms
  by (simp add: data_wire_def header_binding_bytes_eq data_header_of_def data_header_tail_def
      del: of_nat_add)

lemma decode_data_wire:
  assumes "data_codec_ok c" and "data_message_ok c m"
  shows "decode_data c (data_wire m) =
    Ok \<lparr>dd_header = data_header_of m, dd_ciphertext = dm_ciphertext m\<rparr>"
proof -
  define bs where "bs = data_wire m"
  have sid: "session_id_ok (dm_session_id m)" using assms(2) by (simp add: data_message_ok_def)
  note bs = bs_def [unfolded data_wire_eq [OF sid]]
  note t = data_tail_read [OF sid length_common_header [of 2 1 0]]
  have h: "take 4 bs = MAGIC" "bs ! 4 = 2" "bs ! 5 = 1" "u16_from_be_bytes [bs ! 6, bs ! 7] = 0"
    "u16_from_be_bytes [bs ! 8, bs ! 9] = word_of_nat (41 + length (dm_ciphertext m))"
    and f: "subslice 10 42 bs = session_id_bytes (dm_session_id m)"
    "bs ! 42 = direction_wire_value (dm_direction m)"
    "subslice 43 51 bs = u64_to_be_bytes (dm_sequence m)" "drop 51 bs = dm_ciphertext m"
    by (simp_all only: bs common_header_read t)
  have l: "unat (word_of_nat (41 + length (dm_ciphertext m)) :: u16) = 41 + length (dm_ciphertext m)"
    using assms by (intro unat_u16_of_nat) (simp add: data_codec_ok_def data_message_ok_def)
  have len: "length bs = 51 + length (dm_ciphertext m)"
    using length_data_wire [OF assms(2)] by (simp add: bs_def)
  show ?thesis
    using assms len unfolding bs_def [symmetric]
    by (simp add: decode_data_def h f l data_lengths data_codec_ok_def data_message_ok_def
        sequence_ok_def FLAGS_NONE_def data_header_of_def del: of_nat_add)
qed

text \<open>The content of a received frame.\<close>

definition data_message_of :: "DecodedDataFrame \<Rightarrow> DataMessage" where
  "data_message_of f = \<lparr>dm_session_id = dh_session_id (dd_header f),
     dm_direction = dh_direction (dd_header f), dm_sequence = dh_sequence (dd_header f),
     dm_ciphertext = dd_ciphertext f\<rparr>"

lemma data_wire_inject:
  assumes "data_codec_ok c" and "data_message_ok c m" and "data_message_ok c m'"
    and "data_wire m = data_wire m'"
  shows "m = m'"
proof -
  have eq: "data_message_of \<lparr>dd_header = data_header_of x, dd_ciphertext = dm_ciphertext x\<rparr> = x" for x
    by (cases x) (simp add: data_message_of_def data_header_of_def)
  have "Ok \<lparr>dd_header = data_header_of m, dd_ciphertext = dm_ciphertext m\<rparr>
      = (Ok \<lparr>dd_header = data_header_of m', dd_ciphertext = dm_ciphertext m'\<rparr>
          :: (DecodedDataFrame, DataFrameDecodeError) result)"
    using decode_data_wire [OF assms(1,2)] decode_data_wire [OF assms(1,3)] assms(4) by simp
  then show ?thesis by (metis eq sum.inject(2))
qed

lemma data_split:
  assumes "51 \<le> length bs"
  shows "bs = take 10 bs @ subslice 10 42 bs @ [bs ! 42] @ subslice 43 51 bs @ drop 51 bs"
proof -
  have "take 10 bs @ subslice 10 42 bs = take 42 bs"
    using take_add [of 10 32 bs] by (simp add: subslice_def)
  moreover have "take 42 bs @ [bs ! 42] = take 43 bs"
    using assms take_Suc_conv_app_nth [of 42 bs] by simp
  moreover have "take 43 bs @ subslice 43 51 bs = take 51 bs"
    using take_add [of 43 8 bs] by (simp add: subslice_def)
  ultimately show ?thesis by (metis append.assoc append_take_drop_id)
qed

lemma decode_data_okD:
  assumes "data_codec_ok c" and "decode_data c bs = Ok f"
  shows "data_message_ok c (data_message_of f) \<and> bs = data_wire (data_message_of f)
    \<and> dd_header f = data_header_of (data_message_of f)"
proof -
  let ?len = "u16_from_be_bytes [bs ! 8, bs ! 9]"
  let ?sid = "subslice 10 42 bs"
  let ?seq = "u64_from_be_bytes (subslice 43 51 bs)"
  obtain d where
    len: "119 \<le> length bs" "length bs \<le> dc_maximum_datagram_length c" and
    magic: "take 4 bs = MAGIC" and fields: "bs ! 4 = 2" "bs ! 5 = 1"
      "u16_from_be_bytes [bs ! 6, bs ! 7] = 0" and
    body: "unat ?len = length bs - 10" and
    sid: "\<not> list_all (\<lambda>b. b = 0) ?sid" and d: "direction_from_wire_value (bs ! 42) = Ok d" and
    seq: "sequence_ok ?seq" and
    f: "f = \<lparr>dd_header = \<lparr>dh_body_length = word_of_nat (unat ?len), dh_session_id = SessionId ?sid,
        dh_direction = d, dh_sequence = ?seq\<rparr>, dd_ciphertext = drop 51 bs\<rparr>"
    using assms(2)
    by (auto simp: decode_data_def data_lengths Let_def and_then_Ok FLAGS_NONE_def sequence_ok_def
        split: if_splits)
  have sidlen: "length ?sid = 32" and tail: "length (subslice 43 51 bs) = 8"
    using len by simp_all
  have lenw: "?len = word_of_nat (41 + length (drop 51 bs))"
    using body len by (simp add: word_unat_eq_iff [symmetric] flip: body)
  have dw: "bs ! 42 = direction_wire_value d" using d by (simp add: direction_from_wire_value_iff)
  have ok: "data_message_ok c (data_message_of f)"
    using assms(1) len sid sidlen seq
    by (simp add: f data_message_of_def data_message_ok_def session_id_ok_def data_codec_ok_def)
      linarith
  moreover have "dd_header f = data_header_of (data_message_of f)"
    by (simp add: f data_message_of_def data_header_of_def lenw del: length_drop of_nat_add)
  moreover have "bs = data_wire (data_message_of f)"
  proof -
    have "10 \<le> length bs" using len by simp
    from common_header_write [OF this magic]
    have "bs = common_header 2 1 0 (word_of_nat (41 + length (drop 51 bs))) @ drop 10 bs"
      unfolding fields lenw .
    then have "take 10 bs = take 10 (common_header 2 1 0 (word_of_nat (41 + length (drop 51 bs)))
        @ drop 10 bs)" by (rule arg_cong)
    then have "take 10 bs = common_header 2 1 0 (word_of_nat (41 + length (drop 51 bs)))"
      by (simp del: length_drop)
    moreover have "subslice 43 51 bs = u64_to_be_bytes ?seq" by (simp add: u64_to_from_be tail)
    ultimately show ?thesis
      using data_split [of bs] len dw sidlen
      by (simp add: data_wire_eq f data_message_of_def session_id_ok_def del: length_drop of_nat_add)
  qed
  ultimately show ?thesis by blast
qed

definition data_send :: "usize \<Rightarrow> DataMessage \<Rightarrow> bytes option" where
  "data_send mtu m =
     (case DataFrameCodec_new mtu of Inl _ \<Rightarrow> None | Inr c \<Rightarrow>
      if \<not> session_id_ok (dm_session_id m) then None
      else (case build_data_header c (dm_session_id m) (dm_direction m) (dm_sequence m)
          (length (dm_ciphertext m) - 67) of Inl _ \<Rightarrow> None | Inr header \<Rightarrow>
      (case encode_data c header (dm_ciphertext m) (replicate (dc_maximum_datagram_length c) 0) of
         Some (Inr n, out) \<Rightarrow> Some (take n out) | _ \<Rightarrow> None)))"

definition data_receive :: "usize \<Rightarrow> bytes \<Rightarrow> DataMessage option" where
  "data_receive mtu datagram =
     (case DataFrameCodec_new mtu of Inl _ \<Rightarrow> None | Inr c \<Rightarrow>
      (case decode_data c datagram of Inl _ \<Rightarrow> None | Inr f \<Rightarrow> Some (data_message_of f)))"

lemma data_codec_ceiling:
  "DataFrameCodec_new mtu = Ok c \<Longrightarrow>
   data_codec_ok c \<and> dc_maximum_datagram_length c = mtu + 118 \<and> dc_maximum_plaintext_payload c = mtu"
  by (auto simp: DataFrameCodec_new_iff data_codec_ok_def)

lemma build_data_header_okD:
  assumes "data_codec_ok c" and "session_id_ok sid"
    and "build_data_header c sid d s (length cs - 67) = Ok h"
  shows "data_message_ok c \<lparr>dm_session_id = sid, dm_direction = d, dm_sequence = s, dm_ciphertext = cs\<rparr>"
  using assms
  by (auto simp: build_data_header_def data_message_ok_def sequence_ok_def data_lengths
      split: if_splits option.splits)

lemma data_send_iff:
  "data_send mtu m = Some bs \<longleftrightarrow>
   (\<exists>c. DataFrameCodec_new mtu = Ok c \<and> data_message_ok c m \<and> bs = data_wire m)"
proof (cases "DataFrameCodec_new mtu")
  case (Inr c)
  note c = data_codec_ceiling [OF Inr]
  have send: "data_send mtu m = Some (data_wire m)" if ok: "data_message_ok c m"
  proof -
    have "51 + length (dm_ciphertext m) \<le> length (replicate (dc_maximum_datagram_length c) (0::u8))"
      using ok c by (simp add: data_message_ok_def data_codec_ok_def)
    from encode_data_ok [OF conjunct1 [OF c] ok this] show ?thesis
      using ok c data_header_of_ok [OF _ ok] length_data_wire [OF ok]
      by (simp add: data_send_def Inr data_message_ok_def)
  qed
  have "data_message_ok c m" if "data_send mtu m = Some bs"
    using that c build_data_header_okD [of c "dm_session_id m" "dm_direction m" "dm_sequence m"
      "dm_ciphertext m"]
    by (cases m) (auto simp: data_send_def Inr split: if_splits sum.splits)
  with send show ?thesis by (auto simp: Inr)
qed (simp add: data_send_def)

lemma data_receive_iff:
  "data_receive mtu bs = Some m \<longleftrightarrow>
   (\<exists>c. DataFrameCodec_new mtu = Ok c \<and> data_message_ok c m \<and> bs = data_wire m)"
proof (cases "DataFrameCodec_new mtu")
  case (Inr c)
  have c: "data_codec_ok c" using data_codec_ceiling [OF Inr] by simp
  have "data_message_ok c m \<and> bs = data_wire m" if "data_receive mtu bs = Some m"
    using that decode_data_okD [OF c] by (auto simp: data_receive_def Inr split: sum.splits)
  moreover have "data_receive mtu (data_wire m) = Some m" if "data_message_ok c m"
    using decode_data_wire [OF c that]
    by (simp add: data_receive_def Inr data_message_of_def data_header_of_def)
  ultimately show ?thesis by (auto simp: Inr)
qed (simp add: data_receive_def)

interpretation data: wire_codec "data_send mtu" "data_receive mtu" for mtu
  by unfold_locales (simp_all add: data_send_iff data_receive_iff)

section \<open>Properties\<close>

text \<open>C36. The encrypted data codec is a bijection between the frame contents it encodes (session,
  direction, sequence number and ciphertext) and the datagrams it accepts, for every plaintext
  limit.\<close>

theorem data_codec_canonical:
  "data_send mtu message = Some datagram \<longleftrightarrow> data_receive mtu datagram = Some message"
  by (rule data.enc_iff_dec)

text \<open>The bytes encrypted with every packet determine the header: two headers with well-formed
  session identifiers and the same binding bytes are equal, so no header field is left
  unauthenticated.\<close>

theorem header_binding_injective:
  assumes "session_id_ok (dh_session_id h)" and "session_id_ok (dh_session_id h')"
  shows "header_binding_bytes h = header_binding_bytes h' \<longleftrightarrow> h = h'"
  using header_binding_bytes_inject [OF assms] by blast

theorem header_binding_injective_witness:
  "header_binding_bytes \<lparr>dh_body_length = 110, dh_session_id = SessionId (replicate 32 1),
      dh_direction = ClientToServer, dh_sequence = 1\<rparr>
   \<noteq> header_binding_bytes \<lparr>dh_body_length = 110, dh_session_id = SessionId (replicate 32 1),
      dh_direction = ServerToClient, dh_sequence = 1\<rparr>"
  by (subst header_binding_injective) (simp_all add: session_id_ok_def)

text \<open>C37. The constructor accepts exactly the plaintext limits between one byte and 65389 bytes, for
  which the largest datagram, with its header, inner header and tag, fits the UDP ceiling.\<close>

theorem data_codec_limits:
  "(\<exists>c. DataFrameCodec_new n = Ok c \<and> dc_maximum_datagram_length c = n + 118) \<longleftrightarrow> 0 < n \<and> n + 118 \<le> 65507"
  using DataFrameCodec_new_defined [of n] data_codec_ceiling [of n] by auto

end
