(* ===== verification/Data_Session.thy ===== *)
theory Data_Session
  imports Data_Frame
begin

text \<open>
  Sequencing, replay protection and lifetime limits of an established data session
  (\<open>src/data_plane/session.rs\<close>). The hash set of received sequence numbers is a list without
  duplicates. The locale \<open>replay_filter\<close> is what the forwarding loop relies on: a filter that is
  consulted before decryption and committed after it never accepts a sequence number twice.
\<close>

section \<open>Replay window\<close>

definition FIRST_SEQUENCE :: u64 where "FIRST_SEQUENCE = 1"
definition SEQUENCE_EXHAUSTED :: u64 where "SEQUENCE_EXHAUSTED = - 1"
definition REPLAY_WINDOW_WIDTH :: u64 where "REPLAY_WINDOW_WIDTH = 1024"

datatype ReplayDecision = Acceptable | Duplicate | TooOld

datatype DataSessionError =
  SendSequenceExhausted
| ReplayWindowInvariant u64

record ReplayWindow =
  rw_highest_accepted :: "u64 option"
  rw_received :: "u64 list"

definition ReplayWindow_new :: ReplayWindow where
  "ReplayWindow_new = \<lparr>rw_highest_accepted = None, rw_received = []\<rparr>"

definition may_attempt :: "ReplayWindow \<Rightarrow> u64 \<Rightarrow> ReplayDecision" where
  "may_attempt self sequence =
     (if sequence \<in> set (rw_received self) then Duplicate
      else case rw_highest_accepted self of
        Some highest \<Rightarrow>
          if u64_saturating_add sequence REPLAY_WINDOW_WIDTH \<le> highest then TooOld else Acceptable
      | None \<Rightarrow> Acceptable)"

definition commit :: "ReplayWindow \<Rightarrow> u64 \<Rightarrow> ReplayWindow \<times> (unit, DataSessionError) result" where
  "commit self sequence =
     (if may_attempt self sequence \<noteq> Acceptable
      then (self, Err (ReplayWindowInvariant sequence))
      else
        let highest = (case rw_highest_accepted self of
              None \<Rightarrow> sequence | Some highest \<Rightarrow> max highest sequence);
            lowest = u64_saturating_sub highest (REPLAY_WINDOW_WIDTH - 1)
        in (self\<lparr>rw_highest_accepted := Some highest,
                 rw_received := List.insert sequence
                   (filter (\<lambda>received. received \<ge> lowest) (rw_received self))\<rparr>, Ok ()))"

section \<open>Session limits and lifetime\<close>

datatype TrafficDirection = Outbound | Inbound

datatype SessionCloseReason =
  OutboundPacketLimit
| OutboundByteLimit
| InboundPacketLimit
| InboundByteLimit
| IdleTimeout
| SendSequenceExhausted
| LocalShutdown

datatype SessionDecision = Permit | Close SessionCloseReason

record SessionLimits =
  maximum_outbound_packets :: u64
  maximum_outbound_plaintext_bytes :: u64
  maximum_inbound_packets :: u64
  maximum_inbound_plaintext_bytes :: u64
  idle_timeout :: duration

datatype SessionLimitField =
  OutboundPackets
| OutboundPlaintextBytes
| InboundPackets
| InboundPlaintextBytes
| IdleTimeout

datatype SessionLimitsConfigError = ZeroLimit SessionLimitField

definition SessionLimits_new ::
  "u64 \<Rightarrow> u64 \<Rightarrow> u64 \<Rightarrow> u64 \<Rightarrow> duration \<Rightarrow> (SessionLimits, SessionLimitsConfigError) result" where
  "SessionLimits_new outbound_packets outbound_bytes inbound_packets inbound_bytes timeout =
     (if inbound_packets = 0 then Err (ZeroLimit InboundPackets)
      else if inbound_bytes = 0 then Err (ZeroLimit InboundPlaintextBytes)
      else if timeout = 0 then Err (ZeroLimit SessionLimitField.IdleTimeout)
      else if outbound_packets = 0 then Err (ZeroLimit OutboundPackets)
      else if outbound_bytes = 0 then Err (ZeroLimit OutboundPlaintextBytes)
      else Ok \<lparr>maximum_outbound_packets = outbound_packets,
               maximum_outbound_plaintext_bytes = outbound_bytes,
               maximum_inbound_packets = inbound_packets,
               maximum_inbound_plaintext_bytes = inbound_bytes,
               idle_timeout = timeout\<rparr>)"

datatype SessionLifetimeError =
  RecordAfterClose TrafficDirection SessionCloseReason
| CounterOverflow u64 u64
| DeadlineOverflow

datatype SessionLifetimeState = Established | Closed SessionCloseReason

record TrafficCounters =
  tc_packets :: u64
  tc_bytes :: u64

definition counters_next :: "TrafficCounters \<Rightarrow> u64 \<Rightarrow> (TrafficCounters, SessionLifetimeError) result"
where
  "counters_next self plaintext_bytes =
     and_then (ok_or (u64_checked_add (tc_packets self) 1) (CounterOverflow (tc_packets self) 1))
       (\<lambda>packets.
     and_then (ok_or (u64_checked_add (tc_bytes self) plaintext_bytes)
         (CounterOverflow (tc_bytes self) plaintext_bytes))
       (\<lambda>bytes. Ok \<lparr>tc_packets = packets, tc_bytes = bytes\<rparr>))"

record SessionLifetime =
  sl_limits :: SessionLimits
  sl_state :: SessionLifetimeState
  sl_outbound :: TrafficCounters
  sl_inbound :: TrafficCounters
  sl_last_successful_activity :: instant

definition SessionLifetime_new :: "instant \<Rightarrow> SessionLimits \<Rightarrow> SessionLifetime" where
  "SessionLifetime_new now limits =
     \<lparr>sl_limits = limits, sl_state = Established,
      sl_outbound = \<lparr>tc_packets = 0, tc_bytes = 0\<rparr>,
      sl_inbound = \<lparr>tc_packets = 0, tc_bytes = 0\<rparr>,
      sl_last_successful_activity = now\<rparr>"

definition counters :: "SessionLifetime \<Rightarrow> TrafficDirection \<Rightarrow> TrafficCounters" where
  "counters self direction = (case direction of
     Outbound \<Rightarrow> sl_outbound self | Inbound \<Rightarrow> sl_inbound self)"

definition set_counters :: "TrafficDirection \<Rightarrow> TrafficCounters \<Rightarrow> SessionLifetime \<Rightarrow> SessionLifetime"
where
  "set_counters direction c self = (case direction of
     Outbound \<Rightarrow> self\<lparr>sl_outbound := c\<rparr> | Inbound \<Rightarrow> self\<lparr>sl_inbound := c\<rparr>)"

definition close :: "SessionLifetime \<Rightarrow> SessionCloseReason \<Rightarrow> SessionLifetime \<times> SessionDecision" where
  "close self reason = (case sl_state self of
     Established \<Rightarrow> (self\<lparr>sl_state := Closed reason\<rparr>, Close reason)
   | Closed reason \<Rightarrow> (self, Close reason))"

definition expire_if_due ::
  "SessionLifetime \<Rightarrow> instant \<Rightarrow> SessionLifetime \<times> (SessionDecision, SessionLifetimeError) result"
where
  "expire_if_due self now = (case sl_state self of
     Closed reason \<Rightarrow> (self, Ok (Close reason))
   | Established \<Rightarrow>
      (case instant_checked_add (sl_last_successful_activity self) (idle_timeout (sl_limits self)) of
         None \<Rightarrow> (self, Err DeadlineOverflow)
       | Some deadline \<Rightarrow>
           if now \<ge> deadline
           then apsnd Ok (close self SessionCloseReason.IdleTimeout)
           else (self, Ok Permit)))"

definition within_limits ::
  "SessionLifetime \<Rightarrow> TrafficDirection \<Rightarrow> TrafficCounters
   \<Rightarrow> SessionLifetime \<times> (SessionDecision, SessionLifetimeError) result" where
  "within_limits self direction next = (case direction of
     Outbound \<Rightarrow>
       if tc_packets next > maximum_outbound_packets (sl_limits self)
       then apsnd Ok (close self OutboundPacketLimit)
       else if tc_bytes next > maximum_outbound_plaintext_bytes (sl_limits self)
       then apsnd Ok (close self OutboundByteLimit)
       else (self, Ok Permit)
   | Inbound \<Rightarrow>
       if tc_packets next > maximum_inbound_packets (sl_limits self)
       then apsnd Ok (close self InboundPacketLimit)
       else if tc_bytes next > maximum_inbound_plaintext_bytes (sl_limits self)
       then apsnd Ok (close self InboundByteLimit)
       else (self, Ok Permit))"

definition permit ::
  "SessionLifetime \<Rightarrow> TrafficDirection \<Rightarrow> u64 \<Rightarrow> instant
   \<Rightarrow> SessionLifetime \<times> (SessionDecision, SessionLifetimeError) result" where
  "permit self direction plaintext_bytes now = (case expire_if_due self now of
     (self, Inl e) \<Rightarrow> (self, Err e)
   | (self, Inr (Close reason)) \<Rightarrow> (self, Ok (Close reason))
   | (self, Inr Permit) \<Rightarrow>
      (case counters_next (counters self direction) plaintext_bytes of
         Inl e \<Rightarrow> (self, Err e)
       | Inr next \<Rightarrow> within_limits self direction next))"

definition record_success ::
  "SessionLifetime \<Rightarrow> TrafficDirection \<Rightarrow> u64 \<Rightarrow> instant
   \<Rightarrow> SessionLifetime \<times> (unit, SessionLifetimeError) result" where
  "record_success self direction plaintext_bytes now = (case sl_state self of
     Closed reason \<Rightarrow> (self, Err (RecordAfterClose direction reason))
   | Established \<Rightarrow>
      (case counters_next (counters self direction) plaintext_bytes of
         Inl e \<Rightarrow> (self, Err e)
       | Inr next \<Rightarrow>
           ((set_counters direction next self)\<lparr>sl_last_successful_activity := now\<rparr>, Ok ())))"

definition next_deadline :: "SessionLifetime \<Rightarrow> (instant option, SessionLifetimeError) result" where
  "next_deadline self = (case sl_state self of
     Closed _ \<Rightarrow> Ok None
   | Established \<Rightarrow>
      ok_or (map_option Some (instant_checked_add (sl_last_successful_activity self)
               (idle_timeout (sl_limits self)))) DeadlineOverflow)"

section \<open>Established session\<close>

text \<open>The transport is a type parameter: its operations belong to the forwarding loop.\<close>

record 'tr EstablishedDataSession =
  es_metadata :: EstablishedSessionMetadata
  es_peer_endpoint :: SocketAddr
  es_send_direction :: DataDirection
  es_receive_direction :: DataDirection
  es_next_send_sequence :: u64
  es_replay_window :: ReplayWindow
  es_transport :: 'tr
  es_lifetime :: SessionLifetime

definition EstablishedDataSession_client ::
  "EstablishedSessionMetadata \<Rightarrow> SocketAddr \<Rightarrow> 'tr \<Rightarrow> SessionLifetime \<Rightarrow> 'tr EstablishedDataSession"
where
  "EstablishedDataSession_client metadata endpoint transport lifetime =
     \<lparr>es_metadata = metadata, es_peer_endpoint = endpoint, es_send_direction = ClientToServer,
      es_receive_direction = ServerToClient, es_next_send_sequence = FIRST_SEQUENCE,
      es_replay_window = ReplayWindow_new, es_transport = transport, es_lifetime = lifetime\<rparr>"

definition EstablishedDataSession_server ::
  "EstablishedSessionMetadata \<Rightarrow> SocketAddr \<Rightarrow> 'tr \<Rightarrow> SessionLifetime \<Rightarrow> 'tr EstablishedDataSession"
where
  "EstablishedDataSession_server metadata endpoint transport lifetime =
     \<lparr>es_metadata = metadata, es_peer_endpoint = endpoint, es_send_direction = ServerToClient,
      es_receive_direction = ClientToServer, es_next_send_sequence = FIRST_SEQUENCE,
      es_replay_window = ReplayWindow_new, es_transport = transport, es_lifetime = lifetime\<rparr>"

definition allocate_send_sequence ::
  "'tr EstablishedDataSession \<Rightarrow> 'tr EstablishedDataSession \<times> (u64, DataSessionError) result" where
  "allocate_send_sequence self =
     (if es_next_send_sequence self = SEQUENCE_EXHAUSTED
      then (self, Err DataSessionError.SendSequenceExhausted)
      else
        let sequence = es_next_send_sequence self
        in (self\<lparr>es_next_send_sequence :=
               (if sequence = MAX_SEQUENCE then SEQUENCE_EXHAUSTED else sequence + 1)\<rparr>,
            Ok sequence))"

definition session_permit ::
  "'tr EstablishedDataSession \<Rightarrow> TrafficDirection \<Rightarrow> u64 \<Rightarrow> instant
   \<Rightarrow> 'tr EstablishedDataSession \<times> (SessionDecision, SessionLifetimeError) result" where
  "session_permit self direction plaintext_bytes now =
     apfst (\<lambda>l. self\<lparr>es_lifetime := l\<rparr>) (permit (es_lifetime self) direction plaintext_bytes now)"

definition session_record_success ::
  "'tr EstablishedDataSession \<Rightarrow> TrafficDirection \<Rightarrow> u64 \<Rightarrow> instant
   \<Rightarrow> 'tr EstablishedDataSession \<times> (unit, SessionLifetimeError) result" where
  "session_record_success self direction plaintext_bytes now =
     apfst (\<lambda>l. self\<lparr>es_lifetime := l\<rparr>)
       (record_success (es_lifetime self) direction plaintext_bytes now)"

definition session_expire_if_due ::
  "'tr EstablishedDataSession \<Rightarrow> instant
   \<Rightarrow> 'tr EstablishedDataSession \<times> (SessionDecision, SessionLifetimeError) result" where
  "session_expire_if_due self now =
     apfst (\<lambda>l. self\<lparr>es_lifetime := l\<rparr>) (expire_if_due (es_lifetime self) now)"

definition session_next_deadline ::
  "'tr EstablishedDataSession \<Rightarrow> (instant option, SessionLifetimeError) result" where
  "session_next_deadline self = next_deadline (es_lifetime self)"

section \<open>The replay window as a filter\<close>

text \<open>
  A replay filter: \<open>rel w A\<close> says that the state \<open>w\<close> has accepted exactly the sequence numbers
  of \<open>A\<close>.
\<close>

locale replay_filter =
  fixes initial :: 'w
    and may :: "'w \<Rightarrow> 's \<Rightarrow> bool"
    and put :: "'w \<Rightarrow> 's \<Rightarrow> 'w option"
    and rel :: "'w \<Rightarrow> 's set \<Rightarrow> bool"
  assumes rel_initial: "rel initial {}"
    and may_fresh: "rel w A \<Longrightarrow> may w s \<Longrightarrow> s \<notin> A"
    and put_rel: "rel w A \<Longrightarrow> put w s = Some w' \<Longrightarrow> rel w' (insert s A)"
    and put_may: "(\<exists>w'. put w s = Some w') \<longleftrightarrow> may w s"
begin

text \<open>The numbers accepted when a list of numbers is offered one after the other.\<close>

fun offer :: "'w \<Rightarrow> 's list \<Rightarrow> 's list \<times> 'w" where
  "offer w [] = ([], w)"
| "offer w (s # ss) = (case put w s of None \<Rightarrow> offer w ss | Some w' \<Rightarrow> apfst ((#) s) (offer w' ss))"

lemma put_fresh: "rel w A \<Longrightarrow> put w s = Some w' \<Longrightarrow> s \<notin> A"
  using may_fresh put_may by blast

lemma offer_distinct_from:
  "rel w A \<Longrightarrow> distinct (fst (offer w ss)) \<and> set (fst (offer w ss)) \<inter> A = {} \<and>
   rel (snd (offer w ss)) (A \<union> set (fst (offer w ss)))"
proof (induction ss arbitrary: w A)
  case (Cons s ss)
  show ?case
  proof (cases "put w s")
    case (Some w')
    have "rel w' (insert s A)" using Cons.prems Some by (rule put_rel)
    moreover have "s \<notin> A" using Cons.prems Some by (rule put_fresh)
    ultimately show ?thesis using Cons.IH [of w' "insert s A"] Some by auto
  qed (use Cons in simp)
qed simp

lemma offer_distinct: "distinct (fst (offer initial ss))"
  using offer_distinct_from [OF rel_initial] by blast

lemma offer_refused_again:
  assumes "rel w A" and "s \<in> A"
  shows "put w s = None"
  using assms put_fresh by (cases "put w s") auto

end

text \<open>
  What a window remembers of the accepted numbers \<open>A\<close>: the largest, and those less than
  \<open>REPLAY_WINDOW_WIDTH\<close> below it.
\<close>

definition window_rel :: "ReplayWindow \<Rightarrow> u64 set \<Rightarrow> bool" where
  "window_rel w A \<longleftrightarrow> finite A \<and> distinct (rw_received w) \<and>
     (case rw_highest_accepted w of
        None \<Rightarrow> A = {} \<and> rw_received w = []
      | Some h \<Rightarrow> h \<in> A \<and> (\<forall>s \<in> A. s \<le> h) \<and>
          set (rw_received w) = {s \<in> A. unat h < unat s + 1024})"

definition commit_opt :: "ReplayWindow \<Rightarrow> u64 \<Rightarrow> ReplayWindow option" where
  "commit_opt w s = (case commit w s of (w', Inr _) \<Rightarrow> Some w' | _ \<Rightarrow> None)"

lemma window_width: "unat REPLAY_WINDOW_WIDTH = 1024" "unat (REPLAY_WINDOW_WIDTH - 1) = 1023"
  by (simp_all add: REPLAY_WINDOW_WIDTH_def)

lemma window_above:
  "u64_saturating_sub h (REPLAY_WINDOW_WIDTH - 1) \<le> s \<longleftrightarrow> unat h < unat s + 1024"
  by (simp add: word_le_nat_alt unat_u64_saturating_sub window_width) linarith

lemma window_too_old:
  assumes "unat s + 1024 \<le> unat h"
  shows "u64_saturating_add s REPLAY_WINDOW_WIDTH \<le> h"
  using assms u64_bound [of h] by (simp add: word_le_nat_alt unat_u64_saturating_add window_width)

lemma may_attempt_fresh:
  assumes "window_rel w A" and "may_attempt w s = Acceptable"
  shows "s \<notin> A"
proof
  assume "s \<in> A"
  with assms(1) obtain h where h: "rw_highest_accepted w = Some h"
    and r: "set (rw_received w) = {s \<in> A. unat h < unat s + 1024}"
    by (auto simp: window_rel_def split: option.splits)
  have "unat s + 1024 \<le> unat h"
    using assms(2) \<open>s \<in> A\<close> h r by (auto simp: may_attempt_def split: if_splits)
  then have "may_attempt w s \<noteq> Acceptable"
    using h window_too_old by (simp add: may_attempt_def)
  with assms(2) show False by contradiction
qed

lemma commit_opt_Some:
  "commit_opt w s = Some w' \<longleftrightarrow> may_attempt w s = Acceptable \<and> w' = fst (commit w s)"
  by (auto simp: commit_opt_def commit_def Let_def)

lemma commit_rel:
  assumes "window_rel w A" and "may_attempt w s = Acceptable"
  shows "window_rel (fst (commit w s)) (insert s A)"
proof (cases "rw_highest_accepted w")
  case None
  with assms show ?thesis
    by (auto simp: window_rel_def commit_def Let_def)
next
  case (Some h)
  have fin: "finite A" and d: "distinct (rw_received w)" and hA: "h \<in> A" and
    le: "\<forall>s \<in> A. s \<le> h" and r: "set (rw_received w) = {s \<in> A. unat h < unat s + 1024}"
    using assms(1) Some by (auto simp: window_rel_def)
  have mono: "unat h \<le> unat (max h s)" by (simp add: max_def word_le_nat_alt)
  have "\<not> unat s + 1024 \<le> unat h"
    using assms(2) Some window_too_old by (auto simp: may_attempt_def split: if_splits)
  then have "unat (max h s) < unat s + 1024"
    by (simp add: max_def word_le_nat_alt)
  then have "set (List.insert s (filter (\<lambda>x. u64_saturating_sub (max h s) (REPLAY_WINDOW_WIDTH - 1)
      \<le> x) (rw_received w))) = {x \<in> insert s A. unat (max h s) < unat x + 1024}"
    using mono by (auto simp: r window_above)
  moreover have "max h s \<in> insert s A" using hA by (auto simp: max_def)
  moreover have "\<forall>x \<in> insert s A. x \<le> max h s" using le by (auto simp: max.coboundedI1)
  ultimately show ?thesis
    using assms(2) Some fin d by (simp add: window_rel_def commit_def Let_def)
qed

interpretation replay: replay_filter ReplayWindow_new "\<lambda>w s. may_attempt w s = Acceptable"
    commit_opt window_rel
proof unfold_locales
  show "window_rel ReplayWindow_new {}" by (simp add: window_rel_def ReplayWindow_new_def)
qed (auto simp: commit_opt_Some may_attempt_fresh commit_rel)

lemma window_rel_acceptable:
  assumes "window_rel w A" and "s \<notin> A" and "unat s + 1024 < 2 ^ 64"
  shows "may_attempt w s = Acceptable \<longleftrightarrow> (\<forall>a \<in> A. unat a < unat s + 1024)"
proof (cases "rw_highest_accepted w")
  case None
  with assms show ?thesis by (simp add: window_rel_def may_attempt_def)
next
  case (Some h)
  have m: "u64_saturating_add s REPLAY_WINDOW_WIDTH \<le> h \<longleftrightarrow> unat s + 1024 \<le> unat h"
    using assms(3) by (simp add: word_le_nat_alt unat_u64_saturating_add window_width)
  have "(\<forall>a \<in> A. unat a < unat s + 1024) \<longleftrightarrow> unat h < unat s + 1024"
    using assms(1) Some by (fastforce simp: window_rel_def word_le_nat_alt)
  moreover have "s \<notin> set (rw_received w)" using assms(1,2) Some by (simp add: window_rel_def)
  ultimately show ?thesis using Some m by (auto simp: may_attempt_def)
qed

text \<open>The memory of the window is bounded.\<close>

lemma window_rel_bounded:
  assumes "window_rel w A"
  shows "length (rw_received w) \<le> 1024"
proof (cases "rw_highest_accepted w")
  case None
  with assms show ?thesis by (simp add: window_rel_def)
next
  case (Some h)
  have r: "set (rw_received w) = {s \<in> A. unat h < unat s + 1024}" and d: "distinct (rw_received w)"
    and le: "\<forall>s \<in> A. s \<le> h"
    using assms Some by (auto simp: window_rel_def)
  have "length (rw_received w) = card (unat ` set (rw_received w))"
    using distinct_card [OF d] by (simp add: card_image inj_on_def word_unat_eq_iff)
  also have "\<dots> \<le> card {unat h - 1023 .. unat h}"
  proof (rule card_mono)
    show "unat ` set (rw_received w) \<subseteq> {unat h - 1023 .. unat h}"
      using le by (auto simp: r word_le_nat_alt)
  qed simp
  also have "\<dots> \<le> 1024" by simp
  finally show ?thesis .
qed

section \<open>Send sequences\<close>

lemma allocate_send_sequence_ok:
  assumes "unat (es_next_send_sequence s) < 2 ^ 64 - 1"
  shows "allocate_send_sequence s =
    (s\<lparr>es_next_send_sequence := es_next_send_sequence s + 1\<rparr>, Ok (es_next_send_sequence s))"
proof -
  have "es_next_send_sequence s \<noteq> - 1" using assms unat_max_u64 by auto
  moreover have "(if es_next_send_sequence s = - 2 then - 1 else es_next_send_sequence s + 1)
      = es_next_send_sequence s + 1" by simp
  ultimately show ?thesis
    by (simp only: Let_def if_False allocate_send_sequence_def SEQUENCE_EXHAUSTED_def MAX_SEQUENCE_def)
qed

lemma allocate_send_sequence_exhausted:
  "es_next_send_sequence s = - 1 \<Longrightarrow>
   allocate_send_sequence s = (s, Err DataSessionError.SendSequenceExhausted)"
  by (simp add: allocate_send_sequence_def SEQUENCE_EXHAUSTED_def)

lemma unat_u64_succ: "unat (w :: u64) < 2 ^ 64 - 1 \<Longrightarrow> unat (w + 1) = unat w + 1"
  by (simp add: unat_word_ariths)

text \<open>The sequence numbers a session hands out in \<open>n\<close> calls, failed calls left out.\<close>

fun allocate_many :: "nat \<Rightarrow> 'tr EstablishedDataSession \<Rightarrow> u64 list" where
  "allocate_many 0 s = []"
| "allocate_many (Suc n) s = (case allocate_send_sequence s of
     (s', Inr sequence) \<Rightarrow> sequence # allocate_many n s'
   | (s', Inl _) \<Rightarrow> allocate_many n s')"

lemma allocate_many_exhausted: "es_next_send_sequence s = - 1 \<Longrightarrow> allocate_many n s = []"
  by (induction n) (simp_all add: allocate_send_sequence_exhausted)

lemma allocate_many_from:
  "map unat (allocate_many n s) =
   [unat (es_next_send_sequence s) ..< min (unat (es_next_send_sequence s) + n) (2 ^ 64 - 1)]"
proof (induction n arbitrary: s)
  case (Suc n)
  let ?k = "es_next_send_sequence s"
  show ?case
  proof (cases "unat ?k < 2 ^ 64 - 1")
    case True
    then have "unat ?k < min (unat ?k + Suc n) (2 ^ 64 - 1)" by simp
    then show ?thesis
      using Suc.IH [of "s\<lparr>es_next_send_sequence := ?k + 1\<rparr>"] True
      by (simp add: allocate_send_sequence_ok unat_u64_succ upt_conv_Cons
          del: upt_Suc min_less_iff_conj)
  next
    case False
    then have "?k = - 1"
      using u64_bound [of ?k] by (simp add: word_unat_eq_iff unat_max_u64)
    then show ?thesis by (simp add: allocate_many_exhausted unat_max_u64 del: allocate_many.simps)
  qed
qed simp

section \<open>Lifetime limits\<close>

definition within :: "SessionLimits \<Rightarrow> TrafficDirection \<Rightarrow> TrafficCounters \<Rightarrow> bool" where
  "within limits d c = (case d of
     Outbound \<Rightarrow> tc_packets c \<le> maximum_outbound_packets limits
       \<and> tc_bytes c \<le> maximum_outbound_plaintext_bytes limits
   | Inbound \<Rightarrow> tc_packets c \<le> maximum_inbound_packets limits
       \<and> tc_bytes c \<le> maximum_inbound_plaintext_bytes limits)"

definition lifetime_ok :: "SessionLifetime \<Rightarrow> bool" where
  "lifetime_ok l \<longleftrightarrow> within (sl_limits l) Outbound (sl_outbound l) \<and>
     within (sl_limits l) Inbound (sl_inbound l)"

lemma lifetime_ok_counters: "lifetime_ok l \<longleftrightarrow> (\<forall>d. within (sl_limits l) d (counters l d))"
  by (auto simp: lifetime_ok_def counters_def split: TrafficDirection.split)

lemma lifetime_ok_new: "lifetime_ok (SessionLifetime_new now limits)"
  by (simp add: lifetime_ok_def SessionLifetime_new_def within_def)

lemma counters_next_Ok:
  "counters_next c n = Ok c' \<longleftrightarrow>
   unat (tc_packets c') = unat (tc_packets c) + 1 \<and> unat (tc_bytes c') = unat (tc_bytes c) + unat n"
  by (cases c') (auto simp: counters_next_def and_then_Ok u64_checked_add_Some)

lemma expire_if_due_Permit:
  "expire_if_due l now = (l', Ok Permit) \<longleftrightarrow> l' = l \<and> sl_state l = Established \<and>
   sl_last_successful_activity l + idle_timeout (sl_limits l) \<le> instant_max \<and>
   now < sl_last_successful_activity l + idle_timeout (sl_limits l)"
  by (auto simp: expire_if_due_def close_def split: SessionLifetimeState.splits option.splits)

lemma within_limits_Permit:
  "within_limits l d c = (l', Ok Permit) \<longleftrightarrow> l' = l \<and> within (sl_limits l) d c"
  by (auto simp: within_limits_def within_def close_def
      split: TrafficDirection.splits SessionLifetimeState.splits)

lemma permit_Permit:
  "permit l d n now = (l', Ok Permit) \<longleftrightarrow>
   expire_if_due l now = (l, Ok Permit) \<and> l' = l \<and>
   (\<exists>c. counters_next (counters l d) n = Ok c \<and> within (sl_limits l) d c)"
proof (cases "expire_if_due l now")
  case (Pair l1 r)
  show ?thesis
    using expire_if_due_Permit [of l now l1]
    by (auto simp: permit_def Pair within_limits_Permit
        split: sum.splits SessionDecision.splits)
qed

lemma record_success_Ok:
  "record_success l d n now = (l', Ok u) \<longleftrightarrow> sl_state l = Established \<and>
   (\<exists>c. counters_next (counters l d) n = Ok c \<and>
     l' = (set_counters d c l)\<lparr>sl_last_successful_activity := now\<rparr>)"
  by (auto simp: record_success_def split: SessionLifetimeState.splits sum.splits)

lemma set_counters_simps [simp]:
  "sl_limits (set_counters d c l) = sl_limits l"
  "sl_state (set_counters d c l) = sl_state l"
  "counters (set_counters d c l) d' = (if d' = d then c else counters l d')"
  by (auto simp: set_counters_def counters_def split: TrafficDirection.splits)

lemma counters_activity [simp]: "counters (l\<lparr>sl_last_successful_activity := t\<rparr>) d = counters l d"
  by (simp add: counters_def split: TrafficDirection.split)

text \<open>A permitted packet is always recorded, and its record stays within the limits.\<close>

lemma permit_record:
  assumes "lifetime_ok l" and "permit l d n now = (l1, Ok Permit)"
  shows "\<exists>l2. record_success l1 d n now' = (l2, Ok ()) \<and> lifetime_ok l2 \<and>
    sl_state l2 = Established \<and> sl_limits l2 = sl_limits l \<and> sl_last_successful_activity l2 = now' \<and>
    unat (tc_packets (counters l2 d)) = unat (tc_packets (counters l d)) + 1 \<and>
    unat (tc_bytes (counters l2 d)) = unat (tc_bytes (counters l d)) + unat n"
proof -
  obtain c where c: "counters_next (counters l d) n = Ok c" "within (sl_limits l) d c"
    and st: "sl_state l = Established" and l1: "l1 = l"
    using assms(2) by (auto simp: permit_Permit expire_if_due_Permit)
  let ?l2 = "(set_counters d c l)\<lparr>sl_last_successful_activity := now'\<rparr>"
  have "lifetime_ok ?l2" using assms(1) c(2) by (auto simp: lifetime_ok_counters)
  then show ?thesis
    using c st l1 by (intro exI [of _ ?l2]) (auto simp: record_success_Ok counters_next_Ok)
qed

lemmas lifetime_ops = permit_def within_limits_def expire_if_due_def record_success_def close_def

text \<open>Deciding closes at most the state; limits, counters and activity do not change.\<close>

definition decided :: "SessionLifetime \<Rightarrow> SessionLifetime \<Rightarrow> bool" where
  "decided l l' \<longleftrightarrow> l' = l \<or> (sl_state l = Established \<and> (\<exists>r. l' = l\<lparr>sl_state := Closed r\<rparr>))"

lemma close_decided: "decided l (fst (close l r))"
  by (simp add: decided_def close_def split: SessionLifetimeState.split) blast

lemma expire_if_due_decided: "decided l (fst (expire_if_due l now))"
  using close_decided
  by (auto simp: expire_if_due_def decided_def split: SessionLifetimeState.split option.split)

lemma permit_decided: "decided l (fst (permit l d n now))"
proof (cases "expire_if_due l now")
  case (Pair l1 r)
  have "decided l l1" using expire_if_due_decided [of l now] by (simp add: Pair)
  moreover have "l1 = l" if "r = Ok Permit"
    using Pair that by (simp add: expire_if_due_Permit)
  ultimately show ?thesis
    using close_decided
    by (auto simp: permit_def Pair within_limits_def
        split: sum.split SessionDecision.split TrafficDirection.split)
qed

lemma decided_ok: "decided l l' \<Longrightarrow> lifetime_ok l' = lifetime_ok l"
  by (auto simp: decided_def lifetime_ok_def)

text \<open>Operations on a lifetime, and any sequence of them.\<close>

datatype LifetimeOp =
  OpPermit TrafficDirection u64 instant
| OpRecord TrafficDirection u64 instant
| OpExpire instant

fun lifetime_apply :: "LifetimeOp \<Rightarrow> SessionLifetime \<Rightarrow> SessionLifetime" where
  "lifetime_apply (OpPermit d n t) l = fst (permit l d n t)"
| "lifetime_apply (OpRecord d n t) l = fst (record_success l d n t)"
| "lifetime_apply (OpExpire t) l = fst (expire_if_due l t)"

lemma lifetime_apply_closed: "sl_state l = Closed r \<Longrightarrow> lifetime_apply op l = l"
  by (cases op) (simp_all add: lifetime_ops)

lemma lifetime_run_closed: "sl_state l = Closed r \<Longrightarrow> fold lifetime_apply ops l = l"
  by (induction ops) (simp_all add: lifetime_apply_closed)

text \<open>The deadline the loop sleeps until is the instant at which the session expires.\<close>

lemma next_deadline_exact:
  assumes "next_deadline l = Ok (Some t)"
  shows "expire_if_due l now =
    (if t \<le> now then (l\<lparr>sl_state := Closed SessionCloseReason.IdleTimeout\<rparr>,
                       Ok (Close SessionCloseReason.IdleTimeout))
     else (l, Ok Permit))"
  using assms
  by (auto simp: next_deadline_def expire_if_due_def close_def
      split: SessionLifetimeState.splits option.splits)

section \<open>Properties\<close>

text \<open>The sequence numbers a new window accepts from a stream of commits, and the final window.\<close>

fun commit_all :: "ReplayWindow \<Rightarrow> u64 list \<Rightarrow> u64 list \<times> ReplayWindow" where
  "commit_all w [] = ([], w)"
| "commit_all w (s # ss) = (case commit w s of
     (w', Inl _) \<Rightarrow> commit_all w' ss
   | (w', Inr _) \<Rightarrow> apfst ((#) s) (commit_all w' ss))"

lemma commit_all_offer: "commit_all w ss = replay.offer w ss"
proof (induction ss arbitrary: w)
  case (Cons s ss)
  show ?case
  proof (cases "commit w s")
    case (Pair w' r)
    show ?thesis
    proof (cases r)
      case (Inl e)
      then have "commit_opt w s = None" and "w' = w"
        using Pair by (auto simp: commit_opt_def commit_def Let_def split: if_splits)
      then show ?thesis using Pair Inl Cons.IH by simp
    next
      case (Inr u)
      then have "commit_opt w s = Some w'" using Pair by (simp add: commit_opt_def)
      then show ?thesis using Pair Inr Cons.IH by simp
    qed
  qed
qed simp

text \<open>C17. The replay window implements the ideal filter: over any stream of commits no sequence
  number is accepted twice, the window never remembers more than 1024 numbers, and, away from the
  top of the 64-bit range, a number is acceptable exactly if it was never accepted and is less than
  1024 below every accepted number.\<close>

theorem replay_window_exact:
  "case commit_all ReplayWindow_new ss of (accepted, w) \<Rightarrow>
     distinct accepted \<and> length (rw_received w) \<le> 1024 \<and>
     (\<forall>s. unat s + 1024 < 2 ^ 64 \<longrightarrow>
        (may_attempt w s = Acceptable \<longleftrightarrow>
           s \<notin> set accepted \<and> (\<forall>a \<in> set accepted. unat a < unat s + 1024)))"
proof -
  obtain acc w where r: "commit_all ReplayWindow_new ss = (acc, w)"
    by (cases "commit_all ReplayWindow_new ss")
  have rel: "window_rel w (set acc)" and d: "distinct acc"
    using replay.offer_distinct_from [OF replay.rel_initial, of ss] r by (simp_all add: commit_all_offer)
  have "s \<notin> set acc" if "may_attempt w s = Acceptable" for s
    using may_attempt_fresh [OF rel that] .
  then show ?thesis
    using d window_rel_bounded [OF rel] window_rel_acceptable [OF rel] by (auto simp: r)
qed

theorem replay_window_exact_witness:
  "may_attempt (snd (commit_all ReplayWindow_new [5, 3, 5])) 4 = Acceptable"
  using replay_window_exact [of "[5, 3, 5]"]
  by (simp add: ReplayWindow_new_def commit_def may_attempt_def Let_def u64_saturating_add_def
      u64_saturating_sub_def REPLAY_WINDOW_WIDTH_def split: prod.splits)

text \<open>Send sequence numbers are consecutive from one, never repeat and never wrap: \<open>n\<close> calls on a
  new session hand out \<open>1, 2, \<dots>\<close> up to the largest usable number, after which every call fails.\<close>

theorem send_sequences_consecutive:
  "map unat (allocate_many n (EstablishedDataSession_client metadata endpoint transport lifetime))
     = [1 ..< min (n + 1) (2 ^ 64 - 1)]"
  by (simp add: allocate_many_from EstablishedDataSession_client_def FIRST_SEQUENCE_def add.commute)

text \<open>Limits are enforced exactly: a lifetime permits a packet precisely when it is established,
  its idle deadline has not been reached, and counting the packet would not exceed the packet or
  byte limit of its direction; a permitted packet is then always recorded successfully, with both
  counters advanced by exactly this packet and all limits still respected.\<close>

theorem permit_exact:
  assumes "lifetime_ok l" and "next_deadline l = Ok (Some deadline)"
    and "unat (tc_packets (counters l d)) + 1 < 2 ^ 64" and "unat (tc_bytes (counters l d)) + unat n < 2 ^ 64"
  shows "(permit l d n now = (l, Ok Permit) \<longleftrightarrow> now < deadline \<and>
      within (sl_limits l) d \<lparr>tc_packets = tc_packets (counters l d) + 1,
        tc_bytes = tc_bytes (counters l d) + n\<rparr>) \<and>
    (permit l d n now = (l, Ok Permit) \<longrightarrow>
      (\<exists>l'. record_success l d n now' = (l', Ok ()) \<and> lifetime_ok l' \<and>
        counters l' d = \<lparr>tc_packets = tc_packets (counters l d) + 1, tc_bytes = tc_bytes (counters l d) + n\<rparr> \<and>
        sl_last_successful_activity l' = now'))"
proof -
  let ?c = "\<lparr>tc_packets = tc_packets (counters l d) + 1, tc_bytes = tc_bytes (counters l d) + n\<rparr>"
  have c: "counters_next (counters l d) n = Ok ?c"
    using assms(3,4) by (simp add: counters_next_Ok unat_word_ariths)
  have st: "sl_state l = Established" and dl: "deadline = sl_last_successful_activity l + idle_timeout (sl_limits l)"
    "deadline \<le> instant_max"
    using assms(2) by (auto simp: next_deadline_def split: SessionLifetimeState.splits)
  have "permit l d n now = (l, Ok Permit) \<longleftrightarrow> now < deadline \<and> within (sl_limits l) d ?c"
    using c st dl by (auto simp: permit_Permit expire_if_due_Permit)
  moreover have "\<exists>l'. record_success l d n now' = (l', Ok ()) \<and> lifetime_ok l' \<and>
      counters l' d = ?c \<and> sl_last_successful_activity l' = now'" if p: "permit l d n now = (l, Ok Permit)"
  proof -
    obtain l' where "record_success l d n now' = (l', Ok ())" "lifetime_ok l'"
      "sl_last_successful_activity l' = now'"
      using permit_record [OF assms(1) p, of now'] by blast
    then show ?thesis using c by (auto simp: record_success_Ok)
  qed
  ultimately show ?thesis by blast
qed

theorem permit_exact_witness:
  "permit (SessionLifetime_new 0 \<lparr>maximum_outbound_packets = 1, maximum_outbound_plaintext_bytes = 9,
     maximum_inbound_packets = 1, maximum_inbound_plaintext_bytes = 9, idle_timeout = 60\<rparr>) Outbound 10 5
   \<noteq> (SessionLifetime_new 0 \<lparr>maximum_outbound_packets = 1, maximum_outbound_plaintext_bytes = 9,
     maximum_inbound_packets = 1, maximum_inbound_plaintext_bytes = 9, idle_timeout = 60\<rparr>, Ok Permit)"
  using permit_exact [OF lifetime_ok_new, of 0 "\<lparr>maximum_outbound_packets = 1,
      maximum_outbound_plaintext_bytes = 9, maximum_inbound_packets = 1,
      maximum_inbound_plaintext_bytes = 9, idle_timeout = 60\<rparr>" 60 Outbound 10 5 5]
  by (simp add: next_deadline_def SessionLifetime_new_def instant_checked_add_def instant_max_def
      counters_def within_def)

text \<open>Closing is final and keeps its first reason: on a closed lifetime no sequence of permits,
  records and expiry checks changes the state, the counters or the reason.\<close>

theorem closed_lifetime_final:
  assumes "sl_state l = Closed reason"
  shows "fold lifetime_apply ops l = l \<and> permit l d n now = (l, Ok (Close reason)) \<and>
    record_success l d n now = (l, Err (RecordAfterClose d reason))"
  using lifetime_run_closed [OF assms] assms by (simp add: lifetime_ops)

theorem closed_lifetime_final_witness:
  "let l = (SessionLifetime_new 0 \<lparr>maximum_outbound_packets = 1, maximum_outbound_plaintext_bytes = 9,
     maximum_inbound_packets = 1, maximum_inbound_plaintext_bytes = 9, idle_timeout = 60\<rparr>)
       \<lparr>sl_state := Closed LocalShutdown\<rparr>
   in fold lifetime_apply [OpExpire 3, OpPermit Inbound 4 5] l = l"
  unfolding Let_def by (rule closed_lifetime_final [THEN conjunct1]) simp

end
