(* ===== verification/Data_Runtime.thy ===== *)
theory Data_Runtime
  imports Data_Session Noise_Snow "HOL-Library.Multiset"
begin

text \<open>
  The encrypted forwarding loop (\<open>src/data_plane/crypto.rs\<close>, \<open>src/data_plane/runtime.rs\<close>).

  The stateless Noise transport is third-party code, a record of its two operations. One
  iteration of the loop is a function of the selected event, which carries what the socket, the
  TUN device and the clock returned; the result is the new session, the writes the iteration
  performed and whether the loop goes on. The length conversions to \<open>u64\<close> cannot fail where
  \<open>usize\<close> has 64 bits. \<open>Panicked\<close> stands for a panic of the frame encoder.
\<close>

section \<open>Transport adapter\<close>

datatype TransportError = Encrypt

datatype DecryptOutcome =
  Plaintext bytes
| HeaderBindingFailure
| AuthenticationFailure

record DirectionalTransport =
  dt_state :: StatelessTransportState

definition encrypt ::
  "DirectionalTransport \<Rightarrow> u64 \<Rightarrow> bytes \<Rightarrow> bytes \<Rightarrow> (bytes, TransportError) result" where
  "encrypt self sequence header_bytes plaintext =
     (let payload = header_bytes @ plaintext
      in case write_message (dt_state self) sequence payload (length payload + AEAD_TAG_LENGTH) of
           None \<Rightarrow> Err Encrypt
         | Some ciphertext \<Rightarrow> Ok ciphertext)"

definition decrypt :: "DirectionalTransport \<Rightarrow> u64 \<Rightarrow> bytes \<Rightarrow> bytes \<Rightarrow> DecryptOutcome" where
  "decrypt self sequence header_bytes ciphertext =
     (case read_message (dt_state self) sequence ciphertext (length ciphertext) of
        None \<Rightarrow> AuthenticationFailure
      | Some plaintext \<Rightarrow>
          if length plaintext < DATA_HEADER_LENGTH \<or> take DATA_HEADER_LENGTH plaintext \<noteq> header_bytes
          then HeaderBindingFailure
          else Plaintext (drop DATA_HEADER_LENGTH plaintext))"

section \<open>The loop\<close>

type_synonym session = "DirectionalTransport EstablishedDataSession"

datatype Effect = SendTo bytes SocketAddr | WriteTun bytes

datatype RunError =
  MtuMismatch
| LifetimeFailure SessionLifetimeError
| NoIdleDeadline
| ReadTunFailed
| AllocateSequence DataSessionError
| BuildHeader DataFrameEncodeError
| EncryptFailed TransportError
| EncodeFrame DataFrameEncodeError
| SendFailed
| PartialSend usize usize
| ReceiveFailed
| CommitReplay DataSessionError
| WriteTunFailed

datatype Flow =
  Continue
| ControlledClose SessionCloseReason
| Failed RunError
| Panicked

text \<open>
  \<open>TunRead packet t sent t'\<close>: the packet read (\<open>None\<close> for a read error), the instant of the limit
  check, the byte count \<open>send_to\<close> returned (\<open>None\<close> for an error), the instant of the record.
  \<open>UdpReceived received t ok t'\<close>: the datagram with its source, and whether the TUN write succeeds.
\<close>

datatype Event =
  DeadlineElapsed instant
| CtrlC
| TunRead "bytes option" instant "usize option" instant
| UdpReceived "(bytes \<times> SocketAddr) option" instant bool instant

type_synonym iteration = "session \<times> Effect list \<times> Flow"

definition on_decision ::
  "session \<times> (SessionDecision, SessionLifetimeError) result \<Rightarrow> (session \<Rightarrow> iteration) \<Rightarrow> iteration" where
  "on_decision r continue = (case r of
     (s, Inl e) \<Rightarrow> (s, [], Failed (LifetimeFailure e))
   | (s, Inr (Close reason)) \<Rightarrow> (s, [], ControlledClose reason)
   | (s, Inr Permit) \<Rightarrow> continue s)"

definition on_recorded ::
  "Effect list \<Rightarrow> session \<times> (unit, SessionLifetimeError) result \<Rightarrow> iteration" where
  "on_recorded effects r = (case r of
     (s, Inl e) \<Rightarrow> (s, effects, Failed (LifetimeFailure e))
   | (s, Inr _) \<Rightarrow> (s, effects, Continue))"

text \<open>The datagram of an outbound packet: header, ciphertext and frame.\<close>

definition seal_packet :: "DataFrameCodec \<Rightarrow> session \<Rightarrow> u64 \<Rightarrow> bytes \<Rightarrow> (bytes, Flow) result" where
  "seal_packet codec s sequence packet =
     (case build_data_header codec (session_id (es_metadata s)) (es_send_direction s) sequence
             (length packet) of
        Inl e \<Rightarrow> Err (Failed (BuildHeader e))
      | Inr header \<Rightarrow>
     (case encrypt (es_transport s) sequence (header_binding_bytes header) packet of
        Inl e \<Rightarrow> Err (Failed (EncryptFailed e))
      | Inr ciphertext \<Rightarrow>
     (case encode_data codec header ciphertext (replicate (dc_maximum_datagram_length codec) 0) of
        None \<Rightarrow> Err Panicked
      | Some (Inl e, _) \<Rightarrow> Err (Failed (EncodeFrame e))
      | Some (Inr frame_length, frame) \<Rightarrow> Ok (take frame_length frame))))"

definition transmit ::
  "DataFrameCodec \<Rightarrow> bytes \<Rightarrow> usize option \<Rightarrow> instant \<Rightarrow> session \<Rightarrow> u64 \<Rightarrow> iteration" where
  "transmit codec packet sent t' s sequence =
     (case seal_packet codec s sequence packet of
        Inl flow \<Rightarrow> (s, [], flow)
      | Inr datagram \<Rightarrow>
        (case sent of
           None \<Rightarrow> (s, [SendTo datagram (es_peer_endpoint s)], Failed SendFailed)
         | Some n \<Rightarrow>
             if n \<noteq> length datagram
             then (s, [SendTo datagram (es_peer_endpoint s)],
                   Failed (PartialSend n (length datagram)))
             else on_recorded [SendTo datagram (es_peer_endpoint s)]
                    (session_record_success s Outbound (word_of_nat (length packet)) t')))"

definition forward_outbound ::
  "DataFrameCodec \<Rightarrow> bytes \<Rightarrow> usize option \<Rightarrow> instant \<Rightarrow> session \<Rightarrow> iteration" where
  "forward_outbound codec packet sent t' s = (case allocate_send_sequence s of
     (s, Inl DataSessionError.SendSequenceExhausted) \<Rightarrow>
       (s, [], ControlledClose SessionCloseReason.SendSequenceExhausted)
   | (s, Inl error) \<Rightarrow> (s, [], Failed (AllocateSequence error))
   | (s, Inr sequence) \<Rightarrow> transmit codec packet sent t' s sequence)"

definition handle_tun ::
  "DataFrameCodec \<Rightarrow> session \<Rightarrow> bytes \<Rightarrow> instant \<Rightarrow> usize option \<Rightarrow> instant \<Rightarrow> iteration" where
  "handle_tun codec s packet t sent t' =
     (if length packet = 0 \<or> length packet > dc_maximum_plaintext_payload codec
      then (s, [], Continue)
      else on_decision (session_permit s Outbound (word_of_nat (length packet)) t)
             (forward_outbound codec packet sent t'))"

text \<open>The checks of a received datagram up to the decrypted packet; \<open>None\<close> is a drop.\<close>

definition open_datagram ::
  "DataFrameCodec \<Rightarrow> session \<Rightarrow> bytes \<Rightarrow> SocketAddr \<Rightarrow> (u64 \<times> bytes) option" where
  "open_datagram codec s datagram source =
     (if length datagram > dc_maximum_datagram_length codec then None
      else case decode_data codec datagram of
        Inl _ \<Rightarrow> None
      | Inr frame \<Rightarrow>
        let header = dd_header frame in
        if source \<noteq> es_peer_endpoint s \<or> dh_session_id header \<noteq> session_id (es_metadata s)
        then None
        else if dh_direction header \<noteq> es_receive_direction s then None
        else (case may_attempt (es_replay_window s) (dh_sequence header) of
          Acceptable \<Rightarrow>
            (case decrypt (es_transport s) (dh_sequence header) (header_binding_bytes header)
                    (dd_ciphertext frame) of
               Plaintext plaintext \<Rightarrow> Some (dh_sequence header, plaintext)
             | _ \<Rightarrow> None)
        | _ \<Rightarrow> None))"

definition deliver :: "bytes \<Rightarrow> bool \<Rightarrow> instant \<Rightarrow> session \<Rightarrow> iteration" where
  "deliver plaintext written t' s =
     (if \<not> written then (s, [WriteTun plaintext], Failed WriteTunFailed)
      else on_recorded [WriteTun plaintext]
             (session_record_success s Inbound (word_of_nat (length plaintext)) t'))"

definition handle_udp ::
  "DataFrameCodec \<Rightarrow> session \<Rightarrow> bytes \<Rightarrow> SocketAddr \<Rightarrow> instant \<Rightarrow> bool \<Rightarrow> instant \<Rightarrow> iteration" where
  "handle_udp codec s datagram source t written t' =
     (case open_datagram codec s datagram source of
        None \<Rightarrow> (s, [], Continue)
      | Some (sequence, plaintext) \<Rightarrow>
        (case commit (es_replay_window s) sequence of
           (w, Inl error) \<Rightarrow> (s\<lparr>es_replay_window := w\<rparr>, [], Failed (CommitReplay error))
         | (w, Inr _) \<Rightarrow>
           let s = s\<lparr>es_replay_window := w\<rparr> in
           if plaintext = [] \<or> length plaintext > dc_maximum_plaintext_payload codec
           then (s, [], Continue)
           else on_decision (session_permit s Inbound (word_of_nat (length plaintext)) t)
                  (deliver plaintext written t')))"

definition select_event :: "DataFrameCodec \<Rightarrow> session \<Rightarrow> Event \<Rightarrow> iteration" where
  "select_event codec s event = (case event of
     DeadlineElapsed now \<Rightarrow> on_decision (session_expire_if_due s now) (\<lambda>s. (s, [], Continue))
   | CtrlC \<Rightarrow> (s, [], ControlledClose LocalShutdown)
   | TunRead None _ _ _ \<Rightarrow> (s, [], Failed ReadTunFailed)
   | TunRead (Some packet) t sent t' \<Rightarrow> handle_tun codec s packet t sent t'
   | UdpReceived None _ _ _ \<Rightarrow> (s, [], Failed ReceiveFailed)
   | UdpReceived (Some (datagram, source)) t written t' \<Rightarrow>
       handle_udp codec s datagram source t written t')"

text \<open>One iteration: the idle check at the head of the loop, then the selected event.\<close>

definition iterate :: "DataFrameCodec \<Rightarrow> session \<Rightarrow> instant \<times> Event \<Rightarrow> iteration" where
  "iterate codec s ne =
     on_decision (session_expire_if_due s (fst ne)) (\<lambda>s.
       case session_next_deadline s of
         Inl e \<Rightarrow> (s, [], Failed (LifetimeFailure e))
       | Inr None \<Rightarrow> (s, [], Failed NoIdleDeadline)
       | Inr (Some _) \<Rightarrow> select_event codec s (snd ne))"

text \<open>\<open>Continue\<close> at the end of the events: the loop waits for the next one.\<close>

fun run_loop :: "DataFrameCodec \<Rightarrow> session \<Rightarrow> (instant \<times> Event) list \<Rightarrow> iteration" where
  "run_loop codec s [] = (s, [], Continue)"
| "run_loop codec s (ne # events) = (case iterate codec s ne of
     (s', effects, Continue) \<Rightarrow> apsnd (apfst ((@) effects)) (run_loop codec s' events)
   | stopped \<Rightarrow> stopped)"

definition run :: "usize \<Rightarrow> DataFrameCodec \<Rightarrow> session \<Rightarrow> (instant \<times> Event) list \<Rightarrow> iteration" where
  "run tun_mtu codec s events =
     (if tun_mtu \<noteq> dc_maximum_plaintext_payload codec then (s, [], Failed MtuMismatch)
      else run_loop codec s events)"

section \<open>What a session keeps\<close>

text \<open>
  The fields no operation changes.
\<close>

definition fixed_part ::
  "session \<Rightarrow> EstablishedSessionMetadata \<times> SocketAddr \<times> DataDirection \<times> DataDirection
    \<times> DirectionalTransport" where
  "fixed_part s = (es_metadata s, es_peer_endpoint s, es_send_direction s, es_receive_direction s,
     es_transport s)"

definition valid_session_id :: "SessionId \<Rightarrow> bool" where
  "valid_session_id sid \<longleftrightarrow> session_id_ok sid \<and> \<not> list_all (\<lambda>b. b = 0) (session_id_bytes sid)"

lemma fixed_part_update [simp]:
  "fixed_part (s\<lparr>es_lifetime := l\<rparr>) = fixed_part s"
  "fixed_part (s\<lparr>es_replay_window := w\<rparr>) = fixed_part s"
  "fixed_part (s\<lparr>es_next_send_sequence := n\<rparr>) = fixed_part s"
  by (simp_all add: fixed_part_def)

lemma fixed_partD:
  assumes "fixed_part s = fixed_part s'"
  shows "es_metadata s = es_metadata s'" "es_peer_endpoint s = es_peer_endpoint s'"
    "es_send_direction s = es_send_direction s'" "es_receive_direction s = es_receive_direction s'"
    "es_transport s = es_transport s'"
  using assms by (simp_all add: fixed_part_def)

lemma seal_packet_fixed:
  assumes "fixed_part s = fixed_part s'"
  shows "seal_packet c s q p = seal_packet c s' q p"
  unfolding seal_packet_def fixed_partD [OF assms] ..

lemma session_permit_lifetime:
  "session_permit s d n t = (s', r) \<Longrightarrow>
   s' = s\<lparr>es_lifetime := fst (permit (es_lifetime s) d n t)\<rparr> \<and> r = snd (permit (es_lifetime s) d n t)"
  by (auto simp: session_permit_def apfst_def map_prod_def split: prod.splits)

lemma session_expire_lifetime:
  "session_expire_if_due s t = (s', r) \<Longrightarrow>
   s' = s\<lparr>es_lifetime := fst (expire_if_due (es_lifetime s) t)\<rparr> \<and> r = snd (expire_if_due (es_lifetime s) t)"
  by (auto simp: session_expire_if_due_def apfst_def map_prod_def split: prod.splits)

lemma session_record_lifetime:
  "session_record_success s d n t = (s', r) \<Longrightarrow>
   s' = s\<lparr>es_lifetime := fst (record_success (es_lifetime s) d n t)\<rparr> \<and>
   r = snd (record_success (es_lifetime s) d n t)"
  by (auto simp: session_record_success_def apfst_def map_prod_def split: prod.splits)

lemma session_permit_eq: "\<exists>l r. session_permit s d n t = (s\<lparr>es_lifetime := l\<rparr>, r)"
  by (cases "session_permit s d n t") (auto dest: session_permit_lifetime)

lemma session_expire_eq: "\<exists>l r. session_expire_if_due s t = (s\<lparr>es_lifetime := l\<rparr>, r)"
  by (cases "session_expire_if_due s t") (auto dest: session_expire_lifetime)

lemma on_decision_cases:
  assumes "on_decision r k = (s', eff, fl)"
  obtains e where "snd r = Err e" "s' = fst r" "eff = []" "fl = Failed (LifetimeFailure e)"
    | reason where "snd r = Ok (Close reason)" "s' = fst r" "eff = []" "fl = ControlledClose reason"
    | "snd r = Ok Permit" "k (fst r) = (s', eff, fl)"
  using assms
  by (cases r) (auto simp: on_decision_def split: sum.splits SessionDecision.splits)

section \<open>Sealing and opening packets\<close>

lemma seal_packet_ok:
  assumes codec: "data_codec_ok codec" and sid: "valid_session_id (session_id (es_metadata s))"
    and seq: "sequence_ok q" and len: "0 < length p" "length p \<le> dc_maximum_plaintext_payload codec"
    and tag: "tag_length_law (dt_state (es_transport s))"
  shows "(\<exists>m. seal_packet codec s q p = Ok (data_wire m) \<and> data_message_ok codec m \<and>
      dm_session_id m = session_id (es_metadata s) \<and> dm_direction m = es_send_direction s \<and>
      dm_sequence m = q \<and>
      write_message (dt_state (es_transport s)) q (header_binding_bytes (data_header_of m) @ p)
        (length p + 67) = Some (dm_ciphertext m))
    \<or> seal_packet codec s q p = Err (Failed (EncryptFailed Encrypt))"
proof -
  define h where "h = \<lparr>dh_body_length = word_of_nat (41 + (length p + 67)),
    dh_session_id = session_id (es_metadata s), dh_direction = es_send_direction s, dh_sequence = q\<rparr>"
  have h: "build_data_header codec (session_id (es_metadata s)) (es_send_direction s) q (length p)
      = Ok h"
    using assms
    by (simp add: build_data_header_def valid_session_id_def sequence_ok_def data_lengths h_def
        data_codec_ok_def usize_checked_add_def u16_try_from_def del: of_nat_add)
  have hl: "length (header_binding_bytes h) = 51"
    using sid by (simp add: length_header_binding_bytes h_def valid_session_id_def)
  show ?thesis
  proof (cases "write_message (dt_state (es_transport s)) q (header_binding_bytes h @ p)
      (length p + 67)")
    case None
    then show ?thesis
      by (simp add: seal_packet_def h encrypt_def hl AEAD_TAG_LENGTH_def add.commute)
  next
    case (Some c)
    then have cl: "length c = length p + 67"
      using tag hl unfolding tag_length_law_def by fastforce
    define m where "m = \<lparr>dm_session_id = session_id (es_metadata s),
      dm_direction = es_send_direction s, dm_sequence = q, dm_ciphertext = c\<rparr>"
    have mh: "data_header_of m = h" by (simp add: data_header_of_def m_def h_def cl)
    have ok: "data_message_ok codec m"
      using assms cl
      by (simp add: data_message_ok_def m_def valid_session_id_def data_codec_ok_def Suc_le_eq)
    have room: "51 + length (dm_ciphertext m)
        \<le> length (replicate (dc_maximum_datagram_length codec) (0::u8))"
      using codec len cl by (simp add: m_def data_codec_ok_def)
    have enc: "encode_data codec h c (replicate (dc_maximum_datagram_length codec) 0) = Some
        (Ok (51 + length c), data_wire m @ drop (51 + length c)
          (replicate (dc_maximum_datagram_length codec) 0))"
      using encode_data_ok [OF codec ok room] by (simp add: mh) (simp add: m_def)
    have "seal_packet codec s q p = Ok (data_wire m)"
      using length_data_wire [OF ok] Some
      by (simp add: seal_packet_def h encrypt_def hl AEAD_TAG_LENGTH_def add.commute enc)
        (simp add: m_def)
    then show ?thesis using ok Some mh by (auto simp: m_def)
  qed
qed

text \<open>
  What an accepted datagram is: the canonical frame of a message for this session and this
  direction whose ciphertext authenticates and carries the frame's own header.
\<close>

definition authentic :: "DataFrameCodec \<Rightarrow> session \<Rightarrow> bytes \<Rightarrow> u64 \<Rightarrow> bytes \<Rightarrow> bool" where
  "authentic codec s datagram q p \<longleftrightarrow> (\<exists>m. datagram = data_wire m \<and> data_message_ok codec m \<and>
     dm_session_id m = session_id (es_metadata s) \<and> dm_direction m = es_receive_direction s \<and>
     dm_sequence m = q \<and>
     read_message (dt_state (es_transport s)) q (dm_ciphertext m) (length (dm_ciphertext m))
       = Some (header_binding_bytes (data_header_of m) @ p))"

lemma authentic_fixed:
  assumes "fixed_part s = fixed_part s'"
  shows "authentic c s dg q p = authentic c s' dg q p"
  unfolding authentic_def fixed_partD [OF assms] ..

lemma decrypt_Plaintext:
  assumes "length hb = 51"
  shows "decrypt tr q hb c = Plaintext p \<longleftrightarrow> read_message (dt_state tr) q c (length c) = Some (hb @ p)"
proof
  assume "decrypt tr q hb c = Plaintext p"
  then obtain r where "read_message (dt_state tr) q c (length c) = Some r" "take 51 r = hb" "drop 51 r = p"
    by (auto simp: decrypt_def DATA_HEADER_LENGTH_def split: option.splits if_splits)
  then show "read_message (dt_state tr) q c (length c) = Some (hb @ p)"
    by (metis append_take_drop_id)
qed (use assms in \<open>simp add: decrypt_def DATA_HEADER_LENGTH_def\<close>)

lemma open_datagram_iff:
  assumes codec: "data_codec_ok codec"
  shows "open_datagram codec s dg src = Some (q, p) \<longleftrightarrow>
    src = es_peer_endpoint s \<and> may_attempt (es_replay_window s) q = Acceptable \<and>
    authentic codec s dg q p"
proof (cases "decode_data codec dg")
  case (Inl e)
  have "\<not> authentic codec s dg q p"
    using Inl decode_data_wire [OF codec] by (auto simp: authentic_def)
  then show ?thesis by (simp add: open_datagram_def Inl)
next
  case (Inr f)
  let ?m = "data_message_of f"
  have ok: "data_message_ok codec ?m" and dg: "dg = data_wire ?m" and
    hd: "dd_header f = data_header_of ?m"
    using decode_data_okD [OF codec Inr] by auto
  have hl: "length (header_binding_bytes (data_header_of ?m)) = 51"
    using ok by (simp add: length_header_binding_bytes data_message_ok_def data_header_of_def)
  have len: "length dg \<le> dc_maximum_datagram_length codec"
    using length_data_wire [OF ok] ok codec dg
    by (simp add: data_message_ok_def data_codec_ok_def)
  have uniq: "m = ?m" if "dg = data_wire m" "data_message_ok codec m" for m
    using decode_data_wire [OF codec that(2)] that(1) Inr
    by (cases m) (auto simp: data_message_of_def data_header_of_def)
  have auth: "authentic codec s dg q p \<longleftrightarrow>
      dm_session_id ?m = session_id (es_metadata s) \<and> dm_direction ?m = es_receive_direction s \<and>
      dm_sequence ?m = q \<and> read_message (dt_state (es_transport s)) q (dm_ciphertext ?m)
        (length (dm_ciphertext ?m)) = Some (header_binding_bytes (data_header_of ?m) @ p)"
    using uniq ok dg unfolding authentic_def by metis
  have ct: "dd_ciphertext f = dm_ciphertext ?m" by (simp add: data_message_of_def)
  have fields: "dh_session_id (data_header_of ?m) = dm_session_id ?m"
    "dh_direction (data_header_of ?m) = dm_direction ?m"
    "dh_sequence (data_header_of ?m) = dm_sequence ?m"
    by (simp_all add: data_header_of_def)
  show ?thesis
    using len unfolding auth
    by (auto simp: open_datagram_def Inr hd ct Let_def fields decrypt_Plaintext [OF hl, symmetric]
        split: ReplayDecision.splits DecryptOutcome.splits)
qed

section \<open>Abstract behaviour of a session\<close>

text \<open>
  The specification: a counter of the next sequence number to send, and the set of sequence
  numbers accepted so far. A step sends under the counter and advances it, or accepts a number
  that was never accepted before, with the packet delivered if it was delivered.
\<close>

datatype Label = Quiet | Sent u64 bytes | Accepted u64 "bytes option"

inductive spec_step :: "nat \<times> u64 set \<Rightarrow> Label \<Rightarrow> nat \<times> u64 set \<Rightarrow> bool" where
  quiet: "spec_step (n, A) Quiet (n, A)"
| skip: "n < 2 ^ 64 - 1 \<Longrightarrow> spec_step (n, A) Quiet (Suc n, A)"
| send: "n < 2 ^ 64 - 1 \<Longrightarrow> unat q = n \<Longrightarrow> spec_step (n, A) (Sent q p) (Suc n, A)"
| accept: "q \<notin> A \<Longrightarrow> spec_step (n, A) (Accepted q p) (n, insert q A)"

inductive_cases spec_step_QuietE: "spec_step st Quiet st'"
inductive_cases spec_step_SentE: "spec_step st (Sent q p) st'"
inductive_cases spec_step_AcceptedE: "spec_step st (Accepted q p) st'"

inductive spec_run :: "nat \<times> u64 set \<Rightarrow> Label list \<Rightarrow> nat \<times> u64 set \<Rightarrow> bool" where
  stop: "spec_run st [] st"
| more: "spec_step st l st1 \<Longrightarrow> spec_run st1 ls st2 \<Longrightarrow> spec_run st (l # ls) st2"

fun sent_log :: "Label list \<Rightarrow> (u64 \<times> bytes) list" where
  "sent_log [] = []"
| "sent_log (Sent q p # ls) = (q, p) # sent_log ls"
| "sent_log (_ # ls) = sent_log ls"

fun accepted_log :: "Label list \<Rightarrow> u64 list" where
  "accepted_log [] = []"
| "accepted_log (Accepted q p # ls) = q # accepted_log ls"
| "accepted_log (_ # ls) = accepted_log ls"

fun delivered_log :: "Label list \<Rightarrow> (u64 \<times> bytes) list" where
  "delivered_log [] = []"
| "delivered_log (Accepted q (Some p) # ls) = (q, p) # delivered_log ls"
| "delivered_log (_ # ls) = delivered_log ls"

lemma spec_run_sent:
  "spec_run st ls st' \<Longrightarrow>
   sorted_wrt (<) (map (unat \<circ> fst) (sent_log ls)) \<and> (\<forall>x \<in> set (sent_log ls). fst st \<le> unat (fst x))"
proof (induction rule: spec_run.induct)
  case (more st l st1 ls st2)
  then show ?case by (induction rule: spec_step.induct) force+
qed simp

lemma spec_run_sent_bound:
  "spec_run st ls st' \<Longrightarrow> x \<in> set (sent_log ls) \<Longrightarrow> unat (fst x) < 2 ^ 64 - 1"
proof (induction rule: spec_run.induct)
  case (more st l st1 ls st2)
  from more(1) more(3,4) show ?case by (induction rule: spec_step.induct) auto
qed simp

lemma spec_run_accepted:
  "spec_run st ls st' \<Longrightarrow> distinct (accepted_log ls) \<and> set (accepted_log ls) \<inter> snd st = {} \<and>
   snd st' = snd st \<union> set (accepted_log ls)"
proof (induction rule: spec_run.induct)
  case (more st l st1 ls st2)
  then show ?case by (induction rule: spec_step.induct) auto
qed simp

lemma delivered_log_accepted:
  "set (map fst (delivered_log ls)) \<subseteq> set (accepted_log ls) \<and>
   (distinct (accepted_log ls) \<longrightarrow> distinct (map fst (delivered_log ls)))"
  by (induction ls rule: delivered_log.induct) auto

section \<open>The loop implements the specification\<close>

definition session_rel :: "session \<Rightarrow> nat \<times> u64 set \<Rightarrow> bool" where
  "session_rel s st \<longleftrightarrow> fst st = unat (es_next_send_sequence s) \<and> 0 < fst st \<and>
     window_rel (es_replay_window s) (snd st)"

lemma session_rel_lifetime [simp]: "session_rel (s\<lparr>es_lifetime := l\<rparr>) st = session_rel s st"
  by (simp add: session_rel_def)

lemma session_rel_client:
  "session_rel (EstablishedDataSession_client metadata endpoint transport lifetime) (1, {})"
  by (simp add: session_rel_def EstablishedDataSession_client_def FIRST_SEQUENCE_def
      replay.rel_initial)

lemma session_rel_server:
  "session_rel (EstablishedDataSession_server metadata endpoint transport lifetime) (1, {})"
  by (simp add: session_rel_def EstablishedDataSession_server_def FIRST_SEQUENCE_def
      replay.rel_initial)

text \<open>What a label says about the event and the writes of an iteration.\<close>

fun explains :: "DataFrameCodec \<Rightarrow> session \<Rightarrow> Event \<Rightarrow> Label \<Rightarrow> Effect list \<Rightarrow> bool" where
  "explains codec s ev Quiet eff \<longleftrightarrow> eff = []"
| "explains codec s ev (Sent q p) eff \<longleftrightarrow> (\<exists>dg t sent t'. ev = TunRead (Some p) t sent t' \<and>
     0 < length p \<and> length p \<le> dc_maximum_plaintext_payload codec \<and>
     seal_packet codec s q p = Ok dg \<and> eff = [SendTo dg (es_peer_endpoint s)])"
| "explains codec s ev (Accepted q d) eff \<longleftrightarrow> (\<exists>dg t w t' p.
     ev = UdpReceived (Some (dg, es_peer_endpoint s)) t w t' \<and> authentic codec s dg q p \<and>
     (d = None \<and> eff = [] \<or> d = Some p \<and> eff = [WriteTun p]))"

lemma explains_fixed:
  assumes "fixed_part s = fixed_part s'"
  shows "explains codec s ev l eff = explains codec s' ev l eff"
  by (cases l) (simp_all add: seal_packet_fixed [OF assms] authentic_fixed [OF assms]
      fixed_partD(2) [OF assms])

text \<open>The writes a label stands for.\<close>

fun label_effects :: "DataFrameCodec \<Rightarrow> session \<Rightarrow> Label \<Rightarrow> Effect list" where
  "label_effects codec s Quiet = []"
| "label_effects codec s (Sent q p) = (case seal_packet codec s q p of
     Inl _ \<Rightarrow> [] | Inr dg \<Rightarrow> [SendTo dg (es_peer_endpoint s)])"
| "label_effects codec s (Accepted q d) = (case d of None \<Rightarrow> [] | Some p \<Rightarrow> [WriteTun p])"

lemma explains_effects: "explains codec s ev l eff \<Longrightarrow> eff = label_effects codec s l"
  by (cases l) auto

lemma label_effects_fixed:
  assumes "fixed_part s = fixed_part s'"
  shows "label_effects codec s l = label_effects codec s' l"
  by (cases l) (simp_all add: seal_packet_fixed [OF assms] fixed_partD(2) [OF assms]
      split: sum.split)

definition implements :: "DataFrameCodec \<Rightarrow> session \<Rightarrow> Event \<Rightarrow> iteration \<Rightarrow> bool" where
  "implements codec s ev r \<longleftrightarrow> (case r of (s', eff, fl) \<Rightarrow>
     fixed_part s' = fixed_part s \<and>
     (\<forall>st. session_rel s st \<longrightarrow>
        (\<exists>l st'. spec_step st l st' \<and> session_rel s' st' \<and> explains codec s ev l eff)))"

lemma implementsI:
  assumes "fixed_part s' = fixed_part s"
    and "\<And>st. session_rel s st \<Longrightarrow>
      \<exists>l st'. spec_step st l st' \<and> session_rel s' st' \<and> explains codec s ev l eff"
  shows "implements codec s ev (s', eff, fl)"
  unfolding implements_def prod.case using assms by blast

lemma implements_quiet:
  assumes "s' = s\<lparr>es_lifetime := l\<rparr>"
  shows "implements codec s ev (s', [], fl)"
proof (rule implementsI)
  fix st assume "session_rel s st"
  moreover have "spec_step st Quiet st" by (cases st) (simp add: spec_step.quiet)
  ultimately show "\<exists>l st'. spec_step st l st' \<and> session_rel s' st' \<and> explains codec s ev l []"
    using assms by (intro exI [of _ Quiet] exI [of _ st]) simp
qed (simp add: assms)

lemma same_session: "\<exists>l. s = s\<lparr>es_lifetime := l\<rparr>"
  by (rule exI [of _ "es_lifetime s"]) simp

lemma on_recorded_eq:
  "\<exists>l fl. on_recorded eff (session_record_success s d n t) = (s\<lparr>es_lifetime := l\<rparr>, eff, fl)"
  by (auto simp: on_recorded_def session_record_success_def apfst_def map_prod_def
      split: prod.splits sum.splits)

lemma implements_send:
  assumes q: "unat (es_next_send_sequence s) < 2 ^ 64 - 1"
    and s': "s' = s\<lparr>es_next_send_sequence := es_next_send_sequence s + 1, es_lifetime := l\<rparr>"
    and eff: "eff = [] \<or> explains codec s ev (Sent (es_next_send_sequence s) p) eff"
  shows "implements codec s ev (s', eff, fl)"
proof (rule implementsI)
  show "\<exists>l st'. spec_step st l st' \<and> session_rel s' st' \<and> explains codec s ev l eff"
    if rel: "session_rel s st" for st
  proof -
    obtain n A where st: "st = (n, A)" by (cases st)
    have n: "n = unat (es_next_send_sequence s)" "n < 2 ^ 64 - 1"
      using rel q by (auto simp: session_rel_def st)
    have rel': "session_rel s' (Suc n, A)"
      using rel n unat_u64_succ [OF q] by (simp add: session_rel_def st s')
    have "spec_step st Quiet (Suc n, A)" "spec_step st (Sent (es_next_send_sequence s) p) (Suc n, A)"
      using n by (auto simp: st intro: spec_step.skip spec_step.send)
    with eff rel' explains.simps(1) [of codec s ev] show ?thesis by blast
  qed
qed (simp add: s')

lemma transmit_eq:
  "\<exists>l fl. transmit codec p sent t' s q =
     (s\<lparr>es_lifetime := l\<rparr>, label_effects codec s (Sent q p), fl)"
  using on_recorded_eq [of _ s Outbound "word_of_nat (length p)" t']
  by (auto simp: transmit_def same_session split: sum.split option.split)

lemma handle_tun_implements:
  "implements codec s (TunRead (Some p) t sent t') (handle_tun codec s p t sent t')"
proof (cases "length p = 0 \<or> length p > dc_maximum_plaintext_payload codec")
  case True
  then show ?thesis using implements_quiet [of s "es_lifetime s" s] by (simp add: handle_tun_def)
next
  case len: False
  let ?q = "es_next_send_sequence s"
  obtain l r where perm: "session_permit s Outbound (word_of_nat (length p)) t
      = (s\<lparr>es_lifetime := l\<rparr>, r)"
    using session_permit_eq by blast
  let ?s1 = "s\<lparr>es_lifetime := l\<rparr>"
  have fwd: "implements codec s (TunRead (Some p) t sent t') (forward_outbound codec p sent t' ?s1)"
  proof (cases "unat ?q < 2 ^ 64 - 1")
    case True
    let ?s2 = "?s1\<lparr>es_next_send_sequence := ?q + 1\<rparr>"
    have eff: "label_effects codec ?s2 (Sent ?q p) = label_effects codec s (Sent ?q p)"
      by (rule label_effects_fixed) simp
    obtain l' fl where "transmit codec p sent t' ?s2 ?q =
        (?s2\<lparr>es_lifetime := l'\<rparr>, label_effects codec s (Sent ?q p), fl)"
      using transmit_eq [of codec p sent t' ?s2 ?q] unfolding eff by blast
    then show ?thesis
      using True len
      by (auto simp: forward_outbound_def allocate_send_sequence_ok split: sum.split
          intro!: implements_send [where l = l' and p = p])
  next
    case False
    then have "?q = - 1" using u64_bound [of ?q] by (simp add: word_unat_eq_iff unat_max_u64)
    then show ?thesis
      by (auto simp: forward_outbound_def allocate_send_sequence_exhausted intro!: implements_quiet)
  qed
  then show ?thesis
    using len perm
    by (auto simp: handle_tun_def on_decision_def intro!: implements_quiet
        split: sum.split SessionDecision.split)
qed

lemma implements_accept:
  assumes acc: "may_attempt (es_replay_window s) q = Acceptable"
    and s': "s' = s\<lparr>es_replay_window := fst (commit (es_replay_window s) q), es_lifetime := l\<rparr>"
    and ex: "explains codec s ev (Accepted q d) eff"
  shows "implements codec s ev (s', eff, fl)"
proof (rule implementsI)
  show "\<exists>l st'. spec_step st l st' \<and> session_rel s' st' \<and> explains codec s ev l eff"
    if rel: "session_rel s st" for st
  proof -
    obtain n A where st: "st = (n, A)" by (cases st)
    have w: "window_rel (es_replay_window s) A" using rel by (simp add: session_rel_def st)
    have "q \<notin> A" using may_attempt_fresh [OF w acc] .
    then have "spec_step st (Accepted q d) (n, insert q A)" by (simp add: st spec_step.accept)
    moreover have "session_rel s' (n, insert q A)"
      using rel commit_rel [OF w acc] by (simp add: session_rel_def st s')
    ultimately show ?thesis using ex by blast
  qed
qed (simp add: s')

lemma commit_acceptable:
  "may_attempt w q = Acceptable \<Longrightarrow> \<exists>w'. commit w q = (w', Ok ())"
  by (simp add: commit_def Let_def)

lemma deliver_eq: "\<exists>l fl. deliver p w t' s = (s\<lparr>es_lifetime := l\<rparr>, [WriteTun p], fl)"
  using on_recorded_eq [of _ s Inbound "word_of_nat (length p)" t']
  by (auto simp: deliver_def same_session)

lemma handle_udp_implements:
  assumes codec: "data_codec_ok codec"
  shows "implements codec s (UdpReceived (Some (dg, src)) t w t') (handle_udp codec s dg src t w t')"
proof (cases "open_datagram codec s dg src")
  case None
  then show ?thesis using implements_quiet [of s "es_lifetime s" s] by (simp add: handle_udp_def)
next
  case (Some qp)
  obtain q p where qp: "qp = (q, p)" by (cases qp)
  let ?ev = "UdpReceived (Some (dg, src)) t w t'"
  have src: "src = es_peer_endpoint s" and acc: "may_attempt (es_replay_window s) q = Acceptable"
    and auth: "authentic codec s dg q p"
    using Some open_datagram_iff [OF codec] by (simp_all add: qp)
  obtain w1 where commit: "commit (es_replay_window s) q = (w1, Ok ())"
    using commit_acceptable [OF acc] by blast
  let ?s1 = "s\<lparr>es_replay_window := w1\<rparr>"
  have none: "explains codec s ?ev (Accepted q None) []" and
    some: "explains codec s ?ev (Accepted q (Some p)) [WriteTun p]"
    using auth by (auto simp: src)
  have drop: "implements codec s ?ev (?s1\<lparr>es_lifetime := l\<rparr>, [], fl)" for l fl
    by (rule implements_accept [OF acc _ none, of _ l]) (simp add: commit)
  have del: "implements codec s ?ev (?s1\<lparr>es_lifetime := l\<rparr>, [WriteTun p], fl)" for l fl
    by (rule implements_accept [OF acc _ some, of _ l]) (simp add: commit)
  have drop': "implements codec s ?ev (?s1, [], fl)" for fl
    using drop [of "es_lifetime s" fl] by simp
  obtain l r where perm: "session_permit ?s1 Inbound (word_of_nat (length p)) t
      = (?s1\<lparr>es_lifetime := l\<rparr>, r)"
    using session_permit_eq by blast
  obtain l' fl where deliv: "deliver p w t' (?s1\<lparr>es_lifetime := l\<rparr>)
      = (?s1\<lparr>es_lifetime := l'\<rparr>, [WriteTun p], fl)"
    using deliver_eq [of p w t' "?s1\<lparr>es_lifetime := l\<rparr>"] by auto
  have "handle_udp codec s dg src t w t' = (if p = [] \<or> length p > dc_maximum_plaintext_payload codec
      then (?s1, [], Continue)
      else on_decision (?s1\<lparr>es_lifetime := l\<rparr>, r) (deliver p w t'))"
    using Some perm by (subst handle_udp_def) (simp add: qp commit Let_def)
  then show ?thesis
    using deliv drop drop' del
    by (simp add: on_decision_def split: sum.split SessionDecision.split)
qed

lemma select_event_implements:
  assumes "data_codec_ok codec"
  shows "implements codec s ev (select_event codec s ev)"
proof (cases ev)
  case (DeadlineElapsed now)
  obtain l r where "session_expire_if_due s now = (s\<lparr>es_lifetime := l\<rparr>, r)"
    using session_expire_eq by blast
  then show ?thesis
    by (auto simp: select_event_def DeadlineElapsed on_decision_def intro!: implements_quiet
        split: sum.split SessionDecision.split)
next
  case CtrlC
  then show ?thesis using implements_quiet [of s "es_lifetime s" s] by (simp add: select_event_def)
next
  case (TunRead packet t sent t')
  then show ?thesis
    using implements_quiet [of s "es_lifetime s" s] handle_tun_implements
    by (cases packet) (simp_all add: select_event_def)
next
  case (UdpReceived received t w t')
  then show ?thesis
    using implements_quiet [of s "es_lifetime s" s] handle_udp_implements [OF assms]
    by (cases received) (auto simp: select_event_def)
qed

lemma iterate_implements:
  assumes "data_codec_ok codec"
  shows "implements codec s (snd ne) (iterate codec s ne)"
proof -
  obtain l r where ex: "session_expire_if_due s (fst ne) = (s\<lparr>es_lifetime := l\<rparr>, r)"
    using session_expire_eq by blast
  have "implements codec s (snd ne) (select_event codec (s\<lparr>es_lifetime := l\<rparr>) (snd ne))"
    using select_event_implements [OF assms, of "s\<lparr>es_lifetime := l\<rparr>" "snd ne"]
      explains_fixed [of "s\<lparr>es_lifetime := l\<rparr>" s codec "snd ne"]
    by (simp add: implements_def split: prod.splits)
  then show ?thesis
    by (auto simp: iterate_def ex on_decision_def intro!: implements_quiet
        split: sum.split SessionDecision.split option.split)
qed

text \<open>
  Any run of the loop is a run of the specification; its labels account for all the writes of the
  run, each by an event of the run.
\<close>

lemma run_loop_refines:
  "data_codec_ok codec \<Longrightarrow> run_loop codec s events = (s', effs, fl) \<Longrightarrow> session_rel s st \<Longrightarrow>
    fixed_part s' = fixed_part s \<and>
    (\<exists>ls st'. spec_run st ls st' \<and> session_rel s' st' \<and>
      effs = concat (map (label_effects codec s) ls) \<and>
      list_all2 (\<lambda>l ne. explains codec s (snd ne) l (label_effects codec s l))
        ls (take (length ls) events))"
proof (induction codec s events arbitrary: s' effs fl st rule: run_loop.induct)
  case (1 codec s)
  then show ?case
    by (intro conjI exI [of _ "[]"] exI [of _ st]) (auto intro: spec_run.stop)
next
  case (2 codec s ne events)
  obtain s1 eff1 fl1 where it: "iterate codec s ne = (s1, eff1, fl1)" by (cases "iterate codec s ne")
  have "implements codec s (snd ne) (s1, eff1, fl1)"
    using iterate_implements [OF \<open>data_codec_ok codec\<close>, of s ne] by (simp add: it)
  then obtain l st1 where fp: "fixed_part s1 = fixed_part s" and step: "spec_step st l st1"
    and rel1: "session_rel s1 st1" and ex: "explains codec s (snd ne) l eff1"
    using 2(4) unfolding implements_def prod.case by blast
  note eff1 = explains_effects [OF ex]
  show ?case
  proof (cases "fl1 = Continue")
    case True
    obtain effs1 where rest: "run_loop codec s1 events = (s', effs1, fl)" and effs: "effs = eff1 @ effs1"
      using 2(3) True by (auto simp: it apsnd_def apfst_def map_prod_def split: prod.splits)
    obtain ls st' where r: "spec_run st1 ls st'" "session_rel s' st'"
      and e: "effs1 = concat (map (label_effects codec s1) ls)"
      and x: "list_all2 (\<lambda>l ne. explains codec s1 (snd ne) l (label_effects codec s1 l))
        ls (take (length ls) events)"
      and fp': "fixed_part s' = fixed_part s1"
      using 2(1) [OF it [symmetric] _ _ 2(2) rest rel1] True by blast
    have a: "spec_run st (l # ls) st'" using step r(1) by (rule spec_run.more)
    have b: "effs = concat (map (label_effects codec s) (l # ls))"
      using effs eff1 e by (simp add: label_effects_fixed [OF fp] cong: map_cong)
    have c: "list_all2 (\<lambda>l ne. explains codec s (snd ne) l (label_effects codec s l))
        (l # ls) (take (length (l # ls)) (ne # events))"
      using x ex eff1 by (simp add: label_effects_fixed [OF fp] explains_fixed [OF fp])
    show ?thesis
      by (intro conjI exI [of _ "l # ls"] exI [of _ st'] a b c r(2)) (simp add: fp fp')
  next
    case False
    then have "s' = s1 \<and> effs = eff1"
      using 2(3) by (cases fl1) (auto simp: it)
    moreover have "spec_run st [l] st1" using step by (blast intro: spec_run.intros)
    ultimately show ?thesis
      using fp rel1 ex eff1 by (intro conjI exI [of _ "[l]"] exI [of _ st1]) auto
  qed
qed

section \<open>Reading a run\<close>

fun tun_writes :: "Effect list \<Rightarrow> bytes list" where
  "tun_writes [] = []"
| "tun_writes (WriteTun p # es) = p # tun_writes es"
| "tun_writes (SendTo _ _ # es) = tun_writes es"

fun datagrams_sent :: "Effect list \<Rightarrow> bytes list" where
  "datagrams_sent [] = []"
| "datagrams_sent (SendTo dg _ # es) = dg # datagrams_sent es"
| "datagrams_sent (WriteTun _ # es) = datagrams_sent es"

fun tun_reads :: "(instant \<times> Event) list \<Rightarrow> bytes list" where
  "tun_reads [] = []"
| "tun_reads ((_, TunRead (Some p) _ _ _) # es) = p # tun_reads es"
| "tun_reads (_ # es) = tun_reads es"

fun datagrams_received :: "(instant \<times> Event) list \<Rightarrow> bytes list" where
  "datagrams_received [] = []"
| "datagrams_received ((_, UdpReceived (Some (dg, _)) _ _ _) # es) = dg # datagrams_received es"
| "datagrams_received (_ # es) = datagrams_received es"

text \<open>The sequence number of a datagram, as the receiver decodes it.\<close>

definition datagram_sequence :: "DataFrameCodec \<Rightarrow> bytes \<Rightarrow> u64 option" where
  "datagram_sequence codec dg = (case decode_data codec dg of
     Inl _ \<Rightarrow> None | Inr f \<Rightarrow> Some (dh_sequence (dd_header f)))"

lemma tun_writes_append [simp]: "tun_writes (a @ b) = tun_writes a @ tun_writes b"
  by (induction a rule: tun_writes.induct) auto

lemma datagrams_sent_append [simp]: "datagrams_sent (a @ b) = datagrams_sent a @ datagrams_sent b"
  by (induction a rule: datagrams_sent.induct) auto

lemma tun_writes_labels:
  "tun_writes (concat (map (label_effects codec s) ls)) = map snd (delivered_log ls)"
  by (induction ls rule: delivered_log.induct) (auto split: sum.split)

lemma datagrams_sent_labels:
  assumes "\<forall>(q, p) \<in> set (sent_log ls). \<exists>dg. seal_packet codec s q p = Ok dg"
  shows "map Ok (datagrams_sent (concat (map (label_effects codec s) ls)))
    = map (\<lambda>(q, p). seal_packet codec s q p) (sent_log ls)"
  using assms by (induction ls rule: sent_log.induct) (auto split: option.split)

lemma sent_log_explained:
  "list_all2 (\<lambda>l ne. explains codec s (snd ne) l (label_effects codec s l)) ls evs \<Longrightarrow>
   (\<forall>(q, p) \<in> set (sent_log ls). \<exists>dg. seal_packet codec s q p = Ok dg \<and> 0 < length p \<and>
      length p \<le> dc_maximum_plaintext_payload codec) \<and>
   mset (map snd (sent_log ls)) \<subseteq># mset (tun_reads evs)"
proof (induction ls evs rule: list_all2_induct)
  case (Cons l ls ne evs)
  have mono: "mset (tun_reads evs) \<subseteq># mset (tun_reads (ne # evs))"
    by (cases "ne # evs" rule: tun_reads.cases) auto
  show ?case
  proof (cases l)
    case (Sent q p)
    then obtain n t sent t' where "ne = (n, TunRead (Some p) t sent t')"
      using Cons(1) by (cases ne) auto
    then show ?thesis using Cons Sent by auto
  qed (use Cons mono in \<open>auto intro: subset_mset.order_trans\<close>)
qed simp

lemma delivered_log_explained:
  "list_all2 (\<lambda>l ne. explains codec s (snd ne) l (label_effects codec s l)) ls evs \<Longrightarrow>
   \<forall>(q, p) \<in> set (delivered_log ls). \<exists>dg \<in> set (datagrams_received evs). authentic codec s dg q p"
proof (induction ls evs rule: list_all2_induct)
  case (Cons l ls ne evs)
  have mono: "set (datagrams_received evs) \<subseteq> set (datagrams_received (ne # evs))"
    by (cases "ne # evs" rule: datagrams_received.cases) auto
  show ?case
  proof (cases "\<exists>q p. l = Accepted q (Some p)")
    case True
    then obtain q p where l: "l = Accepted q (Some p)" by blast
    then obtain n dg src t w t' where "ne = (n, UdpReceived (Some (dg, src)) t w t')"
      "authentic codec s dg q p"
      using Cons(1) by (cases ne) auto
    then show ?thesis using Cons(3) mono l by fastforce
  next
    case False
    then have "delivered_log (l # ls) = delivered_log ls"
      by (cases "l # ls" rule: delivered_log.cases) auto
    then show ?thesis using Cons(3) mono by fastforce
  qed
qed simp

lemma tun_reads_take: "mset (tun_reads (take n evs)) \<subseteq># mset (tun_reads evs)"
proof (induction evs arbitrary: n rule: tun_reads.induct)
  case (2 a p b c d es)
  then show ?case by (cases n) auto
qed (auto simp: take_Cons split: nat.split)

lemma datagrams_received_take: "set (datagrams_received (take n evs)) \<subseteq> set (datagrams_received evs)"
  by (induction evs arbitrary: n rule: datagrams_received.induct) (auto simp: take_Cons split: nat.splits)

section \<open>Limits and failures\<close>

text \<open>The failures that have a local cause; nothing a remote party sends is among them.\<close>

fun local_failure :: "RunError \<Rightarrow> bool" where
  "local_failure (LifetimeFailure (CounterOverflow _ _)) = True"
| "local_failure (LifetimeFailure DeadlineOverflow) = True"
| "local_failure ReadTunFailed = True"
| "local_failure (EncryptFailed _) = True"
| "local_failure SendFailed = True"
| "local_failure (PartialSend _ _) = True"
| "local_failure ReceiveFailed = True"
| "local_failure WriteTunFailed = True"
| "local_failure _ = False"

fun orderly :: "Flow \<Rightarrow> bool" where
  "orderly Continue = True"
| "orderly (ControlledClose _) = True"
| "orderly (Failed e) = local_failure e"
| "orderly Panicked = False"

definition session_ok :: "session \<Rightarrow> bool" where
  "session_ok s \<longleftrightarrow> valid_session_id (session_id (es_metadata s)) \<and> lifetime_ok (es_lifetime s) \<and>
     es_next_send_sequence s \<noteq> 0 \<and> tag_length_law (dt_state (es_transport s))"

definition outcome_ok :: "session \<Rightarrow> iteration \<Rightarrow> bool" where
  "outcome_ok s r \<longleftrightarrow> (case r of (s', eff, fl) \<Rightarrow> session_ok s' \<and> orderly fl \<and>
     sl_limits (es_lifetime s') = sl_limits (es_lifetime s))"

lemma counters_next_Err: "counters_next c n = Err e \<Longrightarrow> \<exists>a b. e = CounterOverflow a b"
  by (auto simp: counters_next_def and_then_def ok_or_def split: sum.splits option.splits)

lemma expire_Err: "expire_if_due l t = (l', Err e) \<Longrightarrow> e = DeadlineOverflow"
  by (auto simp: expire_if_due_def close_def split: SessionLifetimeState.splits option.splits if_splits)

lemma within_limits_no_Err: "within_limits l d c \<noteq> (l', Err e)"
  by (auto simp: within_limits_def close_def split: TrafficDirection.split SessionLifetimeState.split)

lemma permit_Err: "permit l d n t = (l', Err e) \<Longrightarrow> local_failure (LifetimeFailure e)"
  by (auto simp: permit_def within_limits_no_Err split: prod.splits sum.splits SessionDecision.splits
      dest: counters_next_Err expire_Err)

lemma outcome_ok_stay: "session_ok s \<Longrightarrow> orderly fl \<Longrightarrow> outcome_ok s (s, eff, fl)"
  by (simp add: outcome_ok_def)

lemma decided_session_ok:
  "decided (es_lifetime s) l \<Longrightarrow> session_ok (s\<lparr>es_lifetime := l\<rparr>) = session_ok s \<and>
   sl_limits l = sl_limits (es_lifetime s)"
  using decided_ok by (auto simp: session_ok_def decided_def)

lemma on_decision_permit_ok:
  assumes "session_ok s"
    and "\<And>l. permit (es_lifetime s) d n t = (l, Ok Permit) \<Longrightarrow> outcome_ok s (k s)"
  shows "outcome_ok s (on_decision (session_permit s d n t) k)"
proof (cases "permit (es_lifetime s) d n t")
  case (Pair l r)
  have l: "session_ok (s\<lparr>es_lifetime := l\<rparr>)" "sl_limits l = sl_limits (es_lifetime s)"
    using decided_session_ok [of s l] permit_decided [of "es_lifetime s" d n t] assms(1) Pair by auto
  show ?thesis
  proof (cases "r = Ok Permit")
    case True
    then have "l = es_lifetime s" using Pair by (simp add: permit_Permit)
    then show ?thesis using assms(2) Pair True by (simp add: on_decision_def session_permit_def)
  next
    case False
    then show ?thesis
      using l Pair permit_Err [of "es_lifetime s" d n t l]
      by (auto simp: on_decision_def session_permit_def outcome_ok_def
          split: sum.splits SessionDecision.splits)
  qed
qed

lemma on_recorded_ok:
  assumes "session_ok s" and "permit (es_lifetime s) d n t = (l, Ok Permit)"
  shows "outcome_ok s (on_recorded eff (session_record_success s d n t'))"
proof -
  have "lifetime_ok (es_lifetime s)" using assms(1) by (simp add: session_ok_def)
  from permit_record [OF this assms(2), of t'] assms(2) obtain l2 where
    "record_success (es_lifetime s) d n t' = (l2, Ok ())" "lifetime_ok l2"
    "sl_limits l2 = sl_limits (es_lifetime s)"
    by (auto simp: permit_Permit)
  then show ?thesis
    using assms(1) by (simp add: on_recorded_def session_record_success_def outcome_ok_def session_ok_def)
qed

lemma session_ok_update [simp]:
  "session_ok (s\<lparr>es_replay_window := w\<rparr>) = session_ok s"
  by (simp add: session_ok_def)

lemma transmit_ok:
  assumes codec: "data_codec_ok codec" and s: "session_ok s" and q: "sequence_ok q"
    and len: "0 < length p" "length p \<le> dc_maximum_plaintext_payload codec"
    and perm: "permit (es_lifetime s) Outbound (word_of_nat (length p)) t = (l, Ok Permit)"
  shows "outcome_ok s (transmit codec p sent t' s q)"
proof -
  have "(\<exists>dg. seal_packet codec s q p = Ok dg)
      \<or> seal_packet codec s q p = Err (Failed (EncryptFailed Encrypt))"
    using seal_packet_ok [OF codec _ q len] s by (auto simp: session_ok_def)
  then show ?thesis
    using on_recorded_ok [OF s perm] s
    by (auto simp: transmit_def outcome_ok_stay split: option.split)
qed

lemma sequence_ok_iff: "sequence_ok q \<longleftrightarrow> 0 < unat q \<and> unat q < 2 ^ 64 - 1"
proof -
  have "unat MAX_SEQUENCE = 2 ^ 64 - 2" by (simp add: MAX_SEQUENCE_def)
  then show ?thesis
    by (auto simp: sequence_ok_def word_less_nat_alt unat_gt_0 not_less)
qed

lemma handle_tun_ok:
  assumes codec: "data_codec_ok codec" and s: "session_ok s"
  shows "outcome_ok s (handle_tun codec s p t sent t')"
proof (cases "length p = 0 \<or> length p > dc_maximum_plaintext_payload codec")
  case True
  then show ?thesis using s by (simp add: handle_tun_def outcome_ok_def)
next
  case len: False
  let ?q = "es_next_send_sequence s"
  have "outcome_ok s (forward_outbound codec p sent t' s)"
    if perm: "permit (es_lifetime s) Outbound (word_of_nat (length p)) t = (l, Ok Permit)" for l
  proof (cases "unat ?q < 2 ^ 64 - 1")
    case True
    let ?s2 = "s\<lparr>es_next_send_sequence := ?q + 1\<rparr>"
    have "?q + 1 \<noteq> 0" using unat_u64_succ [OF True] by (metis add_is_0 unat_0 zero_neq_one)
    then have s2: "session_ok ?s2" using s by (simp add: session_ok_def)
    have q: "sequence_ok ?q" using True s by (simp add: sequence_ok_iff session_ok_def unat_gt_0)
    have "outcome_ok ?s2 (transmit codec p sent t' ?s2 ?q)"
      using len perm by (intro transmit_ok [OF codec s2 q, where l = l]) auto
    then show ?thesis
      using True by (simp add: forward_outbound_def allocate_send_sequence_ok outcome_ok_def)
  next
    case False
    then have "?q = - 1" using u64_bound [of ?q] by (simp add: word_unat_eq_iff unat_max_u64)
    then show ?thesis
      using s by (simp add: forward_outbound_def allocate_send_sequence_exhausted outcome_ok_def)
  qed
  then show ?thesis using len by (simp add: handle_tun_def on_decision_permit_ok [OF s])
qed

lemma handle_udp_ok:
  assumes codec: "data_codec_ok codec" and s: "session_ok s"
  shows "outcome_ok s (handle_udp codec s dg src t w t')"
proof (cases "open_datagram codec s dg src")
  case None
  then show ?thesis using s by (simp add: handle_udp_def outcome_ok_def)
next
  case (Some qp)
  obtain q p where qp: "qp = (q, p)" by (cases qp)
  have acc: "may_attempt (es_replay_window s) q = Acceptable"
    using Some open_datagram_iff [OF codec] by (simp add: qp)
  then obtain w1 where commit: "commit (es_replay_window s) q = (w1, Ok ())"
    using commit_acceptable by blast
  let ?s1 = "s\<lparr>es_replay_window := w1\<rparr>"
  have s1: "session_ok ?s1" using s by simp
  have "outcome_ok ?s1 (deliver p w t' ?s1)"
    if "permit (es_lifetime ?s1) Inbound (word_of_nat (length p)) t = (l, Ok Permit)" for l
    using on_recorded_ok [OF s1 that] s1 by (simp add: deliver_def outcome_ok_def)
  then have "outcome_ok ?s1 (on_decision (session_permit ?s1 Inbound (word_of_nat (length p)) t)
      (deliver p w t'))"
    by (rule on_decision_permit_ok [OF s1])
  then show ?thesis
    using Some s commit by (simp add: handle_udp_def qp Let_def outcome_ok_def)
qed

lemma on_decision_expire_ok:
  assumes "session_ok s" and "outcome_ok s (k s)"
  shows "outcome_ok s (on_decision (session_expire_if_due s t) k)"
proof (cases "expire_if_due (es_lifetime s) t")
  case (Pair l r)
  have l: "session_ok (s\<lparr>es_lifetime := l\<rparr>)" "sl_limits l = sl_limits (es_lifetime s)"
    using decided_session_ok [of s l] expire_if_due_decided [of "es_lifetime s" t] assms(1) Pair by auto
  show ?thesis
  proof (cases "r = Ok Permit")
    case True
    then have "l = es_lifetime s" using Pair by (simp add: expire_if_due_Permit)
    then show ?thesis using assms(2) Pair True by (simp add: on_decision_def session_expire_if_due_def)
  next
    case False
    then show ?thesis
      using l Pair expire_Err [of "es_lifetime s" t l]
      by (auto simp: on_decision_def session_expire_if_due_def outcome_ok_def
          split: sum.splits SessionDecision.splits)
  qed
qed

lemma select_event_ok:
  assumes "data_codec_ok codec" and "session_ok s"
  shows "outcome_ok s (select_event codec s ev)"
  using handle_tun_ok [OF assms] handle_udp_ok [OF assms]
    on_decision_expire_ok [OF assms(2), of "\<lambda>s. (s, [], Continue)"]
  by (auto simp: select_event_def outcome_ok_stay assms split: Event.split option.split)

lemma iterate_ok:
  assumes "data_codec_ok codec" and "session_ok s"
  shows "outcome_ok s (iterate codec s ne)"
proof (cases "expire_if_due (es_lifetime s) (fst ne)")
  case (Pair l r)
  show ?thesis
  proof (cases "r = Ok Permit")
    case True
    then have "next_deadline (es_lifetime s) = Ok (Some (sl_last_successful_activity (es_lifetime s)
        + idle_timeout (sl_limits (es_lifetime s))))" and "l = es_lifetime s"
      using Pair by (auto simp: expire_if_due_Permit next_deadline_def)
    then show ?thesis
      using select_event_ok [OF assms, of "snd ne"] Pair True
      by (simp add: iterate_def on_decision_def session_expire_if_due_def session_next_deadline_def)
  next
    case False
    have "iterate codec s ne = on_decision (session_expire_if_due s (fst ne)) (\<lambda>s. (s, [], Continue))"
      using Pair False
      by (auto simp: iterate_def on_decision_def session_expire_if_due_def
          split: sum.split SessionDecision.split)
    then show ?thesis
      using on_decision_expire_ok [OF assms(2), of "\<lambda>s. (s, [], Continue)"] assms(2)
      by (simp add: outcome_ok_def)
  qed
qed

lemma run_loop_ok:
  "data_codec_ok codec \<Longrightarrow> session_ok s \<Longrightarrow> outcome_ok s (run_loop codec s events)"
proof (induction codec s events rule: run_loop.induct)
  case (2 codec s ne events)
  obtain s1 eff1 fl1 where it: "iterate codec s ne = (s1, eff1, fl1)" by (cases "iterate codec s ne")
  have ok: "outcome_ok s (s1, eff1, fl1)" using iterate_ok [OF 2(2,3), of ne] it by simp
  show ?case
  proof (cases "fl1 = Continue")
    case True
    then have "outcome_ok s1 (run_loop codec s1 events)"
      using 2(1) [OF it [symmetric] _ _ 2(2)] ok by (simp add: outcome_ok_def)
    then show ?thesis
      using True ok by (auto simp: it outcome_ok_def split: prod.splits)
  next
    case False
    then show ?thesis using ok by (cases fl1) (simp_all add: it)
  qed
qed (simp add: outcome_ok_def)

section \<open>Properties of a run\<close>

definition fresh_session :: "session \<Rightarrow> bool" where
  "fresh_session s \<longleftrightarrow> es_next_send_sequence s = FIRST_SEQUENCE \<and> es_replay_window s = ReplayWindow_new"

lemma fresh_session_new:
  "fresh_session (EstablishedDataSession_client metadata endpoint transport lifetime)"
  "fresh_session (EstablishedDataSession_server metadata endpoint transport lifetime)"
  by (simp_all add: fresh_session_def EstablishedDataSession_client_def EstablishedDataSession_server_def)

lemma fresh_session_rel: "fresh_session s \<Longrightarrow> session_rel s (1, {})"
  by (simp add: fresh_session_def session_rel_def FIRST_SEQUENCE_def replay.rel_initial)

text \<open>
  Everything the labels of a run from a fresh session tell: the packets sent and delivered with
  their sequence numbers.
\<close>

lemma run_logs:
  assumes codec: "data_codec_ok codec" and fresh: "fresh_session s"
    and run: "run mtu codec s events = (s', effects, fl)"
  obtains snt del where
    "sorted_wrt (<) (map (unat \<circ> fst) snt)"
    "\<forall>(q, p) \<in> set snt. sequence_ok q \<and> 0 < length p \<and> length p \<le> dc_maximum_plaintext_payload codec"
    "map Ok (datagrams_sent effects) = map (\<lambda>(q, p). seal_packet codec s q p) snt"
    "mset (map snd snt) \<subseteq># mset (tun_reads events)"
    "distinct (map fst del)" "tun_writes effects = map snd del"
    "\<forall>(q, p) \<in> set del. \<exists>dg \<in> set (datagrams_received events). authentic codec s dg q p"
proof (cases "mtu = dc_maximum_plaintext_payload codec")
  case False
  then have "effects = []" using run by (simp add: run_def)
  then show thesis using that [of "[]" "[]"] by simp
next
  case True
  then have "run_loop codec s events = (s', effects, fl)" using run by (simp add: run_def)
  from run_loop_refines [OF codec this fresh_session_rel [OF fresh]] obtain ls st' where
    sr: "spec_run (1, {}) ls st'" and eff: "effects = concat (map (label_effects codec s) ls)" and
    ex: "list_all2 (\<lambda>l ne. explains codec s (snd ne) l (label_effects codec s l))
      ls (take (length ls) events)"
    by blast
  have sent: "\<forall>(q, p) \<in> set (sent_log ls). \<exists>dg. seal_packet codec s q p = Ok dg"
    using sent_log_explained [OF ex] by fast
  show thesis
  proof (rule that [of "sent_log ls" "delivered_log ls"])
    show "sorted_wrt (<) (map (unat \<circ> fst) (sent_log ls))" using spec_run_sent [OF sr] by simp
    show "\<forall>(q, p) \<in> set (sent_log ls). sequence_ok q \<and> 0 < length p \<and>
        length p \<le> dc_maximum_plaintext_payload codec"
      using spec_run_sent [OF sr] spec_run_sent_bound [OF sr] sent_log_explained [OF ex]
      by (fastforce simp: sequence_ok_iff)
    show "map Ok (datagrams_sent effects) = map (\<lambda>(q, p). seal_packet codec s q p) (sent_log ls)"
      unfolding eff using sent by (rule datagrams_sent_labels)
    show "mset (map snd (sent_log ls)) \<subseteq># mset (tun_reads events)"
      using sent_log_explained [OF ex] tun_reads_take by (blast intro: subset_mset.order_trans)
    show "distinct (map fst (delivered_log ls))"
      using delivered_log_accepted spec_run_accepted [OF sr] by blast
    show "tun_writes effects = map snd (delivered_log ls)" by (simp add: eff tun_writes_labels)
    show "\<forall>(q, p) \<in> set (delivered_log ls).
        \<exists>dg \<in> set (datagrams_received events). authentic codec s dg q p"
      using delivered_log_explained [OF ex] datagrams_received_take by fast
  qed
qed

text \<open>
  The integrity of the AEAD, as an assumption about one run: a received frame whose ciphertext
  authenticates carries a ciphertext and a sequence number that the peer sent.
\<close>

definition unforged ::
  "DataFrameCodec \<Rightarrow> StatelessTransportState \<Rightarrow> Effect list \<Rightarrow> (instant \<times> Event) list \<Rightarrow> bool" where
  "unforged codec r effects events \<longleftrightarrow>
     (\<forall>dg \<in> set (datagrams_received events). \<forall>f. decode_data codec dg = Ok f \<longrightarrow>
        read_message r (dh_sequence (dd_header f)) (dd_ciphertext f) (length (dd_ciphertext f)) \<noteq> None
        \<longrightarrow> (\<exists>dg' \<in> set (datagrams_sent effects). \<exists>f'. decode_data codec dg' = Ok f' \<and>
              dh_sequence (dd_header f') = dh_sequence (dd_header f) \<and>
              dd_ciphertext f' = dd_ciphertext f))"

lemma distinct_subset_mset: "distinct xs \<Longrightarrow> set xs \<subseteq> set ys \<Longrightarrow> mset xs \<subseteq># mset ys"
  by (auto simp: subseteq_mset_def distinct_count_atmost_1)

lemma delivered_was_sent:
  assumes codec: "data_codec_ok codec"
    and sid: "valid_session_id (session_id (es_metadata a))"
    and tag: "tag_length_law (dt_state (es_transport a))"
    and law: "read_write_law (dt_state (es_transport a)) (dt_state (es_transport b))"
    and auth: "authentic codec b dg q p" and dg: "dg \<in> set (datagrams_received events)"
    and unf: "unforged codec (dt_state (es_transport b)) effects events"
    and snt: "map Ok (datagrams_sent effects) = map (\<lambda>(q, p). seal_packet codec a q p) snt"
      "\<forall>(q, p) \<in> set snt. sequence_ok q \<and> 0 < length p \<and> length p \<le> dc_maximum_plaintext_payload codec"
  shows "(q, p) \<in> set snt"
proof -
  obtain m where m: "dg = data_wire m" "data_message_ok codec m" "dm_sequence m = q"
    and rd: "read_message (dt_state (es_transport b)) q (dm_ciphertext m) (length (dm_ciphertext m))
       = Some (header_binding_bytes (data_header_of m) @ p)"
    using auth by (auto simp: authentic_def)
  obtain dg' f' where dg': "dg' \<in> set (datagrams_sent effects)" and f': "decode_data codec dg' = Ok f'"
    "dh_sequence (dd_header f') = q" "dd_ciphertext f' = dm_ciphertext m"
    using unf dg decode_data_wire [OF codec m(2)] rd m
    by (fastforce simp: unforged_def data_header_of_def)
  obtain q' p' where qp': "(q', p') \<in> set snt" and seal: "seal_packet codec a q' p' = Ok dg'"
    using dg' snt(1) by (metis (no_types, lifting) image_iff list.set_map old.prod.exhaust split_conv)
  obtain m' where m': "dg' = data_wire m'" "data_message_ok codec m'" "dm_sequence m' = q'" and
    wr: "write_message (dt_state (es_transport a)) q' (header_binding_bytes (data_header_of m') @ p')
      (length p' + 67) = Some (dm_ciphertext m')"
    using seal_packet_ok [OF codec sid _ _ _ tag, of q' p'] snt(2) qp' seal by auto
  have eq: "q' = q" "dm_ciphertext m' = dm_ciphertext m"
    using decode_data_wire [OF codec m'(2)] f' m' by (auto simp: data_header_of_def)
  have "read_message (dt_state (es_transport b)) q (dm_ciphertext m) (length (dm_ciphertext m))
      = Some (header_binding_bytes (data_header_of m') @ p')"
    using law [unfolded read_write_law_def, rule_format, OF wr order_refl] by (simp add: eq)
  moreover have "length (header_binding_bytes (data_header_of x)) = 51"
    if "data_message_ok codec x" for x
    using that by (simp add: length_header_binding_bytes data_header_of_def data_message_ok_def)
  ultimately have "p' = p" using rd m(2) m'(2) by (metis append_eq_append_conv option.inject)
  with qp' eq(1) show ?thesis by simp
qed

text \<open>C14. End-to-end integrity of the tunnel: whatever the network drops, repeats, reorders or
  injects, the packets the receiver writes to its TUN device form a sub-multiset of the packets the
  sender read from its own: nothing is invented, altered or delivered twice. The hypotheses on the
  Noise transport are that ciphertexts are one tag longer than payloads, that reading inverts
  writing, and that the run contains no forged ciphertext.\<close>

theorem end_to_end_integrity:
  assumes codec: "DataFrameCodec_new mtu = Ok codec"
    and fresh: "fresh_session a" "fresh_session b"
    and sid: "valid_session_id (session_id (es_metadata a))"
    and tag: "tag_length_law (dt_state (es_transport a))"
    and law: "read_write_law (dt_state (es_transport a)) (dt_state (es_transport b))"
    and a: "run mtu codec a a_events = (a', a_effects, a_flow)"
    and b: "run mtu codec b b_events = (b', b_effects, b_flow)"
    and unf: "unforged codec (dt_state (es_transport b)) a_effects b_events"
  shows "mset (tun_writes b_effects) \<subseteq># mset (tun_reads a_events)"
proof -
  have ok: "data_codec_ok codec" using data_codec_ceiling [OF codec] by simp
  obtain snt where s: "map Ok (datagrams_sent a_effects) = map (\<lambda>(q, p). seal_packet codec a q p) snt"
    "\<forall>(q, p) \<in> set snt. sequence_ok q \<and> 0 < length p \<and> length p \<le> dc_maximum_plaintext_payload codec"
    "mset (map snd snt) \<subseteq># mset (tun_reads a_events)"
    by (rule run_logs [OF ok fresh(1) a])
  obtain del where d: "distinct (map fst del)" "tun_writes b_effects = map snd del"
    "\<forall>(q, p) \<in> set del. \<exists>dg \<in> set (datagrams_received b_events). authentic codec b dg q p"
    by (rule run_logs [OF ok fresh(2) b])
  have "set del \<subseteq> set snt"
    using d(3) delivered_was_sent [OF ok sid tag law _ _ unf s(1,2)] by fast
  then have "mset del \<subseteq># mset snt"
    using d(1) by (intro distinct_subset_mset) (simp_all add: distinct_map)
  then have "image_mset snd (mset del) \<subseteq># image_mset snd (mset snt)"
    by (rule image_mset_subseteq_mono)
  then have "mset (tun_writes b_effects) \<subseteq># mset (map snd snt)" by (simp add: d(2))
  then show ?thesis using s(3) by (rule subset_mset.order_trans)
qed

text \<open>C19. Nonces are never reused: the datagrams a fresh session sends, in the order they are sent,
  decode to strictly increasing sequence numbers, all of them different from zero (the nonce of the
  handshake messages) and from the reserved maximum.\<close>

theorem sent_sequences_increase:
  assumes codec: "DataFrameCodec_new mtu = Ok codec" and fresh: "fresh_session s"
    and sid: "valid_session_id (session_id (es_metadata s))"
    and tag: "tag_length_law (dt_state (es_transport s))"
    and run: "run mtu codec s events = (s', effects, fl)"
  shows "\<exists>qs. map (datagram_sequence codec) (datagrams_sent effects) = map Some qs \<and>
    sorted_wrt (<) (map unat qs) \<and> (\<forall>q \<in> set qs. 0 < unat q \<and> unat q < 2 ^ 64 - 1)"
proof -
  have ok: "data_codec_ok codec" using data_codec_ceiling [OF codec] by simp
  obtain snt where s: "sorted_wrt (<) (map (unat \<circ> fst) snt)"
    "\<forall>(q, p) \<in> set snt. sequence_ok q \<and> 0 < length p \<and> length p \<le> dc_maximum_plaintext_payload codec"
    "map Ok (datagrams_sent effects) = map (\<lambda>(q, p). seal_packet codec s q p) snt"
    by (rule run_logs [OF ok fresh run])
  have seq: "datagram_sequence codec dg = Some q"
    if qp: "(q, p) \<in> set snt" "seal_packet codec s q p = Ok dg" for q p dg
  proof -
    have "sequence_ok q \<and> 0 < length p \<and> length p \<le> dc_maximum_plaintext_payload codec"
      using s(2) qp(1) by blast
    then obtain m where "dg = data_wire m" "data_message_ok codec m" "dm_sequence m = q"
      using seal_packet_ok [OF ok sid _ _ _ tag, of q p] qp by auto
    then show ?thesis
      using decode_data_wire [OF ok, of m] by (simp add: datagram_sequence_def data_header_of_def)
  qed
  have "map (datagram_sequence codec) (datagrams_sent effects) = map Some (map fst snt)"
  proof (rule nth_equalityI)
    have l: "length (datagrams_sent effects) = length snt" using s(3) by (metis length_map)
    then show "length (map (datagram_sequence codec) (datagrams_sent effects))
        = length (map Some (map fst snt))" by simp
    fix i assume "i < length (map (datagram_sequence codec) (datagrams_sent effects))"
    then have i: "i < length snt" "i < length (datagrams_sent effects)" using l by simp_all
    then have "Ok (datagrams_sent effects ! i) = (\<lambda>(q, p). seal_packet codec s q p) (snt ! i)"
      using s(3) by (metis nth_map)
    then show "map (datagram_sequence codec) (datagrams_sent effects) ! i = map Some (map fst snt) ! i"
      using seq [of "fst (snt ! i)" "snd (snt ! i)"] i by (simp add: case_prod_unfold)
  qed
  moreover have "sorted_wrt (<) (map unat (map fst snt))" using s(1) by simp
  ultimately show ?thesis
    using s(2) by (intro exI [of _ "map fst snt"]) (auto simp: sequence_ok_iff)
qed

text \<open>C20. Replay protection over a whole run, without any assumption on the transport: the packets
  written to the TUN device belong to pairwise distinct sequence numbers, and each of them is the
  content of a received datagram that authenticates, carries its own header inside the ciphertext,
  and belongs to this session and to the receive direction.\<close>

theorem delivered_at_most_once:
  assumes codec: "DataFrameCodec_new mtu = Ok codec" and fresh: "fresh_session s"
    and run: "run mtu codec s events = (s', effects, fl)"
  shows "\<exists>qs. distinct qs \<and> list_all2 (\<lambda>q p. \<exists>dg \<in> set (datagrams_received events).
    authentic codec s dg q p) qs (tun_writes effects)"
proof -
  have ok: "data_codec_ok codec" using data_codec_ceiling [OF codec] by simp
  obtain del where d: "distinct (map fst del)" "tun_writes effects = map snd del"
    "\<forall>(q, p) \<in> set del. \<exists>dg \<in> set (datagrams_received events). authentic codec s dg q p"
    by (rule run_logs [OF ok fresh run])
  have "list_all2 (\<lambda>q p. \<exists>dg \<in> set (datagrams_received events). authentic codec s dg q p)
      (map fst del) (map snd del)"
    using d(3) by (auto simp: list_all2_map1 list_all2_map2 list_all2_same)
  with d(1,2) show ?thesis by auto
qed

text \<open>C21. Hostile input is dropped and nothing else: a datagram from another endpoint, or one that
  is not an authentic frame of this session with an acceptable sequence number, leaves the session
  exactly as it was, writes nothing, and the loop goes on.\<close>

theorem hostile_datagram_dropped:
  assumes codec: "DataFrameCodec_new mtu = Ok codec"
    and bad: "source \<noteq> es_peer_endpoint s \<or>
      \<not> (\<exists>q p. authentic codec s datagram q p \<and> may_attempt (es_replay_window s) q = Acceptable)"
  shows "select_event codec s (UdpReceived (Some (datagram, source)) t written t') = (s, [], Continue)"
proof -
  have ok: "data_codec_ok codec" using data_codec_ceiling [OF codec] by simp
  have "open_datagram codec s datagram source = None"
  proof (cases "open_datagram codec s datagram source")
    case (Some qp)
    then show ?thesis using bad open_datagram_iff [OF ok] by (cases qp) blast
  qed
  then show ?thesis by (simp add: select_event_def handle_udp_def)
qed

text \<open>C22. Delivery, and its idempotence: a packet sealed by the peer is written to the TUN device
  when it arrives with an acceptable sequence number and the session limits permit it, and a second
  arrival of the same datagram is dropped without any change.\<close>

theorem sealed_packet_delivered:
  assumes codec: "DataFrameCodec_new mtu = Ok codec"
    and ids: "session_id (es_metadata a) = session_id (es_metadata b)"
      "es_send_direction a = es_receive_direction b"
    and sid: "valid_session_id (session_id (es_metadata a))"
    and tag: "tag_length_law (dt_state (es_transport a))"
    and law: "read_write_law (dt_state (es_transport a)) (dt_state (es_transport b))"
    and p: "sequence_ok q" "0 < length p" "length p \<le> mtu"
    and seal: "seal_packet codec a q p = Ok datagram"
    and window: "window_rel (es_replay_window b) A" "may_attempt (es_replay_window b) q = Acceptable"
    and limits: "lifetime_ok (es_lifetime b)"
      "permit (es_lifetime b) Inbound (word_of_nat (length p)) t = (l, Ok Permit)"
  shows "\<exists>b'. handle_udp codec b datagram (es_peer_endpoint b) t True t' = (b', [WriteTun p], Continue) \<and>
    handle_udp codec b' datagram (es_peer_endpoint b) u True u' = (b', [], Continue)"
proof -
  have ok: "data_codec_ok codec" and mtu: "dc_maximum_plaintext_payload codec = mtu"
    using data_codec_ceiling [OF codec] by simp_all
  obtain m where m: "datagram = data_wire m" "data_message_ok codec m"
    "dm_session_id m = session_id (es_metadata a)" "dm_direction m = es_send_direction a"
    "dm_sequence m = q" and
    wr: "write_message (dt_state (es_transport a)) q (header_binding_bytes (data_header_of m) @ p)
        (length p + 67) = Some (dm_ciphertext m)"
    using seal_packet_ok [OF ok sid p(1,2) _ tag] p mtu seal by auto
  have rd: "read_message (dt_state (es_transport b)) q (dm_ciphertext m) (length (dm_ciphertext m))
      = Some (header_binding_bytes (data_header_of m) @ p)"
    using law [unfolded read_write_law_def, rule_format, OF wr order_refl] .
  have auth: "authentic codec b datagram q p"
    using m rd ids by (auto simp: authentic_def)
  have opened: "open_datagram codec b datagram (es_peer_endpoint b) = Some (q, p)"
    using auth window(2) by (simp add: open_datagram_iff [OF ok])
  obtain w where w: "commit (es_replay_window b) q = (w, Ok ())"
    using commit_acceptable [OF window(2)] by blast
  have permitted: "permit (es_lifetime b) Inbound (word_of_nat (length p)) t
      = (es_lifetime b, Ok Permit)"
    using limits(2) by (simp add: permit_Permit)
  obtain l2 where l2: "record_success (es_lifetime b) Inbound (word_of_nat (length p)) t' = (l2, Ok ())"
    using permit_record [OF limits(1) permitted, of t'] by blast
  define b' where "b' = b\<lparr>es_replay_window := w, es_lifetime := l2\<rparr>"
  have "handle_udp codec b datagram (es_peer_endpoint b) t True t' = (b', [WriteTun p], Continue)"
    using p mtu l2 permitted
    by (simp add: handle_udp_def opened w Let_def on_decision_def session_permit_def deliver_def
        on_recorded_def session_record_success_def b'_def)
  moreover have "handle_udp codec b' datagram (es_peer_endpoint b) u True u' = (b', [], Continue)"
  proof -
    have "window_rel w (insert q A)"
      using commit_rel [OF window] by (simp add: w)
    then have "may_attempt (es_replay_window b') q \<noteq> Acceptable"
      using may_attempt_fresh by (auto simp: b'_def)
    moreover have "q' = q" if "authentic codec b' datagram q' p'" for q' p'
      using that m data_wire_inject [OF ok] by (auto simp: authentic_def)
    ultimately have "open_datagram codec b' datagram (es_peer_endpoint b) = None"
      using open_datagram_iff [OF ok, of b' datagram] by (metis option.exhaust prod.exhaust)
    then show ?thesis by (simp add: handle_udp_def)
  qed
  ultimately show ?thesis by blast
qed

text \<open>C23. The loop never panics and never fails through what a remote party sends: from a valid
  session every run goes on, closes for one of the session's own reasons, or stops at a local
  failure (TUN or socket error, encryption error of the local transport, counter or deadline
  overflow). The packet and byte counters of both directions stay within the configured limits.\<close>

theorem run_orderly:
  assumes codec: "DataFrameCodec_new mtu = Ok codec" and s: "session_ok s"
    and run: "run mtu codec s events = (s', effects, fl)"
  shows "lifetime_ok (es_lifetime s') \<and> sl_limits (es_lifetime s') = sl_limits (es_lifetime s) \<and>
    fl \<noteq> Panicked \<and> (\<forall>e. fl = Failed e \<longrightarrow> local_failure e)"
proof -
  have ok: "data_codec_ok codec" and mtu: "dc_maximum_plaintext_payload codec = mtu"
    using data_codec_ceiling [OF codec] by simp_all
  have "outcome_ok s (s', effects, fl)"
    using run_loop_ok [OF ok s, of events] run mtu by (simp add: run_def)
  then show ?thesis by (auto simp: outcome_ok_def session_ok_def)
qed

section \<open>A concrete pair of sessions\<close>

text \<open>
  A transport that appends sixteen zero bytes and checks them satisfies the laws assumed of the
  Noise transport; with it a client and a server exchange one packet, which the network delivers
  twice.
\<close>

definition demo_transport :: StatelessTransportState where
  "demo_transport = \<lparr>
     write_message = (\<lambda>n p cap. if length p + 16 \<le> cap then Some (p @ replicate 16 0) else None),
     read_message = (\<lambda>n c cap.
       if 16 \<le> length c \<and> drop (length c - 16) c = replicate 16 0
       then Some (take (length c - 16) c) else None)\<rparr>"

definition demo_limits :: SessionLimits where
  "demo_limits = \<lparr>maximum_outbound_packets = 10, maximum_outbound_plaintext_bytes = 100,
     maximum_inbound_packets = 10, maximum_inbound_plaintext_bytes = 100, idle_timeout = 60\<rparr>"

definition demo_session ::
  "(EstablishedSessionMetadata \<Rightarrow> SocketAddr \<Rightarrow> DirectionalTransport \<Rightarrow> SessionLifetime \<Rightarrow> session)
   \<Rightarrow> session" where
  "demo_session new = new
     \<lparr>session_id = SessionId (replicate 32 7), peer_identity = PeerIdentity (replicate 32 9)\<rparr>
     (SocketV4 1 2) \<lparr>dt_state = demo_transport\<rparr> (SessionLifetime_new 0 demo_limits)"

abbreviation demo_client :: session where
  "demo_client \<equiv> demo_session EstablishedDataSession_client"

abbreviation demo_server :: session where
  "demo_server \<equiv> demo_session EstablishedDataSession_server"

definition demo_codec :: DataFrameCodec where
  "demo_codec = \<lparr>dc_maximum_plaintext_payload = 4, dc_maximum_ciphertext = 71,
     dc_maximum_datagram_length = 122\<rparr>"

definition demo_packet :: bytes where "demo_packet = [0x45, 0x46]"

definition demo_datagram :: bytes where
  "demo_datagram = (case seal_packet demo_codec demo_client 1 demo_packet of
     Inr dg \<Rightarrow> dg | Inl _ \<Rightarrow> [])"

definition demo_client_events :: "(instant \<times> Event) list" where
  "demo_client_events = [(0, TunRead (Some demo_packet) 0 (Some 120) 1)]"

definition demo_server_events :: "(instant \<times> Event) list" where
  "demo_server_events = [(2, UdpReceived (Some (demo_datagram, SocketV4 1 2)) 2 True 2),
     (3, UdpReceived (Some (demo_datagram, SocketV4 1 2)) 3 True 3)]"

lemmas demo_session_defs = demo_session_def EstablishedDataSession_client_def
  EstablishedDataSession_server_def SessionLifetime_new_def demo_limits_def

lemmas lifetime_eval = permit_def expire_if_due_def instant_checked_add_def instant_max_def
  counters_next_def counters_def u64_checked_add_def within_limits_def record_success_def
  set_counters_def

lemma demo_codec_new: "DataFrameCodec_new 4 = Ok demo_codec"
  by (simp add: DataFrameCodec_new_iff data_codec_ok_def demo_codec_def)

lemma demo_codec_ok: "data_codec_ok demo_codec" "dc_maximum_plaintext_payload demo_codec = 4"
  using data_codec_ceiling [OF demo_codec_new] by simp_all

lemma demo_laws: "tag_length_law demo_transport" "read_write_law demo_transport demo_transport"
  by (auto simp: tag_length_law_def read_write_law_def demo_transport_def split: if_splits)

lemma demo_session_fields:
  "es_transport demo_client = \<lparr>dt_state = demo_transport\<rparr>"
  "es_transport demo_server = \<lparr>dt_state = demo_transport\<rparr>"
  "session_id (es_metadata demo_client) = SessionId (replicate 32 7)"
  "session_id (es_metadata demo_server) = SessionId (replicate 32 7)"
  "es_peer_endpoint demo_client = SocketV4 1 2" "es_peer_endpoint demo_server = SocketV4 1 2"
  "es_send_direction demo_client = es_receive_direction demo_server"
  "es_next_send_sequence demo_client = 1"
  "es_replay_window demo_server = ReplayWindow_new"
  "es_lifetime demo_client = SessionLifetime_new 0 demo_limits"
  "es_lifetime demo_server = SessionLifetime_new 0 demo_limits"
  by (simp_all add: demo_session_defs FIRST_SEQUENCE_def)

lemma demo_session_ok:
  "valid_session_id (SessionId (replicate 32 7))" "fresh_session demo_client" "fresh_session demo_server"
  by (simp_all add: valid_session_id_def session_id_ok_def demo_session_def fresh_session_new
      list_all_iff)

lemma demo_seal:
  "seal_packet demo_codec demo_client 1 demo_packet = Ok demo_datagram" "length demo_datagram = 120"
  "authentic demo_codec demo_server demo_datagram 1 demo_packet"
proof -
  have "seal_packet demo_codec demo_client 1 demo_packet \<noteq> Err (Failed (EncryptFailed Encrypt))"
    by (auto simp: seal_packet_def encrypt_def demo_session_fields demo_transport_def Let_def
        AEAD_TAG_LENGTH_def split: sum.splits option.splits if_splits)
  moreover have "sequence_ok 1" by (simp add: sequence_ok_iff)
  ultimately obtain m where m: "seal_packet demo_codec demo_client 1 demo_packet = Ok (data_wire m)"
    "data_message_ok demo_codec m" "dm_session_id m = SessionId (replicate 32 7)"
    "dm_direction m = es_send_direction demo_client" "dm_sequence m = 1"
    "write_message demo_transport 1 (header_binding_bytes (data_header_of m) @ demo_packet) 69
      = Some (dm_ciphertext m)"
    using seal_packet_ok [of demo_codec demo_client 1 demo_packet] demo_codec_ok demo_session_ok
      demo_laws by (auto simp: demo_session_fields demo_packet_def)
  then show "seal_packet demo_codec demo_client 1 demo_packet = Ok demo_datagram"
    by (simp add: demo_datagram_def)
  have dg: "demo_datagram = data_wire m" using m(1) by (simp add: demo_datagram_def)
  have hl: "length (header_binding_bytes (data_header_of m)) = 51"
    using m(2) by (simp add: length_header_binding_bytes data_header_of_def data_message_ok_def)
  have "length (dm_ciphertext m) = 69"
    using demo_laws(1) m(6) hl unfolding tag_length_law_def by (fastforce simp: demo_packet_def)
  then show "length demo_datagram = 120" using dg length_data_wire [OF m(2)] by simp
  have "read_message demo_transport 1 (dm_ciphertext m) (length (dm_ciphertext m))
      = Some (header_binding_bytes (data_header_of m) @ demo_packet)"
    using demo_laws(2) [unfolded read_write_law_def, rule_format, OF m(6) order_refl] .
  then show "authentic demo_codec demo_server demo_datagram 1 demo_packet"
    using m dg by (auto simp: authentic_def demo_session_fields)
qed

lemma demo_client_run:
  "snd (run 4 demo_codec demo_client demo_client_events) = ([SendTo demo_datagram (SocketV4 1 2)], Continue)"
proof -
  have seal: "seal_packet demo_codec (demo_client\<lparr>es_next_send_sequence := 2\<rparr>) 1 demo_packet
      = Ok demo_datagram"
    using seal_packet_fixed [of "demo_client\<lparr>es_next_send_sequence := 2\<rparr>" demo_client] demo_seal(1)
    by simp
  have perm: "permit (SessionLifetime_new 0 demo_limits) Outbound 2 0
      = (SessionLifetime_new 0 demo_limits, Ok Permit)"
    by (simp add: SessionLifetime_new_def demo_limits_def lifetime_eval)
  have rec: "\<exists>l. record_success (SessionLifetime_new 0 demo_limits) Outbound 2 1 = (l, Ok ())"
    by (simp add: SessionLifetime_new_def demo_limits_def lifetime_eval)
  have ex: "expire_if_due (SessionLifetime_new 0 demo_limits) 0
      = (SessionLifetime_new 0 demo_limits, Ok Permit)"
    "next_deadline (SessionLifetime_new 0 demo_limits) = Ok (Some 60)"
    by (simp_all add: SessionLifetime_new_def demo_limits_def lifetime_eval next_deadline_def)
  have al: "allocate_send_sequence demo_client = (demo_client\<lparr>es_next_send_sequence := 2\<rparr>, Ok 1)"
    by (simp add: allocate_send_sequence_ok demo_session_fields)
  have upd: "demo_client\<lparr>es_lifetime := SessionLifetime_new 0 demo_limits\<rparr> = demo_client"
    by (simp add: demo_session_defs)
  have len: "length demo_packet = 2" "word_of_nat 2 = (2 :: u64)" by (simp_all add: demo_packet_def)
  show ?thesis
    using rec
    by (auto simp: run_def demo_codec_ok demo_client_events_def iterate_def on_decision_def ex upd
        session_expire_if_due_def session_next_deadline_def demo_session_fields select_event_def
        handle_tun_def len session_permit_def perm forward_outbound_def al transmit_def seal
        demo_seal(2) on_recorded_def session_record_success_def)
qed

lemma demo_unforged:
  "unforged demo_codec demo_transport [SendTo demo_datagram (SocketV4 1 2)] demo_server_events"
  by (auto simp: unforged_def demo_server_events_def)

lemma demo_permit:
  "lifetime_ok (SessionLifetime_new 0 demo_limits)"
  "permit (SessionLifetime_new 0 demo_limits) Inbound (word_of_nat (length demo_packet)) 2
    = (SessionLifetime_new 0 demo_limits, Ok Permit)"
  by (rule lifetime_ok_new) (simp add: SessionLifetime_new_def demo_limits_def demo_packet_def lifetime_eval)

theorem end_to_end_integrity_witness:
  "mset (tun_writes (fst (snd (run 4 demo_codec demo_server demo_server_events))))
     \<subseteq># {#demo_packet#}"
  using end_to_end_integrity [OF demo_codec_new demo_session_ok(2,3), of demo_client_events
      "fst (run 4 demo_codec demo_client demo_client_events)"
      "[SendTo demo_datagram (SocketV4 1 2)]" Continue demo_server_events
      "fst (run 4 demo_codec demo_server demo_server_events)"
      "fst (snd (run 4 demo_codec demo_server demo_server_events))"
      "snd (snd (run 4 demo_codec demo_server demo_server_events))"]
    demo_client_run demo_unforged demo_laws demo_session_ok(1)
  by (simp add: demo_session_fields prod_eq_iff demo_client_events_def)

theorem sent_sequences_increase_witness:
  "\<exists>qs. map (datagram_sequence demo_codec) [demo_datagram] = map Some qs \<and>
    sorted_wrt (<) (map unat qs) \<and> (\<forall>q \<in> set qs. 0 < unat q \<and> unat q < 2 ^ 64 - 1)"
  using sent_sequences_increase [OF demo_codec_new demo_session_ok(2), of demo_client_events
      "fst (run 4 demo_codec demo_client demo_client_events)"
      "[SendTo demo_datagram (SocketV4 1 2)]" Continue]
    demo_client_run demo_laws demo_session_ok(1)
  by (simp add: demo_session_fields prod_eq_iff)

theorem delivered_at_most_once_witness:
  "\<exists>qs. distinct qs \<and> list_all2 (\<lambda>q p. \<exists>dg \<in> {demo_datagram}. authentic demo_codec demo_server dg q p) qs
     (tun_writes (fst (snd (run 4 demo_codec demo_server demo_server_events))))"
  using delivered_at_most_once [OF demo_codec_new demo_session_ok(3), of demo_server_events
      "fst (run 4 demo_codec demo_server demo_server_events)"
      "fst (snd (run 4 demo_codec demo_server demo_server_events))"
      "snd (snd (run 4 demo_codec demo_server demo_server_events))"]
  by (simp add: demo_server_events_def)

theorem hostile_datagram_dropped_witness:
  "select_event demo_codec demo_server (UdpReceived (Some (demo_datagram, SocketV4 6 6)) 2 True 2)
    = (demo_server, [], Continue)"
  by (rule hostile_datagram_dropped [OF demo_codec_new]) (simp add: demo_session_fields)

theorem sealed_packet_delivered_witness:
  "\<exists>b'. handle_udp demo_codec demo_server demo_datagram (SocketV4 1 2) 2 True 2
      = (b', [WriteTun demo_packet], Continue) \<and>
    handle_udp demo_codec b' demo_datagram (SocketV4 1 2) 3 True 3 = (b', [], Continue)"
  using sealed_packet_delivered [OF demo_codec_new, of demo_client demo_server 1 demo_packet
      demo_datagram "{}" 2 "SessionLifetime_new 0 demo_limits" 2 3 3]
    demo_session_ok(1) demo_laws demo_seal(1) demo_permit replay.rel_initial
  by (simp add: demo_session_fields sequence_ok_iff may_attempt_def ReplayWindow_new_def)
    (simp add: demo_packet_def)

theorem run_orderly_witness:
  "snd (snd (run 4 demo_codec demo_server demo_server_events)) \<noteq> Panicked"
  using run_orderly [OF demo_codec_new, of demo_server demo_server_events
      "fst (run 4 demo_codec demo_server demo_server_events)"
      "fst (snd (run 4 demo_codec demo_server demo_server_events))"
      "snd (snd (run 4 demo_codec demo_server demo_server_events))"]
    demo_session_ok(1) demo_laws lifetime_ok_new
  by (simp add: session_ok_def demo_session_fields)
    (simp add: demo_session_defs FIRST_SEQUENCE_def)

end
