(* ===== verification/Noise_Keys.thy ===== *)
theory Noise_Keys
  imports Crabnet_Prelude "HOL-Library.Sublist"
begin

text \<open>
  Static key files (\<open>src/crypto/noise_ik/keys.rs\<close>) and the hexadecimal encoder of the key generator
  (\<open>src/bin/generate_noise_keys.rs\<close>). Strings are their UTF-8 bytes. What the file system returns
  for a key file, its permission bits and its contents, is an argument of \<open>load\<close>. Erasing a key when
  it is dropped is not modelled.
\<close>

unbundle bit_operations_syntax

definition KEY_LENGTH :: usize where "KEY_LENGTH = 32"

datatype KeyMaterialError = InvalidLength usize | InvalidHex usize

definition nibble :: "u8 \<Rightarrow> u8 option" where
  "nibble byte =
     (if 48 \<le> byte \<and> byte \<le> 57 then Some (byte - 48)
      else if 97 \<le> byte \<and> byte \<le> 102 then Some (byte - 97 + 10)
      else None)"

text \<open>The loop over the byte pairs; the first argument is the index of the output byte.\<close>

fun decode_pairs :: "nat \<Rightarrow> bytes \<Rightarrow> (bytes, KeyMaterialError) result" where
  "decode_pairs index (h # l # rest) =
     and_then (ok_or (nibble h) (InvalidHex (index * 2))) (\<lambda>high.
       and_then (ok_or (nibble l) (InvalidHex (index * 2 + 1))) (\<lambda>low.
         map_sum id ((#) (push_bit 4 high OR low)) (decode_pairs (index + 1) rest)))"
| "decode_pairs index _ = Ok []"

definition decode_hex :: "bytes \<Rightarrow> (bytes, KeyMaterialError) result" where
  "decode_hex value =
     (if length value \<noteq> KEY_LENGTH * 2 then Err (InvalidLength (length value div 2))
      else decode_pairs 0 value)"

text \<open>\<open>StaticPrivateKey\<close> and \<open>StaticPublicKey\<close> hold an array of 32 bytes.\<close>

datatype StaticPrivateKey = StaticPrivateKey (private_as_bytes: bytes)

datatype StaticPublicKey = StaticPublicKey (public_as_bytes: bytes)

definition StaticPrivateKey_from_bytes :: "bytes \<Rightarrow> (StaticPrivateKey, KeyMaterialError) result" where
  "StaticPrivateKey_from_bytes bs =
     (if length bs = KEY_LENGTH then Ok (StaticPrivateKey bs) else Err (InvalidLength (length bs)))"

definition StaticPrivateKey_from_hex :: "bytes \<Rightarrow> (StaticPrivateKey, KeyMaterialError) result" where
  "StaticPrivateKey_from_hex value = and_then (decode_hex value) StaticPrivateKey_from_bytes"

definition StaticPublicKey_from_bytes :: "bytes \<Rightarrow> (StaticPublicKey, KeyMaterialError) result" where
  "StaticPublicKey_from_bytes bs =
     (if length bs = KEY_LENGTH then Ok (StaticPublicKey bs) else Err (InvalidLength (length bs)))"

definition StaticPublicKey_from_hex :: "bytes \<Rightarrow> (StaticPublicKey, KeyMaterialError) result" where
  "StaticPublicKey_from_hex value = and_then (decode_hex value) StaticPublicKey_from_bytes"

section \<open>Reading a key file\<close>

text \<open>The UTF-8 encodings of the characters \<open>str::trim\<close> removes.\<close>

definition white_space :: "bytes list" where
  "white_space = [[9], [10], [11], [12], [13], [32], [0xC2, 0x85], [0xC2, 0xA0],
     [0xE1, 0x9A, 0x80], [0xE2, 0x80, 0x80], [0xE2, 0x80, 0x81], [0xE2, 0x80, 0x82],
     [0xE2, 0x80, 0x83], [0xE2, 0x80, 0x84], [0xE2, 0x80, 0x85], [0xE2, 0x80, 0x86],
     [0xE2, 0x80, 0x87], [0xE2, 0x80, 0x88], [0xE2, 0x80, 0x89], [0xE2, 0x80, 0x8A],
     [0xE2, 0x80, 0xA8], [0xE2, 0x80, 0xA9], [0xE2, 0x80, 0xAF], [0xE2, 0x81, 0x9F],
     [0xE3, 0x80, 0x80]]"

text \<open>Remove encodings of the given list from the front as long as one matches.\<close>

function strip :: "bytes list \<Rightarrow> bytes \<Rightarrow> bytes" where
  "strip ws s = (case find (\<lambda>w. w \<noteq> [] \<and> prefix w s) ws of
     None \<Rightarrow> s
   | Some w \<Rightarrow> strip ws (drop (length w) s))"
  by auto

termination
proof (relation "measure (\<lambda>(ws, s). length s)")
  fix ws :: "bytes list" and s w :: bytes
  assume "find (\<lambda>w. w \<noteq> [] \<and> prefix w s) ws = Some w"
  then have "w \<noteq> []" "prefix w s" by (auto simp: find_Some_iff)
  then show "((ws, drop (length w) s), ws, s) \<in> measure (\<lambda>(ws, s). length s)"
    by (cases s) (auto simp: prefix_def)
qed simp

declare strip.simps [simp del]

definition trim :: "bytes \<Rightarrow> bytes" where
  "trim s = rev (strip (map rev white_space) (rev (strip white_space s)))"

datatype LoadError =
  InspectFailed | AccessibleByOthers | ReadFailed | InvalidKey KeyMaterialError

text \<open>The mask \<open>0o077\<close> is 63.\<close>

definition load :: "32 word option \<Rightarrow> bytes option \<Rightarrow> (StaticPrivateKey, LoadError) result" where
  "load mode contents = (case mode of
     None \<Rightarrow> Err InspectFailed
   | Some mode \<Rightarrow>
       if mode AND 63 \<noteq> 0 then Err AccessibleByOthers
       else (case contents of
         None \<Rightarrow> Err ReadFailed
       | Some value \<Rightarrow> map_sum InvalidKey id (StaticPrivateKey_from_hex (trim value))))"

section \<open>The key generator\<close>

text \<open>One digit of \<open>{:02x}\<close>.\<close>

definition hex_digit :: "u8 \<Rightarrow> u8" where
  "hex_digit n = (if n < 10 then 48 + n else 87 + n)"

definition encode_hex :: "bytes \<Rightarrow> bytes" where
  "encode_hex bs = concat (map (\<lambda>b. [hex_digit (drop_bit 4 b), hex_digit (b AND 15)]) bs)"

section \<open>Round trip\<close>

text \<open>All bytes, to decide statements about single bytes by evaluation.\<close>

lemma all_u8: "(\<forall>b :: u8. P b) \<longleftrightarrow> list_all (\<lambda>n. P (word_of_nat n)) [0 ..< 256]"
proof
  assume all: "list_all (\<lambda>n. P (word_of_nat n)) [0 ..< 256]"
  show "\<forall>b :: u8. P b"
  proof
    fix b :: u8
    have "P (word_of_nat (unat b))"
      by (rule all [unfolded list_all_iff, THEN bspec]) (use u8_bound [of b] in simp)
    then show "P b" by simp
  qed
qed (simp add: list_all_iff)

lemma nibble_hex_digit: "nibble b = Some n \<longleftrightarrow> n < 16 \<and> b = hex_digit n"
proof -
  have "\<forall>b. case nibble b of None \<Rightarrow> True | Some n \<Rightarrow> n < 16 \<and> b = hex_digit n"
    unfolding all_u8 by code_simp
  moreover have "\<forall>n. n < 16 \<longrightarrow> nibble (hex_digit n) = Some n"
    unfolding all_u8 by code_simp
  ultimately show ?thesis by (auto dest: spec [of _ b])
qed

lemma low_nibble: "b AND 15 = take_bit 4 (b :: u8)"
  by (simp add: take_bit_eq_mask mask_eq_exp_minus_1)

lemma hex_halves: "push_bit 4 (drop_bit 4 b) OR (b AND 15) = b" "drop_bit 4 b < 16" "b AND 15 < 16"
  for b :: u8
proof -
  show "push_bit 4 (drop_bit 4 b) OR (b AND 15) = b"
    unfolding low_nibble by (rule bit_word_eqI) (auto simp: bit_simps)
  show "drop_bit 4 b < 16"
    using u8_bound [of b] by (simp add: word_less_nat_alt drop_bit_eq_div unat_div)
  show "b AND 15 < 16"
    unfolding low_nibble by (simp add: word_less_nat_alt take_bit_eq_mod unat_mod)
qed

lemma hex_join:
  assumes "h < 16" and "l < 16"
  shows "drop_bit 4 (push_bit 4 h OR l) = h \<and> (push_bit 4 h OR l) AND 15 = (l :: u8)"
proof -
  have t: "take_bit 4 x = x" if "x < 16" for x :: u8
    using that by (simp add: take_bit_eq_mod word_less_nat_alt word_unat_eq_iff unat_mod)
  have small: "bit x n \<Longrightarrow> n < 4" if "x < 16" for x :: u8 and n
    using t [OF that] by (metis bit_take_bit_iff)
  show ?thesis unfolding low_nibble
  proof
    show "drop_bit 4 (push_bit 4 h OR l) = h"
      by (rule bit_word_eqI) (use small [OF assms(1)] small [OF assms(2)] in \<open>force simp: bit_simps\<close>)
    show "take_bit 4 (push_bit 4 h OR l) = l"
      by (rule bit_word_eqI) (use small [OF assms(2)] in \<open>auto simp: bit_simps\<close>)
  qed
qed

lemma encode_hex_simps [simp]:
  "encode_hex [] = []"
  "encode_hex (b # bs) = hex_digit (drop_bit 4 b) # hex_digit (b AND 15) # encode_hex bs"
  by (simp_all add: encode_hex_def)

lemma length_encode_hex [simp]: "length (encode_hex bs) = 2 * length bs"
  by (induction bs) simp_all

lemma decode_pairs_encode: "decode_pairs i (encode_hex bs) = Ok bs"
proof (induction bs arbitrary: i)
  case (Cons b bs)
  have "nibble (hex_digit (drop_bit 4 b)) = Some (drop_bit 4 b)" "nibble (hex_digit (b AND 15)) = Some (b AND 15)"
    by (simp_all add: nibble_hex_digit hex_halves)
  then show ?case using Cons.IH by (simp add: hex_halves)
qed simp

lemma decode_pairs_ok:
  assumes "decode_pairs i s = Ok bs" and "even (length s)"
  shows "s = encode_hex bs"
  using assms
proof (induction i s arbitrary: bs rule: decode_pairs.induct)
  case (1 i h l rest)
  then obtain high low bs' where n: "nibble h = Some high" "nibble l = Some low"
    and bs: "decode_pairs (i + 1) rest = Ok bs'" "bs = (push_bit 4 high OR low) # bs'"
    by (cases "decode_pairs (i + 1) rest") (auto simp: and_then_Ok)
  have "rest = encode_hex bs'" using 1 n bs(1) by simp
  moreover have "high < 16" "low < 16" "h = hex_digit high" "l = hex_digit low"
    using n by (simp_all add: nibble_hex_digit)
  ultimately show ?case unfolding bs(2) encode_hex_simps using hex_join [of high low] by metis
qed auto

lemma decode_hex_iff: "decode_hex s = Ok k \<longleftrightarrow> length k = 32 \<and> s = encode_hex k"
proof
  assume "decode_hex s = Ok k"
  then have l: "length s = 64" "decode_pairs 0 s = Ok k"
    by (auto simp: decode_hex_def KEY_LENGTH_def split: if_splits)
  then have "s = encode_hex k" by (intro decode_pairs_ok) simp_all
  then show "length k = 32 \<and> s = encode_hex k" using l(1) by simp
qed (auto simp: decode_hex_def KEY_LENGTH_def decode_pairs_encode)

text \<open>Trimming leaves a string without surrounding white space unchanged.\<close>

lemma strip_unchanged:
  assumes "\<forall>w \<in> set ws. w \<noteq> [] \<longrightarrow> \<not> prefix w s"
  shows "strip ws s = s"
proof -
  have "find (\<lambda>w. w \<noteq> [] \<and> prefix w s) ws = None" using assms by (auto simp: find_None_iff)
  then show ?thesis by (subst strip.simps) simp
qed

lemma strip_step:
  assumes "find (\<lambda>w. w \<noteq> [] \<and> prefix w (w' @ s)) ws = Some w'"
  shows "strip ws (w' @ s) = strip ws s"
  by (subst strip.simps) (simp add: assms)

definition hex_bytes :: "bytes \<Rightarrow> bool" where
  "hex_bytes s \<longleftrightarrow> (\<forall>b \<in> set s. nibble b \<noteq> None)"

lemma encode_hex_bytes: "hex_bytes (encode_hex bs)"
  using hex_halves(2, 3) by (induction bs) (auto simp: hex_bytes_def nibble_hex_digit)

lemma white_space_starts:
  "list_all (\<lambda>w. w \<noteq> [] \<and> nibble (hd w) = None) white_space"
  "list_all (\<lambda>w. w \<noteq> [] \<and> nibble (hd w) = None) (map rev white_space)"
  by code_simp+

lemma strip_hex:
  assumes "list_all (\<lambda>w. w \<noteq> [] \<and> nibble (hd w) = None) ws" and "hex_bytes s" and "s \<noteq> []"
  shows "strip ws (s @ r) = s @ r"
proof (rule strip_unchanged, intro ballI impI notI)
  fix w assume w: "w \<in> set ws" "prefix w (s @ r)"
  obtain b s' where s: "s = b # s'" using assms(3) by (cases s) auto
  obtain b' w' where w': "w = b' # w'" using assms(1) w(1) by (cases w) (auto simp: list_all_iff)
  have "nibble b' = None" using assms(1) w(1) w' by (force simp: list_all_iff)
  moreover have "b' = b" using w(2) by (simp add: s w')
  ultimately show False using assms(2) by (simp add: s hex_bytes_def)
qed

lemma trim_hex:
  assumes "hex_bytes s" and "s \<noteq> []"
  shows "trim s = s" and "trim (s @ [10]) = s"
proof -
  note front = strip_hex [OF white_space_starts(1) assms]
  have rear: "strip (map rev white_space) (rev s) = rev s"
    using strip_hex [OF white_space_starts(2), of "rev s" "[]"] assms by (simp add: hex_bytes_def)
  show "trim s = s" using front [of "[]"] rear by (simp add: trim_def)
  have "find (\<lambda>w. w \<noteq> [] \<and> prefix w ([10] @ rev s)) (map rev white_space) = Some [10]"
    by (simp add: white_space_def)
  from strip_step [OF this] show "trim (s @ [10]) = s" using front [of "[10]"] rear by (simp add: trim_def)
qed

lemma private_key_iff:
  "StaticPrivateKey_from_hex s = Ok key \<longleftrightarrow>
     length (private_as_bytes key) = 32 \<and> s = encode_hex (private_as_bytes key)"
  by (cases key)
    (auto simp: StaticPrivateKey_from_hex_def StaticPrivateKey_from_bytes_def and_then_Ok
      decode_hex_iff KEY_LENGTH_def)

lemma load_iff:
  "load mode contents = Ok key \<longleftrightarrow>
     (\<exists>m s. mode = Some m \<and> m AND 63 = 0 \<and> contents = Some s \<and>
        length (private_as_bytes key) = 32 \<and> trim s = encode_hex (private_as_bytes key))"
  by (cases mode; cases contents) (auto simp: load_def private_key_iff map_sum_Ok)

lemma load_generated:
  assumes "length k = 32" and "ending \<in> {[], [10]}"
  shows "load (Some 0x8180) (Some (encode_hex k @ ending)) = Ok (StaticPrivateKey k)"
proof -
  have "encode_hex k \<noteq> []" using assms(1) by (cases k) simp_all
  then show ?thesis using assms trim_hex [OF encode_hex_bytes] by (auto simp: load_iff)
qed

text \<open>
  C9. A private key file is accepted exactly when its permission bits for group and others are all
  clear and its trimmed contents are the lowercase hexadecimal encoding of a key of 32 bytes, and the
  key loaded is the one encoded. In particular a key file written by the key generator, a regular file
  of mode \<open>0600\<close>, loads as the generated key, with or without a final newline.
\<close>

theorem private_key_load:
  "(load mode contents = Ok key \<longleftrightarrow>
     (\<exists>m s. mode = Some m \<and> m AND 63 = 0 \<and> contents = Some s \<and>
        length (private_as_bytes key) = 32 \<and> trim s = encode_hex (private_as_bytes key))) \<and>
   (length k = 32 \<longrightarrow> ending \<in> {[], [10]} \<longrightarrow>
     load (Some 0x8180) (Some (encode_hex k @ ending)) = Ok (StaticPrivateKey k))"
  using load_iff [of mode contents key] load_generated [of k ending] by blast

theorem private_key_load_witness:
  "load (Some 0x8180) (Some (encode_hex (replicate 32 171) @ [10])) = Ok (StaticPrivateKey (replicate 32 171))"
  using private_key_load [of None None "StaticPrivateKey []" "replicate 32 171" "[10]"] by simp

end
