(* ===== verification/Config.thy ===== *)
theory Config
  imports Noise_Keys
begin

text \<open>
  The configuration and its validation (\<open>src/config.rs\<close>), with the parts of \<open>src/tun.rs\<close>,
  \<open>src/routing/manager.rs\<close> and \<open>src/nat/manager.rs\<close> that it reads. Strings are their UTF-8 bytes.
  Networks are values of the third-party crate \<open>ipnet\<close>: their type and the operations the program
  uses are the parameter \<open>N\<close>. A parsed configuration file is an argument of \<open>from_args\<close>, and the file
  system one of \<open>validate\<close>. Error messages are constructors of \<open>ConfigError\<close>.
\<close>

section \<open>Addresses and networks\<close>

record 'n IpNetLib =
  net_prefix_len :: "'n \<Rightarrow> u8"
  net_addr :: "'n \<Rightarrow> IpAddr"
  net_contains :: "'n \<Rightarrow> IpAddr \<Rightarrow> bool"

definition is_ipv4 :: "IpAddr \<Rightarrow> bool" where
  "is_ipv4 a = (case a of V4 _ \<Rightarrow> True | V6 _ \<Rightarrow> False)"

definition socket_ip :: "SocketAddr \<Rightarrow> IpAddr" where
  "socket_ip s = (case s of SocketV4 a _ \<Rightarrow> V4 a | SocketV6 a _ _ _ \<Rightarrow> V6 a)"

definition socket_port :: "SocketAddr \<Rightarrow> u16" where
  "socket_port s = (case s of SocketV4 _ p \<Rightarrow> p | SocketV6 _ p _ _ \<Rightarrow> p)"

text \<open>\<open>SocketAddr::new\<close>, which clears flow information and scope.\<close>

definition SocketAddr_new :: "IpAddr \<Rightarrow> u16 \<Rightarrow> SocketAddr" where
  "SocketAddr_new a p = (case a of V4 v \<Rightarrow> SocketV4 v p | V6 v \<Rightarrow> SocketV6 v p 0 0)"

section \<open>The TUN device\<close>

record TunConfig =
  tun_name :: bytes
  tun_address :: IpAddr
  tun_prefix_len :: u8
  tun_mtu :: u16

datatype TunConfigError =
  EmptyTunName | Ipv4PrefixTooLong | Ipv6PrefixTooLong | Ipv6MtuTooSmall | ZeroTunMtu

definition tun_validate :: "TunConfig \<Rightarrow> (unit, TunConfigError) result" where
  "tun_validate self =
     (if tun_name self = [] then Err EmptyTunName
      else if is_ipv4 (tun_address self) \<and> tun_prefix_len self > 32 then Err Ipv4PrefixTooLong
      else if \<not> is_ipv4 (tun_address self) \<and> tun_prefix_len self > 128 then Err Ipv6PrefixTooLong
      else if \<not> is_ipv4 (tun_address self) \<and> tun_mtu self < 1280 then Err Ipv6MtuTooSmall
      else if tun_mtu self = 0 then Err ZeroTunMtu
      else Ok ())"

datatype TunWriteError = PacketTooLarge usize usize | TunSendFailed | PartialTunWrite usize usize

definition validate_packet_size :: "usize \<Rightarrow> usize \<Rightarrow> (unit, TunWriteError) result" where
  "validate_packet_size size' mtu = (if size' > mtu then Err (PacketTooLarge size' mtu) else Ok ())"

text \<open>\<open>sent\<close> is what the device's send returned.\<close>

definition write_packet :: "usize \<Rightarrow> bytes \<Rightarrow> usize option \<Rightarrow> (unit, TunWriteError) result" where
  "write_packet mtu packet sent =
     and_then (validate_packet_size (length packet) mtu) (\<lambda>_.
       case sent of
         None \<Rightarrow> Err TunSendFailed
       | Some written \<Rightarrow>
           if written \<noteq> length packet then Err (PartialTunWrite written (length packet)) else Ok ())"

section \<open>Routing options\<close>

record 'n StaticRoute =
  st_destination :: 'n
  st_gateway :: "IpAddr option"
  st_interface :: "bytes option"

record 'n RoutingConfig =
  protected_routes :: "'n list"
  server_routes :: "'n StaticRoute list"
  full_tunnel :: bool
  enable_forwarding :: bool
  enable_nat :: bool
  nat_egress_interface :: "bytes option"

datatype InterfaceNameError = EmptyInterfaceName | InterfaceNameTooLong | InterfaceNameCharacter

definition is_ascii_alphanumeric :: "u8 \<Rightarrow> bool" where
  "is_ascii_alphanumeric b \<longleftrightarrow> 48 \<le> b \<and> b \<le> 57 \<or> 65 \<le> b \<and> b \<le> 90 \<or> 97 \<le> b \<and> b \<le> 122"

definition validate_nft_interface_name :: "bytes \<Rightarrow> (unit, InterfaceNameError) result" where
  "validate_nft_interface_name name =
     (if name = [] then Err EmptyInterfaceName
      else if \<not> length name \<le> 15 then Err InterfaceNameTooLong
      else if \<not> list_all (\<lambda>byte. is_ascii_alphanumeric byte \<or> byte \<in> {95, 45, 46}) name
      then Err InterfaceNameCharacter
      else Ok ())"

section \<open>The configuration\<close>

definition DEFAULT_PORT :: u16 where "DEFAULT_PORT = 51820"

datatype SecurityMode = Legacy | NoiseIk

record SessionLimitsConfig =
  max_outbound_packets :: u64
  max_outbound_plaintext_bytes :: u64
  max_inbound_packets :: u64
  max_inbound_plaintext_bytes :: u64
  idle_timeout_seconds :: u64

record SecurityConfig =
  security_mode :: SecurityMode
  private_key_path :: "bytes option"
  server_public_key :: "bytes option"
  allowed_client_public_keys :: "bytes list"
  session_limits :: "SessionLimitsConfig option"

datatype Mode = Client | Server

datatype LogLevel = Info | Warn | Debug | Error

datatype ModeConfig = Client SocketAddr (server_addr: SocketAddr) | Server SocketAddr

record Args =
  arg_local_addr :: "IpAddr option"
  arg_local_port :: "u16 option"
  arg_remote_addr :: "IpAddr option"
  arg_remote_port :: "u16 option"
  arg_mode :: "Mode option"
  arg_log_level :: "LogLevel option"
  arg_tun :: "bytes option"
  arg_tun_address :: "IpAddr option"
  arg_tun_prefix_len :: "u8 option"
  arg_tun_mtu :: "u16 option"
  arg_config_path :: "bytes option"

record 'n Config =
  cfg_mode :: ModeConfig
  cfg_tun :: TunConfig
  cfg_routing :: "'n RoutingConfig"
  cfg_log_level :: LogLevel
  cfg_security :: SecurityConfig

definition security_default :: SecurityConfig where
  "security_default = \<lparr>security_mode = Legacy, private_key_path = None, server_public_key = None,
     allowed_client_public_keys = [], session_limits = None\<rparr>"

definition routing_default :: "'n RoutingConfig" where
  "routing_default = \<lparr>protected_routes = [], server_routes = [], full_tunnel = False,
     enable_forwarding = False, enable_nat = False, nat_egress_interface = None\<rparr>"

text \<open>The default interface name is \<open>crabnet0\<close>, its address 10.0.0.1.\<close>

definition config_default :: "'n Config" where
  "config_default =
     \<lparr>cfg_mode = ModeConfig.Client (SocketAddr_new (V4 0) DEFAULT_PORT)
        (SocketAddr_new (V4 0x7F000001) DEFAULT_PORT),
      cfg_tun = \<lparr>tun_name = [99, 114, 97, 98, 110, 101, 116, 48], tun_address = V4 0x0A000001,
        tun_prefix_len = 24, tun_mtu = 1400\<rparr>,
      cfg_routing = routing_default, cfg_log_level = Info, cfg_security = security_default\<rparr>"

definition kind :: "ModeConfig \<Rightarrow> Mode" where
  "kind m = (case m of ModeConfig.Client _ _ \<Rightarrow> Mode.Client | ModeConfig.Server _ \<Rightarrow> Mode.Server)"

definition bind_addr :: "ModeConfig \<Rightarrow> SocketAddr" where
  "bind_addr m = (case m of ModeConfig.Client b _ \<Rightarrow> b | ModeConfig.Server b \<Rightarrow> b)"

definition socket_addr :: "SocketAddr \<Rightarrow> IpAddr option \<Rightarrow> u16 option \<Rightarrow> SocketAddr" where
  "socket_addr current ip port = SocketAddr_new
     (case ip of Some a \<Rightarrow> a | None \<Rightarrow> socket_ip current)
     (case port of Some p \<Rightarrow> p | None \<Rightarrow> socket_port current)"

definition unwrap_or :: "'a option \<Rightarrow> 'a \<Rightarrow> 'a" where
  "unwrap_or x d = (case x of Some v \<Rightarrow> v | None \<Rightarrow> d)"

text \<open>\<open>file\<close> is the parsed file for a given path, \<open>None\<close> if it cannot be read or parsed.\<close>

definition from_args ::
  "(bytes \<Rightarrow> 'n Config option) \<Rightarrow> Args \<Rightarrow> 'n Config option" where
  "from_args file args =
     map_option (\<lambda>config.
       let tun = cfg_tun config;
           tun = \<lparr>tun_name = unwrap_or (arg_tun args) (tun_name tun),
             tun_address = unwrap_or (arg_tun_address args) (tun_address tun),
             tun_prefix_len = unwrap_or (arg_tun_prefix_len args) (tun_prefix_len tun),
             tun_mtu = unwrap_or (arg_tun_mtu args) (tun_mtu tun)\<rparr>;
           selected_mode = unwrap_or (arg_mode args) (kind (cfg_mode config));
           local = (\<lambda>a. socket_addr a (arg_local_addr args) (arg_local_port args));
           remote = (\<lambda>a. socket_addr a (arg_remote_addr args) (arg_remote_port args));
           mode = (case selected_mode of
             Mode.Client \<Rightarrow>
               (case cfg_mode config of
                  ModeConfig.Client b s \<Rightarrow> ModeConfig.Client (local b) (remote s)
                | ModeConfig.Server b \<Rightarrow> ModeConfig.Client (local b)
                    (remote (server_addr (cfg_mode (config_default :: 'n Config)))))
           | Mode.Server \<Rightarrow> ModeConfig.Server (local (bind_addr (cfg_mode config))))
       in config\<lparr>cfg_mode := mode, cfg_tun := tun,
            cfg_log_level := unwrap_or (arg_log_level args) (cfg_log_level config)\<rparr>)
     (case arg_config_path args of Some path \<Rightarrow> file path | None \<Rightarrow> Some config_default)"

section \<open>Validation\<close>

datatype LimitField =
  MaxOutboundPackets | MaxOutboundBytes | MaxInboundPackets | MaxInboundBytes | IdleTimeoutSeconds

datatype ConfigError =
  InvalidTun TunConfigError
| PrivateKeyRequiresNoise
| ServerKeyRequiresNoise
| AllowedKeysRequireNoise
| LimitsRequireNoise
| MissingLimits
| ZeroSessionLimit LimitField
| MissingPrivateKeyPath
| PrivateKeyUnusable LoadError
| MissingServerKey
| InvalidServerKey KeyMaterialError
| AllowedKeysServerOnly
| ServerKeyClientOnly
| EmptyAllowlist
| DuplicateAllowedKey usize
| InvalidAllowedKey usize KeyMaterialError
| DefaultProtectedRoute usize
| ProtectedRouteFamily usize
| DuplicateProtectedRoute
| ForwardingServerOnly
| ServerRoutesServerOnly
| ProtectedRoutesWithFullTunnel
| ServerInsideProtectedRoute
| ProtectedRoutesClientOnly
| FullTunnelClientOnly
| NatRequiresForwarding
| NatRequiresIpv4
| NatDefaultNetwork
| InvalidTunInterfaceName InterfaceNameError
| MissingEgressInterface
| InvalidEgressInterfaceName InterfaceNameError
| EgressIsTun
| EgressRequiresNat

text \<open>\<open>ensure!(condition, error)\<close>.\<close>

definition ensure :: "bool \<Rightarrow> 'e \<Rightarrow> (unit, 'e) result" where
  "ensure b e = (if b then Ok () else Err e)"

definition limits_validate :: "SessionLimitsConfig \<Rightarrow> (unit, ConfigError) result" where
  "limits_validate self =
     and_then (ensure (max_outbound_packets self > 0) (ZeroSessionLimit MaxOutboundPackets)) (\<lambda>_.
     and_then (ensure (max_outbound_plaintext_bytes self > 0) (ZeroSessionLimit MaxOutboundBytes)) (\<lambda>_.
     and_then (ensure (max_inbound_packets self > 0) (ZeroSessionLimit MaxInboundPackets)) (\<lambda>_.
     and_then (ensure (max_inbound_plaintext_bytes self > 0) (ZeroSessionLimit MaxInboundBytes)) (\<lambda>_.
     ensure (idle_timeout_seconds self > 0) (ZeroSessionLimit IdleTimeoutSeconds)))))"

text \<open>The loop over the allowed keys; \<open>seen\<close> holds the entries before.\<close>

fun validate_allowed :: "bytes set \<Rightarrow> nat \<Rightarrow> bytes list \<Rightarrow> (unit, ConfigError) result" where
  "validate_allowed seen index [] = Ok ()"
| "validate_allowed seen index (encoded # rest) =
     and_then (ensure (encoded \<notin> seen) (DuplicateAllowedKey index)) (\<lambda>_.
     and_then (map_sum (InvalidAllowedKey index) id (StaticPublicKey_from_hex encoded)) (\<lambda>_.
       validate_allowed (insert encoded seen) (index + 1) rest))"

type_synonym file_system = "bytes \<Rightarrow> 32 word option \<times> bytes option"

definition validate_security ::
  "file_system \<Rightarrow> ModeConfig \<Rightarrow> SecurityConfig \<Rightarrow> (unit, ConfigError) result" where
  "validate_security fs mode security = (case security_mode security of
     Legacy \<Rightarrow>
       and_then (ensure (private_key_path security = None) PrivateKeyRequiresNoise) (\<lambda>_.
       and_then (ensure (server_public_key security = None) ServerKeyRequiresNoise) (\<lambda>_.
       and_then (ensure (allowed_client_public_keys security = []) AllowedKeysRequireNoise) (\<lambda>_.
       ensure (session_limits security = None) LimitsRequireNoise)))
   | NoiseIk \<Rightarrow>
       and_then (ok_or (session_limits security) MissingLimits) (\<lambda>limits.
       and_then (limits_validate limits) (\<lambda>_.
       and_then (ok_or (private_key_path security) MissingPrivateKeyPath) (\<lambda>path.
       and_then (map_sum PrivateKeyUnusable id (load (fst (fs path)) (snd (fs path)))) (\<lambda>_.
       case mode of
         ModeConfig.Client _ _ \<Rightarrow>
           and_then (ok_or (server_public_key security) MissingServerKey) (\<lambda>encoded.
           and_then (map_sum InvalidServerKey id (StaticPublicKey_from_hex encoded)) (\<lambda>_.
           ensure (allowed_client_public_keys security = []) AllowedKeysServerOnly))
       | ModeConfig.Server _ \<Rightarrow>
           and_then (ensure (server_public_key security = None) ServerKeyClientOnly) (\<lambda>_.
           and_then (ensure (allowed_client_public_keys security \<noteq> []) EmptyAllowlist) (\<lambda>_.
           validate_allowed {} 0 (allowed_client_public_keys security))))))))"

text \<open>The loop over the protected routes; \<open>before\<close> are those already visited.\<close>

fun validate_routes ::
  "'n IpNetLib \<Rightarrow> TunConfig \<Rightarrow> 'n list \<Rightarrow> 'n list \<Rightarrow> (unit, ConfigError) result" where
  "validate_routes N tun before [] = Ok ()"
| "validate_routes N tun before (route # rest) =
     and_then (ensure (net_prefix_len N route \<noteq> 0) (DefaultProtectedRoute (length before))) (\<lambda>_.
     and_then (ensure (is_ipv4 (net_addr N route) = is_ipv4 (tun_address tun))
       (ProtectedRouteFamily (length before))) (\<lambda>_.
     if route \<in> set before then Err DuplicateProtectedRoute
     else validate_routes N tun (before @ [route]) rest))"

definition validate_client ::
  "'n IpNetLib \<Rightarrow> 'n RoutingConfig \<Rightarrow> SocketAddr \<Rightarrow> (unit, ConfigError) result" where
  "validate_client N routing server =
     and_then (ensure (\<not> enable_forwarding routing \<and> \<not> enable_nat routing \<and>
       nat_egress_interface routing = None) ForwardingServerOnly) (\<lambda>_.
     and_then (ensure (server_routes routing = []) ServerRoutesServerOnly) (\<lambda>_.
     and_then (ensure (full_tunnel routing \<longrightarrow> protected_routes routing = [])
       ProtectedRoutesWithFullTunnel) (\<lambda>_.
     case find (\<lambda>route. net_contains N route (socket_ip server)) (protected_routes routing) of
       Some _ \<Rightarrow> Err ServerInsideProtectedRoute
     | None \<Rightarrow> Ok ())))"

definition validate_server :: "TunConfig \<Rightarrow> 'n RoutingConfig \<Rightarrow> (unit, ConfigError) result" where
  "validate_server tun routing =
     and_then (ensure (protected_routes routing = []) ProtectedRoutesClientOnly) (\<lambda>_.
     and_then (ensure (\<not> full_tunnel routing) FullTunnelClientOnly) (\<lambda>_.
     if enable_nat routing then
       and_then (ensure (enable_forwarding routing) NatRequiresForwarding) (\<lambda>_.
       and_then (ensure (is_ipv4 (tun_address tun)) NatRequiresIpv4) (\<lambda>_.
       and_then (ensure (tun_prefix_len tun \<noteq> 0) NatDefaultNetwork) (\<lambda>_.
       and_then (map_sum InvalidTunInterfaceName id (validate_nft_interface_name (tun_name tun))) (\<lambda>_.
       and_then (ok_or (nat_egress_interface routing) MissingEgressInterface) (\<lambda>egress.
       and_then (map_sum InvalidEgressInterfaceName id (validate_nft_interface_name egress)) (\<lambda>_.
       ensure (egress \<noteq> tun_name tun) EgressIsTun))))))
     else ensure (nat_egress_interface routing = None) EgressRequiresNat))"

definition validate ::
  "'n IpNetLib \<Rightarrow> file_system \<Rightarrow> 'n Config \<Rightarrow> (unit, ConfigError) result" where
  "validate N fs self =
     and_then (map_sum InvalidTun id (tun_validate (cfg_tun self))) (\<lambda>_.
     and_then (validate_security fs (cfg_mode self) (cfg_security self)) (\<lambda>_.
     and_then (validate_routes N (cfg_tun self) [] (protected_routes (cfg_routing self))) (\<lambda>_.
     case cfg_mode self of
       ModeConfig.Client _ server \<Rightarrow> validate_client N (cfg_routing self) server
     | ModeConfig.Server _ \<Rightarrow> validate_server (cfg_tun self) (cfg_routing self))))"

section \<open>What validation guarantees\<close>

lemma ensure_Ok [simp]: "ensure b e = Ok () \<longleftrightarrow> b"
  by (simp add: ensure_def)

lemma limits_validate_iff:
  "limits_validate l = Ok () \<longleftrightarrow> max_outbound_packets l > 0 \<and> max_outbound_plaintext_bytes l > 0 \<and>
     max_inbound_packets l > 0 \<and> max_inbound_plaintext_bytes l > 0 \<and> idle_timeout_seconds l > 0"
  by (simp add: limits_validate_def and_then_Ok)

lemma public_key_iff:
  "StaticPublicKey_from_hex s = Ok k \<longleftrightarrow>
     length (public_as_bytes k) = 32 \<and> s = encode_hex (public_as_bytes k)"
  by (cases k) (auto simp: StaticPublicKey_from_hex_def StaticPublicKey_from_bytes_def and_then_Ok
      decode_hex_iff KEY_LENGTH_def)

lemma validate_allowed_iff:
  "validate_allowed seen i keys = Ok () \<longleftrightarrow>
     distinct keys \<and> seen \<inter> set keys = {} \<and> (\<forall>s \<in> set keys. \<exists>k. StaticPublicKey_from_hex s = Ok k)"
  by (induction seen i keys rule: validate_allowed.induct) (auto simp: and_then_Ok map_sum_Ok)

lemma validate_routes_iff:
  "validate_routes N tun before routes = Ok () \<longleftrightarrow>
     distinct routes \<and> set before \<inter> set routes = {} \<and>
     (\<forall>r \<in> set routes. net_prefix_len N r \<noteq> 0 \<and> is_ipv4 (net_addr N r) = is_ipv4 (tun_address tun))"
  by (induction N tun before routes rule: validate_routes.induct) (auto simp: and_then_Ok)

end
