(* ===== verification/Noise_Runtime.thy ===== *)
theory Noise_Runtime
  imports Noise_Handshake Data_Runtime Config
begin

text \<open>
  The Noise runtime (\<open>src/noise_runtime.rs\<close>): binding an endpoint from its configuration, the
  handshake loops of client and server, and the switch to the encrypted forwarding loop.

  A loop is a function of the sequence of events that end its waiting. An event carries what the
  socket returned and the clock values read: a received datagram with its source, the instant of its
  processing, which of the sends it causes fails (\<open>None\<close> if none), and the instant at which a session
  established by it starts. The result is what was sent and how the loop ended; the events of the
  forwarding loop are a second argument. Creating the TUN device and the socket are not modelled:
  of the device only its MTU matters, of the socket whether binding succeeds.
\<close>

definition second :: duration where "second = 10 ^ 9"

definition HANDSHAKE_TIMEOUT :: duration where "HANDSHAKE_TIMEOUT = 10 * second"
definition IDLE_TIMEOUT :: duration where "IDLE_TIMEOUT = 300 * second"
definition MAX_PENDING :: usize where "MAX_PENDING = 1"

datatype ('r, 'h) NoiseIkRuntime =
  Client SocketAddr "('r, 'h) client_coordinator" usize SessionLimits
| Server "'r server_coordinator" usize SessionLimits

section \<open>Binding\<close>

datatype BindError =
  LimitsRequired
| LimitsInvalid SessionLimitsConfigError
| PrivateKeyPathRequired
| PrivateKeyFailed LoadError
| CodecFailed V2CodecConfigError
| ServerKeyRequired
| ServerKeyInvalid KeyMaterialError
| ClientPolicyFailed ClientHandshakeConfigError
| ServerPolicyFailed SessionConfigError
| CoordinatorFailed CoordinatorBuildError
| AllowedKeyInvalid KeyMaterialError
| SocketBindFailed SocketAddr

text \<open>The loop over the allowed keys.\<close>

fun parse_allowed :: "bytes list \<Rightarrow> (bytes list, BindError) result" where
  "parse_allowed [] = Ok []"
| "parse_allowed (value # rest) =
     and_then (map_sum AllowedKeyInvalid id (StaticPublicKey_from_hex value)) (\<lambda>key.
       map_sum id ((#) (public_as_bytes key)) (parse_allowed rest))"

definition bind_client ::
  "('r, 'h) Snow \<Rightarrow> SecurityConfig \<Rightarrow> StaticPrivateKey \<Rightarrow> SocketAddr \<Rightarrow> SocketAddr \<Rightarrow> usize
   \<Rightarrow> SessionLimits \<Rightarrow> 'r \<Rightarrow> bool \<Rightarrow> (('r, 'h) NoiseIkRuntime, BindError) result" where
  "bind_client S security private bind server mtu limits entropy bound =
     and_then (ok_or (server_public_key security) ServerKeyRequired) (\<lambda>encoded.
     and_then (map_sum ServerKeyInvalid id (StaticPublicKey_from_hex encoded)) (\<lambda>server_key.
     and_then (map_sum ClientPolicyFailed id (ClientHandshake_new server HANDSHAKE_TIMEOUT)) (\<lambda>policy.
     and_then (map_sum CoordinatorFailed id (Handshake_Client.build (client_provider S) policy
       (ClientProvider_new (private_as_bytes private) (public_as_bytes server_key) entropy))) (\<lambda>coordinator.
     if \<not> bound then Err (SocketBindFailed bind)
     else Ok (NoiseIkRuntime.Client server coordinator mtu limits)))))"

definition bind_server ::
  "('r, 'h) Snow \<Rightarrow> SecurityConfig \<Rightarrow> StaticPrivateKey \<Rightarrow> SocketAddr \<Rightarrow> usize \<Rightarrow> SessionLimits
   \<Rightarrow> 'r \<Rightarrow> bool \<Rightarrow> (('r, 'h) NoiseIkRuntime, BindError) result" where
  "bind_server S security private bind mtu limits entropy bound =
     and_then (parse_allowed (allowed_client_public_keys security)) (\<lambda>allowed.
     and_then (map_sum ServerPolicyFailed id
       (SessionPolicy_new MAX_PENDING HANDSHAKE_TIMEOUT IDLE_TIMEOUT)) (\<lambda>policy.
     and_then (map_sum CoordinatorFailed id (Handshake_Server.build (server_provider S)
       (ServerHandshake_new policy)
       (ServerProvider_new (private_as_bytes private) allowed entropy))) (\<lambda>coordinator.
     if \<not> bound then Err (SocketBindFailed bind) else Ok (NoiseIkRuntime.Server coordinator mtu limits))))"

definition noise_bind ::
  "('r, 'h) Snow \<Rightarrow> file_system \<Rightarrow> ModeConfig \<Rightarrow> SecurityConfig \<Rightarrow> usize \<Rightarrow> 'r \<Rightarrow> bool
   \<Rightarrow> (('r, 'h) NoiseIkRuntime, BindError) result" where
  "noise_bind S fs mode security mtu entropy bound =
     and_then (ok_or (session_limits security) LimitsRequired) (\<lambda>configured.
     and_then (map_sum LimitsInvalid id (SessionLimits_new (max_outbound_packets configured)
       (max_outbound_plaintext_bytes configured) (max_inbound_packets configured)
       (max_inbound_plaintext_bytes configured) (unat (idle_timeout_seconds configured) * second)))
       (\<lambda>limits.
     and_then (ok_or (private_key_path security) PrivateKeyPathRequired) (\<lambda>path.
     and_then (map_sum PrivateKeyFailed id (load (fst (fs path)) (snd (fs path)))) (\<lambda>private.
     and_then (map_sum CodecFailed id (V2HandshakeCodec_new 112)) (\<lambda>_.
     case mode of
       ModeConfig.Client bind server \<Rightarrow>
         bind_client S security private bind server mtu limits entropy bound
     | ModeConfig.Server bind \<Rightarrow> bind_server S security private bind mtu limits entropy bound)))))"

section \<open>The handshake loops\<close>

datatype NoiseRunError =
  CodecUnavailable V2CodecConfigError
| StartFailed AdapterError
| HandshakeSendFailed
| HandshakeTimedOut
| HandshakeReceiveFailed
| ProcessFrame AdapterError
| ExpireFailed FatalCoordinatorError
| NoCommittedTransport
| MetadataMismatch
| DataCodecFailed DataFrameCodecConfigError

text \<open>
  \<open>Forwarding s it\<close>: the forwarding loop was entered with session \<open>s\<close>, and \<open>it\<close> is its result.
  \<open>Stuck\<close> stands for a panic of the frame encoder.
\<close>

datatype RunEnd = Waiting | Ended NoiseRunError | Stuck | Forwarding session iteration

type_synonym handshake_run = "Effect list \<times> RunEnd"

text \<open>The sends of one report, in order; the loop stops at the first that fails.\<close>

definition send_all :: "(bytes \<times> SocketAddr) list \<Rightarrow> nat option \<Rightarrow> Effect list \<times> bool" where
  "send_all datagrams failed = (case failed of
     Some n \<Rightarrow>
       if n < length datagrams then (map (\<lambda>(d, a). SendTo d a) (take (n + 1) datagrams), False)
       else (map (\<lambda>(d, a). SendTo d a) datagrams, True)
   | None \<Rightarrow> (map (\<lambda>(d, a). SendTo d a) datagrams, True))"

text \<open>Entering the forwarding loop with the transport the provider committed.\<close>

definition forward_session ::
  "(StatelessTransportState \<times> EstablishedSessionMetadata) option \<Rightarrow> EstablishedSessionMetadata
   \<Rightarrow> (EstablishedSessionMetadata \<Rightarrow> DirectionalTransport \<Rightarrow> session) \<Rightarrow> usize
   \<Rightarrow> (instant \<times> Event) list \<Rightarrow> RunEnd" where
  "forward_session extracted metadata new_session mtu data = (case extracted of
     None \<Rightarrow> Ended NoCommittedTransport
   | Some (transport, committed_metadata) \<Rightarrow>
       if metadata \<noteq> committed_metadata then Ended MetadataMismatch
       else (case DataFrameCodec_new mtu of
         Inl e \<Rightarrow> Ended (DataCodecFailed e)
       | Inr codec \<Rightarrow>
           let session = new_session metadata \<lparr>dt_state = transport\<rparr>
           in Forwarding session (run mtu codec session data)))"

datatype ClientEvent =
  HandshakeDeadline
| ClientReceiveError
| ClientReceived bytes SocketAddr instant "nat option" instant

fun client_established :: "ClientCoordinatorEvent list \<Rightarrow> EstablishedSessionMetadata option" where
  "client_established [] = None"
| "client_established (ClientCoordinatorEvent.SessionEstablished metadata # _) = Some metadata"
| "client_established (_ # events) = client_established events"

fun client_loop ::
  "('r, 'h) Snow \<Rightarrow> V2HandshakeCodec \<Rightarrow> SocketAddr \<Rightarrow> usize \<Rightarrow> SessionLimits \<Rightarrow> (instant \<times> Event) list
   \<Rightarrow> ('r, 'h) client_coordinator \<Rightarrow> ClientEvent list \<Rightarrow> handshake_run" where
  "client_loop S codec server mtu limits data coordinator [] = ([], Waiting)"
| "client_loop S codec server mtu limits data coordinator (HandshakeDeadline # _) =
     ([], Ended HandshakeTimedOut)"
| "client_loop S codec server mtu limits data coordinator (ClientReceiveError # _) =
     ([], Ended HandshakeReceiveFailed)"
| "client_loop S codec server mtu limits data coordinator
     (ClientReceived datagram source now failed started # events) =
     (if source \<noteq> server then client_loop S codec server mtu limits data coordinator events
      else case receive_client_frame S coordinator codec server
                  (take (vc_maximum_datagram_length codec + 1) datagram) now of
        (coordinator, None) \<Rightarrow> ([], Stuck)
      | (coordinator, Some (Inl e)) \<Rightarrow>
          if is_remote_frame_rejection e
          then client_loop S codec server mtu limits data coordinator events
          else ([], Ended (ProcessFrame e))
      | (coordinator, Some (Inr report)) \<Rightarrow>
        let (sent, ok) = send_all (map (\<lambda>d. (d, server)) (car_datagrams report)) failed in
        if \<not> ok then (sent, Ended HandshakeSendFailed)
        else case client_established (car_events report) of
          Some metadata \<Rightarrow>
            (sent, forward_session
               (Noise_Client.into_established_transport (chc_crypto coordinator)) metadata
               (\<lambda>md transport. EstablishedDataSession_client md server transport
                  (SessionLifetime_new started limits)) mtu data)
        | None \<Rightarrow> apfst ((@) sent) (client_loop S codec server mtu limits data coordinator events))"

definition noise_client_run ::
  "('r, 'h) Snow \<Rightarrow> SocketAddr \<Rightarrow> usize \<Rightarrow> SessionLimits \<Rightarrow> ('r, 'h) client_coordinator
   \<Rightarrow> instant \<times> nat option \<Rightarrow> ClientEvent list \<Rightarrow> (instant \<times> Event) list \<Rightarrow> handshake_run" where
  "noise_client_run S server mtu limits coordinator begun events data =
     (case V2HandshakeCodec_new 112 of
        Inl e \<Rightarrow> ([], Ended (CodecUnavailable e))
      | Inr codec \<Rightarrow>
        (case start_client_frame S coordinator codec (fst begun) of
           (coordinator, None) \<Rightarrow> ([], Stuck)
         | (coordinator, Some (Inl e)) \<Rightarrow> ([], Ended (StartFailed e))
         | (coordinator, Some (Inr report)) \<Rightarrow>
           let (sent, ok) = send_all (map (\<lambda>d. (d, server)) (car_datagrams report)) (snd begun) in
           if \<not> ok then (sent, Ended HandshakeSendFailed)
           else apfst ((@) sent) (client_loop S codec server mtu limits data coordinator events)))"

datatype ServerEvent =
  CandidateDeadline instant
| ServerReceiveError
| ServerReceived bytes SocketAddr instant "nat option" instant

fun server_established ::
  "ServerCoordinatorEvent list \<Rightarrow> (SocketAddr \<times> EstablishedSessionMetadata) option" where
  "server_established [] = None"
| "server_established (ServerCoordinatorEvent.SessionEstablished source metadata # _) = Some (source, metadata)"
| "server_established (_ # events) = server_established events"

text \<open>A deadline event without a pending candidate cannot be selected and changes nothing.\<close>

fun server_loop ::
  "('r, 'h) Snow \<Rightarrow> V2HandshakeCodec \<Rightarrow> usize \<Rightarrow> SessionLimits \<Rightarrow> (instant \<times> Event) list
   \<Rightarrow> 'r server_coordinator \<Rightarrow> ServerEvent list \<Rightarrow> handshake_run" where
  "server_loop S codec mtu limits data coordinator [] = ([], Waiting)"
| "server_loop S codec mtu limits data coordinator (CandidateDeadline now # events) =
     (case coordinator_next_deadline coordinator of
        None \<Rightarrow> server_loop S codec mtu limits data coordinator events
      | Some _ \<Rightarrow>
        (case coordinator_check_timeouts (server_provider S) coordinator now of
           (coordinator, Inl e) \<Rightarrow> ([], Ended (ExpireFailed e))
         | (coordinator, Inr _) \<Rightarrow> server_loop S codec mtu limits data coordinator events))"
| "server_loop S codec mtu limits data coordinator (ServerReceiveError # _) =
     ([], Ended HandshakeReceiveFailed)"
| "server_loop S codec mtu limits data coordinator
     (ServerReceived datagram source now failed started # events) =
     (case receive_server_frame S coordinator codec source
             (take (vc_maximum_datagram_length codec + 1) datagram) now of
        (coordinator, None) \<Rightarrow> ([], Stuck)
      | (coordinator, Some (Inl e)) \<Rightarrow>
          if is_remote_frame_rejection e
          then server_loop S codec mtu limits data coordinator events
          else ([], Ended (ProcessFrame e))
      | (coordinator, Some (Inr report)) \<Rightarrow>
        let (sent, ok) = send_all (map (\<lambda>out. (sad_datagram out, sad_destination out))
              (sar_datagrams report)) failed in
        if \<not> ok then (sent, Ended HandshakeSendFailed)
        else case server_established (sar_events report) of
          Some (peer_endpoint, metadata) \<Rightarrow>
            (sent, forward_session
               (Noise_Server.into_established_transport (shc_crypto coordinator)) metadata
               (\<lambda>md transport. EstablishedDataSession_server md peer_endpoint transport
                  (SessionLifetime_new started limits)) mtu data)
        | None \<Rightarrow> apfst ((@) sent) (server_loop S codec mtu limits data coordinator events))"

definition noise_server_run ::
  "('r, 'h) Snow \<Rightarrow> usize \<Rightarrow> SessionLimits \<Rightarrow> 'r server_coordinator \<Rightarrow> ServerEvent list
   \<Rightarrow> (instant \<times> Event) list \<Rightarrow> handshake_run" where
  "noise_server_run S mtu limits coordinator events data =
     (case V2HandshakeCodec_new 112 of
        Inl e \<Rightarrow> ([], Ended (CodecUnavailable e))
      | Inr codec \<Rightarrow> server_loop S codec mtu limits data coordinator events)"

section \<open>What the handshake sends\<close>

lemma encode_frame_wire:
  assumes "encode_frame codec k a p = Some (Ok d)"
  shows "d = v2_wire k a (payload_bytes p)"
proof -
  let ?out = "replicate (vc_maximum_datagram_length codec) 0"
  obtain n out where e: "encode codec k a (payload_bytes p) ?out = Some (Ok n, out)" "d = take n out"
    using assms by (auto simp: encode_frame_def split: option.splits sum.splits)
  then show ?thesis using encode_okD [OF e(1)] encode_ok [of codec k a "payload_bytes p" ?out] by auto
qed

lemma encode_all_wire:
  assumes "encode_all codec ms = Some (Ok ds)"
  shows "list_all2 (\<lambda>m d. d = v2_wire (fst m) (fst (snd m)) (payload_bytes (snd (snd m)))) ms ds"
  using assms
proof (induction codec ms arbitrary: ds rule: encode_all.induct)
  case (2 codec k a p rest)
  then show ?case
    by (auto simp: map_sum_Ok dest: encode_frame_wire split: option.splits sum.splits)
qed simp

definition frame_of :: "MessageType set \<Rightarrow> bytes \<Rightarrow> bool" where
  "frame_of kinds d \<longleftrightarrow> (\<exists>k \<in> kinds. \<exists>a p. d = v2_wire k a p)"

lemma client_report_frames:
  assumes "client_report codec r = Some (Ok report)" and "d \<in> set (car_datagrams report)"
  shows "frame_of {MessageType.ClientHello, MessageType.ClientFinish} d"
proof -
  obtain rep :: "(NoiseIkPayload, NoiseIkPayload) ClientCoordinatorReport" where
    "encode_all codec (map client_message (cr_outbound rep)) = Some (Ok (car_datagrams report))"
    using assms(1) by (auto simp: client_report_def map_sum_Ok split: sum.splits)
  from encode_all_wire [OF this] assms(2) obtain m where
    "d = v2_wire (fst (client_message m)) (fst (snd (client_message m))) (payload_bytes (snd (snd (client_message m))))"
    by (auto simp: list_all2_conv_all_nth in_set_conv_nth)
  then show ?thesis
    by (auto simp: client_message_def frame_of_def split: ClientHandshakeMessage.splits)
qed

lemma server_report_frames:
  assumes "server_report codec r = Some (Ok report)" and "out \<in> set (sar_datagrams report)"
  shows "frame_of {MessageType.ServerHello, MessageType.ServerFinish} (sad_datagram out)"
proof -
  obtain rep :: "(NoiseIkPayload, NoiseIkPayload) ServerCoordinatorReport" and ds where
    ds: "encode_all codec (map (server_message \<circ> so_message) (sc_outbound rep)) = Some (Ok ds)"
    "sar_datagrams report = map2 (\<lambda>out datagram. \<lparr>sad_destination = so_destination out,
       sad_datagram = datagram\<rparr>) (sc_outbound rep) ds"
    using assms(1) by (auto simp: server_report_def map_sum_Ok split: sum.splits)
  from encode_all_wire [OF ds(1)] ds(2) assms(2) obtain m where
    "sad_datagram out = v2_wire (fst (server_message m)) (fst (snd (server_message m)))
       (payload_bytes (snd (snd (server_message m))))"
    by (auto simp: list_all2_conv_all_nth in_set_conv_nth)
  then show ?thesis
    by (auto simp: server_message_def frame_of_def split: ServerHandshakeMessage.splits)
qed

text \<open>Only frames of the given kinds are sent, and nothing is written to the device.\<close>

definition sends_only :: "MessageType set \<Rightarrow> Effect list \<Rightarrow> bool" where
  "sends_only kinds effects \<longleftrightarrow> (\<forall>e \<in> set effects. \<exists>d dst. e = SendTo d dst \<and> frame_of kinds d)"

lemma sends_only_simps [simp]:
  "sends_only kinds []" "sends_only kinds (a @ b) \<longleftrightarrow> sends_only kinds a \<and> sends_only kinds b"
  by (auto simp: sends_only_def)

lemma send_all_frames:
  assumes "send_all ds failed = (sent, ok)" and "\<forall>x \<in> set ds. frame_of kinds (fst x)"
  shows "sends_only kinds sent"
proof -
  have "\<exists>xs. set xs \<subseteq> set ds \<and> sent = map (\<lambda>(d, a). SendTo d a) xs"
    using assms(1) by (auto simp: send_all_def split: option.splits if_splits dest: in_set_takeD)
  then show ?thesis using assms(2) by (fastforce simp: sends_only_def)
qed

section \<open>Sessions come from the handshake\<close>

lemma forward_session_Forwarding:
  assumes "forward_session extracted md new_session mtu data = Forwarding s it"
  shows "\<exists>transport. extracted = Some (transport, md) \<and> s = new_session md \<lparr>dt_state = transport\<rparr>"
  using assms by (auto simp: forward_session_def Let_def split: option.splits if_splits sum.splits)

lemma forward_session_not_Stuck: "forward_session extracted md new_session mtu data \<noteq> Stuck"
  by (simp add: forward_session_def Let_def split: option.split sum.split)

lemma client_frame_report:
  assumes "receive_client_frame S k codec source d now = (k', Some (Ok report))"
  shows "\<exists>r. client_report codec r = Some (Ok report)"
  using receive_client_frame_cases [OF assms] by (auto dest: sym)

lemma server_frame_report:
  assumes "receive_server_frame S k codec source d now = (k', Some (Ok report))"
  shows "\<exists>r. server_report codec r = Some (Ok report)"
  using receive_server_frame_cases [OF assms] by (auto dest: sym)

text \<open>A result of a handshake loop that only sent frames, and started a session only as described.\<close>

definition run_ok :: "MessageType set \<Rightarrow> (session \<Rightarrow> bool) \<Rightarrow> handshake_run \<Rightarrow> bool" where
  "run_ok kinds P result \<longleftrightarrow> sends_only kinds (fst result) \<and> snd result \<noteq> Stuck \<and>
     (\<forall>s it. snd result = Forwarding s it \<longrightarrow> P s)"

lemma run_ok_simps [simp]:
  "run_ok kinds P (sent, Waiting) \<longleftrightarrow> sends_only kinds sent"
  "run_ok kinds P (sent, Ended e) \<longleftrightarrow> sends_only kinds sent"
  "run_ok kinds P (apfst ((@) sent) r) \<longleftrightarrow> sends_only kinds sent \<and> run_ok kinds P r"
  by (auto simp: run_ok_def)

lemma run_ok_mono: "run_ok kinds P r \<Longrightarrow> (\<And>s. P s \<Longrightarrow> Q s) \<Longrightarrow> run_ok kinds Q r"
  by (auto simp: run_ok_def)

lemma run_ok_forward:
  assumes "sends_only kinds sent"
    and "\<And>transport. extracted = Some (transport, md) \<Longrightarrow> P (new_session md \<lparr>dt_state = transport\<rparr>)"
  shows "run_ok kinds P (sent, forward_session extracted md new_session mtu data)"
  using assms forward_session_not_Stuck by (auto simp: run_ok_def dest!: forward_session_Forwarding)

definition client_session_ok ::
  "('r, 'h) Snow \<Rightarrow> bytes \<Rightarrow> SocketAddr \<Rightarrow> session \<Rightarrow> bool" where
  "client_session_ok S pk server s \<longleftrightarrow> es_peer_endpoint s = server \<and>
     es_send_direction s = ClientToServer \<and> es_receive_direction s = ServerToClient \<and>
     (\<exists>a. authentic_server S pk a (dt_state (es_transport s)) (es_metadata s))"

definition server_session_ok ::
  "('r, 'h) Snow \<Rightarrow> bytes list \<Rightarrow> SocketAddr set \<Rightarrow> session \<Rightarrow> bool" where
  "server_session_ok S keys sources s \<longleftrightarrow> es_peer_endpoint s \<in> sources \<and>
     es_send_direction s = ServerToClient \<and> es_receive_direction s = ClientToServer \<and>
     (\<exists>a. authentic_client S keys a (dt_state (es_transport s)) (es_metadata s))"

lemma client_loop_ok:
  assumes codec: "V2HandshakeCodec_new 112 = Ok codec"
    and built: "Handshake_Client.build (client_provider S) policy (ClientProvider_new sk pk r) = Ok k0"
    and run: "client_coordinated (client_provider S) k0 k"
  shows "run_ok {MessageType.ClientHello, MessageType.ClientFinish} (client_session_ok S pk server)
    (client_loop S codec server mtu limits data k events)"
  using run
proof (induction events arbitrary: k)
  case (Cons event events)
  show ?case
  proof (cases event)
    case (ClientReceived d source now failed started)
    obtain k' q where f: "receive_client_frame S k codec server
        (take (Suc (vc_maximum_datagram_length codec)) d) now = (k', q)" by fastforce
    note run' = client_frame_coordinated(2) [OF Cons.prems f]
    have total: "q \<noteq> None"
      using receive_client_frame_cases [OF f] report_total(1) [OF codec] by fastforce
    show ?thesis
    proof (cases "source = server")
      case True
      consider e where "q = Some (Err e)" | report where "q = Some (Ok report)"
        using total by (metis option.exhaust sum.exhaust)
      then show ?thesis
      proof cases
        case 2
        obtain sent ok where se: "send_all (map (\<lambda>d. (d, server)) (car_datagrams report)) failed = (sent, ok)"
          by fastforce
        have frames: "sends_only {MessageType.ClientHello, MessageType.ClientFinish} sent"
          using client_frame_report [OF f [unfolded 2]] client_report_frames
          by (intro send_all_frames [OF se]) fastforce
        show ?thesis
          using True Cons.IH [OF run'] frames client_transport_authentic [OF built run']
          by (auto simp: ClientReceived f 2 se client_session_ok_def EstablishedDataSession_client_def
              intro!: run_ok_forward split: option.split)
      qed (use True Cons.IH [OF run'] in \<open>simp add: ClientReceived f\<close>)
    qed (use Cons.IH [OF Cons.prems] in \<open>simp add: ClientReceived\<close>)
  qed simp_all
qed simp

lemma reconcile_events:
  "reconcile_expired C c ex = (c', Ok evs) \<Longrightarrow> server_established (evs @ es) = server_established es"
proof (induction ex arbitrary: c evs)
  case (Cons x ex)
  then show ?case by (auto simp: bind_st_Ok split: prod.splits sum.splits if_splits)
qed simp

text \<open>A session reported by the server's coordinator belongs to the source of the message.\<close>

lemma established_source:
  assumes "server_call C call k = (k', Ok report)" and "server_established (sc_events report) = Some (p, md)"
  shows "\<exists>m t. call = CallClientFinish p m t"
proof (cases call)
  case (CallClientHello s m t)
  then show ?thesis
    using assms
    by (auto simp: receive_client_hello_def answer_hello_def drop_candidate_def stable_def
        Handshake_Server.fatal_def Let_def reconcile_events
        split: prod.splits sum.splits list.splits ServerEffect.splits if_splits CryptoOutcome.splits
          AuthenticationFailure.splits dest: reconcile_events [where es = "[]", simplified])
next
  case (CallClientFinish s m t)
  then show ?thesis
    using assms
    by (auto simp: receive_client_finish_def authenticate_finish_def establish_candidate_def
        drop_candidate_def server_finish_def stable_def Handshake_Server.fatal_def Let_def reconcile_events
        split: prod.splits sum.splits list.splits ServerEffect.splits if_splits CryptoOutcome.splits
          AuthenticationFailure.splits ServerClientFinishDecision.splits ServerClientFinishMode.splits
        dest: reconcile_events [where es = "[]", simplified])
next
  case (CallTimeouts t)
  then show ?thesis
    using assms
    by (auto simp: coordinator_check_timeouts_def stable_def Handshake_Server.fatal_def Let_def
        split: prod.splits sum.splits if_splits dest: reconcile_events [where es = "[]", simplified])
next
  case CallShutdown
  then show ?thesis
    using assms
    by (auto simp: coordinator_shutdown_def Let_def
        split: prod.splits sum.splits list.splits ServerEffect.splits if_splits)
qed

lemma server_frame_source:
  assumes "receive_server_frame S k codec source d now = (k', Some (Ok report))"
    and "server_established (sar_events report) = Some (p, md)"
  shows "p = source"
proof -
  have called: "p = source" if eq: "(let (k', r) = server_call (server_provider S) call k in (k', server_report codec r)) =
      (k', Some (Ok report))" and src: "\<And>s m t. call = CallClientFinish s m t \<Longrightarrow> s = source" for call
  proof -
    obtain q where "server_call (server_provider S) call k = (k', Ok q)" "sar_events report = sc_events q"
      using eq by (auto simp: server_report_def map_sum_Ok Let_def split: prod.splits sum.splits)
    then show ?thesis using established_source src assms(2) by metis
  qed
  show ?thesis
    using assms(1) called [of "CallClientHello source _ now"] called [of "CallClientFinish source _ now"]
    by (auto simp: receive_server_frame_def split: sum.splits ServerInboundFrame.splits)
qed

lemma server_session_mono:
  "server_session_ok S keys A s \<Longrightarrow> A \<subseteq> B \<Longrightarrow> server_session_ok S keys B s"
  by (auto simp: server_session_ok_def)

definition event_sources :: "ServerEvent list \<Rightarrow> SocketAddr set" where
  "event_sources events = {source. \<exists>d now failed started. ServerReceived d source now failed started \<in> set events}"

lemma server_loop_ok:
  assumes codec: "V2HandshakeCodec_new 112 = Ok codec"
    and built: "Handshake_Server.build (server_provider S) (ServerHandshake_new policy)
      (ServerProvider_new sk keys r) = Ok k0"
    and run: "server_coordinated (server_provider S) k0 k"
  shows "run_ok {MessageType.ServerHello, MessageType.ServerFinish}
    (server_session_ok S keys (event_sources events)) (server_loop S codec mtu limits data k events)"
  using run
proof (induction events arbitrary: k)
  case (Cons event events)
  let ?kinds = "{MessageType.ServerHello, MessageType.ServerFinish}"
  let ?P = "server_session_ok S keys (event_sources (event # events))"
  have sub: "event_sources events \<subseteq> event_sources (event # events)" by (auto simp: event_sources_def)
  have IH: "run_ok ?kinds ?P (server_loop S codec mtu limits data k' events)"
    if "server_coordinated (server_provider S) k0 k'" for k'
    using Cons.IH [OF that] by (rule run_ok_mono) (rule server_session_mono [OF _ sub])
  show ?case
  proof (cases event)
    case (CandidateDeadline now)
    obtain k' q where "coordinator_check_timeouts (server_provider S) k now = (k', q)" by fastforce
    then show ?thesis
      using IH [OF Cons.prems] IH [OF server_coordinated.step [OF Cons.prems, of "CallTimeouts now"]]
      by (cases q) (simp_all add: CandidateDeadline split: option.split)
  next
    case (ServerReceived d source now failed started)
    obtain k' q where f: "receive_server_frame S k codec source
        (take (Suc (vc_maximum_datagram_length codec)) d) now = (k', q)" by fastforce
    note run' = server_frame_coordinated [OF Cons.prems f]
    have total: "q \<noteq> None"
      using receive_server_frame_cases [OF f] report_total(2) [OF codec] by fastforce
    then consider e where "q = Some (Err e)" | report where "q = Some (Ok report)"
      by (metis option.exhaust sum.exhaust)
    then show ?thesis
    proof cases
      case 2
      obtain sent ok where se: "send_all (map (\<lambda>out. (sad_datagram out, sad_destination out))
          (sar_datagrams report)) failed = (sent, ok)" by fastforce
      have frames: "sends_only ?kinds sent"
        using server_frame_report [OF f [unfolded 2]] server_report_frames
        by (intro send_all_frames [OF se]) fastforce
      have src: "source \<in> event_sources (event # events)"
        by (auto simp: event_sources_def ServerReceived)
      have "run_ok ?kinds ?P (sent, forward_session
          (Noise_Server.into_established_transport (shc_crypto k')) md (\<lambda>md transport.
            EstablishedDataSession_server md p transport (SessionLifetime_new started limits)) mtu data)"
        if "server_established (sar_events report) = Some (p, md)" for p md
        using server_frame_source [OF f [unfolded 2] that] src server_transport_authentic [OF built run']
        by (intro run_ok_forward [OF frames])
          (auto simp: server_session_ok_def EstablishedDataSession_server_def)
      then show ?thesis
        using IH [OF run'] frames by (auto simp: ServerReceived f 2 se split: option.split)
    qed (use IH [OF run'] in \<open>simp add: ServerReceived f\<close>)
  qed simp_all
qed simp

section \<open>Binding from a configuration\<close>

lemma parse_allowed_iff:
  "parse_allowed vs = Ok keys \<longleftrightarrow> vs = map encode_hex keys \<and> (\<forall>k \<in> set keys. length k = 32)"
proof (induction vs arbitrary: keys)
  case (Cons v vs)
  have "parse_allowed (v # vs) = Ok keys \<longleftrightarrow> (\<exists>key ks. StaticPublicKey_from_hex v = Ok key \<and>
      parse_allowed vs = Ok ks \<and> keys = public_as_bytes key # ks)"
    by (auto simp: and_then_Ok map_sum_Ok)
  also have "\<dots> \<longleftrightarrow> (\<exists>k ks. length k = 32 \<and> v = encode_hex k \<and> vs = map encode_hex ks \<and>
      (\<forall>k \<in> set ks. length k = 32) \<and> keys = k # ks)"
    unfolding Cons.IH public_key_iff by (metis StaticPublicKey.sel)
  finally show ?case by (cases keys) auto
qed auto

lemma parse_allowed_total:
  "\<forall>s \<in> set vs. \<exists>k. StaticPublicKey_from_hex s = Ok k \<Longrightarrow> \<exists>ks. parse_allowed vs = Ok ks"
  by (induction vs) auto

lemma handshake_codec: "\<exists>codec. V2HandshakeCodec_new 112 = Ok codec"
  using codec112_new by blast

lemma timeouts_positive: "HANDSHAKE_TIMEOUT > 0" "IDLE_TIMEOUT > 0" "MAX_PENDING > 0"
  by (simp_all add: HANDSHAKE_TIMEOUT_def IDLE_TIMEOUT_def MAX_PENDING_def second_def)

lemma noise_bind_client:
  assumes "noise_bind S fs mode security mtu entropy bound = Ok (NoiseIkRuntime.Client server k mtu' limits)"
  obtains pk sk policy where "server_public_key security = Some (encode_hex pk)" "length pk = 32"
    "Handshake_Client.build (client_provider S) policy (ClientProvider_new sk pk entropy) = Ok k"
    "mtu' = mtu" "\<exists>bind. mode = ModeConfig.Client bind server"
  using assms that
  by (cases mode) (auto simp: noise_bind_def bind_client_def bind_server_def and_then_Ok map_sum_Ok
      public_key_iff split: if_splits)

lemma noise_bind_server:
  assumes "noise_bind S fs mode security mtu entropy bound = Ok (NoiseIkRuntime.Server k mtu' limits)"
  obtains keys sk policy where "allowed_client_public_keys security = map encode_hex keys"
    "\<forall>k \<in> set keys. length k = 32"
    "Handshake_Server.build (server_provider S) (ServerHandshake_new policy) (ServerProvider_new sk keys entropy) = Ok k"
    "mtu' = mtu"
  using assms that
  by (cases mode) (auto simp: noise_bind_def bind_client_def bind_server_def and_then_Ok map_sum_Ok
      parse_allowed_iff split: if_splits)

lemma validated_binds:
  assumes "validate N fs cfg = Ok ()" and "security_mode (cfg_security cfg) = NoiseIk"
  shows "\<exists>runtime. noise_bind S fs (cfg_mode cfg) (cfg_security cfg) mtu entropy True = Ok runtime"
proof -
  obtain l path sk where sec: "session_limits (cfg_security cfg) = Some l" "limits_validate l = Ok ()"
    "private_key_path (cfg_security cfg) = Some path" "load (fst (fs path)) (snd (fs path)) = Ok sk"
    using assms by (auto simp: validate_def validate_security_def and_then_Ok map_sum_Ok)
  obtain lim where lim: "SessionLimits_new (max_outbound_packets l) (max_outbound_plaintext_bytes l)
      (max_inbound_packets l) (max_inbound_plaintext_bytes l) (unat (idle_timeout_seconds l) * second) = Ok lim"
    using sec(2) by (auto simp: limits_validate_iff SessionLimits_new_def second_def word_greater_zero_iff unat_eq_0)
  obtain codec where codec: "V2HandshakeCodec_new 112 = Ok codec" using handshake_codec by blast
  show ?thesis
  proof (cases "cfg_mode cfg")
    case (Client b srv)
    then obtain k where "server_public_key (cfg_security cfg) = Some (encode_hex (public_as_bytes k))"
      "StaticPublicKey_from_hex (encode_hex (public_as_bytes k)) = Ok k"
      using assms by (auto simp: validate_def validate_security_def and_then_Ok map_sum_Ok public_key_iff)
    then show ?thesis
      by (simp add: noise_bind_def sec lim codec Client bind_client_def ClientHandshake_new_def
          timeouts_positive Handshake_Client.build_def client_state_name_def name_def ClientProvider_new_def)
  next
    case (Server b)
    then obtain ks where "parse_allowed (allowed_client_public_keys (cfg_security cfg)) = Ok ks"
      using assms parse_allowed_total
      by (auto simp: validate_def validate_security_def and_then_Ok map_sum_Ok validate_allowed_iff)
    then show ?thesis
      by (simp add: noise_bind_def sec lim codec Server bind_server_def SessionPolicy_new_def
          timeouts_positive Handshake_Server.build_def state_name_def ServerHandshake_new_def is_fresh_def
          non_secret_status_def ServerProvider_new_def)
  qed
qed

lemma noise_client_run_ok:
  assumes built: "Handshake_Client.build (client_provider S) policy (ClientProvider_new sk pk r) = Ok k"
  shows "run_ok {MessageType.ClientHello, MessageType.ClientFinish} (client_session_ok S pk server)
    (noise_client_run S server mtu limits k begun events data)"
proof -
  obtain k' q where st: "start_client_frame S k codec112 (fst begun) = (k', q)" by fastforce
  note run = client_frame_coordinated(1) [OF client_coordinated.base st]
  obtain x where rep: "q = client_report codec112 x"
    using st by (auto simp: start_client_frame_def Let_def split: prod.splits)
  then consider e where "q = Some (Err e)" | report where "q = Some (Ok report)"
    using report_total(1) [OF codec112_new, of x] by (metis option.exhaust sum.exhaust)
  then show ?thesis
  proof cases
    case 2
    obtain sent ok where se: "send_all (map (\<lambda>d. (d, server)) (car_datagrams report)) (snd begun) = (sent, ok)"
      by fastforce
    have "sends_only {MessageType.ClientHello, MessageType.ClientFinish} sent"
      using client_report_frames [of codec112 x report] rep 2 by (intro send_all_frames [OF se]) auto
    then show ?thesis
      using client_loop_ok [OF codec112_new built run]
      by (simp add: noise_client_run_def codec112_new st 2 se)
  qed (simp add: noise_client_run_def codec112_new st)
qed

section \<open>Properties\<close>

text \<open>
  C4. An endpoint bound in Noise mode never forwards in the clear. Whatever events its handshake
  loop sees, it sends nothing but handshake frames of its own direction and writes nothing to the TUN
  device; it never panics; and it enters the forwarding loop only with a session whose transport and
  identifier come from a handshake authenticated under the configured keys: for a client with the
  configured server key and endpoint, for a server with one of the configured client keys and with the
  source of a datagram it received.
\<close>

theorem noise_forwards_only_authenticated:
  assumes "noise_bind S fs mode security mtu entropy bound = Ok runtime"
  shows "case runtime of
      NoiseIkRuntime.Client server k mtu limits \<Rightarrow>
        \<exists>pk. server_public_key security = Some (encode_hex pk) \<and>
          (\<forall>begun events data. run_ok {MessageType.ClientHello, MessageType.ClientFinish}
             (client_session_ok S pk server)
             (noise_client_run S server mtu limits k begun events data))
    | NoiseIkRuntime.Server k mtu limits \<Rightarrow>
        \<exists>keys. allowed_client_public_keys security = map encode_hex keys \<and>
          (\<forall>events data. run_ok {MessageType.ServerHello, MessageType.ServerFinish}
             (server_session_ok S keys (event_sources events))
             (noise_server_run S mtu limits k events data))"
proof (cases runtime)
  case (Client server k mtu' limits)
  obtain pk sk policy where pk: "server_public_key security = Some (encode_hex pk)"
    and built: "Handshake_Client.build (client_provider S) policy (ClientProvider_new sk pk entropy) = Ok k"
    by (rule noise_bind_client [OF assms [unfolded Client]])
  have "run_ok {MessageType.ClientHello, MessageType.ClientFinish} (client_session_ok S pk server)
      (noise_client_run S server mtu' limits k begun events data)" for begun events data
    by (rule noise_client_run_ok [OF built])
  then show ?thesis using pk by (auto simp: Client)
next
  case (Server k mtu' limits)
  obtain keys sk policy where keys: "allowed_client_public_keys security = map encode_hex keys"
    and built: "Handshake_Server.build (server_provider S) (ServerHandshake_new policy)
      (ServerProvider_new sk keys entropy) = Ok k"
    by (rule noise_bind_server [OF assms [unfolded Server]])
  have "run_ok {MessageType.ServerHello, MessageType.ServerFinish}
      (server_session_ok S keys (event_sources events)) (noise_server_run S mtu' limits k events data)"
    for events data
    using server_loop_ok [OF codec112_new built server_coordinated.base]
    by (simp add: noise_server_run_def codec112_new)
  then show ?thesis using keys by (auto simp: Server)
qed

text \<open>
  C8. A validated Noise configuration binds: with the same file system, binding fails at most because
  the socket cannot be bound: no key, limit or policy that validation accepts is rejected later.
\<close>

theorem validated_config_binds:
  assumes "validate N fs cfg = Ok ()" and "security_mode (cfg_security cfg) = NoiseIk"
  shows "(\<exists>runtime. noise_bind S fs (cfg_mode cfg) (cfg_security cfg) mtu entropy True = Ok runtime) \<and>
    noise_bind S fs (cfg_mode cfg) (cfg_security cfg) mtu entropy False =
      Err (SocketBindFailed (bind_addr (cfg_mode cfg)))"
proof -
  obtain runtime where "noise_bind S fs (cfg_mode cfg) (cfg_security cfg) mtu entropy True = Ok runtime"
    using validated_binds [OF assms, of S mtu entropy] by blast
  then show ?thesis
    by (cases "cfg_mode cfg") (auto simp: noise_bind_def bind_client_def bind_server_def and_then_Ok map_sum_Ok
        bind_addr_def)
qed

section \<open>Concrete configurations\<close>

definition point_nets :: "(IpAddr \<times> u8) IpNetLib" where
  "point_nets = \<lparr>net_prefix_len = snd, net_addr = fst, net_contains = (\<lambda>n a. fst n = a)\<rparr>"

definition key_files :: file_system where
  "key_files path = (Some 0x8180, Some (encode_hex (replicate 32 1)))"

definition noise_security :: SecurityConfig where
  "noise_security = \<lparr>security_mode = NoiseIk, private_key_path = Some [107],
     server_public_key = Some (encode_hex (replicate 32 2)), allowed_client_public_keys = [],
     session_limits = Some \<lparr>max_outbound_packets = 5, max_outbound_plaintext_bytes = 5000,
       max_inbound_packets = 5, max_inbound_plaintext_bytes = 5000, idle_timeout_seconds = 60\<rparr>\<rparr>"

definition noise_client_config :: "u16 \<Rightarrow> (IpAddr \<times> u8) Config" where
  "noise_client_config mtu = config_default\<lparr>cfg_security := noise_security,
     cfg_tun := (cfg_tun (config_default :: (IpAddr \<times> u8) Config))\<lparr>tun_mtu := mtu\<rparr>\<rparr>"

lemma noise_client_config_valid:
  assumes "0 < mtu"
  shows "validate point_nets key_files (noise_client_config mtu) = Ok ()"
proof -
  have "load (Some 0x8180) (Some (encode_hex (replicate 32 1))) = Ok (StaticPrivateKey (replicate 32 1))"
    using load_generated [of "replicate 32 1" "[]"] by simp
  moreover have "StaticPublicKey_from_hex (encode_hex (replicate 32 2)) = Ok (StaticPublicKey (replicate 32 2))"
    by (simp add: public_key_iff)
  ultimately show ?thesis
    using assms
    by (simp add: validate_def noise_client_config_def config_default_def tun_validate_def is_ipv4_def
        validate_security_def noise_security_def key_files_def limits_validate_iff validate_client_def
        routing_default_def ensure_def limits_validate_def word_neq_0_conv)
qed

theorem validated_config_binds_witness:
  "(\<exists>runtime. noise_bind clear_snow key_files (cfg_mode (noise_client_config 1400)) noise_security 1400 0 True =
     Ok runtime) \<and>
   noise_bind clear_snow key_files (cfg_mode (noise_client_config 1400)) noise_security 1400 0 False =
     Err (SocketBindFailed (bind_addr (cfg_mode (noise_client_config 1400))))"
  using validated_config_binds [OF noise_client_config_valid, of 1400 clear_snow 1400 0]
  by (simp add: noise_client_config_def noise_security_def)

theorem noise_forwards_only_authenticated_witness:
  "\<exists>server k mtu limits pk. noise_bind clear_snow key_files (cfg_mode (noise_client_config 1400))
      noise_security 1400 0 True = Ok (NoiseIkRuntime.Client server k mtu limits) \<and>
    (\<forall>begun events data. run_ok {MessageType.ClientHello, MessageType.ClientFinish}
       (client_session_ok clear_snow pk server)
       (noise_client_run clear_snow server mtu limits k begun events data))"
proof -
  obtain runtime where b: "noise_bind clear_snow key_files (cfg_mode (noise_client_config 1400))
      noise_security 1400 0 True = Ok runtime"
    using validated_binds [OF noise_client_config_valid, of 1400 clear_snow 1400 0]
    by (auto simp: noise_client_config_def noise_security_def)
  then obtain server k mtu limits where "runtime = NoiseIkRuntime.Client server k mtu limits"
    by (auto simp: noise_bind_def noise_client_config_def config_default_def bind_client_def and_then_Ok
        map_sum_Ok)
  then show ?thesis using noise_forwards_only_authenticated [OF b] b by auto
qed

section \<open>Observations\<close>

text \<open>
  Validation accepts every positive IPv4 MTU, but the encrypted codec exists only up to 65389 bytes:
  with a larger MTU the endpoint completes the handshake and then fails.
\<close>

lemma large_mtu_fails_after_handshake:
  assumes "65389 < mtu"
  shows "\<exists>e. forward_session (Some (transport, md)) md new_session mtu data = Ended (DataCodecFailed e)"
  using assms DataFrameCodec_new_defined [of mtu]
  by (cases "DataFrameCodec_new mtu") (auto simp: forward_session_def)

text \<open>
  After a failed authentication the client's coordinator is closed, but its loop goes on: it sends
  nothing, drops whatever arrives and ends only with the deadline or a receive error.
\<close>

lemma closed_client_drops:
  assumes codec: "V2HandshakeCodec_new 112 = Ok codec"
    and closed: "ch_state (chc_policy k) = ClientHandshakeState.Closed"
    and recv: "receive_client_frame S k codec source d now = (k', Some r)"
  shows "k' = k \<and> ((\<exists>e. r = Err e \<and> is_remote_frame_rejection e) \<or>
    (\<exists>reason. r = Ok \<lparr>car_datagrams = [], car_events = [ClientCoordinatorEvent.Dropped reason]\<rparr>))"
proof -
  have pre: "\<exists>reason. precheck (chc_policy k) source a kd now = (chc_policy k, ClientPreAuthDecision.Drop reason)" for a kd
    using closed by (simp add: precheck_def Let_def)
  have drop: "\<exists>reason. receive_server_hello (client_provider S) k source m now =
      (k, Ok \<lparr>cr_outbound = [], cr_events = [ClientCoordinatorEvent.Dropped reason]\<rparr>)"
    "\<exists>reason. receive_server_finish (client_provider S) k source m' now =
      (k, Ok \<lparr>cr_outbound = [], cr_events = [ClientCoordinatorEvent.Dropped reason]\<rparr>)" for m m'
    using pre [of "svh_client_attempt_id m" ClientPreAuthKind.ServerHello]
      pre [of "svf_client_attempt_id m'" ClientPreAuthKind.ServerFinish]
    by (auto simp: receive_server_hello_def receive_server_finish_def)
  obtain f g where
    "\<And>m. receive_server_hello (client_provider S) k source m now =
      (k, Ok \<lparr>cr_outbound = [], cr_events = [ClientCoordinatorEvent.Dropped (f m)]\<rparr>)"
    "\<And>m. receive_server_finish (client_provider S) k source m now =
      (k, Ok \<lparr>cr_outbound = [], cr_events = [ClientCoordinatorEvent.Dropped (g m)]\<rparr>)"
    using drop by metis
  then show ?thesis
    using recv
    by (auto simp: receive_client_frame_def client_report_def is_remote_frame_rejection_def body_payload_def
        Let_def split: sum.splits ClientInboundFrame.splits if_splits)
qed

end
