(* ===== verification/Protocol_V1.thy ===== *)
theory Protocol_V1
  imports Protocol_Types
begin

text \<open>
  The version 1 data frame (\<open>src/protocol/v1.rs\<close>): \<open>FrameCodec::new\<close>, \<open>encoded_len\<close>,
  \<open>encode_data\<close> and \<open>decode\<close>, each with the source's checks in the source's order.
  The encoder writes into a caller-owned buffer, so its model returns the result and the buffer;
  the outer \<open>option\<close> is the panic of an out-of-range write, which is proved impossible.
  The codec implements the \<open>wire_codec\<close> interface.
\<close>

definition HEADER_LEN :: usize where
  "HEADER_LEN = 10"

record FrameCodec =
  fc_mtu :: usize
  fc_maximum_datagram_len :: usize
  fc_receive_buffer_len :: usize

datatype CodecConfigError =
  ZeroMtu
| MtuNotRepresentable usize
| DatagramLengthOverflow usize

datatype EncodeError =
  EmptyPayload
| PayloadTooLarge usize usize
| PayloadLengthNotRepresentable usize
| EncodedLengthOverflow usize
| OutputBufferTooSmall usize usize

datatype DecodeError =
  DatagramTooShort usize usize
| InvalidMagic bytes
| UnsupportedVersion u8
| UnknownMessageType u8
| UnsupportedFlags u16
| EmptyPayload
| PayloadLengthMismatch usize usize
| PayloadTooLarge usize usize

definition decode_version :: "u8 \<Rightarrow> (ProtocolVersion, DecodeError) result" where
  "decode_version value = (if value = 1 then Ok V1 else Err (UnsupportedVersion value))"

definition decode_message_type :: "u8 \<Rightarrow> (MessageType, DecodeError) result" where
  "decode_message_type value =
     (if value = 1 then Ok MessageType.Data else Err (UnknownMessageType value))"

definition FrameCodec_new :: "usize \<Rightarrow> (FrameCodec, CodecConfigError) result" where
  "FrameCodec_new mtu =
     (if mtu = 0 then Err ZeroMtu
      else and_then (ok_or (u16_try_from mtu) (MtuNotRepresentable mtu)) (\<lambda>_.
        and_then (ok_or (usize_checked_add HEADER_LEN mtu) (DatagramLengthOverflow mtu))
          (\<lambda>maximum_datagram_len.
        and_then (ok_or (usize_checked_add maximum_datagram_len 1) (DatagramLengthOverflow mtu))
          (\<lambda>receive_buffer_len.
        Ok \<lparr>fc_mtu = mtu, fc_maximum_datagram_len = maximum_datagram_len,
            fc_receive_buffer_len = receive_buffer_len\<rparr>))))"

definition encoded_len :: "FrameCodec \<Rightarrow> usize \<Rightarrow> (usize, EncodeError) result" where
  "encoded_len self payload_len =
     (if payload_len = 0 then Err EncodeError.EmptyPayload
      else if payload_len > fc_mtu self
        then Err (EncodeError.PayloadTooLarge payload_len (fc_mtu self))
      else ok_or (usize_checked_add HEADER_LEN payload_len) (EncodedLengthOverflow payload_len))"

definition encode_data ::
  "FrameCodec \<Rightarrow> bytes \<Rightarrow> bytes \<Rightarrow> ((usize, EncodeError) result \<times> bytes) option" where
  "encode_data self payload output =
     (case encoded_len self (length payload) of
        Inl e \<Rightarrow> Some (Err e, output)
      | Inr encoded_length \<Rightarrow>
          if length output < encoded_length
          then Some (Err (OutputBufferTooSmall encoded_length (length output)), output)
          else (case u16_try_from (length payload) of
            None \<Rightarrow> Some (Err (PayloadLengthNotRepresentable (length payload)), output)
          | Some payload_len \<Rightarrow>
              map_option (Pair (Ok encoded_length))
                (write_all
                  [(0, MAGIC),
                   (4, [version_wire_value V1]),
                   (5, [message_wire_value MessageType.Data]),
                   (6, u16_to_be_bytes FLAGS_NONE),
                   (8, u16_to_be_bytes payload_len),
                   (HEADER_LEN, payload)] output)))"

definition decode :: "FrameCodec \<Rightarrow> bytes \<Rightarrow> (DecodedFrame, DecodeError) result" where
  "decode self datagram =
     (if length datagram < HEADER_LEN
        then Err (DatagramTooShort (length datagram) HEADER_LEN)
      else if take 4 datagram \<noteq> MAGIC then Err (InvalidMagic (take 4 datagram))
      else and_then (decode_version (datagram ! 4)) (\<lambda>_.
        and_then (decode_message_type (datagram ! 5)) (\<lambda>message_type.
          let flags = u16_from_be_bytes [datagram ! 6, datagram ! 7];
              declared = unat (u16_from_be_bytes [datagram ! 8, datagram ! 9]);
              actual = length datagram - HEADER_LEN
          in if flags \<noteq> FLAGS_NONE then Err (UnsupportedFlags flags)
             else if declared \<noteq> actual then Err (PayloadLengthMismatch declared actual)
             else if actual = 0 then Err DecodeError.EmptyPayload
             else if actual > fc_mtu self
               then Err (DecodeError.PayloadTooLarge actual (fc_mtu self))
             else Ok \<lparr>df_message_type = message_type, df_payload = drop HEADER_LEN datagram\<rparr>)))"

section \<open>Layout of an encoded frame\<close>

text \<open>The bytes of the frame that carries \<open>payload\<close>.\<close>

definition v1_wire :: "bytes \<Rightarrow> bytes" where
  "v1_wire payload = common_header 1 1 0 (word_of_nat (length payload)) @ payload"

text \<open>Payloads a codec frames: non-empty, within the MTU and within the length field.\<close>

definition v1_payload_ok :: "FrameCodec \<Rightarrow> bytes \<Rightarrow> bool" where
  "v1_payload_ok c payload \<longleftrightarrow>
     payload \<noteq> [] \<and> length payload \<le> fc_mtu c \<and> length payload \<le> 65535"

lemma length_v1_wire [simp]: "length (v1_wire p) = 10 + length p"
  by (simp add: v1_wire_def)

lemma v1_write_all:
  assumes "10 + length p \<le> length out"
  shows "write_all
      [(0, MAGIC), (4, [version_wire_value V1]), (5, [message_wire_value MessageType.Data]),
       (6, u16_to_be_bytes FLAGS_NONE), (8, u16_to_be_bytes (word_of_nat (length p))),
       (HEADER_LEN, p)] out = Some (v1_wire p @ drop (10 + length p) out)"
  by (subst write_all_from_start)
    (use assms in \<open>simp_all add: HEADER_LEN_def v1_wire_def common_header_def FLAGS_NONE_def\<close>)

lemma v1_encode_data_ok:
  assumes "v1_payload_ok c p" and "10 + length p \<le> length out"
  shows "encode_data c p out = Some (Ok (10 + length p), v1_wire p @ drop (10 + length p) out)"
proof -
  have l: "encoded_len c (length p) = Ok (10 + length p)"
    using assms by (simp add: v1_payload_ok_def encoded_len_def HEADER_LEN_def)
  show ?thesis
    using assms v1_write_all [OF assms(2)]
    by (simp add: encode_data_def l v1_payload_ok_def u16_try_from_def)
qed

lemma v1_encode_data_okD:
  assumes "encode_data c p out = Some (Ok n, out')"
  shows "v1_payload_ok c p \<and> 10 + length p \<le> length out"
  using assms
  by (auto simp: encode_data_def encoded_len_def v1_payload_ok_def HEADER_LEN_def
      split: sum.splits if_splits option.splits)

lemma decode_v1_wire:
  assumes "v1_payload_ok c p"
  shows "decode c (v1_wire p) = Ok \<lparr>df_message_type = MessageType.Data, df_payload = p\<rparr>"
  using assms common_header_read [of 1 1 0 "word_of_nat (length p)" p]
  by (simp add: decode_def v1_wire_def HEADER_LEN_def decode_version_def decode_message_type_def
      FLAGS_NONE_def v1_payload_ok_def Let_def)

lemma v1_decode_okD:
  assumes "decode c bs = Ok f"
  shows "v1_payload_ok c (df_payload f) \<and> df_message_type f = MessageType.Data
    \<and> bs = v1_wire (df_payload f)"
proof -
  have len: "10 \<le> length bs" and m: "take 4 bs = MAGIC"
    and b4: "bs ! 4 = 1" and b5: "bs ! 5 = 1"
    and fl: "u16_from_be_bytes [bs ! 6, bs ! 7] = 0"
    and de: "unat (u16_from_be_bytes [bs ! 8, bs ! 9]) = length bs - 10"
    and rest: "length bs - 10 \<noteq> 0" "length bs - 10 \<le> fc_mtu c"
    and f: "f = \<lparr>df_message_type = MessageType.Data, df_payload = drop 10 bs\<rparr>"
    using assms
    by (auto simp: decode_def HEADER_LEN_def decode_version_def decode_message_type_def
        FLAGS_NONE_def Let_def and_then_Ok split: if_splits)
  have "length (drop 10 bs) \<le> 65535"
    using de u16_bound [of "u16_from_be_bytes [bs ! 8, bs ! 9]"] by simp
  moreover have "word_of_nat (length (drop 10 bs)) = u16_from_be_bytes [bs ! 8, bs ! 9]"
    by (simp add: de [symmetric])
  ultimately show ?thesis
    using common_header_write [OF len m] rest b4 b5 fl
    by (auto simp: f v1_payload_ok_def v1_wire_def)
qed

section \<open>The codec implements the frame interface\<close>

text \<open>Encoding into a fresh buffer of the frame's length, and reading a datagram back.\<close>

definition v1_send :: "FrameCodec \<Rightarrow> bytes \<Rightarrow> bytes option" where
  "v1_send c payload =
     (case encode_data c payload (replicate (10 + length payload) 0) of
        Some (Inr n, out) \<Rightarrow> Some (take n out) | _ \<Rightarrow> None)"

definition v1_receive :: "FrameCodec \<Rightarrow> bytes \<Rightarrow> bytes option" where
  "v1_receive c datagram = (case decode c datagram of Inl _ \<Rightarrow> None | Inr f \<Rightarrow> Some (df_payload f))"

lemma v1_send_iff: "v1_send c p = Some bs \<longleftrightarrow> v1_payload_ok c p \<and> bs = v1_wire p"
proof (cases "v1_payload_ok c p")
  case True
  then show ?thesis by (auto simp: v1_send_def v1_encode_data_ok)
next
  case False
  then show ?thesis
    by (auto simp: v1_send_def dest: v1_encode_data_okD split: option.splits sum.splits)
qed

lemma v1_receive_iff: "v1_receive c bs = Some p \<longleftrightarrow> v1_payload_ok c p \<and> bs = v1_wire p"
proof
  assume "v1_receive c bs = Some p"
  then obtain f where "decode c bs = Ok f" "p = df_payload f"
    by (auto simp: v1_receive_def split: sum.splits)
  then show "v1_payload_ok c p \<and> bs = v1_wire p"
    by (auto dest: v1_decode_okD)
next
  assume "v1_payload_ok c p \<and> bs = v1_wire p"
  then show "v1_receive c bs = Some p"
    by (simp add: v1_receive_def decode_v1_wire)
qed

interpretation v1: wire_codec "v1_send c" "v1_receive c" for c
  by unfold_locales (simp_all add: v1_send_iff v1_receive_iff)

section \<open>Properties\<close>

text \<open>C39. The version 1 codec is a bijection between the payloads it frames and the datagrams it
  accepts: a datagram decodes to a payload exactly when it is what the encoder writes for that
  payload, so there is one wire form per payload and no malleability.\<close>

theorem v1_codec_canonical: "v1_send c payload = Some datagram \<longleftrightarrow> v1_receive c datagram = Some payload"
  by (rule v1.enc_iff_dec)

text \<open>The encoder never writes out of bounds, for any codec, payload and output buffer: it
  either fails without touching the buffer, or writes exactly the frame at its start and leaves the
  rest as it was.\<close>

theorem v1_encode_total:
  "case encode_data c payload output of
     None \<Rightarrow> False
   | Some (Inl e, output') \<Rightarrow> output' = output
   | Some (Inr n, output') \<Rightarrow> n = 10 + length payload \<and> n \<le> length output \<and>
       output' = v1_wire payload @ drop n output"
proof (cases "v1_payload_ok c payload \<and> 10 + length payload \<le> length output")
  case True
  then show ?thesis by (simp add: v1_encode_data_ok)
next
  case False
  show ?thesis
  proof (cases "encode_data c payload output")
    case None
    then have "10 + length payload \<le> length output"
      by (auto simp: encode_data_def encoded_len_def HEADER_LEN_def split: sum.splits if_splits option.splits)
    with None v1_write_all [OF this] show ?thesis
      by (auto simp: encode_data_def encoded_len_def split: sum.splits if_splits option.splits)
  next
    case (Some r)
    obtain a output' where r: "r = (a, output')" by (cases r)
    show ?thesis
    proof (cases a)
      case (Inl e)
      then have "output' = output"
        using Some by (auto simp: encode_data_def r split: sum.splits if_splits option.splits)
      then show ?thesis using Some r Inl by simp
    next
      case (Inr n)
      then show ?thesis using Some r False v1_encode_data_okD [of c payload "output" n output'] by blast
    qed
  qed
qed

end
