(* ===== verification/Legacy_Forwarding.thy ===== *)
theory Legacy_Forwarding
  imports Protocol_V1 Data_Runtime Config
begin

text \<open>
  What the version 1 client (\<open>src/client.rs\<close>) and server (\<open>src/server.rs\<close>) share: the events their
  forwarding loops select, the ways a loop ends, the encoding and sending of one frame, and the loop
  itself. The results of the operating system (a packet read, the byte count of a send) are part of the
  events; a read fills a buffer of fixed length, so a longer packet or datagram arrives truncated.
  The locale \<open>loop_simulation\<close> carries a correspondence of single steps over to whole loops, the
  locale \<open>counted_loop\<close> does so for the counters.
\<close>

datatype ForwardError =
  TunReadFailed
| FrameEncodeFailed EncodeError
| UdpSendFailed
| PartialUdpSend usize usize
| UdpReceiveFailed
| TunWriteFailed TunWriteError
| CtrlCFailed

datatype ForwardFlow = Proceed | Stopped | Aborted ForwardError | Panic

text \<open>
  \<open>TunPacket packet sent\<close>: the packet the TUN device offers (\<open>None\<close> for a read error) and what the
  socket's send would return. \<open>UdpDatagram datagram written\<close>: the datagram that arrives and what the
  device's send would return. \<open>Interrupt ok\<close>: Ctrl+C, or a failure to listen for it.
\<close>

datatype 'd ForwardEvent =
  TunPacket "bytes option" "usize option"
| UdpDatagram "'d option" "usize option"
| Interrupt bool

type_synonym 's forward_step = "'s \<times> Effect list \<times> ForwardFlow"

text \<open>Encode the packet into the reused buffer, send the frame and check the count sent.\<close>

definition send_frame ::
  "FrameCodec \<Rightarrow> SocketAddr \<Rightarrow> bytes \<Rightarrow> usize option \<Rightarrow> bytes \<Rightarrow> bytes forward_step" where
  "send_frame codec peer packet sent buffer =
     (case Protocol_V1.encode_data codec packet buffer of
        None \<Rightarrow> (buffer, [], Panic)
      | Some (Inl e, buffer) \<Rightarrow> (buffer, [], Aborted (FrameEncodeFailed e))
      | Some (Inr encoded_size, buffer) \<Rightarrow>
          (buffer, [SendTo (take encoded_size buffer) peer],
           case sent of
             None \<Rightarrow> Aborted UdpSendFailed
           | Some n \<Rightarrow> if n \<noteq> encoded_size then Aborted (PartialUdpSend n encoded_size) else Proceed))"

text \<open>Write the payload to the TUN device.\<close>

definition inject_packet :: "usize \<Rightarrow> bytes \<Rightarrow> usize option \<Rightarrow> Effect list \<times> ForwardFlow" where
  "inject_packet mtu payload written =
     ([WriteTun payload],
      case write_packet mtu payload written of
        Inl e \<Rightarrow> Aborted (TunWriteFailed e)
      | Inr _ \<Rightarrow> Proceed)"

text \<open>\<open>Proceed\<close> at the end of the events: the loop waits for the next one.\<close>

fun forward_loop :: "('s \<Rightarrow> 'e \<Rightarrow> 's forward_step) \<Rightarrow> 's \<Rightarrow> 'e list \<Rightarrow> 's forward_step" where
  "forward_loop step s [] = (s, [], Proceed)"
| "forward_loop step s (e # events) = (case step s e of
     (s', effects, Proceed) \<Rightarrow> apsnd (apfst ((@) effects)) (forward_loop step s' events)
   | stopped \<Rightarrow> stopped)"

lemma forward_loop_Cons:
  "forward_loop step s (e # events) =
     (let (s', effects, flow) = step s e in
      if flow = Proceed
      then apsnd (apfst ((@) effects)) (forward_loop step s' events)
      else (s', effects, flow))"
  by (cases "step s e"; cases "snd (snd (step s e))") auto

declare forward_loop.simps(2) [simp del]

section \<open>Correspondence of loops\<close>

locale loop_simulation =
  fixes step :: "'s \<Rightarrow> 'e \<Rightarrow> 's forward_step"
    and spec :: "'t \<Rightarrow> 'e \<Rightarrow> 't forward_step"
    and inv :: "'s \<Rightarrow> bool"
    and abs :: "'s \<Rightarrow> 't"
  assumes step_inv: "inv s \<Longrightarrow> step s e = (s', effects, flow) \<Longrightarrow> inv s'"
    and step_abs: "inv s \<Longrightarrow> step s e = (s', effects, flow) \<Longrightarrow> spec (abs s) e = (abs s', effects, flow)"
begin

lemma loop_inv: "inv s \<Longrightarrow> forward_loop step s events = (s', effects, flow) \<Longrightarrow> inv s'"
  by (induction events arbitrary: s effects)
    (auto simp: forward_loop_Cons apsnd_def apfst_def map_prod_def split: prod.splits if_splits
      dest: step_inv)

lemma loop_abs:
  "inv s \<Longrightarrow> forward_loop spec (abs s) events = apfst abs (forward_loop step s events)"
proof (induction events arbitrary: s)
  case (Cons e events)
  obtain s' effects flow where e: "step s e = (s', effects, flow)" by (cases "step s e")
  have "spec (abs s) e = (abs s', effects, flow)" and "inv s'"
    using step_abs [OF Cons.prems e] step_inv [OF Cons.prems e] by auto
  with Cons.IH [of s'] e show ?case
    by (simp add: forward_loop_Cons apsnd_def apfst_def map_prod_def split: prod.splits)
qed simp

end

text \<open>The datagrams sent, with their destinations.\<close>

fun udp_sends :: "Effect list \<Rightarrow> (bytes \<times> SocketAddr) list" where
  "udp_sends [] = []"
| "udp_sends (SendTo d a # es) = (d, a) # udp_sends es"
| "udp_sends (WriteTun _ # es) = udp_sends es"

lemma udp_sends_append [simp]: "udp_sends (es @ es') = udp_sends es @ udp_sends es'"
  by (induction es rule: udp_sends.induct) simp_all

lemma in_udp_sends: "(d, a) \<in> set (udp_sends effects) \<longleftrightarrow> SendTo d a \<in> set effects"
  by (induction effects rule: udp_sends.induct) auto

text \<open>
  A loop whose counters add up: while the sum of all counters is below the largest \<open>u64\<close>, each event
  after which the loop goes on adds one to it, and the counters of packets delivered and sent follow
  the effects.
\<close>

locale counted_loop =
  fixes step :: "'s \<Rightarrow> 'e \<Rightarrow> 's forward_step"
    and inv :: "'s \<Rightarrow> bool"
    and total delivered sent :: "'s \<Rightarrow> nat"
  assumes counted_inv: "inv s \<Longrightarrow> step s e = (s', effects, flow) \<Longrightarrow> inv s'"
    and counted_step: "inv s \<Longrightarrow> step s e = (s', effects, Proceed) \<Longrightarrow> total s < 2 ^ 64 - 1 \<Longrightarrow>
      total s' = total s + 1 \<and> delivered s' = delivered s + length (tun_writes effects) \<and>
      sent s' = sent s + length (udp_sends effects)"
begin

lemma loop_counts:
  "inv s \<Longrightarrow> total s + length events < 2 ^ 64 \<Longrightarrow> forward_loop step s events = (s', effects, Proceed) \<Longrightarrow>
    total s' = total s + length events \<and> delivered s' = delivered s + length (tun_writes effects) \<and>
    sent s' = sent s + length (udp_sends effects)"
proof (induction events arbitrary: s effects)
  case (Cons e events)
  obtain t eff flow where e: "step s e = (t, eff, flow)" by (cases "step s e")
  then obtain rest where rest: "flow = Proceed" "forward_loop step t events = (s', rest, Proceed)"
      "effects = eff @ rest"
    using Cons.prems(3)
    by (auto simp: forward_loop_Cons apsnd_def apfst_def map_prod_def split: prod.splits if_splits)
  have "total t = total s + 1 \<and> delivered t = delivered s + length (tun_writes eff) \<and>
      sent t = sent s + length (udp_sends eff)"
    using counted_step [OF Cons.prems(1)] e rest(1) Cons.prems(2) by simp
  then show ?case
    using Cons.IH [OF counted_inv [OF Cons.prems(1) e] _ rest(2)] Cons.prems(2) rest(3) by simp
qed simp

end

lemma unat_count: "unat (c :: u64) < 2 ^ 64 - 1 \<Longrightarrow> unat (u64_saturating_add c 1) = unat c + 1"
  by (simp add: unat_u64_saturating_add)

section \<open>Frames of a codec\<close>

lemma FrameCodec_new_ok:
  assumes "FrameCodec_new mtu = Ok codec"
  shows "fc_mtu codec = mtu \<and> 0 < mtu \<and> mtu \<le> 65535 \<and> fc_maximum_datagram_len codec = 10 + mtu \<and>
    fc_receive_buffer_len codec = 11 + mtu"
  using assms by (auto simp: FrameCodec_new_def HEADER_LEN_def and_then_Ok split: if_splits)

lemma v1_encode_empty: "Protocol_V1.encode_data codec [] buffer = Some (Err EncodeError.EmptyPayload, buffer)"
  by (simp add: Protocol_V1.encode_data_def encoded_len_def)

text \<open>
  With a buffer of the largest frame, a non-empty packet within the MTU leaves as its frame, whatever
  the buffer held before, and an empty one ends the loop.
\<close>

lemma send_frame_eq:
  assumes codec: "FrameCodec_new mtu = Ok codec" and "length packet \<le> mtu"
    and "length buffer = fc_maximum_datagram_len codec"
  shows "\<exists>buffer'. length buffer' = length buffer \<and> send_frame codec peer packet sent buffer =
    (if packet = [] then (buffer, [], Aborted (FrameEncodeFailed EncodeError.EmptyPayload))
     else (buffer', [SendTo (v1_wire packet) peer],
       case sent of None \<Rightarrow> Aborted UdpSendFailed
       | Some n \<Rightarrow> if n \<noteq> 10 + length packet then Aborted (PartialUdpSend n (10 + length packet)) else Proceed))"
proof (cases "packet = []")
  case True
  then show ?thesis by (auto simp: send_frame_def v1_encode_empty)
next
  case False
  then have "v1_payload_ok codec packet" "10 + length packet \<le> length buffer"
    using assms FrameCodec_new_ok [OF codec] by (auto simp: v1_payload_ok_def)
  from v1_encode_data_ok [OF this] this(2) False show ?thesis
    by (intro exI [of _ "v1_wire packet @ drop (10 + length packet) buffer"])
      (simp add: send_frame_def)
qed

lemma inject_packet_eq:
  "length payload \<le> mtu \<Longrightarrow> inject_packet mtu payload written =
    ([WriteTun payload], case written of
       None \<Rightarrow> Aborted (TunWriteFailed TunSendFailed)
     | Some n \<Rightarrow> if n \<noteq> length payload
         then Aborted (TunWriteFailed (PartialTunWrite n (length payload))) else Proceed)"
  by (simp add: inject_packet_def write_packet_def validate_packet_size_def split: option.splits)

text \<open>A datagram that is longer than the largest frame is still longer than it in the buffer.\<close>

lemma truncated_oversized:
  assumes "FrameCodec_new mtu = Ok codec"
  shows "length (take (fc_receive_buffer_len codec) d) > fc_maximum_datagram_len codec \<longleftrightarrow>
      length d > fc_maximum_datagram_len codec"
    and "length d \<le> fc_maximum_datagram_len codec \<Longrightarrow> take (fc_receive_buffer_len codec) d = d"
  using FrameCodec_new_ok [OF assms] by auto

lemma v1_receive_length:
  assumes "FrameCodec_new mtu = Ok codec" and "v1_receive codec d = Some p"
  shows "length d \<le> fc_maximum_datagram_len codec \<and> length p \<le> mtu \<and> d = v1_wire p \<and> p \<noteq> []"
  using assms FrameCodec_new_ok [OF assms(1)] by (auto simp: v1_receive_iff v1_payload_ok_def)

end
