(* ===== verification/Legacy_Client.thy ===== *)
theory Legacy_Client
  imports Legacy_Forwarding
begin

text \<open>
  The version 1 client (\<open>src/client.rs\<close>): configuration, counters, packet policy, binding and the
  forwarding loop. The socket is connected, so a datagram that arrives comes from the server. The loop's
  state is the packet policy with its counters and the reused encode buffer.
\<close>

record ClientConfig =
  cc_bind_addr :: SocketAddr
  cc_server_addr :: SocketAddr
  cc_tun :: TunConfig

record ForwardingStats =
  tun_to_udp_packets :: u64
  tun_to_udp_bytes :: u64
  udp_to_tun_packets :: u64
  udp_to_tun_bytes :: u64
  oversized_tun_packets :: u64
  oversized_udp_packets :: u64
  invalid_udp_frames :: u64

definition stats_default :: ForwardingStats where
  "stats_default = \<lparr>tun_to_udp_packets = 0, tun_to_udp_bytes = 0, udp_to_tun_packets = 0,
     udp_to_tun_bytes = 0, oversized_tun_packets = 0, oversized_udp_packets = 0, invalid_udp_frames = 0\<rparr>"

definition stats_record_tun_to_udp :: "ForwardingStats \<Rightarrow> usize \<Rightarrow> ForwardingStats" where
  "stats_record_tun_to_udp self n =
     self\<lparr>tun_to_udp_packets := u64_saturating_add (tun_to_udp_packets self) 1,
          tun_to_udp_bytes := u64_saturating_add (tun_to_udp_bytes self) (word_of_nat n)\<rparr>"

definition stats_record_udp_to_tun :: "ForwardingStats \<Rightarrow> usize \<Rightarrow> ForwardingStats" where
  "stats_record_udp_to_tun self n =
     self\<lparr>udp_to_tun_packets := u64_saturating_add (udp_to_tun_packets self) 1,
          udp_to_tun_bytes := u64_saturating_add (udp_to_tun_bytes self) (word_of_nat n)\<rparr>"

datatype PacketDecision = Forward | DropOversized

record ClientState =
  cs_inner_mtu :: usize
  cs_maximum_frame_len :: usize
  cs_stats :: ForwardingStats

definition ClientState_new :: "usize \<Rightarrow> usize \<Rightarrow> ClientState" where
  "ClientState_new inner_mtu maximum_frame_len =
     \<lparr>cs_inner_mtu = inner_mtu, cs_maximum_frame_len = maximum_frame_len, cs_stats = stats_default\<rparr>"

definition classify_tun :: "ClientState \<Rightarrow> usize \<Rightarrow> ClientState \<times> PacketDecision" where
  "classify_tun self n =
     (if n > cs_inner_mtu self
      then (self\<lparr>cs_stats := (cs_stats self)\<lparr>oversized_tun_packets :=
              u64_saturating_add (oversized_tun_packets (cs_stats self)) 1\<rparr>\<rparr>, DropOversized)
      else (self, Forward))"

definition classify_udp_frame :: "ClientState \<Rightarrow> usize \<Rightarrow> ClientState \<times> PacketDecision" where
  "classify_udp_frame self n =
     (if n > cs_maximum_frame_len self
      then (self\<lparr>cs_stats := (cs_stats self)\<lparr>oversized_udp_packets :=
              u64_saturating_add (oversized_udp_packets (cs_stats self)) 1\<rparr>\<rparr>, DropOversized)
      else (self, Forward))"

definition record_tun_to_udp :: "ClientState \<Rightarrow> usize \<Rightarrow> ClientState" where
  "record_tun_to_udp self n = self\<lparr>cs_stats := stats_record_tun_to_udp (cs_stats self) n\<rparr>"

definition record_udp_to_tun :: "ClientState \<Rightarrow> usize \<Rightarrow> ClientState" where
  "record_udp_to_tun self n = self\<lparr>cs_stats := stats_record_udp_to_tun (cs_stats self) n\<rparr>"

definition record_invalid_udp_frame :: "ClientState \<Rightarrow> ClientState" where
  "record_invalid_udp_frame self =
     self\<lparr>cs_stats := (cs_stats self)\<lparr>invalid_udp_frames :=
       u64_saturating_add (invalid_udp_frames (cs_stats self)) 1\<rparr>\<rparr>"

section \<open>Binding\<close>

datatype ClientBindError = ClientSocketBind | ClientSocketConnect | ClientTunCreate

text \<open>The arguments say whether the socket binds and connects and whether the device is created.\<close>

definition client_bind ::
  "ClientConfig \<Rightarrow> bool \<Rightarrow> bool \<Rightarrow> bool \<Rightarrow> (ClientConfig, ClientBindError) result" where
  "client_bind config bound connected created =
     (if \<not> bound then Err ClientSocketBind
      else if \<not> connected then Err ClientSocketConnect
      else if \<not> created then Err ClientTunCreate
      else Ok config)"

section \<open>Forwarding\<close>

definition client_tun ::
  "FrameCodec \<Rightarrow> usize \<Rightarrow> SocketAddr \<Rightarrow> ClientState \<times> bytes \<Rightarrow> bytes \<Rightarrow> usize option
   \<Rightarrow> (ClientState \<times> bytes) forward_step" where
  "client_tun codec mtu server s packet sent =
     (let (state, buffer) = s; inner_packet = take (mtu + 1) packet; n = length inner_packet;
          (state, decision) = classify_tun state n
      in if decision = DropOversized then ((state, buffer), [], Proceed)
         else let (buffer, effects, flow) = send_frame codec server inner_packet sent buffer
              in ((if flow = Proceed then record_tun_to_udp state n else state, buffer),
                  effects, flow))"

definition client_udp ::
  "FrameCodec \<Rightarrow> usize \<Rightarrow> ClientState \<times> bytes \<Rightarrow> bytes \<Rightarrow> usize option
   \<Rightarrow> (ClientState \<times> bytes) forward_step" where
  "client_udp codec mtu s datagram written =
     (let (state, buffer) = s; datagram = take (fc_receive_buffer_len codec) datagram;
          (state, decision) = classify_udp_frame state (length datagram)
      in if decision = DropOversized then ((state, buffer), [], Proceed)
         else case Protocol_V1.decode codec datagram of
           Inl _ \<Rightarrow> ((record_invalid_udp_frame state, buffer), [], Proceed)
         | Inr decoded \<Rightarrow>
             if df_message_type decoded \<noteq> MessageType.Data
             then ((record_invalid_udp_frame state, buffer), [], Proceed)
             else let payload = df_payload decoded;
                      (effects, flow) = inject_packet mtu payload written
                  in ((if flow = Proceed then record_udp_to_tun state (length payload) else state,
                       buffer), effects, flow))"

definition client_step ::
  "FrameCodec \<Rightarrow> usize \<Rightarrow> SocketAddr \<Rightarrow> ClientState \<times> bytes \<Rightarrow> bytes ForwardEvent
   \<Rightarrow> (ClientState \<times> bytes) forward_step" where
  "client_step codec mtu server s event = (case event of
     TunPacket None _ \<Rightarrow> (s, [], Aborted TunReadFailed)
   | TunPacket (Some packet) sent \<Rightarrow> client_tun codec mtu server s packet sent
   | UdpDatagram None _ \<Rightarrow> (s, [], Aborted UdpReceiveFailed)
   | UdpDatagram (Some datagram) written \<Rightarrow> client_udp codec mtu s datagram written
   | Interrupt ok \<Rightarrow> (s, [], if ok then Stopped else Aborted CtrlCFailed))"

definition client_forward ::
  "FrameCodec \<Rightarrow> usize \<Rightarrow> SocketAddr \<Rightarrow> ClientState \<Rightarrow> bytes ForwardEvent list
   \<Rightarrow> (ClientState \<times> bytes) forward_step" where
  "client_forward codec mtu server state events =
     forward_loop (client_step codec mtu server)
       (state, replicate (fc_maximum_datagram_len codec) 0) events"

text \<open>The counters are what the final summary logs.\<close>

definition client_run ::
  "usize \<Rightarrow> SocketAddr \<Rightarrow> bytes ForwardEvent list
   \<Rightarrow> (ForwardingStats forward_step, CodecConfigError) result" where
  "client_run mtu server events =
     and_then (FrameCodec_new mtu) (\<lambda>codec.
       let ((state, _), result) = client_forward codec mtu server
             (ClientState_new mtu (fc_maximum_datagram_len codec)) events
       in Ok (cs_stats state, result))"

section \<open>What the client does\<close>

text \<open>
  The client without buffers, codec and counters: it sends every packet within the MTU as its frame and
  injects the payload of every frame.
\<close>

definition client_spec ::
  "FrameCodec \<Rightarrow> usize \<Rightarrow> SocketAddr \<Rightarrow> unit \<Rightarrow> bytes ForwardEvent \<Rightarrow> unit forward_step" where
  "client_spec codec mtu server u event = (case event of
     TunPacket None _ \<Rightarrow> (u, [], Aborted TunReadFailed)
   | TunPacket (Some packet) sent \<Rightarrow>
       if length packet > mtu then (u, [], Proceed)
       else if packet = [] then (u, [], Aborted (FrameEncodeFailed EncodeError.EmptyPayload))
       else (u, [SendTo (v1_wire packet) server],
         case sent of None \<Rightarrow> Aborted UdpSendFailed
         | Some n \<Rightarrow> if n \<noteq> 10 + length packet then Aborted (PartialUdpSend n (10 + length packet))
             else Proceed)
   | UdpDatagram None _ \<Rightarrow> (u, [], Aborted UdpReceiveFailed)
   | UdpDatagram (Some datagram) written \<Rightarrow>
       (case v1_receive codec datagram of
          None \<Rightarrow> (u, [], Proceed)
        | Some payload \<Rightarrow> (u, [WriteTun payload],
            case written of None \<Rightarrow> Aborted (TunWriteFailed TunSendFailed)
            | Some n \<Rightarrow> if n \<noteq> length payload
                then Aborted (TunWriteFailed (PartialTunWrite n (length payload))) else Proceed))
   | Interrupt ok \<Rightarrow> (u, [], if ok then Stopped else Aborted CtrlCFailed))"

definition client_ok :: "FrameCodec \<Rightarrow> usize \<Rightarrow> ClientState \<times> bytes \<Rightarrow> bool" where
  "client_ok codec mtu s \<longleftrightarrow> FrameCodec_new mtu = Ok codec \<and> cs_inner_mtu (fst s) = mtu \<and>
     cs_maximum_frame_len (fst s) = fc_maximum_datagram_len codec \<and>
     length (snd s) = fc_maximum_datagram_len codec"

lemma client_record_simps [simp]:
  "cs_inner_mtu (record_tun_to_udp s n) = cs_inner_mtu s"
  "cs_maximum_frame_len (record_tun_to_udp s n) = cs_maximum_frame_len s"
  "cs_inner_mtu (record_udp_to_tun s n) = cs_inner_mtu s"
  "cs_maximum_frame_len (record_udp_to_tun s n) = cs_maximum_frame_len s"
  "cs_inner_mtu (record_invalid_udp_frame s) = cs_inner_mtu s"
  "cs_maximum_frame_len (record_invalid_udp_frame s) = cs_maximum_frame_len s"
  by (simp_all add: record_tun_to_udp_def record_udp_to_tun_def record_invalid_udp_frame_def)

text \<open>Which counter a step increases.\<close>

definition client_counted :: "FrameCodec \<Rightarrow> usize \<Rightarrow> ClientState \<Rightarrow> bytes ForwardEvent \<Rightarrow> ClientState" where
  "client_counted codec mtu state event = (case event of
     TunPacket (Some packet) _ \<Rightarrow>
       if length packet > mtu then fst (classify_tun state (mtu + 1))
       else record_tun_to_udp state (length packet)
   | UdpDatagram (Some datagram) _ \<Rightarrow>
       if length datagram > fc_maximum_datagram_len codec
       then fst (classify_udp_frame state (fc_receive_buffer_len codec))
       else (case v1_receive codec datagram of
         None \<Rightarrow> record_invalid_udp_frame state
       | Some payload \<Rightarrow> record_udp_to_tun state (length payload))
   | _ \<Rightarrow> state)"

lemma client_step_spec:
  assumes "client_ok codec mtu (state, buffer)"
  obtains buffer' effects flow where
    "client_step codec mtu server (state, buffer) event =
      ((if flow = Proceed then client_counted codec mtu state event else state, buffer'), effects, flow)"
    "client_spec codec mtu server u event = (u, effects, flow)" "length buffer' = length buffer"
proof -
  have codec: "FrameCodec_new mtu = Ok codec" and s: "cs_inner_mtu state = mtu"
      "cs_maximum_frame_len state = fc_maximum_datagram_len codec"
      "length buffer = fc_maximum_datagram_len codec"
    using assms by (auto simp: client_ok_def)
  note c = FrameCodec_new_ok [OF codec]
  show thesis
  proof (cases event)
    case (TunPacket packet sent)
    show thesis
    proof (cases packet)
      case None
      then show thesis using TunPacket
        by (intro that [of "Aborted TunReadFailed" buffer "[]"]) (auto simp: client_step_def client_spec_def)
    next
      case (Some p)
      show thesis
      proof (cases "length p > mtu")
        case True
        then show thesis using TunPacket Some s
          by (intro that [of Proceed buffer "[]"])
            (auto simp: client_step_def client_spec_def client_tun_def classify_tun_def
              client_counted_def Let_def)
      next
        case False
        then have p: "length p \<le> mtu" by simp
        obtain buffer' where b: "length buffer' = length buffer"
            "send_frame codec server p sent buffer =
              (if p = [] then (buffer, [], Aborted (FrameEncodeFailed EncodeError.EmptyPayload))
               else (buffer', [SendTo (v1_wire p) server],
                 case sent of None \<Rightarrow> Aborted UdpSendFailed
                 | Some n \<Rightarrow> if n \<noteq> 10 + length p then Aborted (PartialUdpSend n (10 + length p))
                     else Proceed))"
          using send_frame_eq [OF codec p s(3)] by blast
        show thesis
        proof (cases "p = []")
          case True
          then show thesis using TunPacket Some s b
            by (intro that [of "Aborted (FrameEncodeFailed EncodeError.EmptyPayload)" buffer "[]"])
              (auto simp: client_step_def client_spec_def client_tun_def classify_tun_def Let_def)
        next
          case False
          then show thesis using TunPacket Some s b p
            by (intro that [of "snd (snd (send_frame codec server p sent buffer))" buffer'
                  "[SendTo (v1_wire p) server]"])
              (auto simp: client_step_def client_spec_def client_tun_def classify_tun_def
                client_counted_def Let_def)
        qed
      qed
    qed
  next
    case (UdpDatagram datagram written)
    show thesis
    proof (cases datagram)
      case None
      then show thesis using UdpDatagram
        by (intro that [of "Aborted UdpReceiveFailed" buffer "[]"]) (auto simp: client_step_def client_spec_def)
    next
      case (Some d)
      show thesis
      proof (cases "length d > fc_maximum_datagram_len codec")
        case True
        then have "v1_receive codec d = None"
          using v1_receive_length [OF codec, of d] by (cases "v1_receive codec d") auto
        then show thesis using UdpDatagram Some s True c
          by (intro that [of Proceed buffer "[]"])
            (auto simp: client_step_def client_spec_def client_udp_def classify_udp_frame_def
              client_counted_def Let_def)
      next
        case False
        then have t: "take (fc_receive_buffer_len codec) d = d" using c by simp
        show thesis
        proof (cases "v1_receive codec d")
          case None
          then show thesis using UdpDatagram Some s False t
            by (intro that [of Proceed buffer "[]"])
              (auto simp: client_step_def client_spec_def client_udp_def classify_udp_frame_def
                client_counted_def Let_def v1_receive_def split: sum.splits)
        next
          case (Some p)
          have "Protocol_V1.decode codec d = Ok \<lparr>df_message_type = MessageType.Data, df_payload = p\<rparr>"
            using Some by (auto simp: v1_receive_iff decode_v1_wire)
          moreover have "length p \<le> mtu" using v1_receive_length [OF codec Some] by simp
          ultimately show thesis using UdpDatagram \<open>datagram = Some d\<close> s False t Some
            by (intro that [of "snd (inject_packet mtu p written)" buffer "[WriteTun p]"])
              (auto simp: client_step_def client_spec_def client_udp_def classify_udp_frame_def
                client_counted_def Let_def inject_packet_eq)
        qed
      qed
    qed
  next
    case (Interrupt ok)
    then show thesis
      by (intro that [of "if ok then Stopped else Aborted CtrlCFailed" buffer "[]"])
        (auto simp: client_step_def client_spec_def)
  qed
qed

lemma client_counted_ok:
  "client_ok codec mtu (state, buffer) \<Longrightarrow> client_ok codec mtu (client_counted codec mtu state event, buffer)"
  by (auto simp: client_ok_def client_counted_def classify_tun_def classify_udp_frame_def
      split: ForwardEvent.splits option.splits)

lemma client_ok_buffer:
  "client_ok codec mtu (state, buffer) \<Longrightarrow> length buffer' = length buffer \<Longrightarrow> client_ok codec mtu (state, buffer')"
  by (simp add: client_ok_def)

interpretation client_loop: loop_simulation "client_step codec mtu server" "client_spec codec mtu server"
    "client_ok codec mtu" "\<lambda>_. ()" for codec mtu server
proof unfold_locales
  fix s e s' effects flow
  assume inv: "client_ok codec mtu s" and step: "client_step codec mtu server s e = (s', effects, flow)"
  obtain state buffer where s: "s = (state, buffer)" by (cases s)
  note inv' = inv [unfolded s]
  obtain buffer' effects' flow' where *: "client_step codec mtu server (state, buffer) e =
      ((if flow' = Proceed then client_counted codec mtu state e else state, buffer'), effects', flow')"
    "client_spec codec mtu server () e = ((), effects', flow')" "length buffer' = length buffer"
    using client_step_spec [OF inv', of server e "()"] .
  then show "client_spec codec mtu server () e = ((), effects, flow)"
    using step s by simp
  show "client_ok codec mtu s'"
    using * step s client_ok_buffer [OF inv' *(3)] client_ok_buffer [OF client_counted_ok [OF inv'] *(3)]
    by (auto split: if_splits)
qed

text \<open>The sum of the packet counters.\<close>

definition client_total :: "ForwardingStats \<Rightarrow> nat" where
  "client_total st = unat (tun_to_udp_packets st) + unat (udp_to_tun_packets st) +
     unat (oversized_tun_packets st) + unat (oversized_udp_packets st) + unat (invalid_udp_frames st)"

lemma client_step_counts:
  assumes ok: "client_ok codec mtu s" and step: "client_step codec mtu server s e = (s', effects, Proceed)"
    and small: "client_total (cs_stats (fst s)) < 2 ^ 64 - 1"
  shows "client_total (cs_stats (fst s')) = client_total (cs_stats (fst s)) + 1 \<and>
    unat (udp_to_tun_packets (cs_stats (fst s'))) =
      unat (udp_to_tun_packets (cs_stats (fst s))) + length (tun_writes effects) \<and>
    unat (tun_to_udp_packets (cs_stats (fst s'))) =
      unat (tun_to_udp_packets (cs_stats (fst s))) + length (udp_sends effects)"
proof -
  obtain state buffer where s: "s = (state, buffer)" by (cases s)
  have *: "fst s' = client_counted codec mtu state e \<and> client_spec codec mtu server () e = ((), effects, Proceed)"
    by (rule client_step_spec [of codec mtu state buffer server e "()"])
      (use ok step s in \<open>auto split: if_splits\<close>)
  have n: "fc_maximum_datagram_len codec < length d \<Longrightarrow> v1_receive codec d = None" for d
    using ok v1_receive_length [of mtu codec d] by (cases "v1_receive codec d") (auto simp: client_ok_def)
  have c: "fc_maximum_datagram_len codec < fc_receive_buffer_len codec" and m: "cs_inner_mtu state = mtu"
      "cs_maximum_frame_len state = fc_maximum_datagram_len codec"
    using ok FrameCodec_new_ok [of mtu codec] s by (auto simp: client_ok_def)
  show ?thesis
    using * small s n c m
    by (cases e)
      (auto simp: client_counted_def client_spec_def client_total_def record_tun_to_udp_def
        record_udp_to_tun_def record_invalid_udp_frame_def stats_record_tun_to_udp_def
        stats_record_udp_to_tun_def classify_tun_def classify_udp_frame_def unat_count
        split: option.splits if_splits)
qed

interpretation client_counts: counted_loop "client_step codec mtu server" "client_ok codec mtu"
    "\<lambda>s. client_total (cs_stats (fst s))" "\<lambda>s. unat (udp_to_tun_packets (cs_stats (fst s)))"
    "\<lambda>s. unat (tun_to_udp_packets (cs_stats (fst s)))" for codec mtu server
  by unfold_locales (use client_loop.step_inv client_step_counts in blast)+

lemma client_run_cases:
  assumes "client_run mtu server events = Ok (st, effects, flow)"
  obtains codec state buffer where "FrameCodec_new mtu = Ok codec" "st = cs_stats state"
    "client_ok codec mtu (ClientState_new mtu (fc_maximum_datagram_len codec),
       replicate (fc_maximum_datagram_len codec) 0)"
    "forward_loop (client_step codec mtu server)
       (ClientState_new mtu (fc_maximum_datagram_len codec), replicate (fc_maximum_datagram_len codec) 0)
       events = ((state, buffer), effects, flow)"
    "forward_loop (client_spec codec mtu server) () events = ((), effects, flow)"
proof -
  obtain codec state buffer where codec: "FrameCodec_new mtu = Ok codec" and
    run: "client_forward codec mtu server (ClientState_new mtu (fc_maximum_datagram_len codec)) events =
      ((state, buffer), effects, flow)" and st: "st = cs_stats state"
    using assms by (auto simp: client_run_def and_then_Ok Let_def split_beta) (metis prod.collapse)
  have ok: "client_ok codec mtu (ClientState_new mtu (fc_maximum_datagram_len codec),
      replicate (fc_maximum_datagram_len codec) 0)"
    using codec by (simp add: client_ok_def ClientState_new_def)
  show thesis
    using that [OF codec st ok] client_loop.loop_abs [OF ok, of server events] run
    by (simp add: client_forward_def)
qed

end
