(* ===== verification/Legacy_Server.thy ===== *)
theory Legacy_Server
  imports Legacy_Forwarding
begin

text \<open>
  The version 1 server (\<open>src/server.rs\<close>): the single peer, counters, frame and packet policy, binding
  and the forwarding loop. The first completely valid frame registers its source as the only peer. The
  loop's state is the policy with its counters and the reused encode buffer.
\<close>

record ServerConfig =
  svc_bind_addr :: SocketAddr
  svc_tun :: TunConfig

record SinglePeer =
  sp_address :: "SocketAddr option"

datatype PeerDecision = Registered | Accepted | Rejected

definition observe :: "SinglePeer \<Rightarrow> SocketAddr \<Rightarrow> SinglePeer \<times> PeerDecision" where
  "observe self candidate' = (case sp_address self of
     None \<Rightarrow> (self\<lparr>sp_address := Some candidate'\<rparr>, Registered)
   | Some current \<Rightarrow> if current = candidate' then (self, Accepted) else (self, Rejected))"

record ServerStats =
  udp_to_tun_packets :: u64
  udp_to_tun_bytes :: u64
  tun_to_udp_packets :: u64
  tun_to_udp_bytes :: u64
  dropped_oversized_udp :: u64
  dropped_oversized_tun :: u64
  dropped_empty_udp :: u64
  dropped_invalid_frames :: u64
  dropped_unexpected_peer :: u64
  dropped_before_peer_registration :: u64

definition stats_default :: ServerStats where
  "stats_default = \<lparr>udp_to_tun_packets = 0, udp_to_tun_bytes = 0, tun_to_udp_packets = 0,
     tun_to_udp_bytes = 0, dropped_oversized_udp = 0, dropped_oversized_tun = 0, dropped_empty_udp = 0,
     dropped_invalid_frames = 0, dropped_unexpected_peer = 0, dropped_before_peer_registration = 0\<rparr>"

datatype UdpFrameDecision =
  ForwardToTun bytes bool
| DropEmpty
| DropOversized
| DropUnexpectedPeer
| DropInvalid DecodeError

datatype TunPacketDecision = SendToPeer SocketAddr | DropOversized | DropNoPeer

record ServerState =
  ss_inner_mtu :: usize
  ss_peer :: SinglePeer
  ss_stats :: ServerStats

definition ServerState_new :: "usize \<Rightarrow> ServerState" where
  "ServerState_new inner_mtu =
     \<lparr>ss_inner_mtu = inner_mtu, ss_peer = \<lparr>sp_address = None\<rparr>, ss_stats = stats_default\<rparr>"

definition count_stat :: "ServerState \<Rightarrow> (ServerStats \<Rightarrow> ServerStats) \<Rightarrow> ServerState" where
  "count_stat self f = self\<lparr>ss_stats := f (ss_stats self)\<rparr>"

definition classify_udp_frame ::
  "ServerState \<Rightarrow> FrameCodec \<Rightarrow> bytes \<Rightarrow> SocketAddr \<Rightarrow> ServerState \<times> UdpFrameDecision" where
  "classify_udp_frame self codec datagram candidate' =
     (let unexpected = count_stat self (\<lambda>st. st\<lparr>dropped_unexpected_peer :=
            u64_saturating_add (dropped_unexpected_peer st) 1\<rparr>);
          invalid = count_stat self (\<lambda>st. st\<lparr>dropped_invalid_frames :=
            u64_saturating_add (dropped_invalid_frames st) 1\<rparr>)
      in if (case sp_address (ss_peer self) of Some active \<Rightarrow> active \<noteq> candidate' | None \<Rightarrow> False)
      then (unexpected, DropUnexpectedPeer)
      else if datagram = []
      then (count_stat self (\<lambda>st. st\<lparr>dropped_empty_udp :=
              u64_saturating_add (dropped_empty_udp st) 1\<rparr>), DropEmpty)
      else if length datagram > fc_maximum_datagram_len codec
      then (count_stat self (\<lambda>st. st\<lparr>dropped_oversized_udp :=
              u64_saturating_add (dropped_oversized_udp st) 1\<rparr>), UdpFrameDecision.DropOversized)
      else case Protocol_V1.decode codec datagram of
        Inl error \<Rightarrow> (invalid, DropInvalid error)
      | Inr decoded \<Rightarrow>
          if df_message_type decoded \<noteq> MessageType.Data
          then (invalid, DropInvalid
                 (DecodeError.UnknownMessageType (message_wire_value (df_message_type decoded))))
          else (case observe (ss_peer self) candidate' of
            (peer, Registered) \<Rightarrow> (self\<lparr>ss_peer := peer\<rparr>, ForwardToTun (df_payload decoded) True)
          | (peer, Accepted) \<Rightarrow> (self\<lparr>ss_peer := peer\<rparr>, ForwardToTun (df_payload decoded) False)
          | (peer, Rejected) \<Rightarrow> (unexpected, DropUnexpectedPeer)))"

definition classify_tun :: "ServerState \<Rightarrow> usize \<Rightarrow> ServerState \<times> TunPacketDecision" where
  "classify_tun self n =
     (if n > ss_inner_mtu self
      then (count_stat self (\<lambda>st. st\<lparr>dropped_oversized_tun :=
              u64_saturating_add (dropped_oversized_tun st) 1\<rparr>), TunPacketDecision.DropOversized)
      else case sp_address (ss_peer self) of
        Some peer \<Rightarrow> (self, SendToPeer peer)
      | None \<Rightarrow> (count_stat self (\<lambda>st. st\<lparr>dropped_before_peer_registration :=
                   u64_saturating_add (dropped_before_peer_registration st) 1\<rparr>), DropNoPeer))"

definition record_udp_to_tun :: "ServerState \<Rightarrow> usize \<Rightarrow> ServerState" where
  "record_udp_to_tun self n = count_stat self (\<lambda>st.
     st\<lparr>udp_to_tun_packets := u64_saturating_add (udp_to_tun_packets st) 1,
        udp_to_tun_bytes := u64_saturating_add (udp_to_tun_bytes st) (word_of_nat n)\<rparr>)"

definition record_tun_to_udp :: "ServerState \<Rightarrow> usize \<Rightarrow> ServerState" where
  "record_tun_to_udp self n = count_stat self (\<lambda>st.
     st\<lparr>tun_to_udp_packets := u64_saturating_add (tun_to_udp_packets st) 1,
        tun_to_udp_bytes := u64_saturating_add (tun_to_udp_bytes st) (word_of_nat n)\<rparr>)"

section \<open>Binding\<close>

datatype ServerBindError = ServerSocketBind | ServerTunCreate

definition server_bind :: "ServerConfig \<Rightarrow> bool \<Rightarrow> bool \<Rightarrow> (ServerConfig, ServerBindError) result" where
  "server_bind config bound created =
     (if \<not> bound then Err ServerSocketBind
      else if \<not> created then Err ServerTunCreate
      else Ok config)"

section \<open>Forwarding\<close>

definition server_udp ::
  "FrameCodec \<Rightarrow> usize \<Rightarrow> ServerState \<times> bytes \<Rightarrow> bytes \<Rightarrow> SocketAddr \<Rightarrow> usize option
   \<Rightarrow> (ServerState \<times> bytes) forward_step" where
  "server_udp codec mtu s datagram peer written =
     (let (state, buffer) = s;
          (state, decision) =
            classify_udp_frame state codec (take (fc_receive_buffer_len codec) datagram) peer
      in case decision of
           ForwardToTun payload newly_registered \<Rightarrow>
             let (effects, flow) = inject_packet mtu payload written
             in ((if flow = Proceed then record_udp_to_tun state (length payload) else state, buffer),
                 effects, flow)
         | _ \<Rightarrow> ((state, buffer), [], Proceed))"

definition server_tun ::
  "FrameCodec \<Rightarrow> usize \<Rightarrow> ServerState \<times> bytes \<Rightarrow> bytes \<Rightarrow> usize option
   \<Rightarrow> (ServerState \<times> bytes) forward_step" where
  "server_tun codec mtu s packet sent =
     (let (state, buffer) = s; inner_packet = take (mtu + 1) packet; n = length inner_packet;
          (state, decision) = classify_tun state n
      in case decision of
           SendToPeer peer \<Rightarrow>
             let (buffer, effects, flow) = send_frame codec peer inner_packet sent buffer
             in ((if flow = Proceed then record_tun_to_udp state n else state, buffer), effects, flow)
         | _ \<Rightarrow> ((state, buffer), [], Proceed))"

definition server_step ::
  "FrameCodec \<Rightarrow> usize \<Rightarrow> ServerState \<times> bytes \<Rightarrow> (bytes \<times> SocketAddr) ForwardEvent
   \<Rightarrow> (ServerState \<times> bytes) forward_step" where
  "server_step codec mtu s event = (case event of
     UdpDatagram None _ \<Rightarrow> (s, [], Aborted UdpReceiveFailed)
   | UdpDatagram (Some (datagram, peer)) written \<Rightarrow> server_udp codec mtu s datagram peer written
   | TunPacket None _ \<Rightarrow> (s, [], Aborted TunReadFailed)
   | TunPacket (Some packet) sent \<Rightarrow> server_tun codec mtu s packet sent
   | Interrupt ok \<Rightarrow> (s, [], if ok then Stopped else Aborted CtrlCFailed))"

definition forward_packets ::
  "FrameCodec \<Rightarrow> usize \<Rightarrow> ServerState \<Rightarrow> (bytes \<times> SocketAddr) ForwardEvent list
   \<Rightarrow> (ServerState \<times> bytes) forward_step" where
  "forward_packets codec mtu state events =
     forward_loop (server_step codec mtu) (state, replicate (fc_maximum_datagram_len codec) 0) events"

text \<open>The final state: the peer, and the counters that the summary logs.\<close>

definition server_run ::
  "usize \<Rightarrow> (bytes \<times> SocketAddr) ForwardEvent list \<Rightarrow> (ServerState forward_step, CodecConfigError) result" where
  "server_run mtu events =
     and_then (FrameCodec_new mtu) (\<lambda>codec.
       let ((state, _), result) = forward_packets codec mtu (ServerState_new mtu) events
       in Ok (state, result))"

section \<open>What the server does\<close>

text \<open>
  The server without buffers, codec and counters; its state is the peer. The first source of a valid
  frame becomes the peer, frames of the peer are injected, and packets within the MTU are sent to it.
\<close>

definition server_spec ::
  "FrameCodec \<Rightarrow> usize \<Rightarrow> SocketAddr option \<Rightarrow> (bytes \<times> SocketAddr) ForwardEvent
   \<Rightarrow> SocketAddr option forward_step" where
  "server_spec codec mtu peer event = (case event of
     UdpDatagram None _ \<Rightarrow> (peer, [], Aborted UdpReceiveFailed)
   | UdpDatagram (Some (datagram, source)) written \<Rightarrow>
       (case v1_receive codec datagram of
          None \<Rightarrow> (peer, [], Proceed)
        | Some payload \<Rightarrow>
            if peer \<notin> {None, Some source} then (peer, [], Proceed)
            else (Some source, [WriteTun payload],
              case written of None \<Rightarrow> Aborted (TunWriteFailed TunSendFailed)
              | Some n \<Rightarrow> if n \<noteq> length payload
                  then Aborted (TunWriteFailed (PartialTunWrite n (length payload))) else Proceed))
   | TunPacket None _ \<Rightarrow> (peer, [], Aborted TunReadFailed)
   | TunPacket (Some packet) sent \<Rightarrow>
       (case peer of
          None \<Rightarrow> (peer, [], Proceed)
        | Some p \<Rightarrow>
            if length packet > mtu then (peer, [], Proceed)
            else if packet = [] then (peer, [], Aborted (FrameEncodeFailed EncodeError.EmptyPayload))
            else (peer, [SendTo (v1_wire packet) p],
              case sent of None \<Rightarrow> Aborted UdpSendFailed
              | Some n \<Rightarrow> if n \<noteq> 10 + length packet then Aborted (PartialUdpSend n (10 + length packet))
                  else Proceed))
   | Interrupt ok \<Rightarrow> (peer, [], if ok then Stopped else Aborted CtrlCFailed))"

definition server_ok :: "FrameCodec \<Rightarrow> usize \<Rightarrow> ServerState \<times> bytes \<Rightarrow> bool" where
  "server_ok codec mtu s \<longleftrightarrow> FrameCodec_new mtu = Ok codec \<and> ss_inner_mtu (fst s) = mtu \<and>
     length (snd s) = fc_maximum_datagram_len codec"

abbreviation server_peer :: "ServerState \<times> bytes \<Rightarrow> SocketAddr option" where
  "server_peer s \<equiv> sp_address (ss_peer (fst s))"

lemma count_stat_simps [simp]:
  "ss_inner_mtu (count_stat s f) = ss_inner_mtu s" "ss_peer (count_stat s f) = ss_peer s"
  "ss_stats (count_stat s f) = f (ss_stats s)"
  by (simp_all add: count_stat_def)

lemma server_record_simps [simp]:
  "ss_inner_mtu (record_udp_to_tun s n) = ss_inner_mtu s" "ss_peer (record_udp_to_tun s n) = ss_peer s"
  "ss_inner_mtu (record_tun_to_udp s n) = ss_inner_mtu s" "ss_peer (record_tun_to_udp s n) = ss_peer s"
  by (simp_all add: record_udp_to_tun_def record_tun_to_udp_def)

lemma single_peer_eq: "sp = sp\<lparr>sp_address := sp_address sp\<rparr>"
  by simp

lemma server_udp_spec:
  assumes ok: "server_ok codec mtu (state, buffer)"
    and step: "server_udp codec mtu (state, buffer) d source written = (s', effects, flow)"
  shows "server_ok codec mtu s' \<and> server_spec codec mtu (server_peer (state, buffer))
      (UdpDatagram (Some (d, source)) written) = (server_peer s', effects, flow)"
proof -
  have codec: "FrameCodec_new mtu = Ok codec" and s: "ss_inner_mtu state = mtu"
      "length buffer = fc_maximum_datagram_len codec"
    using ok by (auto simp: server_ok_def)
  note c = FrameCodec_new_ok [OF codec]
  show ?thesis
  proof (cases "v1_receive codec d")
    case None
    have t: "take (fc_receive_buffer_len codec) d = d" if "\<not> fc_maximum_datagram_len codec < length d"
      using c that by simp
    have "Protocol_V1.decode codec d \<noteq> Ok f" for f
      using None by (auto simp: v1_receive_def)
    with t have "\<exists>state' decision. classify_udp_frame state codec (take (fc_receive_buffer_len codec) d) source =
        (state', decision) \<and> ss_inner_mtu state' = mtu \<and> ss_peer state' = ss_peer state \<and>
        (\<forall>p b. decision \<noteq> ForwardToTun p b)"
      using s c
      by (cases "fc_maximum_datagram_len codec < length d"; cases "Protocol_V1.decode codec d")
        (auto simp: classify_udp_frame_def Let_def split: option.splits)
    then show ?thesis
      using step s codec None
      by (auto simp: server_udp_def server_spec_def server_ok_def split: UdpFrameDecision.splits)
  next
    case (Some p)
    have p: "length p \<le> mtu" "length d \<le> fc_maximum_datagram_len codec" "d = v1_wire p"
      using v1_receive_length [OF codec Some] by auto
    then have t: "take (fc_receive_buffer_len codec) d = d" using c by simp
    have dec: "Protocol_V1.decode codec d = Ok \<lparr>df_message_type = MessageType.Data, df_payload = p\<rparr>"
      using Some by (auto simp: v1_receive_iff decode_v1_wire)
    have "0 < length d" using p(3) by simp
    then have ne: "d \<noteq> []" by auto
    show ?thesis
      using step s codec Some p(1,2) dec t ne
      by (cases "server_peer (state, buffer)")
        (auto simp: server_udp_def server_spec_def server_ok_def classify_udp_frame_def observe_def
          inject_packet_eq Let_def split: if_splits option.splits)
  qed
qed

lemma server_tun_spec:
  assumes ok: "server_ok codec mtu (state, buffer)"
    and step: "server_tun codec mtu (state, buffer) p sent = (s', effects, flow)"
  shows "server_ok codec mtu s' \<and> server_spec codec mtu (server_peer (state, buffer))
      (TunPacket (Some p) sent) = (server_peer s', effects, flow)"
proof -
  have codec: "FrameCodec_new mtu = Ok codec" and s: "ss_inner_mtu state = mtu"
      "length buffer = fc_maximum_datagram_len codec"
    using ok by (auto simp: server_ok_def)
  show ?thesis
  proof (cases "server_peer (state, buffer)")
    case None
    then show ?thesis
      using step s codec
      by (auto simp: server_tun_def server_spec_def server_ok_def classify_tun_def Let_def split: if_splits)
  next
    case (Some peer)
    show ?thesis
    proof (cases "length p \<le> mtu")
      case True
      obtain buffer' where b: "length buffer' = length buffer"
          "send_frame codec peer p sent buffer =
            (if p = [] then (buffer, [], Aborted (FrameEncodeFailed EncodeError.EmptyPayload))
             else (buffer', [SendTo (v1_wire p) peer],
               case sent of None \<Rightarrow> Aborted UdpSendFailed
               | Some n \<Rightarrow> if n \<noteq> 10 + length p then Aborted (PartialUdpSend n (10 + length p))
                   else Proceed))"
        using send_frame_eq [OF codec True s(2)] by blast
      show ?thesis
        using step s codec Some True b
        by (auto simp: server_tun_def server_spec_def server_ok_def classify_tun_def Let_def
            split: if_splits option.splits)
    next
      case False
      then show ?thesis
        using step s codec Some
        by (auto simp: server_tun_def server_spec_def server_ok_def classify_tun_def Let_def split: if_splits)
    qed
  qed
qed

lemma server_step_spec:
  assumes "server_ok codec mtu s" and "server_step codec mtu s e = (s', effects, flow)"
  shows "server_ok codec mtu s' \<and> server_spec codec mtu (server_peer s) e = (server_peer s', effects, flow)"
proof -
  obtain state buffer where s: "s = (state, buffer)" by (cases s)
  note ok = assms(1) [unfolded s] and step = assms(2) [unfolded s]
  consider (udp) d source w where "e = UdpDatagram (Some (d, source)) w"
    | (tun) p w where "e = TunPacket (Some p) w"
    | (other) w ok where "e \<in> {UdpDatagram None w, TunPacket None w, Interrupt ok}"
    by (cases e) (metis insertI1 insertI2 option.exhaust surj_pair)+
  then show ?thesis
  proof cases
    case udp
    then show ?thesis
      using server_udp_spec [OF ok, of d source w] step s by (simp add: server_step_def)
  next
    case tun
    then show ?thesis
      using server_tun_spec [OF ok, of p w] step s by (simp add: server_step_def)
  next
    case other
    then show ?thesis
      using assms by (auto simp: server_step_def server_spec_def)
  qed
qed

interpretation server_loop: loop_simulation "server_step codec mtu" "server_spec codec mtu"
    "server_ok codec mtu" server_peer for codec mtu
  by unfold_locales (use server_step_spec in blast)+

text \<open>The sum of the packet counters.\<close>

definition server_total :: "ServerStats \<Rightarrow> nat" where
  "server_total st = unat (udp_to_tun_packets st) + unat (tun_to_udp_packets st) +
     unat (dropped_oversized_udp st) + unat (dropped_oversized_tun st) + unat (dropped_empty_udp st) +
     unat (dropped_invalid_frames st) + unat (dropped_unexpected_peer st) +
     unat (dropped_before_peer_registration st)"

definition server_counts_step :: "ServerStats \<Rightarrow> Effect list \<Rightarrow> ServerStats \<Rightarrow> bool" where
  "server_counts_step st effects st' \<longleftrightarrow> server_total st' = server_total st + 1 \<and>
     unat (udp_to_tun_packets st') = unat (udp_to_tun_packets st) + length (tun_writes effects) \<and>
     unat (tun_to_udp_packets st') = unat (tun_to_udp_packets st) + length (udp_sends effects)"

lemma send_frame_Proceed: "send_frame codec peer p sent b = (b', effects, Proceed) \<Longrightarrow> \<exists>d. effects = [SendTo d peer]"
  by (auto simp: send_frame_def split: option.splits sum.splits if_splits)

lemma inject_packet_effects: "inject_packet mtu p written = (effects, flow) \<Longrightarrow> effects = [WriteTun p]"
  by (simp add: inject_packet_def)

lemma server_udp_counts:
  assumes "server_udp codec mtu (state, buffer) d source written = (s', effects, Proceed)"
    and "server_total (ss_stats state) < 2 ^ 64 - 1"
  shows "server_counts_step (ss_stats state) effects (ss_stats (fst s'))"
  using assms
  by (auto simp: server_udp_def classify_udp_frame_def server_counts_step_def server_total_def unat_count
      record_udp_to_tun_def Let_def dest: inject_packet_effects
      split: if_splits option.splits sum.splits prod.splits PeerDecision.splits)

lemma server_tun_counts:
  assumes "server_tun codec mtu (state, buffer) p sent = (s', effects, Proceed)"
    and "server_total (ss_stats state) < 2 ^ 64 - 1"
  shows "server_counts_step (ss_stats state) effects (ss_stats (fst s'))"
  using assms
  by (auto simp: server_tun_def classify_tun_def server_counts_step_def server_total_def unat_count
      record_tun_to_udp_def Let_def dest!: send_frame_Proceed
      split: if_splits option.splits prod.splits)

lemma server_step_counts:
  assumes "server_step codec mtu s e = (s', effects, Proceed)" and "server_total (ss_stats (fst s)) < 2 ^ 64 - 1"
  shows "server_counts_step (ss_stats (fst s)) effects (ss_stats (fst s'))"
proof (cases s)
  case (Pair state buffer)
  then show ?thesis
    using assms server_udp_counts [of codec mtu state buffer] server_tun_counts [of codec mtu state buffer]
    by (cases s') (auto simp: server_step_def split: ForwardEvent.splits option.splits if_splits)
qed

interpretation server_counts: counted_loop "server_step codec mtu" "server_ok codec mtu"
    "\<lambda>s. server_total (ss_stats (fst s))" "\<lambda>s. unat (udp_to_tun_packets (ss_stats (fst s)))"
    "\<lambda>s. unat (tun_to_udp_packets (ss_stats (fst s)))" for codec mtu
  by unfold_locales (use server_loop.step_inv server_step_counts in \<open>unfold server_counts_step_def, blast\<close>)+

lemma server_run_cases:
  assumes "server_run mtu events = Ok (state, effects, flow)"
  obtains codec buffer where "FrameCodec_new mtu = Ok codec"
    "server_ok codec mtu (ServerState_new mtu, replicate (fc_maximum_datagram_len codec) 0)"
    "forward_loop (server_step codec mtu)
       (ServerState_new mtu, replicate (fc_maximum_datagram_len codec) 0) events =
       ((state, buffer), effects, flow)"
    "forward_loop (server_spec codec mtu) None events = (sp_address (ss_peer state), effects, flow)"
proof -
  obtain codec buffer where codec: "FrameCodec_new mtu = Ok codec" and
    run: "forward_packets codec mtu (ServerState_new mtu) events = ((state, buffer), effects, flow)"
    using assms by (auto simp: server_run_def and_then_Ok Let_def split_beta) (metis prod.collapse)
  have ok: "server_ok codec mtu (ServerState_new mtu, replicate (fc_maximum_datagram_len codec) 0)"
    using codec by (simp add: server_ok_def ServerState_new_def)
  show thesis
    using that [OF codec ok] server_loop.loop_abs [OF ok, of events] run
    by (simp add: forward_packets_def ServerState_new_def)
qed

end
