(* ===== verification/Legacy_Runtime.thy ===== *)
theory Legacy_Runtime
  imports Legacy_Client Legacy_Server
begin

text \<open>
  Properties of the version 1 runtimes (\<open>src/client.rs\<close>, \<open>src/server.rs\<close>), alone and connected:
  the server's single peer, transparency of the tunnel, and the accounting of the counters.
\<close>

section \<open>Runs of the specifications\<close>

text \<open>The valid frames among the events, with their sources, and the packets read.\<close>

definition received_frames :: "FrameCodec \<Rightarrow> (bytes \<times> SocketAddr) ForwardEvent list \<Rightarrow> (bytes \<times> SocketAddr) list" where
  "received_frames codec events = concat (map (\<lambda>e. case e of
     UdpDatagram (Some (d, source)) _ \<Rightarrow>
       (case v1_receive codec d of Some p \<Rightarrow> [(p, source)] | None \<Rightarrow> [])
   | _ \<Rightarrow> []) events)"

definition read_packets :: "'d ForwardEvent list \<Rightarrow> bytes list" where
  "read_packets events = concat (map (\<lambda>e. case e of TunPacket (Some p) _ \<Rightarrow> [p] | _ \<Rightarrow> []) events)"

definition first_source :: "(bytes \<times> SocketAddr) list \<Rightarrow> SocketAddr option" where
  "first_source frames = (case frames of [] \<Rightarrow> None | (_, source) # _ \<Rightarrow> Some source)"

lemma received_frames_simps [simp]:
  "received_frames codec [] = []"
  "received_frames codec (UdpDatagram (Some (d, source)) w # es) =
     (case v1_receive codec d of Some p \<Rightarrow> (p, source) # received_frames codec es
      | None \<Rightarrow> received_frames codec es)"
  "received_frames codec (UdpDatagram None w # es) = received_frames codec es"
  "received_frames codec (TunPacket p w # es) = received_frames codec es"
  "received_frames codec (Interrupt b # es) = received_frames codec es"
  by (simp_all add: received_frames_def split: option.splits)

lemma read_packets_simps [simp]:
  "read_packets [] = []"
  "read_packets (TunPacket (Some p) w # es) = p # read_packets es"
  "read_packets (TunPacket None w # es) = read_packets es"
  "read_packets (UdpDatagram d w # es) = read_packets es"
  "read_packets (Interrupt b # es) = read_packets es"
  by (simp_all add: read_packets_def)

lemma server_spec_no_panic: "snd (snd (server_spec codec mtu peer e)) \<noteq> Panic"
  by (auto simp: server_spec_def split: ForwardEvent.splits option.splits)

text \<open>
  What a run of the server has done when it consumed the events \<open>used\<close>, from the peer \<open>peer\<close> on.
\<close>

definition server_trace ::
  "FrameCodec \<Rightarrow> SocketAddr option \<Rightarrow> (bytes \<times> SocketAddr) ForwardEvent list \<Rightarrow> SocketAddr option
   \<Rightarrow> Effect list \<Rightarrow> bool" where
  "server_trace codec peer used peer' effects \<longleftrightarrow>
     peer' = (if peer = None then first_source (received_frames codec used) else peer) \<and>
     tun_writes effects = map fst (filter (\<lambda>f. Some (snd f) = peer') (received_frames codec used)) \<and>
     (\<forall>(d, a) \<in> set (udp_sends effects). peer' = Some a \<and> (\<exists>p \<in> set (read_packets used). d = v1_wire p))"

lemma received_frames_append: "received_frames codec (es @ es') = received_frames codec es @ received_frames codec es'"
  by (simp add: received_frames_def)

lemma read_packets_append: "read_packets (es @ es') = read_packets es @ read_packets es'"
  by (simp add: read_packets_def)

lemma server_traceD:
  assumes "server_trace codec peer used (Some a) effects"
  shows "tun_writes effects = map fst (filter (\<lambda>f. snd f = a) (received_frames codec used))"
    "\<forall>(d, b) \<in> set (udp_sends effects). a = b \<and> (\<exists>p \<in> set (read_packets used). d = v1_wire p)"
  using conjunct2 [OF assms [unfolded server_trace_def]] by simp_all

lemma server_trace_Cons:
  assumes one: "server_trace codec peer [e] peer1 eff" and rest: "server_trace codec peer1 used peer' effects"
  shows "server_trace codec peer (e # used) peer' (eff @ effects)"
proof -
  have r: "received_frames codec (e # used) = received_frames codec [e] @ received_frames codec used"
      "read_packets (e # used) = read_packets [e] @ read_packets used"
    using received_frames_append [of codec "[e]" used] read_packets_append [of "[e]" used] by simp_all
  have keep: "peer1 = Some a \<Longrightarrow> peer' = Some a" for a using rest by (simp add: server_trace_def)
  show ?thesis
  proof (cases peer1)
    case None
    then have "received_frames codec [e] = []" "peer = None" "\<forall>d a. (d, a) \<notin> set (udp_sends eff)"
      using one by (auto simp: server_trace_def first_source_def split: if_splits list.splits)
    with None one rest show ?thesis
      unfolding server_trace_def r by (auto split: if_splits)
  next
    case (Some a)
    with keep have p: "peer' = Some a" by simp
    have first: "peer' = (if peer = None
        then first_source (received_frames codec [e] @ received_frames codec used) else peer)"
      using one p Some
      by (auto simp: server_trace_def first_source_def split: if_splits list.splits)
    have "tun_writes eff = map fst (filter (\<lambda>f. snd f = a) (received_frames codec [e]))"
        "tun_writes effects = map fst (filter (\<lambda>f. snd f = a) (received_frames codec used))"
        "\<forall>(d, b) \<in> set (udp_sends eff). a = b \<and> (\<exists>p \<in> set (read_packets [e]). d = v1_wire p)"
        "\<forall>(d, b) \<in> set (udp_sends effects). a = b \<and> (\<exists>p \<in> set (read_packets used). d = v1_wire p)"
      using server_traceD [OF one [unfolded Some]] server_traceD [OF rest [unfolded p]] by simp_all
    then show ?thesis
      unfolding server_trace_def r
      by (intro conjI, use first in simp) (auto simp: p)
  qed
qed

lemma server_trace_step:
  assumes "server_spec codec mtu peer e = (peer', effects, flow)"
  shows "server_trace codec peer [e] peer' effects"
  using assms
  by (cases e)
    (auto simp: server_spec_def server_trace_def first_source_def split: option.splits if_splits)

lemma server_spec_loop:
  assumes "forward_loop (server_spec codec mtu) peer events = (peer', effects, flow)"
  shows "flow \<noteq> Panic \<and> (\<exists>n. (flow = Proceed \<longrightarrow> n = length events) \<and>
    server_trace codec peer (take n events) peer' effects)"
  using assms
proof (induction events arbitrary: peer effects)
  case Nil
  then show ?case by (simp add: server_trace_def first_source_def)
next
  case (Cons e events)
  obtain p1 eff fl where e: "server_spec codec mtu peer e = (p1, eff, fl)" by (cases "server_spec codec mtu peer e")
  note one = server_trace_step [OF e]
  have np: "fl \<noteq> Panic" using server_spec_no_panic [of codec mtu peer e] e by simp
  show ?case
  proof (cases "fl = Proceed")
    case True
    then obtain rest where rest: "forward_loop (server_spec codec mtu) p1 events = (peer', rest, flow)"
        "effects = eff @ rest"
      using Cons.prems e
      by (auto simp: forward_loop_Cons apsnd_def apfst_def map_prod_def split: prod.splits)
    obtain n where n: "flow \<noteq> Panic" "flow = Proceed \<longrightarrow> n = length events"
        "server_trace codec p1 (take n events) peer' rest"
      using Cons.IH [OF rest(1)] by blast
    have "server_trace codec peer (take (Suc n) (e # events)) peer' effects"
      using server_trace_Cons [OF one n(3)] rest(2) by simp
    with n(1,2) show ?thesis
      by (metis length_Cons)
  next
    case False
    then have "peer' = p1" "effects = eff" "flow = fl"
      using Cons.prems e by (auto simp: forward_loop_Cons)
    with np one False show ?thesis by (auto intro!: exI [of _ "Suc 0"])
  qed
qed

lemma client_spec_loop:
  assumes "forward_loop (client_spec codec mtu server) () events = ((), effects, Proceed)"
  shows "udp_sends effects =
      map (\<lambda>p. (v1_wire p, server)) (filter (\<lambda>p. length p \<le> mtu) (read_packets events)) \<and>
    [] \<notin> set (read_packets events)"
  using assms
proof (induction events arbitrary: effects)
  case (Cons e events)
  obtain u eff fl where e: "client_spec codec mtu server () e = (u, eff, fl)"
    by (cases "client_spec codec mtu server () e")
  then obtain rest where rest: "fl = Proceed" "effects = eff @ rest"
      "forward_loop (client_spec codec mtu server) () events = ((), rest, Proceed)"
    using Cons.prems
    by (auto simp: forward_loop_Cons apsnd_def apfst_def map_prod_def split: prod.splits if_splits)
  have "udp_sends eff = map (\<lambda>p. (v1_wire p, server)) (filter (\<lambda>p. length p \<le> mtu) (read_packets [e])) \<and>
      [] \<notin> set (read_packets [e])"
    using e rest(1)
    by (cases e) (auto simp: client_spec_def split: option.splits if_splits)
  then show ?case
    using Cons.IH [OF rest(3)] rest(2) read_packets_append [of "[e]" events] by simp
qed simp

text \<open>The events by which the server receives the datagrams the client at \<open>source\<close> sent.\<close>

definition deliver_to :: "SocketAddr \<Rightarrow> (bytes \<times> SocketAddr) list \<Rightarrow> (bytes \<times> SocketAddr) ForwardEvent list" where
  "deliver_to source sends = map (\<lambda>(d, _). UdpDatagram (Some (d, source)) (Some (length d - 10))) sends"

lemma server_spec_delivers:
  assumes "\<forall>p \<in> set packets. v1_receive codec (v1_wire p) = Some p" and "peer \<in> {None, Some source}"
  shows "forward_loop (server_spec codec mtu) peer
      (deliver_to source (map (\<lambda>p. (v1_wire p, server)) packets)) =
    (if packets = [] then peer else Some source, map WriteTun packets, Proceed)"
  using assms
  by (induction packets arbitrary: peer)
    (auto simp: deliver_to_def forward_loop_Cons server_spec_def split: option.splits)

text \<open>
  The way back. The server has somewhere to send packets from the first valid frame on; the events
  from there are \<open>since_registered\<close>. \<open>deliver_back\<close> is how a client receives what the server sent.
\<close>

definition since_registered :: "FrameCodec \<Rightarrow> (bytes \<times> SocketAddr) ForwardEvent list \<Rightarrow> (bytes \<times> SocketAddr) ForwardEvent list" where
  "since_registered codec events = dropWhile (\<lambda>e. received_frames codec [e] = []) events"

definition deliver_back :: "(bytes \<times> SocketAddr) list \<Rightarrow> bytes ForwardEvent list" where
  "deliver_back sends = map (\<lambda>(d, _). UdpDatagram (Some d) (Some (length d - 10))) sends"

lemma server_spec_sends_step:
  assumes "server_spec codec mtu (Some a) e = (peer', effects, Proceed)"
  shows "peer' = Some a \<and>
    udp_sends effects = map (\<lambda>p. (v1_wire p, a)) (filter (\<lambda>p. length p \<le> mtu) (read_packets [e])) \<and>
    [] \<notin> set (read_packets [e])"
  using assms by (cases e) (auto simp: server_spec_def split: option.splits if_splits)

lemma server_spec_sends_registered:
  assumes "forward_loop (server_spec codec mtu) (Some a) events = (peer', effects, Proceed)"
  shows "peer' = Some a \<and>
    udp_sends effects = map (\<lambda>p. (v1_wire p, a)) (filter (\<lambda>p. length p \<le> mtu) (read_packets events)) \<and>
    [] \<notin> set (read_packets events)"
  using assms
proof (induction events arbitrary: effects)
  case (Cons e events)
  obtain p1 eff fl where e: "server_spec codec mtu (Some a) e = (p1, eff, fl)"
    by (cases "server_spec codec mtu (Some a) e")
  then obtain rest where rest: "fl = Proceed" "effects = eff @ rest"
      "forward_loop (server_spec codec mtu) p1 events = (peer', rest, Proceed)"
    using Cons.prems
    by (auto simp: forward_loop_Cons apsnd_def apfst_def map_prod_def split: prod.splits if_splits)
  note one = server_spec_sends_step [OF e [unfolded rest(1)]]
  show ?case
    using Cons.IH [of rest] rest one read_packets_append [of "[e]" events] by simp
qed simp

lemma server_spec_unregistered:
  assumes "server_spec codec mtu None e = (peer', effects, Proceed)"
  shows "udp_sends effects = [] \<and> (peer' = None \<longleftrightarrow> received_frames codec [e] = []) \<and>
    (peer' \<noteq> None \<longrightarrow> read_packets [e] = [])"
  using assms by (cases e) (auto simp: server_spec_def split: option.splits if_splits)

lemma server_spec_sends:
  assumes "forward_loop (server_spec codec mtu) None events = (peer', effects, Proceed)"
  shows "udp_sends effects = map (\<lambda>p. (v1_wire p, the peer'))
      (filter (\<lambda>p. length p \<le> mtu) (read_packets (since_registered codec events))) \<and>
    [] \<notin> set (read_packets (since_registered codec events)) \<and>
    (peer' = None \<longrightarrow> since_registered codec events = [])"
  using assms
proof (induction events arbitrary: effects)
  case Nil
  then show ?case by (simp add: since_registered_def)
next
  case (Cons e events)
  obtain p1 eff fl where e: "server_spec codec mtu None e = (p1, eff, fl)"
    by (cases "server_spec codec mtu None e")
  then obtain rest where rest: "fl = Proceed" "effects = eff @ rest"
      "forward_loop (server_spec codec mtu) p1 events = (peer', rest, Proceed)"
    using Cons.prems
    by (auto simp: forward_loop_Cons apsnd_def apfst_def map_prod_def split: prod.splits if_splits)
  note one = server_spec_unregistered [OF e [unfolded rest(1)]]
  show ?case
  proof (cases p1)
    case None
    then show ?thesis using Cons.IH [of rest] rest one by (simp add: since_registered_def)
  next
    case (Some a)
    then show ?thesis
      using server_spec_sends_registered [of codec mtu a events peer' rest] rest one
        read_packets_append [of "[e]" events]
      by (simp add: since_registered_def)
  qed
qed

lemma client_spec_delivers:
  assumes "\<forall>p \<in> set packets. v1_receive codec (v1_wire p) = Some p"
  shows "forward_loop (client_spec codec mtu server) () (deliver_back (map (\<lambda>p. (v1_wire p, a)) packets)) =
    ((), map WriteTun packets, Proceed)"
  using assms
  by (induction packets) (auto simp: deliver_back_def forward_loop_Cons client_spec_def split: option.splits)

lemma tun_writes_WriteTun [simp]: "tun_writes (map WriteTun packets) = packets"
  by (induction packets) simp_all

lemma v1_packets_receivable:
  assumes "FrameCodec_new mtu = Ok codec" and "[] \<notin> set packets"
  shows "\<forall>p \<in> set (filter (\<lambda>p. length p \<le> mtu) packets). v1_receive codec (v1_wire p) = Some p"
  using assms(2) FrameCodec_new_ok [OF assms(1)] by (auto simp: v1_receive_iff v1_payload_ok_def)

lemma legacy_uplink:
  assumes "client_run mtu server events = Ok (st, effects, Proceed)"
  shows "\<exists>state out. server_run mtu (deliver_to source (udp_sends effects)) = Ok (state, out, Proceed) \<and>
    tun_writes out = filter (\<lambda>p. length p \<le> mtu) (read_packets events) \<and>
    (sp_address (ss_peer state) = Some source \<longleftrightarrow> udp_sends effects \<noteq> [])"
proof -
  obtain codec where codec: "FrameCodec_new mtu = Ok codec" and
    loop: "forward_loop (client_spec codec mtu server) () events = ((), effects, Proceed)"
    using client_run_cases [OF assms] by metis
  define packets where "packets = filter (\<lambda>p. length p \<le> mtu) (read_packets events)"
  have sends: "udp_sends effects = map (\<lambda>p. (v1_wire p, server)) packets"
    and ok: "\<forall>p \<in> set packets. v1_receive codec (v1_wire p) = Some p"
    using client_spec_loop [OF loop] v1_packets_receivable [OF codec, of "read_packets events"] by (simp_all add: packets_def)
  obtain state out flow where run:
    "server_run mtu (deliver_to source (udp_sends effects)) = Ok (state, out, flow)"
    using codec by (simp add: server_run_def split_beta Let_def) (metis prod.collapse)
  obtain codec' where "FrameCodec_new mtu = Ok codec'" and
    "forward_loop (server_spec codec' mtu) None (deliver_to source (udp_sends effects)) =
      (sp_address (ss_peer state), out, flow)"
    using server_run_cases [OF run] by metis
  with codec server_spec_delivers [OF ok, of None source mtu server]
  have "sp_address (ss_peer state) = (if packets = [] then None else Some source)"
      "out = map WriteTun packets" "flow = Proceed"
    by (simp_all add: sends)
  with run show ?thesis by (auto simp: packets_def sends)
qed

lemma legacy_downlink:
  assumes "server_run mtu events = Ok (state, effects, Proceed)"
  shows "\<exists>codec st out. FrameCodec_new mtu = Ok codec \<and>
    client_run mtu server (deliver_back (udp_sends effects)) = Ok (st, out, Proceed) \<and>
    tun_writes out = filter (\<lambda>p. length p \<le> mtu) (read_packets (since_registered codec events)) \<and>
    snd ` set (udp_sends effects) \<subseteq> set_option (sp_address (ss_peer state))"
proof -
  obtain codec where codec: "FrameCodec_new mtu = Ok codec" and
    loop: "forward_loop (server_spec codec mtu) None events = (sp_address (ss_peer state), effects, Proceed)"
    using server_run_cases [OF assms] by metis
  define packets where "packets = filter (\<lambda>p. length p \<le> mtu) (read_packets (since_registered codec events))"
  have sends: "udp_sends effects = map (\<lambda>p. (v1_wire p, the (sp_address (ss_peer state)))) packets"
    and ok: "\<forall>p \<in> set packets. v1_receive codec (v1_wire p) = Some p"
    and none: "sp_address (ss_peer state) = None \<longrightarrow> packets = []"
    using server_spec_sends [OF loop]
      v1_packets_receivable [OF codec, of "read_packets (since_registered codec events)"] by (simp_all add: packets_def)
  obtain st out flow where run: "client_run mtu server (deliver_back (udp_sends effects)) = Ok (st, out, flow)"
    using codec by (simp add: client_run_def split_beta Let_def) (metis prod.collapse)
  obtain codec' where "FrameCodec_new mtu = Ok codec'" and
    "forward_loop (client_spec codec' mtu server) () (deliver_back (udp_sends effects)) = ((), out, flow)"
    using client_run_cases [OF run] by metis
  with codec client_spec_delivers [OF ok] have "out = map WriteTun packets" "flow = Proceed"
    by (simp_all add: sends)
  with codec run none show ?thesis
    by (intro exI [of _ codec] exI [of _ st] exI [of _ out])
      (cases "sp_address (ss_peer state)"; auto simp: packets_def sends)
qed

section \<open>Properties\<close>

text \<open>
  C25. The version 1 server serves one peer. Whatever arrives, it never panics; its peer is the source
  of the first valid frame, or none; exactly the payloads of the peer's valid frames are written to the
  TUN device, in order and unaltered; and everything it sends goes to the peer and is the frame of a
  packet read from the TUN device. Datagrams too long for the receive buffer are never taken for frames.
\<close>

theorem legacy_server_single_peer:
  assumes "server_run mtu events = Ok (state, effects, flow)"
  shows "flow \<noteq> Panic \<and>
    (\<exists>codec n. FrameCodec_new mtu = Ok codec \<and> (flow = Proceed \<longrightarrow> n = length events) \<and>
      (let frames = received_frames codec (take n events); peer = sp_address (ss_peer state) in
       peer = first_source frames \<and>
       tun_writes effects = map fst (filter (\<lambda>f. Some (snd f) = peer) frames) \<and>
       (\<forall>(d, a) \<in> set (udp_sends effects). peer = Some a \<and>
          (\<exists>p \<in> set (read_packets (take n events)). d = v1_wire p))))"
proof -
  obtain codec where codec: "FrameCodec_new mtu = Ok codec" and
    loop: "forward_loop (server_spec codec mtu) None events = (sp_address (ss_peer state), effects, flow)"
    using server_run_cases [OF assms] by metis
  obtain n where "flow \<noteq> Panic" "flow = Proceed \<longrightarrow> n = length events"
      "server_trace codec None (take n events) (sp_address (ss_peer state)) effects"
    using server_spec_loop [OF loop] by blast
  with codec show ?thesis
    by (intro conjI exI [of _ codec] exI [of _ n]) (auto simp: server_trace_def Let_def)
qed

text \<open>
  C26. The version 1 tunnel is transparent in both directions. If a client forwards a sequence of events
  without stopping and the datagrams it sent reach a fresh server of the same MTU in order, the server
  registers the client and writes exactly the packets the client read from its TUN device, without those
  longer than the MTU, byte for byte and in order. And if a server forwards a sequence of events without
  stopping, everything it sends goes to its registered peer, and when those datagrams reach a fresh
  client in order, the client writes exactly the packets the server read from its TUN device since it
  registered the peer, again without the longer ones, byte for byte and in order.
\<close>

theorem legacy_transparent:
  assumes "client_run mtu server events = Ok (st, effects, Proceed)"
    and "server_run mtu events' = Ok (state', effects', Proceed)"
  shows "(\<exists>state out. server_run mtu (deliver_to source (udp_sends effects)) = Ok (state, out, Proceed) \<and>
      tun_writes out = filter (\<lambda>p. length p \<le> mtu) (read_packets events) \<and>
      (sp_address (ss_peer state) = Some source \<longleftrightarrow> udp_sends effects \<noteq> [])) \<and>
    (\<exists>codec st' out'. FrameCodec_new mtu = Ok codec \<and>
      client_run mtu server (deliver_back (udp_sends effects')) = Ok (st', out', Proceed) \<and>
      tun_writes out' = filter (\<lambda>p. length p \<le> mtu) (read_packets (since_registered codec events')) \<and>
      snd ` set (udp_sends effects') \<subseteq> set_option (sp_address (ss_peer state')))"
  using legacy_uplink [OF assms(1)] legacy_downlink [OF assms(2)] by (rule conjI)

text \<open>
  C27. The counters of the version 1 endpoints account for all traffic. While a loop goes on, over fewer
  events than a counter can hold, each event is counted by exactly one of the packet and drop counters,
  and the counters of forwarded packets are the numbers of packets written to the TUN device and of
  datagrams sent; no counter saturates.
\<close>

theorem legacy_counters_account:
  assumes "length events < 2 ^ 64" and "length events' < 2 ^ 64"
    and "client_run mtu server events = Ok (st, effects, Proceed)"
    and "server_run mtu events' = Ok (state, effects', Proceed)"
  shows "client_total st = length events \<and>
    unat (ForwardingStats.udp_to_tun_packets st) = length (tun_writes effects) \<and>
    unat (ForwardingStats.tun_to_udp_packets st) = length (udp_sends effects) \<and>
    server_total (ss_stats state) = length events' \<and>
    unat (ServerStats.udp_to_tun_packets (ss_stats state)) = length (tun_writes effects') \<and>
    unat (ServerStats.tun_to_udp_packets (ss_stats state)) = length (udp_sends effects')"
proof -
  have z: "client_total (cs_stats (ClientState_new m l)) = 0" for m l
    by (simp add: client_total_def ClientState_new_def Legacy_Client.stats_default_def)
  have z': "server_total (ss_stats (ServerState_new m)) = 0" for m
    by (simp add: server_total_def ServerState_new_def Legacy_Server.stats_default_def)
  obtain codec t buffer where c: "st = cs_stats t"
    "client_ok codec mtu (ClientState_new mtu (fc_maximum_datagram_len codec),
       replicate (fc_maximum_datagram_len codec) 0)"
    "forward_loop (client_step codec mtu server)
       (ClientState_new mtu (fc_maximum_datagram_len codec), replicate (fc_maximum_datagram_len codec) 0)
       events = ((t, buffer), effects, Proceed)"
    using client_run_cases [OF assms(3)] by metis
  obtain codec' buffer' where s:
    "server_ok codec' mtu (ServerState_new mtu, replicate (fc_maximum_datagram_len codec') 0)"
    "forward_loop (server_step codec' mtu)
       (ServerState_new mtu, replicate (fc_maximum_datagram_len codec') 0) events' =
       ((state, buffer'), effects', Proceed)"
    using server_run_cases [OF assms(4)] by metis
  show ?thesis
    using client_counts.loop_counts [OF c(2) _ c(3)] server_counts.loop_counts [OF s(1) _ s(2)] assms(1,2) c(1)
    by (simp add: z z' ClientState_new_def ServerState_new_def Legacy_Client.stats_default_def
        Legacy_Server.stats_default_def client_total_def server_total_def)
qed

section \<open>A sample run\<close>

definition peer_address :: SocketAddr where "peer_address = SocketV4 0x0A000002 7001"
definition stranger_address :: SocketAddr where "stranger_address = SocketV4 0x0A000003 7001"

definition server_events :: "(bytes \<times> SocketAddr) ForwardEvent list" where
  "server_events = [TunPacket (Some [7]) (Some 11), UdpDatagram (Some ([], peer_address)) None,
     UdpDatagram (Some (v1_wire [1, 2, 3], peer_address)) (Some 3),
     UdpDatagram (Some (v1_wire [9], stranger_address)) (Some 1), TunPacket (Some [4]) (Some 11)]"

definition client_events :: "bytes ForwardEvent list" where
  "client_events = [TunPacket (Some [1, 2, 3]) (Some 13), UdpDatagram (Some [0]) None,
     TunPacket (Some (replicate 101 0)) None]"

lemma codec100: "\<exists>codec. FrameCodec_new 100 = Ok codec \<and> fc_mtu codec = 100"
  by (simp add: FrameCodec_new_def HEADER_LEN_def u16_try_from_def usize_checked_add_def usize_max_def)

lemma short_frame: "length d < 10 \<Longrightarrow> v1_receive codec d = None"
  by (simp add: v1_receive_def Protocol_V1.decode_def HEADER_LEN_def)

lemma wire_frame: "fc_mtu codec = 100 \<Longrightarrow> p \<noteq> [] \<Longrightarrow> length p \<le> 100 \<Longrightarrow> v1_receive codec (v1_wire p) = Some p"
  by (simp add: v1_receive_iff v1_payload_ok_def)

lemma server_events_run:
  "\<exists>state. server_run 100 server_events =
     Ok (state, [WriteTun [1, 2, 3], SendTo (v1_wire [4]) peer_address], Proceed) \<and>
     sp_address (ss_peer state) = Some peer_address"
proof -
  obtain codec where codec: "FrameCodec_new 100 = Ok codec" "fc_mtu codec = 100" using codec100 by blast
  then obtain state effects flow where run: "server_run 100 server_events = Ok (state, effects, flow)"
    by (simp add: server_run_def split_beta Let_def) (metis prod.collapse)
  have "forward_loop (server_spec codec 100) None server_events = (Some peer_address,
      [WriteTun [1, 2, 3], SendTo (v1_wire [4]) peer_address], Proceed)"
    using codec(2)
    by (simp add: server_events_def forward_loop_Cons server_spec_def short_frame wire_frame
        peer_address_def stranger_address_def)
  then show ?thesis
    using server_run_cases [OF run] codec run by (metis Pair_inject sum.inject(2))
qed

lemma client_events_run:
  "\<exists>st. client_run 100 stranger_address client_events =
     Ok (st, [SendTo (v1_wire [1, 2, 3]) stranger_address], Proceed)"
proof -
  obtain codec where codec: "FrameCodec_new 100 = Ok codec" "fc_mtu codec = 100" using codec100 by blast
  then obtain st effects flow where run: "client_run 100 stranger_address client_events = Ok (st, effects, flow)"
    by (simp add: client_run_def split_beta Let_def) (metis prod.collapse)
  have "forward_loop (client_spec codec 100 stranger_address) () client_events =
      ((), [SendTo (v1_wire [1, 2, 3]) stranger_address], Proceed)"
    using codec(2)
    by (simp add: client_events_def forward_loop_Cons client_spec_def short_frame wire_frame)
  then show ?thesis
    using client_run_cases [OF run] codec run by (metis Pair_inject sum.inject(2))
qed

theorem legacy_server_single_peer_witness:
  "\<exists>codec n. FrameCodec_new 100 = Ok codec \<and> n = length server_events \<and>
     first_source (received_frames codec (take n server_events)) = Some peer_address"
proof -
  obtain state where run: "server_run 100 server_events =
      Ok (state, [WriteTun [1, 2, 3], SendTo (v1_wire [4]) peer_address], Proceed)"
    and peer: "sp_address (ss_peer state) = Some peer_address"
    using server_events_run by blast
  from legacy_server_single_peer [OF run] peer show ?thesis
    by (auto simp: Let_def)
qed

theorem legacy_transparent_witness:
  "(\<exists>state out. server_run 100 [UdpDatagram (Some (v1_wire [1, 2, 3], peer_address)) (Some 3)] = Ok (state, out, Proceed) \<and>
     tun_writes out = [[1, 2, 3]] \<and> sp_address (ss_peer state) = Some peer_address) \<and>
   (\<exists>st out. client_run 100 stranger_address [UdpDatagram (Some (v1_wire [4])) (Some 1)] = Ok (st, out, Proceed) \<and>
     tun_writes out = [[4]])"
proof -
  obtain st where run: "client_run 100 stranger_address client_events =
      Ok (st, [SendTo (v1_wire [1, 2, 3]) stranger_address], Proceed)"
    using client_events_run by blast
  obtain state where srun: "server_run 100 server_events =
      Ok (state, [WriteTun [1, 2, 3], SendTo (v1_wire [4]) peer_address], Proceed)"
    using server_events_run by blast
  obtain codec where codec: "FrameCodec_new 100 = Ok codec" "fc_mtu codec = 100" using codec100 by blast
  have "read_packets (since_registered codec server_events) = [[4]]"
    using codec(2) by (simp add: since_registered_def server_events_def short_frame wire_frame)
  then show ?thesis
    using legacy_transparent [OF run srun, of peer_address] codec(1)
    by (auto simp: deliver_to_def deliver_back_def client_events_def)
qed

theorem legacy_counters_account_witness:
  "\<exists>st state effects effects'. client_run 100 stranger_address client_events = Ok (st, effects, Proceed) \<and>
     server_run 100 server_events = Ok (state, effects', Proceed) \<and>
     client_total st = 3 \<and> server_total (ss_stats state) = 5 \<and>
     unat (ForwardingStats.tun_to_udp_packets st) = 1 \<and>
     unat (ServerStats.udp_to_tun_packets (ss_stats state)) = 1"
proof -
  obtain st where c: "client_run 100 stranger_address client_events =
      Ok (st, [SendTo (v1_wire [1, 2, 3]) stranger_address], Proceed)"
    using client_events_run by blast
  obtain state where s: "server_run 100 server_events =
      Ok (state, [WriteTun [1, 2, 3], SendTo (v1_wire [4]) peer_address], Proceed)"
    using server_events_run by blast
  have "length client_events = 3" "length server_events = 5"
    by (simp_all add: client_events_def server_events_def)
  with legacy_counters_account [OF _ _ c s] c s show ?thesis by (simp del: One_nat_def)
qed

end
