(* ===== verification/Commands.thy ===== *)
theory Commands
  imports Noise_Keys
begin

text \<open>
  Running operating-system commands, as \<open>src/routing/linux.rs\<close>, \<open>src/nat/linux.rs\<close> and
  \<open>src/firewall/linux.rs\<close> do it: each has a struct for the captured result, a trait for the runner and a
  helper that turns an unsuccessful exit into an error. A runner acts on the world \<open>'w\<close>; the subprocess
  itself is third-party. Program names and arguments are written as ASCII strings.
\<close>

definition str :: "string \<Rightarrow> bytes" where
  "str s = map of_char s"

lemma of_char_u8_inject [simp]: "(of_char c :: u8) = of_char d \<longleftrightarrow> c = d"
proof
  assume "(of_char c :: u8) = of_char d"
  then have "unat (word_of_nat (of_char c) :: u8) = unat (word_of_nat (of_char d) :: u8)"
    by (simp add: of_nat_of_char)
  then show "c = d"
    by (simp add: unat_of_nat)
qed simp

lemma str_inject [simp]: "str s = str t \<longleftrightarrow> s = t"
  by (simp add: str_def inj_map_eq_map inj_def)

record CommandResult =
  cmd_success :: bool
  cmd_exit_code :: "32 word option"
  cmd_stdout :: bytes
  cmd_stderr :: bytes

text \<open>\<open>None\<close> for standard error stands for the text used when it is empty.\<close>

datatype CommandError = RunnerFailed | CommandExit "32 word option" "bytes option"

definition check_result :: "(CommandResult, unit) result \<Rightarrow> (CommandResult, CommandError) result" where
  "check_result r = (case r of
     Inl _ \<Rightarrow> Err RunnerFailed
   | Inr result \<Rightarrow>
       if \<not> cmd_success result
       then Err (CommandExit (cmd_exit_code result)
              (let stderr = trim (cmd_stderr result) in if stderr = [] then None else Some stderr))
       else Ok result)"

lemma check_result_Ok: "check_result r = Ok result \<longleftrightarrow> r = Ok result \<and> cmd_success result"
  by (auto simp: check_result_def split: sum.splits if_splits)

lemma check_result_Err: "(\<exists>e. check_result r = Err e) \<longleftrightarrow> (\<forall>result. r = Ok result \<longrightarrow> \<not> cmd_success result)"
  by (auto simp: check_result_def split: sum.splits if_splits)

end
