(* ===== verification/Nat_Manager.thy ===== *)
theory Nat_Manager
  imports Config Commands
begin

text \<open>
  NAT intent, ownership and cleanup (\<open>src/nat/manager.rs\<close>). The backend acts on the world \<open>'w\<close>, as in
  \<open>Routing_Manager\<close>; \<open>'a\<close> is the evidence of an installation. IPv4 networks are values of the crate
  \<open>ipnet\<close>, whose operations are the parameter \<open>M\<close>.
\<close>

record 'm Ipv4NetLib =
  v4_new :: "32 word \<Rightarrow> u8 \<Rightarrow> 'm option"
  v4_trunc :: "'m \<Rightarrow> 'm"
  v4_to_string :: "'m \<Rightarrow> bytes"

record 'm NatSpec =
  nat_source_network :: 'm
  nat_tun_interface :: bytes
  nat_egress :: bytes

record ('w, 'm, 'a, 'e) NatBackend =
  nb_apply :: "'w \<Rightarrow> 'm NatSpec \<Rightarrow> 'w \<times> ('a, 'e) result"
  nb_revert :: "'w \<Rightarrow> 'a \<Rightarrow> 'w \<times> (unit, 'e) result"

record 'a NatManager =
  nm_applied :: "'a option"

definition NatManager_new :: "'a NatManager" where
  "NatManager_new = \<lparr>nm_applied = None\<rparr>"

datatype 'e NatInstallError = NatAlreadyInstalled | NatApplyFailed 'e

definition nat_install ::
  "('w, 'm, 'a, 'e) NatBackend \<Rightarrow> 'w \<Rightarrow> 'a NatManager \<Rightarrow> 'm NatSpec
   \<Rightarrow> 'w \<times> 'a NatManager \<times> (unit, 'e NatInstallError) result" where
  "nat_install B w self spec =
     (if nm_applied self \<noteq> None then (w, self, Err NatAlreadyInstalled)
      else case nb_apply B w spec of
        (w, Inl e) \<Rightarrow> (w, self, Err (NatApplyFailed e))
      | (w, Inr applied) \<Rightarrow> (w, self\<lparr>nm_applied := Some applied\<rparr>, Ok ()))"

definition nat_restore ::
  "('w, 'm, 'a, 'e) NatBackend \<Rightarrow> 'w \<Rightarrow> 'a NatManager \<Rightarrow> 'w \<times> 'a NatManager \<times> (unit, 'e) result" where
  "nat_restore B w self = (case nm_applied self of
     None \<Rightarrow> (w, self, Ok ())
   | Some applied \<Rightarrow>
       (case nb_revert B w applied of
          (w, Inl error) \<Rightarrow> (w, self\<lparr>nm_applied := Some applied\<rparr>, Err error)
        | (w, Inr _) \<Rightarrow> (w, self\<lparr>nm_applied := None\<rparr>, Ok ())))"

datatype NatSpecError = NatIpv6Address | NatEgressMissing | NatNetworkInvalid

definition build_nat_spec ::
  "'m Ipv4NetLib \<Rightarrow> TunConfig \<Rightarrow> 'n RoutingConfig \<Rightarrow> ('m NatSpec option, NatSpecError) result" where
  "build_nat_spec M tun routing =
     (if \<not> enable_nat routing then Ok None
      else case tun_address tun of
        V6 _ \<Rightarrow> Err NatIpv6Address
      | V4 address \<Rightarrow>
          and_then (ok_or (nat_egress_interface routing) NatEgressMissing) (\<lambda>egress.
          and_then (ok_or (v4_new M address (tun_prefix_len tun)) NatNetworkInvalid) (\<lambda>network.
          Ok (Some \<lparr>nat_source_network = v4_trunc M network, nat_tun_interface = tun_name tun,
                    nat_egress = egress\<rparr>))))"

section \<open>What the manager relies on and provides\<close>

text \<open>
  As for routes; an error may be one that leaves installed state behind, which the backend reports by
  \<open>stranded\<close>. The laws of an installation are about \<open>admissible\<close> specifications.
\<close>

locale nat_backend =
  fixes B :: "('w, 'm, 'a, 'e) NatBackend"
    and view :: "'w \<Rightarrow> 'v"
    and owned :: "'v \<Rightarrow> 'a \<Rightarrow> 'v \<Rightarrow> bool"
    and stranded :: "'e \<Rightarrow> bool"
    and admissible :: "'m NatSpec \<Rightarrow> bool"
  assumes nat_apply_Ok: "admissible spec \<Longrightarrow> nb_apply B w spec = (w', Ok a) \<Longrightarrow> owned (view w) a (view w')"
    and nat_apply_Err: "admissible spec \<Longrightarrow> nb_apply B w spec = (w', Err e) \<Longrightarrow> \<not> stranded e \<Longrightarrow>
      view w' = view w"
    and nat_revert_Ok: "owned v a (view w) \<Longrightarrow> nb_revert B w a = (w', Ok ()) \<Longrightarrow> view w' = v"
    and nat_revert_Err: "nb_revert B w a = (w', Err e) \<Longrightarrow> view w' = view w"
begin

text \<open>The manager owns at most one change, which leads from the state before it to the present one.\<close>

definition owns_from :: "'v \<Rightarrow> 'a NatManager \<Rightarrow> 'v \<Rightarrow> bool" where
  "owns_from v m v' = (case nm_applied m of None \<Rightarrow> v' = v | Some a \<Rightarrow> owned v a v')"

lemma nat_install_cases:
  assumes "nat_install B w m spec = (w', m', r)" and "admissible spec"
  shows "(r = Ok () \<longrightarrow> owns_from (view w) m' (view w')) \<and>
    (r = Err NatAlreadyInstalled \<longrightarrow> w' = w \<and> m' = m) \<and>
    (\<forall>e. r = Err (NatApplyFailed e) \<longrightarrow> nm_applied m' = None \<and> (\<not> stranded e \<longrightarrow> view w' = view w))"
  using assms nat_apply_Ok nat_apply_Err
  by (auto simp: nat_install_def owns_from_def split: if_splits prod.splits sum.splits)

lemma nat_restore_cases:
  assumes "owns_from v m (view w)" and "nat_restore B w m = (w', m', r)"
  shows "(r = Ok () \<longrightarrow> view w' = v \<and> nm_applied m' = None) \<and>
    (\<forall>e. r = Err e \<longrightarrow> view w' = view w \<and> m' = m)"
  using assms nat_revert_Ok nat_revert_Err
  by (cases m) (auto simp: nat_restore_def owns_from_def split: option.splits prod.splits sum.splits)

end

section \<open>A validated configuration\<close>

text \<open>The network operations accept every prefix length of an IPv4 address.\<close>

definition v4_new_law :: "'m Ipv4NetLib \<Rightarrow> bool" where
  "v4_new_law M \<longleftrightarrow> (\<forall>a p. p \<le> 32 \<longrightarrow> v4_new M a p \<noteq> None)"

lemma validated_nat_spec:
  assumes "v4_new_law M" and "tun_validate tun = Ok ()" and "validate_server tun routing = Ok ()"
  shows "\<exists>spec. build_nat_spec M tun routing = Ok spec \<and> (spec = None \<longleftrightarrow> \<not> enable_nat routing)"
proof (cases "enable_nat routing")
  case True
  obtain address where a: "tun_address tun = V4 address"
    using assms(3) True
    by (cases "tun_address tun") (auto simp: validate_server_def and_then_Ok ensure_def is_ipv4_def split: if_splits)
  obtain egress where e: "nat_egress_interface routing = Some egress"
    using assms(3) True by (auto simp: validate_server_def and_then_Ok)
  have "tun_prefix_len tun \<le> 32"
    using assms(2) a by (auto simp: tun_validate_def is_ipv4_def split: if_splits)
  then obtain network where "v4_new M address (tun_prefix_len tun) = Some network"
    using assms(1) by (auto simp: v4_new_law_def)
  with a e True show ?thesis by (simp add: build_nat_spec_def)
qed (simp add: build_nat_spec_def)

end
