(* ===== verification/Routing_Manager.thy ===== *)
theory Routing_Manager
  imports Config
begin

text \<open>
  Routing intent, ownership and rollback (\<open>src/routing/manager.rs\<close>). A backend changes the network
  state of the operating system, which is the world \<open>'w\<close> that every call receives and returns; the
  manager keeps the changes it owns. The locale \<open>route_backend\<close> states what the manager relies on: a
  failed or superfluous operation changes nothing, and reverting an owned change restores the state
  before it. Under these laws installation is all-or-nothing and restoration undoes it.
\<close>

datatype 'n RouteOperation =
  AddRoute 'n "IpAddr option" "bytes option"
| SetIpv4Forwarding bool

datatype 'n AppliedOperation =
  RouteAdded 'n "IpAddr option" "bytes option"
| Ipv4ForwardingChanged bool

datatype 'n ApplyOutcome = Applied "'n AppliedOperation" | Unchanged

record UnderlayRoute =
  ur_gateway :: "IpAddr option"
  ur_interface :: bytes

record ('w, 'n, 'e) RouteBackend =
  rb_apply :: "'w \<Rightarrow> 'n RouteOperation \<Rightarrow> 'w \<times> ('n ApplyOutcome, 'e) result"
  rb_revert :: "'w \<Rightarrow> 'n AppliedOperation \<Rightarrow> 'w \<times> (unit, 'e) result"

record 'n RouteManager =
  rm_applied :: "'n AppliedOperation list"

definition RouteManager_new :: "'n RouteManager" where
  "RouteManager_new = \<lparr>rm_applied = []\<rparr>"

text \<open>The failures of a restoration, in the order they occurred.\<close>

type_synonym ('n, 'e) restore_error = "('n AppliedOperation \<times> 'e) list"

datatype ('n, 'e) InstallError =
  AlreadyInstalled
| InstallFailed 'e "('n, 'e) restore_error option"

section \<open>Restoration\<close>

text \<open>The loop pops the changes from the end of the list, so it is a recursion over its reverse.\<close>

fun revert_all ::
  "('w, 'n, 'e) RouteBackend \<Rightarrow> 'w \<Rightarrow> 'n AppliedOperation list
   \<Rightarrow> 'w \<times> ('n, 'e) restore_error \<times> 'n AppliedOperation list" where
  "revert_all B w [] = (w, [], [])"
| "revert_all B w (operation # rest) = (case rb_revert B w operation of
     (w, Inl error) \<Rightarrow>
       let (w, errors, failed) = revert_all B w rest in (w, (operation, error) # errors, operation # failed)
   | (w, Inr _) \<Rightarrow> revert_all B w rest)"

definition restore ::
  "('w, 'n, 'e) RouteBackend \<Rightarrow> 'w \<Rightarrow> 'n RouteManager
   \<Rightarrow> 'w \<times> 'n RouteManager \<times> (unit, ('n, 'e) restore_error) result" where
  "restore B w self =
     (let (w, errors, failed) = revert_all B w (rev (rm_applied self))
      in (w, self\<lparr>rm_applied := rev failed\<rparr>, if errors = [] then Ok () else Err errors))"

section \<open>Installation\<close>

fun apply_all ::
  "('w, 'n, 'e) RouteBackend \<Rightarrow> 'w \<Rightarrow> 'n RouteManager \<Rightarrow> 'n RouteOperation list
   \<Rightarrow> 'w \<times> 'n RouteManager \<times> (unit, ('n, 'e) InstallError) result" where
  "apply_all B w self [] = (w, self, Ok ())"
| "apply_all B w self (operation # operations) = (case rb_apply B w operation of
     (w, Inr (Applied applied)) \<Rightarrow>
       apply_all B w (self\<lparr>rm_applied := rm_applied self @ [applied]\<rparr>) operations
   | (w, Inr Unchanged) \<Rightarrow> apply_all B w self operations
   | (w, Inl install_error) \<Rightarrow>
       (case restore B w self of
          (w, self, Inr _) \<Rightarrow> (w, self, Err (InstallFailed install_error None))
        | (w, self, Inl rollback_error) \<Rightarrow>
            (w, self, Err (InstallFailed install_error (Some rollback_error)))))"

definition install ::
  "('w, 'n, 'e) RouteBackend \<Rightarrow> 'w \<Rightarrow> 'n RouteManager \<Rightarrow> 'n RouteOperation list
   \<Rightarrow> 'w \<times> 'n RouteManager \<times> (unit, ('n, 'e) InstallError) result" where
  "install B w self operations =
     (if rm_applied self \<noteq> [] then (w, self, Err AlreadyInstalled)
      else apply_all B w self operations)"

section \<open>Operations of a configuration\<close>

definition split_tunnel_operations :: "'n RoutingConfig \<Rightarrow> bytes \<Rightarrow> 'n RouteOperation list" where
  "split_tunnel_operations config tun =
     map (\<lambda>destination. AddRoute destination None (Some tun)) (protected_routes config)"

definition server_operations :: "'n RoutingConfig \<Rightarrow> 'n RouteOperation list" where
  "server_operations config =
     map (\<lambda>route. AddRoute (st_destination route) (st_gateway route) (st_interface route))
       (server_routes config) @
     (if enable_forwarding config then [SetIpv4Forwarding True] else [])"

text \<open>\<open>new_net\<close> is \<open>IpNet::new\<close>; the literals \<open>0.0.0.0/0\<close> and \<open>::/0\<close> are networks of it.\<close>

definition full_tunnel_operations ::
  "(IpAddr \<Rightarrow> nat \<Rightarrow> 'n option) \<Rightarrow> bytes \<Rightarrow> IpAddr \<Rightarrow> IpAddr \<Rightarrow> UnderlayRoute \<Rightarrow> 'n RouteOperation list option" where
  "full_tunnel_operations new_net tun tun_address' server_address underlay =
     (let endpoint_prefix = (if is_ipv4 server_address then 32 else 128)
      in case new_net (if is_ipv4 tun_address' then V4 0 else V6 0) 0 of
           None \<Rightarrow> None
         | Some default_route \<Rightarrow>
           (case new_net server_address endpoint_prefix of
              None \<Rightarrow> None
            | Some endpoint \<Rightarrow>
                Some [AddRoute endpoint (ur_gateway underlay) (Some (ur_interface underlay)),
                      AddRoute default_route None (Some tun)]))"

section \<open>What the manager relies on and provides\<close>

text \<open>
  \<open>view w\<close> is the network state of a world, as far as the program changes it; \<open>owned v a v'\<close> says that
  the owned change \<open>a\<close> leads from the state \<open>v\<close> to \<open>v'\<close>. The backend need only own the changes of
  \<open>admissible\<close> operations.
\<close>

locale route_backend =
  fixes B :: "('w, 'n, 'e) RouteBackend"
    and view :: "'w \<Rightarrow> 'v"
    and owned :: "'v \<Rightarrow> 'n AppliedOperation \<Rightarrow> 'v \<Rightarrow> bool"
    and admissible :: "'n RouteOperation \<Rightarrow> bool"
  assumes apply_Applied: "admissible operation \<Longrightarrow> rb_apply B w operation = (w', Ok (Applied a)) \<Longrightarrow>
      owned (view w) a (view w')"
    and apply_Unchanged: "rb_apply B w operation = (w', Ok Unchanged) \<Longrightarrow> view w' = view w"
    and apply_Err: "rb_apply B w operation = (w', Err e) \<Longrightarrow> view w' = view w"
    and revert_Ok: "owned v a (view w) \<Longrightarrow> rb_revert B w a = (w', Ok ()) \<Longrightarrow> view w' = v"
    and revert_Err: "rb_revert B w a = (w', Err e) \<Longrightarrow> view w' = view w"
begin

text \<open>A chain of owned changes from one state to another; the list is in the order of application.\<close>

fun chain :: "'v \<Rightarrow> 'n AppliedOperation list \<Rightarrow> 'v \<Rightarrow> bool" where
  "chain v [] v' \<longleftrightarrow> v' = v"
| "chain v (a # as) v' \<longleftrightarrow> (\<exists>u. owned v a u \<and> chain u as v')"

lemma chain_append: "chain v (as @ bs) v' \<longleftrightarrow> (\<exists>u. chain v as u \<and> chain u bs v')"
  by (induction as arbitrary: v) auto

text \<open>Reverting stops undoing at the first failure only in the sense that later changes stay undone.\<close>

lemma revert_all_Ok:
  "chain v (rev as) (view w) \<Longrightarrow> revert_all B w as = (w', [], failed) \<Longrightarrow> view w' = v \<and> failed = []"
proof (induction as arbitrary: w)
  case (Cons a as)
  then obtain u where u: "chain v (rev as) u" "owned u a (view w)"
    by (auto simp: chain_append)
  obtain w1 where w1: "rb_revert B w a = (w1, Ok ())" "revert_all B w1 as = (w', [], failed)"
    using Cons.prems(2) by (auto split: prod.splits sum.splits)
  then show ?case using Cons.IH [of w1] u revert_Ok [OF u(2) w1(1)] by simp
qed simp

lemma restore_Ok:
  assumes "chain v (rm_applied m) (view w)" and "restore B w m = (w', m', Ok ())"
  shows "view w' = v \<and> rm_applied m' = []"
proof -
  obtain errors failed where r: "revert_all B w (rev (rm_applied m)) = (w', errors, failed)"
    "errors = []" "m' = m\<lparr>rm_applied := rev failed\<rparr>"
    using assms(2) by (auto simp: restore_def Let_def split: prod.splits if_splits)
  show ?thesis using revert_all_Ok [of v "rev (rm_applied m)" w w' failed] assms(1) r by simp
qed

lemma apply_all_cases:
  assumes "chain v (rm_applied m) (view w)" and "apply_all B w m operations = (w', m', r)"
    and "list_all admissible operations"
  shows "(r = Ok () \<longrightarrow> chain v (rm_applied m') (view w')) \<and>
    (\<forall>e. r = Err (InstallFailed e None) \<longrightarrow> view w' = v \<and> rm_applied m' = [])"
  using assms
proof (induction operations arbitrary: w m)
  case (Cons operation operations)
  obtain w1 q where q: "rb_apply B w operation = (w1, q)" by (cases "rb_apply B w operation")
  show ?case
  proof (cases q)
    case (Inl e)
    have "chain v (rm_applied m) (view w1)" using Cons.prems(1) apply_Err q Inl by simp
    moreover obtain w2 m2 q2 where r2: "restore B w1 m = (w2, m2, q2)" by (cases "restore B w1 m")
    ultimately show ?thesis
      using Cons.prems(2) q Inl restore_Ok [of v m w1 w2 m2]
      by (cases q2) auto
  next
    case (Inr outcome)
    show ?thesis
    proof (cases outcome)
      case (Applied a)
      then have "chain v (rm_applied (m\<lparr>rm_applied := rm_applied m @ [a]\<rparr>)) (view w1)"
        using Cons.prems(1,3) apply_Applied q Inr by (auto simp: chain_append)
      from Cons.IH [OF this] show ?thesis
        using Cons.prems(2,3) q Inr Applied by simp
    next
      case Unchanged
      then show ?thesis
        using Cons.IH [of m w1] Cons.prems q Inr apply_Unchanged [of w operation w1] by simp
    qed
  qed
qed auto

text \<open>Installing either records a chain from the state before, or, rolled back, leaves that state.\<close>

lemma install_cases:
  assumes "install B w m operations = (w', m', r)" and "list_all admissible operations"
  shows "(r = Ok () \<longrightarrow> chain (view w) (rm_applied m') (view w')) \<and>
    (\<forall>e. r = Err (InstallFailed e None) \<longrightarrow> view w' = view w \<and> rm_applied m' = []) \<and>
    (r = Err AlreadyInstalled \<longrightarrow> w' = w \<and> m' = m)"
proof (cases "rm_applied m = []")
  case True
  have "apply_all B w0 m0 ops = (w1, m1, q) \<Longrightarrow> q \<noteq> Err AlreadyInstalled" for w0 m0 ops w1 m1 q
    by (induction ops arbitrary: w0 m0) (auto split: prod.splits sum.splits ApplyOutcome.splits)
  with True assms apply_all_cases [of "view w" m w operations w' m' r] show ?thesis
    by (simp add: install_def)
next
  case False
  then show ?thesis using assms by (auto simp: install_def)
qed

lemma install_restore:
  assumes "install B w m operations = (w1, m1, Ok ())" and "list_all admissible operations" and "view w2 = view w1"
    and "restore B w2 m1 = (w3, m2, Ok ())"
  shows "view w3 = view w \<and> rm_applied m2 = []"
proof -
  have "chain (view w) (rm_applied m1) (view w2)"
    using install_cases [OF assms(1,2)] assms(3) by simp
  from restore_Ok [OF this assms(4)] show ?thesis .
qed

end

section \<open>Restoration without laws\<close>

text \<open>
  The bookkeeping of \<open>restore\<close> for any backend: it tries every owned change once, latest first, keeps
  exactly those whose revert failed, in their order, and succeeds exactly when none is left.
\<close>

fun revert_results :: "('w, 'n, 'e) RouteBackend \<Rightarrow> 'w \<Rightarrow> 'n AppliedOperation list \<Rightarrow> (unit, 'e) result list" where
  "revert_results B w [] = []"
| "revert_results B w (a # as) = snd (rb_revert B w a) # revert_results B (fst (rb_revert B w a)) as"

lemma length_revert_results [simp]: "length (revert_results B w as) = length as"
  by (induction as arbitrary: w) auto

lemma revert_all_results:
  "revert_all B w as = (w', errors, failed) \<Longrightarrow>
    errors = concat (map (\<lambda>(a, r). case r of Inl e \<Rightarrow> [(a, e)] | Inr _ \<Rightarrow> []) (zip as (revert_results B w as))) \<and>
    failed = map fst errors"
  by (induction as arbitrary: w errors failed) (auto split: prod.splits sum.splits)

lemma concat_failed:
  "concat (map (\<lambda>(a, r). case r of Inl e \<Rightarrow> [(a, e)] | Inr _ \<Rightarrow> []) ps) = [] \<longleftrightarrow> (\<forall>p \<in> set ps. \<exists>x. snd p = Ok x)"
  "map fst (concat (map (\<lambda>(a, r). case r of Inl e \<Rightarrow> [(a, e)] | Inr _ \<Rightarrow> []) ps)) =
     map fst (filter (\<lambda>p. \<exists>e. snd p = Err e) ps)"
  by (induction ps) (auto split: sum.splits)

text \<open>
  C28. For every backend, \<open>restore\<close> tries each owned change exactly once, the latest first, whatever
  the outcome of the others. It succeeds exactly when all of them were reverted; the manager then owns
  nothing. Otherwise it reports the failures in the order they occurred and keeps exactly the changes
  that failed, in their original order, so that it can be called again.
\<close>

theorem restore_bookkeeping:
  "let (w', m', r) = restore B w m;
       attempts = zip (rev (rm_applied m)) (revert_results B w (rev (rm_applied m)))
   in map fst attempts = rev (rm_applied m) \<and>
     rm_applied m' = rev (map fst (filter (\<lambda>p. \<exists>e. snd p = Err e) attempts)) \<and>
     (r = Ok () \<longleftrightarrow> list_all (\<lambda>p. snd p = Ok ()) attempts) \<and>
     (case r of Inr _ \<Rightarrow> rm_applied m' = [] | Inl errors \<Rightarrow> map fst errors = rev (rm_applied m'))"
proof -
  obtain w' errors failed where r: "revert_all B w (rev (rm_applied m)) = (w', errors, failed)"
    by (cases "revert_all B w (rev (rm_applied m))")
  note results = revert_all_results [OF r]
  show ?thesis
    using r results concat_failed [of "zip (rev (rm_applied m)) (revert_results B w (rev (rm_applied m)))"]
    by (simp add: restore_def list_all_iff)
qed

end
