(* ===== verification/Routing_Linux.thy ===== *)
theory Routing_Linux
  imports Routing_Manager Commands
begin

text \<open>
  The Linux routing backend (\<open>src/routing/linux.rs\<close>): construction of command lines, parsing of their
  output, classification of existing routes and the operations of the route backend. Parameters:
  \<open>N\<close>, the text forms of networks and addresses (\<open>ipnet\<close> and \<open>std::net\<close>), \<open>J\<close>, the parser
  \<open>serde_json::from_str\<close> at the two types used, and the command runner. The locale \<open>network_tools\<close> states
  the documented effects of \<open>ip\<close> and \<open>sysctl\<close> on the network state; under it the backend keeps the
  laws of \<open>route_backend\<close> for routes the kernel stores as given. Log messages and the text of error contexts are left out.
\<close>

record 'n NetText = "'n IpNetLib" +
  net_to_string :: "'n \<Rightarrow> bytes"
  addr_to_string :: "IpAddr \<Rightarrow> bytes"
  parse_net :: "bytes \<Rightarrow> 'n option"
  parse_addr :: "bytes \<Rightarrow> IpAddr option"
  net_from_addr :: "IpAddr \<Rightarrow> 'n"

record IpRouteLookup =
  lk_gateway :: "bytes option"
  lk_dev :: "bytes option"

record IpRoute =
  rt_dst :: "bytes option"
  rt_dev :: "bytes option"
  rt_gateway :: "bytes option"

record RouteJson =
  from_str_routes :: "bytes \<Rightarrow> IpRoute list option"
  from_str_lookup :: "bytes \<Rightarrow> IpRouteLookup list option"

datatype RouteError =
  RouteCommand CommandError
| ConflictingRoute
| RoutingStateChanged
| InvalidRouteJson
| UnexpectedForwardingValue bytes
| NoRouteFound
| NoOutputInterface
| InvalidGateway

type_synonym 'w runner = "'w \<Rightarrow> bytes \<Rightarrow> bytes list \<Rightarrow> 'w \<times> (CommandResult, unit) result"
type_synonym ('w, 'a) route_step = "'w \<times> ('a, RouteError) result"

definition run_checked :: "'w runner \<Rightarrow> 'w \<Rightarrow> bytes \<Rightarrow> bytes list \<Rightarrow> ('w, CommandResult) route_step" where
  "run_checked run w program args =
     (let (w, r) = run w program args in (w, map_sum RouteCommand id (check_result r)))"

section \<open>Command lines\<close>

definition IPV4_FORWARDING_KEY :: bytes where
  "IPV4_FORWARDING_KEY = str ''net.ipv4.ip_forward''"

definition show_route_args :: "'n NetText \<Rightarrow> 'n \<Rightarrow> bytes list" where
  "show_route_args N destination =
     map str [''-j'', ''route'', ''show'', ''exact''] @ [net_to_string N destination]"

definition read_ipv4_forwarding_args :: "bytes list" where
  "read_ipv4_forwarding_args = [str ''-n'', IPV4_FORWARDING_KEY]"

definition write_ipv4_forwarding_args :: "bool \<Rightarrow> bytes list" where
  "write_ipv4_forwarding_args enabled =
     [str ''-w'', IPV4_FORWARDING_KEY @ str ''='' @ (if enabled then str ''1'' else str ''0'')]"

definition route_get_args :: "'n NetText \<Rightarrow> IpAddr \<Rightarrow> bytes list" where
  "route_get_args N destination = [str ''-j'', str ''route'', str ''get'', addr_to_string N destination]"

definition route_add_args :: "'n NetText \<Rightarrow> 'n \<Rightarrow> IpAddr option \<Rightarrow> bytes option \<Rightarrow> bytes list" where
  "route_add_args N destination gateway interface =
     [str ''route'', str ''add'', net_to_string N destination] @
     (case gateway of Some g \<Rightarrow> [str ''via'', addr_to_string N g] | None \<Rightarrow> []) @
     (case interface of Some i \<Rightarrow> [str ''dev'', i] | None \<Rightarrow> [])"

definition route_delete_args :: "'n NetText \<Rightarrow> 'n \<Rightarrow> IpAddr option \<Rightarrow> bytes option \<Rightarrow> bytes list" where
  "route_delete_args N destination gateway interface =
     [str ''route'', str ''del'', net_to_string N destination] @
     (case gateway of Some g \<Rightarrow> [str ''via'', addr_to_string N g] | None \<Rightarrow> []) @
     (case interface of Some i \<Rightarrow> [str ''dev'', i] | None \<Rightarrow> [])"

section \<open>Parsing\<close>

datatype ExistingRoute = Missing | Identical | Conflicting

definition route_matches :: "IpRoute \<Rightarrow> bytes option \<Rightarrow> bytes option \<Rightarrow> bool" where
  "route_matches route gateway interface \<longleftrightarrow> rt_gateway route = gateway \<and>
     (case interface of Some i \<Rightarrow> rt_dev route = Some i | None \<Rightarrow> True)"

definition destination_matches :: "'n NetText \<Rightarrow> bytes option \<Rightarrow> 'n \<Rightarrow> bool" where
  "destination_matches N actual expected = (case actual of
     None \<Rightarrow> False
   | Some text \<Rightarrow>
       if text = str ''default'' then net_prefix_len N expected = 0
       else (case (case parse_net N text of Some n \<Rightarrow> Some n
                   | None \<Rightarrow> map_option (net_from_addr N) (parse_addr N text)) of
         Some n \<Rightarrow> n = expected
       | None \<Rightarrow> False))"

definition classify_existing_route ::
  "'n NetText \<Rightarrow> IpRoute list \<Rightarrow> 'n \<Rightarrow> IpAddr option \<Rightarrow> bytes option \<Rightarrow> ExistingRoute" where
  "classify_existing_route N routes destination gateway interface =
     (let gateway = map_option (addr_to_string N) gateway in
      if routes = [] then Missing
      else
        let identical = list_ex (\<lambda>route. destination_matches N (rt_dst route) destination \<and>
              route_matches route gateway interface) routes;
            conflicting = list_ex (\<lambda>route. destination_matches N (rt_dst route) destination \<and>
              \<not> route_matches route gateway interface) routes
        in if conflicting then Conflicting else if identical then Identical else Missing)"

definition parse_ipv4_forwarding :: "bytes \<Rightarrow> (bool, RouteError) result" where
  "parse_ipv4_forwarding stdout =
     (let v = trim stdout in
      if v = str ''0'' then Ok False
      else if v = str ''1'' then Ok True
      else Err (UnexpectedForwardingValue v))"

definition parse_underlay_route ::
  "'n NetText \<Rightarrow> RouteJson \<Rightarrow> bytes \<Rightarrow> (UnderlayRoute, RouteError) result" where
  "parse_underlay_route N J stdout =
     and_then (ok_or (from_str_lookup J stdout) InvalidRouteJson) (\<lambda>routes.
     case routes of
       [] \<Rightarrow> Err NoRouteFound
     | route # _ \<Rightarrow>
       and_then (ok_or (lk_dev route) NoOutputInterface) (\<lambda>interface.
       and_then (case lk_gateway route of
           None \<Rightarrow> Ok None
         | Some g \<Rightarrow> map_sum id Some (ok_or (parse_addr N g) InvalidGateway)) (\<lambda>gateway.
       Ok \<lparr>ur_gateway = gateway, ur_interface = interface\<rparr>)))"

section \<open>Queries\<close>

definition inspect_route ::
  "'n NetText \<Rightarrow> RouteJson \<Rightarrow> 'w runner \<Rightarrow> 'w \<Rightarrow> 'n \<Rightarrow> IpAddr option \<Rightarrow> bytes option
   \<Rightarrow> ('w, ExistingRoute) route_step" where
  "inspect_route N J run w destination gateway interface =
     bind_st (run_checked run w (str ''ip'') (show_route_args N destination)) (\<lambda>w result.
       (w, and_then (ok_or (from_str_routes J (cmd_stdout result)) InvalidRouteJson) (\<lambda>routes.
             Ok (classify_existing_route N routes destination gateway interface))))"

definition read_ipv4_forwarding :: "'w runner \<Rightarrow> 'w \<Rightarrow> ('w, bool) route_step" where
  "read_ipv4_forwarding run w =
     bind_st (run_checked run w (str ''sysctl'') read_ipv4_forwarding_args) (\<lambda>w result.
       (w, parse_ipv4_forwarding (cmd_stdout result)))"

definition write_ipv4_forwarding :: "'w runner \<Rightarrow> 'w \<Rightarrow> bool \<Rightarrow> ('w, unit) route_step" where
  "write_ipv4_forwarding run w enabled =
     bind_st (run_checked run w (str ''sysctl'') (write_ipv4_forwarding_args enabled)) (\<lambda>w _. (w, Ok ()))"

definition resolve_underlay_route ::
  "'n NetText \<Rightarrow> RouteJson \<Rightarrow> 'w runner \<Rightarrow> 'w \<Rightarrow> IpAddr \<Rightarrow> ('w, UnderlayRoute) route_step" where
  "resolve_underlay_route N J run w destination =
     bind_st (run_checked run w (str ''ip'') (route_get_args N destination)) (\<lambda>w result.
       (w, parse_underlay_route N J (cmd_stdout result)))"

section \<open>The backend\<close>

definition apply_route ::
  "'n NetText \<Rightarrow> RouteJson \<Rightarrow> 'w runner \<Rightarrow> 'w \<Rightarrow> 'n \<Rightarrow> IpAddr option \<Rightarrow> bytes option
   \<Rightarrow> ('w, 'n ApplyOutcome) route_step" where
  "apply_route N J run w destination gateway interface =
     bind_st (inspect_route N J run w destination gateway interface) (\<lambda>w existing.
       case existing of
         Identical \<Rightarrow> (w, Ok Unchanged)
       | Conflicting \<Rightarrow> (w, Err ConflictingRoute)
       | Missing \<Rightarrow>
           bind_st (run_checked run w (str ''ip'') (route_add_args N destination gateway interface))
             (\<lambda>w _. (w, Ok (Applied (RouteAdded destination gateway interface)))))"

definition apply_ipv4_forwarding :: "'w runner \<Rightarrow> 'w \<Rightarrow> bool \<Rightarrow> ('w, 'n ApplyOutcome) route_step" where
  "apply_ipv4_forwarding run w requested =
     bind_st (read_ipv4_forwarding run w) (\<lambda>w current.
       if current = requested then (w, Ok Unchanged)
       else bind_st (write_ipv4_forwarding run w requested) (\<lambda>w _.
         (w, Ok (Applied (Ipv4ForwardingChanged current)))))"

definition revert_route ::
  "'n NetText \<Rightarrow> RouteJson \<Rightarrow> 'w runner \<Rightarrow> 'w \<Rightarrow> 'n \<Rightarrow> IpAddr option \<Rightarrow> bytes option
   \<Rightarrow> ('w, unit) route_step" where
  "revert_route N J run w destination gateway interface =
     bind_st (inspect_route N J run w destination gateway interface) (\<lambda>w existing.
       case existing of
         Missing \<Rightarrow> (w, Ok ())
       | Conflicting \<Rightarrow> (w, Err RoutingStateChanged)
       | Identical \<Rightarrow>
           bind_st (run_checked run w (str ''ip'') (route_delete_args N destination gateway interface))
             (\<lambda>w _. (w, Ok ())))"

definition revert_ipv4_forwarding :: "'w runner \<Rightarrow> 'w \<Rightarrow> bool \<Rightarrow> ('w, unit) route_step" where
  "revert_ipv4_forwarding run w previous =
     bind_st (read_ipv4_forwarding run w) (\<lambda>w current.
       if current = previous then (w, Ok ()) else write_ipv4_forwarding run w previous)"

definition linux_apply ::
  "'n NetText \<Rightarrow> RouteJson \<Rightarrow> 'w runner \<Rightarrow> 'w \<Rightarrow> 'n RouteOperation \<Rightarrow> ('w, 'n ApplyOutcome) route_step" where
  "linux_apply N J run w operation = (case operation of
     AddRoute destination gateway interface \<Rightarrow> apply_route N J run w destination gateway interface
   | SetIpv4Forwarding enabled \<Rightarrow> apply_ipv4_forwarding run w enabled)"

definition linux_revert ::
  "'n NetText \<Rightarrow> RouteJson \<Rightarrow> 'w runner \<Rightarrow> 'w \<Rightarrow> 'n AppliedOperation \<Rightarrow> ('w, unit) route_step" where
  "linux_revert N J run w operation = (case operation of
     RouteAdded destination gateway interface \<Rightarrow> revert_route N J run w destination gateway interface
   | Ipv4ForwardingChanged previous \<Rightarrow> revert_ipv4_forwarding run w previous)"

definition LinuxRouteBackend ::
  "'n NetText \<Rightarrow> RouteJson \<Rightarrow> 'w runner \<Rightarrow> ('w, 'n, RouteError) RouteBackend" where
  "LinuxRouteBackend N J run = \<lparr>rb_apply = linux_apply N J run, rb_revert = linux_revert N J run\<rparr>"

text \<open>
  A route that is listed under another destination than the one it was installed with, as an IPv6 route
  with host bits is, counts as removed: it is left behind without an error.
\<close>

lemma unlisted_route_forgotten:
  assumes "run w (str ''ip'') (show_route_args N d) = (w', Ok result)" and "cmd_success result"
    and "from_str_routes J (cmd_stdout result) = Some routes"
    and "\<forall>r \<in> set routes. \<not> destination_matches N (rt_dst r) d"
  shows "revert_route N J run w d g i = (w', Ok ())"
  using assms
  by (auto simp: revert_route_def inspect_route_def run_checked_def check_result_def classify_existing_route_def
      Let_def list_ex_iff)

section \<open>The network state and its tools\<close>

text \<open>
  What Crabnet changes of the operating system: the routes of each destination, the forwarding switch,
  and the contents of its nftables table. A route is an entry of the main table as \<open>ip\<close> reports it: the
  gateway it prints, the devices of the next hops and the rest of the entry (kind, metric, protocol). An
  ordinary route has one device. A blackhole has none and a multipath route several; for those \<open>ip\<close>
  prints neither a gateway nor a device of the route itself.
\<close>

type_synonym route_entry = "IpAddr option \<times> bytes list \<times> bytes"

record ('n, 't) NetState =
  ns_routes :: "'n \<Rightarrow> route_entry set"
  ns_forwarding :: bool
  ns_table :: "'t option"

definition reports :: "'n NetText \<Rightarrow> IpRoute \<Rightarrow> route_entry \<Rightarrow> bool" where
  "reports N r e \<longleftrightarrow> rt_gateway r = map_option (addr_to_string N) (fst e) \<and>
     rt_dev r = (case fst (snd e) of [device] \<Rightarrow> Some device | _ \<Rightarrow> None)"

text \<open>
  The listed routes that have the destination are its routes. The tool compares only the bits of the
  prefix, so a listing for a destination with host bits can hold others.
\<close>

definition lists :: "'n NetText \<Rightarrow> IpRoute list \<Rightarrow> 'n \<Rightarrow> route_entry set \<Rightarrow> bool" where
  "lists N routes d entries \<longleftrightarrow> (\<exists>es. set es = entries \<and>
     list_all2 (reports N) (filter (\<lambda>r. destination_matches N (rt_dst r) d) routes) es)"

text \<open>A route satisfies a request that may leave the output interface open.\<close>

definition satisfies :: "route_entry \<Rightarrow> IpAddr option \<Rightarrow> bytes option \<Rightarrow> bool" where
  "satisfies e g i \<longleftrightarrow> fst e = g \<and> (\<forall>x. i = Some x \<longrightarrow> fst (snd e) = [x])"

text \<open>A destination has a route, and all its routes take the given next hop.\<close>

definition leads :: "('n, 't) NetState \<Rightarrow> 'n \<Rightarrow> IpAddr option \<Rightarrow> bytes option \<Rightarrow> bool" where
  "leads v d g i \<longleftrightarrow> ns_routes v d \<noteq> {} \<and> (\<forall>e \<in> ns_routes v d. satisfies e g i)"

definition succeeds :: "(CommandResult, unit) result \<Rightarrow> bool" where
  "succeeds r \<longleftrightarrow> (\<exists>result. r = Ok result \<and> cmd_success result)"

abbreviation set_routes :: "('n, 't) NetState \<Rightarrow> 'n \<Rightarrow> route_entry set \<Rightarrow> ('n, 't) NetState" where
  "set_routes v d R \<equiv> v\<lparr>ns_routes := (ns_routes v)(d := R)\<rparr>"

text \<open>The change an owned operation stands for.\<close>

definition route_owned :: "('n, 't) NetState \<Rightarrow> 'n AppliedOperation \<Rightarrow> ('n, 't) NetState \<Rightarrow> bool" where
  "route_owned v a v' = (case a of
     RouteAdded d g i \<Rightarrow> ns_routes v d = {} \<and>
       (\<exists>e. satisfies e g i \<and> v' = set_routes v d {e})
   | Ipv4ForwardingChanged p \<Rightarrow> ns_forwarding v = p \<and> v' = v\<lparr>ns_forwarding := \<not> p\<rparr>)"

text \<open>What an installed operation has brought about.\<close>

definition achieved :: "('n, 't) NetState \<Rightarrow> 'n RouteOperation \<Rightarrow> bool" where
  "achieved v operation = (case operation of
     AddRoute d g i \<Rightarrow> leads v d g i
   | SetIpv4Forwarding b \<Rightarrow> ns_forwarding v = b)"

text \<open>The operations on routes the kernel stores as they are given.\<close>

definition storable :: "('n \<Rightarrow> IpAddr option \<Rightarrow> bool) \<Rightarrow> 'n RouteOperation \<Rightarrow> bool" where
  "storable canonical operation = (case operation of
     AddRoute d g _ \<Rightarrow> canonical d g
   | SetIpv4Forwarding _ \<Rightarrow> True)"

lemma storable_simps [simp]: "storable canonical (AddRoute d g i) = canonical d g" "storable canonical (SetIpv4Forwarding b)"
  by (simp_all add: storable_def)

text \<open>
  \<open>canonical d g\<close>: the destination has no host bits, and the gateway, if any, is of its address family.
  The kernel holds only such routes: it refuses an IPv4 destination with host bits and clears those of
  an IPv6 destination, and a gateway of the other family is not reported as gateway. The laws of \<open>add\<close> and
  \<open>del\<close> are about canonical routes.
\<close>

locale network_tools =
  fixes N :: "'n NetText"
    and J :: RouteJson
    and run :: "'w runner"
    and view :: "'w \<Rightarrow> ('n, 't) NetState"
    and canonical :: "'n \<Rightarrow> IpAddr option \<Rightarrow> bool"
  assumes addr_text: "inj (addr_to_string N)"
    and show_keeps: "run w (str ''ip'') (show_route_args N d) = (w', r) \<Longrightarrow> view w' = view w"
    and show_lists: "run w (str ''ip'') (show_route_args N d) = (w', Ok result) \<Longrightarrow> cmd_success result \<Longrightarrow>
      from_str_routes J (cmd_stdout result) = Some routes \<Longrightarrow> lists N routes d (ns_routes (view w) d)"
    and routes_canonical: "e \<in> ns_routes (view w) d \<Longrightarrow> canonical d (fst e)"
    and add_adds: "canonical d g \<Longrightarrow> run w (str ''ip'') (route_add_args N d g i) = (w', r) \<Longrightarrow> succeeds r \<Longrightarrow>
      \<exists>e. satisfies e g i \<and> view w' = set_routes (view w) d (insert e (ns_routes (view w) d))"
    and add_fails: "run w (str ''ip'') (route_add_args N d g i) = (w', r) \<Longrightarrow> \<not> succeeds r \<Longrightarrow> view w' = view w"
    and delete_deletes: "canonical d g \<Longrightarrow> run w (str ''ip'') (route_delete_args N d g i) = (w', r) \<Longrightarrow> succeeds r \<Longrightarrow>
      \<exists>e \<in> ns_routes (view w) d. view w' = set_routes (view w) d (ns_routes (view w) d - {e})"
    and delete_fails: "run w (str ''ip'') (route_delete_args N d g i) = (w', r) \<Longrightarrow> \<not> succeeds r \<Longrightarrow>
      view w' = view w"
    and read_keeps: "run w (str ''sysctl'') read_ipv4_forwarding_args = (w', r) \<Longrightarrow> view w' = view w"
    and read_reads: "run w (str ''sysctl'') read_ipv4_forwarding_args = (w', Ok result) \<Longrightarrow> cmd_success result \<Longrightarrow>
      parse_ipv4_forwarding (cmd_stdout result) = Ok b \<Longrightarrow> b = ns_forwarding (view w)"
    and write_writes: "run w (str ''sysctl'') (write_ipv4_forwarding_args b) = (w', r) \<Longrightarrow>
      view w' = (if succeeds r then (view w)\<lparr>ns_forwarding := b\<rparr> else view w)"
    and get_keeps: "run w (str ''ip'') (route_get_args N a) = (w', r) \<Longrightarrow> view w' = view w"
begin

text \<open>Exact classification: missing, all routes satisfy the request, or some does not.\<close>

lemma reports_matches:
  assumes "reports N r e"
  shows "route_matches r (map_option (addr_to_string N) g) i \<longleftrightarrow> satisfies e g i"
proof -
  have "map_option (addr_to_string N) (fst e) = map_option (addr_to_string N) g \<longleftrightarrow> fst e = g"
    using addr_text by (cases g; cases "fst e") (auto simp: inj_eq)
  moreover have "(case fst (snd e) of [device] \<Rightarrow> Some device | _ \<Rightarrow> None) = Some x \<longleftrightarrow> fst (snd e) = [x]" for x
    by (auto split: list.splits)
  ultimately show ?thesis
    using assms by (auto simp: reports_def route_matches_def satisfies_def split: option.splits)
qed

lemma classify_lists:
  assumes "lists N routes d entries"
  shows "classify_existing_route N routes d g i =
    (if entries = {} then Missing
     else if \<forall>e \<in> entries. satisfies e g i then Identical else Conflicting)"
proof -
  let ?here = "filter (\<lambda>r. destination_matches N (rt_dst r) d) routes"
  obtain es where es: "set es = entries" and l: "list_all2 (reports N) ?here es"
    using assms by (auto simp: lists_def)
  have ex: "list_ex (\<lambda>r. destination_matches N (rt_dst r) d \<and> P r) routes \<longleftrightarrow> (\<exists>e \<in> set es. Q e)"
    if "\<And>r e. reports N r e \<Longrightarrow> P r = Q e" for P Q
  proof -
    have "list_ex P ?here \<longleftrightarrow> (\<exists>e \<in> set es. Q e)"
      using l that by (induction rule: list_all2_induct) auto
    then show ?thesis by (auto simp: list_ex_iff)
  qed
  have "list_ex (\<lambda>r. destination_matches N (rt_dst r) d \<and>
      route_matches r (map_option (addr_to_string N) g) i) routes \<longleftrightarrow> (\<exists>e \<in> set es. satisfies e g i)"
    by (rule ex) (simp add: reports_matches)
  moreover have "list_ex (\<lambda>r. destination_matches N (rt_dst r) d \<and>
      \<not> route_matches r (map_option (addr_to_string N) g) i) routes \<longleftrightarrow> (\<exists>e \<in> set es. \<not> satisfies e g i)"
    by (rule ex) (simp add: reports_matches)
  moreover have "routes = [] \<Longrightarrow> es = []" using l by simp
  ultimately show ?thesis
    using es unfolding classify_existing_route_def Let_def by (cases es) auto
qed

lemma run_checked_succeeds:
  "run_checked run w p args = (w', Ok result) \<Longrightarrow> run w p args = (w', Ok result) \<and> cmd_success result"
  "run_checked run w p args = (w', Err e) \<Longrightarrow> \<exists>r. run w p args = (w', r) \<and> \<not> succeeds r"
  by (auto simp: run_checked_def succeeds_def check_result_def split: prod.splits sum.splits if_splits)

lemma inspect_keeps: "inspect_route N J run w d g i = (w', r) \<Longrightarrow> view w' = view w"
  by (cases "run_checked run w (str ''ip'') (show_route_args N d)";
      cases "snd (run_checked run w (str ''ip'') (show_route_args N d))")
    (auto simp: inspect_route_def dest!: run_checked_succeeds dest: show_keeps)

lemma inspect_exact:
  assumes "inspect_route N J run w d g i = (w', Ok existing)"
  shows "existing = (if ns_routes (view w) d = {} then Missing
     else if \<forall>e \<in> ns_routes (view w) d. satisfies e g i then Identical else Conflicting)"
proof -
  obtain result routes where
    "run w (str ''ip'') (show_route_args N d) = (w', Ok result)" "cmd_success result"
    "from_str_routes J (cmd_stdout result) = Some routes"
    "existing = classify_existing_route N routes d g i"
    using assms
    by (auto simp: inspect_route_def bind_st_Ok and_then_Ok dest!: run_checked_succeeds)
  then show ?thesis using classify_lists [OF show_lists] by simp
qed

lemma read_exact:
  "read_ipv4_forwarding run w = (w', r) \<Longrightarrow> view w' = view w \<and> (\<forall>b. r = Ok b \<longrightarrow> b = ns_forwarding (view w))"
  by (cases "run_checked run w (str ''sysctl'') read_ipv4_forwarding_args";
      cases "snd (run_checked run w (str ''sysctl'') read_ipv4_forwarding_args)")
    (auto simp: read_ipv4_forwarding_def dest!: run_checked_succeeds dest: read_keeps read_reads)

lemma write_exact:
  assumes "write_ipv4_forwarding run w b = (w', r)"
  shows "view w' = (if r = Ok () then (view w)\<lparr>ns_forwarding := b\<rparr> else view w)"
proof -
  obtain w1 z where z: "run_checked run w (str ''sysctl'') (write_ipv4_forwarding_args b) = (w1, z)"
    by (cases "run_checked run w (str ''sysctl'') (write_ipv4_forwarding_args b)")
  obtain q where q: "run w (str ''sysctl'') (write_ipv4_forwarding_args b) = (w1, q)"
      "succeeds q \<longleftrightarrow> (\<exists>x. z = Ok x)"
    using run_checked_succeeds z by (cases z) (metis succeeds_def Inl_Inr_False)+
  show ?thesis
    using assms z q(2) write_writes [OF q(1)] by (cases z) (auto simp: write_ipv4_forwarding_def)
qed

lemma apply_route_exact:
  assumes "apply_route N J run w d g i = (w', r)"
  shows "case r of
      Inl e \<Rightarrow> view w' = view w
    | Inr Unchanged \<Rightarrow> view w' = view w \<and> leads (view w) d g i
    | Inr (Applied a) \<Rightarrow> a = RouteAdded d g i \<and> ns_routes (view w) d = {} \<and>
        (canonical d g \<longrightarrow> (\<exists>e. satisfies e g i \<and> view w' = set_routes (view w) d {e}))"
proof -
  obtain w1 q where q: "inspect_route N J run w d g i = (w1, q)" by (cases "inspect_route N J run w d g i")
  note keep = inspect_keeps [OF q]
  show ?thesis
  proof (cases q)
    case (Inl e)
    then show ?thesis using assms q keep by (auto simp: apply_route_def)
  next
    case (Inr existing)
    note exact = inspect_exact [OF q [unfolded Inr]]
    show ?thesis
    proof (cases existing)
      case Missing
      then have none: "ns_routes (view w) d = {}" using exact by (auto split: if_splits)
      obtain w2 z where z: "run_checked run w1 (str ''ip'') (route_add_args N d g i) = (w2, z)"
        by (cases "run_checked run w1 (str ''ip'') (route_add_args N d g i)")
      show ?thesis
      proof (cases z)
        case (Inl e)
        then have "r = Err e" "w' = w2" using assms q \<open>q = Ok existing\<close> Missing z by (auto simp: apply_route_def)
        moreover have "view w2 = view w1"
          using run_checked_succeeds(2) z Inl add_fails by blast
        ultimately show ?thesis using keep by simp
      next
        case (Inr result)
        then have "r = Ok (Applied (RouteAdded d g i))" "w' = w2"
          using assms q \<open>q = Ok existing\<close> Missing z by (auto simp: apply_route_def)
        moreover have "\<exists>e. satisfies e g i \<and> view w2 = set_routes (view w1) d (insert e (ns_routes (view w1) d))"
          if "canonical d g"
          using add_adds [OF that] run_checked_succeeds(1) z Inr by (metis succeeds_def)
        ultimately show ?thesis using keep none by auto
      qed
    next
      case Identical
      then show ?thesis using assms q Inr keep exact by (auto simp: apply_route_def leads_def split: if_splits)
    next
      case Conflicting
      then show ?thesis using assms q Inr keep by (auto simp: apply_route_def)
    qed
  qed
qed

lemma apply_forwarding_exact:
  assumes "apply_ipv4_forwarding run w b = (w', r)"
  shows "case r of
      Inl e \<Rightarrow> view w' = view w
    | Inr Unchanged \<Rightarrow> view w' = view w \<and> ns_forwarding (view w) = b
    | Inr (Applied a) \<Rightarrow> a = Ipv4ForwardingChanged (\<not> b) \<and> ns_forwarding (view w) = (\<not> b) \<and>
        view w' = (view w)\<lparr>ns_forwarding := b\<rparr>"
proof -
  obtain w1 q where q: "read_ipv4_forwarding run w = (w1, q)" by (cases "read_ipv4_forwarding run w")
  note exact = read_exact [OF q]
  show ?thesis
  proof (cases q)
    case (Inl e)
    then show ?thesis using assms q exact by (auto simp: apply_ipv4_forwarding_def)
  next
    case (Inr c)
    obtain w2 z where z: "write_ipv4_forwarding run w1 b = (w2, z)" by (cases "write_ipv4_forwarding run w1 b")
    show ?thesis
      using assms q exact Inr z write_exact [OF z]
      by (cases z) (auto simp: apply_ipv4_forwarding_def split: if_splits)
  qed
qed

lemma revert_route_exact:
  assumes "revert_route N J run w d g i = (w', r)"
  shows "(\<forall>e. r = Err e \<longrightarrow> view w' = view w) \<and>
    (r = Ok () \<longrightarrow> ns_routes (view w) d = {} \<and> view w' = view w \<or>
       (\<exists>e \<in> ns_routes (view w) d. satisfies e g i \<and>
          view w' = set_routes (view w) d (ns_routes (view w) d - {e})))"
proof -
  obtain w1 q where q: "inspect_route N J run w d g i = (w1, q)" by (cases "inspect_route N J run w d g i")
  note keep = inspect_keeps [OF q]
  show ?thesis
  proof (cases q)
    case (Inl e)
    then show ?thesis using assms q keep by (auto simp: revert_route_def)
  next
    case (Inr existing)
    note exact = inspect_exact [OF q [unfolded Inr]]
    show ?thesis
    proof (cases existing)
      case Identical
      then have all: "\<forall>e \<in> ns_routes (view w) d. satisfies e g i" "ns_routes (view w) d \<noteq> {}"
        using exact by (auto split: if_splits)
      then have stored: "canonical d g" using routes_canonical [of _ w d] by (auto simp: satisfies_def)
      obtain w2 z where z: "run_checked run w1 (str ''ip'') (route_delete_args N d g i) = (w2, z)"
        by (cases "run_checked run w1 (str ''ip'') (route_delete_args N d g i)")
      show ?thesis
      proof (cases z)
        case (Inl e)
        then have "r = Err e" "w' = w2" using assms q \<open>q = Ok existing\<close> Identical z by (auto simp: revert_route_def)
        moreover have "view w2 = view w1"
          using run_checked_succeeds(2) z Inl delete_fails by blast
        ultimately show ?thesis using keep by simp
      next
        case (Inr result)
        then have "w' = w2" using assms q \<open>q = Ok existing\<close> Identical z by (auto simp: revert_route_def)
        moreover obtain e where "e \<in> ns_routes (view w1) d"
            "view w2 = set_routes (view w1) d (ns_routes (view w1) d - {e})"
          using delete_deletes [OF stored] run_checked_succeeds(1) z Inr by (metis succeeds_def)
        moreover have "r = Ok ()" using assms q \<open>q = Ok existing\<close> Identical z Inr by (auto simp: revert_route_def)
        ultimately show ?thesis using keep all by auto
      qed
    next
      case Missing
      then show ?thesis using assms q Inr keep exact by (auto simp: revert_route_def split: if_splits)
    next
      case Conflicting
      then show ?thesis using assms q Inr keep by (auto simp: revert_route_def)
    qed
  qed
qed

lemma revert_forwarding_exact:
  assumes "revert_ipv4_forwarding run w b = (w', r)"
  shows "view w' = (if r = Ok () then (view w)\<lparr>ns_forwarding := b\<rparr> else view w)"
proof -
  obtain w1 q where q: "read_ipv4_forwarding run w = (w1, q)" by (cases "read_ipv4_forwarding run w")
  note exact = read_exact [OF q]
  show ?thesis
  proof (cases q)
    case (Inl e)
    then show ?thesis using assms q exact by (auto simp: revert_ipv4_forwarding_def)
  next
    case (Inr c)
    show ?thesis
      using assms q exact Inr write_exact [of w1 b w' r]
      by (auto simp: revert_ipv4_forwarding_def split: if_splits)
  qed
qed

lemma linux_apply_exact:
  assumes "linux_apply N J run w operation = (w', r)"
  shows "(\<forall>e. r = Err e \<longrightarrow> view w' = view w) \<and>
    (\<forall>a. r = Ok (Applied a) \<longrightarrow> storable canonical operation \<longrightarrow> route_owned (view w) a (view w')) \<and>
    (r = Ok Unchanged \<longrightarrow> view w' = view w) \<and>
    (\<forall>outcome. r = Ok outcome \<longrightarrow> storable canonical operation \<longrightarrow> achieved (view w') operation)"
proof (cases operation)
  case (AddRoute d g i)
  with assms have "apply_route N J run w d g i = (w', r)" by (simp add: linux_apply_def)
  from apply_route_exact [OF this] show ?thesis
    using AddRoute by (auto simp: route_owned_def achieved_def leads_def split: sum.splits ApplyOutcome.splits)
next
  case (SetIpv4Forwarding b)
  with assms have "apply_ipv4_forwarding run w b = (w', r)" by (simp add: linux_apply_def)
  from apply_forwarding_exact [OF this] show ?thesis
    using SetIpv4Forwarding by (auto simp: route_owned_def achieved_def split: sum.splits ApplyOutcome.splits)
qed

lemma linux_revert_exact:
  assumes "linux_revert N J run w a = (w', r)"
  shows "(\<forall>e. r = Err e \<longrightarrow> view w' = view w) \<and>
    (\<forall>v. r = Ok () \<longrightarrow> route_owned v a (view w) \<longrightarrow> view w' = v)"
proof (cases a)
  case (RouteAdded d g i)
  with assms have "revert_route N J run w d g i = (w', r)" by (simp add: linux_revert_def)
  from revert_route_exact [OF this] show ?thesis
    using RouteAdded by (auto simp: route_owned_def) (metis fun_upd_triv fun_upd_upd NetState.surjective
      NetState.update_convs(1))+
next
  case (Ipv4ForwardingChanged b)
  with assms have "revert_ipv4_forwarding run w b = (w', r)" by (simp add: linux_revert_def)
  from revert_forwarding_exact [OF this] show ?thesis
    using Ipv4ForwardingChanged by (auto simp: route_owned_def)
qed

end

sublocale network_tools \<subseteq> linux: route_backend "LinuxRouteBackend N J run" view route_owned "storable canonical"
  by unfold_locales (auto simp: LinuxRouteBackend_def dest: linux_apply_exact linux_revert_exact)

section \<open>What installation achieves\<close>

text \<open>No two operations ask for different settings of the forwarding switch.\<close>

definition consistent :: "'n RouteOperation list \<Rightarrow> bool" where
  "consistent operations \<longleftrightarrow>
     \<not> (SetIpv4Forwarding True \<in> set operations \<and> SetIpv4Forwarding False \<in> set operations)"

lemma generated_consistent:
  "consistent (split_tunnel_operations config tun)" "consistent (server_operations config)"
  "full_tunnel_operations new_net tun a server underlay = Some operations \<Longrightarrow> consistent operations"
  by (auto simp: consistent_def split_tunnel_operations_def server_operations_def
      full_tunnel_operations_def Let_def split: option.splits)

context network_tools
begin

lemma owned_keeps_achieved:
  assumes "route_owned v a v'" and "achieved v operation"
    and "\<And>b. operation = SetIpv4Forwarding b \<Longrightarrow> a \<noteq> Ipv4ForwardingChanged b"
  shows "achieved v' operation"
  using assms
  by (cases a; cases operation) (auto simp: route_owned_def achieved_def leads_def split: if_splits)

lemma linux_apply_keeps:
  assumes step: "linux_apply N J run w operation = (w', Ok outcome)"
    and storable: "storable canonical operation"
    and consistent: "consistent [operation, op']" and "achieved (view w) op'"
  shows "achieved (view w') op'"
proof (cases outcome)
  case (Applied a)
  have own: "route_owned (view w) a (view w')" and new: "achieved (view w') operation"
    using linux_apply_exact [OF step] Applied storable by auto
  show ?thesis
  proof (rule owned_keeps_achieved [OF own assms(4)])
    fix b
    assume b: "op' = SetIpv4Forwarding b"
    show "a \<noteq> Ipv4ForwardingChanged b"
    proof
      assume a: "a = Ipv4ForwardingChanged b"
      then obtain c where "operation = SetIpv4Forwarding c"
        using step Applied
        by (cases operation) (auto simp: linux_apply_def dest: apply_route_exact)
      with new own a b consistent show False
        by (cases b) (auto simp: achieved_def route_owned_def consistent_def)
    qed
  qed
next
  case Unchanged
  then show ?thesis using linux_apply_exact [OF step] assms(4) by simp
qed

lemma apply_all_achieved:
  assumes "apply_all (LinuxRouteBackend N J run) w m operations = (w', m', Ok ())"
    and "list_all (storable canonical) operations"
    and "consistent (done @ operations)" and "\<forall>operation \<in> set done. achieved (view w) operation"
  shows "\<forall>operation \<in> set (done @ operations). achieved (view w') operation"
  using assms
proof (induction operations arbitrary: w m "done")
  case (Cons operation operations)
  obtain w1 q where q: "linux_apply N J run w operation = (w1, q)" by (cases "linux_apply N J run w operation")
  then obtain outcome m1 where outcome: "q = Ok outcome"
      "apply_all (LinuxRouteBackend N J run) w1 m1 operations = (w', m', Ok ())"
    using Cons.prems(1)
    by (cases q) (auto simp: LinuxRouteBackend_def split: prod.splits sum.splits ApplyOutcome.splits)
  have "\<forall>op' \<in> set (done @ [operation]). achieved (view w1) op'"
  proof
    fix op'
    assume op': "op' \<in> set (done @ [operation])"
    show "achieved (view w1) op'"
    proof (cases "op' = operation")
      case True
      then show ?thesis using linux_apply_exact [OF q] outcome(1) Cons.prems(2) by simp
    next
      case False
      then have "op' \<in> set done" using op' by auto
      moreover have "consistent [operation, op']"
        using Cons.prems(3) \<open>op' \<in> set done\<close> by (auto simp: consistent_def)
      ultimately show ?thesis
        using linux_apply_keeps [of w operation w1 outcome op'] q outcome(1) Cons.prems(2,4) by simp
    qed
  qed
  then show ?case
    using Cons.IH [OF outcome(2), of "done @ [operation]"] Cons.prems(2,3) by simp
qed simp

lemma install_achieves:
  assumes "install (LinuxRouteBackend N J run) w m operations = (w', m', Ok ())"
    and "list_all (storable canonical) operations" and "consistent operations"
  shows "\<forall>operation \<in> set operations. achieved (view w') operation"
  using apply_all_achieved [of w m operations w' m' "[]"] assms
  by (simp add: install_def split: if_splits)

lemmas linux_install = linux.install_cases
lemmas linux_install_restore = linux.install_restore

end

section \<open>Restoration after routes were lost\<close>

text \<open>
  Routes may disappear while the program runs: the kernel removes those of a device that is closed.
  \<open>shrunk v u\<close>: \<open>u\<close> is \<open>v\<close> less some routes; \<open>meet v u\<close> is what \<open>u\<close> still has of \<open>v\<close>, with the
  forwarding switch of \<open>v\<close>.
\<close>

definition shrunk :: "('n, 't) NetState \<Rightarrow> ('n, 't) NetState \<Rightarrow> bool" where
  "shrunk v u \<longleftrightarrow> (\<forall>d. ns_routes u d \<subseteq> ns_routes v d) \<and> ns_forwarding u = ns_forwarding v \<and> ns_table u = ns_table v"

definition meet :: "('n, 't) NetState \<Rightarrow> ('n, 't) NetState \<Rightarrow> ('n, 't) NetState" where
  "meet v u = u\<lparr>ns_routes := (\<lambda>d. ns_routes u d \<inter> ns_routes v d), ns_forwarding := ns_forwarding v\<rparr>"

lemma shrunk_refl [simp]: "shrunk v v"
  by (simp add: shrunk_def)

lemma shrunk_trans: "shrunk v u \<Longrightarrow> shrunk u t \<Longrightarrow> shrunk v t"
  unfolding shrunk_def by (metis subset_trans)

lemma meet_self [simp]: "meet v v = v"
  by (simp add: meet_def)

lemma shrunkD: "shrunk v u \<Longrightarrow> ns_routes u d \<subseteq> ns_routes v d"
  by (simp add: shrunk_def)

lemma NetState_eqI:
  fixes v u :: "('n, 't) NetState"
  shows "(\<And>d. ns_routes v d = ns_routes u d) \<Longrightarrow> ns_forwarding v = ns_forwarding u \<Longrightarrow> ns_table v = ns_table u \<Longrightarrow> v = u"
  by (cases v; cases u) auto

lemma shrunk_meet: "shrunk v u \<Longrightarrow> meet v u = u"
  using shrunkD [of v u] by (intro NetState_eqI) (auto simp: meet_def shrunk_def)

lemma route_owned_facts:
  assumes "route_owned v a v'"
  shows "ns_routes v d \<subseteq> ns_routes v' d" "ns_table v' = ns_table v"
  using assms by (auto simp: route_owned_def split: AppliedOperation.splits if_splits)

context network_tools
begin

lemma chain_facts:
  "linux.chain v as v' \<Longrightarrow> (\<forall>d. ns_routes v d \<subseteq> ns_routes v' d) \<and> ns_table v' = ns_table v"
proof (induction as arbitrary: v)
  case (Cons a as)
  then obtain u where u: "route_owned v a u" "linux.chain u as v'" by auto
  show ?case using Cons.IH [OF u(2)] route_owned_facts [OF u(1)] by (metis subset_trans)
qed simp

lemma revert_after_loss:
  assumes own: "route_owned v a v'" and lost: "shrunk v' (view w)" and revert: "linux_revert N J run w a = (w', Ok ())"
  shows "view w' = meet v (view w) \<and> shrunk v (view w')"
proof (cases a)
  case (RouteAdded d g i)
  then obtain e where empty: "ns_routes v d = {}" and v': "v' = set_routes v d {e}"
    using own by (auto simp: route_owned_def)
  have sub: "ns_routes (view w) d \<subseteq> {e}" "\<And>x. x \<noteq> d \<Longrightarrow> ns_routes (view w) x \<subseteq> ns_routes v x"
    using shrunkD [OF lost] v' by (metis NetState.select_convs(1) NetState.surjective NetState.update_convs(1) fun_upd_apply)+
  have same: "ns_forwarding (view w) = ns_forwarding v" "ns_table (view w) = ns_table v"
    using lost v' by (simp_all add: shrunk_def)
  have "revert_route N J run w d g i = (w', Ok ())" using revert RouteAdded by (simp add: linux_revert_def)
  from revert_route_exact [OF this] consider
      "ns_routes (view w) d = {}" "view w' = view w"
    | x where "x \<in> ns_routes (view w) d" "view w' = set_routes (view w) d (ns_routes (view w) d - {x})"
    by blast
  then have w': "view w' = set_routes (view w) d {}"
  proof cases
    case 1
    then show ?thesis by (intro NetState_eqI) simp_all
  next
    case (2 x)
    then have "ns_routes (view w) d - {x} = {}" using sub(1) by blast
    with 2 show ?thesis by simp
  qed
  have "ns_routes (view w') x = ns_routes (view w) x \<inter> ns_routes v x" for x
    using sub(2) [of x] empty by (cases "x = d") (auto simp: w')
  then show ?thesis
    using same by (auto simp: meet_def shrunk_def w' intro!: NetState_eqI)
next
  case (Ipv4ForwardingChanged b)
  have "revert_ipv4_forwarding run w b = (w', Ok ())" using revert Ipv4ForwardingChanged by (simp add: linux_revert_def)
  from revert_forwarding_exact [OF this] have "view w' = (view w)\<lparr>ns_forwarding := b\<rparr>" by simp
  moreover have "v' = v\<lparr>ns_forwarding := \<not> b\<rparr>" "ns_forwarding v = b"
    using own Ipv4ForwardingChanged by (auto simp: route_owned_def)
  moreover from this have "ns_routes (view w) d \<inter> ns_routes v d = ns_routes (view w) d" for d
    using shrunkD [OF lost, of d] by auto
  ultimately show ?thesis
    using lost by (auto simp: meet_def shrunk_def intro!: NetState_eqI)
qed

lemma revert_all_after_loss:
  "linux.chain v (rev as) v' \<Longrightarrow> shrunk v' (view w) \<Longrightarrow>
    revert_all (LinuxRouteBackend N J run) w as = (w', [], failed) \<Longrightarrow>
    view w' = meet v (view w) \<and> shrunk v (view w')"
proof (induction as arbitrary: w v')
  case Nil
  then show ?case by (simp add: shrunk_meet)
next
  case (Cons a as)
  then obtain u where u: "linux.chain v (rev as) u" "route_owned u a v'"
    by (auto simp: linux.chain_append)
  obtain w1 where w1: "linux_revert N J run w a = (w1, Ok ())"
      "revert_all (LinuxRouteBackend N J run) w1 as = (w', [], failed)"
    using Cons.prems(3) by (auto simp: LinuxRouteBackend_def split: prod.splits sum.splits)
  note one = revert_after_loss [OF u(2) Cons.prems(2) w1(1)]
  have "view w' = meet v (view w1) \<and> shrunk v (view w')"
    using Cons.IH [OF u(1) _ w1(2)] one by blast
  moreover have "ns_routes (view w) d \<inter> ns_routes u d \<inter> ns_routes v d = ns_routes (view w) d \<inter> ns_routes v d" for d
    using chain_facts [OF u(1)] by blast
  then have "meet v (meet u (view w)) = meet v (view w)" by (simp add: meet_def)
  ultimately show ?case using one by metis
qed

lemma restore_after_loss:
  assumes "linux.chain v (rm_applied m) v'" and "shrunk v' (view w)"
    and "restore (LinuxRouteBackend N J run) w m = (w', m', Ok ())"
  shows "view w' = meet v (view w) \<and> shrunk v (view w')"
proof -
  obtain failed where "revert_all (LinuxRouteBackend N J run) w (rev (rm_applied m)) = (w', [], failed)"
    using assms(3) by (auto simp: restore_def Let_def split: prod.splits if_splits)
  then show ?thesis
    using revert_all_after_loss [of v "rev (rm_applied m)" v' w w' failed] assms(1,2) unfolding rev_rev_ident by blast
qed

end

end
