(* ===== verification/Nat_Linux.thy ===== *)
theory Nat_Linux
  imports Nat_Manager Routing_Linux
begin

text \<open>
  The Linux NAT backend (\<open>src/nat/linux.rs\<close>): rendering of the ruleset, inspection of tables, the
  fingerprint of the installed table and the operations of the NAT backend. JSON values are
  \<open>serde_json::Value\<close>, whose objects are maps with sorted keys; the parsers are the parameter \<open>J\<close>. The
  locale \<open>nft_tools\<close> states the documented effects of \<open>nft\<close> and \<open>ip link show\<close>, of loading only for the
  commands of the ruleset; under it the backend keeps the laws of \<open>nat_backend\<close> for plain interface names.
\<close>

section \<open>JSON values and fingerprints\<close>

datatype Value =
  Null
| Bool bool
| Number bytes
| String bytes
| Array "Value list"
| Object "(bytes \<times> Value) list"

definition json_get :: "Value \<Rightarrow> bytes \<Rightarrow> Value option" where
  "json_get v key = (case v of Object m \<Rightarrow> map_of m key | _ \<Rightarrow> None)"

definition COUNTER :: bytes where "COUNTER = str ''counter''"
definition PACKETS :: bytes where "PACKETS = str ''packets''"
definition BYTES :: bytes where "BYTES = str ''bytes''"

lemma counter_keys [simp]:
  "COUNTER \<noteq> PACKETS" "COUNTER \<noteq> BYTES" "PACKETS \<noteq> BYTES" "PACKETS \<noteq> COUNTER" "BYTES \<noteq> COUNTER" "BYTES \<noteq> PACKETS"
  by (simp_all add: COUNTER_def PACKETS_def BYTES_def)

lemma str_counter_keys [simp]:
  "str s = COUNTER \<longleftrightarrow> s = ''counter''" "str s = PACKETS \<longleftrightarrow> s = ''packets''" "str s = BYTES \<longleftrightarrow> s = ''bytes''"
  by (simp_all add: COUNTER_def PACKETS_def BYTES_def)

text \<open>Remove the two counts of a counter object.\<close>

definition strip_counter :: "Value \<Rightarrow> Value" where
  "strip_counter v = (case v of
     Object counter \<Rightarrow> Object (filter (\<lambda>e. fst e \<noteq> PACKETS \<and> fst e \<noteq> BYTES) counter)
   | _ \<Rightarrow> v)"

definition strip_entry :: "bytes \<times> Value \<Rightarrow> bytes \<times> Value" where
  "strip_entry e = (if fst e = COUNTER then (fst e, strip_counter (snd e)) else e)"

lemma size_filter_entries: "size_list (size_prod (\<lambda>x. 0) size) (filter P m) \<le> size_list (size_prod (\<lambda>x. 0) size) m"
  by (induction m) auto

lemma size_strip_counter: "size (strip_counter v) \<le> size v"
  using size_filter_entries by (cases v) (auto simp: strip_counter_def)

lemma size_strip_entry [termination_simp]:
  assumes "e \<in> set m"
  shows "size (snd (strip_entry e)) \<le> size_list (\<lambda>x. Suc (size (snd x))) m"
proof -
  have "size (snd (strip_entry e)) \<le> size (snd e)"
    using size_strip_counter [of "snd e"] by (simp add: strip_entry_def)
  also have "\<dots> \<le> size_list (\<lambda>x. Suc (size (snd x))) m"
    using assms by (intro size_list_estimation') auto
  finally show ?thesis .
qed

function normalize_counter_values :: "Value \<Rightarrow> Value" where
  "normalize_counter_values (Array vs) = Array (map normalize_counter_values vs)"
| "normalize_counter_values (Object m) =
     Object (map (\<lambda>e. (fst e, normalize_counter_values (snd (strip_entry e)))) m)"
| "normalize_counter_values Null = Null"
| "normalize_counter_values (Bool b) = Bool b"
| "normalize_counter_values (Number n) = Number n"
| "normalize_counter_values (String s) = String s"
  by pat_completeness auto

termination
  by (relation "measure size")
    (auto simp: size_prod_simp less_Suc_eq_le intro: size_list_estimation' size_strip_entry)

definition normalize_fingerprint :: "Value \<Rightarrow> Value" where
  "normalize_fingerprint value = normalize_counter_values
     (case value of
        Object m \<Rightarrow> Object (map (\<lambda>e.
          if fst e = str ''nftables''
          then (fst e, case snd e of
                  Array objects \<Rightarrow> Array (filter (\<lambda>object. json_get object (str ''metainfo'') = None) objects)
                | v \<Rightarrow> v)
          else e) m)
      | _ \<Rightarrow> value)"

section \<open>Commands\<close>

definition NFT_TABLE_FAMILY :: bytes where "NFT_TABLE_FAMILY = str ''ip''"
definition NFT_TABLE_NAME :: bytes where "NFT_TABLE_NAME = str ''crabnet_nat''"
definition NFT_POSTROUTING_CHAIN :: bytes where "NFT_POSTROUTING_CHAIN = str ''postrouting''"

type_synonym NatCommandResult = CommandResult
type_synonym 'w nat_runner = "'w \<Rightarrow> bytes \<Rightarrow> bytes list \<Rightarrow> bytes option \<Rightarrow> 'w \<times> (NatCommandResult, unit) result"

record NftTable =
  nt_family :: bytes
  nt_name :: bytes

record NftObject =
  no_table :: "NftTable option"

record NftListing =
  nl_nftables :: "NftObject list"

record NatJson =
  from_str_listing :: "bytes \<Rightarrow> NftListing option"
  from_str_value :: "bytes \<Rightarrow> Value option"

text \<open>
  \<open>FingerprintFailed e c\<close>: the table was installed but could not be inspected because of \<open>e\<close>, and the
  emergency cleanup succeeded or failed with the error \<open>c\<close>.
\<close>

datatype NatError =
  NatCommand CommandError
| NatTableExists
| InvalidListingJson
| InvalidTableJson
| NatStateChanged
| FingerprintFailed NatError "NatError option"

type_synonym ('w, 'a) nat_step = "'w \<times> ('a, NatError) result"

record AppliedNat =
  an_fingerprint :: Value

definition nat_run_checked ::
  "'w nat_runner \<Rightarrow> 'w \<Rightarrow> bytes \<Rightarrow> bytes list \<Rightarrow> bytes option \<Rightarrow> ('w, NatCommandResult) nat_step" where
  "nat_run_checked run w program args stdin =
     (let (w, r) = run w program args stdin in (w, map_sum NatCommand id (check_result r)))"

abbreviation link_show_args :: "bytes \<Rightarrow> bytes list" where
  "link_show_args interface \<equiv> [str ''-j'', str ''link'', str ''show'', str ''dev'', interface]"

abbreviation list_tables_args :: "bytes list" where
  "list_tables_args \<equiv> [str ''-j'', str ''list'', str ''tables'']"

abbreviation list_table_args :: "bytes list" where
  "list_table_args \<equiv> [str ''-j'', str ''list'', str ''table'', NFT_TABLE_FAMILY, NFT_TABLE_NAME]"

abbreviation delete_table_args :: "bytes list" where
  "delete_table_args \<equiv> [str ''delete'', str ''table'', NFT_TABLE_FAMILY, NFT_TABLE_NAME]"

abbreviation load_args :: "bytes list" where
  "load_args \<equiv> [str ''-f'', str ''-'']"

definition inspect_interface :: "'w nat_runner \<Rightarrow> 'w \<Rightarrow> bytes \<Rightarrow> ('w, unit) nat_step" where
  "inspect_interface run w interface =
     bind_st (nat_run_checked run w (str ''ip'') (link_show_args interface) None) (\<lambda>w _. (w, Ok ()))"

definition table_exists :: "NatJson \<Rightarrow> 'w nat_runner \<Rightarrow> 'w \<Rightarrow> ('w, bool) nat_step" where
  "table_exists J run w =
     bind_st (nat_run_checked run w (str ''nft'') list_tables_args None) (\<lambda>w result.
       (w, and_then (ok_or (from_str_listing J (cmd_stdout result)) InvalidListingJson) (\<lambda>listing.
         Ok (list_ex (\<lambda>object. case no_table object of
               Some table \<Rightarrow> nt_family table = NFT_TABLE_FAMILY \<and> nt_name table = NFT_TABLE_NAME
             | None \<Rightarrow> False) (nl_nftables listing)))))"

definition inspect_table :: "NatJson \<Rightarrow> 'w nat_runner \<Rightarrow> 'w \<Rightarrow> ('w, Value) nat_step" where
  "inspect_table J run w =
     bind_st (nat_run_checked run w (str ''nft'') list_table_args None) (\<lambda>w result.
       (w, and_then (ok_or (from_str_value J (cmd_stdout result)) InvalidTableJson) (\<lambda>value.
         Ok (normalize_fingerprint value))))"

definition delete_table :: "'w nat_runner \<Rightarrow> 'w \<Rightarrow> ('w, unit) nat_step" where
  "delete_table run w =
     bind_st (nat_run_checked run w (str ''nft'') delete_table_args None) (\<lambda>w _. (w, Ok ()))"

text \<open>The quotation mark and the line feed are 34 and 10.\<close>

definition render_ruleset :: "'m Ipv4NetLib \<Rightarrow> 'm NatSpec \<Rightarrow> bytes" where
  "render_ruleset M spec =
     (let table = NFT_TABLE_FAMILY @ str '' '' @ NFT_TABLE_NAME in
      str ''add table '' @ table @ [10] @
      str ''add chain '' @ table @ str '' '' @ NFT_POSTROUTING_CHAIN @
        str '' { type nat hook postrouting priority srcnat; }'' @ [10] @
      str ''add rule '' @ table @ str '' '' @ NFT_POSTROUTING_CHAIN @
        str '' iifname '' @ [34] @ nat_tun_interface spec @ [34] @
        str '' oifname '' @ [34] @ nat_egress spec @ [34] @
        str '' ip saddr '' @ v4_to_string M (nat_source_network spec) @
        str '' counter masquerade'' @ [10])"

section \<open>The backend\<close>

text \<open>After the ruleset was loaded: take the fingerprint, or remove the table again.\<close>

definition capture_fingerprint :: "NatJson \<Rightarrow> 'w nat_runner \<Rightarrow> 'w \<Rightarrow> ('w, AppliedNat) nat_step" where
  "capture_fingerprint J run w = (case inspect_table J run w of
     (w, Inr fingerprint) \<Rightarrow> (w, Ok \<lparr>an_fingerprint = fingerprint\<rparr>)
   | (w, Inl inspect_error) \<Rightarrow>
       (case delete_table run w of
          (w, Inr _) \<Rightarrow> (w, Err (FingerprintFailed inspect_error None))
        | (w, Inl cleanup_error) \<Rightarrow> (w, Err (FingerprintFailed inspect_error (Some cleanup_error)))))"

definition linux_nat_apply ::
  "'m Ipv4NetLib \<Rightarrow> NatJson \<Rightarrow> 'w nat_runner \<Rightarrow> 'w \<Rightarrow> 'm NatSpec \<Rightarrow> ('w, AppliedNat) nat_step" where
  "linux_nat_apply M J run w spec =
     bind_st (inspect_interface run w (nat_tun_interface spec)) (\<lambda>w _.
     bind_st (inspect_interface run w (nat_egress spec)) (\<lambda>w _.
     bind_st (table_exists J run w) (\<lambda>w exists.
     if exists then (w, Err NatTableExists)
     else bind_st (nat_run_checked run w (str ''nft'') load_args (Some (render_ruleset M spec))) (\<lambda>w _.
       capture_fingerprint J run w))))"

definition linux_nat_revert :: "NatJson \<Rightarrow> 'w nat_runner \<Rightarrow> 'w \<Rightarrow> AppliedNat \<Rightarrow> ('w, unit) nat_step" where
  "linux_nat_revert J run w applied =
     bind_st (table_exists J run w) (\<lambda>w exists.
     if \<not> exists then (w, Ok ())
     else bind_st (inspect_table J run w) (\<lambda>w current.
       if current \<noteq> an_fingerprint applied then (w, Err NatStateChanged)
       else delete_table run w))"

definition LinuxNatBackend ::
  "'m Ipv4NetLib \<Rightarrow> NatJson \<Rightarrow> 'w nat_runner \<Rightarrow> ('w, 'm, AppliedNat, NatError) NatBackend" where
  "LinuxNatBackend M J run = \<lparr>nb_apply = linux_nat_apply M J run, nb_revert = linux_nat_revert J run\<rparr>"

section \<open>The effects of the tools\<close>

definition nat_owned :: "('t \<Rightarrow> Value) \<Rightarrow> ('n, 't) NetState \<Rightarrow> AppliedNat \<Rightarrow> ('n, 't) NetState \<Rightarrow> bool" where
  "nat_owned print v a v' \<longleftrightarrow> ns_table v = None \<and>
     (\<exists>t. v' = v\<lparr>ns_table := Some t\<rparr> \<and> an_fingerprint a = print t)"

definition nat_stranded :: "NatError \<Rightarrow> bool" where
  "nat_stranded e \<longleftrightarrow> (\<exists>e' c. e = FingerprintFailed e' (Some c))"

text \<open>
  The commands that set up source NAT, written out: a table, a base chain on the hook \<open>postrouting\<close> at the
  priority of source NAT, and a rule that masquerades what comes from one interface with a source
  address of one network and leaves by another interface. An interface name is taken literally
  between quotation marks when it holds no quotation mark, line feed, asterisk or backslash.
\<close>

definition nat_script :: "bytes \<Rightarrow> bytes \<Rightarrow> bytes \<Rightarrow> bytes" where
  "nat_script tun egress source =
     str ''add table ip crabnet_nat'' @ [10] @
     str ''add chain ip crabnet_nat postrouting { type nat hook postrouting priority srcnat; }'' @ [10] @
     str ''add rule ip crabnet_nat postrouting iifname '' @ [34] @ tun @ [34] @ str '' oifname '' @ [34] @ egress @ [34] @
       str '' ip saddr '' @ source @ str '' counter masquerade'' @ [10]"

definition plain_name :: "bytes \<Rightarrow> bool" where
  "plain_name x \<longleftrightarrow> x \<noteq> [] \<and> set x \<inter> {10, 34, 42, 92} = {}"

definition plain_spec :: "'m NatSpec \<Rightarrow> bool" where
  "plain_spec spec \<longleftrightarrow> plain_name (nat_tun_interface spec) \<and> plain_name (nat_egress spec)"

lemma render_nat_script:
  "render_ruleset M spec = nat_script (nat_tun_interface spec) (nat_egress spec) (v4_to_string M (nat_source_network spec))"
  by (simp add: render_ruleset_def nat_script_def Let_def str_def
      NFT_TABLE_FAMILY_def NFT_TABLE_NAME_def NFT_POSTROUTING_CHAIN_def)

text \<open>
  \<open>print t\<close> is the fingerprint of a table with the contents \<open>t\<close>, whatever its counters say;
  \<open>masquerades t tun egress n\<close> says that they masquerade what comes from \<open>tun\<close> with a source address in the
  network \<open>n\<close> and leaves by \<open>egress\<close>. What loading does is only stated for the commands above: the tool accepts
  other texts too, the empty one for example, which create no table.
\<close>

locale nft_tools =
  fixes M :: "'m Ipv4NetLib"
    and J :: NatJson
    and run :: "'w nat_runner"
    and view :: "'w \<Rightarrow> ('n, 't) NetState"
    and print :: "'t \<Rightarrow> Value"
    and masquerades :: "'t \<Rightarrow> bytes \<Rightarrow> bytes \<Rightarrow> 'm \<Rightarrow> bool"
  assumes link_keeps: "run w (str ''ip'') (link_show_args i) None = (w', r) \<Longrightarrow> view w' = view w"
    and tables_keeps: "run w (str ''nft'') list_tables_args None = (w', r) \<Longrightarrow> view w' = view w"
    and tables_lists: "run w (str ''nft'') list_tables_args None = (w', Ok result) \<Longrightarrow> cmd_success result \<Longrightarrow>
      from_str_listing J (cmd_stdout result) = Some listing \<Longrightarrow>
      ns_table (view w) \<noteq> None \<longleftrightarrow> (\<exists>object \<in> set (nl_nftables listing).
        no_table object = Some \<lparr>nt_family = NFT_TABLE_FAMILY, nt_name = NFT_TABLE_NAME\<rparr>)"
    and load_loads: "plain_name tun \<Longrightarrow> plain_name egress \<Longrightarrow>
      run w (str ''nft'') load_args (Some (nat_script tun egress (v4_to_string M n))) = (w', r) \<Longrightarrow> succeeds r \<Longrightarrow>
      ns_table (view w) = None \<Longrightarrow> \<exists>t. view w' = (view w)\<lparr>ns_table := Some t\<rparr> \<and> masquerades t tun egress n"
    and load_fails: "run w (str ''nft'') load_args (Some ruleset) = (w', r) \<Longrightarrow> \<not> succeeds r \<Longrightarrow> view w' = view w"
    and table_keeps: "run w (str ''nft'') list_table_args None = (w', r) \<Longrightarrow> view w' = view w"
    and table_prints: "run w (str ''nft'') list_table_args None = (w', Ok result) \<Longrightarrow> cmd_success result \<Longrightarrow>
      from_str_value J (cmd_stdout result) = Some value \<Longrightarrow>
      \<exists>t. ns_table (view w) = Some t \<and> normalize_fingerprint value = print t"
    and delete_table_effect: "run w (str ''nft'') delete_table_args None = (w', r) \<Longrightarrow>
      view w' = (if succeeds r then (view w)\<lparr>ns_table := None\<rparr> else view w)"
begin

lemma nat_run_checked_run:
  assumes "nat_run_checked run w p args stdin = (w', z)"
  obtains r where "run w p args stdin = (w', r)" "succeeds r \<longleftrightarrow> (\<exists>x. z = Ok x)"
    "\<And>x. z = Ok x \<Longrightarrow> r = Ok x \<and> cmd_success x"
proof -
  obtain r where r: "run w p args stdin = (w', r)" and z: "z = map_sum NatCommand id (check_result r)"
    using assms by (cases "run w p args stdin") (auto simp: nat_run_checked_def)
  have ok: "z = Ok x \<longleftrightarrow> r = Ok x \<and> cmd_success x" for x
    unfolding z by (cases "check_result r") (auto simp flip: check_result_Ok)
  show thesis
    by (rule that [OF r]) (simp_all add: succeeds_def ok)
qed

lemma inspect_interface_keeps: "inspect_interface run w i = (w', r) \<Longrightarrow> view w' = view w"
  by (cases "nat_run_checked run w (str ''ip'') (link_show_args i) None";
      cases "snd (nat_run_checked run w (str ''ip'') (link_show_args i) None)")
    (auto simp: inspect_interface_def elim!: nat_run_checked_run dest: link_keeps)

lemma table_exists_exact:
  assumes "table_exists J run w = (w', r)"
  shows "view w' = view w \<and> (\<forall>b. r = Ok b \<longrightarrow> b = (ns_table (view w) \<noteq> None))"
proof -
  obtain w1 z where z: "nat_run_checked run w (str ''nft'') list_tables_args None = (w1, z)"
    by (cases "nat_run_checked run w (str ''nft'') list_tables_args None")
  obtain q where q: "run w (str ''nft'') list_tables_args None = (w1, q)"
      "\<And>x. z = Ok x \<Longrightarrow> q = Ok x \<and> cmd_success x"
    using nat_run_checked_run [OF z] by metis
  note keep = tables_keeps [OF q(1)]
  show ?thesis
  proof (cases z)
    case (Inl e)
    then show ?thesis using assms z keep by (auto simp: table_exists_def)
  next
    case (Inr result)
    show ?thesis
    proof (cases "from_str_listing J (cmd_stdout result)")
      case None
      then show ?thesis using assms z Inr keep by (auto simp: table_exists_def)
    next
      case (Some listing)
      have "ns_table (view w) \<noteq> None \<longleftrightarrow> (\<exists>object \<in> set (nl_nftables listing).
          no_table object = Some \<lparr>nt_family = NFT_TABLE_FAMILY, nt_name = NFT_TABLE_NAME\<rparr>)"
        using tables_lists [of w w1 result listing] q Inr Some by simp
      then show ?thesis
        using assms z Inr keep Some
        by (auto simp: table_exists_def list_ex_iff split: option.splits) (metis NftTable.surjective old.unit.exhaust)+
    qed
  qed
qed

lemma inspect_table_exact:
  assumes "inspect_table J run w = (w', r)"
  shows "view w' = view w \<and> (\<forall>v. r = Ok v \<longrightarrow> (\<exists>t. ns_table (view w) = Some t \<and> v = print t))"
proof -
  obtain w1 z where z: "nat_run_checked run w (str ''nft'') list_table_args None = (w1, z)"
    by (cases "nat_run_checked run w (str ''nft'') list_table_args None")
  obtain q where q: "run w (str ''nft'') list_table_args None = (w1, q)"
      "\<And>x. z = Ok x \<Longrightarrow> q = Ok x \<and> cmd_success x"
    using nat_run_checked_run [OF z] by metis
  show ?thesis
    using assms z q(2) table_keeps [OF q(1)] table_prints [of w w1] q(1)
    by (cases z) (auto simp: inspect_table_def and_then_Ok)
qed

lemma delete_table_exact:
  assumes "delete_table run w = (w', r)"
  shows "view w' = (if r = Ok () then (view w)\<lparr>ns_table := None\<rparr> else view w)"
proof -
  obtain w1 z where z: "nat_run_checked run w (str ''nft'') delete_table_args None = (w1, z)"
    by (cases "nat_run_checked run w (str ''nft'') delete_table_args None")
  obtain q where q: "run w (str ''nft'') delete_table_args None = (w1, q)" "succeeds q \<longleftrightarrow> (\<exists>x. z = Ok x)"
    using nat_run_checked_run [OF z] by metis
  show ?thesis
    using assms z q(2) delete_table_effect [OF q(1)] by (cases z) (auto simp: delete_table_def)
qed

lemma capture_exact:
  assumes "capture_fingerprint J run w = (w', r)" and "view w = v\<lparr>ns_table := Some t\<rparr>" and "ns_table v = None"
  shows "(\<forall>a. r = Ok a \<longrightarrow> nat_owned print v a (view w') \<and> ns_table (view w') = Some t) \<and>
    (\<forall>e. r = Err e \<longrightarrow> \<not> nat_stranded e \<longrightarrow> view w' = v)"
proof -
  obtain w1 q where q: "inspect_table J run w = (w1, q)" by (cases "inspect_table J run w")
  note exact = inspect_table_exact [OF q]
  show ?thesis
  proof (cases q)
    case (Inr fingerprint)
    then show ?thesis
      using assms q exact by (auto simp: capture_fingerprint_def nat_owned_def)
  next
    case (Inl e)
    obtain w2 z where z: "delete_table run w1 = (w2, z)" by (cases "delete_table run w1")
    show ?thesis
      using assms q exact Inl z delete_table_exact [OF z]
      by (cases z) (auto simp: capture_fingerprint_def nat_stranded_def)
  qed
qed

lemma linux_nat_apply_exact:
  assumes "linux_nat_apply M J run w spec = (w', r)" and plain: "plain_spec spec"
  shows "(\<forall>a. r = Ok a \<longrightarrow> nat_owned print (view w) a (view w') \<and> (\<exists>t. ns_table (view w') = Some t \<and>
      masquerades t (nat_tun_interface spec) (nat_egress spec) (nat_source_network spec))) \<and>
    (\<forall>e. r = Err e \<longrightarrow> \<not> nat_stranded e \<longrightarrow> view w' = view w)"
proof -
  obtain w1 r1 where 1: "inspect_interface run w (nat_tun_interface spec) = (w1, r1)"
    by (cases "inspect_interface run w (nat_tun_interface spec)")
  obtain w2 r2 where 2: "inspect_interface run w1 (nat_egress spec) = (w2, r2)"
    by (cases "inspect_interface run w1 (nat_egress spec)")
  obtain w3 r3 where 3: "table_exists J run w2 = (w3, r3)" by (cases "table_exists J run w2")
  obtain w4 r4 where 4: "nat_run_checked run w3 (str ''nft'') load_args (Some (render_ruleset M spec)) = (w4, r4)"
    by (cases "nat_run_checked run w3 (str ''nft'') load_args (Some (render_ruleset M spec))")
  obtain q where q: "run w3 (str ''nft'') load_args (Some (render_ruleset M spec)) = (w4, q)"
      "succeeds q \<longleftrightarrow> (\<exists>x. r4 = Ok x)"
    using nat_run_checked_run [OF 4] by metis
  have k: "view w1 = view w" "view w2 = view w" "view w3 = view w" "\<And>b. r3 = Ok b \<Longrightarrow> b = (ns_table (view w) \<noteq> None)"
    using inspect_interface_keeps [OF 1] inspect_interface_keeps [OF 2] table_exists_exact [OF 3] by auto
  consider (early) e where "r = Err e" "view w' = view w"
    | (loaded) x where "r3 = Ok False" "r4 = Ok x" "capture_fingerprint J run w4 = (w', r)"
    using assms(1) 1 2 3 4 k(1-3) load_fails [OF q(1)] q(2)
    by (cases r1; cases r2; cases r3; cases r4) (auto simp: linux_nat_apply_def split: if_splits)
  then show ?thesis
  proof cases
    case loaded
    then have none: "ns_table (view w) = None" using k(4) [OF loaded(1)] by simp
    obtain t where t: "view w4 = (view w)\<lparr>ns_table := Some t\<rparr>"
        "masquerades t (nat_tun_interface spec) (nat_egress spec) (nat_source_network spec)"
      using load_loads [OF _ _ q(1) [unfolded render_nat_script]] plain q(2) loaded(2) none k(3)
      by (auto simp: plain_spec_def)
    from capture_exact [OF loaded(3) t(1) none] t(2) show ?thesis by blast
  qed simp
qed

lemma linux_nat_revert_exact:
  assumes "linux_nat_revert J run w a = (w', r)"
  shows "(\<forall>e. r = Err e \<longrightarrow> view w' = view w) \<and>
    (r = Ok () \<longrightarrow> (ns_table (view w) = None \<and> view w' = view w) \<or>
       (\<exists>t. ns_table (view w) = Some t \<and> print t = an_fingerprint a \<and> view w' = (view w)\<lparr>ns_table := None\<rparr>))"
proof -
  obtain w1 r1 where 1: "table_exists J run w = (w1, r1)" by (cases "table_exists J run w")
  obtain w2 r2 where 2: "inspect_table J run w1 = (w2, r2)" by (cases "inspect_table J run w1")
  obtain w3 r3 where 3: "delete_table run w2 = (w3, r3)" by (cases "delete_table run w2")
  show ?thesis
    using assms 1 2 3 table_exists_exact [OF 1] inspect_table_exact [OF 2] delete_table_exact [OF 3]
    by (cases r1; cases r2; cases r3) (auto simp: linux_nat_revert_def split: if_splits)
qed

end

sublocale nft_tools \<subseteq> nft: nat_backend "LinuxNatBackend M J run" view "nat_owned print" nat_stranded plain_spec
proof unfold_locales
  fix w w' :: 'w and spec :: "'m NatSpec" and a
  assume "plain_spec spec" and "nb_apply (LinuxNatBackend M J run) w spec = (w', Ok a)"
  then show "nat_owned print (view w) a (view w')"
    using linux_nat_apply_exact [of w spec w' "Ok a"] by (simp add: LinuxNatBackend_def)
next
  fix w w' :: 'w and spec :: "'m NatSpec" and e
  assume "plain_spec spec" and "nb_apply (LinuxNatBackend M J run) w spec = (w', Err e)" and "\<not> nat_stranded e"
  then show "view w' = view w"
    using linux_nat_apply_exact [of w spec w' "Err e"] by (simp add: LinuxNatBackend_def)
next
  fix v a and w w' :: 'w
  assume "nat_owned print v a (view w)" and "nb_revert (LinuxNatBackend M J run) w a = (w', Ok ())"
  then show "view w' = v"
    using linux_nat_revert_exact [of w a w' "Ok ()"] by (auto simp: LinuxNatBackend_def nat_owned_def)
next
  fix w w' :: 'w and a e
  assume "nb_revert (LinuxNatBackend M J run) w a = (w', Err e)"
  then show "view w' = view w"
    using linux_nat_revert_exact [of w a w' "Err e"] by (simp add: LinuxNatBackend_def)
qed

section \<open>What a fingerprint records\<close>

datatype Step = Key bytes | Index nat

text \<open>The value at a path, and the paths into the counts of a counter.\<close>

fun json_at :: "Step list \<Rightarrow> Value \<Rightarrow> Value option" where
  "json_at [] v = Some v"
| "json_at (Key k # p) (Object m) = (case map_of m k of Some v \<Rightarrow> json_at p v | None \<Rightarrow> None)"
| "json_at (Index i # p) (Array vs) = (if i < length vs then json_at p (vs ! i) else None)"
| "json_at _ _ = None"

fun count_path :: "Step list \<Rightarrow> bool" where
  "count_path [] \<longleftrightarrow> False"
| "count_path (x # p) \<longleftrightarrow>
     x = Key COUNTER \<and> p \<noteq> [] \<and> hd p \<in> {Key PACKETS, Key BYTES} \<or> count_path p"

definition scalar :: "Value \<Rightarrow> bool" where
  "scalar v \<longleftrightarrow> (case v of Array _ \<Rightarrow> False | Object _ \<Rightarrow> False | _ \<Rightarrow> True)"

text \<open>Two values that differ in counts of counters only.\<close>

inductive alike :: "Value \<Rightarrow> Value \<Rightarrow> bool" where
  same: "alike v v"
| array: "list_all2 alike vs ws \<Longrightarrow> alike (Array vs) (Array ws)"
| object: "list_all2 (\<lambda>e d. fst e = fst d \<and> (alike (snd e) (snd d) \<or>
      fst e = COUNTER \<and> (\<exists>c c'. snd e = Object c \<and> snd d = Object c' \<and>
        list_all2 (\<lambda>x y. fst x = fst y \<and> (fst x \<in> {PACKETS, BYTES} \<or> alike (snd x) (snd y))) c c'))) m m' \<Longrightarrow>
    alike (Object m) (Object m')"

lemma map_of_strip: "map_of (map (\<lambda>e. (fst e, f (snd (strip_entry e)))) m) k =
    map_option (\<lambda>v. f (if k = COUNTER then strip_counter v else v)) (map_of m k)"
  by (induction m) (auto simp: strip_entry_def)

lemma map_of_filter_keys: "map_of (filter (\<lambda>e. P (fst e)) m) k = (if P k then map_of m k else None)"
  by (induction m) auto

lemma normalize_scalar: "scalar v \<Longrightarrow> normalize_counter_values v = v"
  by (cases v) (auto simp: scalar_def)

lemma json_at_normalize_Key:
  "json_at (Key k # p) (normalize_counter_values v) =
     (case v of Object m \<Rightarrow> (case map_of m k of
        Some u \<Rightarrow> json_at p (normalize_counter_values (if k = COUNTER then strip_counter u else u))
      | None \<Rightarrow> None)
    | _ \<Rightarrow> None)"
  by (cases v) (auto simp: map_of_strip split: option.splits)

lemma json_at_strip:
  assumes "scalar s"
  shows "json_at p (strip_counter v) = Some s \<longleftrightarrow>
    json_at p v = Some s \<and> \<not> (\<exists>k q. p = Key k # q \<and> k \<in> {PACKETS, BYTES})"
proof (cases v)
  case (Object m)
  show ?thesis
  proof (cases p)
    case Nil
    then show ?thesis using assms Object by (auto simp: strip_counter_def scalar_def)
  next
    case (Cons x q)
    then show ?thesis
      using Object map_of_filter_keys [of "\<lambda>k. k \<noteq> PACKETS \<and> k \<noteq> BYTES" m]
      by (cases x) (auto simp: strip_counter_def split: option.splits)
  qed
qed (auto simp: strip_counter_def elim: json_at.elims)

lemma json_at_normalize:
  assumes "scalar s"
  shows "json_at p (normalize_counter_values v) = Some s \<longleftrightarrow> json_at p v = Some s \<and> \<not> count_path p"
proof (induction p arbitrary: v)
  case Nil
  then show ?case
    using assms by (cases v) (auto simp: scalar_def)
next
  case (Cons x p)
  show ?case
  proof (cases x)
    case (Key k)
    show ?thesis
    proof (cases v)
      case (Object m)
      have cp: "count_path (Key k # p) \<longleftrightarrow>
          k = COUNTER \<and> (\<exists>b q. p = Key b # q \<and> b \<in> {PACKETS, BYTES}) \<or> count_path p"
        by (cases p) auto
      show ?thesis
        unfolding Key json_at_normalize_Key cp
        using Object Cons.IH json_at_strip [OF assms, of p]
        by (cases "map_of m k") auto
    qed (simp_all add: Key)
  next
    case (Index i)
    then show ?thesis using Cons.IH by (cases v) auto
  qed
qed

lemma map_filter_eq:
  "list_all2 P xs ys \<Longrightarrow> (\<And>x y. P x y \<Longrightarrow> Q x = Q y \<and> (Q x \<longrightarrow> f x = f y)) \<Longrightarrow>
    map f (filter Q xs) = map f (filter Q ys)"
  by (induction rule: list_all2_induct) auto

text \<open>Normalization does not distinguish such values, neither as counters nor elsewhere.\<close>

lemma normalize_alike:
  "alike v w \<Longrightarrow> normalize_counter_values v = normalize_counter_values w \<and>
    normalize_counter_values (strip_counter v) = normalize_counter_values (strip_counter w)"
proof (induction rule: alike.induct)
  case (array vs ws)
  then show ?case by (auto simp: strip_counter_def list_all2_conv_all_nth intro: nth_equalityI)
next
  case (object m m')
  define h where "h e = (fst e, normalize_counter_values (snd (strip_entry e)))" for e
  define keep where "keep e \<longleftrightarrow> fst e \<noteq> PACKETS \<and> fst e \<noteq> BYTES" for e :: "bytes \<times> Value"
  let ?P = "\<lambda>e d. keep e = keep d \<and> (keep e \<longrightarrow> h e = h d)"
  have entry: "h e = h d" if "fst e = fst d" "normalize_counter_values (snd e) = normalize_counter_values (snd d) \<and>
      normalize_counter_values (strip_counter (snd e)) = normalize_counter_values (strip_counter (snd d))" for e d
    using that by (simp add: h_def strip_entry_def)
  have keep: "keep e = keep d" if "fst e = fst d" for e d using that by (simp add: keep_def)
  have counters: "h e = h d" if "fst e = fst d" "snd e = Object c" "snd d = Object c'" "fst e = COUNTER"
      "map h (filter keep c) = map h (filter keep c')" for e d c c'
    using that by (simp add: h_def [abs_def] strip_entry_def strip_counter_def keep_def [abs_def])
  have "list_all2 (\<lambda>e d. keep e = keep d \<and> h e = h d) m m'"
    using object
  proof (rule list_all2_mono, elim conjE disjE exE, goal_cases)
    case (1 e d)
    then show ?case using entry [of e d] keep [of e d] by blast
  next
    case (2 e d c c')
    have "list_all2 ?P c c'"
      using 2(6)
    proof (rule list_all2_mono, goal_cases)
      case (1 x y)
      moreover have "keep x \<Longrightarrow> fst x \<notin> {PACKETS, BYTES}" by (simp add: keep_def)
      ultimately show ?case using entry [of x y] keep [of x y] by blast
    qed
    then have "map h (filter keep c) = map h (filter keep c')"
      by (rule map_filter_eq [where Q = keep and f = h])
    with 2(2-5) counters [of e d c c'] keep [of e d] show ?case by blast
  qed
  then have "map h m = map h m' \<and> map h (filter keep m) = map h (filter keep m')"
    using map_filter_eq [where Q = "\<lambda>_. True" and f = h and xs = m and ys = m']
      map_filter_eq [where Q = keep and f = h and xs = m and ys = m'] by auto
  then show ?case by (simp add: strip_counter_def h_def [abs_def] keep_def [abs_def])
qed simp

text \<open>The listing of a table: an object with the array of its parts, and what of it the fingerprint keeps.\<close>

abbreviation table_listing :: "Value list \<Rightarrow> Value" where
  "table_listing objects \<equiv> Object [(str ''nftables'', Array objects)]"

definition parts :: "Value list \<Rightarrow> Value list" where
  "parts objects = filter (\<lambda>object. json_get object (str ''metainfo'') = None) objects"

lemma fingerprint_listing:
  "normalize_fingerprint (table_listing objects) =
     table_listing (map normalize_counter_values (parts objects))"
  by (simp add: normalize_fingerprint_def parts_def strip_entry_def)

text \<open>
  C30. The fingerprint of a table listing holds exactly the scalar values of its parts that are not packet
  or byte counts of a counter, at their places; two listings whose parts differ only in such counts have
  the same fingerprint. The tool's preamble is not part of it.
\<close>

theorem fingerprint_exact:
  assumes "scalar s"
  shows "(json_at (Key (str ''nftables'') # Index i # p) (normalize_fingerprint (table_listing objects)) = Some s \<longleftrightarrow>
      i < length (parts objects) \<and> json_at p (parts objects ! i) = Some s \<and> \<not> count_path p) \<and>
    (list_all2 alike (parts objects) (parts objects') \<longrightarrow>
      normalize_fingerprint (table_listing objects) = normalize_fingerprint (table_listing objects'))"
proof (intro conjI impI)
  show "json_at (Key (str ''nftables'') # Index i # p) (normalize_fingerprint (table_listing objects)) = Some s \<longleftrightarrow>
      i < length (parts objects) \<and> json_at p (parts objects ! i) = Some s \<and> \<not> count_path p"
    using json_at_normalize [OF assms] by (auto simp: fingerprint_listing)
next
  assume "list_all2 alike (parts objects) (parts objects')"
  then have "map normalize_counter_values (parts objects) = map normalize_counter_values (parts objects')"
    by (auto simp: list_all2_conv_all_nth normalize_alike intro: nth_equalityI)
  then show "normalize_fingerprint (table_listing objects) = normalize_fingerprint (table_listing objects')"
    by (simp add: fingerprint_listing)
qed

text \<open>A rule with a counter that has counted, behind the tool's preamble.\<close>

abbreviation counted_rule :: "bytes \<Rightarrow> Value" where
  "counted_rule n \<equiv> Object [(str ''rule'', Object [(COUNTER, Object [(BYTES, Number n), (PACKETS, Number n)]),
     (str ''handle'', Number [52])])]"

abbreviation preamble :: Value where
  "preamble \<equiv> Object [(str ''metainfo'', Object [])]"

theorem fingerprint_exact_witness:
  "scalar (Number [52]) \<and>
    json_at [Key (str ''nftables''), Index 0, Key (str ''rule''), Key (str ''handle'')]
      (normalize_fingerprint (table_listing [preamble, counted_rule [49]])) = Some (Number [52]) \<and>
    normalize_fingerprint (table_listing [preamble, counted_rule [49]]) =
      normalize_fingerprint (table_listing [counted_rule [48]])"
proof -
  have s: "scalar (Number [52])" by (simp add: scalar_def)
  have parts: "parts [preamble, counted_rule n] = [counted_rule n]" "parts [counted_rule n] = [counted_rule n]" for n
    by (simp_all add: parts_def json_get_def)
  have "alike (counted_rule [49]) (counted_rule [48])"
    by (rule alike.object) (simp add: alike.object alike.same)
  then have alike: "list_all2 alike [counted_rule [49]] [counted_rule [48]]" by simp
  note f = fingerprint_exact [OF s, where i = 0 and objects = "[preamble, counted_rule [49]]"
      and p = "[Key (str ''rule''), Key (str ''handle'')]" and objects' = "[counted_rule [48]]", unfolded parts]
  show ?thesis
    using s f [THEN conjunct1, THEN iffD2] f [THEN conjunct2, THEN mp, OF alike] by (intro conjI) simp_all
qed

section \<open>The rendered ruleset\<close>

text \<open>The pieces of a text between quotation marks, and its lines.\<close>

fun fields :: "u8 \<Rightarrow> bytes \<Rightarrow> bytes list" where
  "fields c [] = [[]]"
| "fields c (b # bs) = (if b = c then [] # fields c bs else (case fields c bs of x # xs \<Rightarrow> (b # x) # xs | [] \<Rightarrow> [[b]]))"

lemma fields_not_Nil [simp]: "fields c bs \<noteq> []"
  by (cases bs) (auto split: list.splits)

lemma fields_plain: "c \<notin> set x \<Longrightarrow> fields c x = [x]"
  by (induction x) auto

lemma fields_sep: "c \<notin> set x \<Longrightarrow> fields c (x @ c # bs) = x # fields c bs"
  by (induction x) auto

text \<open>No accepted interface name holds a quotation mark or a line feed.\<close>

lemma interface_name_plain:
  "validate_nft_interface_name x = Ok () \<Longrightarrow> 34 \<notin> set x \<and> 10 \<notin> set x"
  by (auto simp: validate_nft_interface_name_def is_ascii_alphanumeric_def list_all_iff split: if_splits)

lemma validated_names_plain:
  assumes "validate_server tun routing = Ok ()" and "build_nat_spec M tun routing = Ok (Some spec)"
  shows "nat_tun_interface spec = tun_name tun" "nat_egress_interface routing = Some (nat_egress spec)"
    "34 \<notin> set (nat_tun_interface spec) \<and> 10 \<notin> set (nat_tun_interface spec)"
    "34 \<notin> set (nat_egress spec) \<and> 10 \<notin> set (nat_egress spec)"
proof -
  have nat: "enable_nat routing" using assms(2) by (auto simp: build_nat_spec_def split: if_splits)
  show names: "nat_tun_interface spec = tun_name tun" "nat_egress_interface routing = Some (nat_egress spec)"
    using assms(2) nat by (auto simp: build_nat_spec_def and_then_Ok ok_or_def split: IpAddr.splits option.splits)
  have "validate_nft_interface_name (tun_name tun) = Ok ()" "validate_nft_interface_name (nat_egress spec) = Ok ()"
    using assms(1) nat names(2)
    by (auto simp: validate_server_def and_then_Ok map_sum_Ok ok_or_def)
  then show "34 \<notin> set (nat_tun_interface spec) \<and> 10 \<notin> set (nat_tun_interface spec)"
    "34 \<notin> set (nat_egress spec) \<and> 10 \<notin> set (nat_egress spec)"
    using interface_name_plain names(1) by auto
qed

lemma validated_spec_plain:
  assumes "validate_server tun routing = Ok ()" and "build_nat_spec M tun routing = Ok (Some spec)"
  shows "plain_spec spec"
proof -
  have name: "validate_nft_interface_name x = Ok () \<Longrightarrow> plain_name x" for x
    by (auto simp: validate_nft_interface_name_def is_ascii_alphanumeric_def plain_name_def list_all_iff split: if_splits)
  have "enable_nat routing" using assms(2) by (auto simp: build_nat_spec_def split: if_splits)
  then have "validate_nft_interface_name (tun_name tun) = Ok ()" "validate_nft_interface_name (nat_egress spec) = Ok ()"
    using assms(1) validated_names_plain(2) [OF assms] by (auto simp: validate_server_def and_then_Ok map_sum_Ok ok_or_def)
  then show ?thesis using name validated_names_plain(1) [OF assms] by (simp add: plain_spec_def)
qed

definition ruleset_head :: bytes where
  "ruleset_head = str ''add table ip crabnet_nat'' @ [10] @
     str ''add chain ip crabnet_nat postrouting { type nat hook postrouting priority srcnat; }'' @ [10] @
     str ''add rule ip crabnet_nat postrouting iifname ''"

text \<open>
  C29. The ruleset of a validated configuration consists of three lines, the last of them closed, whatever
  the interfaces are called; its quoted fields are the configured TUN interface and the configured egress
  interface, and nothing else is quoted: no configured name adds a statement or leaves its field.
\<close>

theorem ruleset_not_injectable:
  assumes "validate_server tun routing = Ok ()" and "build_nat_spec M tun routing = Ok (Some spec)"
    and "\<And>n. 34 \<notin> set (v4_to_string M n) \<and> 10 \<notin> set (v4_to_string M n)"
  shows "fields 34 (render_ruleset M spec) =
      [ruleset_head, tun_name tun, str '' oifname '', nat_egress spec,
       str '' ip saddr '' @ v4_to_string M (nat_source_network spec) @ str '' counter masquerade'' @ [10]] \<and>
    nat_egress_interface routing = Some (nat_egress spec) \<and>
    length (fields 10 (render_ruleset M spec)) = 4 \<and> last (fields 10 (render_ruleset M spec)) = []"
proof -
  note names = validated_names_plain [OF assms(1,2)]
  let ?net = "v4_to_string M (nat_source_network spec)"
  let ?rule = "str ''add rule ip crabnet_nat postrouting iifname '' @ 34 # nat_tun_interface spec @
    34 # str '' oifname '' @ 34 # nat_egress spec @ 34 # str '' ip saddr '' @ ?net @ str '' counter masquerade''"
  have quoted: "render_ruleset M spec = ruleset_head @ 34 # nat_tun_interface spec @ 34 # str '' oifname '' @
      34 # nat_egress spec @ 34 # str '' ip saddr '' @ ?net @ str '' counter masquerade'' @ [10]"
    by (simp add: render_ruleset_def ruleset_head_def Let_def str_def
        NFT_TABLE_FAMILY_def NFT_TABLE_NAME_def NFT_POSTROUTING_CHAIN_def)
  have lines: "render_ruleset M spec = str ''add table ip crabnet_nat'' @ 10 #
      str ''add chain ip crabnet_nat postrouting { type nat hook postrouting priority srcnat; }'' @ 10 # ?rule @ [10]"
    by (simp add: quoted ruleset_head_def)
  have plain: "34 \<notin> set ruleset_head" "34 \<notin> set (str '' oifname '')"
      "34 \<notin> set (str '' ip saddr '' @ ?net @ str '' counter masquerade'' @ [10])"
    using assms(3) by (auto simp: ruleset_head_def str_def)
  have "10 \<notin> set ?rule" using names assms(3) by (auto simp: str_def)
  moreover have "10 \<notin> set (str ''add table ip crabnet_nat'')"
    "10 \<notin> set (str ''add chain ip crabnet_nat postrouting { type nat hook postrouting priority srcnat; }'')"
    by (simp_all add: str_def)
  ultimately have "fields 10 (render_ruleset M spec) = [str ''add table ip crabnet_nat'',
      str ''add chain ip crabnet_nat postrouting { type nat hook postrouting priority srcnat; }'', ?rule, []]"
    unfolding lines by (simp only: fields_sep fields.simps not_False_eq_True)
  moreover have "fields 34 (render_ruleset M spec) = [ruleset_head, nat_tun_interface spec, str '' oifname '',
      nat_egress spec, str '' ip saddr '' @ ?net @ str '' counter masquerade'' @ [10]]"
    unfolding quoted using names(3,4) plain by (simp only: fields_sep fields_plain not_False_eq_True simp_thms)
  ultimately show ?thesis using names by simp
qed

definition example_nets :: "unit Ipv4NetLib" where
  "example_nets = \<lparr>v4_new = (\<lambda>_ _. Some ()), v4_trunc = id, v4_to_string = (\<lambda>_. str ''10.0.0.0/24'')\<rparr>"

definition nat_routing :: "unit RoutingConfig" where
  "nat_routing = routing_default\<lparr>enable_forwarding := True, enable_nat := True, nat_egress_interface := Some (str ''eth0'')\<rparr>"

theorem ruleset_not_injectable_witness:
  "validate_server (cfg_tun (config_default :: unit Config)) nat_routing = Ok () \<and>
   (let spec = \<lparr>nat_source_network = (), nat_tun_interface = str ''crabnet0'', nat_egress = str ''eth0''\<rparr> in
    build_nat_spec example_nets (cfg_tun (config_default :: unit Config)) nat_routing = Ok (Some spec) \<and>
    fields 34 (render_ruleset example_nets spec) = [ruleset_head, str ''crabnet0'', str '' oifname '', str ''eth0'',
      str '' ip saddr 10.0.0.0/24 counter masquerade'' @ [10]] \<and>
    length (fields 10 (render_ruleset example_nets spec)) = 4)"
proof -
  let ?tun = "cfg_tun (config_default :: unit Config)"
  let ?spec = "\<lparr>nat_source_network = (), nat_tun_interface = str ''crabnet0'', nat_egress = str ''eth0''\<rparr>"
  have "validate_server ?tun nat_routing = Ok ()"
    by (simp add: validate_server_def config_default_def nat_routing_def routing_default_def ensure_def is_ipv4_def
        validate_nft_interface_name_def is_ascii_alphanumeric_def str_def)
  moreover have "build_nat_spec example_nets ?tun nat_routing = Ok (Some ?spec)"
    by (simp add: build_nat_spec_def config_default_def nat_routing_def routing_default_def example_nets_def str_def)
  moreover have "34 \<notin> set (v4_to_string example_nets n) \<and> 10 \<notin> set (v4_to_string example_nets n)" for n
    by (simp add: example_nets_def str_def)
  ultimately show ?thesis
    using ruleset_not_injectable [of ?tun nat_routing example_nets ?spec]
    by (simp add: Let_def config_default_def example_nets_def str_def)
qed

end
