(* ===== verification/Firewall.thy ===== *)
theory Firewall
  imports Nat_Manager "HOL-Library.List_Lexorder" "HOL-Library.Product_Lexorder" "HOL-Library.Multiset"
begin

text \<open>
  Firewall diagnostics (\<open>src/firewall/diagnostics.rs\<close>, \<open>src/firewall/linux.rs\<close>): inspection of nftables
  chain declarations under a time limit, selection and ordering of the base chains on the IPv4
  forwarding path, their assessment, and the log lines of the report. Parameters: the JSON parser at the
  listing's type, \<open>str::to_lowercase\<close> (Unicode), the command runner, and whether the timer of
  \<open>tokio::time::timeout\<close> fires first. The orders are the derived ones: by the position of the variant, then
  its fields; structs field by field; strings by bytes.
\<close>

section \<open>Data\<close>

record 'm FirewallDiagnosticContext =
  fdc_source_network :: 'm
  fdc_input_interface :: bytes
  fdc_output_interfaces :: "bytes list"

datatype FirewallFamily = Ip | Inet

datatype BaseChainPolicy = Accept | ImplicitAccept | Drop | Unknown bytes

record ForwardBaseChain =
  fbc_family :: FirewallFamily
  fbc_table :: bytes
  fbc_chain :: bytes
  fbc_policy :: BaseChainPolicy

datatype FirewallAssessment =
  NoForwardHookObserved | NoDefaultDropObserved | DefaultDropObserved | Inconclusive

datatype FirewallCaveat =
  RulesNotEvaluated | LegacyIptablesNotInspected | OtherFilteringSystemsNotInspected | OutputInterfaceIncomplete

record FirewallDiagnosticReport =
  fdr_assessment :: FirewallAssessment
  fdr_forward_chains :: "ForwardBaseChain list"
  fdr_caveats :: "FirewallCaveat list"

record NftChain =
  nc_family :: bytes
  nc_table :: bytes
  nc_name :: bytes
  nc_chain_type :: "bytes option"
  nc_hook :: "bytes option"
  nc_policy :: "bytes option"

text \<open>An object of the listing has a chain or is of another kind.\<close>

type_synonym NftChainListing = "NftChain option list"

datatype FirewallError =
  InspectionFailed CommandError
| InspectionTimedOut
| InvalidChainJson
| Ipv6Forwarding
| InvalidTunAddress

section \<open>The derived orders\<close>

definition family_rank :: "FirewallFamily \<Rightarrow> nat" where
  "family_rank f = (case f of Ip \<Rightarrow> 0 | Inet \<Rightarrow> 1)"

definition policy_rank :: "BaseChainPolicy \<Rightarrow> nat \<times> bytes" where
  "policy_rank p = (case p of Accept \<Rightarrow> (0, []) | ImplicitAccept \<Rightarrow> (1, []) | Drop \<Rightarrow> (2, []) | Unknown s \<Rightarrow> (3, s))"

lemma rank_inject [simp]: "family_rank f = family_rank g \<longleftrightarrow> f = g" "policy_rank p = policy_rank q \<longleftrightarrow> p = q"
  by (auto simp: family_rank_def policy_rank_def split: FirewallFamily.splits BaseChainPolicy.splits)

instantiation FirewallFamily :: linorder
begin

definition less_eq_FirewallFamily :: "FirewallFamily \<Rightarrow> FirewallFamily \<Rightarrow> bool" where
  "less_eq_FirewallFamily f g \<longleftrightarrow> family_rank f \<le> family_rank g"

definition less_FirewallFamily :: "FirewallFamily \<Rightarrow> FirewallFamily \<Rightarrow> bool" where
  "less_FirewallFamily f g \<longleftrightarrow> family_rank f < family_rank g"

instance
  by standard (auto simp: less_eq_FirewallFamily_def less_FirewallFamily_def simp flip: rank_inject)

end

instantiation BaseChainPolicy :: linorder
begin

definition less_eq_BaseChainPolicy :: "BaseChainPolicy \<Rightarrow> BaseChainPolicy \<Rightarrow> bool" where
  "less_eq_BaseChainPolicy p q \<longleftrightarrow> policy_rank p \<le> policy_rank q"

definition less_BaseChainPolicy :: "BaseChainPolicy \<Rightarrow> BaseChainPolicy \<Rightarrow> bool" where
  "less_BaseChainPolicy p q \<longleftrightarrow> policy_rank p < policy_rank q"

instance
proof
  fix p q r :: BaseChainPolicy
  show "p < q \<longleftrightarrow> p \<le> q \<and> \<not> q \<le> p"
    unfolding less_BaseChainPolicy_def less_eq_BaseChainPolicy_def by (rule less_le_not_le)
  show "p \<le> p" unfolding less_eq_BaseChainPolicy_def by (rule order_refl)
  show "p \<le> q \<Longrightarrow> q \<le> r \<Longrightarrow> p \<le> r" unfolding less_eq_BaseChainPolicy_def by (rule order_trans)
  show "p \<le> q \<Longrightarrow> q \<le> p \<Longrightarrow> p = q"
    unfolding less_eq_BaseChainPolicy_def by (drule (1) order_antisym) simp
  show "p \<le> q \<or> q \<le> p" unfolding less_eq_BaseChainPolicy_def by (rule linear)
qed

end

abbreviation chain_key :: "'z ForwardBaseChain_scheme \<Rightarrow> FirewallFamily \<times> bytes \<times> bytes \<times> BaseChainPolicy \<times> 'z" where
  "chain_key c \<equiv> (fbc_family c, fbc_table c, fbc_chain c, fbc_policy c, ForwardBaseChain.more c)"

instantiation ForwardBaseChain_ext :: (linorder) linorder
begin

definition less_eq_ForwardBaseChain_ext :: "'a ForwardBaseChain_scheme \<Rightarrow> 'a ForwardBaseChain_scheme \<Rightarrow> bool" where
  "less_eq_ForwardBaseChain_ext c d \<longleftrightarrow> chain_key c \<le> chain_key d"

definition less_ForwardBaseChain_ext :: "'a ForwardBaseChain_scheme \<Rightarrow> 'a ForwardBaseChain_scheme \<Rightarrow> bool" where
  "less_ForwardBaseChain_ext c d \<longleftrightarrow> chain_key c < chain_key d"

instance
proof
  fix c d e :: "'a ForwardBaseChain_scheme"
  show "c < d \<longleftrightarrow> c \<le> d \<and> \<not> d \<le> c"
    unfolding less_ForwardBaseChain_ext_def less_eq_ForwardBaseChain_ext_def by (rule less_le_not_le)
  show "c \<le> c" unfolding less_eq_ForwardBaseChain_ext_def by (rule order_refl)
  show "c \<le> d \<Longrightarrow> d \<le> e \<Longrightarrow> c \<le> e" unfolding less_eq_ForwardBaseChain_ext_def by (rule order_trans)
  show "c \<le> d \<Longrightarrow> d \<le> c \<Longrightarrow> c = d"
    unfolding less_eq_ForwardBaseChain_ext_def by (drule (1) order_antisym) simp
  show "c \<le> d \<or> d \<le> c" unfolding less_eq_ForwardBaseChain_ext_def by (rule linear)
qed

end

section \<open>The inspector\<close>

type_synonym FirewallCommandResult = CommandResult

definition inspect_chains ::
  "('w \<Rightarrow> bytes \<Rightarrow> bytes list \<Rightarrow> 'w \<times> (FirewallCommandResult, unit) result) \<Rightarrow> 'w \<Rightarrow> 'w \<times> (bytes, CommandError) result" where
  "inspect_chains run w =
     (let (w, r) = run w (str ''nft'') [str ''-j'', str ''list'', str ''chains'']
      in (w, map_sum id cmd_stdout (check_result r)))"

section \<open>Diagnosis\<close>

definition is_ipv4_forward_base_chain :: "NftChain \<Rightarrow> bool" where
  "is_ipv4_forward_base_chain chain \<longleftrightarrow> nc_family chain \<in> {str ''ip'', str ''inet''} \<and>
     nc_hook chain = Some (str ''forward'') \<and> nc_chain_type chain = Some (str ''filter'')"

definition classify_policy :: "(bytes \<Rightarrow> bytes) \<Rightarrow> bytes option \<Rightarrow> BaseChainPolicy" where
  "classify_policy to_lowercase policy = (case policy of
     Some policy_value \<Rightarrow>
       (let lowercase_policy = to_lowercase policy_value in
        if lowercase_policy = str ''accept'' then Accept
        else if lowercase_policy = str ''drop'' then Drop
        else Unknown lowercase_policy)
   | None \<Rightarrow> ImplicitAccept)"

fun collect_chains :: "(bytes \<Rightarrow> bytes) \<Rightarrow> NftChainListing \<Rightarrow> ForwardBaseChain list" where
  "collect_chains lower [] = []"
| "collect_chains lower (None # objects) = collect_chains lower objects"
| "collect_chains lower (Some chain # objects) =
     (if \<not> is_ipv4_forward_base_chain chain then collect_chains lower objects
      else case (if nc_family chain = str ''inet'' then Some Inet
                 else if nc_family chain = str ''ip'' then Some Ip else None) of
        None \<Rightarrow> collect_chains lower objects
      | Some family \<Rightarrow>
          \<lparr>fbc_family = family, fbc_table = nc_table chain, fbc_chain = nc_name chain,
           fbc_policy = classify_policy lower (nc_policy chain)\<rparr> # collect_chains lower objects)"

definition parse_forward_base_chains ::
  "(bytes \<Rightarrow> NftChainListing option) \<Rightarrow> (bytes \<Rightarrow> bytes) \<Rightarrow> bytes \<Rightarrow> (ForwardBaseChain list, FirewallError) result" where
  "parse_forward_base_chains from_str lower json =
     and_then (ok_or (from_str json) InvalidChainJson) (\<lambda>listing. Ok (sort (collect_chains lower listing)))"

definition is_unknown :: "BaseChainPolicy \<Rightarrow> bool" where
  "is_unknown p = (case p of Unknown _ \<Rightarrow> True | _ \<Rightarrow> False)"

definition assess_forward_chains :: "ForwardBaseChain list \<Rightarrow> FirewallAssessment" where
  "assess_forward_chains base_chains =
     (if base_chains = [] then NoForwardHookObserved
      else if list_ex (\<lambda>chain. is_unknown (fbc_policy chain)) base_chains then Inconclusive
      else if list_ex (\<lambda>chain. fbc_policy chain = Drop) base_chains then DefaultDropObserved
      else NoDefaultDropObserved)"

text \<open>\<open>elapsed w\<close>: the time limit passes before the inspection started in \<open>w\<close> has finished.\<close>

definition diagnose ::
  "('w \<Rightarrow> 'w \<times> (bytes, CommandError) result) \<Rightarrow> ('w \<Rightarrow> bool) \<Rightarrow> (bytes \<Rightarrow> NftChainListing option) \<Rightarrow> (bytes \<Rightarrow> bytes)
   \<Rightarrow> 'w \<Rightarrow> 'm FirewallDiagnosticContext \<Rightarrow> 'w \<times> (FirewallDiagnosticReport, FirewallError) result" where
  "diagnose inspect elapsed from_str lower w context' =
     (let (w', r) = inspect w in
      (w', if elapsed w then Err InspectionTimedOut
       else and_then (map_sum InspectionFailed id r) (\<lambda>raw_chains.
         and_then (parse_forward_base_chains from_str lower raw_chains) (\<lambda>base_chains.
         Ok \<lparr>fdr_assessment = assess_forward_chains base_chains, fdr_forward_chains = base_chains,
             fdr_caveats = [RulesNotEvaluated, LegacyIptablesNotInspected, OtherFilteringSystemsNotInspected] @
               (if fdc_output_interfaces context' = [] then [OutputInterfaceIncomplete] else [])\<rparr>))))"

text \<open>A \<open>BTreeSet\<close> of strings, read out in order.\<close>

definition btree_insert :: "bytes list \<Rightarrow> bytes option \<Rightarrow> bytes list" where
  "btree_insert xs interface = (case interface of Some i \<Rightarrow> (if i \<in> set xs then xs else insort i xs) | None \<Rightarrow> xs)"

definition build_diagnostic_context ::
  "'m Ipv4NetLib \<Rightarrow> TunConfig \<Rightarrow> 'n RoutingConfig \<Rightarrow> ('m FirewallDiagnosticContext option, FirewallError) result" where
  "build_diagnostic_context M tun routing =
     (if \<not> enable_forwarding routing then Ok None
      else case tun_address tun of
        V6 _ \<Rightarrow> Err Ipv6Forwarding
      | V4 address \<Rightarrow>
          and_then (ok_or (v4_new M address (tun_prefix_len tun)) InvalidTunAddress) (\<lambda>network.
          Ok (Some \<lparr>fdc_source_network = v4_trunc M network, fdc_input_interface = tun_name tun,
            fdc_output_interfaces = foldl btree_insert (btree_insert [] (nat_egress_interface routing))
              (map st_interface (server_routes routing))\<rparr>)))"

section \<open>The report in the log\<close>

datatype LogLine =
  NoForwardHookLine
| NoDefaultDropLine
| DefaultDropLine
| InconclusiveLine
| ChainLine ForwardBaseChain
| PathLine
| CaveatLine FirewallCaveat

definition caveat_line :: "FirewallCaveat \<Rightarrow> LogLevel \<times> LogLine" where
  "caveat_line caveat = (case caveat of OutputInterfaceIncomplete \<Rightarrow> Warn | _ \<Rightarrow> Debug, CaveatLine caveat)"

definition log_firewall_report :: "FirewallDiagnosticReport \<Rightarrow> (LogLevel \<times> LogLine) list" where
  "log_firewall_report report =
     (let lines = map (\<lambda>chain. (Debug, ChainLine chain)) (fdr_forward_chains report) in
      case fdr_assessment report of
        NoForwardHookObserved \<Rightarrow> [(Info, NoForwardHookLine)]
      | NoDefaultDropObserved \<Rightarrow> [(Info, NoDefaultDropLine)]
      | DefaultDropObserved \<Rightarrow> (Warn, DefaultDropLine) # lines @ [(Warn, PathLine)]
      | Inconclusive \<Rightarrow> (Warn, InconclusiveLine) # lines) @
     map caveat_line (fdr_caveats report)"

section \<open>What the diagnosis shows\<close>

lemma btree_insert_props:
  assumes "sorted xs" and "distinct xs"
  shows "sorted (btree_insert xs i) \<and> distinct (btree_insert xs i) \<and> set (btree_insert xs i) = set xs \<union> set_option i"
  using assms by (auto simp: btree_insert_def sorted_insort distinct_insort set_insort_key split: option.splits)

lemma btree_fold_props:
  assumes "sorted xs" and "distinct xs"
  shows "sorted (foldl btree_insert xs is) \<and> distinct (foldl btree_insert xs is) \<and>
    set (foldl btree_insert xs is) = set xs \<union> (\<Union>i \<in> set is. set_option i)"
  using assms
proof (induction "is" arbitrary: xs)
  case (Cons i "is")
  then show ?case using btree_insert_props [OF Cons.prems, of i] Cons.IH [of "btree_insert xs i"] by auto
qed simp

text \<open>The output interfaces of the context: those of NAT and of the routes, each once, in order.\<close>

lemma context_interfaces:
  assumes "build_diagnostic_context M tun routing = Ok (Some c)"
  shows "sorted (fdc_output_interfaces c) \<and> distinct (fdc_output_interfaces c) \<and>
    set (fdc_output_interfaces c) = set_option (nat_egress_interface routing) \<union>
      (\<Union>route \<in> set (server_routes routing). set_option (st_interface route))"
proof -
  have "fdc_output_interfaces c = foldl btree_insert (btree_insert [] (nat_egress_interface routing))
      (map st_interface (server_routes routing))"
    using assms by (auto simp: build_diagnostic_context_def and_then_Ok split: if_splits IpAddr.splits)
  then show ?thesis
    using btree_fold_props [of "btree_insert [] (nat_egress_interface routing)"]
      btree_insert_props [of "[]" "nat_egress_interface routing"] by simp
qed

text \<open>
  What the report should say, apart from the code that computes it: the chains a listing declares with
  the type \<open>filter\<close> on the hook \<open>forward\<close> in a family that carries IPv4, and the description of one chain.
\<close>

definition forward_chains :: "NftChainListing \<Rightarrow> NftChain list" where
  "forward_chains objects = [c. Some c \<leftarrow> objects,
     (nc_family c = str ''ip'' \<or> nc_family c = str ''inet'') \<and>
     nc_chain_type c = Some (str ''filter'') \<and> nc_hook c = Some (str ''forward'')]"

definition declared_policy :: "(bytes \<Rightarrow> bytes) \<Rightarrow> NftChain \<Rightarrow> bytes option" where
  "declared_policy lower c = map_option lower (nc_policy c)"

definition described :: "(bytes \<Rightarrow> bytes) \<Rightarrow> NftChain \<Rightarrow> ForwardBaseChain" where
  "described lower c = \<lparr>fbc_family = (if nc_family c = str ''ip'' then Ip else Inet), fbc_table = nc_table c,
     fbc_chain = nc_name c,
     fbc_policy =
       (if declared_policy lower c = None then ImplicitAccept
        else if declared_policy lower c = Some (str ''accept'') then Accept
        else if declared_policy lower c = Some (str ''drop'') then Drop
        else Unknown (the (declared_policy lower c)))\<rparr>"

lemma classify_policy_cases:
  "classify_policy lower policy = (case map_option lower policy of
     None \<Rightarrow> ImplicitAccept
   | Some text \<Rightarrow> if text = str ''accept'' then Accept else if text = str ''drop'' then Drop else Unknown text)"
  by (simp add: classify_policy_def Let_def split: option.splits)

lemma family_names [simp]: "str ''ip'' \<noteq> str ''inet''" "str ''inet'' \<noteq> str ''ip''"
  by (simp_all add: str_def)

lemma collect_chains_eq: "collect_chains lower objects = map (described lower) (forward_chains objects)"
  by (induction lower objects rule: collect_chains.induct)
    (auto simp: forward_chains_def described_def declared_policy_def is_ipv4_forward_base_chain_def
      classify_policy_cases split: option.splits)

text \<open>The policies a report shows, in terms of the declared ones.\<close>

lemma described_policy:
  "fbc_policy (described lower c) = Drop \<longleftrightarrow> declared_policy lower c = Some (str ''drop'')"
  "(\<exists>p. Unknown p = fbc_policy (described lower c)) \<longleftrightarrow>
     declared_policy lower c \<notin> {None, Some (str ''accept''), Some (str ''drop'')}"
  by (auto simp: described_def str_def)

lemma assess_policies:
  "assess_forward_chains cs =
     (let policies = fbc_policy ` set cs in
      if policies = {} then NoForwardHookObserved
      else if \<exists>p. Unknown p \<in> policies then Inconclusive
      else if Drop \<in> policies then DefaultDropObserved
      else NoDefaultDropObserved)"
proof -
  have "is_unknown p \<longleftrightarrow> (\<exists>s. Unknown s = p)" for p by (cases p) (auto simp: is_unknown_def)
  then have "list_ex (\<lambda>c. is_unknown (fbc_policy c)) cs \<longleftrightarrow> (\<exists>p. Unknown p \<in> fbc_policy ` set cs)"
    by (auto simp: list_ex_iff image_iff)
  moreover have "list_ex (\<lambda>c. fbc_policy c = Drop) cs \<longleftrightarrow> Drop \<in> fbc_policy ` set cs"
    by (metis (mono_tags, lifting) list_ex_iff image_iff)
  ultimately show ?thesis by (simp add: assess_forward_chains_def Let_def)
qed

text \<open>Lower-casing of ASCII text, the documented behaviour the classification relies on.\<close>

definition ascii_lowercase :: "(bytes \<Rightarrow> bytes) \<Rightarrow> bool" where
  "ascii_lowercase lower \<longleftrightarrow> (\<forall>s. (\<forall>b \<in> set s. b < 128) \<longrightarrow>
     lower s = map (\<lambda>b. if 65 \<le> b \<and> b \<le> 90 then b + 32 else b) s)"

lemma classify_policy_accept_drop:
  assumes "ascii_lowercase lower"
  shows "classify_policy lower (Some (str ''accept'')) = Accept" "classify_policy lower (Some (str ''drop'')) = Drop"
    "classify_policy lower None = ImplicitAccept"
  using assms by (auto simp: classify_policy_def ascii_lowercase_def str_def)

text \<open>
  C31. A completed inspection of a well-formed listing yields the declared chains of type filter on the
  hook forward in the families ip and inet, each once and in order, whatever the order of the listing,
  with the family, the names and the policy they are declared with. The assessment is: no hook exactly
  when there is no such chain; otherwise inconclusive exactly when some chain declares a policy other
  than accept and drop; otherwise default drop exactly when some chain declares drop. A warning is
  logged exactly when the assessment is default drop or inconclusive, or no output interface is known.
\<close>

theorem firewall_diagnosis_exact:
  assumes "inspect w = (w', Ok json)" and "\<not> elapsed w" and "from_str json = Some listing"
  shows "\<exists>report. diagnose inspect elapsed from_str lower w context' = (w', Ok report) \<and>
    sorted (fdr_forward_chains report) \<and>
    mset (fdr_forward_chains report) = image_mset (described lower) (mset (forward_chains listing)) \<and>
    (let policies = declared_policy lower ` set (forward_chains listing) in
     fdr_assessment report =
       (if forward_chains listing = [] then NoForwardHookObserved
        else if \<not> policies \<subseteq> {None, Some (str ''accept''), Some (str ''drop'')} then Inconclusive
        else if Some (str ''drop'') \<in> policies then DefaultDropObserved
        else NoDefaultDropObserved)) \<and>
    ((\<exists>line. (Warn, line) \<in> set (log_firewall_report report)) \<longleftrightarrow>
       fdr_assessment report \<in> {DefaultDropObserved, Inconclusive} \<or> fdc_output_interfaces context' = [])"
proof -
  let ?chains = "sort (map (described lower) (forward_chains listing))"
  define report where "report = \<lparr>fdr_assessment = assess_forward_chains ?chains, fdr_forward_chains = ?chains,
    fdr_caveats = [RulesNotEvaluated, LegacyIptablesNotInspected, OtherFilteringSystemsNotInspected] @
      (if fdc_output_interfaces context' = [] then [OutputInterfaceIncomplete] else [])\<rparr>"
  have r: "diagnose inspect elapsed from_str lower w context' = (w', Ok report)"
      "fdr_forward_chains report = ?chains" "fdr_assessment report = assess_forward_chains ?chains"
      "fdr_caveats report = [RulesNotEvaluated, LegacyIptablesNotInspected, OtherFilteringSystemsNotInspected] @
        (if fdc_output_interfaces context' = [] then [OutputInterfaceIncomplete] else [])"
    using assms by (simp_all add: diagnose_def parse_forward_base_chains_def collect_chains_eq report_def)
  have image: "fbc_policy ` set ?chains = (\<lambda>c. fbc_policy (described lower c)) ` set (forward_chains listing)"
    by (simp add: image_image)
  have "Drop \<in> fbc_policy ` set ?chains \<longleftrightarrow> Some (str ''drop'') \<in> declared_policy lower ` set (forward_chains listing)"
    unfolding image image_iff by (simp only: described_policy(1) eq_commute [of Drop] eq_commute [of "Some _"])
  moreover have "(\<exists>p. Unknown p \<in> fbc_policy ` set ?chains) \<longleftrightarrow> \<not> declared_policy lower ` set (forward_chains listing)
      \<subseteq> {None, Some (str ''accept''), Some (str ''drop'')}"
    unfolding image image_iff image_subset_iff using described_policy(2) [of lower] by blast
  ultimately have assess: "assess_forward_chains ?chains =
      (let policies = declared_policy lower ` set (forward_chains listing) in
       if forward_chains listing = [] then NoForwardHookObserved
       else if \<not> policies \<subseteq> {None, Some (str ''accept''), Some (str ''drop'')} then Inconclusive
       else if Some (str ''drop'') \<in> policies then DefaultDropObserved
       else NoDefaultDropObserved)"
    unfolding assess_policies Let_def by (simp only: image image_is_empty set_empty)
  have warn: "(\<exists>line. (Warn, line) \<in> set (log_firewall_report report)) \<longleftrightarrow>
      fdr_assessment report \<in> {DefaultDropObserved, Inconclusive} \<or> fdc_output_interfaces context' = []"
    using r(4) by (cases "fdr_assessment report") (auto simp: log_firewall_report_def caveat_line_def)
  show ?thesis
    using r assess warn by (intro exI [of _ report]) simp
qed

text \<open>A listing with a dropping chain of the family \<open>inet\<close> before an accepting one of the family \<open>ip\<close>.\<close>

abbreviation forward_chain :: "string \<Rightarrow> string \<Rightarrow> NftChain option" where
  "forward_chain family policy \<equiv> Some \<lparr>nc_family = str family, nc_table = str ''filter'', nc_name = str ''forward'',
     nc_chain_type = Some (str ''filter''), nc_hook = Some (str ''forward''), nc_policy = Some (str policy)\<rparr>"

theorem firewall_diagnosis_exact_witness:
  "\<exists>report. diagnose (\<lambda>w :: unit. (w, Ok [])) (\<lambda>_. False)
      (\<lambda>_. Some [None, forward_chain ''inet'' ''drop'', forward_chain ''ip'' ''accept'']) id ()
      \<lparr>fdc_source_network = (), fdc_input_interface = str ''crabnet0'', fdc_output_interfaces = []\<rparr> = ((), Ok report) \<and>
    sorted (fdr_forward_chains report) \<and> fdr_assessment report = DefaultDropObserved \<and>
    (\<exists>line. (Warn, line) \<in> set (log_firewall_report report))"
proof -
  have "forward_chains [None, forward_chain ''inet'' ''drop'', forward_chain ''ip'' ''accept''] =
      map the [forward_chain ''inet'' ''drop'', forward_chain ''ip'' ''accept'']"
    by (simp add: forward_chains_def)
  then show ?thesis
    using firewall_diagnosis_exact [of "\<lambda>w :: unit. (w, Ok [])" "()" "()" "[]" "\<lambda>_. False"
        "\<lambda>_. Some [None, forward_chain ''inet'' ''drop'', forward_chain ''ip'' ''accept'']"
        "[None, forward_chain ''inet'' ''drop'', forward_chain ''ip'' ''accept'']" id
        "\<lparr>fdc_source_network = (), fdc_input_interface = str ''crabnet0'', fdc_output_interfaces = []\<rparr>"]
    by (auto simp: declared_policy_def Let_def)
qed

end
