(* ===== verification/Application.thy ===== *)
theory Application
  imports Noise_Runtime Legacy_Runtime Nat_Linux Firewall
begin

text \<open>
  The application (\<open>src/application.rs\<close>, \<open>src/main.rs\<close>): binding an endpoint, installing NAT and routes,
  running the endpoint and restoring the network state. The record \<open>Platform\<close> collects what is outside the
  program: the libraries, the command runners, the key files and the host, whose functions on the world
  say whether a socket binds or a device is created, what arrives while an endpoint runs, what
  the world is when it has stopped or waits again, and once it and its device are closed. Log messages and error texts are left out, the structure of
  errors is kept.
\<close>

section \<open>The surroundings\<close>

record ('w, 'n, 'm, 'r, 'h) Platform =
  pf_nets :: "'n NetText"
  pf_new_net :: "IpAddr \<Rightarrow> nat \<Rightarrow> 'n option"
  pf_v4 :: "'m Ipv4NetLib"
  pf_route_json :: RouteJson
  pf_nat_json :: NatJson
  pf_chain_json :: "bytes \<Rightarrow> NftChainListing option"
  pf_lowercase :: "bytes \<Rightarrow> bytes"
  pf_route_run :: "'w runner"
  pf_nat_run :: "'w nat_runner"
  pf_firewall_run :: "'w runner"
  pf_firewall_elapsed :: "'w \<Rightarrow> bool"
  pf_snow :: "('r, 'h) Snow"
  pf_files :: file_system
  pf_entropy :: "'w \<Rightarrow> 'r"
  host_bind :: "'w \<Rightarrow> SocketAddr \<Rightarrow> 'w \<times> bool"
  host_connect :: "'w \<Rightarrow> SocketAddr \<Rightarrow> 'w \<times> bool"
  host_tun :: "'w \<Rightarrow> TunConfig \<Rightarrow> 'w \<times> bool"
  host_client_events :: "'w \<Rightarrow> bytes ForwardEvent list"
  host_server_events :: "'w \<Rightarrow> (bytes \<times> SocketAddr) ForwardEvent list"
  host_noise_client :: "'w \<Rightarrow> (instant \<times> nat option) \<times> ClientEvent list \<times> (instant \<times> Event) list"
  host_noise_server :: "'w \<Rightarrow> ServerEvent list \<times> (instant \<times> Event) list"
  host_pass :: "'w \<Rightarrow> 'w"
  host_close :: "'w \<Rightarrow> TunConfig \<Rightarrow> 'w"

type_synonym AppliedNatManager = "AppliedNat NatManager"

text \<open>The model of the Noise runtime holds no device, so the device it was bound with stands beside it.\<close>

datatype ('n, 'r, 'h) Application =
  Client ClientConfig "'n RouteManager"
| Server ServerConfig "'n RouteManager" AppliedNatManager
| NoiseIkClient "('r, 'h) NoiseIkRuntime" TunConfig "'n RouteManager"
| NoiseIkServer "('r, 'h) NoiseIkRuntime" TunConfig "'n RouteManager" AppliedNatManager

datatype 'n ApplicationError =
  ClientBindFailed ClientBindError
| ServerBindFailed ServerBindError
| TunCreateFailed
| NoiseBindFailed BindError
| UnderlayUnresolved RouteError
| OperationsInvalid
| NatSpecInvalid NatSpecError
| RoutesFailed "('n, RouteError) InstallError"
| NatFailed "NatError NatInstallError"
| NetworkingFailed "('n, RouteError) InstallError" "NatError option"

type_synonym ('w, 'n, 'a) app_step = "'w \<times> ('a, 'n ApplicationError) result"

abbreviation routes_backend :: "('w, 'n, 'm, 'r, 'h) Platform \<Rightarrow> ('w, 'n, RouteError) RouteBackend" where
  "routes_backend P \<equiv> LinuxRouteBackend (pf_nets P) (pf_route_json P) (pf_route_run P)"

abbreviation tables_backend :: "('w, 'n, 'm, 'r, 'h) Platform \<Rightarrow> ('w, 'm, AppliedNat, NatError) NatBackend" where
  "tables_backend P \<equiv> LinuxNatBackend (pf_v4 P) (pf_nat_json P) (pf_nat_run P)"

section \<open>Endpoints\<close>

text \<open>
  \<open>Client::bind\<close>, \<open>Server::bind\<close> and \<open>NoiseIkRuntime::bind\<close> in the world: each step is tried when the ones
  before it succeeded.
\<close>

definition try_step :: "('w \<Rightarrow> 'w \<times> bool) \<Rightarrow> 'w \<times> bool \<Rightarrow> 'w \<times> bool" where
  "try_step step s = (if snd s then step (fst s) else s)"

definition bind_legacy_client ::
  "('w, 'n, 'm, 'r, 'h) Platform \<Rightarrow> 'w \<Rightarrow> ClientConfig \<Rightarrow> ('w, 'n, ClientConfig) app_step" where
  "bind_legacy_client P w config =
     (let bound = host_bind P w (cc_bind_addr config);
          connected = try_step (\<lambda>w. host_connect P w (cc_server_addr config)) bound;
          created = try_step (\<lambda>w. host_tun P w (cc_tun config)) connected
      in (fst created, map_sum ClientBindFailed id
           (client_bind config (snd bound) (snd connected) (snd created))))"

definition bind_legacy_server ::
  "('w, 'n, 'm, 'r, 'h) Platform \<Rightarrow> 'w \<Rightarrow> ServerConfig \<Rightarrow> ('w, 'n, ServerConfig) app_step" where
  "bind_legacy_server P w config =
     (let bound = host_bind P w (svc_bind_addr config);
          created = try_step (\<lambda>w. host_tun P w (svc_tun config)) bound
      in (fst created, map_sum ServerBindFailed id (server_bind config (snd bound) (snd created))))"

definition bind_noise_endpoint ::
  "('w, 'n, 'm, 'r, 'h) Platform \<Rightarrow> 'w \<Rightarrow> ModeConfig \<Rightarrow> SecurityConfig \<Rightarrow> TunConfig
   \<Rightarrow> ('w, 'n, ('r, 'h) NoiseIkRuntime) app_step" where
  "bind_noise_endpoint P w mode security tun =
     (let (w, created) = host_tun P w tun in
      if \<not> created then (w, Err TunCreateFailed)
      else
        let bind = noise_bind (pf_snow P) (pf_files P) mode security (unat (tun_mtu tun)) (pf_entropy P w) in
        case bind True of
          Inl e \<Rightarrow> (host_close P w tun, Err (NoiseBindFailed e))
        | Inr _ \<Rightarrow>
            let (w, bound) = host_bind P w (bind_addr mode) in
            (case bind bound of
               Inl e \<Rightarrow> (host_close P w tun, Err (NoiseBindFailed e))
             | Inr runtime \<Rightarrow> (w, Ok runtime)))"

section \<open>Installing the network state\<close>

text \<open>
  The part that the two client branches share. An error drops the endpoint, after the manager has rolled
  back.
\<close>

definition client_operations ::
  "('w, 'n, 'm, 'r, 'h) Platform \<Rightarrow> 'w \<Rightarrow> TunConfig \<Rightarrow> 'n RoutingConfig \<Rightarrow> SocketAddr
   \<Rightarrow> ('w, 'n, 'n RouteOperation list) app_step" where
  "client_operations P w tun routing server =
     (if full_tunnel routing then
        (let (w, underlay) = resolve_underlay_route (pf_nets P) (pf_route_json P) (pf_route_run P) w (socket_ip server)
         in (w, and_then (map_sum UnderlayUnresolved id underlay) (\<lambda>underlay.
              ok_or (full_tunnel_operations (pf_new_net P) (tun_name tun) (tun_address tun) (socket_ip server)
                underlay) OperationsInvalid)))
      else (w, Ok (split_tunnel_operations routing (tun_name tun))))"

definition client_network ::
  "('w, 'n, 'm, 'r, 'h) Platform \<Rightarrow> 'w \<Rightarrow> TunConfig \<Rightarrow> 'n RoutingConfig \<Rightarrow> SocketAddr
   \<Rightarrow> ('w, 'n, 'n RouteManager) app_step" where
  "client_network P w tun routing server = (case client_operations P w tun routing server of
     (w, Inl e) \<Rightarrow> (host_close P w tun, Err e)
   | (w, Inr operations) \<Rightarrow>
       (case install (routes_backend P) w RouteManager_new operations of
          (w, _, Inl e) \<Rightarrow> (host_close P w tun, Err (RoutesFailed e))
        | (w, routes, Inr _) \<Rightarrow> (w, Ok routes)))"

text \<open>The part that the two server branches share.\<close>

definition server_network ::
  "('w, 'n, 'm, 'r, 'h) Platform \<Rightarrow> 'w \<Rightarrow> TunConfig \<Rightarrow> 'm NatSpec option \<Rightarrow> 'n RoutingConfig
   \<Rightarrow> ('w, 'n, 'n RouteManager \<times> AppliedNatManager) app_step" where
  "server_network P w tun nat_spec routing =
     (case (case nat_spec of
              None \<Rightarrow> (w, NatManager_new, Ok ())
            | Some spec \<Rightarrow> nat_install (tables_backend P) w NatManager_new spec) of
        (w, _, Inl e) \<Rightarrow> (host_close P w tun, Err (NatFailed e))
      | (w, nat_manager, Inr _) \<Rightarrow>
          (case install (routes_backend P) w RouteManager_new (server_operations routing) of
             (w, routes, Inr _) \<Rightarrow> (w, Ok (routes, nat_manager))
           | (w, _, Inl routing_error) \<Rightarrow>
               (case nat_restore (tables_backend P) w nat_manager of
                  (w, _, Inr _) \<Rightarrow> (host_close P w tun, Err (NetworkingFailed routing_error None))
                | (w, _, Inl nat_error) \<Rightarrow>
                    (host_close P w tun, Err (NetworkingFailed routing_error (Some nat_error))))))"

datatype DiagnosticsLog = NotForwarding | ContextNotBuilt FirewallError | DiagnosticsFailed FirewallError
  | Diagnosed "(LogLevel \<times> LogLine) list"

definition run_server_firewall_diagnostics ::
  "('w, 'n, 'm, 'r, 'h) Platform \<Rightarrow> 'w \<Rightarrow> TunConfig \<Rightarrow> 'n RoutingConfig \<Rightarrow> 'w \<times> DiagnosticsLog" where
  "run_server_firewall_diagnostics P w tun routing =
     (case build_diagnostic_context (pf_v4 P) tun routing of
        Inr (Some context') \<Rightarrow>
          (case diagnose (inspect_chains (pf_firewall_run P)) (pf_firewall_elapsed P) (pf_chain_json P) (pf_lowercase P)
             w context' of
             (w, Inr report) \<Rightarrow> (w, Diagnosed (log_firewall_report report))
           | (w, Inl error) \<Rightarrow> (w, DiagnosticsFailed error))
      | Inr None \<Rightarrow> (w, NotForwarding)
      | Inl error \<Rightarrow> (w, ContextNotBuilt error))"

section \<open>Binding\<close>

definition bind_noise_ik ::
  "('w, 'n, 'm, 'r, 'h) Platform \<Rightarrow> 'w \<Rightarrow> ModeConfig \<Rightarrow> SecurityConfig \<Rightarrow> TunConfig \<Rightarrow> 'n RoutingConfig
   \<Rightarrow> ('w, 'n, ('n, 'r, 'h) Application) app_step" where
  "bind_noise_ik P w mode security tun routing = (case mode of
     ModeConfig.Client address server \<Rightarrow>
       bind_st (bind_noise_endpoint P w (ModeConfig.Client address server) security tun) (\<lambda>w runtime.
       bind_st (client_network P w tun routing server) (\<lambda>w routes.
       (w, Ok (NoiseIkClient runtime tun routes))))
   | ModeConfig.Server address \<Rightarrow>
       let w = fst (run_server_firewall_diagnostics P w tun routing) in
       (case build_nat_spec (pf_v4 P) tun routing of
          Inl e \<Rightarrow> (w, Err (NatSpecInvalid e))
        | Inr nat_spec \<Rightarrow>
            bind_st (bind_noise_endpoint P w (ModeConfig.Server address) security tun) (\<lambda>w runtime.
            bind_st (server_network P w tun nat_spec routing) (\<lambda>w (routes, nat_manager).
            (w, Ok (NoiseIkServer runtime tun routes nat_manager))))))"

definition bind_application ::
  "('w, 'n, 'm, 'r, 'h) Platform \<Rightarrow> 'w \<Rightarrow> 'n Config \<Rightarrow> ('w, 'n, ('n, 'r, 'h) Application) app_step" where
  "bind_application P w config =
     (let tun = cfg_tun config; routing = cfg_routing config in
      if security_mode (cfg_security config) = NoiseIk
      then bind_noise_ik P w (cfg_mode config) (cfg_security config) tun routing
      else case cfg_mode config of
        ModeConfig.Client address server \<Rightarrow>
          bind_st (bind_legacy_client P w
            \<lparr>cc_bind_addr = address, cc_server_addr = server, cc_tun = tun\<rparr>) (\<lambda>w client.
          bind_st (client_network P w tun routing server) (\<lambda>w routes.
          (w, Ok (Application.Client client routes))))
      | ModeConfig.Server address \<Rightarrow>
          let w = fst (run_server_firewall_diagnostics P w tun routing) in
          (case build_nat_spec (pf_v4 P) tun routing of
             Inl e \<Rightarrow> (w, Err (NatSpecInvalid e))
           | Inr nat_spec \<Rightarrow>
               bind_st (bind_legacy_server P w \<lparr>svc_bind_addr = address, svc_tun = tun\<rparr>) (\<lambda>w endpoint.
               bind_st (server_network P w tun nat_spec routing) (\<lambda>w (routes, nat_manager).
               (w, Ok (Application.Server endpoint routes nat_manager))))))"

section \<open>Running\<close>

text \<open>
  An endpoint that was run returns, still waits for the next event, or panics. Only in the first case is
  the code after \<open>run().await\<close> reached.
\<close>

datatype EndpointError =
  FramingFailed CodecConfigError
| ForwardingFailed ForwardError
| NoiseFailed NoiseRunError
| DataPlaneFailed RunError

datatype 'a progress = Returned 'a | Blocked | Unwinding

definition legacy_progress ::
  "('s forward_step, CodecConfigError) result \<Rightarrow> (unit, EndpointError) result progress" where
  "legacy_progress r = (case r of
     Inl e \<Rightarrow> Returned (Err (FramingFailed e))
   | Inr (_, _, flow) \<Rightarrow>
       (case flow of
          Proceed \<Rightarrow> Blocked
        | Stopped \<Rightarrow> Returned (Ok ())
        | Aborted e \<Rightarrow> Returned (Err (ForwardingFailed e))
        | Panic \<Rightarrow> Unwinding))"

definition noise_progress :: "handshake_run \<Rightarrow> (unit, EndpointError) result progress" where
  "noise_progress r = (case snd r of
     Waiting \<Rightarrow> Blocked
   | Ended e \<Rightarrow> Returned (Err (NoiseFailed e))
   | Stuck \<Rightarrow> Unwinding
   | Forwarding _ (_, _, flow) \<Rightarrow>
       (case flow of
          Continue \<Rightarrow> Blocked
        | ControlledClose _ \<Rightarrow> Returned (Ok ())
        | Failed e \<Rightarrow> Returned (Err (DataPlaneFailed e))
        | Panicked \<Rightarrow> Unwinding))"

definition run_noise_runtime ::
  "('w, 'n, 'm, 'r, 'h) Platform \<Rightarrow> 'w \<Rightarrow> ('r, 'h) NoiseIkRuntime \<Rightarrow> (unit, EndpointError) result progress" where
  "run_noise_runtime P w runtime = noise_progress (case runtime of
     NoiseIkRuntime.Client server coordinator mtu limits \<Rightarrow>
       let (begun, events, data) = host_noise_client P w
       in noise_client_run (pf_snow P) server mtu limits coordinator begun events data
   | NoiseIkRuntime.Server coordinator mtu limits \<Rightarrow>
       let (events, data) = host_noise_server P w
       in noise_server_run (pf_snow P) mtu limits coordinator events data)"

datatype ('a, 'b) CleanupError = FirstCleanup 'a | SecondCleanup 'b | BothCleanups 'a 'b

definition combine_cleanup_results ::
  "(unit, 'a) result \<Rightarrow> (unit, 'b) result \<Rightarrow> (unit, ('a, 'b) CleanupError) result" where
  "combine_cleanup_results first' second' = (case (first', second') of
     (Inr _, Inr _) \<Rightarrow> Ok ()
   | (Inl error, Inr _) \<Rightarrow> Err (FirstCleanup error)
   | (Inr _, Inl error) \<Rightarrow> Err (SecondCleanup error)
   | (Inl first_error, Inl second_error) \<Rightarrow> Err (BothCleanups first_error second_error))"

datatype ('r, 'c) RunCleanupError = RunFailed 'r | CleanupFailed 'c | RunAndCleanupFailed 'r 'c

definition combine_run_and_cleanup ::
  "(unit, 'r) result \<Rightarrow> (unit, 'c) result \<Rightarrow> (unit, ('r, 'c) RunCleanupError) result" where
  "combine_run_and_cleanup run_result cleanup_result = (case (run_result, cleanup_result) of
     (Inr _, Inr _) \<Rightarrow> Ok ()
   | (Inl run_error, Inr _) \<Rightarrow> Err (RunFailed run_error)
   | (Inr _, Inl cleanup_error) \<Rightarrow> Err (CleanupFailed cleanup_error)
   | (Inl run_error, Inl cleanup_error) \<Rightarrow> Err (RunAndCleanupFailed run_error cleanup_error))"

type_synonym 'n shutdown_error = "(EndpointError, (('n, RouteError) restore_error, NatError) CleanupError) RunCleanupError"

text \<open>Restoration of a client and of a server, in this order.\<close>

definition client_cleanup ::
  "('w, 'n, 'm, 'r, 'h) Platform \<Rightarrow> 'w \<Rightarrow> 'n RouteManager
   \<Rightarrow> 'w \<times> (unit, (('n, RouteError) restore_error, NatError) CleanupError) result" where
  "client_cleanup P w routes =
     (let (w, _, cleanup) = restore (routes_backend P) w routes in (w, map_sum FirstCleanup id cleanup))"

definition server_cleanup ::
  "('w, 'n, 'm, 'r, 'h) Platform \<Rightarrow> 'w \<Rightarrow> 'n RouteManager \<Rightarrow> AppliedNatManager
   \<Rightarrow> 'w \<times> (unit, (('n, RouteError) restore_error, NatError) CleanupError) result" where
  "server_cleanup P w routing nat_manager =
     (let (w, _, routing_cleanup) = restore (routes_backend P) w routing;
          (w, _, nat_cleanup) = nat_restore (tables_backend P) w nat_manager
      in (w, combine_cleanup_results routing_cleanup nat_cleanup))"

text \<open>
  \<open>Client::run\<close> and \<open>Server::run\<close> borrow the endpoint, which is dropped after the restoration;
  \<open>NoiseIkRuntime::run\<close> consumes it, so its socket and device are closed before.
\<close>

definition finish_run ::
  "('w, 'n, 'm, 'r, 'h) Platform \<Rightarrow> 'w \<Rightarrow> TunConfig \<Rightarrow> (unit, EndpointError) result progress
   \<Rightarrow> ('w \<Rightarrow> 'w \<times> (unit, (('n, RouteError) restore_error, NatError) CleanupError) result)
   \<Rightarrow> 'w \<times> (unit, 'n shutdown_error) result progress" where
  "finish_run P w tun run_result cleanup = (case run_result of
     Blocked \<Rightarrow> (w, Blocked)
   | Unwinding \<Rightarrow> (host_close P w tun, Unwinding)
   | Returned run_result \<Rightarrow>
       let (w, cleanup_result) = cleanup w
       in (w, Returned (combine_run_and_cleanup run_result cleanup_result)))"

definition run_application ::
  "('w, 'n, 'm, 'r, 'h) Platform \<Rightarrow> 'w \<Rightarrow> ('n, 'r, 'h) Application
   \<Rightarrow> 'w \<times> (unit, 'n shutdown_error) result progress" where
  "run_application P w self = (case self of
     Application.Client client routes \<Rightarrow>
       finish_run P (host_pass P w) (cc_tun client)
         (legacy_progress (client_run (unat (tun_mtu (cc_tun client))) (cc_server_addr client) (host_client_events P w)))
         (\<lambda>w. apfst (\<lambda>w. host_close P w (cc_tun client)) (client_cleanup P w routes))
   | Application.Server server routing nat_manager \<Rightarrow>
       finish_run P (host_pass P w) (svc_tun server)
         (legacy_progress (server_run (unat (tun_mtu (svc_tun server))) (host_server_events P w)))
         (\<lambda>w. apfst (\<lambda>w. host_close P w (svc_tun server)) (server_cleanup P w routing nat_manager))
   | NoiseIkClient runtime tun routes \<Rightarrow>
       finish_run P (host_pass P w) tun (run_noise_runtime P w runtime)
         (\<lambda>w. client_cleanup P (host_close P w tun) routes)
   | NoiseIkServer runtime tun routing nat_manager \<Rightarrow>
       finish_run P (host_pass P w) tun (run_noise_runtime P w runtime)
         (\<lambda>w. server_cleanup P (host_close P w tun) routing nat_manager))"

text \<open>\<open>main\<close>: an error of the configuration, of binding, or of the run.\<close>

datatype 'n MainError =
  ArgumentsInvalid | ConfigInvalid ConfigError | BindingFailed "'n ApplicationError" | RunningFailed "'n shutdown_error"

definition main ::
  "('w, 'n, 'm, 'r, 'h) Platform \<Rightarrow> (bytes \<Rightarrow> 'n Config option) \<Rightarrow> Args \<Rightarrow> 'w
   \<Rightarrow> 'w \<times> (unit, 'n MainError) result progress" where
  "main P file args w = (case from_args file args of
     None \<Rightarrow> (w, Returned (Err ArgumentsInvalid))
   | Some config \<Rightarrow>
       (case validate (IpNetLib.truncate (pf_nets P)) (pf_files P) config of
          Inl e \<Rightarrow> (w, Returned (Err (ConfigInvalid e)))
        | Inr _ \<Rightarrow>
            (case bind_application P w config of
               (w, Inl e) \<Rightarrow> (w, Returned (Err (BindingFailed e)))
             | (w, Inr application) \<Rightarrow>
                 apsnd (\<lambda>r. case r of
                     Returned r \<Rightarrow> Returned (map_sum RunningFailed id r)
                   | Blocked \<Rightarrow> Blocked
                   | Unwinding \<Rightarrow> Unwinding)
                   (run_application P w application))))"

section \<open>The network state over the life of the application\<close>

text \<open>The state without the routes of a device.\<close>

definition without :: "bytes \<Rightarrow> ('n, 't) NetState \<Rightarrow> ('n, 't) NetState" where
  "without device v = v\<lparr>ns_routes := (\<lambda>d. {e \<in> ns_routes v d. device \<notin> set (fst (snd e))})\<rparr>"

text \<open>The errors that say that some state could not be rolled back.\<close>

definition leaves_state :: "'n ApplicationError \<Rightarrow> bool" where
  "leaves_state e = (case e of
     RoutesFailed (InstallFailed _ (Some _)) \<Rightarrow> True
   | NatFailed (NatApplyFailed e) \<Rightarrow> nat_stranded e
   | NetworkingFailed (InstallFailed _ (Some _)) _ \<Rightarrow> True
   | NetworkingFailed _ (Some _) \<Rightarrow> True
   | _ \<Rightarrow> False)"

lemma leaves_state_simps [simp]:
  "\<not> leaves_state (ClientBindFailed be)" "\<not> leaves_state (ServerBindFailed se)" "\<not> leaves_state TunCreateFailed"
  "\<not> leaves_state (NoiseBindFailed ne)" "\<not> leaves_state (UnderlayUnresolved re)" "\<not> leaves_state OperationsInvalid"
  "\<not> leaves_state (NatSpecInvalid spe)"
  "leaves_state (RoutesFailed ie) \<longleftrightarrow> (\<exists>x y. ie = InstallFailed x (Some y))"
  "leaves_state (NatFailed nie) \<longleftrightarrow> (\<exists>x. nie = NatApplyFailed x \<and> nat_stranded x)"
  "leaves_state (NetworkingFailed ie no) \<longleftrightarrow> (\<exists>x y. ie = InstallFailed x (Some y)) \<or> no \<noteq> None"
  by (auto simp: leaves_state_def split: InstallError.splits NatInstallError.splits option.splits)

text \<open>
  What a configuration asks of the host, said without the operations the program derives from it.
  \<open>underlay P w a g device\<close>: asked in the world \<open>w\<close> how it reaches the address \<open>a\<close>, the host answers through
  the gateway \<open>g\<close>, if any, and the device.
\<close>

definition underlay :: "('w, 'n, 'm, 'r, 'h) Platform \<Rightarrow> 'w \<Rightarrow> IpAddr \<Rightarrow> IpAddr option \<Rightarrow> bytes \<Rightarrow> bool" where
  "underlay P w a g device \<longleftrightarrow> (\<exists>w' result lookup others.
     pf_route_run P w (str ''ip'') [str ''-j'', str ''route'', str ''get'', addr_to_string (pf_nets P) a] = (w', Ok result) \<and>
     cmd_success result \<and> from_str_lookup (pf_route_json P) (cmd_stdout result) = Some (lookup # others) \<and>
     lk_dev lookup = Some device \<and>
     (lk_gateway lookup = None \<and> g = None \<or>
      (\<exists>t h. lk_gateway lookup = Some t \<and> parse_addr (pf_nets P) t = Some h \<and> g = Some h)))"

text \<open>The network of one address, and the network of all addresses of the family of an address.\<close>

definition host_network :: "('w, 'n, 'm, 'r, 'h) Platform \<Rightarrow> IpAddr \<Rightarrow> 'n option" where
  "host_network P a = (case a of V4 _ \<Rightarrow> pf_new_net P a 32 | V6 _ \<Rightarrow> pf_new_net P a 128)"

definition whole_network :: "('w, 'n, 'm, 'r, 'h) Platform \<Rightarrow> IpAddr \<Rightarrow> 'n option" where
  "whole_network P a = (case a of V4 _ \<Rightarrow> pf_new_net P (V4 0) 0 | V6 _ \<Rightarrow> pf_new_net P (V6 0) 0)"

text \<open>
  A split tunnel takes the protected routes, and nothing else leads there. A full tunnel takes the default
  route, while the server is reached as before: as the host answered in the world \<open>w\<close>.
\<close>

definition client_configured ::
  "('w, 'n, 'm, 'r, 'h) Platform \<Rightarrow> 'w \<Rightarrow> TunConfig \<Rightarrow> 'n RoutingConfig \<Rightarrow> SocketAddr \<Rightarrow> ('n, 't) NetState \<Rightarrow> bool" where
  "client_configured P w tun routing server v \<longleftrightarrow>
     (if full_tunnel routing
      then \<exists>default_route endpoint g device.
        whole_network P (tun_address tun) = Some default_route \<and> leads v default_route None (Some (tun_name tun)) \<and>
        host_network P (socket_ip server) = Some endpoint \<and> underlay P w (socket_ip server) g device \<and>
        leads v endpoint g (Some device)
      else \<forall>d \<in> set (protected_routes routing). leads v d None (Some (tun_name tun)))"

text \<open>The world in which a client's endpoint has just been bound, before anything is installed.\<close>

definition endpoint_bound ::
  "('w, 'n, 'm, 'r, 'h) Platform \<Rightarrow> 'w \<Rightarrow> 'n Config \<Rightarrow> SocketAddr \<Rightarrow> SocketAddr \<Rightarrow> 'w" where
  "endpoint_bound P w config address server =
     (if security_mode (cfg_security config) = NoiseIk
      then fst (bind_noise_endpoint P w (ModeConfig.Client address server) (cfg_security config) (cfg_tun config))
      else fst (bind_legacy_client P w
        \<lparr>cc_bind_addr = address, cc_server_addr = server, cc_tun = cfg_tun config\<rparr>))"

text \<open>
  A server has its routes, forwards if it is to, and if it is to translate addresses, its table
  masquerades what comes from the tunnel's network through the tunnel and leaves by the egress interface.
\<close>

definition server_configured ::
  "('w, 'n, 'm, 'r, 'h) Platform \<Rightarrow> ('t \<Rightarrow> bytes \<Rightarrow> bytes \<Rightarrow> 'm \<Rightarrow> bool) \<Rightarrow> TunConfig \<Rightarrow> 'n RoutingConfig
   \<Rightarrow> ('n, 't) NetState \<Rightarrow> bool" where
  "server_configured P masquerades tun routing v \<longleftrightarrow>
     (\<forall>route \<in> set (server_routes routing). leads v (st_destination route) (st_gateway route) (st_interface route)) \<and>
     (enable_forwarding routing \<longrightarrow> ns_forwarding v) \<and>
     (enable_nat routing \<longrightarrow> (\<exists>t egress address network. ns_table v = Some t \<and>
        nat_egress_interface routing = Some egress \<and> tun_address tun = V4 address \<and>
        v4_new (pf_v4 P) address (tun_prefix_len tun) = Some network \<and>
        masquerades t (tun_name tun) egress (v4_trunc (pf_v4 P) network)))"

text \<open>The configured destinations have no host bits, and the gateways are of their address family.\<close>

definition canonical_routes :: "('n \<Rightarrow> IpAddr option \<Rightarrow> bool) \<Rightarrow> 'n RoutingConfig \<Rightarrow> bool" where
  "canonical_routes canonical routing \<longleftrightarrow>
     (\<forall>d \<in> set (protected_routes routing). canonical d None) \<and>
     (\<forall>route \<in> set (server_routes routing). canonical (st_destination route) (st_gateway route))"

text \<open>
  The tools do what their manuals say, a lookup for an address reports a gateway of its family, binding
  and connecting a socket leaves the network state alone, creating a device adds routes of this device
  only, and closing it removes them. Nothing else changes the state while the program runs.
\<close>

locale platform =
  net: network_tools "pf_nets P" "pf_route_json P" "pf_route_run P" view canonical +
  tables: nft_tools "pf_v4 P" "pf_nat_json P" "pf_nat_run P" view print masquerades
  for P :: "('w, 'n, 'm, 'r, 'h) Platform"
    and view :: "'w \<Rightarrow> ('n, 't) NetState"
    and print :: "'t \<Rightarrow> Value"
    and masquerades :: "'t \<Rightarrow> bytes \<Rightarrow> bytes \<Rightarrow> 'm \<Rightarrow> bool"
    and canonical :: "'n \<Rightarrow> IpAddr option \<Rightarrow> bool" +
  assumes whole_canonical: "whole_network P ip = Some n \<Longrightarrow> canonical n None"
    and underlay_canonical: "host_network P ip = Some n \<Longrightarrow> underlay P w ip g device \<Longrightarrow> canonical n g"
    and chains_keep: "pf_firewall_run P w (str ''nft'') [str ''-j'', str ''list'', str ''chains''] = (w', r) \<Longrightarrow>
      view w' = view w"
    and bind_keeps: "host_bind P w a = (w', b) \<Longrightarrow> view w' = view w"
    and connect_keeps: "host_connect P w a = (w', b) \<Longrightarrow> view w' = view w"
    and tun_fails: "host_tun P w tun = (w', False) \<Longrightarrow> view w' = view w"
    and tun_creates: "host_tun P w tun = (w', True) \<Longrightarrow>
      without (tun_name tun) (view w') = without (tun_name tun) (view w)"
    and pass_keeps: "view (host_pass P w) = view w"
    and close_removes: "view (host_close P w tun) = without (tun_name tun) (view w)"

definition app_tun :: "('n, 'r, 'h) Application \<Rightarrow> TunConfig" where
  "app_tun app = (case app of
     Application.Client client _ \<Rightarrow> cc_tun client
   | Application.Server server _ _ \<Rightarrow> svc_tun server
   | NoiseIkClient _ tun _ \<Rightarrow> tun
   | NoiseIkServer _ tun _ _ \<Rightarrow> tun)"

lemma without_simps [simp]:
  "ns_table (without x v) = ns_table v" "ns_forwarding (without x v) = ns_forwarding v"
  "without x (without x v) = without x v" "shrunk v (without x v)"
  by (auto simp: without_def shrunk_def)

lemma meet_without:
  assumes "\<And>d. ns_routes v d \<subseteq> ns_routes v' d" and "ns_table v' = ns_table v"
  shows "meet v (without x v') = without x v"
  using assms by (intro NetState_eqI) (auto simp: meet_def without_def)

lemma full_tunnel_default:
  assumes "full_tunnel_operations (pf_new_net P) tun a server u = Some operations"
  obtains endpoint default_route where
    "host_network P server = Some endpoint" "whole_network P a = Some default_route"
    "operations = [AddRoute endpoint (ur_gateway u) (Some (ur_interface u)), AddRoute default_route None (Some tun)]"
proof -
  have "pf_new_net P server (if is_ipv4 server then 32 else 128) = host_network P server"
      "pf_new_net P (if is_ipv4 a then V4 0 else V6 0) 0 = whole_network P a"
    by (cases server; cases a; simp add: host_network_def whole_network_def is_ipv4_def)+
  with assms that show thesis
    by (auto simp: full_tunnel_operations_def Let_def split: option.splits)
qed

lemma resolve_underlay:
  assumes "resolve_underlay_route (pf_nets P) (pf_route_json P) (pf_route_run P) w a = (w', Ok u)"
  shows "underlay P w a (ur_gateway u) (ur_interface u)"
proof -
  obtain result where run: "pf_route_run P w (str ''ip'') (route_get_args (pf_nets P) a) = (w', Ok result)" "cmd_success result"
    and parse: "parse_underlay_route (pf_nets P) (pf_route_json P) (cmd_stdout result) = Ok u"
    using assms
    by (auto simp: resolve_underlay_route_def bind_st_Ok run_checked_def map_sum_Ok check_result_Ok split: prod.splits)
  obtain lookup others where lookup: "from_str_lookup (pf_route_json P) (cmd_stdout result) = Some (lookup # others)"
    using parse by (auto simp: parse_underlay_route_def and_then_Ok ok_or_def split: option.splits list.splits)
  have "lk_dev lookup = Some (ur_interface u) \<and> (lk_gateway lookup = None \<and> ur_gateway u = None \<or>
      (\<exists>t h. lk_gateway lookup = Some t \<and> parse_addr (pf_nets P) t = Some h \<and> ur_gateway u = Some h))"
    using parse lookup
    by (auto simp: parse_underlay_route_def and_then_Ok ok_or_def split: option.splits)
  with run lookup show ?thesis unfolding underlay_def route_get_args_def by blast
qed

lemma server_operations_configured:
  assumes "\<forall>operation \<in> set (server_operations routing). achieved v operation"
  shows "(\<forall>route \<in> set (server_routes routing). leads v (st_destination route) (st_gateway route) (st_interface route)) \<and>
    (enable_forwarding routing \<longrightarrow> ns_forwarding v)"
  using assms by (auto simp: server_operations_def achieved_def ball_Un)

context platform
begin

lemma diagnostics_keep: "view (fst (run_server_firewall_diagnostics P w tun routing)) = view w"
proof -
  have "view (fst (inspect_chains (pf_firewall_run P) w)) = view w"
    using chains_keep by (auto simp: inspect_chains_def split: prod.splits)
  then show ?thesis
    by (auto simp: run_server_firewall_diagnostics_def diagnose_def split: sum.splits option.splits prod.splits)
qed

lemma resolve_keeps:
  "view (fst (resolve_underlay_route (pf_nets P) (pf_route_json P) (pf_route_run P) w a)) = view w"
  using net.get_keeps [of w a]
  by (cases "pf_route_run P w (str ''ip'') (route_get_args (pf_nets P) a)";
      cases "map_sum RouteCommand id (check_result (snd (pf_route_run P w (str ''ip'') (route_get_args (pf_nets P) a))))")
    (auto simp: resolve_underlay_route_def run_checked_def)

lemma install_new:
  assumes "install (routes_backend P) w RouteManager_new operations = (w', routes, r)"
    and "list_all (storable canonical) operations"
  shows "(r = Ok () \<longrightarrow> net.linux.chain (view w) (rm_applied routes) (view w')) \<and>
    (\<forall>e. r = Err e \<longrightarrow> \<not> (\<exists>x y. e = InstallFailed x (Some y)) \<longrightarrow> view w' = view w)"
proof -
  have "r \<noteq> Err AlreadyInstalled"
  proof
    assume "r = Err AlreadyInstalled"
    then have "apply_all (routes_backend P) w RouteManager_new operations = (w', routes, Err AlreadyInstalled)"
      using assms(1) by (simp add: install_def RouteManager_new_def)
    moreover have "apply_all B w0 m0 ops = (w1, m1, q) \<Longrightarrow> q \<noteq> Err AlreadyInstalled"
      for B :: "('w, 'n, RouteError) RouteBackend" and w0 m0 ops w1 m1 q
      by (induction ops arbitrary: w0 m0) (auto split: prod.splits sum.splits ApplyOutcome.splits)
    ultimately show False by blast
  qed
  then show ?thesis
    using net.linux.install_cases [OF assms] by (metis InstallError.exhaust option.exhaust)
qed

lemma client_operations_keeps:
  assumes "client_operations P w tun routing server = (w', r)"
  shows "view w' = view w" "r = Err e \<Longrightarrow> \<not> leaves_state e"
proof -
  show "view w' = view w"
    using assms resolve_keeps [of w "socket_ip server"]
    by (auto simp: client_operations_def split: if_splits prod.splits)
  show "r = Err e \<Longrightarrow> \<not> leaves_state e"
    using assms
    by (cases "snd (resolve_underlay_route (pf_nets P) (pf_route_json P) (pf_route_run P) w (socket_ip server))")
      (auto simp: client_operations_def ok_or_def split: if_splits prod.splits option.splits)
qed

lemma client_operations_full:
  assumes "client_operations P w tun routing server = (w', Ok operations)" and "full_tunnel routing"
  obtains g device endpoint default_route where
    "underlay P w (socket_ip server) g device"
    "host_network P (socket_ip server) = Some endpoint" "whole_network P (tun_address tun) = Some default_route"
    "operations = [AddRoute endpoint g (Some device), AddRoute default_route None (Some (tun_name tun))]"
proof -
  obtain u where u: "resolve_underlay_route (pf_nets P) (pf_route_json P) (pf_route_run P) w (socket_ip server) = (w', Ok u)"
    and f: "full_tunnel_operations (pf_new_net P) (tun_name tun) (tun_address tun) (socket_ip server) u = Some operations"
    using assms
    by (auto simp: client_operations_def and_then_Ok map_sum_Ok ok_or_def split: prod.splits option.splits)
  obtain endpoint default_route where o: "host_network P (socket_ip server) = Some endpoint"
      "whole_network P (tun_address tun) = Some default_route"
      "operations = [AddRoute endpoint (ur_gateway u) (Some (ur_interface u)),
         AddRoute default_route None (Some (tun_name tun))]"
    by (rule full_tunnel_default [OF f])
  show thesis by (rule that [OF resolve_underlay [OF u] o])
qed

lemma client_operations_storable:
  assumes "client_operations P w tun routing server = (w', Ok operations)" and "canonical_routes canonical routing"
  shows "list_all (storable canonical) operations" "consistent operations"
proof -
  have "list_all (storable canonical) operations \<and> consistent operations"
  proof (cases "full_tunnel routing")
    case True
    obtain g device endpoint default_route where "underlay P w (socket_ip server) g device"
        "host_network P (socket_ip server) = Some endpoint" "whole_network P (tun_address tun) = Some default_route"
        "operations = [AddRoute endpoint g (Some device), AddRoute default_route None (Some (tun_name tun))]"
      by (rule client_operations_full [OF assms(1) True])
    then show ?thesis
      using whole_canonical [of "tun_address tun"] underlay_canonical [of "socket_ip server"]
      by (simp add: consistent_def)
  next
    case False
    then show ?thesis
      using assms generated_consistent(1)
      by (auto simp: client_operations_def split_tunnel_operations_def canonical_routes_def list_all_iff)
  qed
  then show "list_all (storable canonical) operations" "consistent operations" by simp_all
qed

lemma client_network_exact:
  assumes "client_network P w tun routing server = (w', r)" and "canonical_routes canonical routing"
  shows "(\<forall>routes. r = Ok routes \<longrightarrow> net.linux.chain (view w) (rm_applied routes) (view w')) \<and>
    (\<forall>e. r = Err e \<longrightarrow> \<not> leaves_state e \<longrightarrow> view w' = without (tun_name tun) (view w))"
proof -
  obtain w1 ops where ops: "client_operations P w tun routing server = (w1, ops)"
    by (cases "client_operations P w tun routing server")
  note props = client_operations_keeps [OF ops]
  show ?thesis
  proof (cases ops)
    case (Inl e)
    then show ?thesis
      using assms(1) ops props(1) close_removes by (auto simp: client_network_def)
  next
    case (Inr operations)
    obtain w2 routes q where q: "install (routes_backend P) w1 RouteManager_new operations = (w2, routes, q)"
      by (cases "install (routes_backend P) w1 RouteManager_new operations")
    note new = install_new [OF q client_operations_storable(1) [OF ops [unfolded Inr] assms(2)]]
    show ?thesis
      using assms(1) ops props(1) Inr q new close_removes
      by (cases q) (auto simp: client_network_def split: InstallError.splits)
  qed
qed

lemma client_network_configured:
  assumes "client_network P w tun routing server = (w', Ok routes)" and "canonical_routes canonical routing"
  shows "client_configured P w tun routing server (view w')"
proof -
  obtain w1 operations where ops: "client_operations P w tun routing server = (w1, Ok operations)"
      and install: "install (routes_backend P) w1 RouteManager_new operations = (w', routes, Ok ())"
    using assms(1) by (auto simp: client_network_def split: prod.splits sum.splits)
  have achieved: "\<forall>operation \<in> set operations. achieved (view w') operation"
    using net.install_achieves [OF install] client_operations_storable [OF ops assms(2)] by blast
  show ?thesis
  proof (cases "full_tunnel routing")
    case True
    obtain g device endpoint default_route where o: "underlay P w (socket_ip server) g device"
        "host_network P (socket_ip server) = Some endpoint" "whole_network P (tun_address tun) = Some default_route"
        "operations = [AddRoute endpoint g (Some device), AddRoute default_route None (Some (tun_name tun))]"
      by (rule client_operations_full [OF ops True])
    then have "leads (view w') endpoint g (Some device)" "leads (view w') default_route None (Some (tun_name tun))"
      using achieved by (simp_all add: achieved_def)
    with o True show ?thesis unfolding client_configured_def by auto
  next
    case False
    then show ?thesis
      using ops achieved
      by (auto simp: client_configured_def client_operations_def split_tunnel_operations_def achieved_def)
  qed
qed

lemma nat_install_new:
  assumes "nat_install (tables_backend P) w NatManager_new spec = (w', m, r)" and "plain_spec spec"
  shows "(r = Ok () \<longrightarrow> tables.nft.owns_from (view w) m (view w') \<and> (\<exists>t. ns_table (view w') = Some t \<and>
      masquerades t (nat_tun_interface spec) (nat_egress spec) (nat_source_network spec))) \<and>
    (\<forall>e. r = Err e \<longrightarrow> \<not> (\<exists>x. e = NatApplyFailed x \<and> nat_stranded x) \<longrightarrow> view w' = view w)"
proof -
  obtain q where q: "linux_nat_apply (pf_v4 P) (pf_nat_json P) (pf_nat_run P) w spec = (w', q)"
    and r: "r = (case q of Inl e \<Rightarrow> Err (NatApplyFailed e) | Inr _ \<Rightarrow> Ok ())"
    and m: "\<And>a. q = Ok a \<Longrightarrow> nm_applied m = Some a"
    using assms(1)
    by (cases "linux_nat_apply (pf_v4 P) (pf_nat_json P) (pf_nat_run P) w spec")
      (auto simp: nat_install_def NatManager_new_def LinuxNatBackend_def split: sum.splits)
  show ?thesis
    using tables.linux_nat_apply_exact [OF q assms(2)] r m
    by (cases q) (auto simp: tables.nft.owns_from_def)
qed

lemma server_network_exact:
  assumes network: "server_network P w tun spec routing = (w', r)" and canonical: "canonical_routes canonical routing"
    and plain: "\<And>s. spec = Some s \<Longrightarrow> plain_spec s"
  shows "(\<forall>routes m. r = Ok (routes, m) \<longrightarrow>
      (\<exists>v. tables.nft.owns_from (view w) m v \<and> net.linux.chain v (rm_applied routes) (view w')) \<and>
      (\<forall>s. spec = Some s \<longrightarrow> (\<exists>t. ns_table (view w') = Some t \<and>
        masquerades t (nat_tun_interface s) (nat_egress s) (nat_source_network s))) \<and>
      (\<forall>operation \<in> set (server_operations routing). achieved (view w') operation)) \<and>
    (\<forall>e. r = Err e \<longrightarrow> \<not> leaves_state e \<longrightarrow> view w' = without (tun_name tun) (view w))"
proof -
  obtain w1 m q where q: "(case spec of None \<Rightarrow> (w, NatManager_new, Ok ())
      | Some spec \<Rightarrow> nat_install (tables_backend P) w NatManager_new spec) = (w1, m, q)"
    by (metis prod_cases3)
  have nat: "(q = Ok () \<longrightarrow> tables.nft.owns_from (view w) m (view w1) \<and>
        (\<forall>s. spec = Some s \<longrightarrow> (\<exists>t. ns_table (view w1) = Some t \<and>
          masquerades t (nat_tun_interface s) (nat_egress s) (nat_source_network s)))) \<and>
      (\<forall>e. q = Err e \<longrightarrow> \<not> (\<exists>x. e = NatApplyFailed x \<and> nat_stranded x) \<longrightarrow> view w1 = view w)"
  proof (cases spec)
    case None
    with q show ?thesis by (auto simp: tables.nft.owns_from_def NatManager_new_def)
  next
    case (Some s)
    with q have "nat_install (tables_backend P) w NatManager_new s = (w1, m, q)" by simp
    from nat_install_new [OF this plain [OF Some]] Some show ?thesis by simp
  qed
  have storable: "list_all (storable canonical) (server_operations routing)"
    using canonical by (auto simp: server_operations_def canonical_routes_def list_all_iff)
  show ?thesis
  proof (cases q)
    case (Inl e)
    then show ?thesis using network q nat close_removes by (auto simp: server_network_def)
  next
    case (Inr u)
    obtain w2 routes z where z: "install (routes_backend P) w1 RouteManager_new (server_operations routing) = (w2, routes, z)"
      by (cases "install (routes_backend P) w1 RouteManager_new (server_operations routing)")
    note new = install_new [OF z storable]
    show ?thesis
    proof (cases z)
      case (Inr u')
      have "\<forall>operation \<in> set (server_operations routing). achieved (view w2) operation"
        using net.install_achieves [of w1 RouteManager_new _ w2 routes, OF _ storable generated_consistent(2)] z Inr by simp
      moreover have "ns_table (view w2) = ns_table (view w1)"
        using new Inr net.chain_facts by auto
      ultimately show ?thesis
        using network q \<open>q = Ok u\<close> z Inr nat new by (auto simp: server_network_def)
    next
      case (Inl e)
      obtain w3 m3 c where c: "nat_restore (tables_backend P) w2 m = (w3, m3, c)"
        by (cases "nat_restore (tables_backend P) w2 m")
      have "view w3 = view w" if "c = Ok ()" "view w2 = view w1"
        using tables.nft.nat_restore_cases [OF _ c] nat \<open>q = Ok u\<close> that by auto
      then show ?thesis
        using network q \<open>q = Ok u\<close> z Inl new c close_removes
        by (cases c) (auto simp: server_network_def)
    qed
  qed
qed

lemma server_network_configured:
  assumes "server_network P w tun spec routing = (w', Ok (routes, m))" and "canonical_routes canonical routing"
    and spec: "build_nat_spec (pf_v4 P) tun routing = Ok spec" "\<And>s. spec = Some s \<Longrightarrow> plain_spec s"
  shows "server_configured P masquerades tun routing (view w')"
proof -
  note exact = server_network_exact [OF assms(1,2) spec(2)]
  have "\<exists>t egress address network. ns_table (view w') = Some t \<and> nat_egress_interface routing = Some egress \<and>
      tun_address tun = V4 address \<and> v4_new (pf_v4 P) address (tun_prefix_len tun) = Some network \<and>
      masquerades t (tun_name tun) egress (v4_trunc (pf_v4 P) network)" if nat: "enable_nat routing"
  proof -
    obtain egress address network where s: "nat_egress_interface routing = Some egress" "tun_address tun = V4 address"
      "v4_new (pf_v4 P) address (tun_prefix_len tun) = Some network"
      "spec = Some \<lparr>nat_source_network = v4_trunc (pf_v4 P) network, nat_tun_interface = tun_name tun, nat_egress = egress\<rparr>"
      using spec(1) nat by (auto simp: build_nat_spec_def and_then_Ok ok_or_def split: IpAddr.splits option.splits)
    with exact show ?thesis by auto
  qed
  moreover have "\<forall>operation \<in> set (server_operations routing). achieved (view w') operation"
    using exact by blast
  ultimately show ?thesis
    using server_operations_configured unfolding server_configured_def by blast
qed

text \<open>The state an application owns leads from \<open>v\<close> to \<open>v'\<close>; its device.\<close>

definition installed :: "('n, 't) NetState \<Rightarrow> ('n, 'r, 'h) Application \<Rightarrow> ('n, 't) NetState \<Rightarrow> bool" where
  "installed v app v' = (case app of
     Application.Client _ routes \<Rightarrow> net.linux.chain v (rm_applied routes) v'
   | Application.Server _ routes m \<Rightarrow> \<exists>u. tables.nft.owns_from v m u \<and> net.linux.chain u (rm_applied routes) v'
   | NoiseIkClient _ _ routes \<Rightarrow> net.linux.chain v (rm_applied routes) v'
   | NoiseIkServer _ _ routes m \<Rightarrow> \<exists>u. tables.nft.owns_from v m u \<and> net.linux.chain u (rm_applied routes) v')"

lemma client_cleanup_exact:
  assumes chain: "net.linux.chain v (rm_applied routes) v'" and cleanup: "client_cleanup P w routes = (w', Ok ())"
  shows "view w = v' \<Longrightarrow> view w' = v" "view w = without x v' \<Longrightarrow> view w' = without x v"
proof -
  obtain m' where r: "restore (routes_backend P) w routes = (w', m', Ok ())"
    using cleanup by (auto simp: client_cleanup_def map_sum_Ok split: prod.splits)
  note facts = net.chain_facts [OF chain]
  show "view w' = v" if "view w = v'"
    using net.linux.restore_Ok [OF _ r] chain that by simp
  show "view w' = without x v" if "view w = without x v'"
    using net.restore_after_loss [OF chain _ r] that meet_without [of v v' x] facts by simp
qed

lemma nat_restore_table:
  assumes "tables.nft.owns_from v m u" and "nat_restore (tables_backend P) w m = (w', m', Ok ())"
    and "ns_table (view w) = ns_table u"
  shows "view w' = (view w)\<lparr>ns_table := ns_table v\<rparr>"
proof (cases "nm_applied m")
  case None
  with assms show ?thesis by (simp add: tables.nft.owns_from_def nat_restore_def)
next
  case (Some a)
  then have "linux_nat_revert (pf_nat_json P) (pf_nat_run P) w a = (w', Ok ())" "ns_table v = None"
    using assms(1,2)
    by (auto simp: nat_restore_def LinuxNatBackend_def tables.nft.owns_from_def nat_owned_def split: prod.splits sum.splits)
  with tables.linux_nat_revert_exact [OF this(1)] show ?thesis
    by (auto intro: NetState_eqI)
qed

lemma server_cleanup_exact:
  assumes owns: "tables.nft.owns_from v m u" and chain: "net.linux.chain u (rm_applied routes) v'"
    and cleanup: "server_cleanup P w routes m = (w', Ok ())"
  shows "view w = v' \<Longrightarrow> view w' = v" "view w = without x v' \<Longrightarrow> view w' = without x v"
proof -
  obtain w1 m1 m2 where r: "restore (routes_backend P) w routes = (w1, m1, Ok ())"
      and n: "nat_restore (tables_backend P) w1 m = (w', m2, Ok ())"
    using cleanup
    by (auto simp: server_cleanup_def combine_cleanup_results_def split: prod.splits sum.splits)
  have c: "client_cleanup P w routes = (w1, Ok ())" using r by (simp add: client_cleanup_def)
  have u: "u\<lparr>ns_table := ns_table v\<rparr> = v"
    using owns by (auto simp: tables.nft.owns_from_def nat_owned_def split: option.splits)
  show "view w' = v" if "view w = v'"
    using client_cleanup_exact(1) [OF chain c that] nat_restore_table [OF owns n] u by simp
  have swap: "(without x u)\<lparr>ns_table := ns_table v\<rparr> = without x (u\<lparr>ns_table := ns_table v\<rparr>)"
    by (simp add: without_def)
  show "view w' = without x v" if "view w = without x v'"
    using client_cleanup_exact(2) [OF chain c that] nat_restore_table [OF owns n] swap [unfolded u] by simp
qed

lemma tun_effect:
  assumes "host_tun P w tun = (w', created)"
  shows "if created then without (tun_name tun) (view w') = without (tun_name tun) (view w) else view w' = view w"
  using assms tun_creates tun_fails by (cases created) simp_all

lemma bind_legacy_client_exact:
  assumes "bind_legacy_client P w cc = (w', r)"
  shows "(\<forall>c. r = Ok c \<longrightarrow> c = cc \<and> without (tun_name (cc_tun cc)) (view w') = without (tun_name (cc_tun cc)) (view w)) \<and>
    (\<forall>e. r = Err e \<longrightarrow> view w' = view w \<and> \<not> leaves_state e)"
proof -
  obtain w1 b where 1: "host_bind P w (cc_bind_addr cc) = (w1, b)" by (cases "host_bind P w (cc_bind_addr cc)")
  obtain w2 c where 2: "host_connect P w1 (cc_server_addr cc) = (w2, c)"
    by (cases "host_connect P w1 (cc_server_addr cc)")
  obtain w3 t where 3: "host_tun P w2 (cc_tun cc) = (w3, t)" by (cases "host_tun P w2 (cc_tun cc)")
  show ?thesis
    using assms 1 2 3 bind_keeps [OF 1] connect_keeps [OF 2] tun_effect [OF 3]
    by (cases b; cases c; cases t) (auto simp: bind_legacy_client_def client_bind_def try_step_def)
qed

lemma bind_legacy_server_exact:
  assumes "bind_legacy_server P w sc = (w', r)"
  shows "(\<forall>c. r = Ok c \<longrightarrow> c = sc \<and> without (tun_name (svc_tun sc)) (view w') = without (tun_name (svc_tun sc)) (view w)) \<and>
    (\<forall>e. r = Err e \<longrightarrow> view w' = view w \<and> \<not> leaves_state e)"
proof -
  obtain w1 b where 1: "host_bind P w (svc_bind_addr sc) = (w1, b)" by (cases "host_bind P w (svc_bind_addr sc)")
  obtain w2 t where 2: "host_tun P w1 (svc_tun sc) = (w2, t)" by (cases "host_tun P w1 (svc_tun sc)")
  show ?thesis
    using assms 1 2 bind_keeps [OF 1] tun_effect [OF 2]
    by (cases b; cases t) (auto simp: bind_legacy_server_def server_bind_def try_step_def)
qed

lemma bind_noise_endpoint_exact:
  assumes "bind_noise_endpoint P w mode security tun = (w', r)"
  shows "(\<forall>x. r = Ok x \<longrightarrow> without (tun_name tun) (view w') = without (tun_name tun) (view w)) \<and>
    (\<forall>e. r = Err e \<longrightarrow> view w' \<in> {view w, without (tun_name tun) (view w)} \<and> \<not> leaves_state e)"
proof -
  obtain w1 c where 1: "host_tun P w tun = (w1, c)" by (cases "host_tun P w tun")
  obtain w2 b where 2: "host_bind P w1 (bind_addr mode) = (w2, b)" by (cases "host_bind P w1 (bind_addr mode)")
  have v2: "view w2 = view w1" using bind_keeps [OF 2] .
  show ?thesis
  proof (cases c)
    case False
    then show ?thesis using assms 1 tun_fails by (auto simp: bind_noise_endpoint_def)
  next
    case True
    then have "without (tun_name tun) (view w1) = without (tun_name tun) (view w)" using tun_creates 1 by simp
    then show ?thesis
      using assms 1 2 v2 True close_removes
      by (auto simp: bind_noise_endpoint_def Let_def split: sum.splits)
  qed
qed

text \<open>
  Binding in two stages: the endpoint, which adds routes of its device only, then the network state.
  \<open>bound v0 w config\<close> names the state between them.
\<close>

definition bound :: "('n, 't) NetState \<Rightarrow> 'w \<Rightarrow> 'n Config \<Rightarrow> bool" where
  "bound v w config \<longleftrightarrow> without (tun_name (cfg_tun config)) v = without (tun_name (cfg_tun config)) (view w)"

lemma client_stage:
  assumes endpoint: "without (tun_name tun) (view w1) = without (tun_name tun) (view w)"
    and network: "client_network P w1 tun routing server = (w', r)" and canonical: "canonical_routes canonical routing"
    and config: "cfg_tun config = tun"
  shows "(\<forall>routes. r = Ok routes \<longrightarrow> (\<exists>v. bound v w config \<and> net.linux.chain v (rm_applied routes) (view w')) \<and>
      client_configured P w1 tun routing server (view w')) \<and>
    (\<forall>e. r = Err e \<longrightarrow> \<not> leaves_state e \<longrightarrow> view w' = without (tun_name tun) (view w))"
  using client_network_exact [OF network canonical] client_network_configured [of w1 tun routing server w']
    network canonical endpoint config
  by (auto simp: bound_def)

lemma server_stage:
  assumes endpoint: "without (tun_name tun) (view w1) = without (tun_name tun) (view w)"
    and network: "server_network P w1 tun spec routing = (w', r)" and canonical: "canonical_routes canonical routing"
    and spec: "build_nat_spec (pf_v4 P) tun routing = Ok spec" "\<And>s. spec = Some s \<Longrightarrow> plain_spec s"
    and config: "cfg_tun config = tun"
  shows "(\<forall>routes m. r = Ok (routes, m) \<longrightarrow>
      (\<exists>v u. bound v w config \<and> tables.nft.owns_from v m u \<and> net.linux.chain u (rm_applied routes) (view w')) \<and>
      server_configured P masquerades tun routing (view w')) \<and>
    (\<forall>e. r = Err e \<longrightarrow> \<not> leaves_state e \<longrightarrow> view w' = without (tun_name tun) (view w))"
  using server_network_exact [OF network canonical spec(2)]
    server_network_configured [OF _ canonical spec, of w1 w'] network endpoint config
  by (simp add: bound_def) blast

text \<open>
  What binding achieves: the network state is the configured one, and the application owns what leads
  there from the state before, less the routes of the device. An error has restored it, or says that it
  could not.
\<close>

definition bind_ok :: "'w \<Rightarrow> 'n Config \<Rightarrow> ('w, 'n, ('n, 'r, 'h) Application) app_step \<Rightarrow> bool" where
  "bind_ok w config s \<longleftrightarrow> (case s of
     (w', Inr app) \<Rightarrow> app_tun app = cfg_tun config \<and> (\<exists>v. bound v w config \<and> installed v app (view w')) \<and>
       (case cfg_mode config of
          ModeConfig.Client address server \<Rightarrow>
            client_configured P (endpoint_bound P w config address server) (cfg_tun config) (cfg_routing config) server (view w')
        | ModeConfig.Server _ \<Rightarrow>
            server_configured P masquerades (cfg_tun config) (cfg_routing config) (view w'))
   | (w', Inl e) \<Rightarrow> \<not> leaves_state e \<longrightarrow> view w' \<in> {view w, without (tun_name (cfg_tun config)) (view w)})"

lemma client_bind_ok:
  assumes config: "cfg_mode config = ModeConfig.Client a server" "cfg_tun config = tun" "cfg_routing config = routing"
    and canonical: "canonical_routes canonical routing"
    and endpoint: "(\<forall>x. r = Ok x \<longrightarrow> without (tun_name tun) (view w1) = without (tun_name tun) (view w)) \<and>
      (\<forall>e. r = Err e \<longrightarrow> view w1 \<in> {view w, without (tun_name tun) (view w)} \<and> \<not> leaves_state e)"
    and world: "w1 = endpoint_bound P w config a server"
    and app: "\<And>x routes. r = Ok x \<Longrightarrow> app_tun (app x routes) = tun \<and>
      (\<forall>v v'. installed v (app x routes) v' \<longleftrightarrow> net.linux.chain v (rm_applied routes) v')"
  shows "bind_ok w config (bind_st (w1, r) (\<lambda>w x. bind_st (client_network P w tun routing server) (\<lambda>w routes.
    (w, Ok (app x routes)))))"
proof (cases r)
  case (Inl e)
  then show ?thesis using endpoint config by (simp add: bind_ok_def)
next
  case (Inr x)
  obtain w2 q where q: "client_network P w1 tun routing server = (w2, q)"
    by (cases "client_network P w1 tun routing server")
  have e: "without (tun_name tun) (view w1) = without (tun_name tun) (view w)" using endpoint Inr by simp
  from client_stage [OF e q canonical config(2)] show ?thesis
    using Inr q config app world by (cases q) (auto simp: bind_ok_def)
qed

lemma server_bind_ok:
  assumes config: "cfg_mode config = ModeConfig.Server a" "cfg_tun config = tun" "cfg_routing config = routing"
    and canonical: "canonical_routes canonical routing"
    and spec: "build_nat_spec (pf_v4 P) tun routing = Ok spec" "\<And>s. spec = Some s \<Longrightarrow> plain_spec s"
    and endpoint: "(\<forall>x. r = Ok x \<longrightarrow> without (tun_name tun) (view w1) = without (tun_name tun) (view w)) \<and>
      (\<forall>e. r = Err e \<longrightarrow> view w1 \<in> {view w, without (tun_name tun) (view w)} \<and> \<not> leaves_state e)"
    and app: "\<And>x routes m. r = Ok x \<Longrightarrow> app_tun (app x routes m) = tun \<and>
      (\<forall>v v'. installed v (app x routes m) v' \<longleftrightarrow>
        (\<exists>u. tables.nft.owns_from v m u \<and> net.linux.chain u (rm_applied routes) v'))"
  shows "bind_ok w config (bind_st (w1, r) (\<lambda>w x. bind_st (server_network P w tun spec routing) (\<lambda>w (routes, m).
    (w, Ok (app x routes m)))))"
proof (cases r)
  case (Inl e)
  then show ?thesis using endpoint config by (simp add: bind_ok_def)
next
  case (Inr x)
  obtain w2 q where q: "server_network P w1 tun spec routing = (w2, q)"
    by (cases "server_network P w1 tun spec routing")
  have e: "without (tun_name tun) (view w1) = without (tun_name tun) (view w)" using endpoint Inr by simp
  from server_stage [OF e q canonical spec config(2)] show ?thesis
    using Inr q config app by (cases q) (auto simp: bind_ok_def)
qed

text \<open>The configurations the laws of the tools are about: their routes are canonical and their NAT names plain.\<close>

definition lawful :: "'n Config \<Rightarrow> bool" where
  "lawful config \<longleftrightarrow> canonical_routes canonical (cfg_routing config) \<and>
     (\<forall>a s. cfg_mode config = ModeConfig.Server a \<longrightarrow>
        build_nat_spec (pf_v4 P) (cfg_tun config) (cfg_routing config) = Ok (Some s) \<longrightarrow> plain_spec s)"

lemma validated_lawful:
  assumes "validate N fs config = Ok ()" and "canonical_routes canonical (cfg_routing config)"
  shows "lawful config"
  using assms validated_spec_plain [where M = "pf_v4 P"]
  by (auto simp: lawful_def validate_def and_then_Ok)

lemma bind_client_mode_ok:
  assumes Client: "cfg_mode config = ModeConfig.Client a server" and lawful: "lawful config"
  shows "bind_ok w config (bind_application P w config)"
proof -
  let ?tun = "cfg_tun config" and ?routing = "cfg_routing config"
  let ?cc = "\<lparr>cc_bind_addr = a, cc_server_addr = server, cc_tun = ?tun\<rparr>"
  have c: "canonical_routes canonical ?routing" using lawful by (simp add: lawful_def)
  obtain w1 r where legacy: "bind_legacy_client P w ?cc = (w1, r)" by (cases "bind_legacy_client P w ?cc")
  obtain w2 q where noise: "bind_noise_endpoint P w (ModeConfig.Client a server) (cfg_security config) ?tun = (w2, q)"
    by (cases "bind_noise_endpoint P w (ModeConfig.Client a server) (cfg_security config) ?tun")
  show ?thesis
  proof (cases "security_mode (cfg_security config) = NoiseIk")
    case True
    then have "bind_ok w config (bind_st (w2, q) (\<lambda>w x. bind_st (client_network P w ?tun ?routing server) (\<lambda>w routes.
        (w, Ok (NoiseIkClient x ?tun routes)))))"
      using bind_noise_endpoint_exact [OF noise] noise
      by (intro client_bind_ok [OF Client refl refl c]) (auto simp: app_tun_def installed_def endpoint_bound_def)
    with True show ?thesis by (simp add: bind_application_def bind_noise_ik_def Client noise Let_def)
  next
    case False
    then have "bind_ok w config (bind_st (w1, r) (\<lambda>w x. bind_st (client_network P w ?tun ?routing server) (\<lambda>w routes.
        (w, Ok (Application.Client x routes)))))"
      using bind_legacy_client_exact [OF legacy] legacy
      by (intro client_bind_ok [OF Client refl refl c]) (auto simp: app_tun_def installed_def endpoint_bound_def)
    with False show ?thesis by (simp add: bind_application_def Client legacy Let_def)
  qed
qed

lemma bind_server_mode_ok:
  assumes Server: "cfg_mode config = ModeConfig.Server a" and lawful: "lawful config"
  shows "bind_ok w config (bind_application P w config)"
proof -
  let ?tun = "cfg_tun config" and ?routing = "cfg_routing config"
  let ?w = "fst (run_server_firewall_diagnostics P w ?tun ?routing)"
  have d: "view ?w = view w" by (rule diagnostics_keep)
  have shift: "bind_ok w config s \<longleftrightarrow> bind_ok ?w config s" for s
    unfolding bind_ok_def bound_def d Server by simp
  let ?sc = "\<lparr>svc_bind_addr = a, svc_tun = ?tun\<rparr>"
  show ?thesis
  proof (cases "build_nat_spec (pf_v4 P) ?tun ?routing")
    case (Inl e)
    then show ?thesis
      using d by (simp add: bind_application_def bind_noise_ik_def Server bind_ok_def Let_def)
  next
    case (Inr spec)
    have c: "canonical_routes canonical ?routing" and plain: "\<And>s. spec = Some s \<Longrightarrow> plain_spec s"
      using lawful Inr Server by (auto simp: lawful_def)
    obtain w1 r where legacy: "bind_legacy_server P ?w ?sc = (w1, r)" by (cases "bind_legacy_server P ?w ?sc")
    obtain w2 q where noise: "bind_noise_endpoint P ?w (ModeConfig.Server a) (cfg_security config) ?tun = (w2, q)"
      by (cases "bind_noise_endpoint P ?w (ModeConfig.Server a) (cfg_security config) ?tun")
    have "bind_ok ?w config (bind_st (w1, r) (\<lambda>w x. bind_st (server_network P w ?tun spec ?routing) (\<lambda>w (routes, m).
        (w, Ok (Application.Server x routes m)))))"
      using bind_legacy_server_exact [OF legacy]
      by (intro server_bind_ok [OF Server refl refl c Inr plain]) (auto simp: app_tun_def installed_def)
    moreover have "bind_ok ?w config (bind_st (w2, q) (\<lambda>w x. bind_st (server_network P w ?tun spec ?routing) (\<lambda>w (routes, m).
        (w, Ok (NoiseIkServer x ?tun routes m)))))"
      using bind_noise_endpoint_exact [OF noise]
      by (intro server_bind_ok [OF Server refl refl c Inr plain]) (auto simp: app_tun_def installed_def)
    ultimately show ?thesis
      unfolding shift by (simp add: bind_application_def bind_noise_ik_def Server Inr legacy noise Let_def)
  qed
qed

lemma bind_application_ok: "lawful config \<Longrightarrow> bind_ok w config (bind_application P w config)"
  using bind_client_mode_ok bind_server_mode_ok by (cases "cfg_mode config") blast+

text \<open>No cleanup error: the run itself may have failed.\<close>

lemma finish_run_clean:
  assumes "finish_run P w tun run_result cleanup = (w', Returned r)" and "r = Ok () \<or> (\<exists>e. r = Err (RunFailed e))"
  shows "cleanup w = (w', Ok ())"
  using assms
  by (cases run_result; cases "cleanup w")
    (auto simp: finish_run_def combine_run_and_cleanup_def split: prod.splits sum.splits)

lemma run_application_restores:
  assumes "installed v app (view w)" and "run_application P w app = (w', Returned r)"
    and clean: "r = Ok () \<or> (\<exists>e. r = Err (RunFailed e))"
  shows "view w' = without (tun_name (app_tun app)) v"
proof (cases app)
  case (Client client routes)
  then obtain w1 where c: "client_cleanup P (host_pass P w) routes = (w1, Ok ())" "w' = host_close P w1 (cc_tun client)"
    using finish_run_clean [OF _ clean] assms(2)
    by (auto simp: run_application_def apfst_def map_prod_def split: prod.splits dest!: finish_run_clean [OF _ clean])
  then show ?thesis
    using client_cleanup_exact(1) [OF _ c(1)] assms(1) Client pass_keeps close_removes
    by (simp add: installed_def app_tun_def)
next
  case (Server server routes m)
  then obtain w1 where c: "server_cleanup P (host_pass P w) routes m = (w1, Ok ())" "w' = host_close P w1 (svc_tun server)"
    using assms(2)
    by (auto simp: run_application_def apfst_def map_prod_def split: prod.splits dest!: finish_run_clean [OF _ clean])
  then show ?thesis
    using server_cleanup_exact(1) [OF _ _ c(1)] assms(1) Server pass_keeps close_removes
    by (auto simp: installed_def app_tun_def)
next
  case (NoiseIkClient runtime tun routes)
  then have c: "client_cleanup P (host_close P (host_pass P w) tun) routes = (w', Ok ())"
    using assms(2) by (auto simp: run_application_def dest!: finish_run_clean [OF _ clean])
  then show ?thesis
    using client_cleanup_exact(2) [OF _ c] assms(1) NoiseIkClient pass_keeps close_removes
    by (simp add: installed_def app_tun_def)
next
  case (NoiseIkServer runtime tun routes m)
  then have c: "server_cleanup P (host_close P (host_pass P w) tun) routes m = (w', Ok ())"
    using assms(2) by (auto simp: run_application_def dest!: finish_run_clean [OF _ clean])
  then show ?thesis
    using server_cleanup_exact(2) [OF _ _ c] assms(1) NoiseIkServer pass_keeps close_removes
    by (auto simp: installed_def app_tun_def)
qed

text \<open>Binding and then running, without a cleanup error.\<close>

lemma bind_run_restores:
  assumes "bind_application P w config = (w1, Ok app)" and "run_application P w1 app = (w2, Returned r)"
    and "r = Ok () \<or> (\<exists>e. r = Err (RunFailed e))" and "lawful config"
  shows "view w2 = without (tun_name (cfg_tun config)) (view w)"
proof -
  obtain v where "app_tun app = cfg_tun config" "bound v w config" "installed v app (view w1)"
    using bind_application_ok [of config w] assms(1,4) by (auto simp: bind_ok_def)
  with run_application_restores [OF _ assms(2,3), of v] show ?thesis by (simp add: bound_def)
qed

lemma bind_failure_restores:
  assumes "bind_application P w config = (w', Err e)" and "\<not> leaves_state e" and "lawful config"
  shows "view w' \<in> {view w, without (tun_name (cfg_tun config)) (view w)}"
  using bind_application_ok [of config w] assms by (simp add: bind_ok_def)

end

end
