(* ===== verification/Network_Lifecycle.thy ===== *)
theory Network_Lifecycle
  imports Application
begin

text \<open>
  The network state over a whole run of the program. A small simulated host, with one route per
  destination, implements the command lines, their output and their parsers; the interpretation of
  \<open>platform\<close> on it shows that the laws of the tools can hold together. Then the properties that span
  configuration, endpoints, NAT and routing.
\<close>

section \<open>A simulated host\<close>

text \<open>
  Networks are their texts; an address is its family and its bytes. A field of a record is its length in
  unary and its bytes. A route without a device is a blackhole. The table is the text it was loaded from.
\<close>

record Sim =
  sim_routes :: "bytes \<Rightarrow> (IpAddr option \<times> bytes option) option"
  sim_forwarding :: bool
  sim_table :: "bytes option"

definition sim_addr_text :: "IpAddr \<Rightarrow> bytes" where
  "sim_addr_text a = (case a of V4 v \<Rightarrow> 4 # be_bytes 4 (unat v) | V6 v \<Rightarrow> 6 # be_bytes 16 (unat v))"

definition sim_parse_addr :: "bytes \<Rightarrow> IpAddr option" where
  "sim_parse_addr t = (case t of
     [] \<Rightarrow> None
   | f # bs \<Rightarrow> if f = 4 then Some (V4 (word_of_nat (from_be 0 bs))) else Some (V6 (word_of_nat (from_be 0 bs))))"

lemma sim_addr_roundtrip [simp]: "sim_parse_addr (sim_addr_text a) = Some a"
proof (cases a)
  case (V4 v)
  have "unat v < 256 ^ 4" using unsigned_less [of v] by simp
  with V4 show ?thesis by (simp add: sim_addr_text_def sim_parse_addr_def from_be_be_bytes)
next
  case (V6 v)
  have "unat v < 256 ^ 16" using unsigned_less [of v] by simp
  with V6 show ?thesis by (simp add: sim_addr_text_def sim_parse_addr_def from_be_be_bytes)
qed

definition sim_nets :: "bytes NetText" where
  "sim_nets = \<lparr>net_prefix_len = (\<lambda>n. if n = str ''default'' then 0 else 16), net_addr = (\<lambda>_. V4 0),
     net_contains = (\<lambda>_ _. False), net_to_string = id, addr_to_string = sim_addr_text,
     parse_net = Some, parse_addr = sim_parse_addr, net_from_addr = sim_addr_text\<rparr>"

lemma sim_nets_parse [simp]: "parse_net sim_nets = Some" "net_prefix_len sim_nets (str ''default'') = 0"
  by (simp_all add: sim_nets_def)

definition field :: "bytes \<Rightarrow> bytes" where
  "field x = replicate (length x) 1 @ 0 # x"

definition unfield :: "bytes \<Rightarrow> bytes \<times> bytes" where
  "unfield bs = (let n = length (takeWhile (\<lambda>b. b = 1) bs); rest = drop (n + 1) bs in (take n rest, drop n rest))"

lemma unfield_field [simp]: "unfield (field x @ bs) = (x, bs)"
proof -
  have "takeWhile (\<lambda>b. b = 1) (replicate n 1 @ 0 # x @ bs) = replicate n (1 :: u8)" for n
    by (induction n) auto
  then show ?thesis by (simp add: field_def unfield_def Let_def)
qed

lemma unfield_field_only [simp]: "unfield (field x) = (x, [])"
  using unfield_field [of x "[]"] by simp

definition sim_print_routes :: "bytes \<Rightarrow> (IpAddr option \<times> bytes option) option \<Rightarrow> bytes" where
  "sim_print_routes d e = (case e of
     None \<Rightarrow> []
   | Some (g, dev) \<Rightarrow> field d @ field (case dev of None \<Rightarrow> [] | Some x \<Rightarrow> 1 # x) @
       (case g of None \<Rightarrow> [] | Some a \<Rightarrow> sim_addr_text a))"

definition sim_parse_routes :: "bytes \<Rightarrow> IpRoute list option" where
  "sim_parse_routes bs =
     (if bs = [] then Some []
      else let (d, bs) = unfield bs; (dev, g) = unfield bs
           in Some [\<lparr>rt_dst = Some d, rt_dev = (case dev of [] \<Rightarrow> None | _ # x \<Rightarrow> Some x),
                     rt_gateway = if g = [] then None else Some g\<rparr>])"

lemma sim_routes_roundtrip:
  "sim_parse_routes (sim_print_routes d e) = Some (case e of
     None \<Rightarrow> []
   | Some (g, dev) \<Rightarrow> [\<lparr>rt_dst = Some d, rt_dev = dev, rt_gateway = map_option sim_addr_text g\<rparr>])"
proof (cases e)
  case (Some p)
  obtain g dev where p: "p = (g, dev)" by (cases p)
  have "sim_addr_text a \<noteq> []" for a by (cases a) (simp_all add: sim_addr_text_def)
  moreover have "field d @ bs \<noteq> []" for bs by (simp add: field_def)
  ultimately show ?thesis
    using Some p by (cases g; cases dev) (auto simp: sim_print_routes_def sim_parse_routes_def)
qed (simp add: sim_print_routes_def sim_parse_routes_def)

text \<open>A lookup reports one gateway on the device \<open>eth0\<close>.\<close>

definition sim_route_json :: RouteJson where
  "sim_route_json = \<lparr>from_str_routes = sim_parse_routes,
     from_str_lookup = (\<lambda>t. Some [\<lparr>lk_gateway = Some t, lk_dev = Some (str ''eth0'')\<rparr>])\<rparr>"

abbreviation sim_ok :: "bytes \<Rightarrow> (CommandResult, unit) result" where
  "sim_ok out \<equiv> Ok \<lparr>cmd_success = True, cmd_exit_code = Some 0, cmd_stdout = out, cmd_stderr = []\<rparr>"

abbreviation sim_fail :: "(CommandResult, unit) result" where
  "sim_fail \<equiv> Ok \<lparr>cmd_success = False, cmd_exit_code = Some 2, cmd_stdout = [], cmd_stderr = []\<rparr>"

text \<open>The next hop and device of \<open>via\<close> and \<open>dev\<close>.\<close>

fun sim_hop :: "bytes list \<Rightarrow> IpAddr option \<times> bytes option" where
  "sim_hop (k # x # rest) =
     (if k = str ''via'' then apfst (\<lambda>_. sim_parse_addr x) (sim_hop rest)
      else if k = str ''dev'' then apsnd (\<lambda>_. Some x) (sim_hop rest)
      else (None, None))"
| "sim_hop _ = (None, None)"

definition hop_args :: "IpAddr option \<Rightarrow> bytes option \<Rightarrow> bytes list" where
  "hop_args g i = (case g of Some g \<Rightarrow> [str ''via'', sim_addr_text g] | None \<Rightarrow> []) @
     (case i of Some i \<Rightarrow> [str ''dev'', i] | None \<Rightarrow> [])"

lemma sim_hop_args [simp]: "sim_hop (hop_args g i) = (g, i)"
  by (cases g; cases i) (auto simp: hop_args_def)

definition sim_add :: "Sim \<Rightarrow> bytes \<Rightarrow> IpAddr option \<times> bytes option \<Rightarrow> Sim \<times> (CommandResult, unit) result" where
  "sim_add w d hop =
     (if sim_routes w d \<noteq> None then (w, sim_fail)
      else (w\<lparr>sim_routes := (sim_routes w)(d \<mapsto> (fst hop, case snd hop of Some i \<Rightarrow> Some i | None \<Rightarrow> Some (str ''eth0'')))\<rparr>, sim_ok []))"

definition sim_del :: "Sim \<Rightarrow> bytes \<Rightarrow> IpAddr option \<times> bytes option \<Rightarrow> Sim \<times> (CommandResult, unit) result" where
  "sim_del w d hop = (case sim_routes w d of
     Some (g, dev) \<Rightarrow>
       if (fst hop = None \<or> fst hop = g) \<and> (snd hop = None \<or> snd hop = dev)
       then (w\<lparr>sim_routes := (sim_routes w)(d := None)\<rparr>, sim_ok []) else (w, sim_fail)
   | None \<Rightarrow> (w, sim_fail))"

definition sim_run :: "Sim runner" where
  "sim_run w program args = (case args of
     a # b # d # rest \<Rightarrow>
       if program = str ''ip'' \<and> a = str ''route'' \<and> b = str ''add'' then sim_add w d (sim_hop rest)
       else if program = str ''ip'' \<and> a = str ''route'' \<and> b = str ''del'' then sim_del w d (sim_hop rest)
       else if program = str ''ip'' \<and> take 4 args = map str [''-j'', ''route'', ''show'', ''exact'']
       then (let d = last args in (w, sim_ok (sim_print_routes d (sim_routes w d))))
       else if program = str ''ip'' \<and> take 3 args = map str [''-j'', ''route'', ''get'']
       then (w, sim_ok (sim_addr_text (V4 1)))
       else (w, sim_fail)
   | [a, b] \<Rightarrow>
       if args = read_ipv4_forwarding_args then (w, sim_ok (if sim_forwarding w then str ''1'' else str ''0''))
       else if args = write_ipv4_forwarding_args True then (w\<lparr>sim_forwarding := True\<rparr>, sim_ok [])
       else if args = write_ipv4_forwarding_args False then (w\<lparr>sim_forwarding := False\<rparr>, sim_ok [])
       else (w, sim_fail)
   | _ \<Rightarrow> (w, sim_fail))"

definition sim_entry :: "IpAddr option \<times> bytes option \<Rightarrow> route_entry" where
  "sim_entry e = (fst e, case snd e of None \<Rightarrow> [] | Some device \<Rightarrow> [device], [])"

definition sim_view :: "Sim \<Rightarrow> (bytes, bytes) NetState" where
  "sim_view w = \<lparr>ns_routes = (\<lambda>d. sim_entry ` set_option (sim_routes w d)), ns_forwarding = sim_forwarding w,
     ns_table = sim_table w\<rparr>"

abbreviation sim_canonical :: "bytes \<Rightarrow> IpAddr option \<Rightarrow> bool" where
  "sim_canonical d g \<equiv> True"

lemma sim_args:
  "show_route_args sim_nets d = [str ''-j'', str ''route'', str ''show'', str ''exact'', d]"
  "route_add_args sim_nets d g i = str ''route'' # str ''add'' # d # hop_args g i"
  "route_delete_args sim_nets d g i = str ''route'' # str ''del'' # d # hop_args g i"
  "route_get_args sim_nets a = [str ''-j'', str ''route'', str ''get'', sim_addr_text a]"
  by (simp_all add: show_route_args_def route_add_args_def route_delete_args_def route_get_args_def hop_args_def
      sim_nets_def split: option.splits)

lemma sim_run_ip:
  "sim_run w (str ''ip'') (show_route_args sim_nets d) = (w, sim_ok (sim_print_routes d (sim_routes w d)))"
  "sim_run w (str ''ip'') (route_add_args sim_nets d g i) = sim_add w d (g, i)"
  "sim_run w (str ''ip'') (route_delete_args sim_nets d g i) = sim_del w d (g, i)"
  "sim_run w (str ''ip'') (route_get_args sim_nets a) = (w, sim_ok (sim_addr_text (V4 1)))"
  unfolding sim_args by (simp_all add: sim_run_def)

lemma sim_run_sysctl:
  "sim_run w (str ''sysctl'') read_ipv4_forwarding_args =
     (w, sim_ok (if sim_forwarding w then str ''1'' else str ''0''))"
  "sim_run w (str ''sysctl'') (write_ipv4_forwarding_args b) = (w\<lparr>sim_forwarding := b\<rparr>, sim_ok [])"
  by (cases b; simp add: sim_run_def read_ipv4_forwarding_args_def write_ipv4_forwarding_args_def
      IPV4_FORWARDING_KEY_def str_def)+

lemma sim_lists: "lists sim_nets (case e of None \<Rightarrow> []
   | Some (g, dev) \<Rightarrow> [\<lparr>rt_dst = Some d, rt_dev = dev, rt_gateway = map_option sim_addr_text g\<rparr>]) d (sim_entry ` set_option e)"
  unfolding lists_def
  by (rule exI [of _ "case e of None \<Rightarrow> [] | Some p \<Rightarrow> [sim_entry p]"])
    (auto simp: destination_matches_def reports_def sim_entry_def sim_nets_def split: option.splits)

lemma sim_view_set: "sim_view (w\<lparr>sim_routes := (sim_routes w)(d := e)\<rparr>) = set_routes (sim_view w) d (sim_entry ` set_option e)"
  by (auto simp: sim_view_def fun_eq_iff)

lemma sim_trim: "trim (str ''0'') = str ''0''" "trim (str ''1'') = str ''1''"
  by code_simp+

interpretation sim_net: network_tools sim_nets sim_route_json sim_run sim_view sim_canonical
proof unfold_locales
  show "inj (addr_to_string sim_nets)"
    by (rule inj_on_inverseI [where g = "\<lambda>t. the (sim_parse_addr t)"]) (simp add: sim_nets_def)
next
  fix w d w' r
  assume "sim_run w (str ''ip'') (show_route_args sim_nets d) = (w', r)"
  then show "sim_view w' = sim_view w" by (simp add: sim_run_ip)
next
  fix w d w' result routes
  assume "sim_run w (str ''ip'') (show_route_args sim_nets d) = (w', Ok result)"
    "from_str_routes sim_route_json (cmd_stdout result) = Some routes"
  then show "lists sim_nets routes d (ns_routes (sim_view w) d)"
    using sim_lists [of d "sim_routes w d"]
    by (auto simp: sim_run_ip sim_route_json_def sim_routes_roundtrip sim_view_def)
next
  fix w d g i w' r
  assume a: "sim_run w (str ''ip'') (route_add_args sim_nets d g i) = (w', r)"
  show "\<exists>e. satisfies e g i \<and> sim_view w' = set_routes (sim_view w) d (insert e (ns_routes (sim_view w) d))" if "succeeds r"
  proof -
    let ?e = "(g, case i of Some i \<Rightarrow> Some i | None \<Rightarrow> Some (str ''eth0''))"
    have "sim_routes w d = None" and w': "w' = w\<lparr>sim_routes := (sim_routes w)(d \<mapsto> ?e)\<rparr>"
      using a that by (cases "sim_routes w d"; auto simp: sim_run_ip sim_add_def succeeds_def)+
    then have "ns_routes (sim_view w) d = {}" by (simp add: sim_view_def)
    moreover have "satisfies (sim_entry ?e) g i" by (simp add: satisfies_def sim_entry_def split: option.splits)
    ultimately show ?thesis by (intro exI [of _ "sim_entry ?e"]) (simp add: w' sim_view_set)
  qed
  show "sim_view w' = sim_view w" if "\<not> succeeds r"
    using a that by (auto simp: sim_run_ip sim_add_def succeeds_def split: if_splits)
next
  fix w d g i w' r
  assume a: "sim_run w (str ''ip'') (route_delete_args sim_nets d g i) = (w', r)"
  show "\<exists>e \<in> ns_routes (sim_view w) d. sim_view w' = set_routes (sim_view w) d (ns_routes (sim_view w) d - {e})"
    if ok: "succeeds r"
  proof -
    obtain e where "sim_routes w d = Some e" and w': "w' = w\<lparr>sim_routes := (sim_routes w)(d := None)\<rparr>"
      using a ok by (auto simp: sim_run_ip sim_del_def succeeds_def split: if_splits option.splits)
    then have "ns_routes (sim_view w) d = {sim_entry e}" by (simp add: sim_view_def)
    then show ?thesis by (simp add: w' sim_view_set)
  qed
  show "sim_view w' = sim_view w" if "\<not> succeeds r"
    using a that by (auto simp: sim_run_ip sim_del_def succeeds_def split: if_splits option.splits)
next
  fix w w' r result b
  show "sim_run w (str ''sysctl'') read_ipv4_forwarding_args = (w', r) \<Longrightarrow> sim_view w' = sim_view w"
    by (simp add: sim_run_sysctl)
  show "sim_run w (str ''sysctl'') read_ipv4_forwarding_args = (w', Ok result) \<Longrightarrow>
      parse_ipv4_forwarding (cmd_stdout result) = Ok b \<Longrightarrow> b = ns_forwarding (sim_view w)"
    by (auto simp: sim_run_sysctl parse_ipv4_forwarding_def sim_view_def sim_trim Let_def split: if_splits)
  show "sim_run w (str ''sysctl'') (write_ipv4_forwarding_args b) = (w', r) \<Longrightarrow>
      sim_view w' = (if succeeds r then (sim_view w)\<lparr>ns_forwarding := b\<rparr> else sim_view w)"
    by (auto simp: sim_run_sysctl sim_view_def succeeds_def)
next
  fix w a w' r
  assume "sim_run w (str ''ip'') (route_get_args sim_nets a) = (w', r)"
  then show "sim_view w' = sim_view w" by (simp add: sim_run_ip)
qed simp

text \<open>
  The listing of the table is the text it was loaded from. A text that does not begin with the creation
  of the table is accepted and creates none.
\<close>

definition sim_nat_json :: NatJson where
  "sim_nat_json = \<lparr>from_str_listing = (\<lambda>t. Some \<lparr>nl_nftables = if t = [] then []
       else [\<lparr>no_table = None\<rparr>, \<lparr>no_table = Some \<lparr>nt_family = NFT_TABLE_FAMILY, nt_name = NFT_TABLE_NAME\<rparr>\<rparr>]\<rparr>),
     from_str_value = (\<lambda>t. Some (String t))\<rparr>"

definition sim_nat_run :: "Sim nat_runner" where
  "sim_nat_run w program args stdin =
     (if program = str ''ip'' then (w, sim_ok [])
      else if args = list_tables_args then (w, sim_ok (if sim_table w = None then [] else [1]))
      else if args = load_args
      then (case stdin of
              Some text \<Rightarrow>
                if take 24 text \<noteq> str ''add table ip crabnet_nat'' then (w, sim_ok [])
                else if sim_table w \<noteq> None then (w, sim_fail)
                else (w\<lparr>sim_table := Some text\<rparr>, sim_ok [])
            | None \<Rightarrow> (w, sim_fail))
      else if args = list_table_args then (w, case sim_table w of Some t \<Rightarrow> sim_ok t | None \<Rightarrow> sim_fail)
      else if args = delete_table_args
      then (if sim_table w = None then (w, sim_fail) else (w\<lparr>sim_table := None\<rparr>, sim_ok []))
      else (w, sim_fail))"

abbreviation sim_masquerades :: "bytes \<Rightarrow> bytes \<Rightarrow> bytes \<Rightarrow> unit \<Rightarrow> bool" where
  "sim_masquerades t tun egress n \<equiv> t = nat_script tun egress (v4_to_string example_nets n)"

lemma nat_script_begins: "take 24 (nat_script tun egress source) = str ''add table ip crabnet_nat''"
  by (simp add: nat_script_def str_def)

lemma sim_nat_runs:
  "sim_nat_run w (str ''ip'') args stdin = (w, sim_ok [])"
  "sim_nat_run w (str ''nft'') list_tables_args stdin = (w, sim_ok (if sim_table w = None then [] else [1]))"
  "sim_nat_run w (str ''nft'') load_args (Some (nat_script tun egress source)) =
     (if sim_table w \<noteq> None then (w, sim_fail)
      else (w\<lparr>sim_table := Some (nat_script tun egress source)\<rparr>, sim_ok []))"
  "sim_nat_run w (str ''nft'') list_table_args stdin = (w, case sim_table w of Some t \<Rightarrow> sim_ok t | None \<Rightarrow> sim_fail)"
  "sim_nat_run w (str ''nft'') delete_table_args stdin =
     (if sim_table w = None then (w, sim_fail) else (w\<lparr>sim_table := None\<rparr>, sim_ok []))"
  by (simp_all add: sim_nat_run_def nat_script_begins)

interpretation sim_tables: nft_tools example_nets sim_nat_json sim_nat_run sim_view String sim_masquerades
proof unfold_locales
  fix w w' and r :: "(CommandResult, unit) result" and ruleset
  assume "sim_nat_run w (str ''nft'') load_args (Some ruleset) = (w', r)" "\<not> succeeds r"
  then show "sim_view w' = sim_view w"
    by (auto simp: sim_nat_run_def succeeds_def split: if_splits)
qed (auto simp: sim_nat_runs sim_nat_json_def sim_view_def succeeds_def normalize_fingerprint_def
    split: if_splits option.splits)

definition sim_close :: "Sim \<Rightarrow> TunConfig \<Rightarrow> Sim" where
  "sim_close w tun = w\<lparr>sim_routes := (\<lambda>d. case sim_routes w d of
     Some (g, dev) \<Rightarrow> if dev = Some (tun_name tun) then None else Some (g, dev)
   | None \<Rightarrow> None)\<rparr>"

text \<open>Creating the device adds the route of its network, if the destination is free.\<close>

definition sim_tun :: "Sim \<Rightarrow> TunConfig \<Rightarrow> Sim \<times> bool" where
  "sim_tun w tun = (let d = str ''10.0.0.0/24'' in
     (if sim_routes w d = None then w\<lparr>sim_routes := (sim_routes w)(d \<mapsto> (None, Some (tun_name tun)))\<rparr> else w, True))"

text \<open>Every endpoint is interrupted at once, respectively times out.\<close>

definition sim_platform :: "(Sim, bytes, unit, nat, clear_state) Platform" where
  "sim_platform = \<lparr>pf_nets = sim_nets, pf_new_net = (\<lambda>a p. Some (if p = 0 then str ''default'' else sim_addr_text a)), pf_v4 = example_nets,
     pf_route_json = sim_route_json, pf_nat_json = sim_nat_json, pf_chain_json = (\<lambda>_. Some []), pf_lowercase = id,
     pf_route_run = sim_run, pf_nat_run = sim_nat_run, pf_firewall_run = (\<lambda>w _ _. (w, sim_ok [])),
     pf_firewall_elapsed = (\<lambda>_. False), pf_snow = clear_snow, pf_files = (\<lambda>_. (None, None)), pf_entropy = (\<lambda>_. 0),
     host_bind = (\<lambda>w _. (w, True)), host_connect = (\<lambda>w _. (w, True)), host_tun = sim_tun,
     host_client_events = (\<lambda>_. [Interrupt True]), host_server_events = (\<lambda>_. [Interrupt True]),
     host_noise_client = (\<lambda>_. ((0, None), [HandshakeDeadline], [])), host_noise_server = (\<lambda>_. ([ServerReceiveError], [])),
     host_pass = id, host_close = sim_close\<rparr>"

lemma sim_platform_simps [simp]:
  "pf_nets sim_platform = sim_nets"
  "pf_new_net sim_platform = (\<lambda>a p. Some (if p = 0 then str ''default'' else sim_addr_text a))"
  "pf_v4 sim_platform = example_nets"
  "pf_route_json sim_platform = sim_route_json"
  "pf_nat_json sim_platform = sim_nat_json"
  "pf_chain_json sim_platform = (\<lambda>_. Some [])"
  "pf_lowercase sim_platform = id"
  "pf_route_run sim_platform = sim_run"
  "pf_nat_run sim_platform = sim_nat_run"
  "pf_firewall_run sim_platform = (\<lambda>w _ _. (w, sim_ok []))"
  "pf_firewall_elapsed sim_platform = (\<lambda>_. False)"
  "pf_snow sim_platform = clear_snow"
  "pf_files sim_platform = (\<lambda>_. (None, None))"
  "pf_entropy sim_platform = (\<lambda>_. 0)"
  "host_bind sim_platform = (\<lambda>w _. (w, True))"
  "host_connect sim_platform = (\<lambda>w _. (w, True))"
  "host_tun sim_platform = sim_tun"
  "host_client_events sim_platform = (\<lambda>_. [Interrupt True])"
  "host_server_events sim_platform = (\<lambda>_. [Interrupt True])"
  "host_noise_client sim_platform = (\<lambda>_. ((0, None), [HandshakeDeadline], []))"
  "host_noise_server sim_platform = (\<lambda>_. ([ServerReceiveError], []))"
  "host_pass sim_platform = id"
  "host_close sim_platform = sim_close"
  by (simp_all add: sim_platform_def)

interpretation sim: platform sim_platform sim_view String sim_masquerades sim_canonical
proof -
  have tun: "without (tun_name tun) (sim_view (fst (sim_tun w tun))) = without (tun_name tun) (sim_view w)" for w tun
    by (auto simp: sim_tun_def sim_view_def sim_entry_def without_def Let_def fun_eq_iff split: option.splits)
  have close: "sim_view (sim_close w tun) = without (tun_name tun) (sim_view w)" for w tun
    by (auto simp: sim_close_def sim_view_def sim_entry_def without_def fun_eq_iff split: option.splits if_splits)
  show "platform sim_platform sim_view String sim_masquerades sim_canonical"
    using sim_net.network_tools_axioms sim_tables.nft_tools_axioms tun close
    by (intro platform.intro platform_axioms.intro)
      (auto simp: sim_platform_def sim_tun_def Let_def dest: sym)
qed

section \<open>Properties\<close>

text \<open>
  C13. When the program has validated its configuration and binding succeeds, the network state is the one
  the configuration asks for. Client: every protected route of a split tunnel leads into the TUN device
  and nowhere else; with a full tunnel the default route leads into it, and the host route of the server
  leads where the host said it reaches the server, asked after the endpoint was bound and before any
  route was installed. Server: every configured route is present with its gateway and interface,
  forwarding is on when enabled, and with NAT the table masquerades what comes from the tunnel's network
  through the TUN device and leaves by the egress interface. The configured destinations have no host
  bits and their gateways are of their address family.
\<close>

theorem bind_configures:
  assumes platform: "platform P view print masquerades canonical"
    and "validate (IpNetLib.truncate (pf_nets P)) (pf_files P) config = Ok ()"
    and "canonical_routes canonical (cfg_routing config)"
    and "bind_application P w config = (w', Ok app)"
  shows "case cfg_mode config of
      ModeConfig.Client address server \<Rightarrow>
        client_configured P (endpoint_bound P w config address server) (cfg_tun config) (cfg_routing config) server (view w')
    | ModeConfig.Server _ \<Rightarrow>
        server_configured P masquerades (cfg_tun config) (cfg_routing config) (view w')"
  using platform.bind_application_ok [OF platform platform.validated_lawful [OF platform assms(2,3)], of w] assms(4)
  by (simp add: platform.bind_ok_def [OF platform] split: ModeConfig.splits)

text \<open>A server that forwards, with NAT and one route, on a host with a default route and a blackhole.\<close>

definition sim_start :: Sim where
  "sim_start = \<lparr>sim_routes = [str ''default'' \<mapsto> (Some (V4 1), Some (str ''eth0'')), str ''192.168.0.0/16'' \<mapsto> (None, None)],
     sim_forwarding = False, sim_table = None\<rparr>"

definition sim_server :: "bytes Config" where
  "sim_server = config_default\<lparr>cfg_mode := ModeConfig.Server (SocketV4 0 51820),
     cfg_routing := routing_default\<lparr>enable_forwarding := True, enable_nat := True,
       nat_egress_interface := Some (str ''eth0''),
       server_routes := [\<lparr>st_destination = str ''10.9.0.0/16'', st_gateway = None, st_interface = Some (str ''eth1'')\<rparr>]\<rparr>\<rparr>"

definition sim_script :: bytes where
  "sim_script = nat_script (tun_name (cfg_tun sim_server)) (str ''eth0'') (str ''10.0.0.0/24'')"

definition sim_installed :: Sim where
  "sim_installed = \<lparr>sim_routes = [str ''default'' \<mapsto> (Some (V4 1), Some (str ''eth0'')), str ''192.168.0.0/16'' \<mapsto> (None, None),
     str ''10.0.0.0/24'' \<mapsto> (None, Some (tun_name (cfg_tun sim_server))), str ''10.9.0.0/16'' \<mapsto> (None, Some (str ''eth1''))],
     sim_forwarding = True, sim_table = Some sim_script\<rparr>"

text \<open>A client with a full tunnel, on a host without a default route.\<close>

definition sim_alone :: Sim where
  "sim_alone = \<lparr>sim_routes = (\<lambda>_. None), sim_forwarding = False, sim_table = None\<rparr>"

definition sim_client :: "bytes Config" where
  "sim_client = config_default\<lparr>cfg_mode := ModeConfig.Client (SocketV4 0 0) (SocketV4 0xC0A80001 51820),
     cfg_routing := routing_default\<lparr>full_tunnel := True\<rparr>\<rparr>"

lemmas sim_evaluation = Let_def sim_server_def sim_start_def sim_installed_def sim_tun_def sim_add_def sim_del_def
  sim_nat_runs sim_run_ip sim_run_sysctl sim_trim sim_nat_json_def sim_route_json_def sim_routes_roundtrip
  sim_script_def render_nat_script example_nets_def check_result_def nat_run_checked_def run_checked_def table_exists_def inspect_table_def
  normalize_fingerprint_def LinuxNatBackend_def LinuxRouteBackend_def inspect_route_def classify_existing_route_def
  read_ipv4_forwarding_def write_ipv4_forwarding_def parse_ipv4_forwarding_def

lemma sim_server_binds:
  "bind_application sim_platform sim_start sim_server = (sim_installed, Ok (Application.Server
     \<lparr>svc_bind_addr = SocketV4 0 51820, svc_tun = cfg_tun sim_server\<rparr>
     \<lparr>rm_applied = [RouteAdded (str ''10.9.0.0/16'') None (Some (str ''eth1'')), Ipv4ForwardingChanged False]\<rparr>
     \<lparr>nm_applied = Some \<lparr>an_fingerprint = String sim_script\<rparr>\<rparr>))"
  by (simp add: sim_evaluation bind_application_def config_default_def routing_default_def security_default_def
      run_server_firewall_diagnostics_def build_diagnostic_context_def diagnose_def inspect_chains_def
      parse_forward_base_chains_def build_nat_spec_def bind_legacy_server_def try_step_def server_bind_def
      server_network_def nat_install_def NatManager_new_def linux_nat_apply_def inspect_interface_def
      capture_fingerprint_def install_def RouteManager_new_def server_operations_def linux_apply_def apply_route_def
      apply_ipv4_forwarding_def)

lemma sim_addr_texts: "parse_addr sim_nets = sim_parse_addr"
  "sim_addr_text a \<noteq> str ''default''" "sim_addr_text a \<noteq> str ''10.0.0.0/24''"
  "str ''default'' \<noteq> sim_addr_text a" "str ''10.0.0.0/24'' \<noteq> sim_addr_text a"
  by (cases a; simp add: sim_nets_def sim_addr_text_def str_def)+

lemma sim_client_binds:
  "\<exists>w app. bind_application sim_platform sim_alone sim_client = (w, Ok app)"
  by (simp add: sim_evaluation bind_application_def sim_alone_def sim_client_def config_default_def routing_default_def
      security_default_def bind_legacy_client_def try_step_def client_bind_def client_network_def client_operations_def
      resolve_underlay_route_def parse_underlay_route_def full_tunnel_operations_def is_ipv4_def socket_ip_def
      install_def RouteManager_new_def linux_apply_def apply_route_def sim_addr_texts)

lemma sim_validates:
  "validate (IpNetLib.truncate sim_nets) (\<lambda>_. (None, None)) sim_server = Ok ()"
  "validate (IpNetLib.truncate sim_nets) (\<lambda>_. (None, None)) sim_client = Ok ()"
  by (simp_all add: validate_def sim_server_def sim_client_def config_default_def routing_default_def security_default_def
      tun_validate_def is_ipv4_def validate_security_def ensure_def validate_server_def validate_client_def
      validate_nft_interface_name_def is_ascii_alphanumeric_def str_def)

theorem bind_configures_witness:
  "(\<exists>w app. bind_application sim_platform sim_start sim_server = (w, Ok app) \<and>
     leads (sim_view w) (str ''10.9.0.0/16'') None (Some (str ''eth1'')) \<and>
     ns_forwarding (sim_view w) \<and> ns_table (sim_view w) = Some sim_script) \<and>
   (\<exists>w app. bind_application sim_platform sim_alone sim_client = (w, Ok app) \<and>
     leads (sim_view w) (str ''default'') None (Some (tun_name (cfg_tun sim_client))) \<and>
     leads (sim_view w) (sim_addr_text (V4 0xC0A80001)) (Some (V4 1)) (Some (str ''eth0'')))"
proof (rule conjI)
  have "server_configured sim_platform sim_masquerades (cfg_tun sim_server) (cfg_routing sim_server) (sim_view sim_installed)"
    using bind_configures [OF sim.platform_axioms _ _ sim_server_binds] sim_validates
    by (simp add: canonical_routes_def sim_server_def)
  then show "\<exists>w app. bind_application sim_platform sim_start sim_server = (w, Ok app) \<and>
     leads (sim_view w) (str ''10.9.0.0/16'') None (Some (str ''eth1'')) \<and>
     ns_forwarding (sim_view w) \<and> ns_table (sim_view w) = Some sim_script"
    using sim_server_binds by (auto simp: server_configured_def sim_server_def sim_script_def example_nets_def)
next
  obtain w app where b: "bind_application sim_platform sim_alone sim_client = (w, Ok app)"
    using sim_client_binds by blast
  then have "client_configured sim_platform (endpoint_bound sim_platform sim_alone sim_client (SocketV4 0 0)
      (SocketV4 0xC0A80001 51820)) (cfg_tun sim_client) (cfg_routing sim_client)
      (SocketV4 0xC0A80001 51820) (sim_view w)"
    using bind_configures [OF sim.platform_axioms _ _ b] sim_validates
    by (auto simp: canonical_routes_def sim_client_def)
  with b show "\<exists>w app. bind_application sim_platform sim_alone sim_client = (w, Ok app) \<and>
     leads (sim_view w) (str ''default'') None (Some (tun_name (cfg_tun sim_client))) \<and>
     leads (sim_view w) (sim_addr_text (V4 0xC0A80001)) (Some (V4 1)) (Some (str ''eth0''))"
    by (auto simp: client_configured_def sim_client_def host_network_def whole_network_def socket_ip_def underlay_def
        sim_run_ip(4) [unfolded route_get_args_def] sim_route_json_def sim_addr_texts(1) config_default_def)
qed

text \<open>The errors of \<open>main\<close> that report state left behind.\<close>

definition cleanup_failed :: "'n MainError \<Rightarrow> bool" where
  "cleanup_failed e = (case e of
     BindingFailed e \<Rightarrow> leaves_state e
   | RunningFailed (RunFailed _) \<Rightarrow> False
   | RunningFailed _ \<Rightarrow> True
   | _ \<Rightarrow> False)"

text \<open>
  C12. A run of the program that returns leaves the network state as it found it, whatever the outcome: an
  invalid configuration touches nothing; a failure to bind, to install NAT or some route rolls back
  what was installed; and after forwarding, ended by an interrupt or an error, routes, forwarding and
  the table are restored, for both security modes. The only exceptions are the errors that report a
  failed rollback or restoration. The TUN device did not exist before; the configured destinations have
  no host bits, and gateways are of their address family.
\<close>

theorem main_leaves_no_trace:
  assumes platform: "platform P view print masquerades canonical"
    and "\<And>config. from_args file args = Some config \<Longrightarrow> without (tun_name (cfg_tun config)) (view w) = view w \<and>
      canonical_routes canonical (cfg_routing config)"
    and "main P file args w = (w', Returned r)" and "\<And>e. r = Err e \<Longrightarrow> \<not> cleanup_failed e"
  shows "view w' = view w"
proof (cases "from_args file args")
  case None
  then show ?thesis using assms(3) by (simp add: main_def)
next
  case (Some config)
  have fresh: "without (tun_name (cfg_tun config)) (view w) = view w"
    and routes: "canonical_routes canonical (cfg_routing config)"
    using assms(2) [OF Some] by simp_all
  show ?thesis
  proof (cases "validate (IpNetLib.truncate (pf_nets P)) (pf_files P) config")
    case (Inl e)
    then show ?thesis using assms(3) Some by (simp add: main_def)
  next
    case (Inr u)
    have lawful: "platform.lawful P canonical config"
      using platform.validated_lawful [OF platform _ routes] Inr by simp
    obtain w1 q where q: "bind_application P w config = (w1, q)" by (cases "bind_application P w config")
    show ?thesis
    proof (cases q)
      case e: (Inl e)
      then have "w' = w1" "r = Err (BindingFailed e)" using assms(3) Some Inr q by (simp_all add: main_def)
      then show ?thesis
        using platform.bind_failure_restores [OF platform, of w config w1 e] q e assms(4) fresh lawful
        by (auto simp: cleanup_failed_def)
    next
      case app: (Inr app)
      obtain w2 z where z: "run_application P w1 app = (w2, z)" by (cases "run_application P w1 app")
      then obtain r' where r': "z = Returned r'" "r = map_sum RunningFailed id r'" "w' = w2"
        using assms(3) Some Inr q app by (cases z) (auto simp: main_def)
      then have "r' = Ok () \<or> (\<exists>e. r' = Err (RunFailed e))"
        using assms(4) by (cases r') (auto simp: cleanup_failed_def split: RunCleanupError.splits)
      then show ?thesis
        using platform.bind_run_restores [OF platform, of w config w1 app w2 r'] q app z r' fresh lawful by simp
    qed
  qed
qed

definition sim_cli :: Args where
  "sim_cli = \<lparr>arg_local_addr = None, arg_local_port = None, arg_remote_addr = None, arg_remote_port = None,
     arg_mode = None, arg_log_level = None, arg_tun = None, arg_tun_address = None, arg_tun_prefix_len = None,
     arg_tun_mtu = None, arg_config_path = Some (str ''server.toml'')\<rparr>"

lemma sim_from_args: "from_args (\<lambda>_. Some sim_server) sim_cli = Some sim_server"
  by (simp add: from_args_def sim_cli_def unwrap_or_def sim_server_def config_default_def kind_def socket_addr_def
      SocketAddr_new_def socket_ip_def socket_port_def bind_addr_def Let_def)

lemma sim_server_stops:
  "legacy_progress (server_run 1400 [Interrupt True]) = Returned (Ok ())"
  by (simp add: server_run_def FrameCodec_new_def HEADER_LEN_def forward_packets_def forward_loop_Cons server_step_def
      legacy_progress_def u16_try_from_def usize_checked_add_def usize_max_def)

lemma sim_server_restores:
  "server_cleanup sim_platform sim_installed
     \<lparr>rm_applied = [RouteAdded (str ''10.9.0.0/16'') None (Some (str ''eth1'')), Ipv4ForwardingChanged False]\<rparr>
     \<lparr>nm_applied = Some \<lparr>an_fingerprint = String sim_script\<rparr>\<rparr> =
   (fst (sim_tun sim_start (cfg_tun sim_server)), Ok ())"
  by (simp add: sim_evaluation server_cleanup_def restore_def linux_revert_def revert_route_def revert_ipv4_forwarding_def
      nat_restore_def linux_nat_revert_def delete_table_def combine_cleanup_results_def config_default_def destination_matches_def route_matches_def)

theorem main_leaves_no_trace_witness:
  "\<exists>w. main sim_platform (\<lambda>_. Some sim_server) sim_cli sim_start = (w, Returned (Ok ())) \<and>
    sim_view w = sim_view sim_start"
proof -
  let ?w = "sim_close (fst (sim_tun sim_start (cfg_tun sim_server))) (cfg_tun sim_server)"
  have mtu: "unat (tun_mtu (cfg_tun sim_server)) = 1400" by (simp add: sim_server_def config_default_def)
  have m: "main sim_platform (\<lambda>_. Some sim_server) sim_cli sim_start = (?w, Returned (Ok ()))"
    by (simp add: main_def sim_from_args sim_validates sim_server_binds run_application_def mtu sim_server_stops
        finish_run_def sim_server_restores combine_run_and_cleanup_def)
  have "without (tun_name (cfg_tun sim_server)) (sim_view sim_start) = sim_view sim_start"
    by (auto simp: sim_server_def sim_start_def config_default_def without_def sim_view_def sim_entry_def str_def fun_eq_iff)
  with main_leaves_no_trace [OF sim.platform_axioms, of "\<lambda>_. Some sim_server" sim_cli sim_start ?w "Ok ()"] m
  show ?thesis by (auto simp: sim_from_args canonical_routes_def)
qed

end
