(* ===== verification/Data_Termination.thy ===== *)
theory Data_Termination
  imports Data_Runtime
begin

text \<open>
  Termination of the encrypted forwarding loop (\<open>src/data_plane/runtime.rs\<close>). Nothing in the loop counts
  its iterations: it ends because every packet that is forwarded uses up a finite allowance and moves the
  idle deadline at most once. The measure is the allowance that is left.
\<close>

definition packet_limit :: "SessionLimits \<Rightarrow> TrafficDirection \<Rightarrow> u64" where
  "packet_limit limits direction = (case direction of
     Outbound \<Rightarrow> maximum_outbound_packets limits | Inbound \<Rightarrow> maximum_inbound_packets limits)"

definition remaining :: "SessionLifetime \<Rightarrow> nat" where
  "remaining l = (\<Sum>d \<leftarrow> [Outbound, Inbound].
     unat (packet_limit (sl_limits l) d) - unat (tc_packets (counters l d)))"

text \<open>Sending a datagram or writing a packet takes at most \<open>io\<close>.\<close>

fun prompt :: "duration \<Rightarrow> Event \<Rightarrow> bool" where
  "prompt io (TunRead _ t _ t') = (t' \<le> t + io)"
| "prompt io (UdpReceived _ t _ t') = (t' \<le> t + io)"
| "prompt io _ = True"

text \<open>What one iteration or a run may use up, from the lifetime \<open>l\<close> on.\<close>

definition consumes :: "duration \<Rightarrow> SessionLifetime \<Rightarrow> iteration \<Rightarrow> bool" where
  "consumes io l r \<longleftrightarrow> (case r of (s', effects, fl) \<Rightarrow>
     length effects \<le> remaining l \<and>
     (fl = Continue \<longrightarrow> sl_limits (es_lifetime s') = sl_limits l \<and>
        length effects + remaining (es_lifetime s') = remaining l \<and>
        sl_last_successful_activity (es_lifetime s') \<le>
          sl_last_successful_activity l + length effects * (idle_timeout (sl_limits l) + io)))"

lemma consumes_nothing [simp]:
  "consumes io l (s, [], fl) \<longleftrightarrow> (fl = Continue \<longrightarrow> sl_limits (es_lifetime s) = sl_limits l \<and>
     remaining (es_lifetime s) = remaining l \<and>
     sl_last_successful_activity (es_lifetime s) \<le> sl_last_successful_activity l)"
  by (simp add: consumes_def)

lemma permit_room:
  assumes "permit l d n t = (l', Ok Permit)"
  shows "unat (tc_packets (counters l d)) < unat (packet_limit (sl_limits l) d)"
    and "t < sl_last_successful_activity l + idle_timeout (sl_limits l)" and "l' = l"
  using assms
  by (auto simp: permit_Permit expire_if_due_Permit counters_next_Ok within_def packet_limit_def
      word_le_nat_alt split: TrafficDirection.splits)

lemma record_uses_one:
  assumes "permit l d n t = (l', Ok Permit)" and "record_success l d n t' = (l2, Ok u)"
  shows "sl_limits l2 = sl_limits l" and "Suc (remaining l2) = remaining l"
    and "sl_last_successful_activity l2 = t'"
  using assms(2) permit_room(1) [OF assms(1)]
  by (auto simp: record_success_Ok counters_next_Ok remaining_def counters_def set_counters_def
      packet_limit_def split: TrafficDirection.splits)

lemma permit_remaining:
  assumes "permit l d n t = (l', Ok Permit)"
  shows "0 < remaining l"
  using permit_room(1) [OF assms] by (cases d) (auto simp: remaining_def)

lemma on_recorded_consumes:
  assumes perm: "permit (es_lifetime s) d n t = (l', Ok Permit)" and io: "t' \<le> t + io"
  shows "consumes io (es_lifetime s) (on_recorded [e] (session_record_success s d n t'))"
proof (cases "record_success (es_lifetime s) d n t'")
  case (Pair l2 r)
  show ?thesis
    using record_uses_one [OF perm, of t' l2] permit_remaining [OF perm] permit_room(2) [OF perm] io Pair
    by (cases r) (auto simp: on_recorded_def session_record_success_def consumes_def)
qed

lemma on_decision_consumes:
  assumes "\<And>l. permit (es_lifetime s) d n t = (l, Ok Permit) \<Longrightarrow> consumes io (es_lifetime s) (k s)"
  shows "consumes io (es_lifetime s) (on_decision (session_permit s d n t) k)"
proof (cases "permit (es_lifetime s) d n t")
  case (Pair l r)
  show ?thesis
  proof (cases "r = Ok Permit")
    case True
    then show ?thesis
      using assms [of l] permit_room(3) [of "es_lifetime s" d n t l] Pair
      by (simp add: on_decision_def session_permit_def)
  next
    case False
    then show ?thesis
      by (auto simp: on_decision_def session_permit_def Pair split: sum.split SessionDecision.split)
  qed
qed

lemma seal_packet_stops: "seal_packet codec s q p = Inl fl \<Longrightarrow> fl \<noteq> Continue"
  by (auto simp: seal_packet_def split: sum.splits option.splits prod.splits)

lemma forward_outbound_consumes:
  assumes perm: "permit (es_lifetime s) Outbound (word_of_nat (length p)) t = (l, Ok Permit)"
    and io: "t' \<le> t + io"
  shows "consumes io (es_lifetime s) (forward_outbound codec p sent t' s)"
proof (cases "allocate_send_sequence s")
  case (Pair s1 r)
  have s1: "es_lifetime s1 = es_lifetime s"
    using Pair by (auto simp: allocate_send_sequence_def Let_def split: if_splits option.splits)
  have "consumes io (es_lifetime s) (transmit codec p sent t' s1 q)" for q
    using on_recorded_consumes [of s1, unfolded s1, OF perm io] permit_remaining [OF perm]
    by (auto simp: transmit_def s1 consumes_def dest: seal_packet_stops split: sum.splits option.splits)
  then show ?thesis
    by (auto simp: forward_outbound_def Pair split: sum.split DataSessionError.split)
qed

lemma select_event_consumes:
  assumes "prompt io ev"
  shows "consumes io (es_lifetime s) (select_event codec s ev)"
proof (cases ev)
  case (DeadlineElapsed now)
  obtain l r where "expire_if_due (es_lifetime s) now = (l, r)" by fastforce
  then show ?thesis
    using DeadlineElapsed expire_if_due_Permit [of "es_lifetime s" now l]
    by (auto simp: select_event_def on_decision_def session_expire_if_due_def
        split: sum.split SessionDecision.split)
next
  case (TunRead p t sent t')
  then show ?thesis
    using assms on_decision_consumes [of s Outbound _ t io] forward_outbound_consumes [of s _ t]
    by (auto simp: select_event_def handle_tun_def split: option.split)
next
  case (UdpReceived r t w t')
  have deliver: "consumes io (es_lifetime s') (deliver p w t' s')"
    if "permit (es_lifetime s') Inbound (word_of_nat (length p)) t = (l, Ok Permit)" for s' p l
    using on_recorded_consumes [OF that] permit_remaining [OF that] assms
    by (simp add: deliver_def consumes_def UdpReceived)
  have "consumes io (es_lifetime (s\<lparr>es_replay_window := x\<rparr>))
      (on_decision (session_permit (s\<lparr>es_replay_window := x\<rparr>) Inbound (word_of_nat (length p)) t) (deliver p w t'))"
    for x p
    by (rule on_decision_consumes) (rule deliver)
  then have "consumes io (es_lifetime s)
      (on_decision (session_permit (s\<lparr>es_replay_window := x\<rparr>) Inbound (word_of_nat (length p)) t) (deliver p w t'))"
    for x p by simp
  then show ?thesis
    using UdpReceived
    by (auto simp: select_event_def handle_udp_def Let_def split: option.split prod.split sum.split)
qed (simp add: select_event_def)

lemma iterate_consumes:
  assumes "prompt io (snd ne)"
  shows "consumes io (es_lifetime s) (iterate codec s ne)"
    and "iterate codec s ne = (s', effects, Continue) \<Longrightarrow>
      fst ne < sl_last_successful_activity (es_lifetime s) + idle_timeout (sl_limits (es_lifetime s))"
proof -
  obtain l r where e: "expire_if_due (es_lifetime s) (fst ne) = (l, r)" by fastforce
  have stop: "r \<noteq> Ok Permit \<Longrightarrow> \<exists>s' fl. iterate codec s ne = (s', [], fl) \<and> fl \<noteq> Continue"
    by (auto simp: iterate_def on_decision_def session_expire_if_due_def e
        split: sum.split SessionDecision.split)
  have go: "r = Ok Permit \<Longrightarrow> iterate codec s ne = select_event codec s (snd ne) \<and>
      fst ne < sl_last_successful_activity (es_lifetime s) + idle_timeout (sl_limits (es_lifetime s))"
    using e expire_if_due_Permit [of "es_lifetime s" "fst ne" l]
    by (auto simp: iterate_def on_decision_def session_expire_if_due_def session_next_deadline_def
        next_deadline_def instant_checked_add_def)
  show "consumes io (es_lifetime s) (iterate codec s ne)"
    using stop go select_event_consumes [OF assms] by fastforce
  show "fst ne < sl_last_successful_activity (es_lifetime s) + idle_timeout (sl_limits (es_lifetime s))"
    if "iterate codec s ne = (s', effects, Continue)"
    using stop go that by fastforce
qed

text \<open>The instant from which no session that has the lifetime \<open>l\<close> can still be open.\<close>

definition last_instant :: "duration \<Rightarrow> SessionLifetime \<Rightarrow> instant" where
  "last_instant io l = sl_last_successful_activity l + Suc (remaining l) * (idle_timeout (sl_limits l) + io)"

lemma run_loop_consumes:
  assumes "\<forall>ne \<in> set events. prompt io (snd ne)" and "run_loop codec s events = (s', effects, fl)"
  shows "length effects \<le> remaining (es_lifetime s) \<and>
    (fl = Continue \<longrightarrow> (\<forall>ne \<in> set events. fst ne < last_instant io (es_lifetime s)))"
  using assms
proof (induction codec s events arbitrary: effects rule: run_loop.induct)
  case (2 codec s ne events)
  obtain s1 eff1 fl1 where it: "iterate codec s ne = (s1, eff1, fl1)" by (cases "iterate codec s ne")
  have used: "consumes io (es_lifetime s) (s1, eff1, fl1)" using iterate_consumes(1) [of io ne s codec] 2(2) it by simp
  show ?case
  proof (cases "fl1 = Continue")
    case True
    obtain eff2 where rest: "run_loop codec s1 events = (s', eff2, fl)" "effects = eff1 @ eff2"
      using 2(3) it True by (cases "run_loop codec s1 events") auto
    let ?k = "idle_timeout (sl_limits (es_lifetime s)) + io"
    have head: "fst ne < last_instant io (es_lifetime s)"
      using iterate_consumes(2) [of io ne codec s s1 eff1] 2(2) it True by (simp add: last_instant_def)
    have "last_instant io (es_lifetime s1) \<le> sl_last_successful_activity (es_lifetime s) +
        length eff1 * ?k + Suc (remaining (es_lifetime s1)) * ?k"
      using used True by (simp add: consumes_def last_instant_def)
    also have "\<dots> = sl_last_successful_activity (es_lifetime s) + Suc (length eff1 + remaining (es_lifetime s1)) * ?k"
      by (simp add: algebra_simps)
    also have "\<dots> = last_instant io (es_lifetime s)"
      using used True by (simp add: consumes_def last_instant_def)
    finally have later: "last_instant io (es_lifetime s1) \<le> last_instant io (es_lifetime s)" .
    have "length eff2 \<le> remaining (es_lifetime s1) \<and>
        (fl = Continue \<longrightarrow> (\<forall>ne \<in> set events. fst ne < last_instant io (es_lifetime s1)))"
      using 2(1) [OF it [symmetric] _ _ _ rest(1)] 2(2) True by simp
    moreover have "length eff1 + remaining (es_lifetime s1) = remaining (es_lifetime s)"
      using used True by (simp add: consumes_def)
    ultimately show ?thesis using later head rest(2) by auto
  next
    case False
    then show ?thesis using used 2(3) by (cases fl1) (auto simp: it consumes_def)
  qed
qed simp

text \<open>
  C24. The forwarding loop terminates. Whatever arrives, it performs at most as many sends and TUN writes as
  the packet limits of the session allow, and it has ended by a known instant: when each send or write takes
  at most \<open>io\<close>, a loop that has not ended has seen no event at or after the start of the session plus
  (number of allowed packets + 1) times (idle timeout + \<open>io\<close>).
\<close>

theorem forwarding_terminates:
  assumes "run mtu codec s events = (s', effects, fl)"
    and "es_lifetime s = SessionLifetime_new t0 limits"
    and "\<forall>ne \<in> set events. prompt io (snd ne)"
  shows "length effects \<le> unat (maximum_outbound_packets limits) + unat (maximum_inbound_packets limits) \<and>
    ((\<exists>ne \<in> set events. fst ne \<ge> t0 +
        Suc (unat (maximum_outbound_packets limits) + unat (maximum_inbound_packets limits)) *
          (idle_timeout limits + io)) \<longrightarrow> fl \<noteq> Continue)"
proof -
  have "remaining (es_lifetime s) = unat (maximum_outbound_packets limits) + unat (maximum_inbound_packets limits)"
    and "sl_last_successful_activity (es_lifetime s) = t0" and "sl_limits (es_lifetime s) = limits"
    by (simp_all add: assms(2) SessionLifetime_new_def remaining_def packet_limit_def counters_def)
  then show ?thesis
    using run_loop_consumes [OF assms(3), of codec s s' effects fl] assms(1)
    by (fastforce simp: run_def last_instant_def split: if_splits)
qed

theorem forwarding_terminates_witness:
  "length (fst (snd (run 4 demo_codec demo_server (demo_server_events @ [(1281, DeadlineElapsed 1281)])))) \<le> 20 \<and>
   snd (snd (run 4 demo_codec demo_server (demo_server_events @ [(1281, DeadlineElapsed 1281)]))) \<noteq> Continue"
proof -
  obtain s' effects fl where r: "run 4 demo_codec demo_server (demo_server_events @ [(1281, DeadlineElapsed 1281)]) =
      (s', effects, fl)" by (rule prod_cases3)
  show ?thesis
    using forwarding_terminates [OF r demo_session_fields(11), of 1]
    unfolding r by (simp add: demo_server_events_def demo_limits_def)
qed

end
