(* ===== verification/Fake_Crypto.thy ===== *)
theory Fake_Crypto
  imports Noise_Handshake
begin

text \<open>
  The deterministic provider (\<open>src/crypto/fake.rs\<close>): credentials, proofs bound to a transcript, and the
  client and server providers built on them. They implement the same traits as the Noise providers, and
  interpret the same locales, so everything proved of the coordinators holds of them too. Redacted
  \<open>Debug\<close> texts are left out.
\<close>

section \<open>Credentials and proofs\<close>

text \<open>The marker is a \<open>NonZeroU64\<close>.\<close>

datatype FakeCredential = FakeCredential u64

datatype FakeCryptoConfigError = SameLocalAndExpectedIdentity

record FakeClientCryptoConfig =
  fcc_credential :: FakeCredential
  fcc_client_identity :: PeerIdentity
  fcc_expected_server_identity :: PeerIdentity

definition FakeClientCryptoConfig_new ::
  "FakeCredential \<Rightarrow> PeerIdentity \<Rightarrow> PeerIdentity \<Rightarrow> (FakeClientCryptoConfig, FakeCryptoConfigError) result" where
  "FakeClientCryptoConfig_new credential client_identity expected_server_identity =
     (if client_identity = expected_server_identity then Err SameLocalAndExpectedIdentity
      else Ok \<lparr>fcc_credential = credential, fcc_client_identity = client_identity,
               fcc_expected_server_identity = expected_server_identity\<rparr>)"

record FakeServerCryptoConfig =
  fsc_credential :: FakeCredential
  fsc_server_identity :: PeerIdentity
  fsc_expected_client_identity :: PeerIdentity
  fsc_first_session_id :: u64

definition FakeServerCryptoConfig_new ::
  "FakeCredential \<Rightarrow> PeerIdentity \<Rightarrow> PeerIdentity \<Rightarrow> u64 \<Rightarrow> (FakeServerCryptoConfig, FakeCryptoConfigError) result" where
  "FakeServerCryptoConfig_new credential server_identity' expected_client_identity first_session_id =
     (if server_identity' = expected_client_identity then Err SameLocalAndExpectedIdentity
      else Ok \<lparr>fsc_credential = credential, fsc_server_identity = server_identity',
               fsc_expected_client_identity = expected_client_identity,
               fsc_first_session_id = first_session_id\<rparr>)"

datatype FakeProofDomain = ClientHello | ServerHello | ClientFinish | ServerFinish

datatype FakeProofBinding =
  HelloBinding ClientAttemptId PeerIdentity
| Transcript ClientAttemptId CandidateId PeerIdentity PeerIdentity "SessionId option"

record FakeProof =
  fp_credential :: FakeCredential
  fp_domain :: FakeProofDomain
  fp_binding :: FakeProofBinding

record FakeClientHello =
  fch_attempt_id :: ClientAttemptId
  fch_client_identity :: PeerIdentity
  fch_proof :: FakeProof

record FakeServerHello =
  fsh_candidate_id :: CandidateId
  fsh_client_attempt_id :: ClientAttemptId
  fsh_server_identity :: PeerIdentity
  fsh_proof :: FakeProof

record FakeClientFinish =
  fcf_candidate_id :: CandidateId
  fcf_client_attempt_id :: ClientAttemptId
  fcf_client_identity :: PeerIdentity
  fcf_proof :: FakeProof

record FakeServerFinish =
  fsf_candidate_id :: CandidateId
  fsf_client_attempt_id :: ClientAttemptId
  fsf_session_id :: SessionId
  fsf_server_identity :: PeerIdentity
  fsf_proof :: FakeProof

record FakeTranscript =
  ft_attempt_id :: ClientAttemptId
  ft_candidate_id :: CandidateId
  ft_client_identity :: PeerIdentity
  ft_server_identity :: PeerIdentity

definition transcript_binding :: "FakeTranscript \<Rightarrow> SessionId option \<Rightarrow> FakeProofBinding" where
  "transcript_binding transcript session =
     Transcript (ft_attempt_id transcript) (ft_candidate_id transcript) (ft_client_identity transcript)
       (ft_server_identity transcript) session"

definition make_proof :: "FakeCredential \<Rightarrow> FakeProofDomain \<Rightarrow> FakeProofBinding \<Rightarrow> FakeProof" where
  "make_proof credential domain binding =
     \<lparr>fp_credential = credential, fp_domain = domain, fp_binding = binding\<rparr>"

definition verify_proof ::
  "FakeProof \<Rightarrow> FakeCredential \<Rightarrow> FakeProofDomain \<Rightarrow> FakeProofBinding \<Rightarrow> (unit, AuthenticationFailureReason) result" where
  "verify_proof observed credential domain binding =
     (if fp_binding observed \<noteq> binding then Err TranscriptMismatch
      else if fp_credential observed \<noteq> credential then Err InvalidCredential
      else if fp_domain observed \<noteq> domain then Err InvalidProof
      else Ok ())"

definition client_failure :: "ClientAttemptId \<Rightarrow> AuthenticationFailureReason \<Rightarrow> 'a CryptoOutcome" where
  "client_failure attempt reason = RemoteFailure (ClientAttempt attempt reason)"

definition server_failure ::
  "CandidateId \<Rightarrow> ClientAttemptId \<Rightarrow> AuthenticationFailureReason \<Rightarrow> 'a CryptoOutcome" where
  "server_failure candidate' attempt reason = RemoteFailure (ServerCandidate candidate' attempt reason)"

section \<open>The client provider\<close>

record AwaitingServerHelloContext =
  ahc_prepared_client_hello :: FakeClientHello

record AwaitingServerFinishContext =
  afc_transcript :: FakeTranscript
  afc_authenticated_server_hello :: FakeServerHello
  afc_prepared_client_finish :: FakeClientFinish

record AuthenticatedClientContext =
  acc_transcript :: FakeTranscript
  acc_authenticated_server_finish :: FakeServerFinish
  acc_metadata :: EstablishedSessionMetadata

record ClientSessionContext =
  csc_transcript :: FakeTranscript
  csc_authenticated_server_finish :: FakeServerFinish
  csc_metadata :: EstablishedSessionMetadata

datatype FakeClientCryptoState =
  Idle
| AwaitingServerHello ClientAttemptId AwaitingServerHelloContext
| AwaitingServerFinish ClientAttemptId AwaitingServerFinishContext
| AuthenticatedPendingCommit ClientAttemptId AuthenticatedClientContext
| Established ClientAttemptId ClientSessionContext
| Closed

record FakeClientCrypto =
  fc_config :: FakeClientCryptoConfig
  fc_state :: FakeClientCryptoState

definition FakeClientCrypto_new :: "FakeClientCryptoConfig \<Rightarrow> FakeClientCrypto" where
  "FakeClientCrypto_new config = \<lparr>fc_config = config, fc_state = FakeClientCryptoState.Idle\<rparr>"

definition fake_attempt :: "FakeClientCrypto \<Rightarrow> ClientAttemptId option" where
  "fake_attempt self = (case fc_state self of
     FakeClientCryptoState.AwaitingServerHello a _ \<Rightarrow> Some a
   | FakeClientCryptoState.AwaitingServerFinish a _ \<Rightarrow> Some a
   | FakeClientCryptoState.AuthenticatedPendingCommit a _ \<Rightarrow> Some a
   | FakeClientCryptoState.Established a _ \<Rightarrow> Some a
   | _ \<Rightarrow> None)"

definition check_attempt :: "FakeClientCrypto \<Rightarrow> ClientAttemptId \<Rightarrow> (unit, CryptoStateError) result" where
  "check_attempt self observed = (case fake_attempt self of
     Some expected \<Rightarrow> if expected \<noteq> observed then Err (AttemptIdMismatch expected observed) else Ok ()
   | None \<Rightarrow> Ok ())"

definition fake_client_phase :: "FakeClientCrypto \<Rightarrow> ClientCryptoPhase" where
  "fake_client_phase self = (case fc_state self of
     FakeClientCryptoState.Idle \<Rightarrow> ClientCryptoPhase.Idle
   | FakeClientCryptoState.AwaitingServerHello _ _ \<Rightarrow> ClientCryptoPhase.AwaitingServerHello
   | FakeClientCryptoState.AwaitingServerFinish _ _ \<Rightarrow> ClientCryptoPhase.AwaitingServerFinish
   | FakeClientCryptoState.AuthenticatedPendingCommit _ _ \<Rightarrow> ClientCryptoPhase.AuthenticatedPendingCommit
   | FakeClientCryptoState.Established _ _ \<Rightarrow> ClientCryptoPhase.Established
   | FakeClientCryptoState.Closed \<Rightarrow> ClientCryptoPhase.Closed)"

text \<open>The guard of an operation: the attempt, then the phase, with the context of that phase.\<close>

abbreviation invalid_client :: "FakeClientCrypto \<Rightarrow> ClientCryptoOperation \<Rightarrow> ('a, CryptoStateError) result" where
  "invalid_client self operation \<equiv> Err (InvalidClientState operation (fake_client_phase self))"

definition fake_start_attempt ::
  "FakeClientCrypto \<Rightarrow> ClientAttemptId \<Rightarrow> (FakeClientCrypto, FakeClientHello PreparedClientHello) crypto_step" where
  "fake_start_attempt self attempt =
     (if fake_client_phase self = ClientCryptoPhase.Closed
      then (self, Err (CryptoStateError.Closed (CryptoOperation.Client ClientCryptoOperation.StartAttempt)))
      else if fake_client_phase self \<noteq> ClientCryptoPhase.Idle
      then (self, invalid_client self ClientCryptoOperation.StartAttempt)
      else
        let identity' = fcc_client_identity (fc_config self);
            payload = \<lparr>fch_attempt_id = attempt, fch_client_identity = identity',
              fch_proof = make_proof (fcc_credential (fc_config self)) ClientHello (HelloBinding attempt identity')\<rparr>
        in (self\<lparr>fc_state := FakeClientCryptoState.AwaitingServerHello attempt
                   \<lparr>ahc_prepared_client_hello = payload\<rparr>\<rparr>,
            Ok \<lparr>pch_attempt_id = attempt, pch_payload = payload\<rparr>))"

definition fake_authenticate_server_hello ::
  "FakeClientCrypto \<Rightarrow> ClientAttemptId \<Rightarrow> FakeServerHello
   \<Rightarrow> (FakeClientCrypto, AuthenticatedServerHello CryptoOutcome) crypto_step" where
  "fake_authenticate_server_hello self attempt payload = (case check_attempt self attempt of
     Inl e \<Rightarrow> (self, Err e)
   | Inr _ \<Rightarrow>
     (case fc_state self of
        FakeClientCryptoState.AwaitingServerHello _ _ \<Rightarrow>
          let config = fc_config self;
              transcript = \<lparr>ft_attempt_id = attempt, ft_candidate_id = fsh_candidate_id payload,
                ft_client_identity = fcc_client_identity config,
                ft_server_identity = fcc_expected_server_identity config\<rparr>
          in if fsh_server_identity payload \<noteq> fcc_expected_server_identity config
             then (self, Ok (client_failure attempt IdentityMismatch))
             else if fsh_client_attempt_id payload \<noteq> attempt
             then (self, Ok (client_failure attempt TranscriptMismatch))
             else (case verify_proof (fsh_proof payload) (fcc_credential config) ServerHello
                          (transcript_binding transcript None) of
               Inl reason \<Rightarrow> (self, Ok (client_failure attempt reason))
             | Inr _ \<Rightarrow>
                 let finish = \<lparr>fcf_candidate_id = ft_candidate_id transcript, fcf_client_attempt_id = attempt,
                       fcf_client_identity = fcc_client_identity config,
                       fcf_proof = make_proof (fcc_credential config) ClientFinish
                         (transcript_binding transcript None)\<rparr>
                 in (self\<lparr>fc_state := FakeClientCryptoState.AwaitingServerFinish attempt
                            \<lparr>afc_transcript = transcript, afc_authenticated_server_hello = payload,
                             afc_prepared_client_finish = finish\<rparr>\<rparr>,
                     Ok (Success \<lparr>ash_attempt_id = attempt\<rparr>)))
      | _ \<Rightarrow> (self, invalid_client self ClientCryptoOperation.AuthenticateServerHello)))"

definition fake_prepare_client_finish ::
  "FakeClientCrypto \<Rightarrow> ClientAttemptId \<Rightarrow> (FakeClientFinish PreparedClientFinish, CryptoStateError) result" where
  "fake_prepare_client_finish self attempt =
     and_then (check_attempt self attempt) (\<lambda>_.
     case fc_state self of
       FakeClientCryptoState.AwaitingServerFinish _ ctx \<Rightarrow>
         Ok \<lparr>pcf_attempt_id = attempt, pcf_payload = afc_prepared_client_finish ctx\<rparr>
     | _ \<Rightarrow> invalid_client self ClientCryptoOperation.PrepareClientFinish)"

definition fake_authenticate_server_finish ::
  "FakeClientCrypto \<Rightarrow> ClientAttemptId \<Rightarrow> FakeServerFinish
   \<Rightarrow> (FakeClientCrypto, AuthenticatedServerFinish CryptoOutcome) crypto_step" where
  "fake_authenticate_server_finish self attempt payload = (case check_attempt self attempt of
     Inl e \<Rightarrow> (self, Err e)
   | Inr _ \<Rightarrow>
     (case fc_state self of
        FakeClientCryptoState.AwaitingServerFinish _ ctx \<Rightarrow>
          let config = fc_config self in
          if fsf_server_identity payload \<noteq> fcc_expected_server_identity config
          then (self, Ok (client_failure attempt IdentityMismatch))
          else if fsf_client_attempt_id payload \<noteq> attempt \<or>
                  fsf_candidate_id payload \<noteq> ft_candidate_id (afc_transcript ctx)
          then (self, Ok (client_failure attempt TranscriptMismatch))
          else (case verify_proof (fsf_proof payload) (fcc_credential config) ServerFinish
                       (transcript_binding (afc_transcript ctx) (Some (fsf_session_id payload))) of
            Inl reason \<Rightarrow>
              (self, Ok (client_failure attempt
                (if reason = InvalidProof then InvalidConfirmation else reason)))
          | Inr _ \<Rightarrow>
              let metadata = \<lparr>session_id = fsf_session_id payload,
                    peer_identity = fcc_expected_server_identity config\<rparr>
              in (self\<lparr>fc_state := FakeClientCryptoState.AuthenticatedPendingCommit attempt
                         \<lparr>acc_transcript = afc_transcript ctx, acc_authenticated_server_finish = payload,
                          acc_metadata = metadata\<rparr>\<rparr>,
                  Ok (Success \<lparr>asf_attempt_id = attempt, asf_metadata = metadata\<rparr>)))
      | _ \<Rightarrow> (self, invalid_client self ClientCryptoOperation.AuthenticateServerFinish)))"

definition fake_client_commit ::
  "FakeClientCrypto \<Rightarrow> ClientAttemptId \<Rightarrow> EstablishedSessionMetadata \<Rightarrow> (FakeClientCrypto, unit) crypto_step" where
  "fake_client_commit self attempt metadata = (case check_attempt self attempt of
     Inl e \<Rightarrow> (self, Err e)
   | Inr _ \<Rightarrow>
     (case fc_state self of
        FakeClientCryptoState.AuthenticatedPendingCommit _ ctx \<Rightarrow>
          if metadata \<noteq> acc_metadata ctx then (self, Err AuthenticatedMetadataMismatch)
          else (self\<lparr>fc_state := FakeClientCryptoState.Established attempt
                       \<lparr>csc_transcript = acc_transcript ctx,
                        csc_authenticated_server_finish = acc_authenticated_server_finish ctx,
                        csc_metadata = metadata\<rparr>\<rparr>, Ok ())
      | _ \<Rightarrow> (self, invalid_client self ClientCryptoOperation.CommitSession)))"

definition fake_reject_authenticated_session ::
  "FakeClientCrypto \<Rightarrow> ClientAttemptId \<Rightarrow> (FakeClientCrypto, ClientContextRemoval) crypto_step" where
  "fake_reject_authenticated_session self attempt =
     (if fake_client_phase self = ClientCryptoPhase.Closed then (self, Ok ClientContextRemoval.AlreadyAbsent)
      else case check_attempt self attempt of
        Inl e \<Rightarrow> (self, Err e)
      | Inr _ \<Rightarrow>
        (case fc_state self of
           FakeClientCryptoState.AuthenticatedPendingCommit _ _ \<Rightarrow>
             (self\<lparr>fc_state := FakeClientCryptoState.Closed\<rparr>, Ok ClientContextRemoval.Removed)
         | _ \<Rightarrow> (self, invalid_client self ClientCryptoOperation.RejectAuthenticatedSession)))"

definition fake_close_context ::
  "FakeClientCrypto \<Rightarrow> ClientAttemptId \<Rightarrow> (FakeClientCrypto, ClientContextRemoval) crypto_step" where
  "fake_close_context self attempt =
     (if fc_state self = FakeClientCryptoState.Idle \<or> fc_state self = FakeClientCryptoState.Closed
      then (self, Ok ClientContextRemoval.AlreadyAbsent)
      else case check_attempt self attempt of
        Inl e \<Rightarrow> (self, Err e)
      | Inr _ \<Rightarrow> (self\<lparr>fc_state := FakeClientCryptoState.Closed\<rparr>, Ok ClientContextRemoval.Removed))"

definition fake_client_shutdown :: "FakeClientCrypto \<Rightarrow> FakeClientCrypto \<times> CryptoShutdownOutcome" where
  "fake_client_shutdown self =
     (let phase = fake_client_phase self in
      (self\<lparr>fc_state := FakeClientCryptoState.Closed\<rparr>,
       \<lparr>removed_pending_contexts = (if phase = ClientCryptoPhase.AwaitingServerHello \<or>
            phase = ClientCryptoPhase.AwaitingServerFinish then 1 else 0),
        removed_pending_commit = (phase = ClientCryptoPhase.AuthenticatedPendingCommit),
        removed_established_context = (phase = ClientCryptoPhase.Established),
        already_closed = (phase = ClientCryptoPhase.Closed)\<rparr>))"

definition fake_client ::
  "(FakeClientCrypto, FakeClientHello, FakeServerHello, FakeClientFinish, FakeServerFinish) ClientHandshakeCrypto" where
  "fake_client = \<lparr>cc_phase = fake_client_phase, cc_start_attempt = fake_start_attempt,
     cc_authenticate_server_hello = fake_authenticate_server_hello,
     cc_prepare_client_finish = fake_prepare_client_finish,
     cc_authenticate_server_finish = fake_authenticate_server_finish,
     cc_commit_session = fake_client_commit,
     cc_reject_authenticated_session = fake_reject_authenticated_session,
     cc_close_context = fake_close_context, cc_shutdown = fake_client_shutdown\<rparr>"


section \<open>The server provider\<close>

record FakeServerCandidateContext =
  fcx_attempt_id :: ClientAttemptId
  fcx_authenticated_client_hello :: FakeClientHello
  fcx_prepared_server_hello :: FakeServerHello
  fcx_transcript :: FakeTranscript

record FakeAuthenticatedServerContext =
  fax_candidate_id :: CandidateId
  fax_attempt_id :: ClientAttemptId
  fax_authenticated_client_finish :: FakeClientFinish
  fax_metadata :: EstablishedSessionMetadata
  fax_transcript :: FakeTranscript

record FakeServerSessionContext =
  fsx_candidate_id :: CandidateId
  fsx_attempt_id :: ClientAttemptId
  fsx_authenticated_client_finish :: FakeClientFinish
  fsx_metadata :: EstablishedSessionMetadata
  fsx_prepared_server_finish :: FakeServerFinish

record FakeServerCrypto =
  fs_config :: FakeServerCryptoConfig
  fs_pending :: "(CandidateId, FakeServerCandidateContext) hmap"
  fs_pending_commit :: "FakeAuthenticatedServerContext option"
  fs_established :: "FakeServerSessionContext option"
  fs_next_session_id :: "u64 option"
  fs_closed :: bool

definition FakeServerCrypto_new :: "FakeServerCryptoConfig \<Rightarrow> FakeServerCrypto" where
  "FakeServerCrypto_new config = \<lparr>fs_config = config, fs_pending = hm_empty, fs_pending_commit = None,
     fs_established = None, fs_next_session_id = Some (fsc_first_session_id config), fs_closed = False\<rparr>"

text \<open>\<open>NonZeroU64::new\<close> of the wrapped successor: after the largest identifier there is no next one.\<close>

definition reserve_session_id :: "FakeServerCrypto \<Rightarrow> (FakeServerCrypto, SessionId) crypto_step" where
  "reserve_session_id self = (case fs_next_session_id self of
     None \<Rightarrow> (self, Err SessionIdExhausted)
   | Some current \<Rightarrow>
       (self\<lparr>fs_next_session_id := (if current + 1 = 0 then None else Some (current + 1))\<rparr>,
        Ok (SessionId_from_u64 current)))"

definition check_tuple ::
  "CandidateId \<Rightarrow> ClientAttemptId \<Rightarrow> CandidateId \<Rightarrow> ClientAttemptId \<Rightarrow> (unit, CryptoStateError) result" where
  "check_tuple expected_candidate expected_attempt observed_candidate observed_attempt =
     (if expected_candidate \<noteq> observed_candidate
      then Err (CandidateIdMismatch expected_candidate observed_candidate)
      else if expected_attempt \<noteq> observed_attempt
      then Err (AttemptIdMismatch expected_attempt observed_attempt)
      else Ok ())"

definition fake_server_phase :: "FakeServerCrypto \<Rightarrow> ServerCryptoPhase" where
  "fake_server_phase self =
     (if fs_closed self then ServerCryptoPhase.Closed
      else if fs_established self \<noteq> None then ServerCryptoPhase.Established
      else if fs_pending_commit self \<noteq> None then ServerCryptoPhase.AuthenticatedPendingCommit
      else ServerCryptoPhase.Running)"

definition fake_non_secret_status :: "FakeServerCrypto \<Rightarrow> ServerCryptoStatus" where
  "fake_non_secret_status self = \<lparr>scs_phase = fake_server_phase self,
     scs_pending_contexts = hm_len (fs_pending self),
     scs_has_pending_commit = (fs_pending_commit self \<noteq> None),
     scs_has_established_context = (fs_established self \<noteq> None)\<rparr>"

abbreviation invalid_server :: "FakeServerCrypto \<Rightarrow> ServerCryptoOperation \<Rightarrow> ('a, CryptoStateError) result" where
  "invalid_server self operation \<equiv> Err (InvalidServerState operation (fake_server_phase self))"

text \<open>\<open>prepare_server_hello\<close> for a candidate without a context.\<close>

definition fake_accept_hello ::
  "FakeServerCrypto \<Rightarrow> CandidateId \<Rightarrow> ClientAttemptId \<Rightarrow> FakeClientHello
   \<Rightarrow> (FakeServerCrypto, FakeServerHello PreparedServerHello CryptoOutcome) crypto_step" where
  "fake_accept_hello self candidate' attempt payload =
     (let config = fs_config self; expected = fsc_expected_client_identity config in
      if fch_client_identity payload \<noteq> expected
      then (self, Ok (server_failure candidate' attempt IdentityMismatch))
      else if fch_attempt_id payload \<noteq> attempt
      then (self, Ok (server_failure candidate' attempt TranscriptMismatch))
      else (case verify_proof (fch_proof payload) (fsc_credential config) ClientHello
                   (HelloBinding attempt expected) of
        Inl reason \<Rightarrow> (self, Ok (server_failure candidate' attempt reason))
      | Inr _ \<Rightarrow>
          let transcript = \<lparr>ft_attempt_id = attempt, ft_candidate_id = candidate',
                ft_client_identity = expected, ft_server_identity = fsc_server_identity config\<rparr>;
              response = \<lparr>fsh_candidate_id = candidate', fsh_client_attempt_id = attempt,
                fsh_server_identity = fsc_server_identity config,
                fsh_proof = make_proof (fsc_credential config) ServerHello
                  (transcript_binding transcript None)\<rparr>
          in (self\<lparr>fs_pending := hm_insert candidate'
                     \<lparr>fcx_attempt_id = attempt, fcx_authenticated_client_hello = payload,
                      fcx_prepared_server_hello = response, fcx_transcript = transcript\<rparr>
                     (fs_pending self)\<rparr>,
              Ok (Success \<lparr>psh_candidate_id = candidate', psh_client_attempt_id = attempt,
                    psh_payload = response\<rparr>))))"

definition fake_prepare_server_hello ::
  "FakeServerCrypto \<Rightarrow> CandidateId \<Rightarrow> ClientAttemptId \<Rightarrow> FakeClientHello
   \<Rightarrow> (FakeServerCrypto, FakeServerHello PreparedServerHello CryptoOutcome) crypto_step" where
  "fake_prepare_server_hello self candidate' attempt payload =
     (if fs_closed self
      then (self, Err (CryptoStateError.Closed (CryptoOperation.Server PrepareServerHello)))
      else if fake_server_phase self = ServerCryptoPhase.AuthenticatedPendingCommit
      then (self, Err AuthenticationCommitPending)
      else if fake_server_phase self \<noteq> ServerCryptoPhase.Running
      then (self, invalid_server self PrepareServerHello)
      else (case hm_get (fs_pending self) candidate' of
        Some existing \<Rightarrow>
          (case check_tuple candidate' (fcx_attempt_id existing) candidate' attempt of
             Inl e \<Rightarrow> (self, Err e)
           | Inr _ \<Rightarrow>
               if fcx_authenticated_client_hello existing \<noteq> payload
               then (self, Ok (server_failure candidate' attempt TranscriptMismatch))
               else (self, Ok (Success \<lparr>psh_candidate_id = candidate', psh_client_attempt_id = attempt,
                      psh_payload = fcx_prepared_server_hello existing\<rparr>)))
      | None \<Rightarrow> fake_accept_hello self candidate' attempt payload))"

text \<open>
  A finish for an authenticated or established candidate is a repetition: it is answered with the same
  metadata when it equals the finish that was authenticated.
\<close>

definition repeated_finish ::
  "FakeServerCrypto \<Rightarrow> CandidateId \<Rightarrow> ClientAttemptId \<Rightarrow> FakeClientFinish \<Rightarrow> EstablishedSessionMetadata
   \<Rightarrow> CandidateId \<Rightarrow> ClientAttemptId \<Rightarrow> FakeClientFinish
   \<Rightarrow> (FakeServerCrypto, AuthenticatedClientFinish CryptoOutcome) crypto_step" where
  "repeated_finish self known_candidate known_attempt known_finish metadata candidate' attempt payload =
     (case check_tuple known_candidate known_attempt candidate' attempt of
        Inl e \<Rightarrow> (self, Err e)
      | Inr _ \<Rightarrow>
          if known_finish \<noteq> payload
          then (self, Ok (server_failure candidate' attempt TranscriptMismatch))
          else (self, Ok (Success \<lparr>acf_candidate_id = candidate', acf_client_attempt_id = attempt,
                 acf_metadata = metadata\<rparr>)))"

text \<open>\<open>authenticate_client_finish\<close> for a pending candidate.\<close>

definition fake_accept_finish ::
  "FakeServerCrypto \<Rightarrow> FakeServerCandidateContext \<Rightarrow> CandidateId \<Rightarrow> ClientAttemptId \<Rightarrow> FakeClientFinish
   \<Rightarrow> (FakeServerCrypto, AuthenticatedClientFinish CryptoOutcome) crypto_step" where
  "fake_accept_finish self ctx candidate' attempt payload =
     (let config = fs_config self in
      if fcf_client_identity payload \<noteq> fsc_expected_client_identity config
      then (self, Ok (server_failure candidate' attempt IdentityMismatch))
      else if fcf_candidate_id payload \<noteq> candidate' \<or> fcf_client_attempt_id payload \<noteq> attempt
      then (self, Ok (server_failure candidate' attempt TranscriptMismatch))
      else (case verify_proof (fcf_proof payload) (fsc_credential config) ClientFinish
                   (transcript_binding (fcx_transcript ctx) None) of
        Inl reason \<Rightarrow> (self, Ok (server_failure candidate' attempt reason))
      | Inr _ \<Rightarrow>
        (case reserve_session_id self of
           (self, Inl e) \<Rightarrow> (self, Err e)
         | (self, Inr session) \<Rightarrow>
             let metadata = \<lparr>session_id = session, peer_identity = fsc_expected_client_identity config\<rparr>
             in (self\<lparr>fs_pending := hm_remove candidate' (fs_pending self),
                      fs_pending_commit := Some
                        \<lparr>fax_candidate_id = candidate', fax_attempt_id = attempt,
                         fax_authenticated_client_finish = payload, fax_metadata = metadata,
                         fax_transcript = fcx_transcript ctx\<rparr>\<rparr>,
                 Ok (Success \<lparr>acf_candidate_id = candidate', acf_client_attempt_id = attempt,
                       acf_metadata = metadata\<rparr>)))))"

definition fake_authenticate_client_finish ::
  "FakeServerCrypto \<Rightarrow> CandidateId \<Rightarrow> ClientAttemptId \<Rightarrow> FakeClientFinish
   \<Rightarrow> (FakeServerCrypto, AuthenticatedClientFinish CryptoOutcome) crypto_step" where
  "fake_authenticate_client_finish self candidate' attempt payload =
     (if fs_closed self
      then (self, Err (CryptoStateError.Closed (CryptoOperation.Server AuthenticateClientFinish)))
      else case fs_established self of
        Some x \<Rightarrow> repeated_finish self (fsx_candidate_id x) (fsx_attempt_id x)
          (fsx_authenticated_client_finish x) (fsx_metadata x) candidate' attempt payload
      | None \<Rightarrow>
      (case fs_pending_commit self of
        Some x \<Rightarrow> repeated_finish self (fax_candidate_id x) (fax_attempt_id x)
          (fax_authenticated_client_finish x) (fax_metadata x) candidate' attempt payload
      | None \<Rightarrow>
      (case hm_get (fs_pending self) candidate' of
        None \<Rightarrow> (self, Err (MissingServerCandidateContext candidate' attempt))
      | Some ctx \<Rightarrow>
        (case check_tuple candidate' (fcx_attempt_id ctx) candidate' attempt of
           Inl e \<Rightarrow> (self, Err e)
         | Inr _ \<Rightarrow> fake_accept_finish self ctx candidate' attempt payload))))"

definition fake_commit_session ::
  "FakeServerCrypto \<Rightarrow> CandidateId \<Rightarrow> ClientAttemptId \<Rightarrow> EstablishedSessionMetadata
   \<Rightarrow> (FakeServerCrypto, unit) crypto_step" where
  "fake_commit_session self candidate' attempt metadata = (case fs_pending_commit self of
     None \<Rightarrow> (self, invalid_server self ServerCryptoOperation.CommitSession)
   | Some pending' \<Rightarrow>
     (case check_tuple (fax_candidate_id pending') (fax_attempt_id pending') candidate' attempt of
        Inl e \<Rightarrow> (self, Err e)
      | Inr _ \<Rightarrow>
          if fax_metadata pending' \<noteq> metadata then (self, Err AuthenticatedMetadataMismatch)
          else
            let config = fs_config self;
                finish = \<lparr>fsf_candidate_id = candidate', fsf_client_attempt_id = attempt,
                  fsf_session_id = session_id metadata, fsf_server_identity = fsc_server_identity config,
                  fsf_proof = make_proof (fsc_credential config) ServerFinish
                    (transcript_binding (fax_transcript pending') (Some (session_id metadata)))\<rparr>
            in (self\<lparr>fs_pending := hm_empty, fs_pending_commit := None,
                     fs_established := Some
                       \<lparr>fsx_candidate_id = candidate', fsx_attempt_id = attempt,
                        fsx_authenticated_client_finish = fax_authenticated_client_finish pending',
                        fsx_metadata = metadata, fsx_prepared_server_finish = finish\<rparr>\<rparr>,
                Ok ())))"

definition fake_reject_authenticated_candidate ::
  "FakeServerCrypto \<Rightarrow> CandidateId \<Rightarrow> ClientAttemptId \<Rightarrow> (FakeServerCrypto, ServerCandidateRemoval) crypto_step" where
  "fake_reject_authenticated_candidate self candidate' attempt = (case fs_pending_commit self of
     None \<Rightarrow>
       if fs_closed self then (self, Ok ServerCandidateRemoval.AlreadyAbsent)
       else (self, invalid_server self RejectAuthenticatedCandidate)
   | Some pending' \<Rightarrow>
     (case check_tuple (fax_candidate_id pending') (fax_attempt_id pending') candidate' attempt of
        Inl e \<Rightarrow> (self, Err e)
      | Inr _ \<Rightarrow> (self\<lparr>fs_pending_commit := None\<rparr>, Ok ServerCandidateRemoval.Removed)))"

definition fake_prepare_server_finish ::
  "FakeServerCrypto \<Rightarrow> CandidateId \<Rightarrow> ClientAttemptId \<Rightarrow> SessionId
   \<Rightarrow> (FakeServerFinish PreparedServerFinish, CryptoStateError) result" where
  "fake_prepare_server_finish self candidate' attempt session = (case fs_established self of
     None \<Rightarrow> invalid_server self PrepareServerFinish
   | Some x \<Rightarrow>
       and_then (check_tuple (fsx_candidate_id x) (fsx_attempt_id x) candidate' attempt) (\<lambda>_.
       if session_id (fsx_metadata x) \<noteq> session
       then Err (SessionIdMismatch (session_id (fsx_metadata x)) session)
       else Ok \<lparr>psf_candidate_id = candidate', psf_client_attempt_id = attempt, psf_session_id = session,
                psf_payload = fsx_prepared_server_finish x\<rparr>))"

definition fake_remove_candidate ::
  "FakeServerCrypto \<Rightarrow> CandidateId \<Rightarrow> ClientAttemptId \<Rightarrow> (FakeServerCrypto, ServerCandidateRemoval) crypto_step" where
  "fake_remove_candidate self candidate' attempt =
     (if fs_closed self then (self, Ok ServerCandidateRemoval.AlreadyAbsent)
      else if fs_pending_commit self \<noteq> None then (self, Err AuthenticationCommitPending)
      else if fs_established self \<noteq> None then (self, invalid_server self RemoveCandidate)
      else (case hm_get (fs_pending self) candidate' of
        None \<Rightarrow> (self, Ok ServerCandidateRemoval.AlreadyAbsent)
      | Some ctx \<Rightarrow>
        (case check_tuple candidate' (fcx_attempt_id ctx) candidate' attempt of
           Inl e \<Rightarrow> (self, Err e)
         | Inr _ \<Rightarrow> (self\<lparr>fs_pending := hm_remove candidate' (fs_pending self)\<rparr>,
                    Ok ServerCandidateRemoval.Removed))))"

definition fake_server_shutdown :: "FakeServerCrypto \<Rightarrow> FakeServerCrypto \<times> CryptoShutdownOutcome" where
  "fake_server_shutdown self =
     (self\<lparr>fs_pending := hm_empty, fs_pending_commit := None, fs_established := None, fs_closed := True\<rparr>,
      \<lparr>removed_pending_contexts = hm_len (fs_pending self),
       removed_pending_commit = (fs_pending_commit self \<noteq> None),
       removed_established_context = (fs_established self \<noteq> None),
       already_closed = fs_closed self\<rparr>)"

definition fake_server ::
  "(FakeServerCrypto, FakeClientHello, FakeServerHello, FakeClientFinish, FakeServerFinish) ServerHandshakeCrypto" where
  "fake_server = \<lparr>sv_phase = fake_server_phase, sv_non_secret_status = fake_non_secret_status,
     sv_prepare_server_hello = fake_prepare_server_hello,
     sv_authenticate_client_finish = fake_authenticate_client_finish,
     sv_commit_session = fake_commit_session,
     sv_reject_authenticated_candidate = fake_reject_authenticated_candidate,
     sv_prepare_server_finish = fake_prepare_server_finish,
     sv_remove_candidate = fake_remove_candidate, sv_shutdown = fake_server_shutdown\<rparr>"

section \<open>The client provider keeps its contract\<close>

lemma fake_client_simps [simp]:
  "cc_phase fake_client = fake_client_phase"
  "cc_start_attempt fake_client = fake_start_attempt"
  "cc_authenticate_server_hello fake_client = fake_authenticate_server_hello"
  "cc_prepare_client_finish fake_client = fake_prepare_client_finish"
  "cc_authenticate_server_finish fake_client = fake_authenticate_server_finish"
  "cc_commit_session fake_client = fake_client_commit"
  "cc_close_context fake_client = fake_close_context"
  "cc_shutdown fake_client = fake_client_shutdown"
  by (simp_all add: fake_client_def)

text \<open>
  What the client provider has seen of the peer: the metadata it reports names the configured server
  and the session the server's finish proves, under the configured credential and its own transcript.
\<close>

definition finish_authentic ::
  "FakeClientCryptoConfig \<Rightarrow> ClientAttemptId \<Rightarrow> FakeTranscript \<Rightarrow> FakeServerFinish
   \<Rightarrow> EstablishedSessionMetadata \<Rightarrow> bool" where
  "finish_authentic config attempt transcript finish metadata \<longleftrightarrow>
     ft_attempt_id transcript = attempt \<and>
     ft_client_identity transcript = fcc_client_identity config \<and>
     ft_server_identity transcript = fcc_expected_server_identity config \<and>
     fsf_proof finish = make_proof (fcc_credential config) ServerFinish
       (transcript_binding transcript (Some (session_id metadata))) \<and>
     peer_identity metadata = fcc_expected_server_identity config"

definition fake_client_ok :: "FakeClientCrypto \<Rightarrow> bool" where
  "fake_client_ok c \<longleftrightarrow> (case fc_state c of
     FakeClientCryptoState.AwaitingServerFinish a x \<Rightarrow>
       ft_attempt_id (afc_transcript x) = a \<and>
       ft_client_identity (afc_transcript x) = fcc_client_identity (fc_config c) \<and>
       ft_server_identity (afc_transcript x) = fcc_expected_server_identity (fc_config c)
   | FakeClientCryptoState.AuthenticatedPendingCommit a x \<Rightarrow>
       finish_authentic (fc_config c) a (acc_transcript x) (acc_authenticated_server_finish x) (acc_metadata x)
   | FakeClientCryptoState.Established a x \<Rightarrow>
       finish_authentic (fc_config c) a (csc_transcript x) (csc_authenticated_server_finish x) (csc_metadata x)
   | _ \<Rightarrow> True)"

definition fake_client_agreed :: "FakeClientCrypto \<Rightarrow> EstablishedSessionMetadata option" where
  "fake_client_agreed c = (case fc_state c of
     FakeClientCryptoState.AuthenticatedPendingCommit _ x \<Rightarrow> Some (acc_metadata x)
   | FakeClientCryptoState.Established _ x \<Rightarrow> Some (csc_metadata x)
   | _ \<Rightarrow> None)"

lemma verify_proof_Ok:
  "verify_proof observed credential domain binding = Ok () \<longleftrightarrow> observed = make_proof credential domain binding"
  by (cases observed) (auto simp: verify_proof_def make_proof_def)

lemma verify_proof_Inr:
  "verify_proof observed credential domain binding = Inr u \<Longrightarrow> observed = make_proof credential domain binding"
  by (cases u) (simp add: verify_proof_Ok)

lemmas fake_client_defs = fake_client_phase_def fake_attempt_def check_attempt_def fake_client_ok_def
  fake_client_agreed_def Let_def

interpretation fake_client: client_crypto fake_client fake_attempt fake_client_agreed fake_client_ok
proof (unfold_locales, unfold fake_client_simps)
  fix c c' :: FakeClientCrypto and a md p sh r sf q cleanup
  show "fake_client_ok c' \<and> pch_attempt_id p = a \<and> fake_attempt c' = Some a \<and>
      fake_client_phase c' = ClientCryptoPhase.AwaitingServerHello"
    if "fake_start_attempt c a = (c', Ok p)"
    using that by (auto simp: fake_start_attempt_def fake_client_defs split: if_splits)
  show "fake_client_ok c' \<and> fake_attempt c' = Some a \<and>
      (case r of
         Success s \<Rightarrow> ash_attempt_id s = a \<and> fake_client_phase c' = ClientCryptoPhase.AwaitingServerFinish
       | RemoteFailure f \<Rightarrow> (\<exists>reason. f = ClientAttempt a reason) \<and>
           fake_client_phase c' = ClientCryptoPhase.AwaitingServerHello)"
    if "fake_client_phase c = ClientCryptoPhase.AwaitingServerHello" "fake_attempt c = Some a"
      "fake_authenticate_server_hello c a sh = (c', Ok r)"
    using that
    by (auto simp: fake_authenticate_server_hello_def fake_client_defs client_failure_def
        split: if_splits sum.splits FakeClientCryptoState.splits)
  show "\<exists>p. fake_prepare_client_finish c a = Ok p \<and> pcf_attempt_id p = a"
    if "fake_client_phase c = ClientCryptoPhase.AwaitingServerFinish" "fake_attempt c = Some a"
    using that
    by (auto simp: fake_prepare_client_finish_def fake_client_defs split: FakeClientCryptoState.splits)
  show "fake_client_ok c' \<and> fake_attempt c' = Some a \<and>
      (case q of
         Success s \<Rightarrow> asf_attempt_id s = a \<and> fake_client_agreed c' = Some (asf_metadata s) \<and>
           fake_client_phase c' = ClientCryptoPhase.AuthenticatedPendingCommit
       | RemoteFailure f \<Rightarrow> (\<exists>reason. f = ClientAttempt a reason) \<and>
           fake_client_phase c' = ClientCryptoPhase.AwaitingServerFinish)"
    if "fake_client_ok c" "fake_client_phase c = ClientCryptoPhase.AwaitingServerFinish"
      "fake_attempt c = Some a" "fake_authenticate_server_finish c a sf = (c', Ok q)"
    using that
    by (auto simp: fake_authenticate_server_finish_def fake_client_defs client_failure_def
        finish_authentic_def dest!: verify_proof_Inr
        split: if_splits sum.splits FakeClientCryptoState.splits)
  show "\<exists>c'. fake_client_commit c a md = (c', Ok ()) \<and> fake_client_ok c' \<and>
      fake_client_agreed c' = Some md \<and> fake_client_phase c' = ClientCryptoPhase.Established"
    if "fake_client_ok c" "fake_client_phase c = ClientCryptoPhase.AuthenticatedPendingCommit"
      "fake_attempt c = Some a" "fake_client_agreed c = Some md"
    using that
    by (auto simp: fake_client_commit_def fake_client_defs split: FakeClientCryptoState.splits)
  show "\<exists>c'. fake_close_context c a = (c', Ok ClientContextRemoval.Removed) \<and> fake_client_ok c' \<and>
      fake_client_phase c' = ClientCryptoPhase.Closed"
    if "fake_client_phase c \<noteq> ClientCryptoPhase.Idle" "fake_client_phase c \<noteq> ClientCryptoPhase.Closed"
      "fake_attempt c = Some a"
    using that
    by (auto simp: fake_close_context_def fake_client_defs split: FakeClientCryptoState.splits)
  show "fake_client_ok c' \<and> fake_client_phase c' = ClientCryptoPhase.Closed"
    if "fake_client_shutdown c = (c', cleanup)"
    using that by (auto simp: fake_client_shutdown_def fake_client_defs)
qed

interpretation fake_client_config: client_crypto_constant fake_client fc_config
proof (unfold_locales, unfold fake_client_simps)
  fix c c' :: FakeClientCrypto and a md sh sf r1 r2 r3 r4 r5 r6
  show "fc_config c' = fc_config c" if "fake_start_attempt c a = (c', r1)"
    using that by (auto simp: fake_start_attempt_def Let_def split: if_splits)
  show "fc_config c' = fc_config c" if "fake_authenticate_server_hello c a sh = (c', r2)"
    using that by (auto simp: fake_authenticate_server_hello_def Let_def
        split: if_splits sum.splits FakeClientCryptoState.splits)
  show "fc_config c' = fc_config c" if "fake_authenticate_server_finish c a sf = (c', r3)"
    using that by (auto simp: fake_authenticate_server_finish_def Let_def
        split: if_splits sum.splits FakeClientCryptoState.splits)
  show "fc_config c' = fc_config c" if "fake_client_commit c a md = (c', r4)"
    using that by (auto simp: fake_client_commit_def split: if_splits sum.splits FakeClientCryptoState.splits)
  show "fc_config c' = fc_config c" if "fake_close_context c a = (c', r5)"
    using that by (auto simp: fake_close_context_def split: if_splits sum.splits)
  show "fc_config c' = fc_config c" if "fake_client_shutdown c = (c', r6)"
    using that by (auto simp: fake_client_shutdown_def Let_def)
qed


section \<open>The server provider keeps its contract\<close>

lemma fake_server_simps [simp]:
  "sv_phase fake_server = fake_server_phase"
  "sv_non_secret_status fake_server = fake_non_secret_status"
  "sv_prepare_server_hello fake_server = fake_prepare_server_hello"
  "sv_authenticate_client_finish fake_server = fake_authenticate_client_finish"
  "sv_commit_session fake_server = fake_commit_session"
  "sv_prepare_server_finish fake_server = fake_prepare_server_finish"
  "sv_remove_candidate fake_server = fake_remove_candidate"
  "sv_shutdown fake_server = fake_server_shutdown"
  by (simp_all add: fake_server_def)

definition fake_contexts :: "FakeServerCrypto \<Rightarrow> CandidateId \<Rightarrow> ClientAttemptId option" where
  "fake_contexts c i = map_option fcx_attempt_id (hm_get (fs_pending c) i)"

definition fake_server_agreed ::
  "FakeServerCrypto \<Rightarrow> (CandidateId \<times> ClientAttemptId \<times> EstablishedSessionMetadata) option" where
  "fake_server_agreed c = (case fs_established c of
     Some x \<Rightarrow> Some (fsx_candidate_id x, fsx_attempt_id x, fsx_metadata x)
   | None \<Rightarrow> map_option (\<lambda>x. (fax_candidate_id x, fax_attempt_id x, fax_metadata x)) (fs_pending_commit c))"

text \<open>The transcript of a candidate, and a client finish that proves it under the configured credential.\<close>

definition server_transcript :: "FakeServerCryptoConfig \<Rightarrow> CandidateId \<Rightarrow> ClientAttemptId \<Rightarrow> FakeTranscript" where
  "server_transcript config i a = \<lparr>ft_attempt_id = a, ft_candidate_id = i,
     ft_client_identity = fsc_expected_client_identity config,
     ft_server_identity = fsc_server_identity config\<rparr>"

definition client_finish_authentic ::
  "FakeServerCryptoConfig \<Rightarrow> CandidateId \<Rightarrow> ClientAttemptId \<Rightarrow> FakeClientFinish
   \<Rightarrow> EstablishedSessionMetadata \<Rightarrow> bool" where
  "client_finish_authentic config i a finish metadata \<longleftrightarrow>
     fcf_proof finish = make_proof (fsc_credential config) ClientFinish
       (transcript_binding (server_transcript config i a) None) \<and>
     peer_identity metadata = fsc_expected_client_identity config"

definition fake_server_ok :: "FakeServerCrypto \<Rightarrow> bool" where
  "fake_server_ok c \<longleftrightarrow> hm_invar (fs_pending c) \<and>
     (\<forall>i x. hm_get (fs_pending c) i = Some x \<longrightarrow>
        fcx_transcript x = server_transcript (fs_config c) i (fcx_attempt_id x)) \<and>
     (fs_closed c \<longrightarrow> fs_pending c = hm_empty \<and> fs_pending_commit c = None \<and> fs_established c = None) \<and>
     (\<forall>x. fs_pending_commit c = Some x \<longrightarrow>
        fax_transcript x = server_transcript (fs_config c) (fax_candidate_id x) (fax_attempt_id x) \<and>
        client_finish_authentic (fs_config c) (fax_candidate_id x) (fax_attempt_id x)
          (fax_authenticated_client_finish x) (fax_metadata x)) \<and>
     (\<forall>x. fs_established c = Some x \<longrightarrow> fs_pending c = hm_empty \<and> fs_pending_commit c = None \<and>
        client_finish_authentic (fs_config c) (fsx_candidate_id x) (fsx_attempt_id x)
          (fsx_authenticated_client_finish x) (fsx_metadata x))"

lemma fake_phase_iff:
  "fake_server_phase c = ServerCryptoPhase.Running \<longleftrightarrow>
     \<not> fs_closed c \<and> fs_established c = None \<and> fs_pending_commit c = None"
  "fake_server_phase c = ServerCryptoPhase.Closed \<longleftrightarrow> fs_closed c"
  "fake_server_phase c = ServerCryptoPhase.Established \<longleftrightarrow> \<not> fs_closed c \<and> fs_established c \<noteq> None"
  "fake_server_phase c = ServerCryptoPhase.AuthenticatedPendingCommit \<longleftrightarrow>
     \<not> fs_closed c \<and> fs_established c = None \<and> fs_pending_commit c \<noteq> None"
  by (auto simp: fake_server_phase_def)

lemma fake_status:
  assumes "fake_server_ok c"
  shows "status_ok (fake_non_secret_status c) (fake_contexts c)"
proof -
  have "dom (fake_contexts c) = dom (hm_get (fs_pending c))" by (auto simp: fake_contexts_def)
  then show ?thesis
    using assms
    by (auto simp: status_ok_def fake_non_secret_status_def fake_server_ok_def fake_phase_iff hm_len_card
        dom_def split: ServerCryptoPhase.split)
qed

lemma check_tuple_Inr [simp]:
  "check_tuple i a i' a' = Inr u \<longleftrightarrow> i = i' \<and> a = a'"
  "check_tuple i a i a = Ok ()"
  by (auto simp: check_tuple_def)

lemma fake_accept_hello_ok:
  assumes "fake_server_ok c" and "fake_server_phase c = ServerCryptoPhase.Running"
    and "fake_accept_hello c i a ch = (c', Ok r)"
  shows "fake_server_ok c' \<and> fake_server_phase c' = ServerCryptoPhase.Running \<and>
      (case r of
         Success s \<Rightarrow> psh_candidate_id s = i \<and> psh_client_attempt_id s = a \<and>
           fake_contexts c' = (fake_contexts c)(i \<mapsto> a)
       | RemoteFailure f \<Rightarrow> (\<exists>reason. f = ServerCandidate i a reason) \<and> fake_contexts c' = fake_contexts c)"
  using assms
  by (auto simp: fake_accept_hello_def Let_def server_failure_def fake_phase_iff fake_server_ok_def
      hm_laws fake_contexts_def server_transcript_def fun_eq_iff split: if_splits sum.splits)

lemma fake_prepare_server_hello_ok:
  assumes "fake_server_ok c" and "fake_server_phase c = ServerCryptoPhase.Running"
    and "fake_contexts c i = None \<or> fake_contexts c i = Some a"
    and "fake_prepare_server_hello c i a ch = (c', Ok r)"
  shows "fake_server_ok c' \<and> fake_server_phase c' = ServerCryptoPhase.Running \<and>
      (case r of
         Success s \<Rightarrow> psh_candidate_id s = i \<and> psh_client_attempt_id s = a \<and>
           fake_contexts c' = (fake_contexts c)(i \<mapsto> a)
       | RemoteFailure f \<Rightarrow> (\<exists>reason. f = ServerCandidate i a reason) \<and> fake_contexts c' = fake_contexts c)"
proof (cases "hm_get (fs_pending c) i")
  case None
  then show ?thesis
    using assms fake_accept_hello_ok [OF assms(1,2)]
    by (auto simp: fake_prepare_server_hello_def fake_phase_iff)
next
  case (Some x)
  then have "fake_contexts c i = Some a" "fcx_attempt_id x = a"
    using assms(3) by (auto simp: fake_contexts_def)
  then show ?thesis
    using assms(1,2,4) Some
    by (auto simp: fake_prepare_server_hello_def fake_phase_iff server_failure_def fun_eq_iff
        split: if_splits)
qed

lemma fake_accept_finish_ok:
  assumes "fake_server_ok c" and "fake_server_phase c = ServerCryptoPhase.Running"
    and "hm_get (fs_pending c) i = Some x" and "fcx_attempt_id x = a"
    and "fake_accept_finish c x i a cf = (c', Ok q)"
  shows "fake_server_ok c' \<and>
      (case q of
         Success s \<Rightarrow> acf_candidate_id s = i \<and> acf_client_attempt_id s = a \<and>
           fake_server_phase c' = ServerCryptoPhase.AuthenticatedPendingCommit \<and>
           fake_server_agreed c' = Some (i, a, acf_metadata s)
       | RemoteFailure f \<Rightarrow> (\<exists>reason. f = ServerCandidate i a reason) \<and>
           fake_server_phase c' = ServerCryptoPhase.Running \<and> fake_contexts c' = fake_contexts c)"
proof -
  have "fcx_transcript x = server_transcript (fs_config c) i a"
    using assms(1,3,4) by (auto simp: fake_server_ok_def)
  then show ?thesis
    using assms(1,2,5)
    by (auto simp: fake_accept_finish_def Let_def server_failure_def fake_phase_iff fake_server_ok_def
        hm_laws fake_contexts_def fake_server_agreed_def reserve_session_id_def client_finish_authentic_def
        dest!: verify_proof_Inr split: if_splits sum.splits option.splits)
qed

interpretation fake_server: server_crypto fake_server fake_contexts fake_server_agreed fake_server_phase
    fake_server_ok
proof (unfold_locales, unfold fake_server_simps)
  fix c c' :: FakeServerCrypto and i a md ch r cf q cleanup e
  show "scs_phase (fake_non_secret_status c) = fake_server_phase c \<and>
      status_ok (fake_non_secret_status c) (fake_contexts c)"
    if "fake_server_ok c" using fake_status [OF that] by (simp add: fake_non_secret_status_def)
  show "fake_server_ok c' \<and> fake_server_phase c' = ServerCryptoPhase.Running \<and>
      (case r of
         Success s \<Rightarrow> psh_candidate_id s = i \<and> psh_client_attempt_id s = a \<and>
           fake_contexts c' = (fake_contexts c)(i \<mapsto> a)
       | RemoteFailure f \<Rightarrow> (\<exists>reason. f = ServerCandidate i a reason) \<and> fake_contexts c' = fake_contexts c)"
    if "fake_server_ok c" "fake_server_phase c = ServerCryptoPhase.Running"
      "fake_contexts c i = None \<or> fake_contexts c i = Some a"
      "fake_prepare_server_hello c i a ch = (c', Ok r)"
    using that by (rule fake_prepare_server_hello_ok)
  show "fake_server_ok c' \<and>
      (case q of
         Success s \<Rightarrow> acf_candidate_id s = i \<and> acf_client_attempt_id s = a \<and>
           fake_server_phase c' = ServerCryptoPhase.AuthenticatedPendingCommit \<and>
           fake_server_agreed c' = Some (i, a, acf_metadata s)
       | RemoteFailure f \<Rightarrow> (\<exists>reason. f = ServerCandidate i a reason) \<and>
           fake_server_phase c' = ServerCryptoPhase.Running \<and> fake_contexts c' = fake_contexts c)"
    if "fake_server_ok c" "fake_server_phase c = ServerCryptoPhase.Running" "fake_contexts c i = Some a"
      "fake_authenticate_client_finish c i a cf = (c', Ok q)"
    using that(3,4) that(2) fake_accept_finish_ok [OF that(1,2)]
    by (auto simp: fake_authenticate_client_finish_def fake_phase_iff fake_contexts_def)
  show "fake_server_ok c' \<and> fake_server_phase c' = ServerCryptoPhase.Established \<and>
      fake_server_agreed c' = Some (i, a, md) \<and>
      (case q of
         Success s \<Rightarrow> acf_candidate_id s = i \<and> acf_client_attempt_id s = a \<and> acf_metadata s = md
       | RemoteFailure f \<Rightarrow> \<exists>reason. f = ServerCandidate i a reason)"
    if "fake_server_ok c" "fake_server_phase c = ServerCryptoPhase.Established"
      "fake_server_agreed c = Some (i, a, md)" "fake_authenticate_client_finish c i a cf = (c', Ok q)"
    using that
    by (auto simp: fake_authenticate_client_finish_def fake_phase_iff fake_server_agreed_def
        repeated_finish_def server_failure_def split: if_splits)
  show "\<exists>c'. fake_commit_session c i a md = (c', Ok ()) \<and> fake_server_ok c' \<and>
      fake_server_phase c' = ServerCryptoPhase.Established \<and> fake_server_agreed c' = Some (i, a, md)"
    if "fake_server_ok c" "fake_server_phase c = ServerCryptoPhase.AuthenticatedPendingCommit"
      "fake_server_agreed c = Some (i, a, md)"
    using that
    by (auto simp: fake_commit_session_def fake_phase_iff fake_server_agreed_def Let_def fake_server_ok_def)
  show "\<exists>p. fake_prepare_server_finish c i a (session_id md) = Ok p \<and> psf_candidate_id p = i \<and>
      psf_client_attempt_id p = a \<and> psf_session_id p = session_id md"
    if "fake_server_phase c = ServerCryptoPhase.Established" "fake_server_agreed c = Some (i, a, md)"
    using that by (auto simp: fake_prepare_server_finish_def fake_phase_iff fake_server_agreed_def)
  show "\<exists>c'. fake_remove_candidate c i a = (c', Ok ServerCandidateRemoval.Removed) \<and> fake_server_ok c' \<and>
      fake_server_phase c' = ServerCryptoPhase.Running \<and> fake_contexts c' = (fake_contexts c)(i := None)"
    if "fake_server_ok c" "fake_server_phase c = ServerCryptoPhase.Running" "fake_contexts c i = Some a"
    using that
    by (auto simp: fake_remove_candidate_def fake_phase_iff fake_contexts_def fake_server_ok_def hm_laws
        fun_eq_iff)
  show "fake_remove_candidate c i a = (c, Ok ServerCandidateRemoval.AlreadyAbsent)"
    if "fake_server_phase c = ServerCryptoPhase.Running" "fake_contexts c i = None"
    using that by (auto simp: fake_remove_candidate_def fake_phase_iff fake_contexts_def)
  show "fake_server_phase c' \<noteq> ServerCryptoPhase.Closed"
    if "fake_server_phase c \<noteq> ServerCryptoPhase.Closed" "fake_prepare_server_hello c i a ch = (c', Err e)"
    using that
    by (auto simp: fake_prepare_server_hello_def fake_accept_hello_def Let_def fake_phase_iff
        split: if_splits sum.splits option.splits)
  show "fake_server_phase c' \<noteq> ServerCryptoPhase.Closed"
    if "fake_server_phase c \<noteq> ServerCryptoPhase.Closed"
      "fake_authenticate_client_finish c i a cf = (c', Err e)"
    using that
    by (auto simp: fake_authenticate_client_finish_def fake_accept_finish_def repeated_finish_def Let_def
        reserve_session_id_def fake_phase_iff split: if_splits sum.splits option.splits)
  show "fake_server_ok c' \<and> fake_server_phase c' = ServerCryptoPhase.Closed"
    if "fake_server_shutdown c = (c', cleanup)"
    using that by (auto simp: fake_server_shutdown_def fake_server_ok_def fake_phase_iff)
qed

interpretation fake_server_config: server_crypto_constant fake_server fs_config
proof (unfold_locales, unfold fake_server_simps)
  fix c c' :: FakeServerCrypto and i a ch cf md r1 r2 r3 r4 r5
  show "fs_config c' = fs_config c" if "fake_prepare_server_hello c i a ch = (c', r1)"
    using that by (auto simp: fake_prepare_server_hello_def fake_accept_hello_def Let_def
        split: if_splits sum.splits option.splits)
  show "fs_config c' = fs_config c" if "fake_authenticate_client_finish c i a cf = (c', r2)"
    using that by (auto simp: fake_authenticate_client_finish_def fake_accept_finish_def repeated_finish_def
        reserve_session_id_def Let_def split: if_splits sum.splits option.splits)
  show "fs_config c' = fs_config c" if "fake_commit_session c i a md = (c', r3)"
    using that by (auto simp: fake_commit_session_def Let_def split: if_splits sum.splits option.splits)
  show "fs_config c' = fs_config c" if "fake_remove_candidate c i a = (c', r4)"
    using that by (auto simp: fake_remove_candidate_def split: if_splits sum.splits option.splits)
  show "fs_config c' = fs_config c" if "fake_server_shutdown c = (c', r5)"
    using that by (auto simp: fake_server_shutdown_def)
qed

section \<open>Coordinators over the deterministic providers\<close>

lemma fake_new_ok:
  "fake_client_ok (FakeClientCrypto_new config)"
  "fake_server_ok (FakeServerCrypto_new config')" "fake_contexts (FakeServerCrypto_new config') = Map.empty"
  by (simp_all add: fake_client_ok_def FakeClientCrypto_new_def fake_server_ok_def FakeServerCrypto_new_def
      fake_contexts_def fun_eq_iff)

lemma fake_client_run:
  assumes "Handshake_Client.build fake_client policy (FakeClientCrypto_new config) = Ok k0"
    and "client_coordinated fake_client k0 k"
  shows "fake_client.synced k" and "fc_config (chc_crypto k) = config"
  using assms(2) fake_client.coordinated_synced [OF assms(2)] fake_client.build_synced [OF assms(1) fake_new_ok(1)]
    fake_client_config.coordinated_keeps [OF assms(2)] build_crypto(1) [OF assms(1)]
  by (simp_all add: FakeClientCrypto_new_def)

lemma fake_server_run:
  assumes "Handshake_Server.build fake_server (ServerHandshake_new policy) (FakeServerCrypto_new config) = Ok k0"
    and "server_coordinated fake_server k0 k"
  shows "fake_server.synced k" and "fs_config (shc_crypto k) = config"
  using fake_server.coordinated_synced [OF assms(2)] fake_server.build_synced [OF assms(1) fake_new_ok(2,3)]
    fake_server_config.coordinated_keeps [OF assms(2)] build_crypto(2) [OF assms(1)]
  by (simp_all add: FakeServerCrypto_new_def)

text \<open>
  C34. In every run of the two coordinators over the deterministic providers, whatever the network
  delivers, an error is a local failure that leaves the coordinator closed, never a failed internal
  check, and a session is established only with a proof of the peer. The client's session is with the
  configured server and proved by its finish, under the configured credential and for the transcript
  of the attempt and this session identifier. The server's session is with the configured client and
  proved by its finish for the transcript of the candidate and attempt the policy reports.
\<close>

theorem fake_sessions_proved:
  assumes "Handshake_Client.build fake_client cpolicy (FakeClientCrypto_new cconfig) = Ok c0"
    and "client_coordinated fake_client c0 c"
    and "Handshake_Server.build fake_server (ServerHandshake_new spolicy) (FakeServerCrypto_new sconfig) = Ok s0"
    and "server_coordinated fake_server s0 s"
  shows "(\<forall>call c' e. client_call fake_client call c = (c', Err e) \<longrightarrow>
       \<not> invariant_failure e \<and> chc_lifecycle c' = CoordinatorLifecycle.Closed) \<and>
    (\<forall>call s' e. server_call fake_server call s = (s', Err e) \<longrightarrow>
       local_failure e \<and> shc_lifecycle s' = CoordinatorLifecycle.Closed) \<and>
    (\<forall>md t. ch_state (chc_policy c) = ClientHandshakeState.Established md t \<longrightarrow>
       (\<exists>a x. fc_state (chc_crypto c) = FakeClientCryptoState.Established a x \<and> csc_metadata x = md \<and>
          finish_authentic cconfig a (csc_transcript x) (csc_authenticated_server_finish x) md)) \<and>
    (\<forall>session. sh_state (shc_policy s) = ServerHandshakeState.Established session \<longrightarrow>
       (\<exists>x. fs_established (shc_crypto s) = Some x \<and> fsx_metadata x = ess_metadata session \<and>
          client_finish_authentic sconfig (ess_completed_candidate_id session)
            (ess_client_attempt_id session) (fsx_authenticated_client_finish x) (ess_metadata session)))"
proof (intro conjI allI impI)
  note c = fake_client_run [OF assms(1,2)] and s = fake_server_run [OF assms(3,4)]
  fix call c' e assume r: "client_call fake_client call c = (c', Err e)"
  show "\<not> invariant_failure e" "chc_lifecycle c' = CoordinatorLifecycle.Closed"
    using fake_client.client_call_good [OF c(1), of call] by (auto simp: r fake_client.good_def)
next
  note s = fake_server_run [OF assms(3,4)]
  fix call s' e assume r: "server_call fake_server call s = (s', Err e)"
  show "local_failure e" "shc_lifecycle s' = CoordinatorLifecycle.Closed"
    using fake_server.server_call_good [OF s(1), of call] by (auto simp: r fake_server.good_def)
next
  note c = fake_client_run [OF assms(1,2)]
  fix md t assume "ch_state (chc_policy c) = ClientHandshakeState.Established md t"
  then have "fake_client_ok (chc_crypto c)" "fake_client_agreed (chc_crypto c) = Some md"
    "fake_client_phase (chc_crypto c) = ClientCryptoPhase.Established"
    using c(1) by (simp_all add: fake_client.sync_defs)
  then show "\<exists>a x. fc_state (chc_crypto c) = FakeClientCryptoState.Established a x \<and> csc_metadata x = md \<and>
      finish_authentic cconfig a (csc_transcript x) (csc_authenticated_server_finish x) md"
    using c(2) by (auto simp: fake_client_defs split: FakeClientCryptoState.splits)
next
  note s = fake_server_run [OF assms(3,4)]
  fix session assume "sh_state (shc_policy s) = ServerHandshakeState.Established session"
  then have "fake_server_ok (shc_crypto s)" "fake_server_agreed (shc_crypto s) =
      Some (ess_completed_candidate_id session, ess_client_attempt_id session, ess_metadata session)"
    "fake_server_phase (shc_crypto s) = ServerCryptoPhase.Established"
    using s(1) by (simp_all add: fake_server.sync_defs)
  then show "\<exists>x. fs_established (shc_crypto s) = Some x \<and> fsx_metadata x = ess_metadata session \<and>
      client_finish_authentic sconfig (ess_completed_candidate_id session)
        (ess_client_attempt_id session) (fsx_authenticated_client_finish x) (ess_metadata session)"
    using s(2) by (auto simp: fake_phase_iff fake_server_agreed_def fake_server_ok_def)
qed

text \<open>A run of both coordinators up to their sessions, at the instants 1 to 5.\<close>

definition fake_demo_secret :: FakeCredential where "fake_demo_secret = FakeCredential 42"
definition fake_demo_client_config :: FakeClientCryptoConfig where
  "fake_demo_client_config = \<lparr>fcc_credential = fake_demo_secret, fcc_client_identity = PeerIdentity_from_u64 11,
     fcc_expected_server_identity = PeerIdentity_from_u64 22\<rparr>"
definition fake_demo_server_config :: FakeServerCryptoConfig where
  "fake_demo_server_config = \<lparr>fsc_credential = fake_demo_secret, fsc_server_identity = PeerIdentity_from_u64 22,
     fsc_expected_client_identity = PeerIdentity_from_u64 11, fsc_first_session_id = 7\<rparr>"
definition fake_demo_transcript :: FakeTranscript where
  "fake_demo_transcript = server_transcript fake_demo_server_config (CandidateId 1) (ClientAttemptId 1)"
definition fake_demo_proof :: "FakeProofDomain \<Rightarrow> SessionId option \<Rightarrow> FakeProof" where
  "fake_demo_proof domain session = make_proof fake_demo_secret domain (transcript_binding fake_demo_transcript session)"

definition fake_demo_client :: "FakeClientCrypto ClientHandshakeCoordinator" where
  "fake_demo_client = \<lparr>chc_policy = chc_policy fresh_client,
     chc_crypto = FakeClientCrypto_new fake_demo_client_config, chc_lifecycle = CoordinatorLifecycle.Running\<rparr>"
definition fake_demo_server :: "FakeServerCrypto ServerHandshakeCoordinator" where
  "fake_demo_server = \<lparr>shc_policy = ServerHandshake_new policy10,
     shc_crypto = FakeServerCrypto_new fake_demo_server_config, shc_lifecycle = CoordinatorLifecycle.Running\<rparr>"

definition fake_demo_client_calls :: "(FakeServerHello, FakeServerFinish) ClientCall list" where
  "fake_demo_client_calls = [CallStart 1,
     CallServerHello server_address \<lparr>svh_client_attempt_id = first_attempt, svh_payload =
         \<lparr>fsh_candidate_id = CandidateId 1, fsh_client_attempt_id = first_attempt,
          fsh_server_identity = PeerIdentity_from_u64 22, fsh_proof = fake_demo_proof ServerHello None\<rparr>\<rparr> 3,
     CallServerFinish server_address \<lparr>svf_client_attempt_id = first_attempt, svf_payload =
         \<lparr>fsf_candidate_id = CandidateId 1, fsf_client_attempt_id = first_attempt,
          fsf_session_id = SessionId_from_u64 7, fsf_server_identity = PeerIdentity_from_u64 22,
          fsf_proof = fake_demo_proof ServerFinish (Some (SessionId_from_u64 7))\<rparr>\<rparr> 5]"

definition fake_demo_server_calls :: "(FakeClientHello, FakeClientFinish) ServerCall list" where
  "fake_demo_server_calls =
    [CallClientHello client_address \<lparr>clh_client_attempt_id = first_attempt, clh_payload =
         \<lparr>fch_attempt_id = first_attempt, fch_client_identity = PeerIdentity_from_u64 11,
          fch_proof = make_proof fake_demo_secret ClientHello
            (HelloBinding first_attempt (PeerIdentity_from_u64 11))\<rparr>\<rparr> 2,
     CallClientFinish client_address \<lparr>clf_client_attempt_id = first_attempt, clf_payload =
         \<lparr>fcf_candidate_id = CandidateId 1, fcf_client_attempt_id = first_attempt,
          fcf_client_identity = PeerIdentity_from_u64 11, fcf_proof = fake_demo_proof ClientFinish None\<rparr>\<rparr> 4]"

lemma fake_demo_built:
  "Handshake_Client.build fake_client (chc_policy fresh_client) (FakeClientCrypto_new fake_demo_client_config) = Ok fake_demo_client"
  "Handshake_Server.build fake_server (ServerHandshake_new policy10) (FakeServerCrypto_new fake_demo_server_config) = Ok fake_demo_server"
  by (simp_all add: Handshake_Client.build_def Handshake_Server.build_def fresh_client_def fake_demo_client_def
      fake_demo_server_def ServerHandshake_new_def state_name_def is_fresh_def fake_non_secret_status_def
      fake_server_phase_def FakeServerCrypto_new_def FakeClientCrypto_new_def client_state_name_def name_def
      fake_client_phase_def)

lemma coordinated_fold:
  "client_coordinated C k0 k \<Longrightarrow> client_coordinated C k0 (fold (\<lambda>call k. fst (client_call C call k)) cs k)"
  "server_coordinated D s0 s \<Longrightarrow> server_coordinated D s0 (fold (\<lambda>call k. fst (server_call D call k)) ds s)"
  by (induction cs arbitrary: k, simp_all add: client_coordinated.step)
    (induction ds arbitrary: s, simp_all add: server_coordinated.step)

lemma fake_demo_client_established:
  "ch_state (chc_policy (fold (\<lambda>call k. fst (client_call fake_client call k)) fake_demo_client_calls fake_demo_client)) =
   ClientHandshakeState.Established
     \<lparr>session_id = SessionId_from_u64 7, peer_identity = PeerIdentity_from_u64 22\<rparr> 5"
  by (simp add: fake_demo_client_calls_def fake_demo_client_def fresh_client_def Handshake_Client.start_def
      Session_Client.start_def instant_checked_add_def reserve_attempt_id_def u64_checked_add_def
      instant_max_def FakeClientCrypto_new_def fake_start_attempt_def fake_client_defs
      verified_def verify_client_phases_def client_state_name_def name_def expected_crypto_def
      receive_server_hello_def precheck_def inbound_kind_def fake_authenticate_server_hello_def
      fake_demo_client_config_def fake_demo_proof_def verify_proof_def make_proof_def fake_demo_transcript_def
      server_transcript_def transcript_binding_def fake_demo_server_config_def send_client_finish_def
      handle_authenticated_server_hello_def fake_prepare_client_finish_def receive_server_finish_def
      fake_authenticate_server_finish_def handle_authenticated_server_finish_def establish_session_def
      fake_client_commit_def)

abbreviation fake_demo_metadata :: EstablishedSessionMetadata where
  "fake_demo_metadata \<equiv> \<lparr>session_id = SessionId_from_u64 7, peer_identity = PeerIdentity_from_u64 11\<rparr>"

lemma fake_demo_policy:
  "handle_valid_client_hello (ServerHandshake_new policy10) client_address first_attempt 2 =
     (admitted policy10 client_address first_attempt 2, Ok \<lparr>sr_expired = [],
      sr_effects = [SendServerHello client_address (CandidateId 1) first_attempt NewCandidate]\<rparr>)"
  "precheck_client_finish (admitted policy10 client_address first_attempt 2) client_address first_attempt 4 =
     (admitted policy10 client_address first_attempt 2,
      Ok \<lparr>pr_expired = [], pr_decision = PermitNew (CandidateId 1) first_attempt\<rparr>)"
  by (rule new_server_admits, simp_all add: policy10_def instant_max_def)
    (rule admitted_permits, simp)

lemma fake_demo_finish:
  "\<exists>p session. handle_authenticated_client_finish (admitted policy10 client_address first_attempt 2)
     client_address (CandidateId 1) first_attempt fake_demo_metadata 4 =
     (p, Ok \<lparr>sr_expired = [], sr_effects =
       [SendServerFinish client_address (CandidateId 1) first_attempt (SessionId_from_u64 7),
        ServerEffect.SessionEstablished client_address (SessionId_from_u64 7)]\<rparr>) \<and>
     sh_state p = ServerHandshakeState.Established session \<and> ess_metadata session = fake_demo_metadata"
  by (simp add: handle_authenticated_client_finish_def admitted_def policy_steps establish_def
      remove_exact_candidate_def remove_candidate_def policy10_def)

lemma fake_demo_stable:
  "fake_server_phase c = ServerCryptoPhase.Running \<Longrightarrow> hm_len (fs_pending c) = 1 \<Longrightarrow>
   fs_pending_commit c = None \<Longrightarrow> fs_established c = None \<Longrightarrow>
   verify_server_stable fake_server (admitted policy10 client_address first_attempt 2) c = Ok ()"
  "fake_server_phase c = ServerCryptoPhase.Established \<Longrightarrow> hm_len (fs_pending c) = 0 \<Longrightarrow>
   fs_pending_commit c = None \<Longrightarrow> fs_established c \<noteq> None \<Longrightarrow>
   sh_state p = ServerHandshakeState.Established session \<Longrightarrow> verify_server_stable fake_server p c = Ok ()"
  by (simp_all add: verify_server_stable_def admitted_def state_name_def expected_phase_def
      fake_non_secret_status_def pending_candidate_count_def pending_count_def hm_defs expected_shape_def Let_def)

lemma fake_demo_server_established:
  "\<exists>session. sh_state (shc_policy (fold (\<lambda>call k. fst (server_call fake_server call k))
      fake_demo_server_calls fake_demo_server)) = ServerHandshakeState.Established session \<and>
     ess_metadata session = fake_demo_metadata"
proof -
  obtain p session where p: "handle_authenticated_client_finish (admitted policy10 client_address first_attempt 2)
     client_address (CandidateId 1) first_attempt fake_demo_metadata 4 =
     (p, Ok \<lparr>sr_expired = [], sr_effects =
       [SendServerFinish client_address (CandidateId 1) first_attempt (SessionId_from_u64 7),
        ServerEffect.SessionEstablished client_address (SessionId_from_u64 7)]\<rparr>)"
    "sh_state p = ServerHandshakeState.Established session" "ess_metadata session = fake_demo_metadata"
    using fake_demo_finish by blast
  then show ?thesis
    by (simp add: fake_demo_server_calls_def fake_demo_server_def receive_client_hello_def fake_demo_policy
        answer_hello_def FakeServerCrypto_new_def fake_prepare_server_hello_def fake_server_phase_def
        fake_accept_hello_def verify_proof_def make_proof_def fake_demo_server_config_def stable_def
        fake_demo_stable(1) fake_demo_stable(2) [OF _ _ _ _ p(2)] hm_defs Let_def
        receive_client_finish_def authenticate_finish_def fake_authenticate_client_finish_def
        fake_accept_finish_def fake_demo_proof_def fake_demo_transcript_def server_transcript_def
        transcript_binding_def reserve_session_id_def establish_candidate_def fake_commit_session_def
        server_finish_def fake_prepare_server_finish_def)
qed

theorem fake_sessions_proved_witness:
  "\<exists>c s md t session (x :: ClientSessionContext) (y :: FakeServerSessionContext) a.
     client_coordinated fake_client fake_demo_client c \<and> server_coordinated fake_server fake_demo_server s \<and>
     ch_state (chc_policy c) = ClientHandshakeState.Established md t \<and>
     sh_state (shc_policy s) = ServerHandshakeState.Established session \<and>
     session_id md = session_id (ess_metadata session) \<and>
     finish_authentic fake_demo_client_config a (csc_transcript x) (csc_authenticated_server_finish x) md \<and>
     client_finish_authentic fake_demo_server_config (ess_completed_candidate_id session)
       (ess_client_attempt_id session) (fsx_authenticated_client_finish y) (ess_metadata session)"
proof -
  note proved = fake_sessions_proved [OF fake_demo_built(1) coordinated_fold(1)
      [OF client_coordinated.base, of _ _ fake_demo_client_calls] fake_demo_built(2) coordinated_fold(2)
      [OF server_coordinated.base, of _ _ fake_demo_server_calls]]
  obtain session where session: "sh_state (shc_policy (fold (\<lambda>call k. fst (server_call fake_server call k))
      fake_demo_server_calls fake_demo_server)) = ServerHandshakeState.Established session"
    "ess_metadata session = fake_demo_metadata"
    using fake_demo_server_established by blast
  obtain y :: FakeServerSessionContext where y: "client_finish_authentic fake_demo_server_config (ess_completed_candidate_id session)
      (ess_client_attempt_id session) (fsx_authenticated_client_finish y) (ess_metadata session)"
    using proved [THEN conjunct2, THEN conjunct2, THEN conjunct2] session(1) by blast
  obtain a and x :: ClientSessionContext where "finish_authentic fake_demo_client_config a (csc_transcript x)
      (csc_authenticated_server_finish x) \<lparr>session_id = SessionId_from_u64 7, peer_identity = PeerIdentity_from_u64 22\<rparr>"
    using proved [THEN conjunct2, THEN conjunct2, THEN conjunct1] fake_demo_client_established by blast
  moreover have "session_id \<lparr>session_id = SessionId_from_u64 7, peer_identity = PeerIdentity_from_u64 22\<rparr> =
      session_id (ess_metadata session)" by (simp add: session(2))
  ultimately show ?thesis
    using fake_demo_client_established session(1) y coordinated_fold(1) [OF client_coordinated.base]
      coordinated_fold(2) [OF server_coordinated.base] by blast
qed

section \<open>An exchange between two providers\<close>

text \<open>The nine calls two providers see when no message is lost, up to both commits.\<close>

definition provider_exchange ::
  "('c, 'ch, 'sh, 'cf, 'sf) ClientHandshakeCrypto \<Rightarrow> ('s, 'ch, 'sh, 'cf, 'sf) ServerHandshakeCrypto
   \<Rightarrow> 'c \<Rightarrow> 's \<Rightarrow> CandidateId \<Rightarrow> ClientAttemptId \<Rightarrow> ('c \<times> 's) option" where
  "provider_exchange C S c s i a = (case cc_start_attempt C c a of
     (_, Inl _) \<Rightarrow> None
   | (c, Inr hello) \<Rightarrow>
   (case sv_prepare_server_hello S s i a (pch_payload hello) of
     (s, Inr (Success answer)) \<Rightarrow>
   (case cc_authenticate_server_hello C c a (psh_payload answer) of
     (c, Inr (Success _)) \<Rightarrow>
   (case cc_prepare_client_finish C c a of
     Inl _ \<Rightarrow> None
   | Inr finish \<Rightarrow>
   (case sv_authenticate_client_finish S s i a (pcf_payload finish) of
     (s, Inr (Success client)) \<Rightarrow>
   (case sv_commit_session S s i a (acf_metadata client) of
     (_, Inl _) \<Rightarrow> None
   | (s, Inr _) \<Rightarrow>
   (case sv_prepare_server_finish S s i a (session_id (acf_metadata client)) of
     Inl _ \<Rightarrow> None
   | Inr confirmation \<Rightarrow>
   (case cc_authenticate_server_finish C c a (psf_payload confirmation) of
     (c, Inr (Success server)) \<Rightarrow>
   (case cc_commit_session C c a (asf_metadata server) of
     (_, Inl _) \<Rightarrow> None
   | (c, Inr _) \<Rightarrow> Some (c, s))
   | _ \<Rightarrow> None)))
   | _ \<Rightarrow> None))
   | _ \<Rightarrow> None)
   | _ \<Rightarrow> None))"

text \<open>
  C35. Two fresh deterministic providers complete an exchange exactly when they share a credential and
  each expects the other's identity. They then agree on the session identifier, which is the server's
  configured first one, and each holds the other's identity as the authenticated peer.
\<close>

theorem fake_exchange_exact:
  "(provider_exchange fake_client fake_server (FakeClientCrypto_new cc) (FakeServerCrypto_new sc) i a \<noteq> None
    \<longleftrightarrow> fcc_credential cc = fsc_credential sc \<and>
      fcc_client_identity cc = fsc_expected_client_identity sc \<and>
      fcc_expected_server_identity cc = fsc_server_identity sc) \<and>
   (case provider_exchange fake_client fake_server (FakeClientCrypto_new cc) (FakeServerCrypto_new sc) i a of
      None \<Rightarrow> True
    | Some (c, s) \<Rightarrow>
        fake_client_agreed c = Some \<lparr>session_id = SessionId_from_u64 (fsc_first_session_id sc),
          peer_identity = fsc_server_identity sc\<rparr> \<and>
        fake_server_agreed s = Some (i, a, \<lparr>session_id = SessionId_from_u64 (fsc_first_session_id sc),
          peer_identity = fcc_client_identity cc\<rparr>) \<and>
        fake_client_phase c = ClientCryptoPhase.Established \<and>
        fake_server_phase s = ServerCryptoPhase.Established)"
proof -
  define ch where "ch = \<lparr>fch_attempt_id = a, fch_client_identity = fcc_client_identity cc,
    fch_proof = make_proof (fcc_credential cc) ClientHello (HelloBinding a (fcc_client_identity cc))\<rparr>"
  define c1 where "c1 = \<lparr>fc_config = cc,
    fc_state = FakeClientCryptoState.AwaitingServerHello a \<lparr>ahc_prepared_client_hello = ch\<rparr>\<rparr>"
  have start: "fake_start_attempt (FakeClientCrypto_new cc) a = (c1, Ok \<lparr>pch_attempt_id = a, pch_payload = ch\<rparr>)"
    by (simp add: fake_start_attempt_def FakeClientCrypto_new_def fake_client_phase_def Let_def c1_def ch_def)
  show ?thesis
  proof (cases "fcc_client_identity cc = fsc_expected_client_identity sc \<and> fcc_credential cc = fsc_credential sc")
    case False
    then have "\<exists>s reason. fake_prepare_server_hello (FakeServerCrypto_new sc) i a ch = (s, Ok (RemoteFailure reason))"
      by (auto simp: fake_prepare_server_hello_def FakeServerCrypto_new_def fake_server_phase_def
          fake_accept_hello_def Let_def ch_def verify_proof_def make_proof_def server_failure_def)
    then have "provider_exchange fake_client fake_server (FakeClientCrypto_new cc) (FakeServerCrypto_new sc) i a = None"
      by (auto simp: provider_exchange_def start)
    with False show ?thesis by auto
  next
    case True
    then show ?thesis
      by (auto simp: provider_exchange_def start c1_def ch_def fake_prepare_server_hello_def
          FakeServerCrypto_new_def fake_server_phase_def fake_accept_hello_def verify_proof_def make_proof_def
          fake_authenticate_server_hello_def fake_client_defs client_failure_def fake_prepare_client_finish_def
          transcript_binding_def fake_authenticate_client_finish_def hm_laws fake_accept_finish_def
          reserve_session_id_def fake_commit_session_def fake_prepare_server_finish_def
          fake_authenticate_server_finish_def fake_client_commit_def fake_server_agreed_def)
  qed
qed

end
