(* ===== verification/Key_Generator.thy ===== *)
theory Key_Generator
  imports Noise_Keys
begin

text \<open>
  The key generator (\<open>src/bin/generate_noise_keys.rs\<close>). It writes four files: a private and a public key for
  each side. The file system maps paths to the mode and the contents of a file. What the operating system
  answers, and the key pairs of the Noise library with their entropy, are parameters; the lines printed on
  standard output are left out. The program is the one compiled for Unix.
\<close>

type_synonym files = "string \<rightharpoonup> 32 word \<times> bytes"

text \<open>
  \<open>fs::write\<close> opens the file, which creates or truncates it, and writes the bytes. It fails when the file
  cannot be opened, or after some of the bytes.
\<close>

datatype WriteOutcome = Written | OpenFailed | WrittenOnly nat

record ('p, 'r) KeyHost =
  kh_parse_params :: "string \<Rightarrow> 'p option"
  kh_generate_keypair :: "'p \<Rightarrow> 'r \<Rightarrow> 'r \<times> (bytes \<times> bytes) option"
  kh_create_mode :: "32 word"
  kh_write :: "string \<Rightarrow> WriteOutcome"
  kh_chmod :: "string \<Rightarrow> bool"

definition fs_write :: "('p, 'r) KeyHost \<Rightarrow> files \<Rightarrow> string \<Rightarrow> bytes \<Rightarrow> files \<times> bool" where
  "fs_write H fs path contents =
     (let mode = (case fs path of Some (m, _) \<Rightarrow> m | None \<Rightarrow> kh_create_mode H) in
      case kh_write H path of
        Written \<Rightarrow> (fs(path \<mapsto> (mode, contents)), True)
      | OpenFailed \<Rightarrow> (fs, False)
      | WrittenOnly n \<Rightarrow> (fs(path \<mapsto> (mode, take n contents)), False))"

text \<open>\<open>chmod\<close> replaces the twelve permission bits and keeps the type of the file.\<close>

definition set_permissions :: "('p, 'r) KeyHost \<Rightarrow> files \<Rightarrow> string \<Rightarrow> 32 word \<Rightarrow> files \<times> bool" where
  "set_permissions H fs path mode = (case fs path of
     None \<Rightarrow> (fs, False)
   | Some (m, contents) \<Rightarrow>
       if kh_chmod H path then (fs(path \<mapsto> ((m AND NOT 0xFFF) OR mode, contents)), True) else (fs, False))"

record Args =
  arg_client_private :: string
  arg_client_public :: string
  arg_server_private :: string
  arg_server_public :: string

datatype GeneratorError =
  ParseParams | GenerateKeypair | WritePrivate string | SetPermissions string | WritePublic string

text \<open>The mode \<open>0o600\<close> is 384.\<close>

fun generate_pairs ::
  "('p, 'r) KeyHost \<Rightarrow> 'p \<Rightarrow> 'r \<Rightarrow> files \<Rightarrow> (string \<times> string) list
   \<Rightarrow> ('r \<times> files) \<times> (unit, GeneratorError) result" where
  "generate_pairs H params r fs [] = ((r, fs), Ok ())"
| "generate_pairs H params r fs ((private_path, public_path) # rest) =
     (case kh_generate_keypair H params r of
        (r, None) \<Rightarrow> ((r, fs), Err GenerateKeypair)
      | (r, Some (private, public)) \<Rightarrow>
        (case fs_write H fs private_path (encode_hex private) of
           (fs, False) \<Rightarrow> ((r, fs), Err (WritePrivate private_path))
         | (fs, True) \<Rightarrow>
        (case set_permissions H fs private_path 384 of
           (fs, False) \<Rightarrow> ((r, fs), Err (SetPermissions private_path))
         | (fs, True) \<Rightarrow>
        (case fs_write H fs public_path (encode_hex public) of
           (fs, False) \<Rightarrow> ((r, fs), Err (WritePublic public_path))
         | (fs, True) \<Rightarrow> generate_pairs H params r fs rest))))"

definition generator_main ::
  "('p, 'r) KeyHost \<Rightarrow> Args \<Rightarrow> 'r \<Rightarrow> files \<Rightarrow> ('r \<times> files) \<times> (unit, GeneratorError) result" where
  "generator_main H args r fs = (case kh_parse_params H ''Noise_IK_25519_ChaChaPoly_BLAKE2s'' of
     None \<Rightarrow> ((r, fs), Err ParseParams)
   | Some params \<Rightarrow> generate_pairs H params r fs
       [(arg_client_private args, arg_client_public args), (arg_server_private args, arg_server_public args)])"

section \<open>What a run leaves behind\<close>

text \<open>The Noise library generates keys of 32 bytes.\<close>

definition keypair_law :: "('p, 'r) KeyHost \<Rightarrow> bool" where
  "keypair_law H \<longleftrightarrow> (\<forall>p r r' priv pub. kh_generate_keypair H p r = (r', Some (priv, pub)) \<longrightarrow>
     length priv = 32 \<and> length pub = 32)"

text \<open>Loading the file at a path, as an endpoint does.\<close>

definition load_path :: "files \<Rightarrow> string \<Rightarrow> (StaticPrivateKey, LoadError) result" where
  "load_path fs path = load (map_option fst (fs path)) (map_option snd (fs path))"

definition holds_pair :: "files \<Rightarrow> string \<Rightarrow> string \<Rightarrow> bytes \<Rightarrow> bytes \<Rightarrow> bool" where
  "holds_pair fs private_path public_path priv pub \<longleftrightarrow>
     load_path fs private_path = Ok (StaticPrivateKey priv) \<and>
     (\<exists>m s. fs public_path = Some (m, s) \<and> StaticPublicKey_from_hex s = Ok (StaticPublicKey pub))"

lemma public_key_generated:
  "length pub = 32 \<Longrightarrow> StaticPublicKey_from_hex (encode_hex pub) = Ok (StaticPublicKey pub)"
  using decode_hex_iff [of "encode_hex pub" pub]
  by (simp add: StaticPublicKey_from_hex_def StaticPublicKey_from_bytes_def KEY_LENGTH_def)

lemma restricted_mode: "((m AND NOT 0xFFF) OR 384) AND 63 = (0 :: 32 word)"
proof -
  have "((m AND NOT 0xFFF) OR 384) AND 63 = (m AND (NOT 0xFFF AND 63)) OR (384 AND 63)"
    by (simp only: bit.conj_disj_distrib2 and.assoc)
  then show ?thesis by simp
qed

lemma load_restricted:
  assumes "length priv = 32"
  shows "load (Some ((m AND NOT 0xFFF) OR 384)) (Some (encode_hex priv)) = Ok (StaticPrivateKey priv)"
proof -
  have "trim (encode_hex priv) = encode_hex priv"
    using assms by (intro trim_hex(1) encode_hex_bytes) (cases priv, simp_all)
  then show ?thesis unfolding load_iff using assms restricted_mode [of m] by simp
qed

text \<open>One round of the loop that goes on.\<close>

lemma generate_pairs_Cons:
  assumes "generate_pairs H p r fs ((priv_path, pub_path) # rest) = (res, Ok ())" and "keypair_law H"
    and "priv_path \<noteq> pub_path"
  obtains r1 fs1 priv pub where
    "kh_generate_keypair H p r = (r1, Some (priv, pub))" "generate_pairs H p r1 fs1 rest = (res, Ok ())"
    "holds_pair fs1 priv_path pub_path priv pub" "\<forall>q. q \<noteq> priv_path \<and> q \<noteq> pub_path \<longrightarrow> fs1 q = fs q"
proof -
  obtain r1 priv pub where kp: "kh_generate_keypair H p r = (r1, Some (priv, pub))"
    using assms(1) by (auto split: prod.splits option.splits)
  have len: "length priv = 32" "length pub = 32" using assms(2) kp by (auto simp: keypair_law_def)
  obtain fs1 where rest: "generate_pairs H p r1 fs1 rest = (res, Ok ())"
    and fs1: "\<exists>m m'. fs1 = fs(priv_path \<mapsto> ((m AND NOT 0xFFF) OR 384, encode_hex priv), pub_path \<mapsto> (m', encode_hex pub))"
    using assms(1,3) kp
    by (fastforce simp: fs_write_def set_permissions_def Let_def split: prod.splits bool.splits option.splits
        WriteOutcome.splits if_splits)
  have "holds_pair fs1 priv_path pub_path priv pub"
    using fs1 load_restricted [OF len(1)] public_key_generated [OF len(2)] assms(3)
    by (auto simp: holds_pair_def load_path_def)
  then show thesis using that [OF kp rest] fs1 by auto
qed

text \<open>
  C10. When the key generator succeeds with four different paths, each private key file is accepted by the
  loader of the endpoints, which refuses files that others may access, and holds the generated private key;
  each public key file decodes to the generated public key; the two pairs are generated one after the other,
  client first; and no other file has changed. This holds whatever files and modes were there before.
\<close>

theorem generated_keys_load:
  assumes "generator_main H args r fs = ((r', fs'), Ok ())" and "keypair_law H"
    and "distinct [arg_client_private args, arg_client_public args, arg_server_private args, arg_server_public args]"
  shows "\<exists>p r1 kc pc ks ps. kh_parse_params H ''Noise_IK_25519_ChaChaPoly_BLAKE2s'' = Some p \<and>
    kh_generate_keypair H p r = (r1, Some (kc, pc)) \<and>
    kh_generate_keypair H p r1 = (r', Some (ks, ps)) \<and>
    holds_pair fs' (arg_client_private args) (arg_client_public args) kc pc \<and>
    holds_pair fs' (arg_server_private args) (arg_server_public args) ks ps \<and>
    (\<forall>q. q \<notin> {arg_client_private args, arg_client_public args, arg_server_private args, arg_server_public args} \<longrightarrow>
       fs' q = fs q)"
proof -
  obtain p where p: "kh_parse_params H ''Noise_IK_25519_ChaChaPoly_BLAKE2s'' = Some p"
    and "generate_pairs H p r fs [(arg_client_private args, arg_client_public args),
      (arg_server_private args, arg_server_public args)] = ((r', fs'), Ok ())"
    using assms(1) by (auto simp: generator_main_def split: option.splits)
  from this(2) obtain r1 fs1 kc pc where c: "kh_generate_keypair H p r = (r1, Some (kc, pc))"
    "generate_pairs H p r1 fs1 [(arg_server_private args, arg_server_public args)] = ((r', fs'), Ok ())"
    "holds_pair fs1 (arg_client_private args) (arg_client_public args) kc pc"
    "\<forall>q. q \<noteq> arg_client_private args \<and> q \<noteq> arg_client_public args \<longrightarrow> fs1 q = fs q"
    by (rule generate_pairs_Cons) (use assms(2,3) in auto)
  from c(2) obtain ks ps where s: "kh_generate_keypair H p r1 = (r', Some (ks, ps))"
    "holds_pair fs' (arg_server_private args) (arg_server_public args) ks ps"
    "\<forall>q. q \<noteq> arg_server_private args \<and> q \<noteq> arg_server_public args \<longrightarrow> fs' q = fs1 q"
    by (rule generate_pairs_Cons) (use assms(2,3) in auto)
  have "holds_pair fs' (arg_client_private args) (arg_client_public args) kc pc"
    using c(3) s(3) assms(3) by (simp add: holds_pair_def load_path_def)
  moreover have "\<forall>q. q \<notin> {arg_client_private args, arg_client_public args, arg_server_private args,
      arg_server_public args} \<longrightarrow> fs' q = fs q"
    using c(4) s(3) by simp
  ultimately show ?thesis using p c(1) s(1,2) by blast
qed

text \<open>A host on which every operation succeeds.\<close>

definition willing_host :: "(unit, nat) KeyHost" where
  "willing_host = \<lparr>kh_parse_params = (\<lambda>_. Some ()),
     kh_generate_keypair = (\<lambda>_ n. (n + 1, Some (replicate 32 (word_of_nat n), replicate 32 (word_of_nat (n + 100))))),
     kh_create_mode = 0x81A4, kh_write = (\<lambda>_. Written), kh_chmod = (\<lambda>_. True)\<rparr>"

definition lab_args :: Args where
  "lab_args = \<lparr>arg_client_private = ''client.key'', arg_client_public = ''client.pub'',
     arg_server_private = ''server.key'', arg_server_public = ''server.pub''\<rparr>"

theorem generated_keys_load_witness:
  "\<exists>fs'. generator_main willing_host lab_args 1 Map.empty = ((3, fs'), Ok ()) \<and>
     (\<exists>k. load_path fs' ''server.key'' = Ok k)"
proof -
  have "\<exists>fs'. generator_main willing_host lab_args 1 Map.empty = ((3, fs'), Ok ())"
    by (simp add: generator_main_def willing_host_def lab_args_def fs_write_def set_permissions_def)
  then obtain fs' where run: "generator_main willing_host lab_args 1 Map.empty = ((3, fs'), Ok ())" by blast
  have "keypair_law willing_host" by (simp add: keypair_law_def willing_host_def)
  from generated_keys_load [OF run this] run show ?thesis
    by (auto simp: lab_args_def holds_pair_def)
qed

text \<open>
  The key is written before the file is restricted. When the restriction fails, the run ends with the key in
  a file of the mode it was created with, which others may be able to read.
\<close>

lemma private_key_left_open:
  assumes "kh_parse_params H ''Noise_IK_25519_ChaChaPoly_BLAKE2s'' = Some p"
    and "kh_generate_keypair H p r = (r', Some (priv, pub))" and "fs (arg_client_private args) = None"
    and "kh_write H (arg_client_private args) = Written" and "\<not> kh_chmod H (arg_client_private args)"
  shows "generator_main H args r fs =
    ((r', fs(arg_client_private args \<mapsto> (kh_create_mode H, encode_hex priv))),
     Err (SetPermissions (arg_client_private args)))"
  using assms by (simp add: generator_main_def fs_write_def set_permissions_def)

end
