(* ===== verification/Spec2Isabelle.thy ===== *)
theory Spec2Isabelle
  imports Network_Lifecycle Data_Termination Fake_Crypto Key_Generator
begin

text \<open>
  Crabnet is a point-to-point VPN: a client and a server exchange IP packets, read from and written
  to a TUN device, as UDP datagrams. A session of protocol version 2 starts with a Noise IK
  handshake of four messages (client hello, server hello, client finish, server finish), which the
  policy of each side drives, and then forwards encrypted data frames until a lifetime limit or a
  local failure ends it. Version 1 forwards packets in plain frames. Around either, the program
  installs routes, the IPv4 forwarding switch and a NAT table, and restores them at the end.

  \<^bold>\<open>Parts and theories.\<close> Every theory models one source file or two (paths below \<open>src/\<close>); definitions
  carry the names of the Rust items, record fields carry a prefix of their struct, and each operation is
  a function of the state that returns the new state and the result the method returns.

  \<^item> \<open>Crabnet_Prelude\<close>: words, results, byte strings, buffer writes, instants, hash maps.
  \<^item> \<open>Protocol_Types\<close> (\<open>protocol/types.rs\<close>), \<open>Protocol_V1\<close> (\<open>protocol/v1.rs\<close>), \<open>Protocol_V2\<close>
    (\<open>protocol/v2.rs\<close>) and \<open>Data_Frame\<close> (\<open>data_plane/frame.rs\<close>): the frame codecs. Each is an
    interpretation of the locale \<open>wire_codec\<close>: encoder and decoder are mutually inverse partial
    functions, so every accepted datagram is canonical, and no two formats accept the same datagram.
  \<^item> \<open>Noise_Profile\<close> (\<open>crypto/noise_ik/profile.rs\<close>): prologue and control records. \<open>Noise_Keys\<close>
    (\<open>crypto/noise_ik/keys.rs\<close>): decoding and loading of keys. \<open>Key_Generator\<close>
    (\<open>bin/generate_noise_keys.rs\<close>): the files it writes, and that they load as the generated keys.
  \<^item> \<open>Data_Session\<close> (\<open>data_plane/session.rs\<close>): send counter, replay window (interpretation of the
    locale \<open>replay_filter\<close>) and lifetime limits.
  \<^item> \<open>Data_Runtime\<close> (\<open>data_plane/crypto.rs\<close>, \<open>data_plane/runtime.rs\<close>): the encrypted forwarding
    loop, refined to an abstract machine (\<open>spec_step\<close>) whose state is the set of accepted sequence
    numbers; integrity, replay safety and nonce uniqueness follow from there.
    \<open>Data_Termination\<close>: the loop ends, with the packets still allowed as its measure.
  \<^item> \<open>Session_Types\<close>, \<open>Session_Manager\<close> (\<open>session.rs\<close>), \<open>Session_Server\<close> (\<open>session/server.rs\<close>) and
    \<open>Session_Client\<close> (\<open>session/client.rs\<close>): the handshake policies. The server policy relies on the
    pending manager through the locale \<open>candidate_book\<close>. \<open>Session_Reports\<close> classifies what they report.
  \<^item> \<open>Crypto_Types\<close> (\<open>crypto/types.rs\<close>, \<open>crypto/client.rs\<close>, \<open>crypto/server.rs\<close>): the provider traits, as
    records of operations, with the locales \<open>client_crypto\<close> and \<open>server_crypto\<close> for what the coordinators
    rely on. \<open>Noise_Snow\<close> is the interface of the \<open>snow\<close> library, \<open>Noise_Client\<close> and \<open>Noise_Server\<close>
    (\<open>crypto/noise_ik/client.rs\<close>, \<open>crypto/noise_ik/server.rs\<close>) are the providers, and interpret those locales.
  \<^item> \<open>Handshake_Types\<close>, \<open>Handshake_Client\<close>, \<open>Handshake_Server\<close> and \<open>Handshake_Adapter\<close> (\<open>handshake/\<close>): the
    coordinators, which keep policy and provider in step, generic in the provider, and the frame adapter.
    \<open>Noise_Handshake\<close> puts coordinators and providers together: what an established session rests on,
    and that two honest endpoints complete the handshake.
  \<^item> \<open>Fake_Crypto\<close> (\<open>crypto/fake.rs\<close>): the deterministic providers, a second interpretation of \<open>client_crypto\<close>
    and \<open>server_crypto\<close>, so what is proved of the coordinators holds over them; when an exchange succeeds.
  \<^item> \<open>Config\<close> (\<open>config.rs\<close>, \<open>tun.rs\<close>): configuration, command line, validation. \<open>Noise_Runtime\<close>
    (\<open>noise_runtime.rs\<close>): binding, the handshake loops and the switch to the forwarding loop.
  \<^item> \<open>Legacy_Forwarding\<close>, \<open>Legacy_Client\<close> (\<open>client.rs\<close>), \<open>Legacy_Server\<close> (\<open>server.rs\<close>): the version 1
    runtimes, each an interpretation of \<open>loop_simulation\<close> (a loop without buffers and codec) and
    \<open>counted_loop\<close> (the counters); \<open>Legacy_Runtime\<close> has their properties, alone and connected.
  \<^item> \<open>Routing_Manager\<close> (\<open>routing/manager.rs\<close>) and \<open>Nat_Manager\<close> (\<open>nat/manager.rs\<close>): ownership of changes,
    installation with rollback, restoration, under the locales \<open>route_backend\<close> and \<open>nat_backend\<close>.
    The laws of a backend are about admissible operations: routes the kernel stores as given, and plain names.
    \<open>Commands\<close>, \<open>Routing_Linux\<close> (\<open>routing/linux.rs\<close>) and \<open>Nat_Linux\<close> (\<open>nat/linux.rs\<close>): command lines,
    parsing and the two backends; the locales \<open>network_tools\<close> and \<open>nft_tools\<close> state the documented effects
    of \<open>ip\<close>, \<open>sysctl\<close> and \<open>nft\<close>, and are sublocales of the backend locales. A route of the network state is an
    entry as \<open>ip\<close> reports it, blackholes and multipath routes included; what \<open>nft\<close> loads is only stated for
    the three commands written out in \<open>nat_script\<close>, which the ruleset is shown to be. \<open>Nat_Linux\<close> also says what a
    fingerprint records and that interface names cannot change the shape of the ruleset.
  \<^item> \<open>Firewall\<close> (\<open>firewall/\<close>): the diagnostics, with the derived orders as instances of \<open>linorder\<close>,
    against a description of the reported chains that uses nothing of the code.
  \<^item> \<open>Application\<close> (\<open>application.rs\<close>, \<open>main.rs\<close>): binding in its four variants, running, restoration. The
    locale \<open>platform\<close> joins the laws of the tools with those of the host; \<open>client_configured\<close> and
    \<open>server_configured\<close> say what a configuration asks of the host. \<open>Network_Lifecycle\<close> interprets the locale
    on a simulated host and has the properties of whole runs of the program.

  \<^bold>\<open>Conventions.\<close> \<open>usize\<close> has 64 bits. What the outside world returns (datagrams, clock readings,
  results of writes) is part of the events of a loop, and a loop is a recursion over the list of its
  events, so it needs no fuel and every statement about a run holds for all event sequences; a run
  whose events are used up waits. The network state of the operating system is a world that every
  command receives and returns.

  \<^bold>\<open>Parameters.\<close> Third-party code is a parameter, with what is assumed of it as named hypotheses or as
  the assumptions of a locale: the \<open>snow\<close> handshake and transport (the length of its tag, that reading
  inverts writing, that a message that reads under a key was written under it, that two honest parties
  complete the one handshake pattern the program names, under nonces that are not reserved) and its
  entropy; the network types of \<open>ipnet\<close>; the JSON parsers of \<open>serde_json\<close>; the runners of subprocesses; the host's
  sockets and devices; the key pairs of the library and the answers of the file system.

  \<^bold>\<open>Not modelled.\<close> Log and error texts (\<open>Display\<close>, \<open>Debug\<close>, context strings), except the lines of the
  firewall report; parsing of TOML and of command lines (\<open>toml\<close>, \<open>clap\<close>); the subprocess runners, the creation
  of TUN devices and sockets; the tests, and the mutators of
  \<open>crypto/fake.rs\<close> that are compiled only for them.
\<close>

section \<open>Separation of the wire formats\<close>

lemma common_header_kind:
  assumes "common_header v k f l @ xs = common_header v' k' f' l' @ ys"
  shows "v = v' \<and> k = k'"
  using assms common_header_read(2,3) [of v k f l xs] common_header_read(2,3) [of v' k' f' l' ys]
  by simp

lemma data_wire_header:
  assumes "data_receive mtu bs = Some m"
  shows "\<exists>l rest. bs = common_header 2 1 0 l @ rest"
  using assms data_wire_eq [of m] by (auto simp: data_receive_iff data_message_ok_def)

text \<open>C40. The three frame formats that share one UDP port cannot be confused: a datagram accepted as
  an encrypted data frame is accepted neither as a version 1 frame nor as a version 2 handshake
  frame, and no datagram is both of these, whatever the limits of the codecs.\<close>

theorem frame_formats_disjoint:
  "(data_receive mtu datagram = None \<or>
      v1_receive c1 datagram = None \<and> v2_receive c2 datagram = None) \<and>
   (v1_receive c1 datagram = None \<or> v2_receive c2 datagram = None)"
proof -
  have v1: "\<exists>l rest. datagram = common_header 1 1 0 l @ rest" if "v1_receive c1 datagram = Some p" for p
    using that by (auto simp: v1_receive_iff v1_wire_def)
  have v2: "\<exists>k l rest. datagram = common_header 2 k 0 l @ rest \<and> k \<noteq> 1"
    if "v2_receive c2 datagram = Some f" for f
    using that by (cases f) (auto simp: v2_receive_iff v2_frame_wire_def v2_wire_def frame_message_type_def)
  show ?thesis
    using v1 v2 data_wire_header [of mtu datagram] common_header_kind
    by (cases "data_receive mtu datagram"; cases "v1_receive c1 datagram"; cases "v2_receive c2 datagram")
      fastforce+
qed

end
